(* ===== verification/Prelude.thy ===== *)
theory Prelude
  imports Main "HOL-Library.AList" "HOL-Library.Char_ord" "HOL-Library.List_Lexorder"
begin

text \<open>
  Shared vocabulary of the development: the JavaScript notions every component uses
  (thrown errors as values, \<^verbatim>\<open>Map\<close> objects as insertion-ordered association lists,
  the truncating remainder, template strings and number printing), the collections of
  simplification rules, the generic list lemmas, and the interface of a keyed store with
  its interpretation on the model of \<^verbatim>\<open>Map\<close>.
\<close>

named_theorems js_simps \<open>unfolding of the small JavaScript helpers\<close>
named_theorems guard_simps \<open>unfolding of the guards of the operations\<close>

section \<open>Errors as values\<close>

text \<open>The constructors of the errors the code throws, with their messages.\<close>

datatype js_error = TypeError string | RangeError string | JsError string

type_synonym 'a js_result = "js_error + 'a"

fun bind_result :: "'e + 'a \<Rightarrow> ('a \<Rightarrow> 'e + 'b) \<Rightarrow> 'e + 'b" where
  "bind_result (Inl e) f = Inl e"
| "bind_result (Inr x) f = f x"

lemma bind_result_Inr_iff:
  "bind_result r f = Inr y \<longleftrightarrow> (\<exists>x. r = Inr x \<and> f x = Inr y)"
  by (cases r) auto

lemma bind_result_Inl_iff:
  "bind_result r f = Inl e \<longleftrightarrow> r = Inl e \<or> (\<exists>x. r = Inr x \<and> f x = Inl e)"
  by (cases r) auto

text \<open>
  What one call sees of the world: the clock (\<^verbatim>\<open>Date.now()\<close> and
  \<^verbatim>\<open>new Date().toISOString()\<close>) and whether a file can be written.
\<close>

record env =
  nowMs :: int
  nowIso :: string
  diskOk :: "string \<Rightarrow> bool"

section \<open>Strings and numbers\<close>

type_synonym hashfn = "string \<Rightarrow> string"

text \<open>White space as \<^verbatim>\<open>String.prototype.trim\<close> removes it, on the Latin-1 characters.\<close>

definition js_space :: "char \<Rightarrow> bool" where
  "js_space c \<longleftrightarrow> of_char c \<in> ({9, 10, 11, 12, 13, 32, 160} :: nat set)"

definition js_trim :: "string \<Rightarrow> string" where
  "js_trim s = rev (dropWhile js_space (rev (dropWhile js_space s)))"

text \<open>\<^verbatim>\<open>a % b\<close>: the sign follows the dividend.\<close>

definition js_rem :: "int \<Rightarrow> int \<Rightarrow> int" where
  "js_rem a b = sgn a * (\<bar>a\<bar> mod \<bar>b\<bar>)"

lemma js_rem_nonneg [simp]: "0 \<le> a \<Longrightarrow> 0 < b \<Longrightarrow> js_rem a b = a mod b"
  by (cases "a = 0") (auto simp: js_rem_def)

fun digit :: "nat \<Rightarrow> char" where
  "digit n = char_of (48 + n)"

fun show_nat :: "nat \<Rightarrow> string" where
  "show_nat n = (if n < 10 then [digit n] else show_nat (n div 10) @ [digit (n mod 10)])"

declare show_nat.simps [simp del]

definition show_int :: "int \<Rightarrow> string" where
  "show_int i = (if i < 0 then CHR ''-'' # show_nat (nat (- i)) else show_nat (nat i))"

fun join_with :: "string \<Rightarrow> string list \<Rightarrow> string" where
  "join_with sep [] = []"
| "join_with sep [x] = x"
| "join_with sep (x # y # r) = x @ sep @ join_with sep (y # r)"

definition hex_digit_ci :: "char \<Rightarrow> bool" where
  "hex_digit_ci c \<longleftrightarrow> c \<in> set ''0123456789abcdefABCDEF''"

lemma not_hex_bar [simp]: "\<not> hex_digit_ci CHR ''|''"
  by (simp add: hex_digit_ci_def)

lemma all_hex_no_bar: "list_all hex_digit_ci s \<Longrightarrow> CHR ''|'' \<notin> set s"
  by (auto simp: list_all_iff)

definition hex_byte_value :: "char \<Rightarrow> nat" where
  "hex_byte_value c = (let n = of_char c :: nat in if n < 58 then n - 48 else if n < 71 then n - 55 else n - 87)"

fun hex_bytes :: "string \<Rightarrow> nat list" where
  "hex_bytes (a # b # r) = (16 * hex_byte_value a + hex_byte_value b) # hex_bytes r"
| "hex_bytes _ = []"

fun split_at_char :: "char \<Rightarrow> string \<Rightarrow> string list" where
  "split_at_char c [] = [[]]"
| "split_at_char c (x # xs) =
     (if x = c then [] # split_at_char c xs
      else (case split_at_char c xs of [] \<Rightarrow> [[x]] | y # ys \<Rightarrow> (x # y) # ys))"

section \<open>Cutting strings at a separator\<close>

lemma split_at_separator:
  assumes "c \<notin> set a" "c \<notin> set a'" "a @ c # b = a' @ c # b'"
  shows "a = a' \<and> b = b'"
  using assms by (induction a arbitrary: a') (auto simp: Cons_eq_append_conv append_eq_Cons_conv)

lemma split_at_length:
  assumes "length a = length a'" "a @ b = a' @ b'"
  shows "a = a' \<and> b = b'"
  using assms by simp

section \<open>Maps of the language\<close>

text \<open>
  A \<^verbatim>\<open>Map\<close> (or a \<^verbatim>\<open>Set\<close>) iterates in insertion order and \<^verbatim>\<open>set\<close> of a present key keeps
  its place: \<^verbatim>\<open>AList.update\<close> does the same.
\<close>

type_synonym ('k, 'v) jsmap = "('k \<times> 'v) list"

abbreviation js_get :: "('k, 'v) jsmap \<Rightarrow> 'k \<Rightarrow> 'v option" where
  "js_get m k \<equiv> map_of m k"

abbreviation js_set :: "'k \<Rightarrow> 'v \<Rightarrow> ('k, 'v) jsmap \<Rightarrow> ('k, 'v) jsmap" where
  "js_set k v m \<equiv> AList.update k v m"

abbreviation js_delete :: "'k \<Rightarrow> ('k, 'v) jsmap \<Rightarrow> ('k, 'v) jsmap" where
  "js_delete k m \<equiv> AList.delete k m"

abbreviation js_keys :: "('k, 'v) jsmap \<Rightarrow> 'k list" where
  "js_keys m \<equiv> map fst m"

abbreviation js_has :: "('k, 'v) jsmap \<Rightarrow> 'k \<Rightarrow> bool" where
  "js_has m k \<equiv> map_of m k \<noteq> None"

abbreviation js_map_ok :: "('k, 'v) jsmap \<Rightarrow> bool" where
  "js_map_ok m \<equiv> distinct (map fst m)"

lemma js_map_ok_set: "js_map_ok m \<Longrightarrow> js_map_ok (js_set k v m)"
  by (rule distinct_update)

lemma js_map_ok_delete: "js_map_ok m \<Longrightarrow> js_map_ok (js_delete k m)"
  by (rule distinct_delete)

lemma js_get_set: "js_get (js_set k v m) k' = (if k' = k then Some v else js_get m k')"
  by (simp add: update_conv')

lemma js_get_delete: "js_get (js_delete k m) k' = (if k' = k then None else js_get m k')"
  by (simp add: delete_conv')

lemma length_js_set:
  "length (js_set k v m) = (if k \<in> set (js_keys m) then length m else Suc (length m))"
  by (induction m) auto

lemma in_set_js_set: "p \<in> set (js_set k v m) \<Longrightarrow> p = (k, v) \<or> p \<in> set m"
  by (induction m) (auto split: if_splits)

lemma keys_js_set: "fst ` set (js_set k v m) = insert k (fst ` set m)"
  by (simp add: dom_update)

lemma length_js_delete_le: "length (js_delete k m) \<le> length m"
  by (simp add: AList.delete_eq)

text \<open>
  The contract of a keyed store, as the components that keep one rely on it: an invariant
  that the empty store has and every write keeps, and the read-after-write law.
\<close>

locale keyed_store =
  fixes invar :: "'s \<Rightarrow> bool"
    and empty_store :: "'s"
    and put :: "'k \<Rightarrow> 'v \<Rightarrow> 's \<Rightarrow> 's"
    and lookup :: "'s \<Rightarrow> 'k \<Rightarrow> 'v option"
  assumes invar_empty: "invar empty_store"
    and invar_put: "invar s \<Longrightarrow> invar (put k v s)"
    and lookup_empty: "lookup empty_store k = None"
    and lookup_put: "invar s \<Longrightarrow> lookup (put k v s) k' = (if k' = k then Some v else lookup s k')"
begin

definition put_all :: "('k \<times> 'v) list \<Rightarrow> 's \<Rightarrow> 's" where
  "put_all ws s = fold (\<lambda>(k, v). put k v) ws s"

lemma invar_put_all: "invar s \<Longrightarrow> invar (put_all ws s)"
  unfolding put_all_def by (induction ws arbitrary: s) (auto simp: invar_put)

lemma put_all_snoc: "put_all (ws @ [(k, v)]) s = put k v (put_all ws s)"
  by (simp add: put_all_def)

text \<open>The last write of a key is the one a read sees.\<close>

lemma lookup_put_all:
  assumes "invar s"
  shows "lookup (put_all ws s) k = (case map_of (rev ws) k of None \<Rightarrow> lookup s k | Some v \<Rightarrow> Some v)"
proof (induction ws rule: rev_induct)
  case Nil
  then show ?case by (simp add: put_all_def)
next
  case (snoc w ws)
  then show ?case
    by (cases w) (simp add: put_all_snoc lookup_put invar_put_all assms)
qed

lemma put_all_from_empty: "lookup (put_all ws empty_store) k = map_of (rev ws) k"
  by (simp add: lookup_put_all invar_empty lookup_empty split: option.splits)

lemma put_overwrites:
  "invar s \<Longrightarrow> lookup (put k v' (put k v s)) = lookup (put k v' s)"
  by (rule ext) (simp add: lookup_put invar_put)

end

interpretation js_map: keyed_store js_map_ok "[]" js_set js_get
  by unfold_locales (auto simp: js_map_ok_set js_get_set)

section \<open>Lists\<close>

lemma find_Some_mem: "find P xs = Some x \<Longrightarrow> x \<in> set xs \<and> P x"
  by (auto simp: find_Some_iff)

end
