(* ===== verification/Json.thy ===== *)
theory Json
  imports Prelude "HOL-Library.Multiset"
begin

text \<open>
  JSON values and their printing: the quoting of strings by \<^verbatim>\<open>JSON.stringify\<close>, the compact
  printing of \<^verbatim>\<open>JSON.stringify\<close> (members in insertion order) and the canonical printing of
  \<^verbatim>\<open>stableStringify\<close> in \<^verbatim>\<open>services/merkle/sha256.ts\<close> (members in key order), on which every
  hash and every signed message of the system rests. Numbers are the integers.
\<close>

datatype jsval =
    JUndefined
  | JNull
  | JBool bool
  | JNum int
  | JStr string
  | JArr "jsval list"
  | JObj "(string \<times> jsval) list"

section \<open>Quoting\<close>

definition hex_lower :: "nat \<Rightarrow> char" where
  "hex_lower n = (if n < 10 then char_of (48 + n) else char_of (87 + n))"

text \<open>The escapes of \<^verbatim>\<open>JSON.stringify\<close> on a character below 256.\<close>

definition quote_char :: "char \<Rightarrow> string" where
  "quote_char c =
     (let n = of_char c :: nat in
      if n = 34 then [char_of (92::nat), c]
      else if n = 92 then [char_of (92::nat), c]
      else if n = 8 then [char_of (92::nat), CHR ''b'']
      else if n = 9 then [char_of (92::nat), CHR ''t'']
      else if n = 10 then [char_of (92::nat), CHR ''n'']
      else if n = 12 then [char_of (92::nat), CHR ''f'']
      else if n = 13 then [char_of (92::nat), CHR ''r'']
      else if n < 32 then [char_of (92::nat), CHR ''u'', CHR ''0'', CHR ''0'', hex_lower (n div 16), hex_lower (n mod 16)]
      else [c])"

definition dquote :: char where
  "dquote = char_of (34::nat)"

definition js_quote :: "string \<Rightarrow> string" where
  "js_quote s = dquote # concat (map quote_char s) @ [dquote]"

section \<open>Printing\<close>

fun json_stringify :: "jsval \<Rightarrow> string" where
  "json_stringify JUndefined = ''undefined''"
| "json_stringify JNull = ''null''"
| "json_stringify (JBool b) = (if b then ''true'' else ''false'')"
| "json_stringify (JNum i) = show_int i"
| "json_stringify (JStr s) = js_quote s"
| "json_stringify (JArr vs) =
     ''['' @ join_with '','' (map (\<lambda>v. if v = JUndefined then ''null'' else json_stringify v) vs) @ '']''"
| "json_stringify (JObj ms) =
     ''{'' @ join_with '',''
       (map (\<lambda>(k, v). js_quote k @ '':'' @ json_stringify v) (filter (\<lambda>(k, v). v \<noteq> JUndefined) ms)) @ ''}''"

fun stableStringify :: "jsval \<Rightarrow> string" where
  "stableStringify JUndefined = ''undefined''"
| "stableStringify JNull = ''null''"
| "stableStringify (JBool b) = (if b then ''true'' else ''false'')"
| "stableStringify (JNum i) = show_int i"
| "stableStringify (JStr s) = js_quote s"
| "stableStringify (JArr vs) = ''['' @ join_with '','' (map stableStringify vs) @ '']''"
| "stableStringify (JObj ms) =
     ''{'' @ join_with '',''
       (map (\<lambda>(k, s). js_quote k @ '':'' @ s)
         (sort_key fst (map (\<lambda>(k, v). (k, stableStringify v)) ms))) @ ''}''"

definition sha256HexFromJsonStable :: "hashfn \<Rightarrow> jsval \<Rightarrow> string" where
  "sha256HexFromJsonStable h v = h (stableStringify v)"

text \<open>
  The variant three services carry a copy of; it differs from the one above only on
  \<^verbatim>\<open>undefined\<close>, which it quotes.
\<close>

fun canonicalizeJsonStable :: "jsval \<Rightarrow> string" where
  "canonicalizeJsonStable JNull = ''null''"
| "canonicalizeJsonStable (JStr s) = js_quote s"
| "canonicalizeJsonStable (JNum i) = show_int i"
| "canonicalizeJsonStable (JBool b) = (if b then ''true'' else ''false'')"
| "canonicalizeJsonStable (JArr vs) = ''['' @ join_with '','' (map canonicalizeJsonStable vs) @ '']''"
| "canonicalizeJsonStable (JObj ms) =
     ''{'' @ join_with '',''
       (map (\<lambda>(k, s). js_quote k @ '':'' @ s)
         (sort_key fst (map (\<lambda>(k, v). (k, canonicalizeJsonStable v)) ms))) @ ''}''"
| "canonicalizeJsonStable JUndefined = js_quote ''undefined''"

section \<open>Members of an object\<close>

fun member :: "jsval \<Rightarrow> string \<Rightarrow> jsval" where
  "member (JObj ms) k = (case map_of ms k of Some v \<Rightarrow> v | None \<Rightarrow> JUndefined)"
| "member _ k = JUndefined"

fun is_str :: "jsval \<Rightarrow> bool" where
  "is_str (JStr s) = True"
| "is_str _ = False"

fun is_num :: "jsval \<Rightarrow> bool" where
  "is_num (JNum i) = True"
| "is_num _ = False"

fun is_bool :: "jsval \<Rightarrow> bool" where
  "is_bool (JBool b) = True"
| "is_bool _ = False"

fun is_obj :: "jsval \<Rightarrow> bool" where
  "is_obj (JObj ms) = True"
| "is_obj _ = False"

fun is_arr :: "jsval \<Rightarrow> bool" where
  "is_arr (JArr vs) = True"
| "is_arr _ = False"

text \<open>\<^verbatim>\<open>!!v\<close>, and the payload accessors used after a type test.\<close>

fun truthy :: "jsval \<Rightarrow> bool" where
  "truthy JUndefined = False"
| "truthy JNull = False"
| "truthy (JBool b) = b"
| "truthy (JNum i) = (i \<noteq> 0)"
| "truthy (JStr s) = (s \<noteq> '''')"
| "truthy (JArr vs) = True"
| "truthy (JObj ms) = True"

fun the_str :: "jsval \<Rightarrow> string" where
  "the_str (JStr s) = s"
| "the_str _ = ''''"

fun the_num :: "jsval \<Rightarrow> int" where
  "the_num (JNum i) = i"
| "the_num _ = 0"

fun the_arr :: "jsval \<Rightarrow> jsval list" where
  "the_arr (JArr vs) = vs"
| "the_arr _ = []"

text \<open>\<^verbatim>\<open>String(v)\<close> and \<^verbatim>\<open>v ?? d\<close>.\<close>

fun js_String :: "jsval \<Rightarrow> string" where
  "js_String JUndefined = ''undefined''"
| "js_String JNull = ''null''"
| "js_String (JBool b) = (if b then ''true'' else ''false'')"
| "js_String (JNum i) = show_int i"
| "js_String (JStr s) = s"
| "js_String (JArr vs) = join_with '','' (map (\<lambda>v. if v = JUndefined \<or> v = JNull then '''' else js_String v) vs)"
| "js_String (JObj ms) = ''[object Object]''"

definition nullish_or :: "jsval \<Rightarrow> jsval \<Rightarrow> jsval" where
  "nullish_or v dflt = (if v = JUndefined \<or> v = JNull then dflt else v)"

lemma is_str_iff: "is_str v \<longleftrightarrow> (\<exists>s. v = JStr s)"
  by (cases v) auto

lemma is_num_iff: "is_num v \<longleftrightarrow> (\<exists>i. v = JNum i)"
  by (cases v) auto

lemma is_arr_iff: "is_arr v \<longleftrightarrow> (\<exists>vs. v = JArr vs)"
  by (cases v) auto

lemma is_obj_iff: "is_obj v \<longleftrightarrow> (\<exists>ms. v = JObj ms)"
  by (cases v) auto

section \<open>Quoted strings can be read back\<close>

lemma quote_char_nonempty [simp]: "quote_char c \<noteq> []"
  by (simp add: quote_char_def Let_def)

text \<open>The reading of one quoted character; only the proofs use it.\<close>

definition hex_value :: "char \<Rightarrow> nat" where
  "hex_value c = (let n = of_char c :: nat in if n < 58 then n - 48 else n - 87)"

fun unquote_char :: "string \<Rightarrow> (char \<times> string) option" where
  "unquote_char [] = None"
| "unquote_char (c # r) =
     (if c \<noteq> char_of (92::nat) then Some (c, r)
      else (case r of
              [] \<Rightarrow> None
            | e # r' \<Rightarrow>
                (if e = CHR ''b'' then Some (char_of (8::nat), r')
                 else if e = CHR ''t'' then Some (char_of (9::nat), r')
                 else if e = CHR ''n'' then Some (char_of (10::nat), r')
                 else if e = CHR ''f'' then Some (char_of (12::nat), r')
                 else if e = CHR ''r'' then Some (char_of (13::nat), r')
                 else if e = CHR ''u'' then
                   Some (char_of (16 * hex_value (r' ! 2) + hex_value (r' ! 3)), drop 4 r')
                 else Some (e, r'))))"

lemma hex_value_lower: "n < 16 \<Longrightarrow> hex_value (hex_lower n) = n"
  by (simp add: hex_value_def hex_lower_def Let_def)

lemma char_eq_code: "(c = d) = ((of_char c :: nat) = of_char d)"
  by (metis char_of_char)

lemma unquote_quote_char: "unquote_char (quote_char c @ r) = Some (c, r)"
proof -
  obtain n :: nat where n: "c = char_of n" "n < 256"
    by (metis char_of_char of_char_of nat_of_char_less_256)
  then have code: "of_char c = n" by simp
  have hex: "16 * (n div 16) + n mod 16 = n" by simp
  show ?thesis
    using n code
    by (auto simp: quote_char_def Let_def char_eq_code hex_value_lower hex)
qed

lemma quote_char_not_dquote: "hd (quote_char c) \<noteq> dquote"
  by (auto simp: quote_char_def dquote_def Let_def char_eq_code)

lemma quoted_body_inj:
  "concat (map quote_char s) @ dquote # x = concat (map quote_char t) @ dquote # y \<Longrightarrow> s = t \<and> x = y"
proof (induction s arbitrary: t)
  case Nil
  show ?case
  proof (cases t)
    case (Cons d t')
    then have "hd (quote_char d) = dquote"
      using Nil by (cases "quote_char d") auto
    then show ?thesis by (simp add: quote_char_not_dquote)
  qed (use Nil in simp)
next
  case (Cons c s)
  show ?case
  proof (cases t)
    case Nil
    then have "hd (quote_char c) = dquote"
      using Cons.prems by (cases "quote_char c") auto
    then show ?thesis by (simp add: quote_char_not_dquote)
  next
    case (Cons d t')
    then have "unquote_char (quote_char c @ (concat (map quote_char s) @ dquote # x)) =
               unquote_char (quote_char d @ (concat (map quote_char t') @ dquote # y))"
      using Cons.prems by simp
    then show ?thesis
      using Cons.IH Cons by (simp add: unquote_quote_char)
  qed
qed

text \<open>A quoted string is never a proper prefix of another: what follows it is determined.\<close>

lemma js_quote_prefix_free:
  "js_quote s @ x = js_quote t @ y \<longleftrightarrow> s = t \<and> x = y"
  using quoted_body_inj [of s x t y] by (auto simp: js_quote_def)

lemma js_quote_inj [simp]: "js_quote s = js_quote t \<longleftrightarrow> s = t"
  using js_quote_prefix_free [of s "[]" t "[]"] by simp

section \<open>Canonical printing\<close>

lemma sort_members_perm:
  assumes "distinct (map fst ms)" "mset ms = mset ms'"
  shows "sort_key fst ms = sort_key fst ms'"
proof (rule sort_key_inj_key_eq)
  show "mset ms = mset (sort_key fst ms')" using assms(2) by simp
  show "inj_on fst (set ms)" using assms(1) by (simp add: distinct_map)
qed simp

text \<open>The order in which an object's members were written does not change its canonical text.\<close>

lemma stableStringify_member_order:
  assumes "distinct (map fst ms)" "mset ms = mset ms'"
  shows "stableStringify (JObj ms) = stableStringify (JObj ms')"
proof -
  let ?p = "\<lambda>(k, v). (k, stableStringify v)"
  have "map fst (map ?p ms) = map fst ms" by (induction ms) auto
  then have "distinct (map fst (map ?p ms))" using assms(1) by (simp only:)
  moreover have "mset (map ?p ms) = mset (map ?p ms')" using assms(2) by (simp only: mset_map)
  ultimately have "sort_key fst (map ?p ms) = sort_key fst (map ?p ms')" by (rule sort_members_perm)
  then show ?thesis by simp
qed

end
