(* ===== verification/Merkle.thy ===== *)
theory Merkle
  imports Json
begin

text \<open>
  The Merkle tree of \<^verbatim>\<open>services/merkle/MerkleTree.ts\<close>: construction by layers with the last node
  of an odd layer paired with itself, inclusion proofs, and the recomputation of a root from a
  proof. The hash function (SHA-256 in hexadecimal) is a parameter \<open>h\<close>.
\<close>

section \<open>Construction\<close>

record merkle_tree =
  mt_leaves :: "string list"
  mt_layers :: "string list list"

record merkle_proof =
  mp_siblings :: "string list"
  mp_leafIndex :: int
  mp_leafCount :: nat

definition node_text :: "string \<Rightarrow> string \<Rightarrow> string" where
  "node_text left right = ''MERKLE_NODE|'' @ left @ ''|'' @ right"

fun next_layer :: "hashfn \<Rightarrow> string list \<Rightarrow> string list" where
  "next_layer h [] = []"
| "next_layer h [x] = [h (node_text x x)]"
| "next_layer h (x # y # r) = h (node_text x y) # next_layer h r"

lemma length_next_layer [simp]: "length (next_layer h xs) = (length xs + 1) div 2"
  by (induction h xs rule: next_layer.induct) auto

function build_layers :: "hashfn \<Rightarrow> string list \<Rightarrow> string list list" where
  "build_layers h prev = prev # (if 1 < length prev then build_layers h (next_layer h prev) else [])"
  by pat_completeness auto
termination
  by (relation "measure (\<lambda>(h, xs). length xs)") auto

declare build_layers.simps [simp del]

definition newMerkleTree :: "hashfn \<Rightarrow> string list \<Rightarrow> merkle_tree" where
  "newMerkleTree h leaves =
     (if leaves = [] then \<lparr>mt_leaves = leaves, mt_layers = [[h '''']]\<rparr>
      else \<lparr>mt_leaves = leaves, mt_layers = build_layers h leaves\<rparr>)"

definition getLeafCount :: "merkle_tree \<Rightarrow> nat" where
  "getLeafCount t = length (mt_leaves t)"

definition getRoot :: "merkle_tree \<Rightarrow> string" where
  "getRoot t = hd (last (mt_layers t))"

section \<open>Proofs\<close>

text \<open>The loop over the levels below the root; \<open>layer[siblingIdx] ?? layer[idx]\<close>.\<close>

definition sibling_at :: "string list \<Rightarrow> nat \<Rightarrow> string" where
  "sibling_at layer idx =
     (let s = (if idx mod 2 = 1 then idx - 1 else idx + 1)
      in if s < length layer then layer ! s else layer ! idx)"

fun proof_siblings :: "string list list \<Rightarrow> nat \<Rightarrow> string list" where
  "proof_siblings [] idx = []"
| "proof_siblings [layer] idx = []"
| "proof_siblings (layer # up # rest) idx =
     sibling_at layer idx # proof_siblings (up # rest) (idx div 2)"

definition getProof :: "merkle_tree \<Rightarrow> int \<Rightarrow> merkle_proof js_result" where
  "getProof t leafIndex =
     (if leafIndex < 0 \<or> leafIndex \<ge> int (length (mt_leaves t))
      then Inl (RangeError ''Invalid leafIndex for Merkle proof'')
      else Inr \<lparr>mp_siblings = proof_siblings (mt_layers t) (nat leafIndex),
                mp_leafIndex = leafIndex,
                mp_leafCount = length (mt_leaves t)\<rparr>)"

fun verify_siblings :: "hashfn \<Rightarrow> string list \<Rightarrow> int \<Rightarrow> string \<Rightarrow> string" where
  "verify_siblings h [] idx hash = hash"
| "verify_siblings h (sib # r) idx hash =
     verify_siblings h r (idx div 2)
       (h (if js_rem idx 2 = 1 then node_text sib hash else node_text hash sib))"

definition verifyProof :: "hashfn \<Rightarrow> string \<Rightarrow> merkle_proof \<Rightarrow> string" where
  "verifyProof h leafHash prf = verify_siblings h (mp_siblings prf) (mp_leafIndex prf) leafHash"

section \<open>Completeness of the proofs\<close>

lemma next_layer_nth:
  assumes "i < length xs"
  shows "next_layer h xs ! (i div 2) =
           h (if i mod 2 = 1 then node_text (sibling_at xs i) (xs ! i) else node_text (xs ! i) (sibling_at xs i))"
  using assms
proof (induction h xs arbitrary: i rule: next_layer.induct)
  case (3 h x y r)
  show ?case
  proof (cases "i < 2")
    case True
    then have "i = 0 \<or> i = 1" by auto
    then show ?thesis by (auto simp: sibling_at_def)
  next
    case False
    then obtain j where j: "i = j + 2" using le_Suc_ex [of 2 i] by (metis add.commute not_less)
    then have "j < length r" using 3 by simp
    moreover have "sibling_at (x # y # r) i = sibling_at r j"
      unfolding j sibling_at_def Let_def by (auto simp: nth_Cons' mod_Suc)
    ultimately show ?thesis using 3(1) [of j] j by simp
  qed
qed (auto simp: sibling_at_def)

lemma build_layers_not_Nil [simp]: "build_layers h xs \<noteq> []"
  by (simp add: build_layers.simps)

lemma build_layers_Cons:
  "1 < length xs \<Longrightarrow> build_layers h xs = xs # build_layers h (next_layer h xs)"
  by (subst build_layers.simps) simp

lemma build_layers_base: "length xs \<le> 1 \<Longrightarrow> build_layers h xs = [xs]"
  by (subst build_layers.simps) simp

lemma last_build_layers:
  "1 < length xs \<Longrightarrow> last (build_layers h xs) = last (build_layers h (next_layer h xs))"
  by (simp add: build_layers_Cons)

lemma proof_siblings_step:
  "1 < length xs \<Longrightarrow> proof_siblings (build_layers h xs) i =
     sibling_at xs i # proof_siblings (build_layers h (next_layer h xs)) (i div 2)"
  by (subst build_layers_Cons, simp) (cases "build_layers h (next_layer h xs)"; simp)

lemma verify_siblings_of_proof:
  assumes "i < length xs"
  shows "verify_siblings h (proof_siblings (build_layers h xs) i) (int i) (xs ! i) = hd (last (build_layers h xs))"
  using assms
proof (induction h xs arbitrary: i rule: build_layers.induct)
  case (1 h prev)
  show ?case
  proof (cases "1 < length prev")
    case True
    have "i div 2 < length (next_layer h prev)" using "1.prems" by simp
    moreover have "js_rem (int i) 2 = 1 \<longleftrightarrow> i mod 2 = 1" by simp presburger
    ultimately show ?thesis
      using "1.IH" [OF True, of "i div 2"] True next_layer_nth [OF "1.prems", of h]
      by (simp add: proof_siblings_step last_build_layers zdiv_int del: js_rem_nonneg)
  next
    case False
    with "1.prems" have "length prev = 1" by (cases prev) auto
    with "1.prems" show ?thesis by (cases prev) (auto simp: build_layers_base)
  qed
qed

lemma getRoot_newMerkleTree:
  "leaves \<noteq> [] \<Longrightarrow> getRoot (newMerkleTree h leaves) = hd (last (build_layers h leaves))"
  by (simp add: getRoot_def newMerkleTree_def)

lemma mt_leaves_new [simp]: "mt_leaves (newMerkleTree h leaves) = leaves"
  by (simp add: newMerkleTree_def)

lemma getLeafCount_new [simp]: "getLeafCount (newMerkleTree h leaves) = length leaves"
  by (simp add: getLeafCount_def)

lemma getProof_Inr_iff:
  "getProof (newMerkleTree h leaves) i = Inr p \<longleftrightarrow>
     0 \<le> i \<and> i < int (length leaves) \<and>
     p = \<lparr>mp_siblings = proof_siblings (build_layers h leaves) (nat i), mp_leafIndex = i, mp_leafCount = length leaves\<rparr>"
  by (cases "leaves = []") (auto simp: getProof_def newMerkleTree_def)

lemma verifyProof_getProof:
  assumes "getProof (newMerkleTree h leaves) i = Inr p"
  shows "verifyProof h (leaves ! nat i) p = getRoot (newMerkleTree h leaves)"
proof -
  have i: "0 \<le> i" "nat i < length leaves" using assms by (auto simp: getProof_Inr_iff)
  then have "verify_siblings h (proof_siblings (build_layers h leaves) (nat i)) i (leaves ! nat i) =
             hd (last (build_layers h leaves))"
    using verify_siblings_of_proof [of "nat i" leaves h] by simp
  moreover have "leaves \<noteq> []" using i by auto
  ultimately show ?thesis
    using assms by (simp add: getProof_Inr_iff verifyProof_def getRoot_newMerkleTree)
qed

section \<open>Binding\<close>

text \<open>
  The strings a computation hashes. Collision freeness of the hash is only ever assumed on
  these finitely many strings.
\<close>

fun next_texts :: "string list \<Rightarrow> string list" where
  "next_texts [] = []"
| "next_texts [x] = [node_text x x]"
| "next_texts (x # y # r) = node_text x y # next_texts r"

lemma next_layer_texts: "next_layer h xs = map h (next_texts xs)"
  by (induction xs rule: next_texts.induct) auto

function tree_texts :: "hashfn \<Rightarrow> string list \<Rightarrow> string list" where
  "tree_texts h xs = (if 1 < length xs then next_texts xs @ tree_texts h (next_layer h xs) else [])"
  by pat_completeness auto
termination
  by (relation "measure (\<lambda>(h, xs). length xs)") auto

declare tree_texts.simps [simp del]

fun verify_texts :: "hashfn \<Rightarrow> string list \<Rightarrow> int \<Rightarrow> string \<Rightarrow> string list" where
  "verify_texts h [] idx hash = []"
| "verify_texts h (sib # r) idx hash =
     (let t = (if js_rem idx 2 = 1 then node_text sib hash else node_text hash sib)
      in t # verify_texts h r (idx div 2) (h t))"

definition no_bar :: "string \<Rightarrow> bool" where
  "no_bar s \<longleftrightarrow> CHR ''|'' \<notin> set s"

lemma node_text_inj:
  assumes "no_bar a" "no_bar a'" "node_text a b = node_text a' b'"
  shows "a = a' \<and> b = b'"
  using assms split_at_separator [of "CHR ''|''" a a' b b'] by (simp add: node_text_def no_bar_def)

lemma next_texts_inj:
  assumes "length xs = length ys" "list_all no_bar xs" "list_all no_bar ys" "next_texts xs = next_texts ys"
  shows "xs = ys"
  using assms
proof (induction xs arbitrary: ys rule: next_texts.induct)
  case (2 x)
  then obtain y where "ys = [y]" by (cases ys) auto
  with 2 show ?case using node_text_inj [of x y x y] by simp
next
  case (3 x x' r)
  then obtain y y' s where ys: "ys = y # y' # s"
    by (cases ys rule: next_texts.cases) simp_all
  then have "x = y \<and> x' = y'" using 3 by (intro node_text_inj) simp_all
  moreover have "r = s" using 3 ys by (intro "3.IH") simp_all
  ultimately show ?case using ys by simp
qed simp

lemma last_layers_inj:
  assumes "length xs = length ys" "list_all no_bar xs" "list_all no_bar ys" "\<forall>s. no_bar (h s)"
    and "inj_on h (set (tree_texts h xs) \<union> set (tree_texts h ys))"
    and "hd (last (build_layers h xs)) = hd (last (build_layers h ys))"
  shows "xs = ys"
  using assms
proof (induction h xs arbitrary: ys rule: build_layers.induct)
  case (1 h xs)
  show ?case
  proof (cases "1 < length xs")
    case True
    then have longer: "1 < length ys" using "1.prems" by simp
    have texts: "tree_texts h xs = next_texts xs @ tree_texts h (next_layer h xs)"
      "tree_texts h ys = next_texts ys @ tree_texts h (next_layer h ys)"
      using True longer by (simp_all add: tree_texts.simps [of h xs] tree_texts.simps [of h ys])
    have "next_layer h xs = next_layer h ys"
    proof (rule "1.IH" [OF True])
      show "list_all no_bar (next_layer h xs)" "list_all no_bar (next_layer h ys)"
        using "1.prems"(4) by (simp_all add: next_layer_texts list_all_iff)
      show "inj_on h (set (tree_texts h (next_layer h xs)) \<union> set (tree_texts h (next_layer h ys)))"
        using "1.prems"(5) by (rule inj_on_subset) (auto simp: texts)
      show "hd (last (build_layers h (next_layer h xs))) = hd (last (build_layers h (next_layer h ys)))"
        using "1.prems"(6) True longer by (simp add: last_build_layers)
    qed (use "1.prems" in simp_all)
    moreover have "inj_on h (set (next_texts xs) \<union> set (next_texts ys))"
      using "1.prems"(5) texts by (auto intro: inj_on_subset)
    ultimately have "next_texts xs = next_texts ys"
      using inj_on_map_eq_map by (fastforce simp: next_layer_texts)
    then show ?thesis using "1.prems" next_texts_inj by blast
  next
    case False
    with "1.prems" show ?thesis by (cases xs; cases ys) (auto simp: build_layers_base)
  qed
qed

lemma getRoot_inj:
  assumes "length xs = length ys" "list_all no_bar xs" "list_all no_bar ys" "\<forall>s. no_bar (h s)"
    and "inj_on h (set (tree_texts h xs) \<union> set (tree_texts h ys))"
    and "getRoot (newMerkleTree h xs) = getRoot (newMerkleTree h ys)"
  shows "xs = ys"
proof (cases "xs = []")
  case False
  then have "ys \<noteq> []" using assms(1) by auto
  then show ?thesis
    using assms False by (intro last_layers_inj [of xs ys h]) (simp_all add: getRoot_newMerkleTree)
qed (use assms(1) in simp)

lemma verify_siblings_binding:
  assumes "length sibs = length sibs'" "no_bar l" "no_bar l'" "list_all no_bar sibs" "list_all no_bar sibs'"
    and "\<forall>s. no_bar (h s)"
    and "inj_on h (set (verify_texts h sibs idx l) \<union> set (verify_texts h sibs' idx l'))"
    and "verify_siblings h sibs idx l = verify_siblings h sibs' idx l'"
  shows "l = l' \<and> sibs = sibs'"
  using assms
proof (induction sibs sibs' arbitrary: l l' idx rule: list_induct2)
  case (Cons a as b bs)
  define t where "t = (if js_rem idx 2 = 1 then node_text a l else node_text l a)"
  define t' where "t' = (if js_rem idx 2 = 1 then node_text b l' else node_text l' b)"
  have "h t = h t' \<and> as = bs"
    using Cons.prems by (intro Cons.IH [of _ _ "idx div 2"])
      (auto simp: t_def t'_def Let_def intro: inj_on_subset)
  moreover have "t \<in> set (verify_texts h (a # as) idx l)" "t' \<in> set (verify_texts h (b # bs) idx l')"
    by (simp_all add: t_def t'_def Let_def)
  ultimately have "t = t'" "as = bs"
    using inj_onD [OF Cons.prems(6)] by blast+
  then show ?case
    using Cons.prems by (auto simp: t_def t'_def dest: node_text_inj split: if_splits)
qed simp

section \<open>The duplicated last node\<close>

text \<open>Pairing the last node with itself makes the root blind to a repeated last leaf.\<close>

lemma next_layer_duplicate_last:
  "odd (length xs) \<Longrightarrow> next_layer h (xs @ [last xs]) = next_layer h xs"
  by (induction h xs rule: next_layer.induct) auto

lemma getRoot_duplicate_last:
  assumes "odd (length xs)" "1 < length xs"
  shows "getRoot (newMerkleTree h (xs @ [last xs])) = getRoot (newMerkleTree h xs)"
proof -
  have "last (build_layers h (xs @ [last xs])) = last (build_layers h (next_layer h (xs @ [last xs])))"
    by (rule last_build_layers) (use assms in \<open>cases xs; simp\<close>)
  also have "\<dots> = last (build_layers h xs)"
    using assms by (simp add: next_layer_duplicate_last last_build_layers [of xs])
  finally have "last (build_layers h (xs @ [last xs])) = last (build_layers h xs)" .
  moreover have "xs \<noteq> []" using assms(2) by (cases xs) simp_all
  ultimately show ?thesis by (simp add: getRoot_newMerkleTree)
qed

section \<open>The inclusion-proof interface\<close>

text \<open>
  What the ledger code relies on: committing to a list of leaves, opening one position, and
  checking an opening against the commitment.
\<close>

locale inclusion_scheme =
  fixes commit :: "'l list \<Rightarrow> 'c"
    and open_at :: "'l list \<Rightarrow> nat \<Rightarrow> 'p option"
    and check :: "'c \<Rightarrow> 'l \<Rightarrow> 'p \<Rightarrow> bool"
  assumes open_some: "i < length ls \<Longrightarrow> open_at ls i \<noteq> None"
    and check_open: "open_at ls i = Some p \<Longrightarrow> i < length ls \<and> check (commit ls) (ls ! i) p"
begin

text \<open>
  A table of openings indexed by a key of each record, filled in the order of the records:
  when keys are distinct every record finds its own opening, and it checks.
\<close>

definition fill :: "('r \<Rightarrow> 'k) \<Rightarrow> ('r \<Rightarrow> 'l) \<Rightarrow> 'r list \<Rightarrow> ('k, 'l \<times> 'p) jsmap" where
  "fill key leaf rs =
     fold (\<lambda>i m. js_set (key (rs ! i)) (leaf (rs ! i), the (open_at (map leaf rs) i)) m) [0..<length rs] []"

lemma fold_js_set_notin:
  "k \<notin> key ` set is \<Longrightarrow> js_get (fold (\<lambda>i m. js_set (key i) (val i) m) is m) k = js_get m k"
  by (induction "is" arbitrary: m) (auto simp: js_get_set)

lemma fold_js_set_get:
  "distinct (map key is) \<Longrightarrow> i \<in> set is \<Longrightarrow>
   js_get (fold (\<lambda>i m. js_set (key i) (val i) m) is m) (key i) = Some (val i)"
  by (induction "is" arbitrary: m) (auto simp: fold_js_set_notin js_get_set)

lemma fold_js_set_dom:
  "js_get (fold (\<lambda>i m. js_set (key i) (val i) m) is m) k = Some v \<Longrightarrow>
   js_get m k = Some v \<or> (\<exists>i\<in>set is. key i = k \<and> val i = v)"
proof (induction "is" arbitrary: m)
  case (Cons i "is")
  from Cons.IH [of "js_set (key i) (val i) m"] Cons.prems show ?case
    by (auto simp: js_get_set split: if_splits)
qed simp

text \<open>Whatever the keys, an entry of the table is a checked opening of a record with that key.\<close>

lemma fill_sound:
  assumes "js_get (fill key leaf rs) k = Some (l, p)"
  shows "\<exists>i<length rs. key (rs ! i) = k \<and> leaf (rs ! i) = l \<and> open_at (map leaf rs) i = Some p
           \<and> check (commit (map leaf rs)) l p"
proof -
  obtain i where i: "i < length rs" "key (rs ! i) = k" "leaf (rs ! i) = l"
    "the (open_at (map leaf rs) i) = p"
    using fold_js_set_dom [OF assms [unfolded fill_def]] by auto
  moreover have "open_at (map leaf rs) i = Some p"
    using i open_some [of i "map leaf rs"] by auto
  ultimately show ?thesis using check_open [of "map leaf rs" i p] by auto
qed

lemma fill_complete:
  assumes "distinct (map key rs)" "i < length rs"
  shows "\<exists>p. js_get (fill key leaf rs) (key (rs ! i)) = Some (leaf (rs ! i), p)
            \<and> open_at (map leaf rs) i = Some p"
proof -
  have "map (\<lambda>i. key (rs ! i)) [0..<length rs] = map key rs"
    by (rule nth_equalityI) simp_all
  with assms(1) have keys: "distinct (map (\<lambda>i. key (rs ! i)) [0..<length rs])" by (simp only:)
  have "i \<in> set [0..<length rs]" using assms(2) by simp
  from fold_js_set_get [OF keys this, of "\<lambda>i. (leaf (rs ! i), the (open_at (map leaf rs) i))"]
  have "js_get (fill key leaf rs) (key (rs ! i)) = Some (leaf (rs ! i), the (open_at (map leaf rs) i))"
    by (simp only: fill_def)
  moreover obtain p where "open_at (map leaf rs) i = Some p"
    using open_some [of i "map leaf rs"] assms(2) by auto
  ultimately show ?thesis by simp
qed

end

definition merkle_open :: "hashfn \<Rightarrow> string list \<Rightarrow> nat \<Rightarrow> merkle_proof option" where
  "merkle_open h ls i = (case getProof (newMerkleTree h ls) (int i) of Inl e \<Rightarrow> None | Inr p \<Rightarrow> Some p)"

interpretation merkle: inclusion_scheme
  "\<lambda>ls. getRoot (newMerkleTree h ls)" "merkle_open h" "\<lambda>root l p. verifyProof h l p = root" for h
proof (unfold_locales, goal_cases)
  case (1 i ls)
  then show ?case by (auto simp: merkle_open_def getProof_def split: sum.splits)
next
  case (2 ls i p)
  then have p: "getProof (newMerkleTree h ls) (int i) = Inr p"
    by (auto simp: merkle_open_def split: sum.splits)
  then have "i < length ls" by (simp add: getProof_Inr_iff)
  with verifyProof_getProof [OF p] show ?case by simp
qed

section \<open>Properties\<close>

text \<open>
  C23. Every position of a tree has an inclusion proof and no other has: indices outside the leaves are refused
  with a range error, and recomputing a proof from its leaf gives the root.
\<close>

theorem merkle_proofs_complete:
  "(if 0 \<le> i \<and> i < int (length leaves)
    then \<exists>p. getProof (newMerkleTree h leaves) i = Inr p \<and> mp_leafIndex p = i
           \<and> verifyProof h (leaves ! nat i) p = getRoot (newMerkleTree h leaves)
    else getProof (newMerkleTree h leaves) i = Inl (RangeError ''Invalid leafIndex for Merkle proof''))"
proof (cases "0 \<le> i \<and> i < int (length leaves)")
  case True
  then obtain p where p: "getProof (newMerkleTree h leaves) i = Inr p" by (simp add: getProof_def)
  then have "mp_leafIndex p = i" by (simp add: getProof_Inr_iff)
  with p verifyProof_getProof [OF p] True show ?thesis by auto
qed (auto simp: getProof_def)

text \<open>
  C27. A proof opens one leaf only: a second leaf that recomputes to the root through as many siblings at the
  same index is the leaf of the tree, with the same siblings, unless the hash collides on two of the
  texts the two walks hash.
\<close>

theorem merkle_opening_binding:
  assumes "getProof (newMerkleTree h leaves) i = Inr p" "length (mp_siblings q) = length (mp_siblings p)" "mp_leafIndex q = i"
    and "verifyProof h l q = getRoot (newMerkleTree h leaves)"
    and "no_bar l" "list_all no_bar leaves" "list_all no_bar (mp_siblings p)" "list_all no_bar (mp_siblings q)" "\<And>s. no_bar (h s)"
    and "inj_on h (set (verify_texts h (mp_siblings q) i l) \<union> set (verify_texts h (mp_siblings p) i (leaves ! nat i)))"
  shows "l = leaves ! nat i \<and> mp_siblings q = mp_siblings p"
proof -
  have i: "nat i < length leaves" "mp_leafIndex p = i" using assms(1) by (auto simp: getProof_Inr_iff)
  then have "no_bar (leaves ! nat i)" using assms(6) by (auto simp: list_all_iff)
  moreover have "verify_siblings h (mp_siblings q) i l = verify_siblings h (mp_siblings p) i (leaves ! nat i)"
    using verifyProof_getProof [OF assms(1)] assms(3,4) i(2) by (simp add: verifyProof_def)
  ultimately show ?thesis
    using verify_siblings_binding [OF assms(2,5) _ assms(8,7) _ assms(10)] assms(9) by blast
qed

theorem merkle_opening_binding_witness:
  "verifyProof (\<lambda>s. ''h'') ''a'' \<lparr>mp_siblings = [''b''], mp_leafIndex = 0, mp_leafCount = 2\<rparr> = getRoot (newMerkleTree (\<lambda>s. ''h'') [''a'', ''b''])
     \<and> ''a'' = [''a'', ''b''] ! 0"
proof -
  let ?h = "\<lambda>s::string. ''h''"
  let ?p = "\<lparr>mp_siblings = [''b''], mp_leafIndex = 0, mp_leafCount = 2\<rparr>"
  have p: "getProof (newMerkleTree ?h [''a'', ''b'']) 0 = Inr ?p"
    by (simp add: getProof_Inr_iff build_layers.simps sibling_at_def)
  have r: "verifyProof ?h ''a'' ?p = getRoot (newMerkleTree ?h [''a'', ''b''])"
    using verifyProof_getProof [OF p] by simp
  from merkle_opening_binding [OF p _ _ r] r show ?thesis by (simp add: no_bar_def)
qed

text \<open>
  The root does not determine the leaves: repeating the last leaf of a tree with an odd number of at least
  three leaves gives another list of leaves with the same root, under every hash.
\<close>

theorem repeated_leaf_keeps_root:
  assumes "odd (length leaves)" "1 < length leaves"
  shows "getRoot (newMerkleTree h (leaves @ [last leaves])) = getRoot (newMerkleTree h leaves)
       \<and> getLeafCount (newMerkleTree h (leaves @ [last leaves])) = getLeafCount (newMerkleTree h leaves) + 1"
  using getRoot_duplicate_last [OF assms] by simp

theorem repeated_leaf_keeps_root_witness:
  "getRoot (newMerkleTree (\<lambda>s. s) [''a'', ''b'', ''c'', ''c'']) = getRoot (newMerkleTree (\<lambda>s. s) [''a'', ''b'', ''c''])"
  using repeated_leaf_keeps_root [of "[''a'', ''b'', ''c'']" "\<lambda>s. s"] by simp

end
