(* ===== verification/Ledger.thy ===== *)
theory Ledger
  imports Merkle
begin

text \<open>
  The escrow ledger of \<^verbatim>\<open>services/DatabaseService.ts\<close>: the record type, the type guard that reads
  the store file, the initialisation of the file, the upsert by transaction id and the two
  lookups. The file is modelled by what \<^verbatim>\<open>JSON.parse\<close> makes of it.
\<close>

section \<open>Records\<close>

datatype EscrowStatus = LOCKED | RELEASED | FAILED

record EscrowRecord =
  transactionId :: string
  escrowRecordLeafHash :: string
  signature :: string
  status :: EscrowStatus
  validAfterMs :: int
  validUntilMs :: int
  timestamp :: string

fun status_text :: "EscrowStatus \<Rightarrow> string" where
  "status_text LOCKED = ''LOCKED''"
| "status_text RELEASED = ''RELEASED''"
| "status_text FAILED = ''FAILED''"

definition parse_status :: "jsval \<Rightarrow> EscrowStatus option" where
  "parse_status v =
     (if v = JStr ''LOCKED'' then Some LOCKED
      else if v = JStr ''RELEASED'' then Some RELEASED
      else if v = JStr ''FAILED'' then Some FAILED
      else None)"

definition encodeRecord :: "EscrowRecord \<Rightarrow> jsval" where
  "encodeRecord r = JObj
     [(''transactionId'', JStr (transactionId r)),
      (''escrowRecordLeafHash'', JStr (escrowRecordLeafHash r)),
      (''signature'', JStr (signature r)),
      (''status'', JStr (status_text (status r))),
      (''validAfterMs'', JNum (validAfterMs r)),
      (''validUntilMs'', JNum (validUntilMs r)),
      (''timestamp'', JStr (timestamp r))]"

definition decodeRecord :: "jsval \<Rightarrow> EscrowRecord option" where
  "decodeRecord item =
     (case (member item ''transactionId'', member item ''escrowRecordLeafHash'', member item ''signature'',
            parse_status (member item ''status''), member item ''validAfterMs'', member item ''validUntilMs'',
            member item ''timestamp'') of
        (JStr tid, JStr leaf, JStr sig, Some st, JNum va, JNum vu, JStr ts) \<Rightarrow>
          Some \<lparr>transactionId = tid, escrowRecordLeafHash = leaf, signature = sig, status = st,
                validAfterMs = va, validUntilMs = vu, timestamp = ts\<rparr>
      | _ \<Rightarrow> None)"

section \<open>The store file\<close>

datatype json_file = NoFile | EmptyText | Unparsable | Parsed jsval

record db_state =
  storeInitialized :: bool
  storeFile :: json_file

definition ledger_file :: string where
  "ledger_file = ''ledger-store.json''"

text \<open>The first use creates the file, and resets whatever is not a JSON array.\<close>

definition initializeStore :: "env \<Rightarrow> db_state \<Rightarrow> db_state \<times> unit js_result" where
  "initializeStore e d =
     (if storeInitialized d then (d, Inr ())
      else
        let d' = d\<lparr>storeInitialized := True\<rparr>;
            reset = (if diskOk e ledger_file then (d'\<lparr>storeFile := Parsed (JArr [])\<rparr>, Inr ())
                     else (d', Inl (JsError ''write failed'')))
        in (case storeFile d of
              NoFile \<Rightarrow> reset
            | EmptyText \<Rightarrow> reset
            | Unparsable \<Rightarrow> reset
            | Parsed v \<Rightarrow> (if is_arr v then (d', Inr ()) else reset)))"

definition readAllRecordsInternal :: "db_state \<Rightarrow> EscrowRecord list js_result" where
  "readAllRecordsInternal d =
     (case storeFile d of
        NoFile \<Rightarrow> Inl (JsError ''ENOENT'')
      | EmptyText \<Rightarrow> Inr []
      | Unparsable \<Rightarrow> Inl (JsError ''SyntaxError'')
      | Parsed (JArr items) \<Rightarrow> Inr (List.map_filter decodeRecord items)
      | Parsed v \<Rightarrow> Inr [])"

definition getAllRecords :: "env \<Rightarrow> db_state \<Rightarrow> db_state \<times> EscrowRecord list" where
  "getAllRecords e d =
     (case initializeStore e d of
        (d', Inl err) \<Rightarrow> (d', [])
      | (d', Inr u) \<Rightarrow> (d', case readAllRecordsInternal d' of Inl err \<Rightarrow> [] | Inr rs \<Rightarrow> rs))"

definition getRecord :: "env \<Rightarrow> string \<Rightarrow> db_state \<Rightarrow> db_state \<times> EscrowRecord option" where
  "getRecord e tid d =
     (case initializeStore e d of
        (d', Inl err) \<Rightarrow> (d', None)
      | (d', Inr u) \<Rightarrow>
          (d', case readAllRecordsInternal d' of
                 Inl err \<Rightarrow> None
               | Inr rs \<Rightarrow> find (\<lambda>r. transactionId r = tid) rs))"

text \<open>\<^verbatim>\<open>findIndex\<close> and the replacement or the push of the record.\<close>

fun upsert :: "EscrowRecord \<Rightarrow> EscrowRecord list \<Rightarrow> EscrowRecord list" where
  "upsert rec [] = [rec]"
| "upsert rec (r # rs) = (if transactionId r = transactionId rec then rec # rs else r # upsert rec rs)"

text \<open>
  The body of \<^verbatim>\<open>saveRecord\<close> up to the atomic rename: the new store and the list of records the
  checkpoint is computed from, or the error that is rethrown with the old file in place.
\<close>

definition writeRecord :: "env \<Rightarrow> EscrowRecord \<Rightarrow> db_state \<Rightarrow> db_state \<times> EscrowRecord list js_result" where
  "writeRecord e rec d =
     (case initializeStore e d of
        (d', Inl err) \<Rightarrow> (d', Inl err)
      | (d', Inr u) \<Rightarrow>
          (case readAllRecordsInternal d' of
             Inl err \<Rightarrow> (d', Inl err)
           | Inr existing \<Rightarrow>
               let updated = upsert rec existing
               in if diskOk e ledger_file
                  then (d'\<lparr>storeFile := Parsed (JArr (map encodeRecord updated))\<rparr>, Inr updated)
                  else (d', Inl (JsError ''write failed''))))"

section \<open>The file round trip\<close>

lemma parse_status_text [simp]: "parse_status (JStr (status_text s)) = Some s"
  by (cases s) (simp_all add: parse_status_def)

lemma decode_encode [simp]: "decodeRecord (encodeRecord r) = Some r"
  by (simp add: decodeRecord_def encodeRecord_def)

lemma map_filter_decode [simp]: "List.map_filter decodeRecord (map encodeRecord rs) = rs"
  by (induction rs) (simp_all add: List.map_filter_simps)

lemma readAll_written [simp]:
  "storeFile d = Parsed (JArr (map encodeRecord rs)) \<Longrightarrow> readAllRecordsInternal d = Inr rs"
  by (simp add: readAllRecordsInternal_def)

lemma initializeStore_Inr:
  assumes "initializeStore e d = (d', Inr u)"
  shows "storeInitialized d' \<and> (storeInitialized d \<longrightarrow> d' = d)"
  using assms by (auto simp: initializeStore_def Let_def split: if_splits json_file.splits)

lemma initializeStore_ready [simp]: "storeInitialized d \<Longrightarrow> initializeStore e d = (d, Inr ())"
  by (simp add: initializeStore_def)

lemma initializeStore_keeps_array:
  "storeFile d = Parsed (JArr vs) \<Longrightarrow> initializeStore e d = (d\<lparr>storeInitialized := True\<rparr>, Inr ())"
  by (simp add: initializeStore_def)

section \<open>The upsert\<close>

lemma upsert_ids:
  "map transactionId (upsert rec rs) =
     (if transactionId rec \<in> set (map transactionId rs) then map transactionId rs
      else map transactionId rs @ [transactionId rec])"
  by (induction rs) auto

lemma distinct_upsert:
  "distinct (map transactionId rs) \<Longrightarrow> distinct (map transactionId (upsert rec rs))"
  by (simp add: upsert_ids)

lemma find_upsert:
  "find (\<lambda>r. transactionId r = tid) (upsert rec rs) =
     (if tid = transactionId rec then Some rec else find (\<lambda>r. transactionId r = tid) rs)"
  by (induction rs) auto

lemma length_upsert:
  "length (upsert rec rs) = (if transactionId rec \<in> transactionId ` set rs then length rs else Suc (length rs))"
  by (induction rs) auto

lemma upsert_nonempty [simp]: "upsert rec rs \<noteq> []"
  by (cases rs) auto

text \<open>The ledger as a keyed store: the contents of a record under its transaction id.\<close>

type_synonym escrow_body = "string \<times> string \<times> EscrowStatus \<times> int \<times> int \<times> string"

definition body_of :: "EscrowRecord \<Rightarrow> escrow_body" where
  "body_of r = (escrowRecordLeafHash r, signature r, status r, validAfterMs r, validUntilMs r, timestamp r)"

definition with_id :: "string \<Rightarrow> escrow_body \<Rightarrow> EscrowRecord" where
  "with_id tid b =
     (case b of (leaf, sig, st, va, vu, ts) \<Rightarrow>
        \<lparr>transactionId = tid, escrowRecordLeafHash = leaf, signature = sig, status = st,
         validAfterMs = va, validUntilMs = vu, timestamp = ts\<rparr>)"

lemma with_id_simps [simp]: "transactionId (with_id tid b) = tid" "body_of (with_id tid b) = b"
  by (auto simp: with_id_def body_of_def split: prod.splits)

lemma with_id_body [simp]: "with_id (transactionId r) (body_of r) = r"
  by (simp add: with_id_def body_of_def)

definition ledger_put :: "string \<Rightarrow> escrow_body \<Rightarrow> EscrowRecord list \<Rightarrow> EscrowRecord list" where
  "ledger_put tid b rs = upsert (with_id tid b) rs"

definition ledger_lookup :: "EscrowRecord list \<Rightarrow> string \<Rightarrow> escrow_body option" where
  "ledger_lookup rs tid = map_option body_of (find (\<lambda>r. transactionId r = tid) rs)"

interpretation ledger: keyed_store "\<lambda>rs. distinct (map transactionId rs)" "[]" ledger_put ledger_lookup
  by unfold_locales (auto simp: ledger_put_def ledger_lookup_def find_upsert distinct_upsert)

end
