(* ===== verification/LedgerMerkle.thy ===== *)
theory LedgerMerkle
  imports Ledger
begin

text \<open>
  The Merkle view of the ledger: the leaf hash and the proof table of
  \<^verbatim>\<open>services/merkle/ledgerMerkle.ts\<close>, the caching accumulator of
  \<^verbatim>\<open>EnclaveMerkleAccumulator.ts\<close>, and the stateless verifier of \<^verbatim>\<open>ZkInclusionVerifier.ts\<close>.
\<close>

section \<open>Leaves and the proof table\<close>

definition leaf_json :: "EscrowRecord \<Rightarrow> jsval" where
  "leaf_json r = JObj
     [(''domain'', JStr ''ESCROW_LEDGER_LEAF''),
      (''v'', JObj
        [(''transactionId'', JStr (transactionId r)),
         (''escrowRecordLeafHash'', JStr (escrowRecordLeafHash r)),
         (''signature'', JStr (signature r)),
         (''status'', JStr (status_text (status r))),
         (''timestamp'', JStr (timestamp r))])]"

definition ledgerLeafHash :: "hashfn \<Rightarrow> EscrowRecord \<Rightarrow> string" where
  "ledgerLeafHash h r = sha256HexFromJsonStable h (leaf_json r)"

type_synonym proof_table = "(string, string \<times> merkle_proof) jsmap"

text \<open>The loop \<^verbatim>\<open>for (let i = 0; i < records.length; i++) proofs.set(...)\<close>.\<close>

fun fill_proofs :: "merkle_tree \<Rightarrow> EscrowRecord list \<Rightarrow> nat \<Rightarrow> proof_table \<Rightarrow> proof_table js_result" where
  "fill_proofs t [] i m = Inr m"
| "fill_proofs t (r # rs) i m =
     bind_result (getProof t (int i))
       (\<lambda>p. fill_proofs t rs (i + 1) (js_set (transactionId r) (mt_leaves t ! i, p) m))"

definition buildMerkleForLedger ::
  "hashfn \<Rightarrow> EscrowRecord list \<Rightarrow> (merkle_tree \<times> string \<times> proof_table) js_result" where
  "buildMerkleForLedger h records =
     (let tree = newMerkleTree h (map (ledgerLeafHash h) records)
      in bind_result (fill_proofs tree records 0 []) (\<lambda>m. Inr (tree, getRoot tree, m)))"

abbreviation ledgerTree :: "hashfn \<Rightarrow> EscrowRecord list \<Rightarrow> merkle_tree" where
  "ledgerTree h rs \<equiv> newMerkleTree h (map (ledgerLeafHash h) rs)"

abbreviation ledgerRoot :: "hashfn \<Rightarrow> EscrowRecord list \<Rightarrow> string" where
  "ledgerRoot h rs \<equiv> getRoot (ledgerTree h rs)"

section \<open>The accumulator\<close>

record accumulator =
  cachedRoot :: "string option"
  cachedLeafCount :: "nat option"
  cachedAt :: "string option"
  cachedProofsByTxId :: "proof_table option"

definition new_accumulator :: accumulator where
  "new_accumulator = \<lparr>cachedRoot = None, cachedLeafCount = None, cachedAt = None, cachedProofsByTxId = None\<rparr>"

definition snapshot_fingerprint :: "hashfn \<Rightarrow> string \<Rightarrow> nat \<Rightarrow> string" where
  "snapshot_fingerprint h root n =
     h (json_stringify (JObj [(''root'', JStr root), (''leafCount'', JNum (int n))]))"

record built_ledger =
  bl_root :: string
  bl_tree :: merkle_tree
  bl_proofs :: proof_table
  bl_leafCount :: nat
  bl_fingerprint :: string

definition buildFromLedger :: "hashfn \<Rightarrow> env \<Rightarrow> db_state \<Rightarrow> db_state \<times> built_ledger js_result" where
  "buildFromLedger h e d =
     (let (d', records) = getAllRecords e d;
          tree = newMerkleTree h (map (ledgerLeafHash h) records);
          root = getRoot tree
      in (d', bind_result (fill_proofs tree records 0 [])
                (\<lambda>m. Inr \<lparr>bl_root = root, bl_tree = tree, bl_proofs = m,
                         bl_leafCount = getLeafCount tree,
                         bl_fingerprint = snapshot_fingerprint h root (getLeafCount tree)\<rparr>)))"

definition getRootHash ::
  "hashfn \<Rightarrow> env \<Rightarrow> db_state \<Rightarrow> accumulator \<Rightarrow> db_state \<times> accumulator \<times> string js_result" where
  "getRootHash h e d acc =
     (case buildFromLedger h e d of
        (d1, Inl err) \<Rightarrow> (d1, acc, Inl err)
      | (d1, Inr b) \<Rightarrow>
          if cachedRoot acc \<noteq> None \<and> cachedRoot acc \<noteq> Some '''' \<and> cachedLeafCount acc \<noteq> None
             \<and> cachedAt acc \<noteq> None \<and> cachedAt acc \<noteq> Some '''' \<and> cachedAt acc = Some (bl_fingerprint b)
          then (d1, acc, Inr (the (cachedRoot acc)))
          else
            let acc1 = acc\<lparr>cachedRoot := Some (bl_root b), cachedLeafCount := Some (bl_leafCount b),
                           cachedAt := Some (bl_fingerprint b)\<rparr>
            in (case buildFromLedger h e d1 of
                  (d2, Inl err) \<Rightarrow> (d2, acc1, Inl err)
                | (d2, Inr b2) \<Rightarrow> (d2, acc1\<lparr>cachedProofsByTxId := Some (bl_proofs b2)\<rparr>, Inr (bl_root b))))"

text \<open>The direction markers of a path: \<open>R\<close> where the current node is a right child.\<close>

fun left_right :: "nat \<Rightarrow> int \<Rightarrow> string list" where
  "left_right 0 idx = []"
| "left_right (Suc n) idx = (if js_rem idx 2 = 1 then ''R'' else ''L'') # left_right n (idx div 2)"

record inclusion_answer =
  ia_root :: string
  ia_leafHash :: string
  ia_siblings :: "string list"
  ia_leftRight :: "string list"
  ia_leafIndex :: int
  ia_leafCount :: nat

definition getInclusionProof ::
  "hashfn \<Rightarrow> env \<Rightarrow> db_state \<Rightarrow> string \<Rightarrow> db_state \<times> inclusion_answer js_result" where
  "getInclusionProof h e d tid =
     (if tid = '''' then (d, Inl (TypeError ''transactionId must be a non-empty string''))
      else
        (case buildFromLedger h e d of
           (d1, Inl err) \<Rightarrow> (d1, Inl err)
         | (d1, Inr b) \<Rightarrow>
             (d1, case js_get (bl_proofs b) tid of
                    None \<Rightarrow> Inl (JsError ''TRANSACTION_NOT_FOUND'')
                  | Some (leaf, p) \<Rightarrow>
                      Inr \<lparr>ia_root = bl_root b, ia_leafHash = leaf,
                           ia_siblings = mp_siblings p,
                           ia_leftRight = left_right (length (mp_siblings p)) (mp_leafIndex p),
                           ia_leafIndex = mp_leafIndex p, ia_leafCount = mp_leafCount p\<rparr>)))"

section \<open>The stateless verifier\<close>

definition isHexDigest :: "jsval \<Rightarrow> bool" where
  "isHexDigest x = (case x of JStr s \<Rightarrow> length s = 64 \<and> list_all hex_digit_ci s | _ \<Rightarrow> False)"

record zk_receipt =
  zk_verified :: bool
  zk_computedRoot :: jsval

definition failClosedReceipt :: "jsval \<Rightarrow> zk_receipt" where
  "failClosedReceipt root = \<lparr>zk_verified = False, zk_computedRoot = root\<rparr>"

fun zk_walk :: "hashfn \<Rightarrow> jsval list \<Rightarrow> jsval list \<Rightarrow> string \<Rightarrow> string option" where
  "zk_walk h (sib # sibs) (marker # markers) hash =
     (if \<not> isHexDigest sib then None
      else if marker \<noteq> JStr ''L'' \<and> marker \<noteq> JStr ''R'' then None
      else zk_walk h sibs markers
             (h (if marker = JStr ''R'' then node_text (the_str sib) hash else node_text hash (the_str sib))))"
| "zk_walk h _ _ hash = Some hash"

definition zk_verify :: "hashfn \<Rightarrow> jsval \<Rightarrow> jsval \<Rightarrow> jsval \<Rightarrow> zk_receipt" where
  "zk_verify h leafHash merkleRootHash prf =
     (if \<not> isHexDigest leafHash \<or> \<not> isHexDigest merkleRootHash then failClosedReceipt merkleRootHash
      else if \<not> truthy prf \<or> \<not> is_arr (member prf ''siblings'') \<or> \<not> is_arr (member prf ''leftRight'')
      then failClosedReceipt merkleRootHash
      else
        let sibs = the_arr (member prf ''siblings''); markers = the_arr (member prf ''leftRight'')
        in if length sibs \<noteq> length markers then failClosedReceipt merkleRootHash
           else (case zk_walk h sibs markers (the_str leafHash) of
                   None \<Rightarrow> failClosedReceipt merkleRootHash
                 | Some r \<Rightarrow> \<lparr>zk_verified = (JStr r = merkleRootHash), zk_computedRoot = JStr r\<rparr>))"

text \<open>The matrix of an answer as it travels in the JSON response.\<close>

definition matrix_json :: "inclusion_answer \<Rightarrow> jsval" where
  "matrix_json a = JObj
     [(''siblings'', JArr (map JStr (ia_siblings a))),
      (''leftRight'', JArr (map JStr (ia_leftRight a))),
      (''leafIndex'', JNum (ia_leafIndex a)),
      (''leafCount'', JNum (int (ia_leafCount a)))]"

section \<open>The leaf commits to the record\<close>

lemma leaf_text_explicit: "stableStringify (leaf_json r) =
  ''{'' @ js_quote ''domain'' @ '':'' @ js_quote ''ESCROW_LEDGER_LEAF'' @ '','' @ js_quote ''v'' @ '':{'' @
   js_quote ''escrowRecordLeafHash'' @ '':'' @ js_quote (escrowRecordLeafHash r) @ '','' @
   js_quote ''signature'' @ '':'' @ js_quote (signature r) @ '','' @
   js_quote ''status'' @ '':'' @ js_quote (status_text (status r)) @ '','' @
   js_quote ''timestamp'' @ '':'' @ js_quote (timestamp r) @ '','' @
   js_quote ''transactionId'' @ '':'' @ js_quote (transactionId r) @ ''}}''"
  by (simp add: leaf_json_def less_eq_char_def less_char_def)

lemma status_text_inj [simp]: "status_text a = status_text b \<longleftrightarrow> a = b"
  by (cases a; cases b) simp_all

lemma leaf_text_inj:
  "stableStringify (leaf_json r) = stableStringify (leaf_json r') \<longleftrightarrow>
     transactionId r = transactionId r' \<and> escrowRecordLeafHash r = escrowRecordLeafHash r' \<and>
     signature r = signature r' \<and> status r = status r' \<and> timestamp r = timestamp r'"
  unfolding leaf_text_explicit by (auto simp: js_quote_prefix_free)

lemma fill_proofs_fold:
  assumes "n = length rs" "i \<le> n"
  shows "fill_proofs (ledgerTree h rs) (drop i rs) i m =
     Inr (fold (\<lambda>i m. js_set (transactionId (rs ! i))
            (ledgerLeafHash h (rs ! i), the (merkle_open h (map (ledgerLeafHash h) rs) i)) m) [i..<n] m)"
  using assms
proof (induction "n - i" arbitrary: i m)
  case 0
  then show ?case by simp
next
  case (Suc k)
  then have i: "i < length rs" by simp
  then obtain p where p: "getProof (ledgerTree h rs) (int i) = Inr p"
    by (simp add: getProof_def)
  have "drop i rs = rs ! i # drop (Suc i) rs" using i by (simp add: Cons_nth_drop_Suc)
  moreover have "[i..<n] = i # [Suc i..<n]" using i Suc by (simp add: upt_conv_Cons)
  ultimately show ?case
    using Suc.hyps(1) [of "Suc i"] Suc.hyps(2) Suc.prems i p by (simp add: merkle_open_def)
qed

lemma fill_proofs_eq:
  "fill_proofs (ledgerTree h rs) rs 0 [] = Inr (merkle.fill h transactionId (ledgerLeafHash h) rs)"
  using fill_proofs_fold [of "length rs" rs 0 h "[]"] by (simp add: merkle.fill_def)

lemma buildMerkle_eq:
  "buildMerkleForLedger h rs =
     Inr (ledgerTree h rs, ledgerRoot h rs, merkle.fill h transactionId (ledgerLeafHash h) rs)"
  by (simp add: buildMerkleForLedger_def Let_def fill_proofs_eq)

section \<open>Inclusion proofs of the ledger\<close>

definition ledger_ready :: "db_state \<Rightarrow> EscrowRecord list \<Rightarrow> bool" where
  "ledger_ready d rs \<longleftrightarrow> storeInitialized d \<and> storeFile d = Parsed (JArr (map encodeRecord rs))"

lemma getAllRecords_ready [simp]: "ledger_ready d rs \<Longrightarrow> getAllRecords e d = (d, rs)"
  by (simp add: ledger_ready_def getAllRecords_def)

lemma getRecord_ready [simp]:
  "ledger_ready d rs \<Longrightarrow> getRecord e tid d = (d, find (\<lambda>r. transactionId r = tid) rs)"
  by (simp add: ledger_ready_def getRecord_def)

lemma writeRecord_ready:
  assumes "ledger_ready d rs" "diskOk e ledger_file"
  shows "\<exists>d'. writeRecord e r d = (d', Inr (upsert r rs)) \<and> ledger_ready d' (upsert r rs)"
  using assms by (auto simp: ledger_ready_def writeRecord_def Let_def)

definition built_for :: "hashfn \<Rightarrow> EscrowRecord list \<Rightarrow> built_ledger" where
  "built_for h rs = \<lparr>bl_root = ledgerRoot h rs, bl_tree = ledgerTree h rs,
     bl_proofs = merkle.fill h transactionId (ledgerLeafHash h) rs, bl_leafCount = length rs,
     bl_fingerprint = snapshot_fingerprint h (ledgerRoot h rs) (length rs)\<rparr>"

lemma buildFromLedger_eq:
  "getAllRecords e d = (d', rs) \<Longrightarrow> buildFromLedger h e d = (d', Inr (built_for h rs))"
  by (simp add: buildFromLedger_def Let_def fill_proofs_eq built_for_def)

lemma length_left_right [simp]: "length (left_right n idx) = n"
  by (induction n arbitrary: idx) simp_all

text \<open>Walking with the markers of an index is the recomputation of a proof at that index.\<close>

lemma zk_walk_left_right:
  assumes "list_all (\<lambda>s. isHexDigest (JStr s)) sibs"
  shows "zk_walk h (map JStr sibs) (map JStr (left_right (length sibs) idx)) hash = Some (verify_siblings h sibs idx hash)"
  using assms by (induction sibs arbitrary: idx hash) auto

definition hex_hash :: "hashfn \<Rightarrow> bool" where
  "hex_hash h \<longleftrightarrow> (\<forall>s. isHexDigest (JStr (h s)))"

lemma proof_siblings_hex:
  assumes "hex_hash h" "list_all (\<lambda>s. isHexDigest (JStr s)) xs" "i < length xs"
  shows "list_all (\<lambda>s. isHexDigest (JStr s)) (proof_siblings (build_layers h xs) i)"
  using assms
proof (induction h xs arbitrary: i rule: build_layers.induct)
  case (1 h xs)
  show ?case
  proof (cases "1 < length xs")
    case True
    have "list_all (\<lambda>s. isHexDigest (JStr s)) (next_layer h xs)"
      using "1.prems"(1) by (simp add: next_layer_texts hex_hash_def list_all_iff)
    moreover have "i div 2 < length (next_layer h xs)" using "1.prems" by simp
    ultimately have "list_all (\<lambda>s. isHexDigest (JStr s)) (proof_siblings (build_layers h (next_layer h xs)) (i div 2))"
      using "1.IH" [OF True] "1.prems"(1) by blast
    moreover have "sibling_at xs i \<in> set xs"
      using "1.prems"(3) by (auto simp: sibling_at_def Let_def)
    ultimately show ?thesis
      using "1.prems"(2) by (auto simp: proof_siblings_step [OF True] list_all_iff)
  qed (simp add: build_layers_base)
qed

lemma last_layer_hex:
  assumes "hex_hash h" "list_all (\<lambda>s. isHexDigest (JStr s)) xs" "xs \<noteq> []"
  shows "isHexDigest (JStr (hd (last (build_layers h xs))))"
  using assms
proof (induction h xs rule: build_layers.induct)
  case (1 h xs)
  show ?case
  proof (cases "1 < length xs")
    case True
    have "list_all (\<lambda>s. isHexDigest (JStr s)) (next_layer h xs)"
      using "1.prems"(1) by (simp add: next_layer_texts hex_hash_def list_all_iff)
    moreover have "next_layer h xs \<noteq> []" using length_next_layer [of h xs] True by fastforce
    ultimately show ?thesis using "1.IH" [OF True "1.prems"(1)] by (simp add: last_build_layers [OF True])
  next
    case False
    with "1.prems" show ?thesis by (cases xs) (auto simp: build_layers_base)
  qed
qed

lemma ledgerRoot_hex: "hex_hash h \<Longrightarrow> isHexDigest (JStr (ledgerRoot h rs))"
proof (cases "rs = []")
  case False
  moreover assume "hex_hash h"
  ultimately show ?thesis
    using last_layer_hex [of h "map (ledgerLeafHash h) rs"]
    by (simp add: getRoot_newMerkleTree hex_hash_def list_all_iff ledgerLeafHash_def sha256HexFromJsonStable_def)
qed (simp add: getRoot_def newMerkleTree_def hex_hash_def)

lemma getInclusionProof_ready:
  assumes "ledger_ready d rs" "tid \<noteq> ''''"
  shows "getInclusionProof h e d tid =
    (d, case js_get (merkle.fill h transactionId (ledgerLeafHash h) rs) tid of
          None \<Rightarrow> Inl (JsError ''TRANSACTION_NOT_FOUND'')
        | Some (leaf, p) \<Rightarrow> Inr \<lparr>ia_root = ledgerRoot h rs, ia_leafHash = leaf, ia_siblings = mp_siblings p,
             ia_leftRight = left_right (length (mp_siblings p)) (mp_leafIndex p),
             ia_leafIndex = mp_leafIndex p, ia_leafCount = mp_leafCount p\<rparr>)"
  using assms buildFromLedger_eq [OF getAllRecords_ready [OF assms(1), of e], of h]
  by (auto simp: getInclusionProof_def built_for_def split: option.split)

lemma merkle_open_Some:
  "merkle_open h ls i = Some p \<longleftrightarrow> i < length ls \<and> getProof (newMerkleTree h ls) (int i) = Inr p"
  by (cases "getProof (newMerkleTree h ls) (int i)")
    (auto simp: merkle_open_def dest: getProof_Inr_iff [THEN iffD1])

lemma zk_accepts:
  assumes "hex_hash h" "ledger_ready d rs" "tid \<noteq> ''''"
    and "getInclusionProof h e d tid = (d', Inr a)"
  shows "zk_verify h (JStr (ia_leafHash a)) (JStr (ia_root a)) (matrix_json a) =
           \<lparr>zk_verified = True, zk_computedRoot = JStr (ledgerRoot h rs)\<rparr>"
    and "\<exists>r\<in>set rs. transactionId r = tid \<and> ia_leafHash a = ledgerLeafHash h r"
proof -
  let ?ls = "map (ledgerLeafHash h) rs"
  obtain leaf p where hit: "js_get (merkle.fill h transactionId (ledgerLeafHash h) rs) tid = Some (leaf, p)"
    and a: "a = \<lparr>ia_root = ledgerRoot h rs, ia_leafHash = leaf, ia_siblings = mp_siblings p,
             ia_leftRight = left_right (length (mp_siblings p)) (mp_leafIndex p),
             ia_leafIndex = mp_leafIndex p, ia_leafCount = mp_leafCount p\<rparr>"
    using assms(4) by (auto simp: getInclusionProof_ready [OF assms(2,3)] split: option.splits)
  obtain i where i: "i < length rs" "transactionId (rs ! i) = tid" "ledgerLeafHash h (rs ! i) = leaf"
    "getProof (newMerkleTree h ?ls) (int i) = Inr p" "verifyProof h leaf p = ledgerRoot h rs"
    using merkle.fill_sound [OF hit] by (auto simp: merkle_open_Some)
  then show "\<exists>r\<in>set rs. transactionId r = tid \<and> ia_leafHash a = ledgerLeafHash h r"
    by (intro bexI [of _ "rs ! i"]) (simp_all add: a)
  have hex: "list_all (\<lambda>s. isHexDigest (JStr s)) (mp_siblings p)" "isHexDigest (JStr leaf)"
    using i assms(1) proof_siblings_hex [OF assms(1), of ?ls i]
    by (auto simp: getProof_Inr_iff hex_hash_def ledgerLeafHash_def sha256HexFromJsonStable_def list_all_iff)
  show "zk_verify h (JStr (ia_leafHash a)) (JStr (ia_root a)) (matrix_json a) =
           \<lparr>zk_verified = True, zk_computedRoot = JStr (ledgerRoot h rs)\<rparr>"
    using hex ledgerRoot_hex [OF assms(1), of rs] i(5) zk_walk_left_right [OF hex(1), of h "mp_leafIndex p" leaf]
    by (simp add: zk_verify_def matrix_json_def a Let_def verifyProof_def)
qed

text \<open>The cache of the accumulator never changes the answer.\<close>

definition fingerprint_text :: "string \<Rightarrow> nat \<Rightarrow> string" where
  "fingerprint_text root n = json_stringify (JObj [(''root'', JStr root), (''leafCount'', JNum (int n))])"

lemma fingerprint_text_root:
  assumes "fingerprint_text r n = fingerprint_text r' n'"
  shows "r = r'"
  using assms by (simp add: fingerprint_text_def js_quote_prefix_free)

definition cache_ok :: "hashfn \<Rightarrow> accumulator \<Rightarrow> bool" where
  "cache_ok h acc \<longleftrightarrow>
     (case (cachedRoot acc, cachedLeafCount acc, cachedAt acc) of
        (Some r, Some n, Some fp) \<Rightarrow> fp = h (fingerprint_text r n)
      | (None, None, None) \<Rightarrow> True
      | _ \<Rightarrow> False)"

lemma cache_ok_new: "cache_ok h new_accumulator"
  by (simp add: cache_ok_def new_accumulator_def)

lemma getRootHash_ready:
  assumes "ledger_ready d rs" "cache_ok h acc"
    and "\<And>r n. cachedRoot acc = Some r \<Longrightarrow> cachedLeafCount acc = Some n \<Longrightarrow>
           h (fingerprint_text r n) = h (fingerprint_text (ledgerRoot h rs) (length rs)) \<Longrightarrow>
           fingerprint_text r n = fingerprint_text (ledgerRoot h rs) (length rs)"
    and "getRootHash h e d acc = (d', acc', res)"
  shows "res = Inr (ledgerRoot h rs) \<and> d' = d \<and> cache_ok h acc'"
proof -
  have built: "buildFromLedger h e d = (d, Inr (built_for h rs))"
    using buildFromLedger_eq [OF getAllRecords_ready [OF assms(1), of e], of h] by simp
  have fp: "snapshot_fingerprint h r n = h (fingerprint_text r n)" for r n
    by (simp add: snapshot_fingerprint_def fingerprint_text_def)
  show ?thesis
  proof (cases "cachedRoot acc = None")
    case True
    then show ?thesis using assms(4) built
      by (auto simp: getRootHash_def Let_def built_for_def cache_ok_def fp)
  next
    case False
    then obtain r n where c: "cachedRoot acc = Some r" "cachedLeafCount acc = Some n"
      "cachedAt acc = Some (h (fingerprint_text r n))"
      using assms(2) by (auto simp: cache_ok_def split: option.splits)
    then have "h (fingerprint_text r n) = h (fingerprint_text (ledgerRoot h rs) (length rs)) \<Longrightarrow> r = ledgerRoot h rs"
      using assms(3) [of r n] fingerprint_text_root by blast
    then show ?thesis using assms(2,4) built c
      by (auto simp: getRootHash_def Let_def built_for_def cache_ok_def fp split: if_splits)
  qed
qed

section \<open>Properties\<close>

text \<open>
  C30. The accumulator and the stateless verifier agree: the inclusion proof given for a transaction of a readable
  ledger is that of a record with this id, and the verifier accepts it against the root of the ledger.
\<close>

theorem inclusion_proofs_are_accepted:
  assumes "hex_hash h" "ledger_ready d rs" "tid \<noteq> ''''" "getInclusionProof h e d tid = (d', Inr a)"
  shows "zk_verify h (JStr (ia_leafHash a)) (JStr (ia_root a)) (matrix_json a) =
           \<lparr>zk_verified = True, zk_computedRoot = JStr (ledgerRoot h rs)\<rparr>
       \<and> (\<exists>r. r \<in> set rs \<and> transactionId r = tid \<and> ia_leafHash a = ledgerLeafHash h r)"
  using zk_accepts [OF assms] by blast

definition sample_ledger :: "EscrowRecord list" where
  "sample_ledger = [\<lparr>transactionId = ''t1'', escrowRecordLeafHash = ''ab'', signature = ''cd'', status = LOCKED,
     validAfterMs = 0, validUntilMs = 9, timestamp = ''now''\<rparr>]"

definition sample_ledger_db :: db_state where
  "sample_ledger_db = \<lparr>storeInitialized = True, storeFile = Parsed (JArr (map encodeRecord sample_ledger))\<rparr>"

lemma sample_ledger_ready: "ledger_ready sample_ledger_db sample_ledger"
  by (simp add: ledger_ready_def sample_ledger_db_def)

lemma constant_hex_hash: "hex_hash (\<lambda>s. replicate 64 CHR ''a'')"
  by (simp add: hex_hash_def isHexDigest_def hex_digit_ci_def list_all_iff)

theorem inclusion_proofs_are_accepted_witness:
  "\<exists>a. getInclusionProof (\<lambda>s. replicate 64 CHR ''a'') \<lparr>nowMs = 0, nowIso = ''now'', diskOk = (\<lambda>f. True)\<rparr> sample_ledger_db ''t1'' = (sample_ledger_db, Inr a)
     \<and> zk_verified (zk_verify (\<lambda>s. replicate 64 CHR ''a'') (JStr (ia_leafHash a)) (JStr (ia_root a)) (matrix_json a))"
proof -
  let ?h = "\<lambda>s::string. replicate 64 CHR ''a''"
  let ?e = "\<lparr>nowMs = 0, nowIso = ''now'', diskOk = (\<lambda>f. True)\<rparr>"
  obtain p where "js_get (merkle.fill ?h transactionId (ledgerLeafHash ?h) sample_ledger) ''t1'' = Some (ledgerLeafHash ?h (sample_ledger ! 0), p)"
    using merkle.fill_complete [of transactionId sample_ledger 0] by (auto simp: sample_ledger_def)
  then obtain a where a: "getInclusionProof ?h ?e sample_ledger_db ''t1'' = (sample_ledger_db, Inr a)"
    by (simp add: getInclusionProof_ready [OF sample_ledger_ready])
  from inclusion_proofs_are_accepted [OF constant_hex_hash sample_ledger_ready _ a] a show ?thesis by simp
qed

text \<open>
  The cached root is the root: while the hash does not collide on the two fingerprints compared, the
  accumulator answers with the root of the ledger as it is now, whatever it cached before, and changes
  nothing of the store.
\<close>

theorem cached_root_is_current:
  assumes "ledger_ready d rs" "cache_ok h acc"
    and "\<And>r n. cachedRoot acc = Some r \<Longrightarrow> cachedLeafCount acc = Some n \<Longrightarrow>
           h (fingerprint_text r n) = h (fingerprint_text (ledgerRoot h rs) (length rs)) \<Longrightarrow>
           fingerprint_text r n = fingerprint_text (ledgerRoot h rs) (length rs)"
    and "getRootHash h e d acc = (d', acc', res)"
  shows "res = Inr (ledgerRoot h rs) \<and> d' = d \<and> cache_ok h acc'"
  using assms by (rule getRootHash_ready)

theorem cached_root_is_current_witness:
  "\<exists>acc'. getRootHash (\<lambda>s. replicate 64 CHR ''a'') \<lparr>nowMs = 0, nowIso = ''now'', diskOk = (\<lambda>f. True)\<rparr> sample_ledger_db new_accumulator
     = (sample_ledger_db, acc', Inr (ledgerRoot (\<lambda>s. replicate 64 CHR ''a'') sample_ledger))"
proof -
  obtain d' acc' res where r: "getRootHash (\<lambda>s. replicate 64 CHR ''a'') \<lparr>nowMs = 0, nowIso = ''now'', diskOk = (\<lambda>f. True)\<rparr> sample_ledger_db new_accumulator
      = (d', acc', res)" by (metis prod.collapse)
  from cached_root_is_current [OF sample_ledger_ready cache_ok_new _ r] r show ?thesis by (simp add: new_accumulator_def)
qed

end
