(* ===== verification/Notary.thy ===== *)
theory Notary
  imports Ledger
begin

text \<open>
  The client of the external notary, \<^verbatim>\<open>services/NotaryAnchorService.ts\<close>: the validation of its
  responses, the bounded retries, and the cache file. The network is the argument: a \<^verbatim>\<open>fetch\<close>
  either fails or gives a status code and a JSON body.
\<close>

section \<open>Responses\<close>

record witness_signature =
  witnessId :: string
  ws_signature :: string

record notary_state =
  ns_sequenceNumber :: int
  ns_anchoringTimestamp :: string
  ns_witnessSignatures :: "witness_signature list"
  ns_root :: string

record broadcast_request =
  br_root :: string
  br_leafCount :: nat
  br_localUpdatedAt :: string

datatype fetch_result = NetworkError string | Fetched nat jsval

text \<open>\<^verbatim>\<open>resp.ok\<close>.\<close>

definition resp_ok :: "nat \<Rightarrow> bool" where
  "resp_ok code \<longleftrightarrow> 200 \<le> code \<and> code \<le> 299"

definition decode_witness :: "jsval \<Rightarrow> witness_signature" where
  "decode_witness x =
     \<lparr>witnessId = js_String (nullish_or (member x ''witnessId'') (JStr '''')),
      ws_signature = js_String (nullish_or (member x ''signature'') (JStr ''''))\<rparr>"

text \<open>The checks both endpoints share; only the message for a non-object differs.\<close>

definition validate_notary :: "string \<Rightarrow> jsval \<Rightarrow> notary_state js_result" where
  "validate_notary not_object_msg v =
     (if \<not> truthy v \<or> \<not> (is_obj v \<or> is_arr v) then Inl (JsError not_object_msg)
      else if \<not> truthy (member v ''root'') \<or> \<not> is_str (member v ''root'')
      then Inl (JsError ''Invalid notary response: root'')
      else if \<not> is_num (member v ''sequenceNumber'')
      then Inl (JsError ''Invalid notary response: sequenceNumber'')
      else if \<not> truthy (member v ''anchoringTimestamp'') \<or> \<not> is_str (member v ''anchoringTimestamp'')
      then Inl (JsError ''Invalid notary response: anchoringTimestamp'')
      else if \<not> is_arr (member v ''witnessSignatures'')
      then Inl (JsError ''Invalid notary response: witnessSignatures'')
      else Inr \<lparr>ns_sequenceNumber = the_num (member v ''sequenceNumber''),
                ns_anchoringTimestamp = the_str (member v ''anchoringTimestamp''),
                ns_witnessSignatures = map decode_witness (the_arr (member v ''witnessSignatures'')),
                ns_root = the_str (member v ''root'')\<rparr>)"

definition postAnchor :: "fetch_result \<Rightarrow> notary_state js_result" where
  "postAnchor resp =
     (case resp of
        NetworkError m \<Rightarrow> Inl (JsError m)
      | Fetched code body \<Rightarrow>
          if \<not> resp_ok code then Inl (JsError (''Notary anchor POST failed: '' @ show_nat code))
          else validate_notary ''Invalid notary broadcast response'' body)"

definition getAuthoritativeState :: "fetch_result \<Rightarrow> notary_state js_result" where
  "getAuthoritativeState resp =
     (case resp of
        NetworkError m \<Rightarrow> Inl (JsError m)
      | Fetched code body \<Rightarrow>
          if \<not> resp_ok code then Inl (JsError (''Notary state GET failed: '' @ show_nat code))
          else validate_notary ''Invalid notary authoritative state'' body)"

section \<open>The service and its cache\<close>

record notary_service =
  latestInMemory :: "notary_state option"
  cacheLoaded :: bool
  cacheFile :: json_file

definition new_notary :: "json_file \<Rightarrow> notary_service" where
  "new_notary f = \<lparr>latestInMemory = None, cacheLoaded = False, cacheFile = f\<rparr>"

definition cache_file :: string where
  "cache_file = ''notary-authoritative-cache.json''"

definition witness_json :: "witness_signature \<Rightarrow> jsval" where
  "witness_json w = JObj [(''witnessId'', JStr (witnessId w)), (''signature'', JStr (ws_signature w))]"

definition notary_members :: "notary_state \<Rightarrow> (string \<times> jsval) list" where
  "notary_members s =
     [(''root'', JStr (ns_root s)), (''sequenceNumber'', JNum (ns_sequenceNumber s)),
      (''anchoringTimestamp'', JStr (ns_anchoringTimestamp s)),
      (''witnessSignatures'', JArr (map witness_json (ns_witnessSignatures s)))]"

text \<open>\<^verbatim>\<open>broadcastRootAnchor\<close> rebuilds the object with its members in another order.\<close>

definition broadcast_members :: "notary_state \<Rightarrow> (string \<times> jsval) list" where
  "broadcast_members s =
     [(''sequenceNumber'', JNum (ns_sequenceNumber s)),
      (''anchoringTimestamp'', JStr (ns_anchoringTimestamp s)),
      (''witnessSignatures'', JArr (map witness_json (ns_witnessSignatures s))),
      (''root'', JStr (ns_root s))]"

definition persistCache ::
  "hashfn \<Rightarrow> env \<Rightarrow> (string \<times> jsval) list \<Rightarrow> notary_service \<Rightarrow> notary_service" where
  "persistCache h e members n =
     (if diskOk e cache_file
      then n\<lparr>cacheFile := Parsed (JObj (members @
              [(''_cacheFingerprint'', JStr (h (json_stringify (JObj members)))),
               (''updatedAt'', JStr (nowIso e))]))\<rparr>
      else n)"

definition readCache :: "notary_service \<Rightarrow> notary_state option" where
  "readCache n =
     (case cacheFile n of
        Parsed v \<Rightarrow> (case validate_notary '''' v of Inl err \<Rightarrow> None | Inr s \<Rightarrow> Some s)
      | _ \<Rightarrow> None)"

definition loadCacheIfNeeded :: "notary_service \<Rightarrow> notary_service" where
  "loadCacheIfNeeded n =
     (if cacheLoaded n then n else n\<lparr>cacheLoaded := True, latestInMemory := readCache n\<rparr>)"

definition broadcastRootAnchor ::
  "hashfn \<Rightarrow> env \<Rightarrow> (broadcast_request \<Rightarrow> fetch_result) \<Rightarrow> broadcast_request \<Rightarrow> notary_service \<Rightarrow> notary_service \<times> unit js_result" where
  "broadcastRootAnchor h e net req n =
     (case postAnchor (net req) of
        Inl err \<Rightarrow> (n, Inl err)
      | Inr s \<Rightarrow> (persistCache h e (broadcast_members s) (n\<lparr>latestInMemory := Some s\<rparr>), Inr ()))"

text \<open>The loop of at most \<open>k\<close> attempts over the answers of the network, one per attempt.\<close>

fun fetch_attempts ::
  "hashfn \<Rightarrow> env \<Rightarrow> nat \<Rightarrow> (nat \<Rightarrow> fetch_result) \<Rightarrow> nat \<Rightarrow> notary_service \<Rightarrow> notary_service \<times> notary_state js_result" where
  "fetch_attempts h e 0 net attempt n =
     (n, Inl (JsError ''No authoritative notary state available: remote unreachable''))"
| "fetch_attempts h e (Suc k) net attempt n =
     (case getAuthoritativeState (net attempt) of
        Inr s \<Rightarrow> (persistCache h e (notary_members s) (n\<lparr>latestInMemory := Some s\<rparr>), Inr s)
      | Inl err \<Rightarrow> fetch_attempts h e k net (attempt + 1) n)"

definition fetchAuthoritativeState ::
  "hashfn \<Rightarrow> env \<Rightarrow> (nat \<Rightarrow> fetch_result) \<Rightarrow> notary_service \<Rightarrow> notary_service \<times> notary_state js_result" where
  "fetchAuthoritativeState h e net n = fetch_attempts h e 3 net 1 (loadCacheIfNeeded n)"

definition getLatestCachedAuthoritativeState :: "notary_service \<Rightarrow> notary_service \<times> notary_state option" where
  "getLatestCachedAuthoritativeState n = (loadCacheIfNeeded n, latestInMemory (loadCacheIfNeeded n))"

section \<open>What a fetch gives\<close>

lemma validate_notary_Inr:
  "validate_notary m v = Inr s \<Longrightarrow> ns_root s \<noteq> '''' \<and> ns_anchoringTimestamp s \<noteq> ''''"
  by (auto simp: validate_notary_def is_str_iff split: if_splits)

lemma decode_witness_json [simp]: "decode_witness (witness_json w) = w"
  by (simp add: decode_witness_def witness_json_def nullish_or_def)

lemma validate_members:
  assumes "ns_root s \<noteq> ''''" "ns_anchoringTimestamp s \<noteq> ''''"
  shows "validate_notary m (JObj (notary_members s @ extra)) = Inr s"
    and "validate_notary m (JObj (broadcast_members s @ extra)) = Inr s"
  using assms by (simp_all add: validate_notary_def notary_members_def broadcast_members_def comp_def)

text \<open>A cached state survives a restart of the process.\<close>

lemma readCache_persistCache:
  assumes "ns_root s \<noteq> ''''" "ns_anchoringTimestamp s \<noteq> ''''" "diskOk e cache_file"
  shows "readCache (persistCache h e (notary_members s) n) = Some s"
    and "readCache (persistCache h e (broadcast_members s) n) = Some s"
  using assms by (simp_all add: readCache_def persistCache_def validate_members)

lemma persistCache_fields [simp]:
  "latestInMemory (persistCache h e ms n) = latestInMemory n"
  "cacheLoaded (persistCache h e ms n) = cacheLoaded n"
  by (simp_all add: persistCache_def)

lemma loadCache_loaded [simp]: "cacheLoaded (loadCacheIfNeeded n)"
  by (simp add: loadCacheIfNeeded_def)

lemma fetch_attempts_Inr:
  "fetch_attempts h e k net a n = (n', Inr s) \<Longrightarrow>
     \<exists>i. a \<le> i \<and> i < a + k \<and> getAuthoritativeState (net i) = Inr s
       \<and> (\<forall>j. a \<le> j \<and> j < i \<longrightarrow> isl (getAuthoritativeState (net j))) \<and> latestInMemory n' = Some s"
proof (induction k arbitrary: a)
  case (Suc k)
  show ?case
  proof (cases "getAuthoritativeState (net a)")
    case (Inl err)
    then have "fetch_attempts h e k net (Suc a) n = (n', Inr s)" using Suc.prems by simp
    from Suc.IH [OF this] obtain i where "Suc a \<le> i" "i < Suc a + k" "getAuthoritativeState (net i) = Inr s"
      "\<forall>j. Suc a \<le> j \<and> j < i \<longrightarrow> isl (getAuthoritativeState (net j))" "latestInMemory n' = Some s"
      by auto
    with Inl show ?thesis
      by (metis isl_def Suc_leI Suc_leD le_eq_less_or_eq add_Suc add_Suc_right)
  qed (use Suc.prems in \<open>auto intro!: exI [of _ a]\<close>)
qed simp

lemma fetch_attempts_Inl:
  "fetch_attempts h e k net a n = (n', Inl err) \<Longrightarrow>
     n' = n \<and> (\<forall>i. a \<le> i \<and> i < a + k \<longrightarrow> isl (getAuthoritativeState (net i)))"
proof (induction k arbitrary: a)
  case (Suc k)
  then obtain x where x: "getAuthoritativeState (net a) = Inl x" by (auto split: sum.splits)
  then have "n' = n \<and> (\<forall>i. Suc a \<le> i \<and> i < Suc a + k \<longrightarrow> isl (getAuthoritativeState (net i)))"
    using Suc by simp
  with x show ?case by (metis Suc_leI add_Suc add_Suc_right isl_def le_eq_less_or_eq)
qed auto

text \<open>At most three requests are made, and the first valid answer is the one returned.\<close>

lemma fetchAuthoritativeState_Inr:
  assumes "fetchAuthoritativeState h e net n = (n', Inr s)"
  shows "\<exists>i. 1 \<le> i \<and> i \<le> 3 \<and> getAuthoritativeState (net i) = Inr s
           \<and> (\<forall>j. 1 \<le> j \<and> j < i \<longrightarrow> isl (getAuthoritativeState (net j))) \<and> latestInMemory n' = Some s"
  using fetch_attempts_Inr [OF assms [unfolded fetchAuthoritativeState_def]] by fastforce

lemma fetchAuthoritativeState_Inl:
  assumes "fetchAuthoritativeState h e net n = (n', Inl err)"
  shows "n' = loadCacheIfNeeded n \<and> (\<forall>i. 1 \<le> i \<and> i \<le> 3 \<longrightarrow> isl (getAuthoritativeState (net i)))"
  using fetch_attempts_Inl [OF assms [unfolded fetchAuthoritativeState_def]] by fastforce

lemma fetch_root_nonempty:
  assumes "fetchAuthoritativeState h e net n = (n', Inr s)"
  shows "ns_root s \<noteq> ''''"
proof -
  obtain i where "getAuthoritativeState (net i) = Inr s"
    using fetchAuthoritativeState_Inr [OF assms] by blast
  then show ?thesis
    by (auto simp: getAuthoritativeState_def dest: validate_notary_Inr split: fetch_result.splits if_splits)
qed

end
