(* ===== verification/Auditor.thy ===== *)
theory Auditor
  imports LedgerMerkle Notary
begin

text \<open>
  The ledger auditor of \<^verbatim>\<open>services/LedgerAuditor.ts\<close> with the audit log of
  \<^verbatim>\<open>services/AuditLogger.ts\<close> and the part of \<^verbatim>\<open>DatabaseService.saveRecord\<close> that moves the
  checkpoint. The state of the three singletons is one record; the network answers of the
  notary are arguments.
\<close>

section \<open>Audit log\<close>

record audit_payload =
  ap_tenantId :: string
  ap_action :: string
  ap_amount :: "int option"
  ap_transactionId :: "string option"
  ap_status :: string
  ap_error :: "string option"

definition opt_member :: "string \<Rightarrow> ('a \<Rightarrow> jsval) \<Rightarrow> 'a option \<Rightarrow> (string \<times> jsval) list" where
  "opt_member k f x = (case x of None \<Rightarrow> [] | Some v \<Rightarrow> [(k, f v)])"

definition audit_hash_input :: "string \<Rightarrow> audit_payload \<Rightarrow> string" where
  "audit_hash_input ts p = ts @ ''|'' @ ap_tenantId p @ ''|'' @ ap_action p @ ''|'' @ ap_status p"

definition logEvent :: "hashfn \<Rightarrow> env \<Rightarrow> audit_payload \<Rightarrow> jsval list \<Rightarrow> jsval list \<times> string" where
  "logEvent h e p log =
     (let blockHash = h (audit_hash_input (nowIso e) p)
      in (log @ [JObj ([(''ts'', JStr (nowIso e)), (''tenantId'', JStr (ap_tenantId p)), (''action'', JStr (ap_action p))]
             @ opt_member ''amount'' JNum (ap_amount p)
             @ opt_member ''transactionId'' JStr (ap_transactionId p)
             @ [(''status'', JStr (ap_status p))]
             @ opt_member ''error'' JStr (ap_error p)
             @ [(''integritySignature'', JStr blockHash)])],
          blockHash))"

section \<open>State\<close>

record checkpoint =
  cp_root :: string
  cp_leafCount :: int
  cp_updatedAt :: string

record auditor_state =
  au_frozen :: bool
  au_checkpoint :: json_file
  au_marker :: "(string \<times> string) option"
  au_latestNotary :: "notary_state option"
  au_log :: "jsval list"

record node =
  nd_db :: db_state
  nd_notary :: notary_service
  nd_auditor :: auditor_state

definition checkpoint_file :: string where
  "checkpoint_file = ''ledger-checkpoint.json''"

definition marker_file :: string where
  "marker_file = ''ledger-frozen.marker''"

section \<open>Operations\<close>

definition unfreeze_event :: "string \<Rightarrow> string \<Rightarrow> audit_payload" where
  "unfreeze_event st msg =
     \<lparr>ap_tenantId = ''unknown'', ap_action = ''RELEASE'', ap_amount = None, ap_transactionId = None,
      ap_status = st, ap_error = Some msg\<rparr>"

definition freeze :: "hashfn \<Rightarrow> env \<Rightarrow> string \<Rightarrow> auditor_state \<Rightarrow> auditor_state" where
  "freeze h e reason a =
     (if au_frozen a then a
      else a\<lparr>au_frozen := True,
             au_log := fst (logEvent h e (unfreeze_event ''FAILED'' (''LEDGER_FREEZE: '' @ reason)) (au_log a)),
             au_marker := (if diskOk e marker_file then Some (reason, nowIso e) else au_marker a)\<rparr>)"

definition readCheckpoint :: "auditor_state \<Rightarrow> checkpoint option" where
  "readCheckpoint a =
     (case au_checkpoint a of
        Parsed v \<Rightarrow>
          (if \<not> truthy (member v ''root'') \<or> \<not> is_str (member v ''root'') then None
           else if \<not> is_num (member v ''leafCount'') then None
           else if \<not> truthy (member v ''updatedAt'') \<or> \<not> is_str (member v ''updatedAt'') then None
           else Some \<lparr>cp_root = the_str (member v ''root''), cp_leafCount = the_num (member v ''leafCount''),
                      cp_updatedAt = the_str (member v ''updatedAt'')\<rparr>)
      | _ \<Rightarrow> None)"

definition writeCheckpoint :: "env \<Rightarrow> checkpoint \<Rightarrow> auditor_state \<Rightarrow> auditor_state" where
  "writeCheckpoint e cp a =
     (if diskOk e checkpoint_file
      then a\<lparr>au_checkpoint := Parsed (JObj
              [(''root'', JStr (cp_root cp)), (''leafCount'', JNum (cp_leafCount cp)),
               (''updatedAt'', JStr (cp_updatedAt cp))])\<rparr>
      else a)"

text \<open>The comparison of the ledger on disk with the checkpoint, after the notary agreed.\<close>

definition compare_ledger :: "hashfn \<Rightarrow> env \<Rightarrow> checkpoint \<Rightarrow> EscrowRecord list \<Rightarrow> auditor_state \<Rightarrow> auditor_state" where
  "compare_ledger h e cp records a =
     (let tree = ledgerTree h records; recomputedRoot = getRoot tree; n = int (getLeafCount tree)
      in if n \<noteq> cp_leafCount cp
         then freeze h e (''Ledger tamper detected: leafCount mismatch (expected '' @ show_int (cp_leafCount cp)
                @ '', got '' @ show_int n @ '')'') a
         else if recomputedRoot \<noteq> cp_root cp
         then freeze h e (''Ledger tamper detected: root mismatch. fp=''
                @ h (''AUDIT_MISMATCH|'' @ cp_root cp @ ''|'' @ recomputedRoot)) a
         else a)"

definition auditOnce :: "hashfn \<Rightarrow> env \<Rightarrow> (nat \<Rightarrow> fetch_result) \<Rightarrow> 'a node_scheme \<Rightarrow> 'a node_scheme" where
  "auditOnce h e net s =
     (let a = nd_auditor s in
      if au_frozen a then s
      else (case readCheckpoint a of
        None \<Rightarrow>
          (let (d', records) = getAllRecords e (nd_db s); tree = ledgerTree h records
           in s\<lparr>nd_db := d',
                nd_auditor := writeCheckpoint e \<lparr>cp_root = getRoot tree, cp_leafCount = int (getLeafCount tree),
                                                 cp_updatedAt = nowIso e\<rparr> a\<rparr>)
      | Some cp \<Rightarrow>
          (case fetchAuthoritativeState h e net (nd_notary s) of
             (n', Inl err) \<Rightarrow>
               s\<lparr>nd_notary := n',
                 nd_auditor := freeze h e (''EMERGENCY_SYSTEM_FREEZE: Remote consensus unreachable. Reason=''
                   @ (case err of TypeError m \<Rightarrow> m | RangeError m \<Rightarrow> m | JsError m \<Rightarrow> m)) a\<rparr>
           | (n', Inr remote) \<Rightarrow>
               let a1 = a\<lparr>au_latestNotary := Some remote\<rparr>; s1 = s\<lparr>nd_notary := n', nd_auditor := a1\<rparr>
               in if ns_root remote \<noteq> cp_root cp
                  then s1\<lparr>nd_auditor := freeze h e
                         (''State-omission/checkpoint-override detected: localRoot!=notaryRoot (seq=''
                          @ show_int (ns_sequenceNumber remote) @ '')'') a1\<rparr>
                  else (case storeFile (nd_db s) of
                      NoFile \<Rightarrow> s1\<lparr>nd_auditor := freeze h e ''Unable to read ledger store from disk'' a1\<rparr>
                    | Unparsable \<Rightarrow> s1\<lparr>nd_auditor := freeze h e ''Unable to read ledger store from disk'' a1\<rparr>
                    | EmptyText \<Rightarrow>
                        (let (d', records) = getAllRecords e (nd_db s)
                         in s1\<lparr>nd_db := d', nd_auditor := compare_ledger h e cp records a1\<rparr>)
                    | Parsed v \<Rightarrow>
                        if \<not> is_arr v
                        then s1\<lparr>nd_auditor := freeze h e ''Ledger store file is corrupted or not an array'' a1\<rparr>
                        else (let (d', records) = getAllRecords e (nd_db s)
                              in s1\<lparr>nd_db := d', nd_auditor := compare_ledger h e cp records a1\<rparr>)))))"

text \<open>
  \<^verbatim>\<open>unfreezeIfClean\<close> lifts the flag, audits once, and answers whether the audit froze the node
  again; the marker is removed only on success.
\<close>

definition unfreezeIfClean :: "hashfn \<Rightarrow> env \<Rightarrow> (nat \<Rightarrow> fetch_result) \<Rightarrow> string \<Rightarrow> 'a node_scheme \<Rightarrow> 'a node_scheme \<times> bool" where
  "unfreezeIfClean h e net reason s =
     (if \<not> au_frozen (nd_auditor s) then (s, True)
      else
        let s1 = auditOnce h e net (s\<lparr>nd_auditor := (nd_auditor s)\<lparr>au_frozen := False\<rparr>\<rparr>);
            a1 = nd_auditor s1
        in if au_frozen a1
           then (s1\<lparr>nd_auditor := a1\<lparr>au_log := fst (logEvent h e
                   (unfreeze_event ''FAILED'' (''LEDGER_UNFREEZE_REJECTED: '' @ reason)) (au_log a1))\<rparr>\<rparr>, False)
           else (s1\<lparr>nd_auditor := a1\<lparr>au_marker := None,
                   au_log := fst (logEvent h e
                     (unfreeze_event ''SUCCESS'' (''LEDGER_UNFREEZE_ACCEPTED: '' @ reason)) (au_log a1))\<rparr>\<rparr>, True))"

text \<open>The broadcast is best effort: its failure leaves the notary client as it was.\<close>

definition updateCheckpointNow ::
  "hashfn \<Rightarrow> env \<Rightarrow> (broadcast_request \<Rightarrow> fetch_result) \<Rightarrow> string \<Rightarrow> nat \<Rightarrow> 'a node_scheme \<Rightarrow> 'a node_scheme" where
  "updateCheckpointNow h e bnet root leafCount s =
     (let a' = writeCheckpoint e \<lparr>cp_root = root, cp_leafCount = int leafCount, cp_updatedAt = nowIso e\<rparr> (nd_auditor s);
          req = \<lparr>br_root = root, br_leafCount = leafCount, br_localUpdatedAt = nowIso e\<rparr>
      in s\<lparr>nd_auditor := a', nd_notary := fst (broadcastRootAnchor h e bnet req (nd_notary s))\<rparr>)"

definition getLatestNotaryAttestation ::
  "hashfn \<Rightarrow> env \<Rightarrow> (nat \<Rightarrow> fetch_result) \<Rightarrow> 'a node_scheme \<Rightarrow> 'a node_scheme \<times> notary_state option" where
  "getLatestNotaryAttestation h e net s =
     (let a = nd_auditor s in
      if au_latestNotary a \<noteq> None
         \<and> map_option ns_root (au_latestNotary a) = map_option cp_root (readCheckpoint a)
      then (s, au_latestNotary a)
      else (case fetchAuthoritativeState h e net (nd_notary s) of
              (n', Inr r) \<Rightarrow> (s\<lparr>nd_notary := n', nd_auditor := a\<lparr>au_latestNotary := Some r\<rparr>\<rparr>, Some r)
            | (n', Inl err) \<Rightarrow> (s\<lparr>nd_notary := n'\<rparr>, au_latestNotary a)))"

text \<open>\<^verbatim>\<open>DatabaseService.saveRecord\<close>: the write, then the checkpoint of the written ledger.\<close>

definition saveRecord ::
  "hashfn \<Rightarrow> env \<Rightarrow> (broadcast_request \<Rightarrow> fetch_result) \<Rightarrow> EscrowRecord \<Rightarrow> 'a node_scheme \<Rightarrow> 'a node_scheme \<times> unit js_result" where
  "saveRecord h e bnet rec s =
     (case writeRecord e rec (nd_db s) of
        (d', Inl err) \<Rightarrow> (s\<lparr>nd_db := d'\<rparr>, Inl err)
      | (d', Inr existing) \<Rightarrow>
          (case buildMerkleForLedger h existing of
             Inl err \<Rightarrow> (s\<lparr>nd_db := d'\<rparr>, Inl err)
           | Inr (tree, root, proofs) \<Rightarrow>
               (updateCheckpointNow h e bnet root (getLeafCount tree) (s\<lparr>nd_db := d'\<rparr>), Inr ())))"

section \<open>When an audit freezes the node\<close>

lemma freeze_frozen [simp]: "au_frozen (freeze h e r a)"
  by (simp add: freeze_def)

lemma freeze_keeps [simp]: "au_checkpoint (freeze h e r a) = au_checkpoint a" "au_latestNotary (freeze h e r a) = au_latestNotary a"
  by (simp_all add: freeze_def)

lemma writeCheckpoint_fields [simp]:
  "au_frozen (writeCheckpoint e cp a) = au_frozen a" "au_log (writeCheckpoint e cp a) = au_log a"
  "au_marker (writeCheckpoint e cp a) = au_marker a"
  by (simp_all add: writeCheckpoint_def)

lemma compare_ledger_frozen:
  "\<not> au_frozen a \<Longrightarrow> au_frozen (compare_ledger h e cp rs a) \<longleftrightarrow>
     int (length rs) \<noteq> cp_leafCount cp \<or> ledgerRoot h rs \<noteq> cp_root cp"
  by (simp add: compare_ledger_def Let_def)

lemma compare_ledger_checkpoint [simp]: "au_checkpoint (compare_ledger h e cp rs a) = au_checkpoint a"
  by (simp add: compare_ledger_def Let_def)

lemma auditOnce_when_frozen [simp]: "au_frozen (nd_auditor s) \<Longrightarrow> auditOnce h e net s = s"
  by (simp add: auditOnce_def)

definition store_readable :: "db_state \<Rightarrow> bool" where
  "store_readable d \<longleftrightarrow> (storeFile d = EmptyText \<or> (\<exists>vs. storeFile d = Parsed (JArr vs)))"

lemma auditOnce_clean_iff:
  assumes "\<not> au_frozen (nd_auditor s)" "readCheckpoint (nd_auditor s) = Some cp"
  shows "\<not> au_frozen (nd_auditor (auditOnce h e net s)) \<longleftrightarrow>
     (\<exists>remote. snd (fetchAuthoritativeState h e net (nd_notary s)) = Inr remote \<and> ns_root remote = cp_root cp)
     \<and> store_readable (nd_db s)
     \<and> int (length (snd (getAllRecords e (nd_db s)))) = cp_leafCount cp
     \<and> ledgerRoot h (snd (getAllRecords e (nd_db s))) = cp_root cp"
proof (cases "fetchAuthoritativeState h e net (nd_notary s)")
  case (Pair n' r)
  show ?thesis
  proof (cases r)
    case (Inl err)
    then show ?thesis using Pair assms by (simp add: auditOnce_def Let_def)
  next
    case (Inr remote)
    then show ?thesis
      using Pair assms
      by (cases "storeFile (nd_db s)")
         (auto simp: auditOnce_def Let_def store_readable_def compare_ledger_frozen is_arr_iff split: prod.splits)
  qed
qed

lemma readCheckpoint_write:
  "diskOk e checkpoint_file \<Longrightarrow> cp_root cp \<noteq> '''' \<Longrightarrow> cp_updatedAt cp \<noteq> '''' \<Longrightarrow>
   readCheckpoint (writeCheckpoint e cp a) = Some cp"
  by (simp add: readCheckpoint_def writeCheckpoint_def)

lemma readCheckpoint_frozen_update [simp]:
  "readCheckpoint (a\<lparr>au_frozen := b\<rparr>) = readCheckpoint a"
  by (simp add: readCheckpoint_def)

definition good_env :: "env \<Rightarrow> bool" where
  "good_env e \<longleftrightarrow> diskOk e ledger_file \<and> diskOk e checkpoint_file \<and> nowIso e \<noteq> ''''"

lemma hex_nonempty: "isHexDigest (JStr s) \<Longrightarrow> s \<noteq> ''''"
  by (auto simp: isHexDigest_def)

lemma saveRecord_checkpoint:
  assumes "hex_hash h" "good_env e" "ledger_ready (nd_db s) rs" "saveRecord h e bnet rec s = (s', res)"
  shows "res = Inr ()" and "ledger_ready (nd_db s') (upsert rec rs)"
    and "readCheckpoint (nd_auditor s') =
           Some \<lparr>cp_root = ledgerRoot h (upsert rec rs), cp_leafCount = int (length (upsert rec rs)), cp_updatedAt = nowIso e\<rparr>"
    and "au_frozen (nd_auditor s') = au_frozen (nd_auditor s)"
proof -
  obtain d' where d': "writeRecord e rec (nd_db s) = (d', Inr (upsert rec rs))" "ledger_ready d' (upsert rec rs)"
    using writeRecord_ready [OF assms(3), of e rec] assms(2) by (auto simp: good_env_def)
  have root: "ledgerRoot h (upsert rec rs) \<noteq> ''''"
    using hex_nonempty ledgerRoot_hex [OF assms(1)] by blast
  have s': "s' = updateCheckpointNow h e bnet (ledgerRoot h (upsert rec rs)) (length (upsert rec rs)) (s\<lparr>nd_db := d'\<rparr>)"
    and "res = Inr ()"
    using assms(4) d'(1) by (auto simp: saveRecord_def buildMerkle_eq)
  then show "res = Inr ()" "ledger_ready (nd_db s') (upsert rec rs)"
    "au_frozen (nd_auditor s') = au_frozen (nd_auditor s)"
    using d'(2) by (simp_all add: updateCheckpointNow_def Let_def)
  show "readCheckpoint (nd_auditor s') =
           Some \<lparr>cp_root = ledgerRoot h (upsert rec rs), cp_leafCount = int (length (upsert rec rs)), cp_updatedAt = nowIso e\<rparr>"
    using assms(2) root by (simp add: s' updateCheckpointNow_def Let_def readCheckpoint_write good_env_def)
qed

section \<open>What the audit protects\<close>

definition same_committed :: "EscrowRecord \<Rightarrow> EscrowRecord \<Rightarrow> bool" where
  "same_committed r r' \<longleftrightarrow>
     transactionId r = transactionId r' \<and> escrowRecordLeafHash r = escrowRecordLeafHash r' \<and>
     signature r = signature r' \<and> status r = status r' \<and> timestamp r = timestamp r'"

definition ledger_texts :: "hashfn \<Rightarrow> EscrowRecord list \<Rightarrow> string set" where
  "ledger_texts h rs =
     set (tree_texts h (map (ledgerLeafHash h) rs)) \<union> set (map (\<lambda>r. stableStringify (leaf_json r)) rs)"

lemma hex_no_bar: "isHexDigest (JStr s) \<Longrightarrow> no_bar s"
  by (simp add: isHexDigest_def no_bar_def all_hex_no_bar)

lemma ledgerRoot_binding:
  assumes "hex_hash h" "inj_on h (ledger_texts h rs \<union> ledger_texts h rs')"
    and "length rs = length rs'" "ledgerRoot h rs = ledgerRoot h rs'"
  shows "list_all2 same_committed rs rs'"
proof -
  have bar: "no_bar (h s)" for s using assms(1) hex_no_bar by (auto simp: hex_hash_def)
  then have bars: "list_all no_bar (map (ledgerLeafHash h) xs)" for xs
    by (simp add: list_all_iff ledgerLeafHash_def sha256HexFromJsonStable_def)
  have "map (ledgerLeafHash h) rs = map (ledgerLeafHash h) rs'"
  proof (rule getRoot_inj [OF _ bars bars])
    show "inj_on h (set (tree_texts h (map (ledgerLeafHash h) rs)) \<union> set (tree_texts h (map (ledgerLeafHash h) rs')))"
      using assms(2) by (rule inj_on_subset) (auto simp: ledger_texts_def)
  qed (use assms bar in simp_all)
  then have eq: "ledgerLeafHash h (rs ! i) = ledgerLeafHash h (rs' ! i)" if "i < length rs" for i
    using that assms(3) by (metis nth_map)
  have "same_committed (rs ! i) (rs' ! i)" if i: "i < length rs" for i
  proof -
    have "stableStringify (leaf_json (rs ! i)) \<in> ledger_texts h rs \<union> ledger_texts h rs'"
      "stableStringify (leaf_json (rs' ! i)) \<in> ledger_texts h rs \<union> ledger_texts h rs'"
      using i assms(3) by (auto simp: ledger_texts_def)
    with eq [OF i] assms(2) have "stableStringify (leaf_json (rs ! i)) = stableStringify (leaf_json (rs' ! i))"
      by (simp add: ledgerLeafHash_def sha256HexFromJsonStable_def inj_on_def)
    then show ?thesis by (simp only: leaf_text_inj same_committed_def)
  qed
  then show ?thesis using assms(3) by (simp add: list_all2_conv_all_nth)
qed

lemma ledgerRoot_ignores_locks:
  assumes "list_all2 same_committed rs rs'"
  shows "ledgerRoot h rs = ledgerRoot h rs'"
proof -
  have "map (ledgerLeafHash h) rs = map (ledgerLeafHash h) rs'"
    using assms
    by (induction rs rs' rule: list_all2_induct)
       (simp_all add: same_committed_def ledgerLeafHash_def sha256HexFromJsonStable_def leaf_json_def)
  then show ?thesis by simp
qed

section \<open>Properties\<close>

text \<open>
  A ledger write moves the checkpoint with it: after a successful save the record is the one
  read back under its id, every other id reads as before, ids stay distinct, and an audit with
  a notary that reports the new root leaves the node unfrozen.
\<close>

theorem saveRecord_audits_clean:
  assumes "hex_hash h" "good_env e" "ledger_ready (nd_db s) rs" "distinct (map transactionId rs)"
    and "\<not> au_frozen (nd_auditor s)"
    and "saveRecord h e bnet rec s = (s', res)"
    and "snd (fetchAuthoritativeState h e2 net (nd_notary s')) = Inr remote"
    and "ns_root remote = ledgerRoot h (upsert rec rs)"
  shows "res = Inr ()
     \<and> snd (getRecord e2 tid (nd_db s')) = (if tid = transactionId rec then Some rec else snd (getRecord e2 tid (nd_db s)))
     \<and> distinct (map transactionId (snd (getAllRecords e2 (nd_db s'))))
     \<and> \<not> au_frozen (nd_auditor (auditOnce h e2 net s'))"
proof -
  note saved = saveRecord_checkpoint [OF assms(1,2,3,6)]
  have "store_readable (nd_db s')" using saved(2) by (simp add: ledger_ready_def store_readable_def)
  then show ?thesis
    using saved assms auditOnce_clean_iff [of s' _ h e2 net]
    by (simp add: find_upsert distinct_upsert)
qed

text \<open>
  C1. Tampering with the ledger file is caught: if, after a save, the records on disk are
  replaced and the next audit does not freeze the node, then the new records agree with the saved
  ones, position by position, in every field the leaf hash commits to. The hash is only assumed
  free of collisions on the strings the two ledgers hash.
\<close>

theorem tampered_ledger_freezes:
  assumes "hex_hash h" "good_env e" "ledger_ready (nd_db s) rs"
    and "\<not> au_frozen (nd_auditor s)"
    and "saveRecord h e bnet rec s = (s1, res)"
    and "s2 = s1\<lparr>nd_db := (nd_db s1)\<lparr>storeFile := Parsed (JArr (map encodeRecord rs'))\<rparr>\<rparr>"
    and "inj_on h (ledger_texts h (upsert rec rs) \<union> ledger_texts h rs')"
    and "\<not> list_all2 same_committed (upsert rec rs) rs'"
  shows "au_frozen (nd_auditor (auditOnce h e2 net s2))"
proof (rule ccontr)
  assume clean: "\<not> au_frozen (nd_auditor (auditOnce h e2 net s2))"
  note saved = saveRecord_checkpoint [OF assms(1,2,3,5)]
  have ready: "ledger_ready (nd_db s2) rs'" using saved(2) by (simp add: assms(6) ledger_ready_def)
  have "int (length rs') = int (length (upsert rec rs)) \<and> ledgerRoot h rs' = ledgerRoot h (upsert rec rs)"
    using clean auditOnce_clean_iff [of s2 _ h e2 net] saved(3,4) assms(4) ready
    by (simp add: assms(6))
  then have "list_all2 same_committed (upsert rec rs) rs'"
    using ledgerRoot_binding [OF assms(1,7)] by simp
  then show False using assms(8) by simp
qed

text \<open>
  The audit is a function of the committed fields only: two ledgers that agree on them, record by
  record, are audited alike, whatever their time-lock windows are.
\<close>

theorem timelocks_not_audited:
  assumes "list_all2 same_committed rs rs'" "\<not> au_frozen (nd_auditor s)"
    and "readCheckpoint (nd_auditor s) = Some cp"
    and "ledger_ready (nd_db s) rs" "ledger_ready d' rs'"
  shows "au_frozen (nd_auditor (auditOnce h e net (s\<lparr>nd_db := d'\<rparr>))) = au_frozen (nd_auditor (auditOnce h e net s))"
proof -
  have "store_readable d'" "store_readable (nd_db s)"
    using assms(4,5) by (simp_all add: ledger_ready_def store_readable_def)
  then show ?thesis
    using auditOnce_clean_iff [of "s\<lparr>nd_db := d'\<rparr>" cp h e net] auditOnce_clean_iff [of s cp h e net] assms
      ledgerRoot_ignores_locks [OF assms(1)] list_all2_lengthD [OF assms(1)]
    by simp blast
qed

text \<open>
  A frozen node is released by \<^verbatim>\<open>unfreezeIfClean\<close> exactly when the audit it runs is clean, and a
  refused attempt leaves it frozen. Without a checkpoint file the audit has nothing to compare
  with: it accepts whatever ledger is on disk and adopts its root.
\<close>

theorem unfreezeIfClean_outcome:
  assumes "au_frozen (nd_auditor s)" "unfreezeIfClean h e net reason s = (s', ok)"
  shows "(ok \<longleftrightarrow> \<not> au_frozen (nd_auditor s'))
     \<and> (ok \<longrightarrow> au_marker (nd_auditor s') = None)
     \<and> (readCheckpoint (nd_auditor s) = None \<longrightarrow> ok)
     \<and> (\<forall>cp. readCheckpoint (nd_auditor s) = Some cp \<longrightarrow>
          (ok \<longleftrightarrow> (\<exists>remote. snd (fetchAuthoritativeState h e net (nd_notary s)) = Inr remote \<and> ns_root remote = cp_root cp)
            \<and> store_readable (nd_db s)
            \<and> int (length (snd (getAllRecords e (nd_db s)))) = cp_leafCount cp
            \<and> ledgerRoot h (snd (getAllRecords e (nd_db s))) = cp_root cp))"
proof -
  let ?s0 = "s\<lparr>nd_auditor := (nd_auditor s)\<lparr>au_frozen := False\<rparr>\<rparr>"
  have ok: "(ok \<longleftrightarrow> \<not> au_frozen (nd_auditor (auditOnce h e net ?s0)))
      \<and> au_frozen (nd_auditor s') = au_frozen (nd_auditor (auditOnce h e net ?s0))
      \<and> (ok \<longrightarrow> au_marker (nd_auditor s') = None)"
    using assms by (auto simp: unfreezeIfClean_def Let_def split: if_splits)
  have "\<not> au_frozen (nd_auditor (auditOnce h e net ?s0))" if "readCheckpoint (nd_auditor s) = None"
    using that by (auto simp: auditOnce_def Let_def split: prod.splits)
  moreover note auditOnce_clean_iff [of ?s0 _ h e net]
  ultimately show ?thesis using ok by auto
qed

section \<open>Concrete instances\<close>

definition sample_env :: env where
  "sample_env = \<lparr>nowMs = 1000, nowIso = ''2024-01-01T00:00:00.000Z'', diskOk = (\<lambda>f. True)\<rparr>"

definition sample_hash :: hashfn where
  "sample_hash s = replicate 64 CHR ''a''"

definition sample_record :: EscrowRecord where
  "sample_record = \<lparr>transactionId = ''t1'', escrowRecordLeafHash = ''ab'', signature = ''cd'', status = LOCKED,
     validAfterMs = 10, validUntilMs = 90, timestamp = ''2024''\<rparr>"

definition sample_notary_state :: notary_state where
  "sample_notary_state = \<lparr>ns_sequenceNumber = 1, ns_anchoringTimestamp = ''2024'', ns_witnessSignatures = [],
     ns_root = replicate 64 CHR ''a''\<rparr>"

definition sample_net :: "nat \<Rightarrow> fetch_result" where
  "sample_net i = Fetched 200 (JObj (notary_members sample_notary_state @ []))"

definition sample_node :: node where
  "sample_node =
     \<lparr>nd_db = \<lparr>storeInitialized = True, storeFile = Parsed (JArr (map encodeRecord []))\<rparr>,
      nd_notary = new_notary NoFile,
      nd_auditor = \<lparr>au_frozen = False, au_checkpoint = NoFile, au_marker = None, au_latestNotary = None, au_log = []\<rparr>\<rparr>"

lemma sample_hash_hex [simp]: "hex_hash sample_hash"
  by (simp add: hex_hash_def sample_hash_def isHexDigest_def hex_digit_ci_def list_all_iff)

lemma sample_env_good [simp]: "good_env sample_env"
  by (simp add: good_env_def sample_env_def)

lemma sample_ready [simp]: "ledger_ready (nd_db sample_node) []"
  by (simp add: ledger_ready_def sample_node_def)

lemma sample_not_frozen [simp]: "\<not> au_frozen (nd_auditor sample_node)"
  by (simp add: sample_node_def)

lemma sample_fetch [simp]: "snd (fetchAuthoritativeState h e sample_net n) = Inr sample_notary_state"
  by (simp add: fetchAuthoritativeState_def numeral_3_eq_3 getAuthoritativeState_def sample_net_def resp_ok_def
      validate_members sample_notary_state_def del: append_Nil2)

lemma sample_root [simp]:
  "getRoot (newMerkleTree sample_hash [ledgerLeafHash sample_hash r]) = ns_root sample_notary_state"
  by (simp add: getRoot_newMerkleTree build_layers_base ledgerLeafHash_def sha256HexFromJsonStable_def
      sample_hash_def sample_notary_state_def)

lemma sample_record_id [simp]: "transactionId sample_record = ''t1''"
  by (simp add: sample_record_def)

theorem saveRecord_audits_clean_witness:
  "let s' = fst (saveRecord sample_hash sample_env (\<lambda>r. NetworkError ''down'') sample_record sample_node)
   in snd (getRecord sample_env ''t1'' (nd_db s')) = Some sample_record
      \<and> \<not> au_frozen (nd_auditor (auditOnce sample_hash sample_env sample_net s'))"
proof -
  obtain s' res where s': "saveRecord sample_hash sample_env (\<lambda>r. NetworkError ''down'') sample_record sample_node = (s', res)"
    by (cases "saveRecord sample_hash sample_env (\<lambda>r. NetworkError ''down'') sample_record sample_node")
  show ?thesis
    using saveRecord_audits_clean [of sample_hash sample_env sample_node "[]" _ sample_record s' res sample_env sample_net
        sample_notary_state "''t1''"] s'
    by simp
qed

theorem tampered_ledger_freezes_witness:
  "let s1 = fst (saveRecord sample_hash sample_env (\<lambda>r. NetworkError ''down'') sample_record sample_node);
       s2 = s1\<lparr>nd_db := (nd_db s1)\<lparr>storeFile := Parsed (JArr (map encodeRecord []))\<rparr>\<rparr>
   in au_frozen (nd_auditor (auditOnce sample_hash sample_env sample_net s2))"
proof -
  obtain s1 res where s1: "saveRecord sample_hash sample_env (\<lambda>r. NetworkError ''down'') sample_record sample_node = (s1, res)"
    by (cases "saveRecord sample_hash sample_env (\<lambda>r. NetworkError ''down'') sample_record sample_node")
  have "inj_on sample_hash (ledger_texts sample_hash [sample_record] \<union> ledger_texts sample_hash [])"
    by (simp add: ledger_texts_def tree_texts.simps)
  then show ?thesis
    using tampered_ledger_freezes [of sample_hash sample_env sample_node "[]" _ sample_record s1 res _ "[]" sample_env sample_net] s1
    by simp
qed

definition sample_db :: "EscrowRecord list \<Rightarrow> db_state" where
  "sample_db rs = \<lparr>storeInitialized = True, storeFile = Parsed (JArr (map encodeRecord rs))\<rparr>"

definition sample_saved_node :: node where
  "sample_saved_node = sample_node\<lparr>nd_db := sample_db [sample_record],
     nd_auditor := writeCheckpoint sample_env
       \<lparr>cp_root = ns_root sample_notary_state, cp_leafCount = 1, cp_updatedAt = ''2024''\<rparr> (nd_auditor sample_node)\<rparr>"

theorem timelocks_not_audited_witness:
  "au_frozen (nd_auditor (auditOnce sample_hash sample_env sample_net
       (sample_saved_node\<lparr>nd_db := sample_db [sample_record\<lparr>validUntilMs := 10 ^ 9\<rparr>]\<rparr>)))
   = au_frozen (nd_auditor (auditOnce sample_hash sample_env sample_net sample_saved_node))"
  by (rule timelocks_not_audited [of "[sample_record]" "[sample_record\<lparr>validUntilMs := 10 ^ 9\<rparr>]" _
        "\<lparr>cp_root = ns_root sample_notary_state, cp_leafCount = 1, cp_updatedAt = ''2024''\<rparr>"])
     (simp_all add: same_committed_def ledger_ready_def sample_saved_node_def sample_db_def sample_node_def
        readCheckpoint_write sample_env_def sample_notary_state_def)

theorem unfreezeIfClean_outcome_witness:
  "snd (unfreezeIfClean sample_hash sample_env sample_net ''ritual''
      (sample_node\<lparr>nd_auditor := (nd_auditor sample_node)\<lparr>au_frozen := True\<rparr>\<rparr>))"
proof -
  let ?s = "sample_node\<lparr>nd_auditor := (nd_auditor sample_node)\<lparr>au_frozen := True\<rparr>\<rparr>"
  obtain s' ok where r: "unfreezeIfClean sample_hash sample_env sample_net ''ritual'' ?s = (s', ok)"
    by (cases "unfreezeIfClean sample_hash sample_env sample_net ''ritual'' ?s")
  have "readCheckpoint (nd_auditor ?s) = None" by (simp add: sample_node_def readCheckpoint_def)
  then show ?thesis using unfreezeIfClean_outcome [OF _ r] r by auto
qed

end
