(* ===== verification/Crypto.thy ===== *)
theory Crypto
  imports Json
begin

text \<open>
  Signature primitives: the RSA check of \<^verbatim>\<open>services/CryptoService.ts\<close>, the lattice-signature mock of
  \<^verbatim>\<open>services/merkle/pqcEngine.ts\<close> and the proof mock of \<^verbatim>\<open>services/merkle/zkProofEngine.ts\<close>. The
  asymmetric primitive, SHA-256 (on texts and on bytes) and the reading of a number from a
  text are arguments.
\<close>

section \<open>Signatures\<close>

text \<open>
  \<^verbatim>\<open>crypto.createVerify('sha256')\<close>: None when the key is malformed, else whether the signature
  bytes verify.
\<close>

type_synonym verify_fn = "string \<Rightarrow> nat list \<Rightarrow> string \<Rightarrow> bool option"

definition verifySignature :: "verify_fn \<Rightarrow> string \<Rightarrow> string \<Rightarrow> string \<Rightarrow> bool" where
  "verifySignature vf data signatureHex publicKeyPem =
     (if data = '''' \<or> signatureHex = '''' \<or> publicKeyPem = '''' then False
      else if \<not> list_all hex_digit_ci signatureHex \<or> length signatureHex mod 2 \<noteq> 0 then False
      else if hex_bytes signatureHex = [] then False
      else (case vf data (hex_bytes signatureHex) publicKeyPem of None \<Rightarrow> False | Some b \<Rightarrow> b))"

section \<open>Lattice signatures\<close>

definition starts_with :: "string \<Rightarrow> string \<Rightarrow> bool" where
  "starts_with p s \<longleftrightarrow> take (length p) s = p"

definition after :: "string \<Rightarrow> string \<Rightarrow> string" where
  "after p s = drop (length p) s"

text \<open>\<^verbatim>\<open>parseHexLike\<close>; the callers also refuse the empty text, which is falsy.\<close>

definition parseHexLike :: "string \<Rightarrow> string option" where
  "parseHexLike s = (if list_all hex_digit_ci s \<and> length s mod 2 = 0 then Some s else None)"

definition trimmed_parts :: "char \<Rightarrow> string \<Rightarrow> string list" where
  "trimmed_parts c s = filter (\<lambda>p. p \<noteq> []) (map js_trim (split_at_char c s))"

record mldsa_key =
  mk_token :: string
  mk_idx :: int
  mk_seedHex :: string
  mk_k :: int
  mk_l :: int

definition key_params :: "(string \<Rightarrow> int option) \<Rightarrow> string \<Rightarrow> (int \<times> int) option" where
  "key_params num params =
     (let kv = trimmed_parts CHR '','' params
      in (case (find (starts_with ''k='') kv, find (starts_with ''l='') kv) of
            (Some kPart, Some lPart) \<Rightarrow>
              (case (num (after ''k='' kPart), num (after ''l='' lPart)) of
                 (Some kVal, Some lVal) \<Rightarrow>
                   if kVal \<le> 0 \<or> lVal \<le> 0 \<or> kVal > 8 \<or> lVal > 8 then None else Some (kVal, lVal)
               | _ \<Rightarrow> None)
          | _ \<Rightarrow> None))"

type_synonym key_fields = "int option \<times> string option \<times> (int \<times> int) option"

fun key_parts :: "(string \<Rightarrow> int option) \<Rightarrow> string list \<Rightarrow> key_fields \<Rightarrow> key_fields option" where
  "key_parts num [] st = Some st"
| "key_parts num (p # ps) (idx, seed, kl) =
     (if starts_with ''idx='' p then
        (case num (after ''idx='' p) of
           None \<Rightarrow> None
         | Some v \<Rightarrow> if v < 0 \<or> v > 1000000 then None else key_parts num ps (Some v, seed, kl))
      else if starts_with ''seed='' p then
        (case parseHexLike (after ''seed='' p) of
           None \<Rightarrow> None
         | Some hx \<Rightarrow> if hx = [] then None else key_parts num ps (idx, Some hx, kl))
      else if starts_with ''params='' p then
        (case key_params num (after ''params='' p) of
           None \<Rightarrow> None
         | Some v \<Rightarrow> key_parts num ps (idx, seed, Some v))
      else None)"

definition parseMLDSAPublicKey :: "(string \<Rightarrow> int option) \<Rightarrow> string \<Rightarrow> mldsa_key option" where
  "parseMLDSAPublicKey num token =
     (let trimmed = js_trim token; parts = trimmed_parts CHR '';'' (after ''MLDSA-PUB:'' trimmed)
      in if token = [] then None
         else if \<not> starts_with ''MLDSA-PUB:'' trimmed then None
         else if length parts < 3 then None
         else (case key_parts num parts (None, None, None) of
                 Some (Some idx, Some seed, Some (k, l)) \<Rightarrow>
                   Some \<lparr>mk_token = trimmed, mk_idx = idx, mk_seedHex = seed, mk_k = k, mk_l = l\<rparr>
               | _ \<Rightarrow> None))"

fun sig_parts :: "(string \<Rightarrow> int option) \<Rightarrow> string list \<Rightarrow> int option \<times> string option \<Rightarrow> (int option \<times> string option) option" where
  "sig_parts num [] st = Some st"
| "sig_parts num (p # ps) (idx, sg) =
     (if starts_with ''idx='' p then
        (case num (after ''idx='' p) of
           None \<Rightarrow> None
         | Some v \<Rightarrow> if v < 0 \<or> v > 1000000 then None else sig_parts num ps (Some v, sg))
      else if starts_with ''sig='' p then
        (case parseHexLike (after ''sig='' p) of
           None \<Rightarrow> None
         | Some hx \<Rightarrow> if hx = [] then None else sig_parts num ps (idx, Some hx))
      else None)"

text \<open>The comparison that touches every byte: a running OR of the byte differences.\<close>

fun byte_diff :: "nat list \<Rightarrow> nat list \<Rightarrow> nat \<Rightarrow> nat" where
  "byte_diff (a # as) (b # bs) d = byte_diff as bs (or d (xor a b))"
| "byte_diff _ _ d = d"

definition constantTimeEqual :: "nat list \<Rightarrow> nat list \<Rightarrow> bool" where
  "constantTimeEqual a b \<longleftrightarrow> (if length a \<noteq> length b then False else byte_diff a b 0 = 0)"

definition matrix_coeff :: "nat list \<Rightarrow> nat \<Rightarrow> nat \<Rightarrow> nat" where
  "matrix_coeff hashBytes i j =
     (let ex = (i + 1) * (j + 1)
      in if hashBytes = [] then 0 else (hashBytes ! ((ex - 1) mod length hashBytes) + ex) mod 256)"

definition matrix_bytes :: "nat list \<Rightarrow> int \<Rightarrow> int \<Rightarrow> nat list" where
  "matrix_bytes hashBytes k l = concat (map (\<lambda>i. map (matrix_coeff hashBytes i) [0..<nat l]) [0..<nat k])"

definition mldsa_commitment :: "(nat list \<Rightarrow> nat list) \<Rightarrow> string \<Rightarrow> mldsa_key \<Rightarrow> nat list" where
  "mldsa_commitment hb messageHashHex pk =
     (let hashBytes = hex_bytes messageHashHex
      in hb (matrix_bytes hashBytes (mk_k pk) (mk_l pk) @ hashBytes @ hex_bytes (mk_seedHex pk)))"

text \<open>The verdict and the number of bytes scrubbed.\<close>

definition verifyMockMLDSA ::
  "(nat list \<Rightarrow> nat list) \<Rightarrow> (string \<Rightarrow> int option) \<Rightarrow> string \<Rightarrow> string \<Rightarrow> mldsa_key \<Rightarrow> bool \<times> nat" where
  "verifyMockMLDSA hb num messageHashHex pqcSignature pk =
     (let trimmed = js_trim pqcSignature; parts = trimmed_parts CHR '';'' (after ''MLDSA-SIG:'' trimmed)
      in if pqcSignature = [] then (False, 0)
         else if \<not> starts_with ''MLDSA-SIG:'' trimmed then (False, 0)
         else if length parts \<noteq> 2 then (False, 0)
         else (case sig_parts num parts (None, None) of
                 Some (Some sigIdx, Some sigHex) \<Rightarrow>
                   if sigIdx \<noteq> mk_idx pk then (False, 0)
                   else
                     let hashBytes = hex_bytes messageHashHex;
                         commitmentHash = mldsa_commitment hb messageHashHex pk;
                         expected = hex_bytes sigHex
                     in if length expected \<noteq> length commitmentHash then (False, 0)
                        else (constantTimeEqual commitmentHash expected,
                              length hashBytes + length (matrix_bytes hashBytes (mk_k pk) (mk_l pk)) + length commitmentHash)
               | _ \<Rightarrow> (False, 0)))"

section \<open>Shielded commitments and the proof mock\<close>

definition commitment_text :: "string \<Rightarrow> string \<Rightarrow> int \<Rightarrow> string \<Rightarrow> string" where
  "commitment_text tenantId account amount blindingSalt =
     ''tenantId='' @ tenantId @ ''|account='' @ account @ ''|amount='' @ show_int amount @ ''|blindingSalt='' @ blindingSalt"

definition computeCommitment :: "hashfn \<Rightarrow> string \<Rightarrow> string \<Rightarrow> int \<Rightarrow> string \<Rightarrow> string" where
  "computeCommitment h tenantId account amount blindingSalt = h (commitment_text tenantId account amount blindingSalt)"

definition isHexLike :: "jsval \<Rightarrow> bool" where
  "isHexLike x = (case x of JStr s \<Rightarrow> s \<noteq> [] \<and> list_all hex_digit_ci s | _ \<Rightarrow> False)"

definition arr_of_length :: "nat \<Rightarrow> jsval \<Rightarrow> bool" where
  "arr_of_length n v \<longleftrightarrow> is_arr v \<and> length (the_arr v) = n"

definition proof_fingerprint :: "hashfn \<Rightarrow> jsval \<Rightarrow> string" where
  "proof_fingerprint h prf =
     h (canonicalizeJsonStable (JObj [(''pi_a'', member prf ''pi_a''), (''pi_b'', member prf ''pi_b''), (''pi_c'', member prf ''pi_c'')]))"

definition verifyProofMock :: "hashfn \<Rightarrow> jsval \<Rightarrow> string \<Rightarrow> string \<Rightarrow> bool" where
  "verifyProofMock h prf publicCommitment allowedTenantHash =
     (if \<not> truthy prf then False
      else if length publicCommitment \<noteq> 64 then False
      else if length allowedTenantHash \<noteq> 64 then False
      else if \<not> arr_of_length 2 (member prf ''pi_a'') then False
      else if \<not> arr_of_length 2 (member prf ''pi_c'') then False
      else if \<not> arr_of_length 2 (member prf ''pi_b'') then False
      else if \<not> list_all (arr_of_length 2) (the_arr (member prf ''pi_b'')) then False
      else if \<not> list_all isHexLike (the_arr (member prf ''pi_a'') @ concat (map the_arr (the_arr (member prf ''pi_b'')))
                 @ the_arr (member prf ''pi_c'')) then False
      else take 8 (proof_fingerprint h prf) = take 8 publicCommitment)"

section \<open>Facts\<close>

lemma nat_or_zero: "or m n = (0::nat) \<longleftrightarrow> m = 0 \<and> n = 0"
  by (simp add: bit_eq_iff bit_or_iff) blast

lemma nat_xor_zero: "xor m n = (0::nat) \<longleftrightarrow> m = n"
  by (simp add: bit_eq_iff bit_xor_iff)

lemma byte_diff_zero:
  "length a = length b \<Longrightarrow> byte_diff a b d = 0 \<longleftrightarrow> d = 0 \<and> a = b"
  by (induction a b arbitrary: d rule: list_induct2) (simp_all add: nat_or_zero nat_xor_zero conj_assoc)

lemma constantTimeEqual_iff: "constantTimeEqual a b \<longleftrightarrow> a = b"
  by (auto simp: constantTimeEqual_def byte_diff_zero)

lemma length_matrix_bytes:
  "length (matrix_bytes hs k l) = nat k * nat l"
  by (simp add: matrix_bytes_def length_concat comp_def sum_list_triv)

lemma verifySignature_hex:
  "verifySignature vf data sg key \<Longrightarrow> sg \<noteq> [] \<and> list_all hex_digit_ci sg \<and> even (length sg)"
  by (auto simp: verifySignature_def split: if_splits)

lemma verifyMockMLDSA_True:
  assumes "fst (verifyMockMLDSA hb num mh sg pk)"
  shows "\<exists>sigHex. sig_parts num (trimmed_parts CHR '';'' (after ''MLDSA-SIG:'' (js_trim sg))) (None, None) = Some (Some (mk_idx pk), Some sigHex)
           \<and> hex_bytes sigHex = mldsa_commitment hb mh pk"
  using assms
  by (auto simp: verifyMockMLDSA_def Let_def constantTimeEqual_iff split: if_splits option.splits prod.splits)

end
