(* ===== verification/AdminRecovery.thy ===== *)
theory AdminRecovery
  imports Auditor Crypto
begin

text \<open>
  The multi-signature recovery ritual of \<^verbatim>\<open>services/AdminRecoveryService.ts\<close>: threshold verification over distinct officers, replay
  protection by request id, and the healing of the ledger to the longest prefix whose Merkle root
  is the notary's. The asymmetric primitive and the parsing of dates are arguments.
\<close>

section \<open>Payload and configuration\<close>

record recovery_signature =
  officerPublicKey :: string
  signatureHex :: string

record recovery_payload =
  requestId :: string
  rp_action :: string
  expiresAt :: string
  signatures :: "recovery_signature list"

record recovery_config =
  recoveryOfficerPublicKeys :: "string list"
  thresholdM :: int

text \<open>
  The constructor: keys from a comma-separated variable, the threshold from another. \<open>num\<close> is
  \<^verbatim>\<open>Math.floor(Number(text))\<close>, None when it is not finite; an unset variable is the empty text.
\<close>

definition load_config :: "(string \<Rightarrow> int option) \<Rightarrow> string \<Rightarrow> string \<Rightarrow> recovery_config" where
  "load_config num keysEnv mEnv =
     \<lparr>recoveryOfficerPublicKeys = filter (\<lambda>s. s \<noteq> '''') (map js_trim (split_at_char CHR '','' keysEnv)),
      thresholdM = (case (if mEnv = '''' then None else num mEnv) of None \<Rightarrow> 0 | Some m \<Rightarrow> m)\<rparr>"

definition recoveryMessageToVerify :: "hashfn \<Rightarrow> recovery_payload \<Rightarrow> string" where
  "recoveryMessageToVerify h p =
     h (''ADMIN_RECOVERY|'' @ canonicalizeJsonStable (JObj
          [(''requestId'', JStr (requestId p)), (''action'', JStr (rp_action p)), (''expiresAt'', JStr (expiresAt p))]))"

text \<open>The loop over the signatures: the keys counted so far, in order.\<close>

fun count_officers ::
  "(string \<Rightarrow> string \<Rightarrow> bool) \<Rightarrow> string list \<Rightarrow> recovery_signature list \<Rightarrow> string list \<Rightarrow> string list" where
  "count_officers ok officers [] seen = seen"
| "count_officers ok officers (sig # sigs) seen =
     (if officerPublicKey sig = '''' \<or> signatureHex sig = '''' then count_officers ok officers sigs seen
      else if officerPublicKey sig \<notin> set officers then count_officers ok officers sigs seen
      else if officerPublicKey sig \<in> set seen then count_officers ok officers sigs seen
      else if ok (signatureHex sig) (officerPublicKey sig)
      then count_officers ok officers sigs (seen @ [officerPublicKey sig])
      else count_officers ok officers sigs seen)"

definition verifyMultiSig ::
  "hashfn \<Rightarrow> verify_fn \<Rightarrow> (string \<Rightarrow> int option) \<Rightarrow> env \<Rightarrow> recovery_config \<Rightarrow> recovery_payload \<Rightarrow> bool" where
  "verifyMultiSig h vf parseIso e c p =
     (if rp_action p \<noteq> ''LEDGER_UNFREEZE_RITUAL'' then False
      else (case parseIso (expiresAt p) of
              None \<Rightarrow> False
            | Some expiresMs \<Rightarrow>
                if expiresMs \<le> nowMs e then False
                else thresholdM c \<le>
                  int (length (count_officers (verifySignature vf (recoveryMessageToVerify h p))
                    (recoveryOfficerPublicKeys c) (signatures p) []))))"

section \<open>Replay ledger and healing\<close>

record recovery_node = node +
  rn_requests :: json_file

definition requests_file :: string where
  "requests_file = ''admin-recovery-requests.json''"

definition readRecoveryRequests :: "recovery_node \<Rightarrow> string list" where
  "readRecoveryRequests s = (case rn_requests s of Parsed (JArr vs) \<Rightarrow> map js_String vs | _ \<Rightarrow> [])"

definition appendRecoveryRequest :: "env \<Rightarrow> string \<Rightarrow> recovery_node \<Rightarrow> recovery_node" where
  "appendRecoveryRequest e rid s =
     (let existing = readRecoveryRequests s
      in if rid \<in> set existing then s
         else if diskOk e requests_file
         then s\<lparr>rn_requests := Parsed (JArr (map JStr (existing @ [rid])))\<rparr>
         else s)"

record recovery_outcome =
  ro_ok :: bool
  ro_authoritativeState :: "notary_state option"
  ro_healedRoot :: "string option"
  ro_healedLeafCount :: "nat option"
  ro_quarantine :: "(string \<times> EscrowRecord list) option"
  ro_error :: "string option"

definition outcome_error :: "bool \<Rightarrow> notary_state option \<Rightarrow> string \<Rightarrow> recovery_outcome" where
  "outcome_error k s err =
     \<lparr>ro_ok = k, ro_authoritativeState = s, ro_healedRoot = None, ro_healedLeafCount = None,
      ro_quarantine = None, ro_error = Some err\<rparr>"

text \<open>The scan \<^verbatim>\<open>for (let i = records.length; i >= 0; i--)\<close>.\<close>

fun scan_prefix :: "hashfn \<Rightarrow> string \<Rightarrow> EscrowRecord list \<Rightarrow> nat \<Rightarrow> nat option" where
  "scan_prefix h target records 0 = (if ledgerRoot h [] = target then Some 0 else None)"
| "scan_prefix h target records (Suc i) =
     (if getLeafCount (ledgerTree h (take (Suc i) records)) = Suc i
         \<and> ledgerRoot h (take (Suc i) records) = target
      then Some (Suc i) else scan_prefix h target records i)"

text \<open>
  The whole ritual. The quarantine file is reported with its content, written or not; the
  truncation of the store is the write that may fail.
\<close>

definition attemptHealAndReturnOutcome ::
  "hashfn \<Rightarrow> verify_fn \<Rightarrow> (string \<Rightarrow> int option) \<Rightarrow> env \<Rightarrow> (nat \<Rightarrow> fetch_result) \<Rightarrow> (broadcast_request \<Rightarrow> fetch_result)
    \<Rightarrow> recovery_config \<Rightarrow> recovery_payload \<Rightarrow> recovery_node \<Rightarrow> recovery_node \<times> recovery_outcome js_result" where
  "attemptHealAndReturnOutcome h vf parseIso e net bnet c p s =
     (if requestId p \<in> set (readRecoveryRequests s)
      then (s, Inr (outcome_error True None ''DUPLICATE_REQUEST_ID''))
      else if \<not> verifyMultiSig h vf parseIso e c p
      then (s, Inr (outcome_error False None ''MULTISIG_THRESHOLD_VERIFICATION_FAILED''))
      else (case fetchAuthoritativeState h e net (nd_notary s) of
        (n', Inl err) \<Rightarrow> (s\<lparr>nd_notary := n'\<rparr>, Inl err)
      | (n', Inr auth) \<Rightarrow>
          let (d', records) = getAllRecords e (nd_db s);
              s1 = s\<lparr>nd_notary := n', nd_db := d'\<rparr>
          in (case scan_prefix h (ns_root auth) records (length records) of
                None \<Rightarrow> (s1, Inr (outcome_error False (Some auth) ''NO_PREFIX_MATCHES_AUTHORITATIVE_NOTARY_ROOT''))
              | Some k \<Rightarrow>
                  let quarantine = Some (''quarantine_'' @ requestId p @ ''_'' @ show_int (nowMs e) @ ''.json'', drop k records);
                      healed = take k records
                  in if \<not> diskOk e ledger_file
                     then (s1, Inr \<lparr>ro_ok = False, ro_authoritativeState = Some auth, ro_healedRoot = None,
                                    ro_healedLeafCount = None, ro_quarantine = quarantine,
                                    ro_error = Some ''write failed''\<rparr>)
                     else
                       let tree = ledgerTree h healed;
                           s2 = s1\<lparr>nd_db := d'\<lparr>storeFile := Parsed (JArr (map encodeRecord healed))\<rparr>\<rparr>;
                           s3 = updateCheckpointNow h e bnet (getRoot tree) (getLeafCount tree) s2
                       in (appendRecoveryRequest e (requestId p) s3,
                           Inr \<lparr>ro_ok = True, ro_authoritativeState = Some auth, ro_healedRoot = Some (getRoot tree),
                                ro_healedLeafCount = Some (getLeafCount tree), ro_quarantine = quarantine,
                                ro_error = None\<rparr>))))"

section \<open>The officers counted\<close>

definition valid_officers ::
  "(string \<Rightarrow> string \<Rightarrow> bool) \<Rightarrow> string list \<Rightarrow> recovery_signature list \<Rightarrow> string set" where
  "valid_officers ok officers sigs =
     {k \<in> set officers. k \<noteq> '''' \<and> (\<exists>sig\<in>set sigs. officerPublicKey sig = k \<and> signatureHex sig \<noteq> '''' \<and> ok (signatureHex sig) k)}"

lemma count_officers_mem:
  "k \<in> set (count_officers ok officers sigs seen) \<longleftrightarrow>
     k \<in> set seen \<or> (k \<in> set officers \<and> k \<noteq> '''' \<and>
       (\<exists>sig\<in>set sigs. officerPublicKey sig = k \<and> signatureHex sig \<noteq> '''' \<and> ok (signatureHex sig) k))"
proof (induction sigs arbitrary: seen)
  case (Cons sig sigs)
  show ?case
    using Cons.IH [of seen] Cons.IH [of "seen @ [officerPublicKey sig]"]
    by (cases "officerPublicKey sig = k"; cases "ok (signatureHex sig) (officerPublicKey sig)";
        cases "signatureHex sig = ''''"; cases "officerPublicKey sig \<in> set officers"; cases "k = ''''"; simp)
qed simp

lemma count_officers_set:
  "set (count_officers ok officers sigs seen) = set seen \<union> valid_officers ok officers sigs"
  by (rule set_eqI) (simp only: count_officers_mem valid_officers_def Un_iff mem_Collect_eq)

lemma count_officers_distinct:
  "distinct seen \<Longrightarrow> distinct (count_officers ok officers sigs seen)"
  by (induction ok officers sigs seen rule: count_officers.induct) auto

lemma count_officers_card:
  "length (count_officers ok officers sigs []) = card (valid_officers ok officers sigs)"
  using distinct_card [OF count_officers_distinct [of "[]" ok officers sigs]] count_officers_set [of ok officers sigs "[]"]
  by simp

section \<open>The prefix found\<close>

lemma getLeafCount_take: "i \<le> length rs \<Longrightarrow> getLeafCount (ledgerTree h (take i rs)) = i"
  by simp

lemma scan_prefix_Some:
  "n \<le> length rs \<Longrightarrow> scan_prefix h t rs n = Some k \<Longrightarrow>
     k \<le> n \<and> ledgerRoot h (take k rs) = t \<and> (\<forall>j. k < j \<and> j \<le> n \<longrightarrow> ledgerRoot h (take j rs) \<noteq> t)"
proof (induction n)
  case (Suc n)
  show ?case
  proof (cases "ledgerRoot h (take (Suc n) rs) = t")
    case False
    then have "scan_prefix h t rs n = Some k" using Suc.prems by simp
    then have "k \<le> n \<and> ledgerRoot h (take k rs) = t \<and> (\<forall>j. k < j \<and> j \<le> n \<longrightarrow> ledgerRoot h (take j rs) \<noteq> t)"
      using Suc.IH Suc.prems(1) by simp
    with False show ?thesis by (auto simp: le_Suc_eq)
  next
    case True
    then have "scan_prefix h t rs (Suc n) = Some (Suc n)" using Suc.prems(1) by simp
    then have "k = Suc n" using Suc.prems(2) by simp
    then show ?thesis using True by (metis le_refl not_less)
  qed
next
  case 0
  then show ?case by (cases "ledgerRoot h [] = t") (simp_all, blast)
qed

section \<open>Properties\<close>


text \<open>
  A service that was never configured does not fail closed: with no officers and no threshold in the
  environment every unexpired ritual payload passes the check, signed or not, although the
  constructor announces that verification will then fail.
\<close>

theorem unconfigured_recovery_accepts:
  assumes "parseIso (expiresAt p) = Some t" "nowMs e < t" "rp_action p = ''LEDGER_UNFREEZE_RITUAL''"
  shows "verifyMultiSig h vf parseIso e (load_config num '''' '''') p"
  using assms by (simp add: verifyMultiSig_def load_config_def)


text \<open>
  A request id works once: replaying it changes nothing, but it is answered as a success
  that carries no healed root.
\<close>

theorem replay_is_answered_ok:
  assumes "requestId p \<in> set (readRecoveryRequests s)"
  shows "attemptHealAndReturnOutcome h vf parseIso e net bnet c p s
           = (s, Inr \<lparr>ro_ok = True, ro_authoritativeState = None, ro_healedRoot = None, ro_healedLeafCount = None,
                      ro_quarantine = None, ro_error = Some ''DUPLICATE_REQUEST_ID''\<rparr>)"
  using assms by (simp add: attemptHealAndReturnOutcome_def outcome_error_def)

section \<open>Concrete instances\<close>

definition sample_payload :: recovery_payload where
  "sample_payload = \<lparr>requestId = ''r1'', rp_action = ''LEDGER_UNFREEZE_RITUAL'', expiresAt = ''2030'', signatures = []\<rparr>"

definition sample_config :: recovery_config where
  "sample_config = \<lparr>recoveryOfficerPublicKeys = [], thresholdM = 0\<rparr>"

definition sample_recovery_node :: "json_file \<Rightarrow> recovery_node" where
  "sample_recovery_node reqs = node.extend (sample_node\<lparr>nd_db := sample_db [sample_record]\<rparr>) \<lparr>rn_requests = reqs\<rparr>"

theorem unconfigured_recovery_accepts_witness:
  "verifyMultiSig sample_hash (\<lambda>m s k. None) (\<lambda>t. Some 5000) sample_env (load_config (\<lambda>t. None) '''' '''') sample_payload"
  by (rule unconfigured_recovery_accepts [of _ _ 5000]) (simp_all add: sample_env_def sample_payload_def)

theorem replay_is_answered_ok_witness:
  "fst (attemptHealAndReturnOutcome sample_hash (\<lambda>m s k. None) (\<lambda>t. None) sample_env sample_net (\<lambda>r. NetworkError ''down'')
     sample_config sample_payload (sample_recovery_node (Parsed (JArr [JStr ''r1'']))))
   = sample_recovery_node (Parsed (JArr [JStr ''r1'']))"
  by (subst replay_is_answered_ok)
     (simp_all add: sample_payload_def readRecoveryRequests_def sample_recovery_node_def node.defs sample_node_def)


end
