(* ===== verification/Interleaving.thy ===== *)
theory Interleaving
  imports AdminRecovery
begin

text \<open>
  The ledger node between two ticks: \<^verbatim>\<open>DatabaseService.saveRecord\<close>, the audit cycle and the healing all wait
  in the middle of their work, and the others run meanwhile. The write queue of \<^verbatim>\<open>withWriteLock\<close> orders the saves
  among themselves only. Each function is cut at the place where it waits, and the halves joined are the function.
\<close>

section \<open>The halves\<close>

text \<open>The audit from the answer of the notary on, with the checkpoint it had read before it asked.\<close>

definition audit_rest ::
  "hashfn \<Rightarrow> env \<Rightarrow> (nat \<Rightarrow> fetch_result) \<Rightarrow> checkpoint \<Rightarrow> 'a node_scheme \<Rightarrow> 'a node_scheme" where
  "audit_rest h e net cp s =
     (let a = nd_auditor s in
      case fetchAuthoritativeState h e net (nd_notary s) of
        (n', Inl err) \<Rightarrow>
          s\<lparr>nd_notary := n',
            nd_auditor := freeze h e (''EMERGENCY_SYSTEM_FREEZE: Remote consensus unreachable. Reason=''
              @ (case err of TypeError m \<Rightarrow> m | RangeError m \<Rightarrow> m | JsError m \<Rightarrow> m)) a\<rparr>
      | (n', Inr remote) \<Rightarrow>
          let a1 = a\<lparr>au_latestNotary := Some remote\<rparr>; s1 = s\<lparr>nd_notary := n', nd_auditor := a1\<rparr>
          in if ns_root remote \<noteq> cp_root cp
             then s1\<lparr>nd_auditor := freeze h e
                    (''State-omission/checkpoint-override detected: localRoot!=notaryRoot (seq=''
                     @ show_int (ns_sequenceNumber remote) @ '')'') a1\<rparr>
             else (case storeFile (nd_db s) of
                 NoFile \<Rightarrow> s1\<lparr>nd_auditor := freeze h e ''Unable to read ledger store from disk'' a1\<rparr>
               | Unparsable \<Rightarrow> s1\<lparr>nd_auditor := freeze h e ''Unable to read ledger store from disk'' a1\<rparr>
               | EmptyText \<Rightarrow>
                   (let (d', records) = getAllRecords e (nd_db s)
                    in s1\<lparr>nd_db := d', nd_auditor := compare_ledger h e cp records a1\<rparr>)
               | Parsed v \<Rightarrow>
                   if \<not> is_arr v
                   then s1\<lparr>nd_auditor := freeze h e ''Ledger store file is corrupted or not an array'' a1\<rparr>
                   else (let (d', records) = getAllRecords e (nd_db s)
                         in s1\<lparr>nd_db := d', nd_auditor := compare_ledger h e cp records a1\<rparr>)))"

text \<open>What \<^verbatim>\<open>unfreezeIfClean\<close> does after its audit.\<close>

definition unfreeze_rest :: "hashfn \<Rightarrow> env \<Rightarrow> string \<Rightarrow> 'a node_scheme \<Rightarrow> 'a node_scheme" where
  "unfreeze_rest h e reason s =
     (let a = nd_auditor s in
      if au_frozen a
      then s\<lparr>nd_auditor := a\<lparr>au_log := fst (logEvent h e
             (unfreeze_event ''FAILED'' (''LEDGER_UNFREEZE_REJECTED: '' @ reason)) (au_log a))\<rparr>\<rparr>
      else s\<lparr>nd_auditor := a\<lparr>au_marker := None,
             au_log := fst (logEvent h e
               (unfreeze_event ''SUCCESS'' (''LEDGER_UNFREEZE_ACCEPTED: '' @ reason)) (au_log a))\<rparr>\<rparr>)"

text \<open>The second half of a save: what was read before is written, and the checkpoint moves with it.\<close>

definition save_rest ::
  "hashfn \<Rightarrow> env \<Rightarrow> (broadcast_request \<Rightarrow> fetch_result) \<Rightarrow> EscrowRecord \<Rightarrow> EscrowRecord list \<Rightarrow> 'a node_scheme \<Rightarrow> 'a node_scheme" where
  "save_rest h e bnet rec existing s =
     (let updated = upsert rec existing
      in if diskOk e ledger_file
         then updateCheckpointNow h e bnet (ledgerRoot h updated) (getLeafCount (ledgerTree h updated))
                (s\<lparr>nd_db := (nd_db s)\<lparr>storeFile := Parsed (JArr (map encodeRecord updated))\<rparr>\<rparr>)
         else s)"

lemma auditOnce_halves:
  "\<not> au_frozen (nd_auditor s) \<Longrightarrow> readCheckpoint (nd_auditor s) = Some cp \<Longrightarrow> auditOnce h e net s = audit_rest h e net cp s"
  by (simp add: auditOnce_def audit_rest_def Let_def)

lemma unfreezeIfClean_halves:
  "au_frozen (nd_auditor s) \<Longrightarrow>
   fst (unfreezeIfClean h e net reason s) = unfreeze_rest h e reason (auditOnce h e net (s\<lparr>nd_auditor := (nd_auditor s)\<lparr>au_frozen := False\<rparr>\<rparr>))"
  by (simp add: unfreezeIfClean_def unfreeze_rest_def Let_def)

lemma saveRecord_halves:
  assumes "storeInitialized (nd_db s)" "readAllRecordsInternal (nd_db s) = Inr existing"
  shows "fst (saveRecord h e bnet rec s) = save_rest h e bnet rec existing s"
  using assms by (simp add: saveRecord_def writeRecord_def initializeStore_def save_rest_def buildMerkle_eq Let_def)

section \<open>The node in flight\<close>

record live =
  lv_node :: recovery_node
  lv_queue :: "EscrowRecord list"
  lv_writing :: "(EscrowRecord \<times> EscrowRecord list) option"
  lv_audits :: "(checkpoint \<times> string option) list"

text \<open>
  What happens at one moment: a save is called; the write at the head of the queue reads the store; it writes; an audit or an
  unfreeze begins, or goes on with the answers of the notary (the i-th of those that wait); the healing replaces the store.
\<close>

datatype moment =
    RequestSave EscrowRecord
  | BeginWrite
  | EndWrite env "broadcast_request \<Rightarrow> fetch_result"
  | BeginAudit env "nat \<Rightarrow> fetch_result"
  | BeginUnfreeze env "nat \<Rightarrow> fetch_result" string
  | EndAudit nat env "nat \<Rightarrow> fetch_result"
  | Heal env "nat \<Rightarrow> fetch_result" "broadcast_request \<Rightarrow> fetch_result" recovery_config recovery_payload

definition request_save :: "EscrowRecord \<Rightarrow> live \<Rightarrow> live" where
  "request_save rec l = l\<lparr>lv_queue := lv_queue l @ [rec]\<rparr>"

definition begin_write :: "live \<Rightarrow> live" where
  "begin_write l =
     (if lv_writing l \<noteq> None then l
      else case lv_queue l of
             [] \<Rightarrow> l
           | rec # q \<Rightarrow>
               (case readAllRecordsInternal (nd_db (lv_node l)) of
                  Inl err \<Rightarrow> l\<lparr>lv_queue := q\<rparr>
                | Inr existing \<Rightarrow> l\<lparr>lv_queue := q, lv_writing := Some (rec, existing)\<rparr>))"

definition end_write :: "hashfn \<Rightarrow> env \<Rightarrow> (broadcast_request \<Rightarrow> fetch_result) \<Rightarrow> live \<Rightarrow> live" where
  "end_write h e bnet l =
     (case lv_writing l of
        None \<Rightarrow> l
      | Some (rec, existing) \<Rightarrow> l\<lparr>lv_node := save_rest h e bnet rec existing (lv_node l), lv_writing := None\<rparr>)"

definition begin_audit :: "hashfn \<Rightarrow> env \<Rightarrow> (nat \<Rightarrow> fetch_result) \<Rightarrow> live \<Rightarrow> live" where
  "begin_audit h e net l =
     (let a = nd_auditor (lv_node l) in
      if au_frozen a then l
      else case readCheckpoint a of
             None \<Rightarrow> l\<lparr>lv_node := auditOnce h e net (lv_node l)\<rparr>
           | Some cp \<Rightarrow> l\<lparr>lv_audits := lv_audits l @ [(cp, None)]\<rparr>)"

definition begin_unfreeze :: "hashfn \<Rightarrow> env \<Rightarrow> (nat \<Rightarrow> fetch_result) \<Rightarrow> string \<Rightarrow> live \<Rightarrow> live" where
  "begin_unfreeze h e net reason l =
     (let s = lv_node l; a = nd_auditor s in
      if \<not> au_frozen a then l
      else case readCheckpoint a of
             None \<Rightarrow> l\<lparr>lv_node := fst (unfreezeIfClean h e net reason s)\<rparr>
           | Some cp \<Rightarrow> l\<lparr>lv_node := s\<lparr>nd_auditor := a\<lparr>au_frozen := False\<rparr>\<rparr>, lv_audits := lv_audits l @ [(cp, Some reason)]\<rparr>)"

definition end_audit :: "hashfn \<Rightarrow> nat \<Rightarrow> env \<Rightarrow> (nat \<Rightarrow> fetch_result) \<Rightarrow> live \<Rightarrow> live" where
  "end_audit h i e net l =
     (if i < length (lv_audits l)
      then case lv_audits l ! i of
             (cp, why) \<Rightarrow>
               let s = audit_rest h e net cp (lv_node l)
               in l\<lparr>lv_node := (case why of None \<Rightarrow> s | Some reason \<Rightarrow> unfreeze_rest h e reason s),
                    lv_audits := take i (lv_audits l) @ drop (Suc i) (lv_audits l)\<rparr>
      else l)"

definition heal_now ::
  "hashfn \<Rightarrow> verify_fn \<Rightarrow> (string \<Rightarrow> int option) \<Rightarrow> env \<Rightarrow> (nat \<Rightarrow> fetch_result) \<Rightarrow> (broadcast_request \<Rightarrow> fetch_result)
     \<Rightarrow> recovery_config \<Rightarrow> recovery_payload \<Rightarrow> live \<Rightarrow> live" where
  "heal_now h vf parseIso e net bnet c p l =
     l\<lparr>lv_node := fst (attemptHealAndReturnOutcome h vf parseIso e net bnet c p (lv_node l))\<rparr>"

fun at_moment :: "hashfn \<Rightarrow> verify_fn \<Rightarrow> (string \<Rightarrow> int option) \<Rightarrow> moment \<Rightarrow> live \<Rightarrow> live" where
  "at_moment h vf parseIso (RequestSave rec) l = request_save rec l"
| "at_moment h vf parseIso BeginWrite l = begin_write l"
| "at_moment h vf parseIso (EndWrite e bnet) l = end_write h e bnet l"
| "at_moment h vf parseIso (BeginAudit e net) l = begin_audit h e net l"
| "at_moment h vf parseIso (BeginUnfreeze e net reason) l = begin_unfreeze h e net reason l"
| "at_moment h vf parseIso (EndAudit i e net) l = end_audit h i e net l"
| "at_moment h vf parseIso (Heal e net bnet c p) l = heal_now h vf parseIso e net bnet c p l"

definition idle :: "recovery_node \<Rightarrow> live" where
  "idle s = \<lparr>lv_node = s, lv_queue = [], lv_writing = None, lv_audits = []\<rparr>"

definition run_moments :: "hashfn \<Rightarrow> verify_fn \<Rightarrow> (string \<Rightarrow> int option) \<Rightarrow> moment list \<Rightarrow> live \<Rightarrow> live" where
  "run_moments h vf parseIso ms l = fold (at_moment h vf parseIso) ms l"

section \<open>The queue alone\<close>

fun is_save :: "moment \<Rightarrow> bool" where
  "is_save (RequestSave rec) = True"
| "is_save BeginWrite = True"
| "is_save (EndWrite e bnet) = good_env e"
| "is_save _ = False"

fun requested :: "moment list \<Rightarrow> EscrowRecord list" where
  "requested [] = []"
| "requested (RequestSave rec # ms) = rec # requested ms"
| "requested (m # ms) = requested ms"

lemma requested_append [simp]: "requested (ms @ ms') = requested ms @ requested ms'"
  by (induction ms rule: requested.induct) simp_all

definition pending :: "live \<Rightarrow> EscrowRecord list" where
  "pending l = (case lv_writing l of None \<Rightarrow> [] | Some (rec, existing) \<Rightarrow> [rec]) @ lv_queue l"

definition checkpoint_of :: "hashfn \<Rightarrow> EscrowRecord list \<Rightarrow> 'a node_scheme \<Rightarrow> bool" where
  "checkpoint_of h rs s \<longleftrightarrow>
     (\<exists>t. readCheckpoint (nd_auditor s) = Some \<lparr>cp_root = ledgerRoot h rs, cp_leafCount = int (length rs), cp_updatedAt = t\<rparr>)"

lemma save_rest_ready:
  assumes "hex_hash h" "good_env e" "ledger_ready (nd_db s) rs"
  shows "ledger_ready (nd_db (save_rest h e bnet rec existing s)) (upsert rec existing)"
    and "checkpoint_of h (upsert rec existing) (save_rest h e bnet rec existing s)"
    and "au_frozen (nd_auditor (save_rest h e bnet rec existing s)) = au_frozen (nd_auditor s)"
    and "nd_notary (save_rest h e bnet rec existing s) =
       fst (broadcastRootAnchor h e bnet \<lparr>br_root = ledgerRoot h (upsert rec existing), br_leafCount = length (upsert rec existing),
              br_localUpdatedAt = nowIso e\<rparr> (nd_notary s))"
  using assms hex_nonempty [OF ledgerRoot_hex [OF assms(1)], of "upsert rec existing"]
  by (simp_all add: save_rest_def updateCheckpointNow_def good_env_def ledger_ready_def checkpoint_of_def readCheckpoint_write Let_def)

definition queue_ok :: "hashfn \<Rightarrow> EscrowRecord list \<Rightarrow> EscrowRecord list \<Rightarrow> live \<Rightarrow> bool" where
  "queue_ok h rs written l \<longleftrightarrow>
     ledger_ready (nd_db (lv_node l)) (fold upsert written rs)
     \<and> (\<forall>rec existing. lv_writing l = Some (rec, existing) \<longrightarrow> existing = fold upsert written rs)
     \<and> (written \<noteq> [] \<longrightarrow> checkpoint_of h (fold upsert written rs) (lv_node l))"

lemma readAll_ready: "ledger_ready d rs \<Longrightarrow> readAllRecordsInternal d = Inr rs"
  by (simp add: ledger_ready_def)

lemma queue_step:
  assumes "hex_hash h" "is_save m" "queue_ok h rs written l"
  shows "\<exists>more. queue_ok h rs (written @ more) (at_moment h vf parseIso m l)
     \<and> pending l @ requested [m] = more @ pending (at_moment h vf parseIso m l)"
proof (cases m)
  case (RequestSave rec)
  then show ?thesis using assms(3) by (intro exI [of _ "[]"]) (auto simp: queue_ok_def request_save_def pending_def)
next
  case BeginWrite
  then show ?thesis using assms(3)
    by (cases "lv_writing l"; intro exI [of _ "[]"])
       (auto simp: queue_ok_def begin_write_def pending_def readAll_ready split: list.split)
next
  case (EndWrite e bnet)
  show ?thesis
  proof (cases "lv_writing l")
    case None
    then show ?thesis using EndWrite assms(3) by (intro exI [of _ "[]"]) (simp add: end_write_def)
  next
    case (Some w)
    obtain rec existing where w: "w = (rec, existing)" by fastforce
    have ready: "ledger_ready (nd_db (lv_node l)) (fold upsert written rs)" "existing = fold upsert written rs"
      using assms(3) Some w by (auto simp: queue_ok_def)
    have "good_env e" using assms(2) EndWrite by simp
    from save_rest_ready [OF assms(1) this ready(1)] show ?thesis
      using EndWrite Some w ready(2) by (intro exI [of _ "[rec]"]) (simp add: queue_ok_def end_write_def pending_def)
  qed
qed (use assms(2) in simp_all)

lemma queue_run:
  assumes "hex_hash h" "list_all is_save ms" "queue_ok h rs written l"
  shows "\<exists>more. queue_ok h rs (written @ more) (run_moments h vf parseIso ms l)
     \<and> pending l @ requested ms = more @ pending (run_moments h vf parseIso ms l)"
  using assms(2,3)
proof (induction ms arbitrary: written l)
  case Nil
  then show ?case by (intro exI [of _ "[]"]) (simp add: run_moments_def)
next
  case (Cons m ms)
  then obtain more1 where m1: "queue_ok h rs (written @ more1) (at_moment h vf parseIso m l)"
    "pending l @ requested [m] = more1 @ pending (at_moment h vf parseIso m l)"
    using queue_step [OF assms(1)] by fastforce
  from Cons.IH [OF _ m1(1)] Cons.prems obtain more2 where
    m2: "queue_ok h rs ((written @ more1) @ more2) (run_moments h vf parseIso ms (at_moment h vf parseIso m l))"
    "pending (at_moment h vf parseIso m l) @ requested ms = more2 @ pending (run_moments h vf parseIso ms (at_moment h vf parseIso m l))"
    by auto
  have "requested (m # ms) = requested [m] @ requested ms" using requested_append [of "[m]" ms] by simp
  then have "pending l @ requested (m # ms) = (more1 @ more2) @ pending (run_moments h vf parseIso ms (at_moment h vf parseIso m l))"
    using m1(2) m2(2) by (metis append.assoc)
  then show ?case using m2(1) by (intro exI [of _ "more1 @ more2"]) (simp add: run_moments_def)
qed

text \<open>
  C15. Saves that only meet one another are atomic and none is lost: however their calls, reads and writes interleave, the ledger on
  disk is at every moment the one the saves done so far give one after the other in the order of their calls, its checkpoint
  is theirs, and those not done are still waiting.
\<close>

theorem saves_are_serialised:
  assumes "hex_hash h" "ledger_ready (nd_db s) rs" "list_all is_save ms" "l = run_moments h vf parseIso ms (idle s)"
  shows "\<exists>written. requested ms = written @ pending l
     \<and> ledger_ready (nd_db (lv_node l)) (fold upsert written rs)
     \<and> (written \<noteq> [] \<longrightarrow> checkpoint_of h (fold upsert written rs) (lv_node l))"
proof -
  have "queue_ok h rs [] (idle s)" using assms(2) by (simp add: queue_ok_def idle_def)
  moreover have "pending (idle s) = []" by (simp add: pending_def idle_def)
  ultimately obtain more where "queue_ok h rs more l" "requested ms = more @ pending l"
    using queue_run [OF assms(1,3), of rs "[]" "idle s" vf parseIso] unfolding assms(4) by auto
  then show ?thesis unfolding queue_ok_def by blast
qed

section \<open>What the queue does not order\<close>

lemma audit_rest_mismatch:
  assumes "ledger_ready (nd_db s) rs" "cp_leafCount cp \<noteq> int (length rs)"
  shows "au_frozen (nd_auditor (audit_rest h e net cp s))"
proof (cases "fetchAuthoritativeState h e net (nd_notary s)")
  case (Pair n' r)
  have "storeFile (nd_db s) = Parsed (JArr (map encodeRecord rs))" using assms(1) by (simp add: ledger_ready_def)
  then show ?thesis using Pair assms
    by (cases r) (simp_all add: audit_rest_def compare_ledger_def Let_def)
qed

lemma end_audit_frozen:
  assumes "lv_audits l = [(cp, why)]" "ledger_ready (nd_db (lv_node l)) rs" "cp_leafCount cp \<noteq> int (length rs)"
  shows "au_frozen (nd_auditor (lv_node (end_audit h 0 e net l)))"
  using audit_rest_mismatch [OF assms(2,3), of h e net] assms(1)
  by (simp add: end_audit_def unfreeze_rest_def Let_def split: option.split)

lemma length_upsert_new: "transactionId rec \<notin> transactionId ` set rs \<Longrightarrow> length (upsert rec rs) = Suc (length rs)"
  by (induction rs) auto

text \<open>
  C20. A save that is done while an audit waits for the notary freezes the node: a healthy node, a record with an id of its own,
  and no answer of the notary the audit could get keeps it unfrozen, since the audit still holds the checkpoint of before.
\<close>

theorem save_during_audit_freezes:
  assumes "hex_hash h" "good_env e" "ledger_ready (nd_db s) rs" "\<not> au_frozen (nd_auditor s)"
    and "checkpoint_of h rs s" "transactionId rec \<notin> transactionId ` set rs"
    and "l = run_moments h vf parseIso [BeginAudit e1 net1, RequestSave rec, BeginWrite, EndWrite e bnet] (idle s)"
  shows "\<not> au_frozen (nd_auditor (lv_node l)) \<and> ledger_ready (nd_db (lv_node l)) (upsert rec rs)
     \<and> au_frozen (nd_auditor (lv_node (at_moment h vf parseIso (EndAudit 0 e2 net2) l)))"
proof -
  obtain t where cp: "readCheckpoint (nd_auditor s) = Some \<lparr>cp_root = ledgerRoot h rs, cp_leafCount = int (length rs), cp_updatedAt = t\<rparr>"
    using assms(5) by (auto simp: checkpoint_of_def)
  have l: "l = \<lparr>lv_node = save_rest h e bnet rec rs s, lv_queue = [], lv_writing = None,
     lv_audits = [(\<lparr>cp_root = ledgerRoot h rs, cp_leafCount = int (length rs), cp_updatedAt = t\<rparr>, None)]\<rparr>"
    using assms(3,4,7) cp
    by (simp add: run_moments_def idle_def begin_audit_def request_save_def begin_write_def end_write_def readAll_ready Let_def)
  note saved = save_rest_ready [OF assms(1,2,3), where bnet = bnet and rec = rec and existing = rs]
  have "au_frozen (nd_auditor (lv_node (end_audit h 0 e2 net2 l)))"
    by (rule end_audit_frozen [of l "\<lparr>cp_root = ledgerRoot h rs, cp_leafCount = int (length rs), cp_updatedAt = t\<rparr>" None "upsert rec rs"]) (use saved(1) length_upsert_new [OF assms(6)] in \<open>simp_all add: l\<close>)
  then show ?thesis using saved(1,3) assms(4) by (simp add: l)
qed

text \<open>
  A save in flight undoes the healing: if it had read the store before the recovery cut a tampered ledger back, its write
  brings the whole of it back with the new record, and the checkpoint of the tampered ledger is what is stored and announced
  to the notary.
\<close>

theorem save_undoes_healing:
  assumes "hex_hash h" "good_env e" "ledger_ready (nd_db s) rs"
    and "ledger_ready (nd_db (fst (attemptHealAndReturnOutcome h vf parseIso e1 net bnet1 c p s))) (take k rs)"
    and "l = run_moments h vf parseIso [RequestSave rec, BeginWrite, Heal e1 net bnet1 c p, EndWrite e bnet] (idle s)"
  shows "ledger_ready (nd_db (lv_node l)) (upsert rec rs) \<and> checkpoint_of h (upsert rec rs) (lv_node l)"
proof -
  let ?s = "fst (attemptHealAndReturnOutcome h vf parseIso e1 net bnet1 c p s)"
  have "lv_node l = save_rest h e bnet rec rs ?s"
    using assms(3,5)
    by (simp add: run_moments_def idle_def heal_now_def request_save_def begin_write_def end_write_def readAll_ready Let_def)
  then show ?thesis using save_rest_ready [OF assms(1,2,4)] by simp
qed

text \<open>
  While an unfreeze waits for the notary the node counts as sound: a node frozen over a ledger that does not match its
  checkpoint is open from the first moment of the request on, saves are done meanwhile, and only then the audit freezes it
  again.
\<close>

theorem unfreezing_opens_the_gate:
  assumes "hex_hash h" "good_env e" "ledger_ready (nd_db s) rs" "au_frozen (nd_auditor s)"
    and "readCheckpoint (nd_auditor s) = Some cp" "transactionId rec \<notin> transactionId ` set rs" "cp_leafCount cp \<noteq> 1 + int (length rs)"
    and "l = run_moments h vf parseIso [BeginUnfreeze e1 net1 reason, RequestSave rec, BeginWrite, EndWrite e bnet] (idle s)"
  shows "\<not> au_frozen (nd_auditor (lv_node (at_moment h vf parseIso (BeginUnfreeze e1 net1 reason) (idle s))))
     \<and> ledger_ready (nd_db (lv_node l)) (upsert rec rs) \<and> \<not> au_frozen (nd_auditor (lv_node l))
     \<and> au_frozen (nd_auditor (lv_node (at_moment h vf parseIso (EndAudit 0 e2 net2) l)))"
proof -
  let ?s = "s\<lparr>nd_auditor := (nd_auditor s)\<lparr>au_frozen := False\<rparr>\<rparr>"
  have r: "ledger_ready (nd_db ?s) rs" using assms(3) by simp
  have l: "l = \<lparr>lv_node = save_rest h e bnet rec rs ?s, lv_queue = [], lv_writing = None, lv_audits = [(cp, Some reason)]\<rparr>"
    using assms(3,4,5,8)
    by (simp add: run_moments_def idle_def begin_unfreeze_def request_save_def begin_write_def end_write_def readAll_ready Let_def)
  note saved = save_rest_ready [OF assms(1,2) r, where bnet = bnet and rec = rec and existing = rs]
  have "au_frozen (nd_auditor (lv_node (end_audit h 0 e2 net2 l)))"
    by (rule end_audit_frozen [of l cp "Some reason" "upsert rec rs"])
       (use saved(1) length_upsert_new [OF assms(6)] assms(7) in \<open>simp_all add: l\<close>)
  then show ?thesis using saved(1,3) assms(4,5) by (simp add: l idle_def begin_unfreeze_def Let_def)
qed

section \<open>Concrete instances\<close>

definition down :: "broadcast_request \<Rightarrow> fetch_result" where
  "down r = NetworkError ''down''"

definition sample_second :: EscrowRecord where
  "sample_second = sample_record\<lparr>transactionId := ''t2''\<rparr>"

text \<open>The sample node after a first save.\<close>

definition saved_node :: recovery_node where
  "saved_node = save_rest sample_hash sample_env down sample_record [] (sample_recovery_node NoFile)"

lemma saved_node_facts:
  "ledger_ready (nd_db saved_node) [sample_record]" "checkpoint_of sample_hash [sample_record] saved_node"
  "\<not> au_frozen (nd_auditor saved_node)"
proof -
  have "ledger_ready (nd_db (sample_recovery_node NoFile)) [sample_record]"
    by (simp add: sample_recovery_node_def node.defs sample_db_def ledger_ready_def)
  from save_rest_ready [OF sample_hash_hex sample_env_good this, where bnet = down and rec = sample_record and existing = "[]"]
  show "ledger_ready (nd_db saved_node) [sample_record]" "checkpoint_of sample_hash [sample_record] saved_node"
    "\<not> au_frozen (nd_auditor saved_node)"
    by (simp_all add: saved_node_def sample_recovery_node_def node.defs sample_node_def)
qed

lemma sample_second_new: "transactionId sample_second \<notin> transactionId ` set [sample_record]"
  by (simp add: sample_second_def sample_record_def)

theorem saves_are_serialised_witness:
  "let l = run_moments sample_hash (\<lambda>m s k. None) (\<lambda>t. None)
             [RequestSave sample_second, BeginWrite, RequestSave sample_record, EndWrite sample_env down] (idle saved_node)
   in \<exists>written. written @ pending l = [sample_second, sample_record] \<and> ledger_ready (nd_db (lv_node l)) (fold upsert written [sample_record])"
  using saves_are_serialised [OF sample_hash_hex saved_node_facts(1) _ refl,
      of "[RequestSave sample_second, BeginWrite, RequestSave sample_record, EndWrite sample_env down]" "\<lambda>m s k. None" "\<lambda>t. None"]
  by (auto simp: Let_def)

theorem save_during_audit_freezes_witness:
  "au_frozen (nd_auditor (lv_node (at_moment sample_hash (\<lambda>m s k. None) (\<lambda>t. None) (EndAudit 0 sample_env sample_net)
     (run_moments sample_hash (\<lambda>m s k. None) (\<lambda>t. None)
        [BeginAudit sample_env sample_net, RequestSave sample_second, BeginWrite, EndWrite sample_env down] (idle saved_node)))))"
  using save_during_audit_freezes [OF sample_hash_hex sample_env_good saved_node_facts(1,3,2) sample_second_new refl] by blast

text \<open>A hash that tells records from pairs of nodes, and a ledger with a record too many.\<close>

definition brace_hash :: hashfn where
  "brace_hash s = replicate 64 (if take 1 s = ''{'' then CHR ''a'' else CHR ''b'')"

lemma brace_hash_hex: "hex_hash brace_hash"
  by (simp add: hex_hash_def brace_hash_def isHexDigest_def hex_digit_ci_def list_all_iff)

lemma brace_roots:
  "ledgerRoot brace_hash [sample_record] = ns_root sample_notary_state"
  "ledgerRoot brace_hash [sample_record, sample_second] \<noteq> ns_root sample_notary_state"
  by code_simp+

definition longer_node :: recovery_node where
  "longer_node = (sample_recovery_node NoFile)\<lparr>nd_db := sample_db [sample_record, sample_second]\<rparr>"

lemma longer_node_healed:
  "ledger_ready (nd_db (fst (attemptHealAndReturnOutcome brace_hash (\<lambda>m s k. None) (\<lambda>t. Some 5000) sample_env sample_net down
     sample_config sample_payload longer_node))) [sample_record]"
proof -
  have ready: "ledger_ready (nd_db longer_node) [sample_record, sample_second]"
    by (simp add: longer_node_def ledger_ready_def sample_db_def)
  have ms: "verifyMultiSig brace_hash (\<lambda>m s k. None) (\<lambda>t. Some 5000) sample_env sample_config sample_payload"
    by (simp add: verifyMultiSig_def sample_payload_def sample_env_def sample_config_def)
  have fresh: "requestId sample_payload \<notin> set (readRecoveryRequests longer_node)"
    by (simp add: readRecoveryRequests_def longer_node_def sample_recovery_node_def node.defs)
  obtain n' where f: "fetchAuthoritativeState brace_hash sample_env sample_net (nd_notary longer_node) = (n', Inr sample_notary_state)"
    using sample_fetch [of brace_hash sample_env "nd_notary longer_node"] by (metis prod.collapse)
  have k: "scan_prefix brace_hash (ns_root sample_notary_state) [sample_record, sample_second] (Suc (Suc 0)) = Some 1"
    using brace_roots by simp
  have init: "storeInitialized (nd_db longer_node)" using ready by (simp add: ledger_ready_def)
  show ?thesis
    unfolding attemptHealAndReturnOutcome_def if_not_P [OF fresh]
    using f ms k init
    by (simp add: getAllRecords_ready [OF ready] ledger_ready_def appendRecoveryRequest_def updateCheckpointNow_def Let_def)
       (simp add: sample_env_def)
qed

definition undone :: live where
  "undone = run_moments brace_hash (\<lambda>m s k. None) (\<lambda>t. Some 5000)
     [RequestSave (sample_second\<lparr>transactionId := ''t3''\<rparr>), BeginWrite, Heal sample_env sample_net down sample_config sample_payload,
      EndWrite sample_env down] (idle longer_node)"

theorem save_undoes_healing_witness:
  "ledger_ready (nd_db (lv_node undone)) [sample_record, sample_second, sample_second\<lparr>transactionId := ''t3''\<rparr>]
     \<and> checkpoint_of brace_hash [sample_record, sample_second, sample_second\<lparr>transactionId := ''t3''\<rparr>] (lv_node undone)"
proof -
  have ready: "ledger_ready (nd_db longer_node) [sample_record, sample_second]"
    by (simp add: longer_node_def ledger_ready_def sample_db_def)
  have healed: "ledger_ready (nd_db (fst (attemptHealAndReturnOutcome brace_hash (\<lambda>m s k. None) (\<lambda>t. Some 5000) sample_env sample_net down
      sample_config sample_payload longer_node))) (take 1 [sample_record, sample_second])"
    using longer_node_healed by simp
  have eq: "upsert (sample_second\<lparr>transactionId := ''t3''\<rparr>) [sample_record, sample_second]
      = [sample_record, sample_second, sample_second\<lparr>transactionId := ''t3''\<rparr>]"
    by (simp add: sample_second_def sample_record_def)
  show ?thesis
    unfolding eq [symmetric] by (rule save_undoes_healing [OF brace_hash_hex sample_env_good ready healed undone_def])
qed

theorem unfreezing_opens_the_gate_witness:
  "\<exists>l. \<not> au_frozen (nd_auditor (lv_node l))
     \<and> au_frozen (nd_auditor (lv_node (at_moment sample_hash (\<lambda>m s k. None) (\<lambda>t. None) (EndAudit 0 sample_env sample_net) l)))"
proof -
  let ?s = "saved_node\<lparr>nd_auditor := (nd_auditor saved_node)\<lparr>au_frozen := True\<rparr>\<rparr>"
  obtain t where cp: "readCheckpoint (nd_auditor ?s) = Some \<lparr>cp_root = ledgerRoot sample_hash [sample_record], cp_leafCount = 1, cp_updatedAt = t\<rparr>"
    using saved_node_facts(2) by (auto simp: checkpoint_of_def)
  have "ledger_ready (nd_db ?s) [sample_record]" using saved_node_facts(1) by simp
  from unfreezing_opens_the_gate [OF sample_hash_hex sample_env_good this _ cp sample_second_new _ refl,
      where ?e1.0 = sample_env and ?net1.0 = sample_net and reason = "''r''" and bnet = down and vf = "\<lambda>m s k. None"
        and parseIso = "\<lambda>t. None" and ?e2.0 = sample_env and ?net2.0 = sample_net]
  show ?thesis by auto
qed

end
