(* ===== verification/MockNotary.thy ===== *)
theory MockNotary
  imports Interleaving
begin

text \<open>
  The mock notary of \<^verbatim>\<open>scripts/mock-notary-harness.ts\<close>, the only notary the repository brings, and the ledger node
  run against it: saves and audits whose broadcasts and queries the mock answers. URL parsing and the reading of the body are left to
  HTTP; a body is its parsed value, None when it is no JSON.
\<close>

section \<open>The mock\<close>

record mock_notary =
  mn_sequence :: int
  mn_authoritative :: notary_state

definition new_mock :: "env \<Rightarrow> mock_notary" where
  "new_mock e = \<lparr>mn_sequence = 1, mn_authoritative =
     \<lparr>ns_sequenceNumber = 1, ns_anchoringTimestamp = nowIso e, ns_witnessSignatures = [], ns_root = []\<rparr>\<rparr>"

definition buildWitnessSignatures :: "nat \<Rightarrow> int \<Rightarrow> string \<Rightarrow> witness_signature list" where
  "buildWitnessSignatures witnesses sequenceNumber root =
     map (\<lambda>i. \<lparr>witnessId = ''witness-'' @ show_nat (i + 1),
               ws_signature = ''sig('' @ take 10 root @ ''...)#'' @ show_int sequenceNumber @ ''#'' @ show_nat i\<rparr>) [0..<witnesses]"

text \<open>The sequence number is advanced before the signatures are built, so they carry the next one.\<close>

definition adopt_root :: "nat \<Rightarrow> env \<Rightarrow> string \<Rightarrow> mock_notary \<Rightarrow> mock_notary" where
  "adopt_root witnesses e root m =
     (let next = mn_sequence m + 1
      in \<lparr>mn_sequence = next, mn_authoritative =
           \<lparr>ns_sequenceNumber = mn_sequence m, ns_anchoringTimestamp = nowIso e,
            ns_witnessSignatures = buildWitnessSignatures witnesses next root, ns_root = root\<rparr>\<rparr>)"

definition error_answer :: "nat \<Rightarrow> string \<Rightarrow> fetch_result" where
  "error_answer code msg = Fetched code (JObj [(''error'', JStr msg)])"

definition state_answer :: "mock_notary \<Rightarrow> fetch_result" where
  "state_answer m = Fetched 200 (JObj (broadcast_members (mn_authoritative m)))"

text \<open>One request: method, path and body, with the update mode the environment asks for.\<close>

definition mock_request ::
  "nat \<Rightarrow> bool \<Rightarrow> env \<Rightarrow> string \<Rightarrow> string \<Rightarrow> jsval option \<Rightarrow> mock_notary \<Rightarrow> mock_notary \<times> fetch_result" where
  "mock_request witnesses updateMode e meth pathname body m =
     (if meth = ''POST'' \<and> pathname = ''/notary/anchor''
      then (case body of
              None \<Rightarrow> (m, error_answer 500 ''internal error'')
            | Some b \<Rightarrow>
                if \<not> truthy b \<or> \<not> (is_obj b \<or> is_arr b) \<or> \<not> is_str (member b ''root'')
                then (m, error_answer 400 ''Invalid anchor request'')
                else
                  let m' = (if ns_root (mn_authoritative m) = [] \<or> updateMode
                            then adopt_root witnesses e (the_str (member b ''root'')) m else m)
                  in (m', state_answer m'))
      else if meth = ''GET'' \<and> pathname = ''/notary/state'' then (m, state_answer m)
      else (m, error_answer 404 ''not found''))"

section \<open>The node and the mock\<close>

definition anchor_body :: "broadcast_request \<Rightarrow> jsval" where
  "anchor_body r = JObj [(''root'', JStr (br_root r)), (''leafCount'', JNum (int (br_leafCount r))), (''localUpdatedAt'', JStr (br_localUpdatedAt r))]"

definition anchor_at :: "nat \<Rightarrow> bool \<Rightarrow> env \<Rightarrow> broadcast_request \<Rightarrow> mock_notary \<Rightarrow> mock_notary \<times> fetch_result" where
  "anchor_at witnesses updateMode e r m = mock_request witnesses updateMode e ''POST'' ''/notary/anchor'' (Some (anchor_body r)) m"

definition state_of_mock :: "nat \<Rightarrow> bool \<Rightarrow> env \<Rightarrow> mock_notary \<Rightarrow> fetch_result" where
  "state_of_mock witnesses updateMode e m = snd (mock_request witnesses updateMode e ''GET'' ''/notary/state'' None m)"

text \<open>The request a save broadcasts, when it writes.\<close>

definition broadcast_of :: "hashfn \<Rightarrow> env \<Rightarrow> EscrowRecord \<Rightarrow> 'a node_scheme \<Rightarrow> broadcast_request option" where
  "broadcast_of h e rec s =
     (case writeRecord e rec (nd_db s) of
        (d', Inl err) \<Rightarrow> None
      | (d', Inr existing) \<Rightarrow>
          (case buildMerkleForLedger h existing of
             Inl err \<Rightarrow> None
           | Inr (tree, root, proofs) \<Rightarrow> Some \<lparr>br_root = root, br_leafCount = getLeafCount tree, br_localUpdatedAt = nowIso e\<rparr>))"

datatype action = Save EscrowRecord | Audit

text \<open>A save or an audit with every message delivered before the next one.\<close>

fun mock_step :: "hashfn \<Rightarrow> nat \<Rightarrow> bool \<Rightarrow> env \<times> action \<Rightarrow> node \<times> mock_notary \<Rightarrow> node \<times> mock_notary" where
  "mock_step h witnesses updateMode (e, Save rec) (s, m) =
     (fst (saveRecord h e (\<lambda>r. snd (anchor_at witnesses updateMode e r m)) rec s),
      case broadcast_of h e rec s of None \<Rightarrow> m | Some r \<Rightarrow> fst (anchor_at witnesses updateMode e r m))"
| "mock_step h witnesses updateMode (e, Audit) (s, m) =
     (auditOnce h e (\<lambda>i. state_of_mock witnesses updateMode e m) s, m)"

definition run_mock :: "hashfn \<Rightarrow> nat \<Rightarrow> bool \<Rightarrow> (env \<times> action) list \<Rightarrow> node \<times> mock_notary \<Rightarrow> node \<times> mock_notary" where
  "run_mock h witnesses updateMode = fold (mock_step h witnesses updateMode)"

section \<open>What the mock answers\<close>

lemma anchor_answers:
  "anchor_at w u e r m =
     (let m' = (if ns_root (mn_authoritative m) = [] \<or> u then adopt_root w e (br_root r) m else m) in (m', state_answer m'))"
  by (simp add: anchor_at_def mock_request_def anchor_body_def Let_def)

lemma state_of_mock_eq [simp]: "state_of_mock w u e m = state_answer m"
  by (simp add: state_of_mock_def mock_request_def)

lemma adopted [simp]:
  "ns_root (mn_authoritative (adopt_root w e root m)) = root"
  "ns_anchoringTimestamp (mn_authoritative (adopt_root w e root m)) = nowIso e"
  by (simp_all add: adopt_root_def Let_def)

definition answering :: "mock_notary \<Rightarrow> bool" where
  "answering m \<longleftrightarrow> ns_root (mn_authoritative m) \<noteq> [] \<and> ns_anchoringTimestamp (mn_authoritative m) \<noteq> []"

lemma authoritative_answer:
  "answering m \<Longrightarrow> getAuthoritativeState (state_answer m) = Inr (mn_authoritative m)"
  using validate_members(2) [of "mn_authoritative m" _ "[]"]
  by (simp add: answering_def getAuthoritativeState_def state_answer_def resp_ok_def)

lemma empty_root_refused:
  "ns_root (mn_authoritative m) = [] \<Longrightarrow> isl (getAuthoritativeState (state_answer m))"
  by (simp add: getAuthoritativeState_def state_answer_def resp_ok_def validate_notary_def broadcast_members_def)

lemma fetch_constant:
  "snd (fetchAuthoritativeState h e (\<lambda>i. r) n) = getAuthoritativeState r \<or> isl (getAuthoritativeState r) \<and> isl (snd (fetchAuthoritativeState h e (\<lambda>i. r) n))"
  by (cases "getAuthoritativeState r") (simp_all add: fetchAuthoritativeState_def numeral_3_eq_3)

section \<open>The node under the mock\<close>

definition anchored :: "hashfn \<Rightarrow> EscrowRecord list \<Rightarrow> node \<times> mock_notary \<Rightarrow> bool" where
  "anchored h rs sm =
     (\<not> au_frozen (nd_auditor (fst sm)) \<and> ledger_ready (nd_db (fst sm)) rs
      \<and> map_option (\<lambda>cp. (cp_root cp, cp_leafCount cp)) (readCheckpoint (nd_auditor (fst sm))) = Some (ledgerRoot h rs, int (length rs))
      \<and> answering (snd sm) \<and> ns_root (mn_authoritative (snd sm)) = ledgerRoot h rs)"

definition saved_records :: "(env \<times> action) list \<Rightarrow> EscrowRecord list" where
  "saved_records acts = List.map_filter (\<lambda>(e, a). case a of Save r \<Rightarrow> Some r | Audit \<Rightarrow> None) acts"

lemma readCheckpoint_notary [simp]: "readCheckpoint (a\<lparr>au_latestNotary := x\<rparr>) = readCheckpoint a"
  by (simp add: readCheckpoint_def)

lemma broadcast_ready:
  assumes "ledger_ready (nd_db s) rs" "diskOk e ledger_file"
  shows "broadcast_of h e rec s = Some \<lparr>br_root = ledgerRoot h (upsert rec rs), br_leafCount = length (upsert rec rs), br_localUpdatedAt = nowIso e\<rparr>"
  using writeRecord_ready [OF assms(1), of e rec] assms(2) by (auto simp: broadcast_of_def buildMerkle_eq)

lemma save_step:
  assumes "hex_hash h" "good_env e" "ledger_ready (nd_db s) rs" "mock_step h w u (e, Save rec) (s, m) = (s', m')"
  shows "ledger_ready (nd_db s') (upsert rec rs)" "au_frozen (nd_auditor s') = au_frozen (nd_auditor s)"
    "readCheckpoint (nd_auditor s') = Some \<lparr>cp_root = ledgerRoot h (upsert rec rs), cp_leafCount = int (length (upsert rec rs)), cp_updatedAt = nowIso e\<rparr>"
    "m' = (if ns_root (mn_authoritative m) = [] \<or> u then adopt_root w e (ledgerRoot h (upsert rec rs)) m else m)"
proof -
  obtain res where run: "saveRecord h e (\<lambda>r. snd (anchor_at w u e r m)) rec s = (s', res)"
    and m': "m' = (case broadcast_of h e rec s of None \<Rightarrow> m | Some r \<Rightarrow> fst (anchor_at w u e r m))"
    using assms(4) by (cases "saveRecord h e (\<lambda>r. snd (anchor_at w u e r m)) rec s") auto
  show "ledger_ready (nd_db s') (upsert rec rs)" "au_frozen (nd_auditor s') = au_frozen (nd_auditor s)"
    "readCheckpoint (nd_auditor s') = Some \<lparr>cp_root = ledgerRoot h (upsert rec rs), cp_leafCount = int (length (upsert rec rs)), cp_updatedAt = nowIso e\<rparr>"
    using saveRecord_checkpoint [OF assms(1-3) run] by simp_all
  show "m' = (if ns_root (mn_authoritative m) = [] \<or> u then adopt_root w e (ledgerRoot h (upsert rec rs)) m else m)"
    using assms(2) broadcast_ready [OF assms(3), of e h rec] by (simp add: m' anchor_answers Let_def good_env_def)
qed

text \<open>An audit of a node with a checkpoint, by what the mock holds.\<close>

lemma audit_step:
  assumes "\<not> au_frozen (nd_auditor s)" "ledger_ready (nd_db s) rs" "readCheckpoint (nd_auditor s) = Some cp"
    and "mock_step h w u (e, Audit) (s, m) = (s', m')"
  shows "m' = m" "ledger_ready (nd_db s') rs" "readCheckpoint (nd_auditor s') = Some cp"
    "au_frozen (nd_auditor s') \<longleftrightarrow>
       \<not> (\<exists>r. getAuthoritativeState (state_answer m) = Inr r \<and> ns_root r = cp_root cp)
       \<or> int (length rs) \<noteq> cp_leafCount cp \<or> ledgerRoot h rs \<noteq> cp_root cp"
proof -
  have s': "s' = auditOnce h e (\<lambda>i. state_answer m) s" and m: "m' = m" using assms(4) by auto
  show "m' = m" by (rule m)
  have stored: "storeFile (nd_db s) = Parsed (JArr (map encodeRecord rs))" using assms(2) by (simp add: ledger_ready_def)
  show "ledger_ready (nd_db s') rs" "readCheckpoint (nd_auditor s') = Some cp"
    using assms(1-3) stored
    by (auto simp: s' auditOnce_def Let_def readCheckpoint_def split: prod.splits sum.splits if_splits)
  have readable: "store_readable (nd_db s)" using stored by (simp add: store_readable_def)
  have fetched: "(\<exists>r. snd (fetchAuthoritativeState h e (\<lambda>i. state_answer m) (nd_notary s)) = Inr r \<and> ns_root r = cp_root cp)
      \<longleftrightarrow> (\<exists>r. getAuthoritativeState (state_answer m) = Inr r \<and> ns_root r = cp_root cp)"
    using fetch_constant [of h e "state_answer m" "nd_notary s"]
    by (cases "getAuthoritativeState (state_answer m)"; cases "snd (fetchAuthoritativeState h e (\<lambda>i. state_answer m) (nd_notary s))") auto
  show "au_frozen (nd_auditor s') \<longleftrightarrow>
       \<not> (\<exists>r. getAuthoritativeState (state_answer m) = Inr r \<and> ns_root r = cp_root cp)
       \<or> int (length rs) \<noteq> cp_leafCount cp \<or> ledgerRoot h rs \<noteq> cp_root cp"
    using auditOnce_clean_iff [OF assms(1,3), of h e "\<lambda>i. state_answer m"] readable fetched assms(2) unfolding s' by auto
qed

lemma ledgerRoot_nonempty: "hex_hash h \<Longrightarrow> ledgerRoot h rs \<noteq> []"
  using hex_nonempty ledgerRoot_hex by blast

lemma save_anchors:
  assumes "hex_hash h" "good_env e" "ledger_ready (nd_db s) rs" "\<not> au_frozen (nd_auditor s)"
    and "ns_root (mn_authoritative m) = [] \<or> u"
  shows "anchored h (upsert rec rs) (mock_step h w u (e, Save rec) (s, m))"
proof -
  obtain s' m' where run: "mock_step h w u (e, Save rec) (s, m) = (s', m')" by fastforce
  from save_step [OF assms(1-3) run] assms(2,4,5) ledgerRoot_nonempty [OF assms(1), of "upsert rec rs"] show ?thesis
    unfolding run by (simp add: anchored_def answering_def good_env_def)
qed

lemma audit_keeps_anchored:
  assumes "anchored h rs (s, m)"
  shows "anchored h rs (mock_step h w u (e, Audit) (s, m))"
proof -
  obtain s' m' where run: "mock_step h w u (e, Audit) (s, m) = (s', m')" by fastforce
  obtain cp where cp: "readCheckpoint (nd_auditor s) = Some cp" "cp_root cp = ledgerRoot h rs" "cp_leafCount cp = int (length rs)"
    using assms by (auto simp: anchored_def)
  note facts = assms [unfolded anchored_def fst_conv snd_conv]
  from facts have "\<not> au_frozen (nd_auditor s)" "ledger_ready (nd_db s) rs" by auto
  from audit_step [OF this cp(1) run] facts cp authoritative_answer [of m] show ?thesis
    unfolding run by (simp add: anchored_def)
qed

lemma anchored_run:
  assumes "hex_hash h" "\<forall>(e, a) \<in> set acts. good_env e" "anchored h rs sm"
  shows "anchored h (fold upsert (saved_records acts) rs) (run_mock h w True acts sm)"
  using assms(2,3)
proof (induction acts arbitrary: rs sm)
  case (Cons x acts)
  obtain e a s m where x: "x = (e, a)" "sm = (s, m)" by fastforce
  have step: "anchored h (fold upsert (saved_records [x]) rs) (mock_step h w True x sm)"
  proof (cases a)
    case (Save rec)
    have "\<not> au_frozen (nd_auditor s)" "ledger_ready (nd_db s) rs" using Cons.prems(2) by (simp_all add: x anchored_def)
    with save_anchors [OF assms(1), of e s rs m True rec w] Cons.prems(1) Save x show ?thesis
      by (simp add: saved_records_def List.map_filter_simps)
  next
    case Audit
    with audit_keeps_anchored [of h rs s m w True e] Cons.prems(2) x show ?thesis by (simp add: saved_records_def List.map_filter_simps)
  qed
  have "saved_records (x # acts) = saved_records [x] @ saved_records acts"
    by (simp add: saved_records_def List.map_filter_def)
  with Cons.IH [OF _ step] Cons.prems(1) show ?case by (simp add: run_mock_def)
qed (simp add: saved_records_def List.map_filter_simps run_mock_def)

section \<open>Properties\<close>


text \<open>
  A node freezes itself when it is started: the first audit, finding no checkpoint, adopts the ledger's root without sending it
  to the notary, so the second audit, if no record has been saved between them, cannot find that root there.
\<close>

theorem fresh_node_freezes_itself:
  assumes "hex_hash h" "ledger_ready (nd_db s) rs" "\<not> au_frozen (nd_auditor s)" "readCheckpoint (nd_auditor s) = None"
    and "good_env e1" "run_mock h w u [(e1, Audit), (e2, Audit)] (s, new_mock e0) = (s', m')"
  shows "au_frozen (nd_auditor s')"
proof -
  obtain s1 where s1: "s1 = auditOnce h e1 (\<lambda>i. state_answer (new_mock e0)) s" by simp
  have "readCheckpoint (nd_auditor s1) = Some \<lparr>cp_root = ledgerRoot h rs, cp_leafCount = int (length rs), cp_updatedAt = nowIso e1\<rparr>"
    "\<not> au_frozen (nd_auditor s1)" "ledger_ready (nd_db s1) rs"
    using assms(2-5) ledgerRoot_nonempty [OF assms(1), of rs]
    by (simp_all add: s1 auditOnce_def Let_def readCheckpoint_write good_env_def)
  from audit_step(4) [OF this(2,3,1), of h w u e2 "new_mock e0" s' m'] assms(6) empty_root_refused [of "new_mock e0"] show ?thesis
    by (auto simp: run_mock_def s1 new_mock_def isl_def)
qed

text \<open>
  As the mock stands, without its update mode, it keeps the first root it was sent: the audit after the second
  save that changes the root freezes the node.
\<close>

theorem second_root_freezes:
  assumes "hex_hash h" "ledger_ready (nd_db s) rs" "good_env e1" "good_env e2"
    and "ledgerRoot h (upsert r2 (upsert r1 rs)) \<noteq> ledgerRoot h (upsert r1 rs)"
    and "run_mock h w False [(e1, Save r1), (e2, Save r2), (e3, Audit)] (s, new_mock e0) = (s', m')"
  shows "au_frozen (nd_auditor s')"
proof -
  obtain s1 m1 where run1: "mock_step h w False (e1, Save r1) (s, new_mock e0) = (s1, m1)" by fastforce
  note save1 = save_step [OF assms(1,3,2) run1]
  obtain s2 m2 where run2: "mock_step h w False (e2, Save r2) (s1, m1) = (s2, m2)" by fastforce
  note save2 = save_step [OF assms(1,4) save1(1) run2]
  have run3: "mock_step h w False (e3, Audit) (s2, m2) = (s', m')"
    using assms(6) run1 run2 by (simp add: run_mock_def del: mock_step.simps)
  have m2: "ns_root (mn_authoritative m2) = ledgerRoot h (upsert r1 rs)"
    using save1(4) save2(4) ledgerRoot_nonempty [OF assms(1)] by (simp add: new_mock_def)
  have root: "ns_root r = ledgerRoot h (upsert r1 rs)" if "getAuthoritativeState (state_answer m2) = Inr r" for r
    using that m2 by (auto simp: getAuthoritativeState_def state_answer_def resp_ok_def validate_notary_def broadcast_members_def split: if_splits)
  show ?thesis
  proof (cases "au_frozen (nd_auditor s2)")
    case True
    then show ?thesis using run3 by simp
  next
    case False
    from audit_step(4) [OF False save2(1,3) run3] root assms(5) show ?thesis by auto
  qed
qed

section \<open>Concrete instances\<close>

lemma first_save: "upsert sample_record [] = [sample_record]" "upsert sample_second [sample_record] = [sample_record, sample_second]"
  by (simp_all add: sample_second_def sample_record_def)

lemma sample_no_checkpoint: "readCheckpoint (nd_auditor sample_node) = None"
  by (simp add: sample_node_def readCheckpoint_def)


theorem fresh_node_freezes_itself_witness:
  "au_frozen (nd_auditor (fst (run_mock sample_hash 3 True [(sample_env, Audit), (sample_env, Audit)] (sample_node, new_mock sample_env))))"
proof -
  obtain s' m' where run: "run_mock sample_hash 3 True [(sample_env, Audit), (sample_env, Audit)] (sample_node, new_mock sample_env) = (s', m')"
    by fastforce
  from fresh_node_freezes_itself [OF sample_hash_hex sample_ready sample_not_frozen sample_no_checkpoint sample_env_good run] run
  show ?thesis by simp
qed

theorem second_root_freezes_witness:
  "au_frozen (nd_auditor (fst (run_mock brace_hash 3 False
       [(sample_env, Save sample_record), (sample_env, Save sample_second), (sample_env, Audit)] (sample_node, new_mock sample_env))))"
proof -
  obtain s' m' where run: "run_mock brace_hash 3 False
       [(sample_env, Save sample_record), (sample_env, Save sample_second), (sample_env, Audit)] (sample_node, new_mock sample_env) = (s', m')"
    by fastforce
  have "ledgerRoot brace_hash (upsert sample_second (upsert sample_record [])) \<noteq> ledgerRoot brace_hash (upsert sample_record [])"
    unfolding first_save using brace_roots by metis
  from second_root_freezes [OF brace_hash_hex sample_ready sample_env_good sample_env_good this run] run show ?thesis by simp
qed

end
