(* ===== verification/Enclave.thy ===== *)
theory Enclave
  imports Crypto
begin

text \<open>
  The enclave boundary of \<^verbatim>\<open>services/EnclaveBridgeService.ts\<close>: the attestation gate, the readiness
  flag, and the verification proxies that refuse to run outside it; the attestation documents
  come from \<^verbatim>\<open>services/infrastructure/AttestationFactory.ts\<close>.
\<close>

section \<open>State\<close>

record bridge_state =
  enclaveReady :: bool
  testReadyOverride :: bool
  lastScrubbedByteLength :: nat
  lastZkScrubbedByteLength :: nat

definition boundary_error :: js_error where
  "boundary_error = JsError ''SECURITY_VIOLATION: Enclave boundary uninitialized or attestation failed.''"

definition expectedPcr0 :: string where
  "expectedPcr0 = ''8f3c1b2a4e5d6f7g8h9i0j1k2l3m4n5o6p7q8r9s0t1u2v3w4x5y6z7a8b9c0d1e''"

definition expectedPcr1 :: string where
  "expectedPcr1 = ''boot-runtime-param''"

definition trustedHsmPublicKeyPem :: string where
  "trustedHsmPublicKeyPem = ''-----BEGIN PUBLIC KEY-----
MIIBIjANBgkqhkiG9w0BAQEFAAOCAQ8AMIIBCgKCAQEA0...
-----END PUBLIC KEY-----''"

text \<open>The length of a text in UTF-8, and the lenient hexadecimal decoding of \<^verbatim>\<open>Buffer\<close>.\<close>

definition utf8_length :: "string \<Rightarrow> nat" where
  "utf8_length s = sum_list (map (\<lambda>c. if (of_char c :: nat) < 128 then 1 else 2) s)"

fun hex_decode_lenient :: "string \<Rightarrow> nat list" where
  "hex_decode_lenient (a # b # r) =
     (if hex_digit_ci a \<and> hex_digit_ci b
      then (16 * hex_byte_value a + hex_byte_value b) # hex_decode_lenient r else [])"
| "hex_decode_lenient _ = []"

section \<open>Attestation\<close>

definition canonicalManifest :: "string \<Rightarrow> string \<Rightarrow> string" where
  "canonicalManifest pcr0 pcr1 = pcr0 @ '':'' @ pcr1"

text \<open>The key the document brings, or the built-in one when it brings none.\<close>

definition trust_key :: "jsval \<Rightarrow> string" where
  "trust_key key = (if truthy key \<and> js_trim (the_str key) \<noteq> [] then the_str key else trustedHsmPublicKeyPem)"

text \<open>
  \<^verbatim>\<open>createVerify\<close> throws on a malformed key; \<^verbatim>\<open>doc.hsmPublicKey.trim\<close> throws when the key is truthy
  and not a text. Both end in the \<^verbatim>\<open>catch\<close>, which revokes.
\<close>

definition verifyEnclaveAttestation :: "verify_fn \<Rightarrow> jsval \<Rightarrow> bridge_state \<Rightarrow> bridge_state \<times> bool" where
  "verifyEnclaveAttestation vf doc b =
     (let revoked = (b\<lparr>enclaveReady := False\<rparr>, False);
          pcr0 = member doc ''pcr0''; pcr1 = member doc ''pcr1''; sg = member doc ''signature'';
          key = member doc ''hsmPublicKey''
      in if \<not> truthy doc \<or> \<not> (is_obj doc \<or> is_arr doc) then (b, False)
         else if \<not> truthy pcr0 \<or> \<not> truthy pcr1 then (b, False)
         else if \<not> truthy sg \<or> \<not> is_str sg then (b, False)
         else if truthy key \<and> \<not> is_str key then revoked
         else (case vf (canonicalManifest (js_String pcr0) (js_String pcr1)) (hex_decode_lenient (the_str sg)) (trust_key key) of
                 None \<Rightarrow> revoked
               | Some isValid \<Rightarrow>
                   if isValid \<and> pcr0 = JStr expectedPcr0 then (b\<lparr>enclaveReady := True\<rparr>, True)
                   else revoked))"

definition isEnclaveReady :: "bridge_state \<Rightarrow> bool" where
  "isEnclaveReady b \<longleftrightarrow> enclaveReady b \<or> testReadyOverride b"

definition setEnclaveReadyForTest :: "bool \<Rightarrow> bridge_state \<Rightarrow> bridge_state" where
  "setEnclaveReadyForTest r b = b\<lparr>enclaveReady := r\<rparr>"

definition revokeEnclaveState :: "bridge_state \<Rightarrow> bridge_state" where
  "revokeEnclaveState b = b\<lparr>enclaveReady := False\<rparr>"

text \<open>An attestation document of the factory: a fresh key pair signs the two measurements.\<close>

definition createAttestationDocument ::
  "(string \<Rightarrow> string \<Rightarrow> string) \<Rightarrow> string \<times> string \<Rightarrow> string \<Rightarrow> string \<Rightarrow> string \<Rightarrow> jsval \<times> string" where
  "createAttestationDocument sign keys nodeId pcr0 pcr1 =
     (let (publicKey, privateKey) = keys
      in (JObj [(''pcr0'', JStr pcr0), (''pcr1'', JStr pcr1),
                (''signature'', JStr (sign (canonicalManifest pcr0 pcr1) privateKey)),
                (''hsmPublicKey'', JStr publicKey)], nodeId))"

definition getBaselineTemplate :: "string \<times> string" where
  "getBaselineTemplate = (expectedPcr0, expectedPcr1)"

section \<open>Proxies\<close>

record hybrid_input =
  hi_classicalSignature :: string
  hi_pqcSignature :: string
  hi_classicalPublicKeyPem :: string
  hi_pqcPublicKeyToken :: string

definition verifyHybridSignatureInEnclave ::
  "hashfn \<Rightarrow> (nat list \<Rightarrow> nat list) \<Rightarrow> (string \<Rightarrow> int option) \<Rightarrow> verify_fn \<Rightarrow> string \<Rightarrow> hybrid_input
     \<Rightarrow> bridge_state \<Rightarrow> bridge_state \<times> bool js_result" where
  "verifyHybridSignatureInEnclave h hb num vf payload inp b =
     (if \<not> enclaveReady b then (b, Inl boundary_error)
      else
        (b\<lparr>lastScrubbedByteLength := utf8_length payload + utf8_length (hi_classicalSignature inp)
             + utf8_length (hi_classicalPublicKeyPem inp) + utf8_length (hi_pqcSignature inp)
             + utf8_length (hi_pqcPublicKeyToken inp)\<rparr>,
         Inr (if hi_pqcSignature inp = [] \<or> hi_pqcPublicKeyToken inp = [] then False
              else if \<not> verifySignature vf payload (hi_classicalSignature inp) (hi_classicalPublicKeyPem inp) then False
              else (case parseMLDSAPublicKey num (hi_pqcPublicKeyToken inp) of
                      None \<Rightarrow> False
                    | Some pk \<Rightarrow> fst (verifyMockMLDSA hb num (h payload) (hi_pqcSignature inp) pk)))))"

definition verifyZkProofInEnclave ::
  "hashfn \<Rightarrow> jsval \<Rightarrow> string \<Rightarrow> string \<Rightarrow> bridge_state \<Rightarrow> bridge_state \<times> bool js_result" where
  "verifyZkProofInEnclave h prf publicCommitment allowedTenantHash b =
     (if \<not> enclaveReady b then (b, Inl boundary_error)
      else
        let n = utf8_length publicCommitment + utf8_length allowedTenantHash + utf8_length (json_stringify prf)
        in (b\<lparr>lastScrubbedByteLength := n, lastZkScrubbedByteLength := n\<rparr>,
            Inr (verifyProofMock h prf publicCommitment allowedTenantHash)))"

text \<open>Numbers are the integers here, so the finiteness tests of the code always pass.\<close>

definition verifyTimeLocksInEnclave :: "int \<Rightarrow> int \<Rightarrow> int \<Rightarrow> bridge_state \<Rightarrow> bool js_result" where
  "verifyTimeLocksInEnclave validAfter validUntil anchorMs b =
     (if \<not> enclaveReady b then Inl boundary_error
      else Inr (if anchorMs < validAfter then False
                else if anchorMs > validUntil then False
                else True))"

definition verifySignatureInEnclave ::
  "verify_fn \<Rightarrow> string \<Rightarrow> string \<Rightarrow> string \<Rightarrow> bridge_state \<Rightarrow> bridge_state \<times> bool js_result" where
  "verifySignatureInEnclave vf payload sg publicKey b =
     (if \<not> enclaveReady b then (b, Inl boundary_error)
      else (b\<lparr>lastScrubbedByteLength := utf8_length payload + utf8_length sg + utf8_length publicKey\<rparr>,
            Inr (verifySignature vf payload sg publicKey)))"

section \<open>The gate\<close>

lemmas enclave_proxies =
  verifyHybridSignatureInEnclave_def verifyZkProofInEnclave_def verifyTimeLocksInEnclave_def verifySignatureInEnclave_def

lemma proxies_keep_ready:
  "enclaveReady (fst (verifyHybridSignatureInEnclave h hb num vf payload inp b)) = enclaveReady b"
  "enclaveReady (fst (verifyZkProofInEnclave h prf pc th b)) = enclaveReady b"
  "enclaveReady (fst (verifySignatureInEnclave vf payload sg key b)) = enclaveReady b"
  by (simp_all add: enclave_proxies Let_def)

lemma verifyTimeLocks_iff:
  "verifyTimeLocksInEnclave va vu t b = Inr True \<longleftrightarrow> enclaveReady b \<and> va \<le> t \<and> t \<le> vu"
  by (auto simp: verifyTimeLocksInEnclave_def)

definition attested :: "verify_fn \<Rightarrow> jsval \<Rightarrow> bool" where
  "attested vf doc \<longleftrightarrow>
     member doc ''pcr0'' = JStr expectedPcr0 \<and> truthy (member doc ''pcr1'')
     \<and> (truthy (member doc ''hsmPublicKey'') \<longrightarrow> is_str (member doc ''hsmPublicKey''))
     \<and> (\<exists>sg. member doc ''signature'' = JStr sg \<and> sg \<noteq> ''''
         \<and> vf (canonicalManifest expectedPcr0 (js_String (member doc ''pcr1''))) (hex_decode_lenient sg)
              (trust_key (member doc ''hsmPublicKey'')) = Some True)"

lemma member_JStr_obj: "member doc k = JStr s \<Longrightarrow> is_obj doc"
  by (cases doc) auto

lemma attestation_run:
  assumes "truthy (member doc ''pcr0'')" "truthy (member doc ''pcr1'')"
    and "truthy (member doc ''signature'')" "is_str (member doc ''signature'')"
  shows "verifyEnclaveAttestation vf doc b =
      (if attested vf doc then (b\<lparr>enclaveReady := True\<rparr>, True) else (b\<lparr>enclaveReady := False\<rparr>, False))"
proof -
  obtain sg where sg: "member doc ''signature'' = JStr sg" "sg \<noteq> ''''" using assms by (auto simp: is_str_iff)
  then have "is_obj doc" using member_JStr_obj by blast
  then have doc: "is_obj doc" "truthy doc" by (auto simp: is_obj_iff)
  show ?thesis
    using assms sg doc
    by (auto simp: verifyEnclaveAttestation_def attested_def Let_def split: option.split)
qed

lemma attested_opens:
  assumes "attested vf doc"
  shows "verifyEnclaveAttestation vf doc b = (b\<lparr>enclaveReady := True\<rparr>, True)"
proof -
  have "truthy (member doc ''pcr0'')" "truthy (member doc ''pcr1'')"
    "truthy (member doc ''signature'')" "is_str (member doc ''signature'')"
    using assms by (auto simp: attested_def expectedPcr0_def)
  from attestation_run [OF this, of vf b] assms show ?thesis by simp
qed

section \<open>Properties\<close>

text \<open>
  The attestation gate opens for exactly the documents that carry the expected measurement and a
  signature over both measurements that verifies under the document's own key (or the built-in
  key when it has none); it becomes ready precisely then, and a document it refuses after the
  field checks revokes the enclave.
\<close>

theorem verifyEnclaveAttestation_iff:
  assumes "verifyEnclaveAttestation vf doc b = (b', ok)"
  shows "(ok \<longleftrightarrow> attested vf doc) \<and> (ok \<longrightarrow> enclaveReady b')
     \<and> (\<not> ok \<longrightarrow> b' = b\<lparr>enclaveReady := False\<rparr> \<or>
          b' = b \<and> (\<not> truthy (member doc ''pcr0'') \<or> \<not> truthy (member doc ''pcr1'')
                     \<or> \<not> truthy (member doc ''signature'') \<or> \<not> is_str (member doc ''signature'')))"
proof (cases "\<not> truthy (member doc ''pcr0'') \<or> \<not> truthy (member doc ''pcr1'')
                \<or> \<not> truthy (member doc ''signature'') \<or> \<not> is_str (member doc ''signature'')")
  case True
  then have "b' = b \<and> \<not> ok"
    using assms by (auto simp: verifyEnclaveAttestation_def Let_def split: if_splits)
  moreover have "\<not> attested vf doc"
    using True by (auto simp: attested_def expectedPcr0_def)
  ultimately show ?thesis using True by simp
next
  case False
  then show ?thesis using assms attestation_run [of doc vf b] by (auto split: if_splits)
qed

theorem verifyEnclaveAttestation_iff_witness:
  "\<not> snd (verifyEnclaveAttestation (\<lambda>m s k. Some True) (JObj [(''pcr0'', JStr ''other'')])
        \<lparr>enclaveReady = False, testReadyOverride = False, lastScrubbedByteLength = 0, lastZkScrubbedByteLength = 0\<rparr>)"
proof -
  let ?b = "\<lparr>enclaveReady = False, testReadyOverride = False, lastScrubbedByteLength = 0, lastZkScrubbedByteLength = 0\<rparr>"
  let ?doc = "JObj [(''pcr0'', JStr ''other'')]"
  have "\<not> attested (\<lambda>m s k. Some True) ?doc" by (simp add: attested_def)
  then show ?thesis
    using verifyEnclaveAttestation_iff [of "\<lambda>m s k. Some True" ?doc ?b] by (metis prod.collapse)
qed

text \<open>
  The factory and the bridge agree: a document made by the factory for the baseline measurement
  opens the gate. Nothing ties the key to an authority: any key pair will do, since the bridge
  verifies under the key the document carries.
\<close>

theorem factory_documents_attest:
  assumes "\<And>m. vf m (hex_decode_lenient (sign m privateKey)) publicKey = Some True"
    and "js_trim publicKey \<noteq> ''''" "\<And>m. sign m privateKey \<noteq> ''''" "pcr1 \<noteq> ''''"
    and "createAttestationDocument sign (publicKey, privateKey) nodeId (fst getBaselineTemplate) pcr1 = (doc, n)"
  shows "verifyEnclaveAttestation vf doc b = (b\<lparr>enclaveReady := True\<rparr>, True)"
proof -
  have "publicKey \<noteq> ''''" using assms(2) by (auto simp: js_trim_def)
  with assms have "attested vf doc"
    by (auto simp: createAttestationDocument_def getBaselineTemplate_def attested_def trust_key_def)
  then show ?thesis by (rule attested_opens)
qed

theorem factory_documents_attest_witness:
  "snd (verifyEnclaveAttestation (\<lambda>m s k. Some True)
      (fst (createAttestationDocument (\<lambda>m k. ''ab'') (''PUB'', ''PRIV'') ''n1'' (fst getBaselineTemplate) ''p1''))
      \<lparr>enclaveReady = False, testReadyOverride = False, lastScrubbedByteLength = 0, lastZkScrubbedByteLength = 0\<rparr>)"
  by (cases "createAttestationDocument (\<lambda>m k. ''ab'') (''PUB'', ''PRIV'') ''n1'' (fst getBaselineTemplate) ''p1''",
      subst factory_documents_attest [of _ "\<lambda>m k. ''ab''" "''PRIV''" "''PUB''" "''p1''" "''n1''"])
     (auto simp: js_trim_def js_space_def)

text \<open>
  The proof mock binds a proof to no more than eight hexadecimal digits of the public commitment
  and to nothing of the tenant hash: commitments that share the first eight digits and arbitrary
  tenant hashes are interchangeable.
\<close>

theorem zk_binding_is_a_prefix:
  assumes "length pc = 64" "length pc' = 64" "length th = 64" "length th' = 64" "take 8 pc = take 8 pc'"
  shows "snd (verifyZkProofInEnclave h prf pc th b) = snd (verifyZkProofInEnclave h prf pc' th' b)"
  using assms by (simp add: verifyZkProofInEnclave_def Let_def verifyProofMock_def)

theorem zk_binding_is_a_prefix_witness:
  "let f = replicate 8 CHR ''a'' in
   snd (verifyZkProofInEnclave (\<lambda>t. ''hh'') JNull (f @ replicate 56 CHR ''0'') (replicate 64 CHR ''1'')
         \<lparr>enclaveReady = False, testReadyOverride = False, lastScrubbedByteLength = 0, lastZkScrubbedByteLength = 0\<rparr>)
     = snd (verifyZkProofInEnclave (\<lambda>t. ''hh'') JNull (f @ replicate 56 CHR ''9'') (replicate 64 CHR ''2'')
         \<lparr>enclaveReady = False, testReadyOverride = False, lastScrubbedByteLength = 0, lastZkScrubbedByteLength = 0\<rparr>)"
  unfolding Let_def by (rule zk_binding_is_a_prefix) simp_all

text \<open>
  The shielded commitment does not determine the fields it commits to: its text joins them with
  a separator they may contain, so different tenants and accounts share a commitment under every
  hash.
\<close>

theorem commitment_is_ambiguous:
  "computeCommitment h (t @ ''|account='' @ a) b amount salt = computeCommitment h t (a @ ''|account='' @ b) amount salt"
  by (simp add: computeCommitment_def commitment_text_def)

end
