(* ===== verification/Quorum.thy ===== *)
theory Quorum
  imports Prelude
begin

text \<open>
  The interface of a quorum rule: how many members of a cluster must agree, how many may be
  faulty, and what two agreeing quorums then have in common. The consensus components interpret
  it on their own thresholds.
\<close>

locale quorum_rule =
  fixes size f thr :: nat
  assumes overlap: "size + f < 2 * thr"
begin

lemma common_members:
  assumes "finite N" "card N = size" "A \<subseteq> N" "B \<subseteq> N" "thr \<le> card A" "thr \<le> card B"
  shows "f < card (A \<inter> B)"
proof -
  have "finite A" "finite B" using assms finite_subset by blast+
  then have "card A + card B = card (A \<union> B) + card (A \<inter> B)" by (rule card_Un_Int)
  moreover have "card (A \<union> B) \<le> size"
    using assms card_mono [of N "A \<union> B"] by simp
  ultimately show ?thesis using assms overlap by linarith
qed

text \<open>With at most \<open>f\<close> faulty members, two quorums share a correct one.\<close>

lemma common_correct_member:
  assumes "finite N" "card N = size" "A \<subseteq> N" "B \<subseteq> N" "thr \<le> card A" "thr \<le> card B"
    and "finite bad" "card bad \<le> f"
  shows "\<exists>x \<in> A \<inter> B. x \<notin> bad"
proof (rule ccontr)
  assume "\<not> ?thesis"
  then have "A \<inter> B \<subseteq> bad" by blast
  then have "card (A \<inter> B) \<le> f" using assms(7,8) card_mono [of bad "A \<inter> B"] by simp
  then show False using common_members [OF assms(1-6)] by simp
qed

text \<open>Two quorums whose correct members vote once cannot back different values.\<close>

lemma agreement:
  assumes "finite N" "card N = size" "A \<subseteq> N" "B \<subseteq> N" "thr \<le> card A" "thr \<le> card B"
    and "finite bad" "card bad \<le> f"
    and "\<And>x. x \<in> A \<Longrightarrow> x \<notin> bad \<Longrightarrow> vote x = v" "\<And>x. x \<in> B \<Longrightarrow> x \<notin> bad \<Longrightarrow> vote x = w"
  shows "v = w"
  using common_correct_member [OF assms(1-8)] assms(9,10) by fastforce

end

text \<open>A rule is live when the correct members alone reach the threshold.\<close>

locale live_quorum_rule = quorum_rule +
  assumes available: "thr + f \<le> size"
begin

lemma correct_members_suffice:
  assumes "finite N" "card N = size" "bad \<subseteq> N" "card bad \<le> f"
  shows "thr \<le> card (N - bad)"
proof -
  have "finite bad" using assms finite_subset by blast
  then have "card (N - bad) = size - card bad" using assms card_Diff_subset [of bad N] by simp
  then show ?thesis using assms available by linarith
qed

end

end
