(* ===== verification/Bft.thy ===== *)
theory Bft
  imports Ledger Enclave Quorum
begin

text \<open>
  Cross-enclave verification: the peer registry of \<^verbatim>\<open>consensus/EnclaveClusterService.ts\<close> and the
  proposal checks, verification shares and their aggregation of
  \<^verbatim>\<open>consensus/EnclaveBftVerifyEngine.ts\<close>. The collation of \<^verbatim>\<open>localeCompare\<close> is a parameter.
\<close>

section \<open>Cluster topology\<close>

record cluster_peer =
  cl_nodeId :: string
  cl_endpoint :: string
  cl_isAttested :: bool

type_synonym cluster = "(string, cluster_peer) jsmap"

definition registerPeer ::
  "verify_fn \<Rightarrow> string \<Rightarrow> string \<Rightarrow> jsval \<Rightarrow> bridge_state \<Rightarrow> cluster \<Rightarrow> bridge_state \<times> cluster \<times> bool" where
  "registerPeer vf nodeId endpoint attestation b peers =
     (let (b', ok) = verifyEnclaveAttestation vf attestation b
      in if \<not> ok then (b', peers, False)
         else (b', js_set nodeId \<lparr>cl_nodeId = nodeId, cl_endpoint = endpoint, cl_isAttested = True\<rparr> peers, True))"

definition clearClusterTopology :: "cluster \<Rightarrow> cluster" where
  "clearClusterTopology peers = []"

definition getClusterSize :: "cluster \<Rightarrow> nat" where
  "getClusterSize peers = length peers + 1"

definition getAttestedPeers :: "cluster \<Rightarrow> cluster_peer list" where
  "getAttestedPeers peers = map snd peers"

section \<open>Thresholds and fingerprints\<close>

definition quorumThreshold :: "int \<Rightarrow> int \<times> int" where
  "quorumThreshold clusterSize = (let f = (clusterSize - 1) div 3 in (f, 2 * f + 1))"

definition bft_anchorFingerprint :: "hashfn \<Rightarrow> jsval \<Rightarrow> string" where
  "bft_anchorFingerprint h anchor =
     h (json_stringify (JObj
          [(''anchorMs'', member anchor ''anchorMs''),
           (''includedNodeIds'', member anchor ''includedNodeIds''),
           (''outlierNodeIds'', member anchor ''outlierNodeIds'')]))"

definition stableNodeSignatureInput :: "string \<Rightarrow> string \<Rightarrow> int \<Rightarrow> string \<Rightarrow> string" where
  "stableNodeSignatureInput tid commitment term secret =
     ''ENCLAVE_NODE_SIGNATURE_V1|'' @ tid @ ''|'' @ commitment @ ''|'' @ show_int term @ ''|'' @ secret"

definition computeNodeSignature :: "hashfn \<Rightarrow> string \<Rightarrow> string \<Rightarrow> string \<Rightarrow> int \<Rightarrow> string" where
  "computeNodeSignature h secret tid commitment term = h (stableNodeSignatureInput tid commitment term secret)"

section \<open>Structural verification\<close>

definition js_object :: "jsval \<Rightarrow> bool" where
  "js_object v \<longleftrightarrow> truthy v \<and> (is_obj v \<or> is_arr v)"

definition nonempty_str :: "jsval \<Rightarrow> bool" where
  "nonempty_str v \<longleftrightarrow> is_str v \<and> the_str v \<noteq> ''''"

text \<open>None when the proposal passes, else the reason of the refusal.\<close>

definition verifyProposalStructurally :: "hashfn \<Rightarrow> jsval \<Rightarrow> string option" where
  "verifyProposalStructurally h p =
     (let zk = member p ''zkPublicCommitment''; hs = member p ''hybridSignature''; tl = member p ''timeLocks'';
          anchor = member tl ''quorumMedianAnchor''
      in if \<not> truthy p then Some ''MISSING_PROPOSAL''
         else if \<not> nonempty_str (member p ''transactionId'') then Some ''INVALID_TRANSACTION_ID''
         else if \<not> nonempty_str (member p ''commitment'') then Some ''INVALID_COMMITMENT''
         else if \<not> is_num (member p ''consensusTerm'') then Some ''INVALID_CONSENSUS_TERM''
         else if \<not> is_num (member p ''index'') then Some ''INVALID_INDEX''
         else if \<not> js_object zk then Some ''MISSING_ZK_PUBLIC_COMMITMENT''
         else if \<not> nonempty_str (member zk ''commitment'') then Some ''INVALID_ZK_PUBLIC_COMMITMENT''
         else if \<not> js_object hs then Some ''MISSING_HYBRID_SIGNATURE''
         else if \<not> nonempty_str (member hs ''classicalSignature'') then Some ''INVALID_CLASSICAL_SIGNATURE_COMPONENT''
         else if \<not> nonempty_str (member hs ''pqcSignature'') then Some ''INVALID_PQC_SIGNATURE_COMPONENT''
         else if \<not> js_object tl then Some ''MISSING_TIME_LOCKS''
         else if \<not> is_num (member tl ''validAfterMs'') \<or> \<not> is_num (member tl ''validUntilMs'')
         then Some ''INVALID_TIMELOCK_WINDOW''
         else if \<not> truthy anchor then Some ''MISSING_QUORUM_MEDIAN_ANCHOR''
         else if \<not> is_num (member anchor ''anchorMs'') then Some ''INVALID_ANCHOR_MS''
         else if \<not> nonempty_str (member anchor ''anchorFingerprint'') then Some ''INVALID_ANCHOR_FINGERPRINT''
         else if bft_anchorFingerprint h anchor \<noteq> the_str (member anchor ''anchorFingerprint'')
         then Some ''ANCHOR_FINGERPRINT_MISMATCH''
         else if \<not> truthy (member p ''record'') then Some ''MISSING_RECORD''
         else None)"

section \<open>Shares\<close>

record verification_share =
  vs_nodeId :: string
  vs_nodePcr0Hash :: string
  vs_consensusTerm :: int
  vs_index :: int
  vs_approvalHash :: string
  vs_nodeSignature :: string

definition approval_text :: "string \<Rightarrow> string \<Rightarrow> int \<Rightarrow> int \<Rightarrow> string \<Rightarrow> string" where
  "approval_text tid commitment term index nodeId =
     ''ENCLAVE_BFT_APPROVAL_V1|'' @ tid @ ''|'' @ commitment @ ''|'' @ show_int term @ ''|'' @ show_int index @ ''|'' @ nodeId"

definition error_message :: "js_error \<Rightarrow> string" where
  "error_message e = (case e of TypeError m \<Rightarrow> m | RangeError m \<Rightarrow> m | JsError m \<Rightarrow> m)"

definition verifyProposalAndBuildShare ::
  "hashfn \<Rightarrow> string \<Rightarrow> bridge_state \<Rightarrow> jsval \<Rightarrow> string \<Rightarrow> string \<Rightarrow> string + verification_share" where
  "verifyProposalAndBuildShare h secret b p nodeId nodePcr0Hash =
     (if \<not> isEnclaveReady b then Inl ''ENCLAVE_NOT_READY''
      else (case verifyProposalStructurally h p of
        Some reason \<Rightarrow> Inl reason
      | None \<Rightarrow>
          let tl = member p ''timeLocks''; tid = the_str (member p ''transactionId'');
              commitment = the_str (member p ''commitment'');
              term = the_num (member p ''consensusTerm''); index = the_num (member p ''index'')
          in if js_String (member (member p ''record'') ''escrowRecordLeafHash'') \<noteq> commitment
             then Inl ''COMMITMENT_RECORD_MISMATCH''
             else (case verifyTimeLocksInEnclave (the_num (member tl ''validAfterMs'')) (the_num (member tl ''validUntilMs''))
                          (the_num (member (member tl ''quorumMedianAnchor'') ''anchorMs'')) b of
                     Inl err \<Rightarrow> Inl (error_message err)
                   | Inr okTimes \<Rightarrow>
                       if \<not> okTimes then Inl ''TIME_LOCKS_REJECTED''
                       else Inr \<lparr>vs_nodeId = nodeId, vs_nodePcr0Hash = nodePcr0Hash, vs_consensusTerm = term, vs_index = index,
                                 vs_approvalHash = h (approval_text tid commitment term index nodeId),
                                 vs_nodeSignature = computeNodeSignature h secret tid commitment term\<rparr>)))"

section \<open>Aggregation\<close>

record threshold_payload =
  tp_clusterSize :: int
  tp_f :: int
  tp_threshold :: int
  tp_uniqueNodeIds :: "string list"
  tp_shares :: "verification_share list"

definition share_counts :: "int \<Rightarrow> int \<Rightarrow> (string, string) jsmap \<Rightarrow> verification_share \<Rightarrow> bool" where
  "share_counts term index pcrs s \<longleftrightarrow>
     vs_consensusTerm s = term \<and> vs_index s = index
     \<and> (case js_get pcrs (vs_nodeId s) of None \<Rightarrow> False | Some expected \<Rightarrow> expected \<noteq> '''' \<and> expected = vs_nodePcr0Hash s)"

text \<open>The loop; a malformed entry is None and is skipped.\<close>

fun collect_shares ::
  "int \<Rightarrow> int \<Rightarrow> (string, string) jsmap \<Rightarrow> verification_share option list \<Rightarrow> (string, verification_share) jsmap
     \<Rightarrow> (string, verification_share) jsmap" where
  "collect_shares term index pcrs [] m = m"
| "collect_shares term index pcrs (None # r) m = collect_shares term index pcrs r m"
| "collect_shares term index pcrs (Some s # r) m =
     collect_shares term index pcrs r (if share_counts term index pcrs s then js_set (vs_nodeId s) s m else m)"

text \<open>A stable insertion sort by the comparison \<open>le\<close>.\<close>

fun insert_by :: "('a \<Rightarrow> 'a \<Rightarrow> bool) \<Rightarrow> 'a \<Rightarrow> 'a list \<Rightarrow> 'a list" where
  "insert_by le x [] = [x]"
| "insert_by le x (y # ys) = (if le x y then x # y # ys else y # insert_by le x ys)"

fun sort_by :: "('a \<Rightarrow> 'a \<Rightarrow> bool) \<Rightarrow> 'a list \<Rightarrow> 'a list" where
  "sort_by le [] = []"
| "sort_by le (x # xs) = insert_by le x (sort_by le xs)"

definition aggregateShares ::
  "(string \<Rightarrow> string \<Rightarrow> bool) \<Rightarrow> cluster \<Rightarrow> int \<Rightarrow> int \<Rightarrow> verification_share option list \<Rightarrow> (string, string) jsmap
     \<Rightarrow> string + threshold_payload" where
  "aggregateShares le peers term index shares pcrs =
     (let clusterSize = int (getClusterSize peers); (f, threshold) = quorumThreshold clusterSize;
          sharesArr = sort_by (\<lambda>a b. le (vs_nodeId a) (vs_nodeId b)) (map snd (collect_shares term index pcrs shares []))
      in if int (length sharesArr) < threshold then Inl ''THRESHOLD_NOT_REACHED''
         else Inr \<lparr>tp_clusterSize = clusterSize, tp_f = f, tp_threshold = threshold,
                   tp_uniqueNodeIds = map vs_nodeId sharesArr, tp_shares = sharesArr\<rparr>)"

section \<open>What aggregation counts\<close>

lemma insert_by_mset [simp]: "mset (insert_by le x ys) = add_mset x (mset ys)"
  by (induction ys) auto

lemma sort_by_mset [simp]: "mset (sort_by le xs) = mset xs"
  by (induction xs) auto

lemma sort_by_set [simp]: "set (sort_by le xs) = set xs"
  by (rule mset_eq_setD) simp

lemma sort_by_length [simp]: "length (sort_by le xs) = length xs"
  by (rule mset_eq_length) simp

lemma sort_by_distinct_map [simp]: "distinct (map f (sort_by le xs)) = distinct (map f xs)"
  by (rule mset_eq_imp_distinct_iff) (simp add: mset_map)

definition shares_by_id :: "(string, verification_share) jsmap \<Rightarrow> bool" where
  "shares_by_id m \<longleftrightarrow> js_map_ok m \<and> (\<forall>(k, s) \<in> set m. vs_nodeId s = k)"

lemma shares_by_id_set: "shares_by_id m \<Longrightarrow> shares_by_id (js_set (vs_nodeId s) s m)"
  by (auto simp: shares_by_id_def distinct_update dest: in_set_js_set)

lemma collect_shares_by_id:
  "shares_by_id m \<Longrightarrow> shares_by_id (collect_shares tm ix pcrs shares m)"
  by (induction tm ix pcrs shares m rule: collect_shares.induct) (auto simp: shares_by_id_set)

lemma collect_shares_keys:
  "set (js_keys (collect_shares tm ix pcrs shares m)) =
     set (js_keys m) \<union> vs_nodeId ` {s. Some s \<in> set shares \<and> share_counts tm ix pcrs s}"
  by (induction tm ix pcrs shares m rule: collect_shares.induct)
     (auto simp: keys_js_set)

lemma collect_shares_values:
  assumes "\<And>k s. (k, s) \<in> set m \<Longrightarrow> share_counts tm ix pcrs s"
    and "js_map_ok m" "(k, s) \<in> set (collect_shares tm ix pcrs shares m)"
  shows "share_counts tm ix pcrs s"
  using assms
proof (induction tm ix pcrs shares m rule: collect_shares.induct)
  case (3 tm ix pcrs s' r m)
  show ?case
    by (rule "3.IH" [OF _ _ "3.prems"(3) [unfolded collect_shares.simps]])
       (use "3.prems"(1,2) in \<open>auto simp: distinct_update dest: in_set_js_set split: if_splits\<close>)
qed auto

definition eligible :: "int \<Rightarrow> int \<Rightarrow> verification_share option list \<Rightarrow> (string, string) jsmap \<Rightarrow> string set" where
  "eligible tm ix shares pcrs = vs_nodeId ` {s. Some s \<in> set shares \<and> share_counts tm ix pcrs s}"

lemma aggregate_shares_facts:
  fixes le peers tm ix shares pcrs
  defines "arr \<equiv> sort_by (\<lambda>a b. le (vs_nodeId a) (vs_nodeId b)) (map snd (collect_shares tm ix pcrs shares []))"
  shows "distinct (map vs_nodeId arr)" "set (map vs_nodeId arr) = eligible tm ix shares pcrs"
    "length arr = card (eligible tm ix shares pcrs)" "\<And>s. s \<in> set arr \<Longrightarrow> share_counts tm ix pcrs s"
proof -
  let ?m = "collect_shares tm ix pcrs shares []"
  have ok: "shares_by_id ?m" by (rule collect_shares_by_id) (simp add: shares_by_id_def)
  then have ids: "map vs_nodeId (map snd ?m) = js_keys ?m" by (auto simp: shares_by_id_def)
  then show d: "distinct (map vs_nodeId arr)" using ok by (simp add: arr_def shares_by_id_def del: map_map)
  have "vs_nodeId ` set (map snd ?m) = set (js_keys ?m)" using ids by (metis list.set_map)
  then show s: "set (map vs_nodeId arr) = eligible tm ix shares pcrs"
    using collect_shares_keys [of tm ix pcrs shares "[]"] by (simp add: arr_def eligible_def image_image)
  from d s show "length arr = card (eligible tm ix shares pcrs)"
    by (metis distinct_card length_map)
  show "share_counts tm ix pcrs s" if "s \<in> set arr" for s
    using that collect_shares_values [of "[]" tm ix pcrs _ s shares] by (auto simp: arr_def)
qed

lemma eligible_in_pcrs: "eligible tm ix shares pcrs \<subseteq> dom (js_get pcrs)"
  by (auto simp: eligible_def share_counts_def split: option.splits)

lemma structural_fields:
  assumes "verifyProposalStructurally h p = None"
  shows "nonempty_str (member p ''transactionId'')" "nonempty_str (member p ''commitment'')"
    "is_num (member p ''consensusTerm'')" "is_num (member p ''index'')"
    "is_num (member (member p ''timeLocks'') ''validAfterMs'')" "is_num (member (member p ''timeLocks'') ''validUntilMs'')"
    "is_num (member (member (member p ''timeLocks'') ''quorumMedianAnchor'') ''anchorMs'')"
    "nonempty_str (member (member (member p ''timeLocks'') ''quorumMedianAnchor'') ''anchorFingerprint'')"
    "bft_anchorFingerprint h (member (member p ''timeLocks'') ''quorumMedianAnchor'')
       = the_str (member (member (member p ''timeLocks'') ''quorumMedianAnchor'') ''anchorFingerprint'')"
  using assms unfolding verifyProposalStructurally_def Let_def by (simp_all split: if_split_asm)

section \<open>The threshold as a quorum rule\<close>

definition bft_f :: "nat \<Rightarrow> nat" where
  "bft_f n = nat (fst (quorumThreshold (int n)))"

definition bft_threshold :: "nat \<Rightarrow> nat" where
  "bft_threshold n = nat (snd (quorumThreshold (int n)))"

lemma bft_threshold_eq: "0 < n \<Longrightarrow> bft_f n = (n - 1) div 3 \<and> bft_threshold n = 2 * ((n - 1) div 3) + 1"
proof -
  assume "0 < n"
  then have "(int n - 1) div 3 = int ((n - 1) div 3)" by (simp add: zdiv_int of_nat_diff)
  then show ?thesis by (simp add: bft_f_def bft_threshold_def quorumThreshold_def Let_def nat_add_distrib nat_mult_distrib)
qed

interpretation bft: live_quorum_rule "3 * k + 1" "bft_f (3 * k + 1)" "bft_threshold (3 * k + 1)" for k
  by unfold_locales (simp_all add: bft_threshold_eq)

section \<open>Properties\<close>

text \<open>
  C18. Aggregation reaches a payload exactly when enough different nodes approved: it counts each node
  id once, only with the tm and ix of the proposal and the measurement its attestation
  recorded, and refuses below \<open>2f+1\<close>.
\<close>

theorem aggregateShares_iff:
  "(\<exists>pl. aggregateShares le peers tm ix shares pcrs = Inr pl
        \<and> distinct (tp_uniqueNodeIds pl) \<and> set (tp_uniqueNodeIds pl) = eligible tm ix shares pcrs
        \<and> (\<forall>s \<in> set (tp_shares pl). share_counts tm ix pcrs s)
        \<and> tp_threshold pl = snd (quorumThreshold (int (getClusterSize peers))))
     \<longleftrightarrow> snd (quorumThreshold (int (getClusterSize peers))) \<le> int (card (eligible tm ix shares pcrs))"
proof -
  note facts = aggregate_shares_facts [where le = le and pcrs = pcrs and shares = shares and tm = tm and ix = ix]
  show ?thesis
  proof (cases "snd (quorumThreshold (int (getClusterSize peers))) \<le> int (card (eligible tm ix shares pcrs))")
    case True
    then show ?thesis using facts
      by (auto simp: aggregateShares_def Let_def split: prod.splits)
  next
    case False
    then show ?thesis using facts(3)
      by (auto simp: aggregateShares_def Let_def split: prod.splits)
  qed
qed

text \<open>
  In a cluster of \<open>3k+1\<close> attested nodes, any two aggregations that reach the threshold have more
  than \<open>f\<close> nodes in common, hence a correct one: two conflicting proposals cannot both gather a
  payload from nodes that approve only one.
\<close>

theorem bft_quorums_overlap:
  assumes "getClusterSize peers = 3 * k + 1" "finite N" "card N = 3 * k + 1" "dom (js_get pcrs) \<subseteq> N"
    and "aggregateShares le peers t1 i1 shares1 pcrs = Inr p1"
    and "aggregateShares le peers t2 i2 shares2 pcrs = Inr p2"
    and "finite bad" "card bad \<le> k"
  shows "\<exists>x \<in> set (tp_uniqueNodeIds p1) \<inter> set (tp_uniqueNodeIds p2). x \<notin> bad"
proof -
  have thr: "snd (quorumThreshold (int (getClusterSize peers))) = int (bft_threshold (3 * k + 1))" "bft_f (3 * k + 1) = k"
    using assms(1) bft_threshold_eq [of "3 * k + 1"] by (auto simp: bft_threshold_def quorumThreshold_def Let_def)
  have big: "bft_threshold (3 * k + 1) \<le> card (eligible t i shares pcrs)
      \<and> set (tp_uniqueNodeIds p) = eligible t i shares pcrs"
    if "aggregateShares le peers t i shares pcrs = Inr p" for t i shares p
    using that thr(1) aggregate_shares_facts(2,3) [where le = le and pcrs = pcrs and shares = shares and tm = t and ix = i]
    by (auto simp: aggregateShares_def Let_def split: if_splits prod.splits)
  have sub: "eligible t i shares pcrs \<subseteq> N" for t i shares
    using eligible_in_pcrs assms(4) by blast
  show ?thesis
    using bft.common_correct_member [OF assms(2,3) sub sub, of t1 i1 shares1 t2 i2 shares2 bad]
      big [OF assms(5)] big [OF assms(6)] assms(7,8) thr(2) by simp
qed

text \<open>
  The threshold is too low for every other cluster size: with \<open>3k+2\<close> or \<open>3k+3\<close> nodes there are
  two sets of \<open>2f+1\<close> members whose common members could all be faulty, and none at all when \<open>f = 0\<close>.
\<close>

theorem bft_threshold_too_low:
  assumes "0 < n" "n mod 3 \<noteq> 1"
  shows "\<exists>A B. A \<subseteq> {0..<n} \<and> B \<subseteq> {0..<n} \<and> int (card A) = snd (quorumThreshold (int n))
           \<and> int (card B) = snd (quorumThreshold (int n)) \<and> int (card (A \<inter> B)) \<le> fst (quorumThreshold (int n))"
proof -
  let ?t = "bft_threshold n" and ?f = "bft_f n"
  have t: "?t = 2 * ((n - 1) div 3) + 1" "?f = (n - 1) div 3" using bft_threshold_eq [OF assms(1)] by simp_all
  have int: "snd (quorumThreshold (int n)) = int ?t" "fst (quorumThreshold (int n)) = int ?f"
    using assms(1) by (auto simp: bft_threshold_def bft_f_def quorumThreshold_def Let_def)
  have le: "?t \<le> n" "2 * ?t \<le> n + ?f" using t assms by presburger+
  have "{0..<?t} \<inter> {n - ?t..<n} = {n - ?t..<?t}" using le(1) by auto
  then have "card ({0..<?t} \<inter> {n - ?t..<n}) \<le> ?f" using le by simp
  then show ?thesis using le(1)
    by (intro exI [of _ "{0..<?t}"] exI [of _ "{n - ?t..<n}"]) (auto simp: int)
qed

text \<open>
  A node signs a share only for a well-formed proposal it is entitled to approve: the enclave is
  ready, the commitment is the one of the record, the quorum's median time lies inside the
  window of the proposal, the fingerprint of the anchor is the recomputed one, and the approval
  hash binds the proposal's identifiers and the node.
\<close>

theorem share_is_entitled:
  assumes "verifyProposalAndBuildShare h secret b p nodeId pcr = Inr s"
  shows "\<exists>tid c t i va vu ms anchor.
       member p ''transactionId'' = JStr tid \<and> tid \<noteq> '''' \<and> member p ''commitment'' = JStr c \<and> c \<noteq> ''''
     \<and> member p ''consensusTerm'' = JNum t \<and> member p ''index'' = JNum i
     \<and> member (member p ''timeLocks'') ''validAfterMs'' = JNum va
     \<and> member (member p ''timeLocks'') ''validUntilMs'' = JNum vu
     \<and> member (member p ''timeLocks'') ''quorumMedianAnchor'' = anchor \<and> member anchor ''anchorMs'' = JNum ms
     \<and> va \<le> ms \<and> ms \<le> vu \<and> enclaveReady b
     \<and> js_String (member (member p ''record'') ''escrowRecordLeafHash'') = c
     \<and> member anchor ''anchorFingerprint'' = JStr (bft_anchorFingerprint h anchor)
     \<and> s = \<lparr>vs_nodeId = nodeId, vs_nodePcr0Hash = pcr, vs_consensusTerm = t, vs_index = i,
            vs_approvalHash = h (approval_text tid c t i nodeId),
            vs_nodeSignature = h (stableNodeSignatureInput tid c t secret)\<rparr>"
proof -
  have structural: "verifyProposalStructurally h p = None"
    using assms by (auto simp: verifyProposalAndBuildShare_def split: option.splits if_splits)
  note fields = structural_fields [OF this]
  show ?thesis
    using assms structural fields
    by (auto simp: verifyProposalAndBuildShare_def Let_def nonempty_str_def is_str_iff is_num_iff
        verifyTimeLocksInEnclave_def computeNodeSignature_def split: if_splits)
qed

definition sample_shares :: "string list \<Rightarrow> verification_share option list" where
  "sample_shares ids = map (\<lambda>i. Some \<lparr>vs_nodeId = i, vs_nodePcr0Hash = ''p'', vs_consensusTerm = 1, vs_index = 1,
     vs_approvalHash = ''a'', vs_nodeSignature = ''s''\<rparr>) ids"

definition sample_pcrs :: "(string, string) jsmap" where
  "sample_pcrs = [(''n1'', ''p''), (''n2'', ''p''), (''n3'', ''p''), (''n4'', ''p'')]"

definition sample_peers :: cluster where
  "sample_peers = map (\<lambda>i. (i, \<lparr>cl_nodeId = i, cl_endpoint = ''e'', cl_isAttested = True\<rparr>)) [''n2'', ''n3'', ''n4'']"

theorem bft_quorums_overlap_witness:
  "\<exists>p1 p2. aggregateShares (\<lambda>a b. True) sample_peers 1 1 (sample_shares [''n1'', ''n2'', ''n3'']) sample_pcrs = Inr p1
     \<and> aggregateShares (\<lambda>a b. True) sample_peers 1 1 (sample_shares [''n2'', ''n3'', ''n4'']) sample_pcrs = Inr p2
     \<and> (\<exists>x \<in> set (tp_uniqueNodeIds p1) \<inter> set (tp_uniqueNodeIds p2). x \<notin> {''n2''})"
proof -
  obtain p1 where p1: "aggregateShares (\<lambda>a b. True) sample_peers 1 1 (sample_shares [''n1'', ''n2'', ''n3'']) sample_pcrs = Inr p1"
    by (simp add: aggregateShares_def sample_shares_def sample_pcrs_def sample_peers_def getClusterSize_def
        quorumThreshold_def share_counts_def Let_def)
  obtain p2 where p2: "aggregateShares (\<lambda>a b. True) sample_peers 1 1 (sample_shares [''n2'', ''n3'', ''n4'']) sample_pcrs = Inr p2"
    by (simp add: aggregateShares_def sample_shares_def sample_pcrs_def sample_peers_def getClusterSize_def
        quorumThreshold_def share_counts_def Let_def)
  have "getClusterSize sample_peers = 3 * 1 + 1" by (simp add: getClusterSize_def sample_peers_def)
  moreover have "dom (js_get sample_pcrs) \<subseteq> {''n1'', ''n2'', ''n3'', ''n4''}"
    by (auto simp: sample_pcrs_def split: if_splits)
  ultimately show ?thesis
    using bft_quorums_overlap [of sample_peers 1 "{''n1'', ''n2'', ''n3'', ''n4''}" sample_pcrs _ 1 1 _ p1 1 1 _ p2 "{''n2''}"] p1 p2
    by auto
qed

theorem bft_threshold_too_low_witness:
  "\<exists>A B. A \<subseteq> {0..<3::nat} \<and> B \<subseteq> {0..<3} \<and> A \<inter> B = {}
     \<and> int (card A) = snd (quorumThreshold 3) \<and> int (card B) = snd (quorumThreshold 3)"
proof -
  obtain A B where ab: "A \<subseteq> {0..<3::nat}" "B \<subseteq> {0..<3}" "int (card A) = snd (quorumThreshold 3)"
    "int (card B) = snd (quorumThreshold 3)" "int (card (A \<inter> B)) \<le> fst (quorumThreshold 3)"
    using bft_threshold_too_low [of 3] by auto
  moreover have "fst (quorumThreshold 3) = 0" by (simp add: quorumThreshold_def Let_def)
  moreover have "finite (A \<inter> B)" using ab(1) finite_subset by blast
  ultimately show ?thesis by (auto simp: card_eq_0_iff)
qed

definition sample_proposal :: jsval where
  "sample_proposal = JObj
     [(''transactionId'', JStr ''t1''), (''commitment'', JStr ''ab''), (''consensusTerm'', JNum 1), (''index'', JNum 1),
      (''zkPublicCommitment'', JObj [(''commitment'', JStr ''zz'')]),
      (''hybridSignature'', JObj [(''classicalSignature'', JStr ''c''), (''pqcSignature'', JStr ''q'')]),
      (''timeLocks'', JObj [(''validAfterMs'', JNum 10), (''validUntilMs'', JNum 90),
         (''quorumMedianAnchor'', JObj [(''anchorMs'', JNum 50), (''anchorFingerprint'', JStr ''fp'')])]),
      (''record'', JObj [(''escrowRecordLeafHash'', JStr ''ab'')])]"

definition sample_bridge :: bridge_state where
  "sample_bridge = \<lparr>enclaveReady = True, testReadyOverride = False, lastScrubbedByteLength = 0, lastZkScrubbedByteLength = 0\<rparr>"

theorem share_is_entitled_witness:
  "\<exists>s. verifyProposalAndBuildShare (\<lambda>t. ''fp'') ''sec'' sample_bridge sample_proposal ''n1'' ''p'' = Inr s \<and> vs_index s = 1"
proof -
  obtain s where "verifyProposalAndBuildShare (\<lambda>t. ''fp'') ''sec'' sample_bridge sample_proposal ''n1'' ''p'' = Inr s"
    by (simp add: verifyProposalAndBuildShare_def verifyProposalStructurally_def sample_proposal_def sample_bridge_def
        isEnclaveReady_def nonempty_str_def js_object_def bft_anchorFingerprint_def verifyTimeLocksInEnclave_def Let_def)
  with share_is_entitled [OF this] show ?thesis by (auto simp: sample_proposal_def)
qed


lemma eligible_list:
  "eligible tm ix shares pcrs = set (map vs_nodeId (filter (share_counts tm ix pcrs) (List.map_filter id shares)))"
  by (force simp: eligible_def map_filter_def)

theorem aggregateShares_iff_witness:
  "\<exists>pl. aggregateShares (\<lambda>a b. True) sample_peers 1 1 (sample_shares [''n1'', ''n2'', ''n3'']) sample_pcrs = Inr pl
     \<and> set (tp_uniqueNodeIds pl) = {''n1'', ''n2'', ''n3''}"
proof -
  have el: "eligible 1 1 (sample_shares [''n1'', ''n2'', ''n3'']) sample_pcrs = {''n1'', ''n2'', ''n3''}"
    unfolding eligible_list by (auto simp: sample_shares_def sample_pcrs_def share_counts_def map_filter_simps)
  then show ?thesis
    using aggregateShares_iff [of "\<lambda>a b. True" sample_peers 1 1 "sample_shares [''n1'', ''n2'', ''n3'']" sample_pcrs]
    by (auto simp: getClusterSize_def sample_peers_def quorumThreshold_def Let_def)
qed

end
