(* ===== verification/Bytes.thy ===== *)
theory Bytes
  imports Enclave "HOL-Library.Word"
begin

text \<open>
  Byte buffers: the lower-case hexadecimal text of a buffer (\<^verbatim>\<open>Buffer.toString('hex')\<close>), its
  round trip through the lenient decoder, and the 32-bit truncation \<^verbatim>\<open>x | 0\<close>.
\<close>

definition hex_char :: "nat \<Rightarrow> char" where
  "hex_char n = (if n < 10 then char_of (48 + n) else char_of (87 + n))"

fun bytes_hex :: "nat list \<Rightarrow> string" where
  "bytes_hex [] = []"
| "bytes_hex (b # bs) = hex_char (b div 16) # hex_char (b mod 16) # bytes_hex bs"

definition byte_list :: "nat list \<Rightarrow> bool" where
  "byte_list bs \<longleftrightarrow> list_all (\<lambda>b. b < 256) bs"

lemma hex_char_digit [simp]: "n < 16 \<Longrightarrow> hex_digit_ci (hex_char n)"
proof -
  have "list_all (\<lambda>n. hex_digit_ci (hex_char n)) [0..<16]" by code_simp
  moreover assume "n < 16"
  ultimately show ?thesis by (simp add: list_all_iff)
qed

lemma hex_char_value [simp]: "n < 16 \<Longrightarrow> hex_byte_value (hex_char n) = n"
  by (simp add: hex_char_def hex_byte_value_def Let_def)

text \<open>A buffer printed in hexadecimal is read back unchanged.\<close>

lemma hex_decode_bytes_hex [simp]: "byte_list bs \<Longrightarrow> hex_decode_lenient (bytes_hex bs) = bs"
proof (induction bs)
  case (Cons b bs)
  then have "b div 16 < 16" by (auto simp: byte_list_def)
  then have "hex_digit_ci (hex_char (b div 16))" "hex_byte_value (hex_char (b div 16)) = b div 16"
    by (simp_all only: hex_char_digit hex_char_value)
  with Cons show ?case by (simp add: byte_list_def)
qed simp

lemma length_bytes_hex [simp]: "length (bytes_hex bs) = 2 * length bs"
  by (induction bs) auto

lemma bytes_hex_all_hex: "byte_list bs \<Longrightarrow> list_all hex_digit_ci (bytes_hex bs)"
proof (induction bs)
  case (Cons b bs)
  then have "b div 16 < 16" by (auto simp: byte_list_def)
  then have "hex_digit_ci (hex_char (b div 16))" by (simp only: hex_char_digit)
  with Cons show ?case by (simp add: byte_list_def)
qed simp

lemma bytes_hex_inj: "byte_list a \<Longrightarrow> byte_list b \<Longrightarrow> bytes_hex a = bytes_hex b \<longleftrightarrow> a = b"
  by (metis hex_decode_bytes_hex)

lemma byte_value_bound: "hex_digit_ci c \<Longrightarrow> hex_byte_value c < 16"
  by (auto simp: hex_digit_ci_def hex_byte_value_def Let_def)

lemma hex_decode_byte_list [simp]: "byte_list (hex_decode_lenient s)"
proof (induction s rule: hex_decode_lenient.induct)
  case (1 a b r)
  show ?case
  proof (cases "hex_digit_ci a \<and> hex_digit_ci b")
    case True
    then have "hex_byte_value a < 16" "hex_byte_value b < 16" by (auto intro: byte_value_bound)
    then show ?thesis using 1 True by (simp add: byte_list_def)
  qed (auto simp: byte_list_def)
qed (auto simp: byte_list_def)

text \<open>\<^verbatim>\<open>x | 0\<close> keeps the low 32 bits as a signed number.\<close>

definition to_int32 :: "int \<Rightarrow> int" where
  "to_int32 x = sint (word_of_int x :: 32 word)"

lemma to_int32_bounds: "- (2 ^ 31) \<le> to_int32 x \<and> to_int32 x < 2 ^ 31"
  using sint_greater_eq [of "word_of_int x :: 32 word"] sint_less [of "word_of_int x :: 32 word"]
  by (simp add: to_int32_def)

lemma to_int32_id: "- (2 ^ 31) \<le> x \<Longrightarrow> x < 2 ^ 31 \<Longrightarrow> to_int32 x = x"
  by (simp add: to_int32_def sint_sbintrunc' signed_take_bit_int_eq_self)

end
