(* ===== verification/Escrow.thy ===== *)
theory Escrow
  imports Bft Bytes
begin

text \<open>
  The escrow life cycle of the backend: \<^verbatim>\<open>packages/backend/src/services/escrow.service.ts\<close> on its
  document store, the payment providers of \<^verbatim>\<open>adapters\<close>, and the routes of
  \<^verbatim>\<open>controllers/escrow.controller.ts\<close>. HMAC, identifiers drawn at random and the Daraja client
  are parameters.
\<close>

section \<open>Data\<close>

datatype escrow_status = PENDING | LOCKED | DISPUTED | RELEASED | REFUNDED

fun status_name :: "escrow_status \<Rightarrow> string" where
  "status_name PENDING = ''PENDING''"
| "status_name LOCKED = ''LOCKED''"
| "status_name DISPUTED = ''DISPUTED''"
| "status_name RELEASED = ''RELEASED''"
| "status_name REFUNDED = ''REFUNDED''"

text \<open>What the request body supplies stays an untyped value, as at run time.\<close>

record escrow =
  es_id :: string
  es_tenantId :: string
  es_buyerId :: jsval
  es_sellerId :: jsval
  es_amount :: jsval
  es_currency :: jsval
  es_status :: escrow_status
  es_providerType :: string
  es_transactionId :: "string option"
  es_integrityHash :: string
  es_createdAt :: int
  es_lockedAt :: "int option"
  es_releasedAt :: "int option"
  es_refundedAt :: "int option"
  es_metadata :: "(string \<times> jsval) list"

record payment_result =
  pr_status :: string
  pr_transactionId :: "string option"

text \<open>A provider, as the functions the service calls; a call that rejects is an error.\<close>

record payment_provider =
  initializePayment :: "jsval \<Rightarrow> jsval \<Rightarrow> jsval \<Rightarrow> payment_result js_result"
  verifyTransaction :: "string \<Rightarrow> bool js_result"
  initiateRefund :: "string \<Rightarrow> bool js_result"

datatype provider_call = Initialize string | Verify string | Refund string

type_synonym escrow_store = "(string, escrow) jsmap"

section \<open>Helpers\<close>

text \<open>The members \<^verbatim>\<open>...v\<close> adds to an object literal, and their merge.\<close>

fun js_spread :: "jsval \<Rightarrow> (string \<times> jsval) list" where
  "js_spread (JObj ms) = ms"
| "js_spread (JArr vs) = zip (map show_nat [0..<length vs]) vs"
| "js_spread (JStr s) = zip (map show_nat [0..<length s]) (map (\<lambda>c. JStr [c]) s)"
| "js_spread _ = []"

definition spread_onto :: "(string \<times> jsval) list \<Rightarrow> (string \<times> jsval) list \<Rightarrow> (string \<times> jsval) list" where
  "spread_onto base ms = fold (\<lambda>(k, v) m. js_set k v m) ms base"

text \<open>\<^verbatim>\<open>Number(v)\<close>; the parsing of a text is a parameter, and \<^term>\<open>None\<close> is \<^verbatim>\<open>NaN\<close>.\<close>

fun js_to_number :: "(string \<Rightarrow> int option) \<Rightarrow> jsval \<Rightarrow> int option" where
  "js_to_number num JUndefined = None"
| "js_to_number num JNull = Some 0"
| "js_to_number num (JBool b) = Some (if b then 1 else 0)"
| "js_to_number num (JNum i) = Some i"
| "js_to_number num v = num (js_String v)"

fun str_includes :: "string \<Rightarrow> string \<Rightarrow> bool" where
  "str_includes pat [] \<longleftrightarrow> pat = []"
| "str_includes pat (c # s) \<longleftrightarrow> take (length pat) (c # s) = pat \<or> str_includes pat s"

text \<open>\<^verbatim>\<open>crypto.timingSafeEqual\<close> throws on buffers of different lengths.\<close>

definition timingSafeEqual :: "string \<Rightarrow> string \<Rightarrow> bool js_result" where
  "timingSafeEqual a b =
     (if utf8_length a \<noteq> utf8_length b then Inl (RangeError ''Input buffers must have the same byte length'') else Inr (a = b))"

type_synonym hmacfn = "string \<Rightarrow> string \<Rightarrow> string"

definition generateIntegrityHash :: "hmacfn \<Rightarrow> env \<Rightarrow> string \<Rightarrow> jsval \<Rightarrow> string \<Rightarrow> string" where
  "generateIntegrityHash hm e escrowId amount masterKey =
     hm masterKey (escrowId @ '':'' @ js_String amount @ '':'' @ show_int (nowMs e))"

section \<open>The service\<close>

definition createEscrow ::
  "env \<Rightarrow> string \<Rightarrow> string \<Rightarrow> jsval \<Rightarrow> jsval \<Rightarrow> jsval \<Rightarrow> jsval \<Rightarrow> string \<Rightarrow> jsval \<Rightarrow> jsval \<Rightarrow> escrow_store \<Rightarrow> escrow_store \<times> escrow" where
  "createEscrow e uuid tenantId buyerId sellerId amount currency providerType description metadata st =
     (let escrow = \<lparr>es_id = ''escrow_'' @ uuid, es_tenantId = tenantId, es_buyerId = buyerId, es_sellerId = sellerId,
            es_amount = amount, es_currency = currency, es_status = PENDING, es_providerType = providerType,
            es_transactionId = None, es_integrityHash = '''', es_createdAt = nowMs e, es_lockedAt = None,
            es_releasedAt = None, es_refundedAt = None,
            es_metadata = spread_onto [(''description'', description)] (js_spread metadata)\<rparr>
      in (js_set (es_id escrow) escrow st, escrow))"

text \<open>
  An operation reads the document once, may call the provider, and answers with an error or with the
  document to write; the second clock is the one after the call.
\<close>

type_synonym escrow_op = "escrow option \<Rightarrow> provider_call list \<times> escrow js_result"

definition lock_op :: "hmacfn \<Rightarrow> string \<Rightarrow> env \<Rightarrow> env \<Rightarrow> payment_provider \<Rightarrow> string \<Rightarrow> escrow_op" where
  "lock_op hm key e e' pv escrowId snap =
     (case snap of
        None \<Rightarrow> ([], Inl (JsError ''ESCROW_NOT_FOUND''))
      | Some x \<Rightarrow>
          if es_status x \<noteq> PENDING then ([], Inl (JsError (''INVALID_STATE_TRANSITION_'' @ status_name (es_status x) @ ''_TO_LOCKED'')))
          else
            (let integrityHash = generateIntegrityHash hm e escrowId (es_amount x) key;
                 descr = js_get (es_metadata x) ''description'';
                 meta = JObj [(''escrowId'', JStr escrowId), (''buyerId'', es_buyerId x), (''sellerId'', es_sellerId x),
                   (''description'', (case descr of Some d \<Rightarrow> if truthy d then d else JStr ''Escrow Payment'' | None \<Rightarrow> JStr ''Escrow Payment'')),
                   (''metadata'', JObj [(''integrityHash'', JStr integrityHash), (''tenantId'', JStr (es_tenantId x))]),
                   (''integrityHash'', JStr integrityHash), (''tenantId'', JStr (es_tenantId x))]
             in ([Initialize escrowId],
                 bind_result (initializePayment pv (es_amount x) (es_currency x) meta) (\<lambda>tx.
                   Inr (x\<lparr>es_status := LOCKED, es_transactionId := pr_transactionId tx, es_integrityHash := integrityHash,
                          es_lockedAt := Some (nowMs e')\<rparr>)))))"

definition release_op :: "env \<Rightarrow> payment_provider \<Rightarrow> escrow_op" where
  "release_op e pv snap =
     (case snap of
        None \<Rightarrow> ([], Inl (JsError ''ESCROW_NOT_FOUND''))
      | Some x \<Rightarrow>
          if es_status x \<noteq> LOCKED then ([], Inl (JsError (''INVALID_STATE_TRANSITION_'' @ status_name (es_status x) @ ''_TO_RELEASED'')))
          else (case es_transactionId x of
                  None \<Rightarrow> ([], Inl (JsError ''NO_TRANSACTION_TO_RELEASE''))
                | Some tx \<Rightarrow>
                    if tx = [] then ([], Inl (JsError ''NO_TRANSACTION_TO_RELEASE''))
                    else ([Verify tx],
                      bind_result (verifyTransaction pv tx) (\<lambda>ok.
                        if \<not> ok then Inl (JsError ''TRANSACTION_NOT_CAPTURED'')
                        else Inr (x\<lparr>es_status := RELEASED, es_releasedAt := Some (nowMs e)\<rparr>)))))"

definition refund_op :: "env \<Rightarrow> payment_provider \<Rightarrow> jsval \<Rightarrow> escrow_op" where
  "refund_op e pv reason snap =
     (case snap of
        None \<Rightarrow> ([], Inl (JsError ''ESCROW_NOT_FOUND''))
      | Some x \<Rightarrow>
          (case es_transactionId x of
             None \<Rightarrow> ([], Inl (JsError ''NO_TRANSACTION_TO_REFUND''))
           | Some tx \<Rightarrow>
               if tx = [] then ([], Inl (JsError ''NO_TRANSACTION_TO_REFUND''))
               else if es_status x = REFUNDED then ([], Inl (JsError ''ALREADY_REFUNDED''))
               else ([Refund tx],
                 bind_result (initiateRefund pv tx) (\<lambda>ok.
                   if \<not> ok then Inl (JsError ''REFUND_INITIATION_FAILED'')
                   else Inr (x\<lparr>es_status := REFUNDED, es_refundedAt := Some (nowMs e),
                               es_metadata := spread_onto (es_metadata x) [(''refundInitiated'', JBool True), (''reason'', reason)]\<rparr>)))))"

definition dispute_op :: "env \<Rightarrow> jsval \<Rightarrow> escrow_op" where
  "dispute_op e reason snap =
     (case snap of
        None \<Rightarrow> ([], Inl (JsError ''ESCROW_NOT_FOUND''))
      | Some x \<Rightarrow>
          if es_status x = RELEASED \<or> es_status x = REFUNDED
          then ([], Inl (JsError (''CANNOT_DISPUTE_'' @ status_name (es_status x) @ ''_ESCROW'')))
          else ([], Inr (x\<lparr>es_status := DISPUTED,
                           es_metadata := spread_onto (es_metadata x) [(''disputeReason'', reason), (''disputedAt'', JStr (nowIso e))]\<rparr>)))"

text \<open>
  \<^verbatim>\<open>escrowRef.update(updated)\<close> writes the members \<^verbatim>\<open>updated\<close> has: an optional member it lacks
  keeps the value stored by then. The store refuses an undefined member.
\<close>

fun or_else :: "'a option \<Rightarrow> 'a option \<Rightarrow> 'a option" where
  "or_else (Some x) d = Some x"
| "or_else None d = d"

definition merge_update :: "escrow \<Rightarrow> escrow \<Rightarrow> escrow" where
  "merge_update u cur =
     u\<lparr>es_transactionId := or_else (es_transactionId u) (es_transactionId cur),
       es_lockedAt := or_else (es_lockedAt u) (es_lockedAt cur),
       es_releasedAt := or_else (es_releasedAt u) (es_releasedAt cur),
       es_refundedAt := or_else (es_refundedAt u) (es_refundedAt cur)\<rparr>"

definition write_update :: "string \<Rightarrow> escrow \<Rightarrow> escrow_store \<Rightarrow> escrow_store \<times> escrow js_result" where
  "write_update escrowId u st =
     (case js_get st escrowId of
        None \<Rightarrow> (st, Inl (JsError ''NOT_FOUND: No document to update''))
      | Some cur \<Rightarrow>
          if es_status u = LOCKED \<and> es_transactionId u = None
          then (st, Inl (JsError ''Cannot use \"undefined\" as a Firestore value''))
          else (js_set escrowId (merge_update u cur) st, Inr u))"

definition run_op :: "string \<Rightarrow> escrow_op \<Rightarrow> escrow_store \<Rightarrow> escrow_store \<times> provider_call list \<times> escrow js_result" where
  "run_op escrowId opr st =
     (case opr (js_get st escrowId) of
        (calls, Inl err) \<Rightarrow> (st, calls, Inl err)
      | (calls, Inr u) \<Rightarrow> (let (st', r) = write_update escrowId u st in (st', calls, r)))"

definition lockEscrow ::
  "hmacfn \<Rightarrow> string \<Rightarrow> env \<Rightarrow> env \<Rightarrow> payment_provider \<Rightarrow> string \<Rightarrow> escrow_store \<Rightarrow> escrow_store \<times> provider_call list \<times> escrow js_result" where
  "lockEscrow hm key e e' pv escrowId st = run_op escrowId (lock_op hm key e e' pv escrowId) st"

definition releaseEscrow ::
  "env \<Rightarrow> payment_provider \<Rightarrow> string \<Rightarrow> escrow_store \<Rightarrow> escrow_store \<times> provider_call list \<times> escrow js_result" where
  "releaseEscrow e pv escrowId st = run_op escrowId (release_op e pv) st"

definition refundEscrow ::
  "env \<Rightarrow> payment_provider \<Rightarrow> string \<Rightarrow> jsval \<Rightarrow> escrow_store \<Rightarrow> escrow_store \<times> provider_call list \<times> escrow js_result" where
  "refundEscrow e pv escrowId reason st = run_op escrowId (refund_op e pv reason) st"

definition disputeEscrow ::
  "env \<Rightarrow> string \<Rightarrow> jsval \<Rightarrow> escrow_store \<Rightarrow> escrow_store \<times> provider_call list \<times> escrow js_result" where
  "disputeEscrow e escrowId reason st = run_op escrowId (dispute_op e reason) st"

definition getEscrow :: "string \<Rightarrow> escrow_store \<Rightarrow> escrow option" where
  "getEscrow escrowId st = js_get st escrowId"

definition getTenantEscrows :: "string \<Rightarrow> escrow_store \<Rightarrow> escrow list" where
  "getTenantEscrows tenantId st = filter (\<lambda>x. es_tenantId x = tenantId) (map snd st)"

definition validateIntegrityHash :: "hmacfn \<Rightarrow> string \<Rightarrow> env \<Rightarrow> escrow \<Rightarrow> bool js_result" where
  "validateIntegrityHash hm key e x =
     timingSafeEqual (es_integrityHash x) (generateIntegrityHash hm e (es_id x) (es_amount x) key)"

section \<open>The contract of an operation\<close>

definition allowed_move :: "escrow_status \<Rightarrow> escrow_status \<Rightarrow> bool" where
  "allowed_move s s' \<longleftrightarrow> (s, s') \<in> {(PENDING, LOCKED), (PENDING, DISPUTED), (LOCKED, RELEASED), (LOCKED, REFUNDED),
     (LOCKED, DISPUTED), (DISPUTED, DISPUTED), (DISPUTED, REFUNDED), (RELEASED, REFUNDED)}"

definition same_terms :: "escrow \<Rightarrow> escrow \<Rightarrow> bool" where
  "same_terms x y \<longleftrightarrow> es_id y = es_id x \<and> es_tenantId y = es_tenantId x \<and> es_buyerId y = es_buyerId x
     \<and> es_sellerId y = es_sellerId x \<and> es_amount y = es_amount x \<and> es_currency y = es_currency x
     \<and> es_providerType y = es_providerType x \<and> es_createdAt y = es_createdAt x"

text \<open>What every stored document satisfies.\<close>

definition doc_ok :: "hmacfn \<Rightarrow> string \<Rightarrow> string \<Rightarrow> escrow \<Rightarrow> bool" where
  "doc_ok hm key i x \<longleftrightarrow>
     es_id x = i
     \<and> (es_lockedAt x = None \<longleftrightarrow> es_transactionId x = None)
     \<and> (es_lockedAt x = None \<longrightarrow> es_integrityHash x = '''' \<and> es_status x \<in> {PENDING, DISPUTED})
     \<and> (es_lockedAt x \<noteq> None \<longrightarrow> es_status x \<noteq> PENDING \<and> (\<exists>e. es_integrityHash x = generateIntegrityHash hm e i (es_amount x) key))
     \<and> (es_status x = RELEASED \<longrightarrow> es_releasedAt x \<noteq> None)
     \<and> (es_releasedAt x \<noteq> None \<longrightarrow> es_status x \<in> {RELEASED, REFUNDED})
     \<and> (es_status x = REFUNDED \<longleftrightarrow> es_refundedAt x \<noteq> None)"

locale escrow_operation =
  fixes opr :: "escrow option \<Rightarrow> provider_call list \<times> escrow js_result"
    and good :: "escrow \<Rightarrow> bool"
  assumes missing: "opr None = ([], Inl (JsError ''ESCROW_NOT_FOUND''))"
    and moves: "opr (Some x) = (calls, Inr u) \<Longrightarrow> good x \<Longrightarrow> allowed_move (es_status x) (es_status u) \<and> same_terms x u"
    and extends: "opr (Some x) = (calls, Inr u) \<Longrightarrow> good x \<Longrightarrow> merge_update u x = u"
    and keeps: "opr (Some x) = (calls, Inr u) \<Longrightarrow> good x \<Longrightarrow> \<not> (es_status u = LOCKED \<and> es_transactionId u = None) \<Longrightarrow> good u"
begin

lemma run_cases:
  assumes "run_op i opr st = (st', calls, r)" "\<And>x. js_get st i = Some x \<Longrightarrow> good x"
  shows "(st' = st \<and> (\<exists>err. r = Inl err)) \<or>
     (\<exists>x u. js_get st i = Some x \<and> r = Inr u \<and> st' = js_set i u st \<and> good u
        \<and> allowed_move (es_status x) (es_status u) \<and> same_terms x u)"
proof (cases "js_get st i")
  case None
  then show ?thesis using assms(1) by (auto simp: run_op_def missing)
next
  case (Some x)
  note gx = assms(2) [OF Some]
  obtain cs r0 where o: "opr (Some x) = (cs, r0)" by fastforce
  show ?thesis
  proof (cases r0)
    case (Inl err)
    then show ?thesis using assms(1) Some o by (auto simp: run_op_def)
  next
    case (Inr u)
    show ?thesis
    proof (cases "es_status u = LOCKED \<and> es_transactionId u = None")
      case True
      then show ?thesis using assms(1) Some o Inr by (auto simp: run_op_def write_update_def)
    next
      case False
      then show ?thesis
        using assms(1) Some o Inr moves [of x cs u] extends [of x cs u] keeps [of x cs u] gx
        by (auto simp: run_op_def write_update_def)
    qed
  qed
qed

end

lemma or_else_None [simp]: "or_else x None = x"
  by (cases x) auto

lemma or_else_self [simp]: "or_else x x = x"
  by (cases x) auto

lemma merge_update_id:
  assumes "es_transactionId cur = None \<or> es_transactionId u \<noteq> None" "es_lockedAt cur = None \<or> es_lockedAt u \<noteq> None"
    and "es_releasedAt cur = None \<or> es_releasedAt u \<noteq> None" "es_refundedAt cur = None \<or> es_refundedAt u \<noteq> None"
  shows "merge_update u cur = u"
  using assms by (cases u) (auto simp: merge_update_def)

lemmas op_defs = lock_op_def release_op_def refund_op_def dispute_op_def

interpretation lock: escrow_operation "lock_op hm key e e' pv i" "doc_ok hm key i" for hm key e e' pv i
proof (unfold_locales, goal_cases)
  case (4 x calls u)
  then show ?case
    by (auto simp: lock_op_def bind_result_Inr_iff Let_def doc_ok_def split: if_splits)
qed (auto simp: lock_op_def bind_result_Inr_iff Let_def allowed_move_def same_terms_def merge_update_def doc_ok_def split: if_splits)

interpretation release: escrow_operation "release_op e pv" "doc_ok hm key i" for hm key e pv i
proof (unfold_locales, goal_cases)
  case (4 x calls u)
  then show ?case by (auto simp: release_op_def bind_result_Inr_iff doc_ok_def split: if_splits option.splits)
qed (auto simp: release_op_def bind_result_Inr_iff allowed_move_def same_terms_def merge_update_def split: if_splits option.splits)

interpretation refund: escrow_operation "refund_op e pv reason" "doc_ok hm key i" for hm key e pv reason i
proof (unfold_locales, goal_cases)
  case (2 x calls u)
  then show ?case
    by (cases "es_status x") (auto simp: refund_op_def bind_result_Inr_iff allowed_move_def same_terms_def doc_ok_def split: if_splits option.splits)
next
  case (4 x calls u)
  then show ?case by (auto simp: refund_op_def bind_result_Inr_iff doc_ok_def split: if_splits option.splits)
qed (auto simp: refund_op_def bind_result_Inr_iff merge_update_def split: if_splits option.splits)

interpretation dispute: escrow_operation "dispute_op e reason" "doc_ok hm key i" for hm key e reason i
proof (unfold_locales, goal_cases)
  case (2 x calls u)
  then show ?case by (cases "es_status x") (auto simp: dispute_op_def allowed_move_def same_terms_def split: if_splits)
next
  case (4 x calls u)
  then have "es_status u = DISPUTED" "es_lockedAt u = es_lockedAt x" "es_transactionId u = es_transactionId x" "es_id u = es_id x"
    "es_integrityHash u = es_integrityHash x" "es_amount u = es_amount x" "es_releasedAt u = es_releasedAt x" "es_refundedAt u = es_refundedAt x"
    "es_status x \<noteq> RELEASED" "es_status x \<noteq> REFUNDED"
    by (auto simp: dispute_op_def split: if_splits)
  then show ?case using 4(2) by (cases "es_lockedAt x") (simp_all add: doc_ok_def)
qed (auto simp: dispute_op_def merge_update_def split: if_splits)

section \<open>The store as a state machine\<close>

inductive escrow_step :: "hmacfn \<Rightarrow> string \<Rightarrow> escrow_store \<Rightarrow> escrow_store \<Rightarrow> bool" for hm key where
  step_create: "js_get st (''escrow_'' @ uuid) = None \<Longrightarrow>
     createEscrow e uuid tenant buyer seller amount currency prov descr meta st = (st', x) \<Longrightarrow> escrow_step hm key st st'"
| step_lock: "lockEscrow hm key e e' pv i st = (st', calls, r) \<Longrightarrow> escrow_step hm key st st'"
| step_release: "releaseEscrow e pv i st = (st', calls, r) \<Longrightarrow> escrow_step hm key st st'"
| step_refund: "refundEscrow e pv i reason st = (st', calls, r) \<Longrightarrow> escrow_step hm key st st'"
| step_dispute: "disputeEscrow e i reason st = (st', calls, r) \<Longrightarrow> escrow_step hm key st st'"

definition store_ok :: "hmacfn \<Rightarrow> string \<Rightarrow> escrow_store \<Rightarrow> bool" where
  "store_ok hm key st \<longleftrightarrow> (\<forall>i x. js_get st i = Some x \<longrightarrow> doc_ok hm key i x)"

lemma store_okD: "store_ok hm key st \<Longrightarrow> js_get st i = Some x \<Longrightarrow> doc_ok hm key i x"
  by (simp add: store_ok_def)

lemmas service_defs = lockEscrow_def releaseEscrow_def refundEscrow_def disputeEscrow_def

text \<open>A step leaves every document alone, or creates one, or moves one along the allowed transitions.\<close>

lemma escrow_step_cases:
  assumes "escrow_step hm key st st'" "store_ok hm key st"
  shows "st' = st \<or> (\<exists>i u. st' = js_set i u st \<and> doc_ok hm key i u \<and>
           (js_get st i = None \<and> es_status u = PENDING
            \<or> (\<exists>x. js_get st i = Some x \<and> allowed_move (es_status x) (es_status u) \<and> same_terms x u)))"
  using assms(1)
proof cases
  case (step_create uuid e tenant buyer seller amount currency prov descr meta x)
  then have "st' = js_set (''escrow_'' @ uuid) x st" "doc_ok hm key (''escrow_'' @ uuid) x" "es_status x = PENDING"
    by (auto simp: createEscrow_def Let_def doc_ok_def)
  with step_create show ?thesis by blast
next
  case (step_lock e e' pv i calls r)
  then show ?thesis using lock.run_cases [of i hm key e e' pv i st st' calls r] store_okD [OF assms(2)]
    unfolding lockEscrow_def by blast
next
  case (step_release e pv i calls r)
  then show ?thesis using release.run_cases [of i e pv st st' calls r] store_okD [OF assms(2)]
    unfolding releaseEscrow_def by blast
next
  case (step_refund e pv i reason calls r)
  then show ?thesis using refund.run_cases [of i e pv reason st st' calls r] store_okD [OF assms(2)]
    unfolding refundEscrow_def by blast
next
  case (step_dispute e i reason calls r)
  then show ?thesis using dispute.run_cases [of i e reason st st' calls r] store_okD [OF assms(2)]
    unfolding disputeEscrow_def by blast
qed

lemma store_ok_step: "escrow_step hm key st st' \<Longrightarrow> store_ok hm key st \<Longrightarrow> store_ok hm key st'"
  using escrow_step_cases [of hm key st st'] by (auto simp: store_ok_def js_get_set split: if_splits)

lemma store_ok_steps: "(escrow_step hm key)\<^sup>*\<^sup>* st st' \<Longrightarrow> store_ok hm key st \<Longrightarrow> store_ok hm key st'"
  by (induction rule: rtranclp_induct) (auto intro: store_ok_step)

lemma store_ok_empty: "store_ok hm key []"
  by (simp add: store_ok_def)

lemma reachable_doc_ok: "(escrow_step hm key)\<^sup>*\<^sup>* [] st \<Longrightarrow> js_get st i = Some x \<Longrightarrow> doc_ok hm key i x"
  by (rule store_okD [OF store_ok_steps [OF _ store_ok_empty]])

section \<open>Properties of the life cycle\<close>


lemma allowed_chain:
  assumes "(escrow_step hm key)\<^sup>*\<^sup>* st st'" "store_ok hm key st" "js_get st i = Some x"
  shows "\<exists>x'. js_get st' i = Some x' \<and> allowed_move\<^sup>*\<^sup>* (es_status x) (es_status x') \<and> same_terms x x'"
  using assms
proof (induction rule: rtranclp_induct)
  case base
  then show ?case by (auto simp: same_terms_def)
next
  case (step y z)
  then obtain x1 where x1: "js_get y i = Some x1" "allowed_move\<^sup>*\<^sup>* (es_status x) (es_status x1)" "same_terms x x1" by blast
  have "store_ok hm key y" using store_ok_steps [OF step.hyps(1)] step.prems by blast
  from escrow_step_cases [OF step.hyps(2) this] x1 show ?case
  proof (elim disjE exE conjE, goal_cases)
    case (2 j u)
    then show ?case by (cases "j = i") (auto simp: js_get_set)
  next
    case (3 j u y')
    then show ?case
      by (cases "j = i") (auto simp: js_get_set same_terms_def intro: rtranclp.rtrancl_into_rtrancl)
  qed blast
qed


lemma refunded_chain: "allowed_move\<^sup>*\<^sup>* s s' \<Longrightarrow> s = REFUNDED \<Longrightarrow> s' = REFUNDED"
  by (induction rule: rtranclp_induct) (auto simp: allowed_move_def)

lemma released_chain: "allowed_move\<^sup>*\<^sup>* s s' \<Longrightarrow> s \<in> {RELEASED, REFUNDED} \<Longrightarrow> s' \<in> {RELEASED, REFUNDED}"
  by (induction rule: rtranclp_induct) (auto simp: allowed_move_def)

lemma disputed_chain: "allowed_move\<^sup>*\<^sup>* s s' \<Longrightarrow> s \<in> {DISPUTED, REFUNDED} \<Longrightarrow> s' \<in> {DISPUTED, REFUNDED}"
  by (induction rule: rtranclp_induct) (auto simp: allowed_move_def)

text \<open>
  Funds under dispute are never released to the seller afterwards, released funds are never locked or
  disputed again, and a refund is final: each holds in every later store.
\<close>

theorem escrow_terminal_states:
  assumes "(escrow_step hm key)\<^sup>*\<^sup>* [] st" "(escrow_step hm key)\<^sup>*\<^sup>* st st'" "js_get st i = Some x" "js_get st' i = Some x'"
  shows "(es_status x = REFUNDED \<longrightarrow> es_status x' = REFUNDED)
       \<and> (es_status x = RELEASED \<longrightarrow> es_status x' \<in> {RELEASED, REFUNDED})
       \<and> (es_status x = DISPUTED \<longrightarrow> es_status x' \<in> {DISPUTED, REFUNDED})"
proof -
  have "allowed_move\<^sup>*\<^sup>* (es_status x) (es_status x')"
    using allowed_chain [OF assms(2) store_ok_steps [OF assms(1) store_ok_empty] assms(3)] assms(4) by auto
  then show ?thesis using refunded_chain released_chain disputed_chain by blast
qed

lemma stuck_document:
  assumes "escrow_step hm key st st'" "js_get st i = Some x" "es_status x = DISPUTED" "es_transactionId x = None"
    "store_ok hm key st"
  shows "\<exists>x'. js_get st' i = Some x' \<and> es_status x' = DISPUTED \<and> es_transactionId x' = None"
  using assms(1)
proof cases
  case (step_lock e e' pv j calls r)
  then show ?thesis using assms(2-4)
    by (cases "j = i") (auto simp: lockEscrow_def run_op_def lock_op_def write_update_def js_get_set Let_def split: prod.splits sum.splits option.splits if_splits)
next
  case (step_create uuid e tenant buyer seller amount currency prov descr meta x1)
  then show ?thesis using assms(2-4) by (auto simp: createEscrow_def Let_def js_get_set split: if_splits)
next
  case (step_release e pv j calls r)
  then show ?thesis using assms(2-4)
    by (cases "j = i") (auto simp: releaseEscrow_def run_op_def release_op_def write_update_def js_get_set Let_def split: prod.splits sum.splits option.splits if_splits)
next
  case (step_refund e pv j reason calls r)
  then show ?thesis using assms(2-4)
    by (cases "j = i") (auto simp: refundEscrow_def run_op_def refund_op_def write_update_def js_get_set Let_def split: prod.splits sum.splits option.splits if_splits)
next
  case (step_dispute e j reason calls r)
  then show ?thesis using assms(2-4)
    by (cases "j = i") (auto simp: disputeEscrow_def run_op_def dispute_op_def write_update_def js_get_set Let_def merge_update_def split: prod.splits sum.splits option.splits if_splits)
qed

text \<open>
  An escrow disputed before it was locked is stuck: it has no transaction, so it can be neither locked
  nor refunded nor released, and every later store still has it disputed.
\<close>

theorem disputed_pending_is_stuck:
  assumes "(escrow_step hm key)\<^sup>*\<^sup>* [] st" "js_get st i = Some x" "es_status x = PENDING"
    and "disputeEscrow e i reason st = (st1, calls, Inr u)" "(escrow_step hm key)\<^sup>*\<^sup>* st1 st2"
  shows "\<exists>x'. js_get st2 i = Some x' \<and> es_status x' = DISPUTED \<and> es_transactionId x' = None"
proof -
  have ok: "store_ok hm key st" using store_ok_steps [OF assms(1) store_ok_empty] .
  have ok1: "store_ok hm key st1" using store_ok_step [OF step_dispute [OF assms(4)] ok] .
  have "es_transactionId x = None" using store_okD [OF ok assms(2)] assms(3) by (auto simp: doc_ok_def)
  then have st1: "\<exists>x'. js_get st1 i = Some x' \<and> es_status x' = DISPUTED \<and> es_transactionId x' = None"
    using assms(2-4) by (auto simp: disputeEscrow_def run_op_def dispute_op_def write_update_def js_get_set merge_update_def)
  from assms(5) st1 show ?thesis
  proof (induction rule: rtranclp_induct)
    case (step y z)
    then show ?case using stuck_document [OF step.hyps(2)] store_ok_steps [OF step.hyps(1) ok1] by blast
  qed
qed

section \<open>Interleavings\<close>

text \<open>
  The reads and writes of a request are separate awaits: two requests can both read the document before
  either writes. The first one listed writes first.
\<close>

definition finish_op :: "string \<Rightarrow> escrow js_result \<Rightarrow> escrow_store \<Rightarrow> escrow_store \<times> escrow js_result" where
  "finish_op i r st = (case r of Inl err \<Rightarrow> (st, Inl err) | Inr u \<Rightarrow> write_update i u st)"

lemma run_op_finish: "run_op i opr st = (let (calls, r) = opr (js_get st i); (st', r') = finish_op i r st in (st', calls, r'))"
  by (auto simp: run_op_def finish_op_def Let_def split: prod.splits sum.splits)

definition race :: "string \<Rightarrow> escrow_op \<Rightarrow> escrow_op \<Rightarrow> escrow_store \<Rightarrow> escrow_store \<times> provider_call list \<times> escrow js_result \<times> escrow js_result" where
  "race i op1 op2 st =
     (let (c1, r1) = op1 (js_get st i); (c2, r2) = op2 (js_get st i);
          (st1, w1) = finish_op i r1 st; (st2, w2) = finish_op i r2 st1
      in (st2, c1 @ c2, w1, w2))"

text \<open>
  The status check is not atomic with the write: a release and a refund of one locked escrow that
  interleave both succeed, the provider being asked to refund what is released, and the stored
  document then carries both dates (when the release writes last it is marked released and still has
  a refund date, which no sequential history can produce).
\<close>

theorem release_and_refund_both_succeed:
  assumes "(escrow_step hm key)\<^sup>*\<^sup>* [] st" "js_get st i = Some x" "es_status x = LOCKED" "es_transactionId x = Some tx" "tx \<noteq> []"
    and "verifyTransaction pv tx = Inr True" "initiateRefund pv tx = Inr True"
    and "race i (refund_op e pv reason) (release_op e' pv) st = (st', calls, w1, w2)"
  shows "calls = [Refund tx, Verify tx] \<and> (\<exists>u1 u2. w1 = Inr u1 \<and> w2 = Inr u2)
     \<and> (\<exists>y. js_get st' i = Some y \<and> es_status y = RELEASED \<and> es_releasedAt y = Some (nowMs e') \<and> es_refundedAt y = Some (nowMs e)
          \<and> \<not> doc_ok hm key i y)"
proof -
  have "doc_ok hm key i x" by (rule reachable_doc_ok [OF assms(1,2)])
  then have "es_refundedAt x = None" using assms(3) by (simp add: doc_ok_def)
  with assms(2-) show ?thesis
    by (auto simp: race_def refund_op_def release_op_def finish_op_def write_update_def merge_update_def js_get_set doc_ok_def)
qed

section \<open>Integrity hash\<close>

lemma timingSafeEqual_Inr: "timingSafeEqual a b = Inr v \<longleftrightarrow> utf8_length a = utf8_length b \<and> v = (a = b)"
  by (auto simp: timingSafeEqual_def)

definition integrity_text :: "escrow \<Rightarrow> env \<Rightarrow> string" where
  "integrity_text x e = es_id x @ '':'' @ js_String (es_amount x) @ '':'' @ show_int (nowMs e)"

text \<open>
  The integrity check of a stored escrow depends on the clock: under an HMAC with digests of one size
  it throws on an escrow not locked yet, and on a locked one it compares the digest taken at the lock
  with a digest of another text as soon as the clock prints differently.
\<close>

theorem integrity_check_needs_lock_clock:
  assumes "\<And>p. utf8_length (hm key p) = 64"
    and "(escrow_step hm key)\<^sup>*\<^sup>* [] st" "js_get st i = Some x"
  shows "(if es_lockedAt x = None then \<forall>e. \<exists>err. validateIntegrityHash hm key e x = Inl err
          else \<exists>e0. \<forall>e. validateIntegrityHash hm key e x = Inr (hm key (integrity_text x e0) = hm key (integrity_text x e))
                   \<and> (integrity_text x e0 = integrity_text x e \<longleftrightarrow> show_int (nowMs e0) = show_int (nowMs e)))"
proof -
  have ok: "doc_ok hm key i x" by (rule reachable_doc_ok [OF assms(2,3)])
  show ?thesis
  proof (cases "es_lockedAt x = None")
    case True
    then have "es_integrityHash x = ''''" using ok by (auto simp: doc_ok_def)
    then show ?thesis using True assms(1)
      by (simp add: validateIntegrityHash_def timingSafeEqual_def generateIntegrityHash_def utf8_length_def)
  next
    case False
    then obtain e0 where h: "es_integrityHash x = generateIntegrityHash hm e0 i (es_amount x) key" and i: "es_id x = i"
      using ok by (auto simp: doc_ok_def)
    have "validateIntegrityHash hm key e x = Inr (hm key (integrity_text x e0) = hm key (integrity_text x e))" for e
      using h i assms(1) by (simp add: validateIntegrityHash_def timingSafeEqual_def generateIntegrityHash_def integrity_text_def)
    moreover have "integrity_text x e0 = integrity_text x e \<longleftrightarrow> show_int (nowMs e0) = show_int (nowMs e)" for e
      by (simp add: integrity_text_def)
    ultimately show ?thesis using False by auto
  qed
qed

section \<open>Providers\<close>

text \<open>What the adapters take from outside: the Daraja client and the references drawn at random.\<close>

record gateway =
  gw_stkPush :: "int \<Rightarrow> jsval \<Rightarrow> jsval \<Rightarrow> string option js_result"
  gw_pullOk :: "string \<Rightarrow> bool"
  gw_uuid :: string
  gw_reference :: string

definition mpesaAdapter :: "(string \<Rightarrow> int option) \<Rightarrow> gateway \<Rightarrow> payment_provider" where
  "mpesaAdapter num gw =
     \<lparr>initializePayment = (\<lambda>amount currency meta.
        if currency \<noteq> JStr ''KES'' then Inl (JsError ''MPESA_ONLY_SUPPORTS_KES'')
        else if \<not> truthy (member meta ''escrowId'') \<or> \<not> truthy (member meta ''buyerId'') then Inl (JsError ''MPESA_MISSING_ESCROW_OR_BUYER'')
        else (case js_to_number num amount of
                None \<Rightarrow> Inl (RangeError ''The number NaN cannot be converted to a BigInt because it is not an integer'')
              | Some a \<Rightarrow> bind_result (gw_stkPush gw (a * 100) (member meta ''buyerId'') (member meta ''escrowId'')) (\<lambda>checkout.
                  Inr \<lparr>pr_status = ''PENDING'', pr_transactionId = checkout\<rparr>))),
      verifyTransaction = (\<lambda>tx. Inr (gw_pullOk gw tx)),
      initiateRefund = (\<lambda>tx. Inr True)\<rparr>"

definition stripeAdapter :: "gateway \<Rightarrow> payment_provider" where
  "stripeAdapter gw =
     \<lparr>initializePayment = (\<lambda>amount currency meta. Inr \<lparr>pr_status = ''PENDING'', pr_transactionId = Some (''pi_'' @ gw_uuid gw)\<rparr>),
      verifyTransaction = (\<lambda>tx. Inr True), initiateRefund = (\<lambda>tx. Inr True)\<rparr>"

definition bankTransferAdapter :: "gateway \<Rightarrow> env \<Rightarrow> payment_provider" where
  "bankTransferAdapter gw e =
     \<lparr>initializePayment = (\<lambda>amount currency meta.
        Inr \<lparr>pr_status = ''PENDING'', pr_transactionId = Some (''BT'' @ show_int (nowMs e) @ gw_reference gw)\<rparr>),
      verifyTransaction = (\<lambda>tx. Inr True), initiateRefund = (\<lambda>tx. Inr True)\<rparr>"

definition supportedProviders :: "string list" where
  "supportedProviders = [''MPESA'', ''STRIPE'', ''BANK_TRANSFER'']"

definition isProviderSupported :: "string \<Rightarrow> bool" where
  "isProviderSupported t \<longleftrightarrow> t \<in> set supportedProviders"

text \<open>The factory caches one stateless adapter per type: the cache is the list of the types built so far.\<close>

definition getProvider :: "(string \<Rightarrow> int option) \<Rightarrow> gateway \<Rightarrow> env \<Rightarrow> string \<Rightarrow> string list \<Rightarrow> string list \<times> payment_provider js_result" where
  "getProvider num gw e t cache =
     (let built = (if t \<in> set cache then cache else cache @ [t])
      in if t = ''MPESA'' then (built, Inr (mpesaAdapter num gw))
         else if t = ''STRIPE'' then (built, Inr (stripeAdapter gw))
         else if t = ''BANK_TRANSFER'' then (built, Inr (bankTransferAdapter gw e))
         else if t = ''USDC'' \<or> t = ''AIRTEL'' then (cache, Inl (JsError (''PROVIDER_NOT_YET_IMPLEMENTED_'' @ t)))
         else (cache, Inl (JsError (''PROVIDER_NOT_SUPPORTED_'' @ t))))"

section \<open>Routes\<close>

datatype escrow_reply =
    ReplyError int string
  | ReplyEscrow int escrow
  | ReplyChecked escrow bool
  | ReplyList "escrow list"

definition error_reply :: "js_error \<Rightarrow> escrow_reply" where
  "error_reply err =
     (let msg = error_message err
      in ReplyError (if str_includes ''NOT_FOUND'' msg then 404 else if str_includes ''INVALID_STATE'' msg then 409 else 500) msg)"

definition le_zero :: "(string \<Rightarrow> int option) \<Rightarrow> jsval \<Rightarrow> bool" where
  "le_zero num v = (case js_to_number num v of None \<Rightarrow> False | Some a \<Rightarrow> a \<le> 0)"

definition create_route ::
  "(string \<Rightarrow> int option) \<Rightarrow> env \<Rightarrow> string \<Rightarrow> jsval \<Rightarrow> jsval \<Rightarrow> escrow_store \<Rightarrow> escrow_store \<times> escrow_reply" where
  "create_route num e uuid tenantId body st =
     (let buyer = member body ''buyerId''; seller = member body ''sellerId''; amount = member body ''amount'';
          currency = member body ''currency''; prov = member body ''providerType''; descr = member body ''description''
      in if \<not> truthy tenantId then (st, ReplyError 401 ''TENANT_NOT_RESOLVED'')
         else if body = JUndefined \<or> body = JNull then (st, ReplyError 500 ''Cannot destructure property'')
         else if \<not> truthy buyer \<or> \<not> truthy seller \<or> \<not> truthy amount \<or> \<not> truthy currency \<or> \<not> truthy prov
           then (st, ReplyError 400 ''REQUIRED_FIELDS_MISSING'')
         else if le_zero num amount then (st, ReplyError 400 ''AMOUNT_INVALID'')
         else if \<not> (is_str prov \<and> isProviderSupported (the_str prov))
           then (st, ReplyError 400 (''PROVIDER_NOT_SUPPORTED_'' @ js_String prov))
         else
           (let (st', x) = createEscrow e uuid (js_String tenantId) buyer seller amount currency (the_str prov)
                  (if truthy descr then descr else JStr ''Escrow Transaction'') (member body ''metadata'') st
            in (st', ReplyEscrow 201 x)))"

text \<open>The shared shape of lock, release and refund: read, pick the provider of the document, run.\<close>

definition with_provider ::
  "(string \<Rightarrow> int option) \<Rightarrow> gateway \<Rightarrow> env \<Rightarrow> string
     \<Rightarrow> (payment_provider \<Rightarrow> string \<Rightarrow> escrow_store \<Rightarrow> escrow_store \<times> provider_call list \<times> escrow js_result)
     \<Rightarrow> string list \<Rightarrow> escrow_store \<Rightarrow> string list \<times> escrow_store \<times> escrow_reply" where
  "with_provider num gw e idParam run cache st =
     (let i = js_trim idParam
      in if i = [] then (cache, st, ReplyError 400 ''escrowId_REQUIRED'')
         else (case getEscrow i st of
                 None \<Rightarrow> (cache, st, ReplyError 404 ''ESCROW_NOT_FOUND'')
               | Some x \<Rightarrow>
                   (case getProvider num gw e (es_providerType x) cache of
                      (cache', Inl err) \<Rightarrow> (cache', st, error_reply err)
                    | (cache', Inr pv) \<Rightarrow>
                        (case run pv i st of
                           (st', calls, Inl err) \<Rightarrow> (cache', st', error_reply err)
                         | (st', calls, Inr u) \<Rightarrow> (cache', st', ReplyEscrow 200 u)))))"

definition lock_route ::
  "hmacfn \<Rightarrow> string \<Rightarrow> (string \<Rightarrow> int option) \<Rightarrow> gateway \<Rightarrow> env \<Rightarrow> env \<Rightarrow> string \<Rightarrow> string list \<Rightarrow> escrow_store \<Rightarrow> string list \<times> escrow_store \<times> escrow_reply" where
  "lock_route hm key num gw e e' idParam = with_provider num gw e idParam (lockEscrow hm key e e')"

definition release_route ::
  "(string \<Rightarrow> int option) \<Rightarrow> gateway \<Rightarrow> env \<Rightarrow> string \<Rightarrow> string list \<Rightarrow> escrow_store \<Rightarrow> string list \<times> escrow_store \<times> escrow_reply" where
  "release_route num gw e idParam = with_provider num gw e idParam (releaseEscrow e)"

definition refund_route ::
  "(string \<Rightarrow> int option) \<Rightarrow> gateway \<Rightarrow> env \<Rightarrow> string \<Rightarrow> jsval \<Rightarrow> string list \<Rightarrow> escrow_store \<Rightarrow> string list \<times> escrow_store \<times> escrow_reply" where
  "refund_route num gw e idParam body =
     (let reason = (if truthy (member body ''reason'') then member body ''reason'' else JStr ''Escrow refund requested'')
      in with_provider num gw e idParam (\<lambda>pv i. refundEscrow e pv i reason))"

definition dispute_route :: "env \<Rightarrow> string \<Rightarrow> jsval \<Rightarrow> escrow_store \<Rightarrow> escrow_store \<times> escrow_reply" where
  "dispute_route e idParam body st =
     (let i = js_trim idParam; reason = member body ''reason''
      in if i = [] then (st, ReplyError 400 ''escrowId_REQUIRED'')
         else if \<not> truthy reason then (st, ReplyError 400 ''reason_REQUIRED'')
         else (case disputeEscrow e i reason st of
                 (st', calls, Inl err) \<Rightarrow> (st', error_reply err)
               | (st', calls, Inr u) \<Rightarrow> (st', ReplyEscrow 200 u)))"

definition get_route :: "hmacfn \<Rightarrow> string \<Rightarrow> env \<Rightarrow> string \<Rightarrow> escrow_store \<Rightarrow> escrow_reply" where
  "get_route hm key e idParam st =
     (let i = js_trim idParam
      in if i = [] then ReplyError 400 ''escrowId_REQUIRED''
         else (case getEscrow i st of
                 None \<Rightarrow> ReplyError 404 ''ESCROW_NOT_FOUND''
               | Some x \<Rightarrow> (case validateIntegrityHash hm key e x of
                              Inl err \<Rightarrow> ReplyError 500 (error_message err)
                            | Inr ok \<Rightarrow> ReplyChecked x ok)))"

definition tenant_route :: "string \<Rightarrow> escrow_store \<Rightarrow> escrow_reply" where
  "tenant_route idParam st =
     (let t = js_trim idParam
      in if t = [] then ReplyError 400 ''tenantId_REQUIRED'' else ReplyList (getTenantEscrows t st))"

text \<open>
  The happy path through the routes: a complete request with a card provider creates a pending escrow,
  locking it stores the transaction and the hash of its id and amount, releasing it succeeds, and the
  escrow is then refused to be locked again with 409.
\<close>

theorem escrow_happy_path:
  assumes "truthy tenant" "truthy (member body ''buyerId'')" "truthy (member body ''sellerId'')" "truthy (member body ''currency'')"
    and "truthy (member body ''amount'')" "\<not> le_zero num (member body ''amount'')" "member body ''providerType'' = JStr ''STRIPE''"
    and "js_trim (''escrow_'' @ uuid) = ''escrow_'' @ uuid"
  shows "\<exists>st1 x1 c2 st2 x2 c3 st3 x3.
     create_route num e0 uuid tenant body st = (st1, ReplyEscrow 201 x1) \<and> es_status x1 = PENDING
     \<and> lock_route hm key num gw e1 e2 (es_id x1) cache st1 = (c2, st2, ReplyEscrow 200 x2)
     \<and> es_status x2 = LOCKED \<and> es_integrityHash x2 = generateIntegrityHash hm e1 (es_id x1) (es_amount x1) key
     \<and> release_route num gw e3 (es_id x1) c2 st2 = (c3, st3, ReplyEscrow 200 x3)
     \<and> es_status x3 = RELEASED \<and> js_get st3 (es_id x1) = Some x3
     \<and> snd (snd (lock_route hm key num gw e1 e2 (es_id x1) c3 st3)) = ReplyError 409 ''INVALID_STATE_TRANSITION_RELEASED_TO_LOCKED''"
proof -
  let ?i = "''escrow_'' @ uuid"
  have ids: "js_trim ?i = ?i" "?i \<noteq> []" using assms(8) by simp_all
  have body: "body \<noteq> JUndefined" "body \<noteq> JNull" using assms(2) by auto
  have sup: "isProviderSupported ''STRIPE''" by (simp add: isProviderSupported_def supportedProviders_def)
  define x1 where "x1 = snd (createEscrow e0 uuid (js_String tenant) (member body ''buyerId'') (member body ''sellerId'') (member body ''amount'')
      (member body ''currency'') ''STRIPE'' (if truthy (member body ''description'') then member body ''description'' else JStr ''Escrow Transaction'')
      (member body ''metadata'') st)"
  have x1: "es_id x1 = ?i" "es_status x1 = PENDING" "es_providerType x1 = ''STRIPE''" "es_transactionId x1 = None"
    "es_lockedAt x1 = None" "es_releasedAt x1 = None" "es_refundedAt x1 = None"
    by (simp_all add: x1_def createEscrow_def Let_def)
  have c: "create_route num e0 uuid tenant body st = (js_set ?i x1 st, ReplyEscrow 201 x1)"
    using assms body sup by (simp add: create_route_def x1_def createEscrow_def Let_def)
  let ?h = "generateIntegrityHash hm e1 ?i (es_amount x1) key"
  define x2 where "x2 = x1\<lparr>es_status := LOCKED, es_transactionId := Some (''pi_'' @ gw_uuid gw), es_integrityHash := ?h, es_lockedAt := Some (nowMs e2)\<rparr>"
  define x3 where "x3 = x2\<lparr>es_status := RELEASED, es_releasedAt := Some (nowMs e3)\<rparr>"
  let ?c2 = "if ''STRIPE'' \<in> set cache then cache else cache @ [''STRIPE'']"
  have l: "lock_route hm key num gw e1 e2 ?i cache (js_set ?i x1 st) = (?c2, js_set ?i x2 (js_set ?i x1 st), ReplyEscrow 200 x2)"
    using ids x1
    by (simp add: lock_route_def with_provider_def getEscrow_def js_get_set getProvider_def lockEscrow_def run_op_def lock_op_def
        stripeAdapter_def write_update_def merge_update_id x2_def Let_def)
  have x2: "es_status x2 = LOCKED" "es_providerType x2 = ''STRIPE''" "es_transactionId x2 = Some (''pi_'' @ gw_uuid gw)"
    "es_releasedAt x2 = None" "es_refundedAt x2 = None" "es_lockedAt x2 = Some (nowMs e2)" "es_integrityHash x2 = ?h"
    using x1 by (simp_all add: x2_def)
  let ?st2 = "js_set ?i x2 (js_set ?i x1 st)"
  have r: "release_route num gw e3 ?i ?c2 ?st2 = (?c2, js_set ?i x3 ?st2, ReplyEscrow 200 x3)"
    using ids x2
    by (simp add: release_route_def with_provider_def getEscrow_def js_get_set getProvider_def releaseEscrow_def run_op_def release_op_def
        stripeAdapter_def write_update_def merge_update_id x3_def Let_def)
  have x3: "es_status x3 = RELEASED" "es_providerType x3 = ''STRIPE''" using x2 by (simp_all add: x3_def)
  have "snd (snd (lock_route hm key num gw e1 e2 ?i ?c2 (js_set ?i x3 ?st2))) = ReplyError 409 ''INVALID_STATE_TRANSITION_RELEASED_TO_LOCKED''"
    using ids x3
    by (simp add: lock_route_def with_provider_def getEscrow_def js_get_set getProvider_def lockEscrow_def run_op_def lock_op_def
        error_reply_def error_message_def Let_def)
  with c l r x1 x2 x3 show ?thesis by (metis js_get_set)
qed

section \<open>Concrete instances\<close>

definition sample_env :: "int \<Rightarrow> env" where
  "sample_env t = \<lparr>nowMs = t, nowIso = ''now'', diskOk = (\<lambda>f. True)\<rparr>"

definition sample_hmac :: hmacfn where
  "sample_hmac k p = replicate 64 CHR ''a''"

definition sample_gateway :: gateway where
  "sample_gateway = \<lparr>gw_stkPush = (\<lambda>a b c. Inr (Some ''ws_1'')), gw_pullOk = (\<lambda>t. True), gw_uuid = ''u'', gw_reference = ''R''\<rparr>"

definition sample_store :: escrow_store where
  "sample_store = fst (createEscrow (sample_env 1) ''1'' ''t'' (JStr ''b'') (JStr ''s'') (JNum 5) (JStr ''KES'') ''STRIPE'' (JStr ''d'') JUndefined [])"

definition sample_pending :: escrow where
  "sample_pending = \<lparr>es_id = ''escrow_1'', es_tenantId = ''t'', es_buyerId = JStr ''b'', es_sellerId = JStr ''s'', es_amount = JNum 5,
     es_currency = JStr ''KES'', es_status = PENDING, es_providerType = ''STRIPE'', es_transactionId = None, es_integrityHash = '''',
     es_createdAt = 1, es_lockedAt = None, es_releasedAt = None, es_refundedAt = None, es_metadata = [(''description'', JStr ''d'')]\<rparr>"

definition sample_locked :: escrow where
  "sample_locked = sample_pending\<lparr>es_status := LOCKED, es_transactionId := Some ''pi_u'', es_integrityHash := sample_hmac ''k'' '''',
     es_lockedAt := Some 3\<rparr>"

definition sample_locked_store :: escrow_store where
  "sample_locked_store = [(''escrow_1'', sample_locked)]"

lemma sample_store_eq: "sample_store = [(''escrow_1'', sample_pending)]"
  by (simp add: sample_store_def createEscrow_def sample_pending_def spread_onto_def sample_env_def Let_def)

lemma sample_reach: "(escrow_step sample_hmac ''k'')\<^sup>*\<^sup>* [] sample_store"
proof (rule r_into_rtranclp)
  obtain x where "createEscrow (sample_env 1) ''1'' ''t'' (JStr ''b'') (JStr ''s'') (JNum 5) (JStr ''KES'') ''STRIPE'' (JStr ''d'') JUndefined []
      = (sample_store, x)"
    unfolding sample_store_def by (metis prod.collapse)
  then show "escrow_step sample_hmac ''k'' [] sample_store" by (intro step_create) auto
qed

lemma sample_lock_run:
  "lockEscrow sample_hmac ''k'' (sample_env 2) (sample_env 3) (stripeAdapter sample_gateway) ''escrow_1'' sample_store
     = (sample_locked_store, [Initialize ''escrow_1''], Inr sample_locked)"
  by (simp add: sample_store_eq sample_locked_store_def lockEscrow_def run_op_def lock_op_def stripeAdapter_def write_update_def
      merge_update_id sample_locked_def sample_pending_def sample_gateway_def generateIntegrityHash_def sample_hmac_def sample_env_def Let_def)

lemma sample_lock_step: "escrow_step sample_hmac ''k'' sample_store sample_locked_store"
  by (rule step_lock [OF sample_lock_run])

lemma sample_locked_reach: "(escrow_step sample_hmac ''k'')\<^sup>*\<^sup>* [] sample_locked_store"
  by (rule rtranclp.rtrancl_into_rtrancl [OF sample_reach sample_lock_step])

lemma sample_gets: "js_get sample_store ''escrow_1'' = Some sample_pending" "js_get sample_locked_store ''escrow_1'' = Some sample_locked"
  by (simp_all add: sample_store_eq sample_locked_store_def)



definition sample_disputed :: escrow where
  "sample_disputed = snd (hd (fst (disputeEscrow (sample_env 4) ''escrow_1'' (JStr ''r'') sample_locked_store)))"

lemma sample_dispute_run:
  "disputeEscrow (sample_env 4) ''escrow_1'' (JStr ''r'') sample_locked_store = ([(''escrow_1'', sample_disputed)], [], Inr sample_disputed)"
  "es_status sample_disputed = DISPUTED"
  by (simp_all add: sample_disputed_def sample_locked_store_def disputeEscrow_def run_op_def dispute_op_def write_update_def
      merge_update_id sample_locked_def sample_pending_def)

theorem escrow_terminal_states_witness: "es_status sample_disputed \<in> {DISPUTED, REFUNDED}"
proof -
  have "escrow_step sample_hmac ''k'' sample_locked_store [(''escrow_1'', sample_disputed)]"
    by (rule step_dispute [OF sample_dispute_run(1)])
  with sample_locked_reach have "(escrow_step sample_hmac ''k'')\<^sup>*\<^sup>* [] [(''escrow_1'', sample_disputed)]"
    by (rule rtranclp.rtrancl_into_rtrancl)
  from escrow_terminal_states [OF this rtranclp.rtrancl_refl, of "''escrow_1''" sample_disputed sample_disputed] show ?thesis
    by (simp add: sample_dispute_run(2))
qed

theorem disputed_pending_is_stuck_witness:
  "\<exists>x'. js_get (fst (disputeEscrow (sample_env 2) ''escrow_1'' (JStr ''r'') sample_store)) ''escrow_1'' = Some x'
     \<and> es_status x' = DISPUTED \<and> es_transactionId x' = None"
proof -
  obtain st1 calls u where d: "disputeEscrow (sample_env 2) ''escrow_1'' (JStr ''r'') sample_store = (st1, calls, Inr u)"
    by (simp add: sample_store_eq disputeEscrow_def run_op_def dispute_op_def write_update_def sample_pending_def)
  from disputed_pending_is_stuck [OF sample_reach sample_gets(1) _ d rtranclp.rtrancl_refl] d show ?thesis
    by (simp add: sample_pending_def)
qed

theorem release_and_refund_both_succeed_witness:
  "\<exists>st' calls w1 w2. race ''escrow_1'' (refund_op (sample_env 5) (stripeAdapter sample_gateway) (JStr ''r''))
       (release_op (sample_env 6) (stripeAdapter sample_gateway)) sample_locked_store = (st', calls, w1, w2)
     \<and> calls = [Refund ''pi_u'', Verify ''pi_u'']"
proof -
  obtain st' calls w1 w2 where r: "race ''escrow_1'' (refund_op (sample_env 5) (stripeAdapter sample_gateway) (JStr ''r''))
       (release_op (sample_env 6) (stripeAdapter sample_gateway)) sample_locked_store = (st', calls, w1, w2)"
    by (metis prod.collapse)
  have "es_status sample_locked = LOCKED" "es_transactionId sample_locked = Some ''pi_u''" by (simp_all add: sample_locked_def)
  from release_and_refund_both_succeed [OF sample_locked_reach sample_gets(2) this _ _ _ r] r show ?thesis
    by (simp add: stripeAdapter_def)
qed

theorem integrity_check_needs_lock_clock_witness:
  "\<forall>e. \<exists>err. validateIntegrityHash sample_hmac ''k'' e sample_pending = Inl err"
proof -
  have "utf8_length (sample_hmac ''k'' p) = 64" for p
    by (simp add: sample_hmac_def utf8_length_def sum_list_replicate)
  from integrity_check_needs_lock_clock [OF this sample_reach sample_gets(1)] show ?thesis by (simp add: sample_pending_def)
qed

theorem escrow_happy_path_witness:
  "\<exists>st1 x1. create_route (\<lambda>s. None) (sample_env 1) ''1'' (JStr ''t'')
       (JObj [(''buyerId'', JStr ''b''), (''sellerId'', JStr ''s''), (''amount'', JNum 5), (''currency'', JStr ''KES''), (''providerType'', JStr ''STRIPE'')]) []
     = (st1, ReplyEscrow 201 x1) \<and> es_status x1 = PENDING"
  using escrow_happy_path [of "JStr ''t''" "JObj [(''buyerId'', JStr ''b''), (''sellerId'', JStr ''s''), (''amount'', JNum 5),
      (''currency'', JStr ''KES''), (''providerType'', JStr ''STRIPE'')]" "\<lambda>s. None" "''1''" "sample_env 1" "[]" sample_hmac "''k''"
      sample_gateway "sample_env 2" "sample_env 3" "[]" "sample_env 4"]
  by (auto simp: le_zero_def js_trim_def js_space_def)

end
