(* ===== verification/Payout.thy ===== *)
theory Payout
  imports Escrow Complex_Main
begin

text \<open>
  Payout handshakes of the backend: creation and one-time-password release in
  \<^verbatim>\<open>packages/backend/src/services/PaymentService.ts\<close> behind \<^verbatim>\<open>controllers/PaymentController.ts\<close>, creation and
  asset verification in \<^verbatim>\<open>controllers/handshake.controller.ts\<close>, the rails of \<^verbatim>\<open>payout/router.ts\<close> with
  \<^verbatim>\<open>controllers/payoutProofController.ts\<close>. The database is the table of its rows; the hash, the drawn
  numbers, JSON parsing and the AI services are parameters. Finite numbers are rationals.
\<close>

section \<open>The table\<close>

datatype payout_status = HsLocked | HsReleased | HsFailed

record handshake =
  hs_tenantId :: string
  hs_handshakeId :: string
  hs_route :: string
  hs_status :: payout_status
  hs_aiConfidence :: rat
  hs_handshakeCodeHash :: "string option"
  hs_podPhoto :: "string option"
  hs_podGps :: "string option"
  hs_amountKESCents :: int
  hs_amountUSDCents :: int
  hs_exchangeRate :: int
  hs_mpesaB2CRecipient :: "string option"
  hs_pesaLinkRecipient :: "string option"
  hs_circleRecipient :: "string option"
  hs_releaseIdempotencyKey :: "string option"
  hs_processedReleaseTxId :: "string option"
  hs_releasedAt :: "int option"
  hs_failureReason :: "string option"

type_synonym payout_db = "(string, handshake) jsmap"

text \<open>
  Insertion as the schema constrains it: the identifier is unique, the tenant exists and the route is one
  of the enumeration.
\<close>

definition payout_routes :: "string list" where
  "payout_routes = [''MPESA'', ''BANK'', ''USDC'']"

definition db_create :: "(string \<Rightarrow> bool) \<Rightarrow> handshake \<Rightarrow> payout_db \<Rightarrow> payout_db \<times> handshake js_result" where
  "db_create tenantExists row db =
     (if hs_route row \<notin> set payout_routes then (db, Inl (JsError ''Invalid value for argument `route`.''))
      else if \<not> tenantExists (hs_tenantId row) then (db, Inl (JsError ''Foreign key constraint failed''))
      else if js_has db (hs_handshakeId row) then (db, Inl (JsError ''Unique constraint failed on handshakeId''))
      else (js_set (hs_handshakeId row) row db, Inr row))"

section \<open>Amounts\<close>

text \<open>
  \<^verbatim>\<open>amountKES.toFixed(2)\<close> rounds the magnitude to the nearest cent (halves up) behind the sign; the text is
  then cut at the point and its halves read apart, so the sign reaches the whole part only.
\<close>

definition toCentsKESBigInt :: "rat \<Rightarrow> int js_result" where
  "toCentsKESBigInt amountKES =
     (let n = \<lfloor>\<bar>amountKES\<bar> * 100 + 1 / 2\<rfloor>;
          whole = (if amountKES < 0 then - (n div 100) else n div 100);
          cents = whole * 100 + n mod 100
      in if 10 ^ 21 \<le> \<bar>amountKES\<bar> then Inl (JsError ''Cannot convert to a BigInt'')
         else if cents \<le> 0 then Inl (JsError ''amountKES_MUST_BE_POSITIVE'')
         else Inr cents)"

definition all_digits :: "string \<Rightarrow> bool" where
  "all_digits s \<longleftrightarrow> s \<noteq> [] \<and> list_all (\<lambda>c. c \<in> set ''0123456789'') s"

definition digits_value :: "string \<Rightarrow> int" where
  "digits_value s = foldl (\<lambda>a c. 10 * a + (of_char c - 48)) 0 s"

definition pad_end2 :: "string \<Rightarrow> string" where
  "pad_end2 s = s @ replicate (2 - length s) CHR ''0''"

definition pad_start6 :: "string \<Rightarrow> string" where
  "pad_start6 s = replicate (6 - length s) CHR ''0'' @ s"

definition convertAmountToSmallestUnitCents :: "jsval \<Rightarrow> int js_result" where
  "convertAmountToSmallestUnitCents amount =
     (let raw = (if is_str amount then js_trim (the_str amount) else js_String amount);
          normalized = filter (\<lambda>c. c \<noteq> CHR '','') raw;
          parts = split_at_char CHR ''.'' normalized;
          whole = hd parts;
          frac = (if 1 < length parts then parts ! 1 else [])
      in if raw = [] then Inl (JsError ''amount_REQUIRED'')
         else if CHR ''e'' \<in> set normalized \<or> CHR ''E'' \<in> set normalized then Inl (JsError ''amount_INVALID_FORMAT'')
         else if \<not> all_digits whole then Inl (JsError ''amount_INVALID'')
         else if frac \<noteq> [] \<and> \<not> all_digits frac then Inl (JsError ''amount_INVALID'')
         else
           let cents = digits_value whole * 100 + digits_value (take 2 (pad_end2 frac))
           in if cents \<le> 0 then Inl (JsError ''amount_MUST_BE_POSITIVE'') else Inr cents)"

definition toBigIntStrictIntegerString :: "jsval \<Rightarrow> string \<Rightarrow> int js_result" where
  "toBigIntStrictIntegerString v fieldName =
     (if \<not> is_str v \<and> \<not> is_num v then Inl (JsError (fieldName @ ''_INVALID''))
      else let s = js_trim (js_String v)
           in if \<not> all_digits s then Inl (JsError (fieldName @ ''_INVALID'')) else Inr (digits_value s))"

section \<open>The payment service\<close>

definition assertNonEmptyJs :: "jsval \<Rightarrow> string \<Rightarrow> string js_result" where
  "assertNonEmptyJs v name =
     (if \<not> is_str v then Inl (JsError (name @ ''_INVALID''))
      else let s = js_trim (the_str v) in if s = [] then Inl (JsError (name @ ''_REQUIRED'')) else Inr s)"

text \<open>\<^verbatim>\<open>crypto.randomInt(0, 1000000)\<close> returned \<^verbatim>\<open>n\<close>.\<close>

definition generateSecure6DigitOtp :: "nat \<Rightarrow> string" where
  "generateSecure6DigitOtp n = pad_start6 (show_nat n)"

definition createHandshake ::
  "hashfn \<Rightarrow> (string \<Rightarrow> bool) \<Rightarrow> string \<Rightarrow> nat \<Rightarrow> jsval \<Rightarrow> rat \<Rightarrow> jsval \<Rightarrow> string \<Rightarrow> payout_db \<Rightarrow> payout_db \<times> (handshake \<times> string) js_result" where
  "createHandshake h tenantExists uuid n tenantV amountKES recipientV route db =
     (case assertNonEmptyJs tenantV ''tenantId'' of Inl err \<Rightarrow> (db, Inl err)
      | Inr tenantId \<Rightarrow>
     (case assertNonEmptyJs recipientV ''recipientPhone'' of Inl err \<Rightarrow> (db, Inl err)
      | Inr recipientPhone \<Rightarrow>
     (case toCentsKESBigInt amountKES of Inl err \<Rightarrow> (db, Inl err)
      | Inr cents \<Rightarrow>
          (let otpPlain = generateSecure6DigitOtp n;
               row = \<lparr>hs_tenantId = tenantId, hs_handshakeId = ''hs_'' @ uuid, hs_route = route, hs_status = HsLocked,
                 hs_aiConfidence = 0, hs_handshakeCodeHash = Some (h otpPlain), hs_podPhoto = None, hs_podGps = None,
                 hs_amountKESCents = cents, hs_amountUSDCents = 0, hs_exchangeRate = 0,
                 hs_mpesaB2CRecipient = (if route = ''MPESA'' then Some recipientPhone else None),
                 hs_pesaLinkRecipient = (if route = ''BANK'' then Some recipientPhone else None),
                 hs_circleRecipient = (if route = ''USDC'' then Some recipientPhone else None),
                 hs_releaseIdempotencyKey = None, hs_processedReleaseTxId = None, hs_releasedAt = None, hs_failureReason = None\<rparr>;
               (db', r) = db_create tenantExists row db
           in (db', bind_result r (\<lambda>created. Inr (created, otpPlain)))))))"

text \<open>The transaction of \<^verbatim>\<open>verifyAndRelease\<close>: OTP, double release and key are checked inside it.\<close>

definition release_transaction ::
  "env \<Rightarrow> string \<Rightarrow> string \<Rightarrow> string \<Rightarrow> string \<Rightarrow> string \<Rightarrow> payout_db \<Rightarrow> payout_db \<times> handshake js_result" where
  "release_transaction e handshakeId userOtpHash idempotencyKey photo gps db =
     (case js_get db handshakeId of
        None \<Rightarrow> (db, Inl (JsError ''NOT_FOUND''))
      | Some x \<Rightarrow>
          if hs_handshakeCodeHash x = None \<or> hs_handshakeCodeHash x = Some [] \<or> hs_handshakeCodeHash x \<noteq> Some userOtpHash
          then (db, Inl (JsError ''INVALID_OTP''))
          else if hs_status x = HsReleased then (db, Inl (JsError ''ALREADY_PROCESSED''))
          else if find (\<lambda>(i, y). hs_releaseIdempotencyKey y = Some idempotencyKey) db \<noteq> None
          then (db, Inl (JsError ''ALREADY_PROCESSED''))
          else
            (let u = x\<lparr>hs_status := HsReleased, hs_releaseIdempotencyKey := Some idempotencyKey, hs_podPhoto := Some photo,
                       hs_podGps := Some gps, hs_releasedAt := Some (nowMs e)\<rparr>
             in (js_set handshakeId u db, Inr u)))"

definition verifyAndRelease ::
  "hashfn \<Rightarrow> env \<Rightarrow> jsval \<Rightarrow> jsval \<Rightarrow> jsval \<Rightarrow> jsval \<Rightarrow> jsval \<Rightarrow> payout_db \<Rightarrow> payout_db \<times> handshake js_result" where
  "verifyAndRelease h e handshakeIdV otpV imageV gps keyV db =
     (case bind_result (assertNonEmptyJs handshakeIdV ''handshakeId'') (\<lambda>handshakeId.
           bind_result (assertNonEmptyJs keyV ''idempotencyKey'') (\<lambda>key.
           bind_result (assertNonEmptyJs (if is_num otpV then JStr (js_String otpV) else otpV) ''userProvidedOtp'') (\<lambda>otp.
             if \<not> (length otp = 6 \<and> all_digits otp) then Inl (JsError ''INVALID_OTP'')
             else bind_result (assertNonEmptyJs imageV ''safetyNetImageUrl'') (\<lambda>photo. Inr (handshakeId, key, otp, photo))))) of
        Inl err \<Rightarrow> (db, Inl err)
      | Inr (handshakeId, key, otp, photo) \<Rightarrow>
          release_transaction e handshakeId (h otp) key photo (json_stringify (if gps = JUndefined then JNull else gps)) db)"

section \<open>The handshake controller\<close>

record asset_verification =
  av_isMatch :: bool
  av_confidence :: rat
  av_extractedDetails :: "string option"
  av_issueDetected :: bool

datatype payout_reply =
    PayoutError int string
  | PayoutCreated handshake
  | PayoutVerified asset_verification payout_status string
  | PayoutReleased handshake
  | PayoutRejected rat

definition thrown_reply :: "js_error \<Rightarrow> payout_reply" where
  "thrown_reply err =
     (let msg = error_message err
      in PayoutError (if drop (length msg - length ''_REQUIRED'') msg = ''_REQUIRED'' \<or> str_includes ''INVALID'' msg then 400 else 500) msg)"

definition nullable :: "jsval \<Rightarrow> string option" where
  "nullable v = (if v = JUndefined \<or> v = JNull then None else Some (js_String v))"

text \<open>Route, amounts and metadata of a creation request: a reply, an exception, or the values.\<close>

record create_fields =
  cf_route :: string
  cf_kes :: int
  cf_usd :: int
  cf_rate :: int
  cf_metadata :: jsval

definition openapi_fields :: "jsval \<Rightarrow> payout_reply + create_fields" where
  "openapi_fields body =
     (if \<not> truthy (member body ''route'') then Inl (PayoutError 400 ''route_REQUIRED'')
      else if \<not> is_obj (member body ''handshakeMetadata'') then Inl (PayoutError 400 ''handshakeMetadata_REQUIRED'')
      else case bind_result (toBigIntStrictIntegerString (member body ''amountKESCents'') ''amountKESCents'') (\<lambda>kes.
                bind_result (toBigIntStrictIntegerString (member body ''amountUSDCents'') ''amountUSDCents'') (\<lambda>usd.
                bind_result (toBigIntStrictIntegerString (member body ''exchangeRateKESPerUSDC'') ''exchangeRateKESPerUSDC'') (\<lambda>rate.
                  Inr \<lparr>cf_route = js_String (member body ''route''), cf_kes = kes, cf_usd = usd, cf_rate = rate,
                       cf_metadata = member body ''handshakeMetadata''\<rparr>))) of
             Inl err \<Rightarrow> Inl (thrown_reply err)
           | Inr f \<Rightarrow> Inr f)"

definition tasktext_fields :: "string \<Rightarrow> jsval \<Rightarrow> payout_reply + create_fields" where
  "tasktext_fields escrowAddress body =
     (let route = member body ''route''; chosen = (\<lambda>d. if route = JUndefined \<or> route = JNull then d else js_String route)
      in if member body ''amount'' = JUndefined then Inl (PayoutError 400 ''amount_REQUIRED'')
         else if \<not> truthy (member body ''currency'') then Inl (PayoutError 400 ''currency_REQUIRED'')
         else if \<not> truthy (member body ''provider_ref'') then Inl (PayoutError 400 ''provider_ref_REQUIRED'')
         else (case convertAmountToSmallestUnitCents (member body ''amount'') of
                 Inl err \<Rightarrow> Inl (thrown_reply err)
               | Inr cents \<Rightarrow>
                   (let meta = JObj [(''provider_ref'', member body ''provider_ref''), (''escrow_address'', JStr escrowAddress)]
                    in if member body ''currency'' = JStr ''KES''
                       then Inr \<lparr>cf_route = chosen ''MPESA'', cf_kes = cents, cf_usd = 0, cf_rate = 0, cf_metadata = meta\<rparr>
                       else Inr \<lparr>cf_route = chosen ''USDC'', cf_kes = 0, cf_usd = cents, cf_rate = 0, cf_metadata = meta\<rparr>)))"

definition create_handshake_route ::
  "(string \<Rightarrow> bool) \<Rightarrow> bool \<Rightarrow> string \<Rightarrow> string \<Rightarrow> jsval \<Rightarrow> jsval \<Rightarrow> payout_db \<Rightarrow> payout_db \<times> payout_reply" where
  "create_handshake_route tenantExists dbUp uuid uuid' tenantId body db =
     (if \<not> truthy tenantId then (db, PayoutError 401 ''TENANT_NOT_RESOLVED'')
      else if body = JUndefined \<or> body = JNull then (db, PayoutError 500 ''Cannot read properties'')
      else case (if member body ''amountKESCents'' \<noteq> JUndefined \<or> member body ''amountUSDCents'' \<noteq> JUndefined
                 then openapi_fields body else tasktext_fields (''escrow_'' @ uuid') body) of
             Inl rep \<Rightarrow> (db, rep)
           | Inr f \<Rightarrow>
               if \<not> dbUp then (db, PayoutError 503 ''Trust Layer Offline'')
               else
                 (let row = \<lparr>hs_tenantId = js_String tenantId, hs_handshakeId = ''hs_'' @ uuid, hs_route = cf_route f, hs_status = HsLocked,
                        hs_aiConfidence = 0, hs_handshakeCodeHash = None, hs_podPhoto = None, hs_podGps = None,
                        hs_amountKESCents = cf_kes f, hs_amountUSDCents = cf_usd f, hs_exchangeRate = cf_rate f,
                        hs_mpesaB2CRecipient = nullable (member body ''mpesaB2CRecipient''),
                        hs_pesaLinkRecipient = nullable (member body ''pesaLinkRecipient''),
                        hs_circleRecipient = nullable (member body ''circleRecipient''),
                        hs_releaseIdempotencyKey = None, hs_processedReleaseTxId = None, hs_releasedAt = None,
                        hs_failureReason = Some (json_stringify (cf_metadata f))\<rparr>
                  in case db_create tenantExists row db of
                       (db', Inl err) \<Rightarrow> (db', thrown_reply err)
                     | (db', Inr created) \<Rightarrow> (db', PayoutCreated created)))"

definition expected_item :: "(string \<Rightarrow> jsval option) \<Rightarrow> handshake \<Rightarrow> jsval" where
  "expected_item parse x =
     (let default = JStr ''the expected item described by the handshake''
      in case hs_failureReason x of
           None \<Rightarrow> default
         | Some t \<Rightarrow>
             if t = [] then default
             else (case parse t of
                     None \<Rightarrow> default
                   | Some parsed \<Rightarrow>
                       if truthy (member parsed ''expectedItem'') then member parsed ''expectedItem''
                       else if truthy (member parsed ''itemDescription'') then member parsed ''itemDescription''
                       else if truthy (member parsed ''provider_ref'') then member parsed ''provider_ref''
                       else default))"

text \<open>The AI service, given the item, answers or throws.\<close>

definition verify_asset_route ::
  "(string \<Rightarrow> jsval option) \<Rightarrow> (string \<Rightarrow> asset_verification js_result) \<Rightarrow> string \<Rightarrow> bool \<Rightarrow> jsval \<Rightarrow> payout_db \<Rightarrow> payout_db \<times> payout_reply" where
  "verify_asset_route parse ai handshakeId hasImage tenantId db =
     (if \<not> hasImage then (db, PayoutError 400 ''image_REQUIRED'')
      else if \<not> truthy tenantId then (db, PayoutError 401 ''TENANT_NOT_RESOLVED'')
      else (case js_get db handshakeId of
              None \<Rightarrow> (db, PayoutError 404 ''HANDSHAKE_NOT_FOUND'')
            | Some x \<Rightarrow>
                if JStr (hs_tenantId x) \<noteq> tenantId then (db, PayoutError 403 ''HANDSHAKE_TENANT_MISMATCH'')
                else (case ai (js_String (expected_item parse x)) of
                        Inl err \<Rightarrow> (db, PayoutError 500 (error_message err))
                      | Inr v \<Rightarrow>
                          (let nextStatus = (if av_isMatch v then HsReleased else HsFailed);
                               reason = (if av_isMatch v then None
                                 else (case av_extractedDetails v of
                                         Some d \<Rightarrow> if d \<noteq> [] then Some (take 1000 d)
                                                   else Some (if av_issueDetected v then ''ASSET_FLAGGED'' else ''ASSET_NOT_MATCHED'')
                                       | None \<Rightarrow> Some (if av_issueDetected v then ''ASSET_FLAGGED'' else ''ASSET_NOT_MATCHED'')));
                               u = x\<lparr>hs_status := nextStatus, hs_aiConfidence := av_confidence v, hs_failureReason := reason\<rparr>
                           in (js_set handshakeId u db, PayoutVerified v nextStatus (if av_isMatch v then ''AI_VERIFIED'' else ''FLAGGED''))))))"

section \<open>The payout rails\<close>

definition executeRouteRelease :: "handshake \<Rightarrow> unit js_result" where
  "executeRouteRelease x =
     (let missing = (\<lambda>r. r = None \<or> r = Some [])
      in if hs_route x = ''MPESA'' then (if missing (hs_mpesaB2CRecipient x) then Inl (JsError ''MPESA_RECIPIENT_MISSING'') else Inr ())
         else if hs_route x = ''BANK'' then (if missing (hs_pesaLinkRecipient x) then Inl (JsError ''PESALINK_RECIPIENT_MISSING'') else Inr ())
         else if hs_route x = ''USDC'' then (if missing (hs_circleRecipient x) then Inl (JsError ''CIRCLE_RECIPIENT_MISSING'') else Inr ())
         else Inl (JsError ''UNSUPPORTED_ROUTE''))"

definition preflight :: "string \<Rightarrow> payout_db \<Rightarrow> handshake js_result" where
  "preflight handshakeId db =
     (case js_get db handshakeId of
        None \<Rightarrow> Inl (JsError ''HANDSHAKE_NOT_FOUND'')
      | Some x \<Rightarrow>
          if hs_status x \<noteq> HsLocked then Inl (JsError ''HANDSHAKE_NOT_LOCKED'')
          else if hs_aiConfidence x \<le> 95 / 100 then Inl (JsError ''AI_CONFIDENCE_TOO_LOW'')
          else Inr x)"

definition release_tx_id :: "env \<Rightarrow> handshake \<Rightarrow> string" where
  "release_tx_id e x = ''rel_'' @ hs_handshakeId x @ ''_'' @ show_int (nowMs e)"

text \<open>The update of the released row, refused when another row carries the transaction id.\<close>

definition mark_released :: "env \<Rightarrow> env \<Rightarrow> string \<Rightarrow> handshake \<Rightarrow> payout_db \<Rightarrow> payout_db \<times> handshake js_result" where
  "mark_released e e' handshakeId x db =
     (case js_get db handshakeId of
        None \<Rightarrow> (db, Inl (JsError ''Record to update not found''))
      | Some cur \<Rightarrow>
          if find (\<lambda>(i, y). i \<noteq> handshakeId \<and> hs_processedReleaseTxId y = Some (release_tx_id e x)) db \<noteq> None
          then (db, Inl (JsError ''Unique constraint failed on processedReleaseTxId''))
          else
            (let u = cur\<lparr>hs_status := HsReleased, hs_processedReleaseTxId := Some (release_tx_id e x),
                         hs_releasedAt := Some (nowMs e'), hs_failureReason := None\<rparr>
             in (js_set handshakeId u db, Inr u)))"

definition mark_failed :: "string \<Rightarrow> payout_db \<Rightarrow> payout_db" where
  "mark_failed handshakeId db =
     (case js_get db handshakeId of
        None \<Rightarrow> db
      | Some cur \<Rightarrow> js_set handshakeId (cur\<lparr>hs_status := HsFailed, hs_failureReason := Some ''RELEASE_FAILED''\<rparr>) db)"

text \<open>The part after the preflight, on the row it read.\<close>

definition settle :: "env \<Rightarrow> env \<Rightarrow> string \<Rightarrow> handshake \<Rightarrow> payout_db \<Rightarrow> payout_db \<times> handshake js_result" where
  "settle e e' handshakeId x db =
     (let (db1, r) = (case executeRouteRelease x of Inl err \<Rightarrow> (db, Inl err) | Inr _ \<Rightarrow> mark_released e e' handshakeId x db)
      in case r of
           Inr u \<Rightarrow> (db1, Inr u)
         | Inl err \<Rightarrow>
             let msg = error_message err
             in (case (if str_includes ''processedReleaseTxId'' msg \<or> str_includes ''Unique constraint'' msg
                       then js_get db1 handshakeId else None) of
                   Some y \<Rightarrow> if hs_status y = HsReleased then (db1, Inr y) else (mark_failed handshakeId db1, Inl err)
                 | None \<Rightarrow> (mark_failed handshakeId db1, Inl err)))"

definition processUniversalHandshake :: "env \<Rightarrow> env \<Rightarrow> string \<Rightarrow> payout_db \<Rightarrow> payout_db \<times> handshake js_result" where
  "processUniversalHandshake e e' handshakeId db =
     (case preflight handshakeId db of
        Inl err \<Rightarrow> (db, Inl err)
      | Inr x \<Rightarrow> settle e e' handshakeId x db)"

definition process_route :: "env \<Rightarrow> env \<Rightarrow> string \<Rightarrow> payout_db \<Rightarrow> payout_db \<times> payout_reply" where
  "process_route e e' handshakeId db =
     (case processUniversalHandshake e e' handshakeId db of
        (db', Inr u) \<Rightarrow> (db', PayoutReleased u)
      | (db', Inl err) \<Rightarrow>
          (let msg = error_message err
           in (db', PayoutError (if msg \<in> {''HANDSHAKE_NOT_FOUND'', ''HANDSHAKE_NOT_LOCKED'', ''AI_CONFIDENCE_TOO_LOW''} then 400 else 500) msg)))"

text \<open>
  The proof of delivery: the trust service answers with a verdict, a score and a reasoning, and a verified
  proof above the threshold is processed at once.
\<close>

record proof_verdict =
  vd_verified :: bool
  vd_confidence :: rat
  vd_reasoning :: "string option"

definition verify_proof_route ::
  "(jsval \<Rightarrow> jsval \<Rightarrow> proof_verdict js_result) \<Rightarrow> env \<Rightarrow> env \<Rightarrow> string \<Rightarrow> jsval \<Rightarrow> payout_db \<Rightarrow> payout_db \<times> payout_reply" where
  "verify_proof_route trust e e' handshakeId body db =
     (if \<not> truthy (member body ''imageBase64'') then (db, PayoutError 400 ''imageBase64_REQUIRED'')
      else if \<not> truthy (member body ''handshakeMetadata'') then (db, PayoutError 400 ''handshakeMetadata_REQUIRED'')
      else (case js_get db handshakeId of
              None \<Rightarrow> (db, PayoutError 404 ''HANDSHAKE_NOT_FOUND'')
            | Some x \<Rightarrow>
                if hs_status x \<noteq> HsLocked then (db, PayoutError 400 ''HANDSHAKE_NOT_LOCKED'')
                else (case trust (member body ''imageBase64'') (member body ''handshakeMetadata'') of
                        Inl err \<Rightarrow> (db, PayoutError 500 (error_message err))
                      | Inr v \<Rightarrow>
                          if vd_verified v \<and> 95 / 100 < vd_confidence v
                          then
                            (let db1 = js_set handshakeId (x\<lparr>hs_aiConfidence := vd_confidence v, hs_failureReason := None\<rparr>) db
                             in case processUniversalHandshake e e' handshakeId db1 of
                                  (db2, Inr u) \<Rightarrow> (db2, PayoutReleased u)
                                | (db2, Inl err) \<Rightarrow> (db2, PayoutError 500 (error_message err)))
                          else
                            (js_set handshakeId (x\<lparr>hs_aiConfidence := vd_confidence v,
                               hs_failureReason := Some (case vd_reasoning v of None \<Rightarrow> ''PROOF_NOT_VERIFIED'' | Some t \<Rightarrow> take 500 t)\<rparr>) db,
                             PayoutRejected (vd_confidence v)))))"

section \<open>Amounts: properties\<close>

text \<open>
  The amount check of the service is wrong on small negative numbers: a non-negative amount is accepted
  exactly when it rounds to at least one cent and gives that number of cents, but so is a negative
  amount above -1 (up to rounding), as the positive amount of the same magnitude.
\<close>

theorem toCents_accepts_iff:
  assumes "\<bar>x\<bar> < 10 ^ 21"
  shows "toCentsKESBigInt x = Inr c \<longleftrightarrow>
     0 < c \<and> c = \<lfloor>\<bar>x\<bar> * 100 + 1 / 2\<rfloor> \<and> (0 \<le> x \<or> c < 100)"
proof -
  define n where "n = \<lfloor>\<bar>x\<bar> * 100 + 1 / 2\<rfloor>"
  have n0: "0 \<le> n" unfolding n_def by simp
  have split: "n div 100 * 100 + n mod 100 = n" by simp
  show ?thesis
  proof (cases "x < 0")
    case False
    then show ?thesis using assms split unfolding toCentsKESBigInt_def n_def [symmetric] Let_def by auto
  next
    case True
    have "0 < - (n div 100) * 100 + n mod 100 \<longleftrightarrow> 0 < n \<and> n < 100"
      using n0 by presburger
    moreover have "n < 100 \<Longrightarrow> - (n div 100) * 100 + n mod 100 = n" using n0 by simp
    ultimately show ?thesis
      using True assms unfolding toCentsKESBigInt_def n_def [symmetric] Let_def by auto
  qed
qed

theorem toCents_accepts_iff_witness: "toCentsKESBigInt (- (1 / 2)) = Inr 50"
proof -
  have "\<lfloor>\<bar>- (1 / 2)\<bar> * 100 + 1 / 2 :: rat\<rfloor> = 50" by (simp add: floor_eq_iff)
  then show ?thesis using toCents_accepts_iff [of "- (1 / 2)" 50] by simp
qed

section \<open>Parsing amounts\<close>

lemma digits_value_app: "digits_value (s @ [c]) = 10 * digits_value s + (of_char c - 48)"
  by (simp add: digits_value_def)

lemma digits_value_nonneg: "list_all (\<lambda>c. c \<in> set ''0123456789'') s \<Longrightarrow> 0 \<le> digits_value s"
proof (induction s rule: rev_induct)
  case (snoc c s)
  then show ?case by (auto simp: digits_value_app)
qed (simp add: digits_value_def)

lemma split_at_char_none [simp]: "c \<notin> set s \<Longrightarrow> split_at_char c s = [s]"
  by (induction s) auto

lemma split_at_char_first:
  "c \<notin> set a \<Longrightarrow> split_at_char c (a @ c # r) = a # split_at_char c r"
  by (induction a) auto

lemma digit_clean:
  assumes "c \<in> set ''0123456789''"
  shows "c \<noteq> CHR '','' \<and> c \<noteq> CHR ''.'' \<and> c \<noteq> CHR ''e'' \<and> c \<noteq> CHR ''E'' \<and> \<not> js_space c"
proof -
  have "list_all (\<lambda>c. c \<noteq> CHR '','' \<and> c \<noteq> CHR ''.'' \<and> c \<noteq> CHR ''e'' \<and> c \<noteq> CHR ''E'' \<and> \<not> js_space c) ''0123456789''"
    by code_simp
  with assms show ?thesis unfolding list_all_iff by blast
qed

lemma digits_clean:
  assumes "list_all (\<lambda>c. c \<in> set ''0123456789'') s"
  shows "CHR '','' \<notin> set s" "CHR ''.'' \<notin> set s" "CHR ''e'' \<notin> set s" "CHR ''E'' \<notin> set s" "filter (\<lambda>c. c \<noteq> CHR '','') s = s"
    "\<forall>c \<in> set s. \<not> js_space c"
  using assms digit_clean unfolding list_all_iff filter_id_conv by blast+

lemma dropWhile_clean: "\<forall>c \<in> set s. \<not> P c \<Longrightarrow> dropWhile P s = s"
  by (cases s) auto

lemma js_trim_clean: "\<forall>c \<in> set s. \<not> js_space c \<Longrightarrow> js_trim s = s"
  unfolding js_trim_def by (simp add: dropWhile_clean)

text \<open>
  A decimal amount written with digits, with or without a fractional part, is read as its whole part
  times a hundred plus the first two fractional digits (padded with zeros): further digits are cut, and
  everything after a second point is ignored whatever it is made of.
\<close>

theorem decimal_amount_in_cents:
  assumes "all_digits w" "list_all (\<lambda>c. c \<in> set ''0123456789'') f"
    and "0 < digits_value w * 100 + digits_value (take 2 (pad_end2 f))"
    and "\<forall>c \<in> set junk. \<not> js_space c" "CHR ''e'' \<notin> set junk" "CHR ''E'' \<notin> set junk" "junk = [] \<or> hd junk = CHR ''.''"
  shows "convertAmountToSmallestUnitCents (JStr (w @ CHR ''.'' # f @ junk)) =
     Inr (digits_value w * 100 + digits_value (take 2 (pad_end2 f)))"
proof -
  let ?t = "w @ CHR ''.'' # f @ junk"
  have w: "list_all (\<lambda>c. c \<in> set ''0123456789'') w" "w \<noteq> []" using assms(1) by (auto simp: all_digits_def)
  note cw = digits_clean [OF w(1)] and cf = digits_clean [OF assms(2)]
  have trim: "js_trim ?t = ?t" by (rule js_trim_clean) (use cw(6) cf(6) assms(4) in \<open>auto simp: js_space_def\<close>)
  let ?j = "filter (\<lambda>c. c \<noteq> CHR '','') junk"
  have norm: "filter (\<lambda>c. c \<noteq> CHR '','') ?t = w @ CHR ''.'' # f @ ?j" using cw(5) cf(5) by simp
  have tail: "\<exists>r. split_at_char CHR ''.'' (f @ ?j) = f # r"
  proof (cases junk)
    case Nil
    then show ?thesis using cf(2) by simp
  next
    case (Cons c r)
    then have "?j = CHR ''.'' # filter (\<lambda>c. c \<noteq> CHR '','') r" using assms(7) by simp
    then show ?thesis using split_at_char_first [OF cf(2)] by simp
  qed
  then obtain r where parts: "split_at_char CHR ''.'' (w @ CHR ''.'' # f @ ?j) = w # f # r"
    using split_at_char_first [OF cw(2)] by auto
  have noe: "CHR ''e'' \<notin> set (w @ CHR ''.'' # f @ ?j)" "CHR ''E'' \<notin> set (w @ CHR ''.'' # f @ ?j)"
    using cw(3,4) cf(3,4) assms(5,6) by auto
  have frac: "\<not> (f \<noteq> [] \<and> \<not> all_digits f)" using assms(2) by (auto simp: all_digits_def)
  show ?thesis
    unfolding convertAmountToSmallestUnitCents_def is_str.simps the_str.simps if_True trim norm Let_def parts
    using assms(1,3) noe frac w(2) by simp
qed

section \<open>Release: properties\<close>

lemma find_none_iff: "find P xs = None \<longleftrightarrow> (\<forall>x \<in> set xs. \<not> P x)"
  by (auto simp: find_None_iff)

text \<open>
  C8. The release transaction succeeds exactly for a stored handshake not yet released, with the password
  whose hash was stored at its creation, and a key no row carries; then it marks that row alone as
  released under the key.
\<close>

theorem release_transaction_iff:
  "release_transaction e i hash key photo gps db = (db', Inr u) \<longleftrightarrow>
     (\<exists>x. js_get db i = Some x \<and> hs_handshakeCodeHash x = Some hash \<and> hash \<noteq> [] \<and> hs_status x \<noteq> HsReleased
        \<and> (\<forall>p \<in> set db. hs_releaseIdempotencyKey (snd p) \<noteq> Some key)
        \<and> u = x\<lparr>hs_status := HsReleased, hs_releaseIdempotencyKey := Some key, hs_podPhoto := Some photo,
                hs_podGps := Some gps, hs_releasedAt := Some (nowMs e)\<rparr>
        \<and> db' = js_set i u db)"
proof (cases "js_get db i")
  case None
  then show ?thesis by (simp add: release_transaction_def)
next
  case (Some x)
  have "find (\<lambda>(i, y). hs_releaseIdempotencyKey y = Some key) db \<noteq> None \<longleftrightarrow>
      \<not> (\<forall>p \<in> set db. hs_releaseIdempotencyKey (snd p) \<noteq> Some key)"
    unfolding find_none_iff by force
  with Some show ?thesis by (auto simp: release_transaction_def Let_def)
qed

lemma assertNonEmptyJs_ok: "js_trim s = s \<Longrightarrow> s \<noteq> [] \<Longrightarrow> assertNonEmptyJs (JStr s) name = Inr s"
  by (simp add: assertNonEmptyJs_def)

lemma verifyAndRelease_run:
  assumes "js_trim i = i" "i \<noteq> []" "js_trim key = key" "key \<noteq> []" "js_trim otp = otp" "length otp = 6" "all_digits otp"
    and "js_trim photo = photo" "photo \<noteq> []"
  shows "verifyAndRelease h e (JStr i) (JStr otp) (JStr photo) gps (JStr key) db =
     release_transaction e i (h otp) key photo (json_stringify (if gps = JUndefined then JNull else gps)) db"
proof -
  have "otp \<noteq> []" using assms(6) by auto
  with assms show ?thesis by (simp add: verifyAndRelease_def assertNonEmptyJs_ok)
qed

lemma js_trim_digits: "all_digits s \<Longrightarrow> js_trim s = s"
  by (rule js_trim_clean) (use digits_clean(6) in \<open>auto simp: all_digits_def\<close>)

text \<open>
  A released handshake can be released again: the asset verification does not look at the status and
  turns a released row into a failed one, and the same password with a fresh key then passes the
  double-release check.
\<close>

theorem failed_asset_check_reopens_release:
  assumes "js_get db i = Some x" "hs_status x = HsReleased" "hs_handshakeCodeHash x = Some (h otp)" "h otp \<noteq> []"
    and "tenant = JStr (hs_tenantId x)" "hs_tenantId x \<noteq> []" "ai (js_String (expected_item parse x)) = Inr v" "\<not> av_isMatch v"
    and "js_trim i = i" "i \<noteq> []" "js_trim key = key" "key \<noteq> []" "length otp = 6" "all_digits otp" "js_trim photo = photo" "photo \<noteq> []"
    and "\<forall>p \<in> set db. hs_releaseIdempotencyKey (snd p) \<noteq> Some key"
  shows "\<exists>db2 u. verifyAndRelease h e (JStr i) (JStr otp) (JStr photo) gps (JStr key)
            (fst (verify_asset_route parse ai i True tenant db)) = (db2, Inr u)
          \<and> hs_status u = HsReleased \<and> hs_releaseIdempotencyKey u = Some key \<and> hs_amountKESCents u = hs_amountKESCents x"
proof -
  define y where "y = the (js_get (fst (verify_asset_route parse ai i True tenant db)) i)"
  have r: "fst (verify_asset_route parse ai i True tenant db) = js_set i y db" "hs_status y = HsFailed"
    "hs_handshakeCodeHash y = Some (h otp)" "hs_amountKESCents y = hs_amountKESCents x"
    "hs_releaseIdempotencyKey y = hs_releaseIdempotencyKey x"
    using assms(1,3,5-8) by (auto simp: y_def verify_asset_route_def js_get_set Let_def)
  have "(i, x) \<in> set db" using assms(1) by (rule map_of_SomeD)
  then have "hs_releaseIdempotencyKey x \<noteq> Some key" using assms(17) by auto
  then have keys: "\<forall>p \<in> set (js_set i y db). hs_releaseIdempotencyKey (snd p) \<noteq> Some key"
    using assms(17) r(5) by (auto dest!: in_set_js_set)
  have "js_get (js_set i y db) i = Some y" by (simp add: js_get_set)
  with keys r assms(4) have "\<exists>db2 u. release_transaction e i (h otp) key photo g (js_set i y db) = (db2, Inr u)
      \<and> hs_status u = HsReleased \<and> hs_releaseIdempotencyKey u = Some key \<and> hs_amountKESCents u = hs_amountKESCents x" for g
    by (subst release_transaction_iff) auto
  then show ?thesis
    using verifyAndRelease_run [OF assms(9-12) js_trim_digits [OF assms(14)] assms(13,14,15,16)] r(1) by simp
qed

section \<open>Rails: properties\<close>

text \<open>
  A payout is settled only from a locked handshake with a confidence above 0.95 and a recipient for its
  route; then the row is released under a transaction id made of its identifier and the clock. A rail
  that fails on such a handshake marks it as failed.
\<close>

theorem processUniversal_outcome:
  assumes "processUniversalHandshake e e' i db = (db', r)" "js_get db i = Some x"
    and "\<forall>p \<in> set db. hs_processedReleaseTxId (snd p) \<noteq> Some (release_tx_id e x)"
  shows "((\<exists>u. r = Inr u) \<longleftrightarrow> hs_status x = HsLocked \<and> 95 / 100 < hs_aiConfidence x \<and> executeRouteRelease x = Inr ())
    \<and> (if hs_status x = HsLocked \<and> 95 / 100 < hs_aiConfidence x
        then (\<exists>y. js_get db' i = Some y
               \<and> (if executeRouteRelease x = Inr ()
                  then hs_status y = HsReleased \<and> hs_processedReleaseTxId y = Some (release_tx_id e x)
                  else hs_status y = HsFailed))
        else db' = db)"
proof (cases "hs_status x = HsLocked \<and> 95 / 100 < hs_aiConfidence x")
  case False
  then show ?thesis using assms(1,2) by (auto simp: processUniversalHandshake_def preflight_def split: if_splits)
next
  case True
  then have run: "settle e e' i x db = (db', r)"
    using assms(1,2) by (simp add: processUniversalHandshake_def preflight_def)
  show ?thesis
  proof (cases "executeRouteRelease x")
    case (Inr z)
    have "find (\<lambda>(j, y). j \<noteq> i \<and> hs_processedReleaseTxId y = Some (release_tx_id e x)) db = None"
      unfolding find_none_iff using assms(3) by auto
    with run Inr assms(2) have "\<exists>u. r = Inr u \<and> db' = js_set i u db \<and> hs_status u = HsReleased
        \<and> hs_processedReleaseTxId u = Some (release_tx_id e x)"
      by (auto simp: settle_def mark_released_def Let_def)
    with True Inr show ?thesis by (auto simp: js_get_set)
  next
    case (Inl err)
    have "err \<in> {JsError ''MPESA_RECIPIENT_MISSING'', JsError ''PESALINK_RECIPIENT_MISSING'', JsError ''CIRCLE_RECIPIENT_MISSING'', JsError ''UNSUPPORTED_ROUTE''}"
      using Inl by (auto simp: executeRouteRelease_def Let_def split: if_splits)
    then have "\<not> str_includes ''processedReleaseTxId'' (error_message err) \<and> \<not> str_includes ''Unique constraint'' (error_message err)"
      by (auto simp: error_message_def)
    with run Inl assms(2) have "r = Inl err" "db' = mark_failed i db" by (auto simp: settle_def Let_def)
    with True Inl assms(2) show ?thesis by (auto simp: mark_failed_def js_get_set)
  qed
qed

text \<open>
  The transaction id does not make the payout idempotent: two workers that both passed the preflight
  before either settled both execute the rail and both succeed, since each forms its own id from its
  clock, and the second id replaces the first.
\<close>

theorem two_workers_pay_twice:
  assumes "preflight i db = Inr x" "executeRouteRelease x = Inr ()" "distinct (map fst db)"
    and "\<forall>p \<in> set db. hs_processedReleaseTxId (snd p) \<noteq> Some (release_tx_id e1 x) \<and> hs_processedReleaseTxId (snd p) \<noteq> Some (release_tx_id e2 x)"
    and "settle e1 e1' i x db = (db1, r1)" "settle e2 e2' i x db1 = (db2, r2)"
  shows "(\<exists>u1. r1 = Inr u1 \<and> hs_processedReleaseTxId u1 = Some (release_tx_id e1 x))
       \<and> (\<exists>u2. r2 = Inr u2 \<and> hs_processedReleaseTxId u2 = Some (release_tx_id e2 x) \<and> js_get db2 i = Some u2)"
proof -
  have x: "js_get db i = Some x" using assms(1) by (auto simp: preflight_def split: option.splits if_splits)
  have none: "find (\<lambda>(j, y). j \<noteq> i \<and> hs_processedReleaseTxId y = Some (release_tx_id e x)) d = None"
    if "\<forall>p \<in> set d. fst p \<noteq> i \<longrightarrow> hs_processedReleaseTxId (snd p) \<noteq> Some (release_tx_id e x)" for d e
    unfolding find_none_iff using that by auto
  obtain u1 where u1: "r1 = Inr u1" "db1 = js_set i u1 db" "hs_processedReleaseTxId u1 = Some (release_tx_id e1 x)"
    using assms(2,5) x none [of db e1] assms(4) by (auto simp: settle_def mark_released_def Let_def)
  have "\<forall>p \<in> set db1. fst p \<noteq> i \<longrightarrow> hs_processedReleaseTxId (snd p) \<noteq> Some (release_tx_id e2 x)"
    using assms(4) u1(2) by (auto dest!: in_set_js_set)
  from none [OF this] have "\<exists>u2. r2 = Inr u2 \<and> hs_processedReleaseTxId u2 = Some (release_tx_id e2 x) \<and> db2 = js_set i u2 db1"
    using assms(2,6) u1(2) by (auto simp: settle_def mark_released_def js_get_set Let_def)
  then show ?thesis using u1 by (auto simp: js_get_set)
qed

section \<open>Concrete instances\<close>

definition sample_handshake :: handshake where
  "sample_handshake = \<lparr>hs_tenantId = ''t'', hs_handshakeId = ''hs_1'', hs_route = ''MPESA'', hs_status = HsLocked, hs_aiConfidence = 99 / 100,
     hs_handshakeCodeHash = Some ''123456'', hs_podPhoto = None, hs_podGps = None, hs_amountKESCents = 500, hs_amountUSDCents = 0,
     hs_exchangeRate = 0, hs_mpesaB2CRecipient = Some ''2547'', hs_pesaLinkRecipient = None, hs_circleRecipient = None,
     hs_releaseIdempotencyKey = None, hs_processedReleaseTxId = None, hs_releasedAt = None, hs_failureReason = None\<rparr>"

definition sample_db :: payout_db where
  "sample_db = [(''hs_1'', sample_handshake)]"

lemma sample_db_get: "js_get sample_db ''hs_1'' = Some sample_handshake"
  by (simp add: sample_db_def)

theorem decimal_amount_in_cents_witness: "convertAmountToSmallestUnitCents (JStr ''12.345.x'') = Inr 1234"
proof -
  have v: "digits_value ''12'' = 12" "digits_value (take 2 (pad_end2 ''345'')) = 34" by code_simp+
  have "all_digits ''12''" "list_all (\<lambda>c. c \<in> set ''0123456789'') ''345''" "\<forall>c \<in> set ''.x''. \<not> js_space c" by code_simp+
  from decimal_amount_in_cents [OF this(1,2) _ this(3)] v show ?thesis by simp
qed

theorem release_transaction_iff_witness:
  "release_transaction (sample_env 5) ''hs_1'' ''123456'' ''key'' ''p'' ''g'' sample_db =
     (let u = sample_handshake\<lparr>hs_status := HsReleased, hs_releaseIdempotencyKey := Some ''key'', hs_podPhoto := Some ''p'',
                hs_podGps := Some ''g'', hs_releasedAt := Some 5\<rparr> in (js_set ''hs_1'' u sample_db, Inr u))"
  unfolding Let_def release_transaction_iff
  by (rule exI [of _ sample_handshake]) (simp add: sample_db_def sample_handshake_def sample_env_def)

definition sample_released_db :: payout_db where
  "sample_released_db = [(''hs_1'', sample_handshake\<lparr>hs_status := HsReleased, hs_releaseIdempotencyKey := Some ''key1''\<rparr>)]"

theorem failed_asset_check_reopens_release_witness:
  "\<exists>db2 u. verifyAndRelease (\<lambda>s. s) (sample_env 9) (JStr ''hs_1'') (JStr ''123456'') (JStr ''photo'') JNull (JStr ''key2'')
     (fst (verify_asset_route (\<lambda>s. None)
        (\<lambda>s. Inr \<lparr>av_isMatch = False, av_confidence = 0, av_extractedDetails = None, av_issueDetected = True\<rparr>) ''hs_1'' True (JStr ''t'') sample_released_db))
     = (db2, Inr u) \<and> hs_releaseIdempotencyKey u = Some ''key2''"
proof -
  have t: "js_trim ''hs_1'' = ''hs_1''" "js_trim ''key2'' = ''key2''" "js_trim ''photo'' = ''photo''" "all_digits ''123456''" by code_simp+
  have g: "js_get sample_released_db ''hs_1'' = Some (sample_handshake\<lparr>hs_status := HsReleased, hs_releaseIdempotencyKey := Some ''key1''\<rparr>)"
    by (simp add: sample_released_db_def)
  from failed_asset_check_reopens_release [OF g, of "\<lambda>s. s" "''123456''" "JStr ''t''"
      "\<lambda>s. Inr \<lparr>av_isMatch = False, av_confidence = 0, av_extractedDetails = None, av_issueDetected = True\<rparr>" "\<lambda>s. None"
      "\<lparr>av_isMatch = False, av_confidence = 0, av_extractedDetails = None, av_issueDetected = True\<rparr>" "''key2''" "''photo''" "sample_env 9" JNull] t
  show ?thesis by (auto simp: sample_released_db_def sample_handshake_def)
qed

theorem processUniversal_outcome_witness:
  "\<exists>db' u. processUniversalHandshake (sample_env 5) (sample_env 6) ''hs_1'' sample_db = (db', Inr u)"
proof -
  obtain db' r where run: "processUniversalHandshake (sample_env 5) (sample_env 6) ''hs_1'' sample_db = (db', r)" by fastforce
  have "hs_status sample_handshake = HsLocked \<and> 95 / 100 < hs_aiConfidence sample_handshake \<and> executeRouteRelease sample_handshake = Inr ()"
    by (simp add: sample_handshake_def executeRouteRelease_def)
  with processUniversal_outcome [OF run sample_db_get] run show ?thesis
    by (auto simp: sample_db_def sample_handshake_def)
qed

theorem two_workers_pay_twice_witness:
  "\<exists>db1 u1 db2 u2. settle (sample_env 1) (sample_env 2) ''hs_1'' sample_handshake sample_db = (db1, Inr u1)
     \<and> settle (sample_env 3) (sample_env 4) ''hs_1'' sample_handshake db1 = (db2, Inr u2)"
proof -
  obtain db1 r1 where s1: "settle (sample_env 1) (sample_env 2) ''hs_1'' sample_handshake sample_db = (db1, r1)" by fastforce
  obtain db2 r2 where s2: "settle (sample_env 3) (sample_env 4) ''hs_1'' sample_handshake db1 = (db2, r2)" by fastforce
  have pre: "preflight ''hs_1'' sample_db = Inr sample_handshake" "executeRouteRelease sample_handshake = Inr ()"
    by (simp_all add: preflight_def sample_db_def sample_handshake_def executeRouteRelease_def)
  have d: "distinct (map fst sample_db)" by (simp add: sample_db_def)
  have n: "\<forall>p \<in> set sample_db. hs_processedReleaseTxId (snd p) \<noteq> Some (release_tx_id (sample_env 1) sample_handshake)
      \<and> hs_processedReleaseTxId (snd p) \<noteq> Some (release_tx_id (sample_env 3) sample_handshake)"
    by (simp add: sample_db_def sample_handshake_def)
  from two_workers_pay_twice [OF pre d n s1 s2] s1 s2 show ?thesis by blast
qed

section \<open>Routes of the payment controller\<close>

text \<open>The amount of the body is a finite number or nothing usable.\<close>

definition str_or_empty :: "jsval \<Rightarrow> string" where
  "str_or_empty v = (if is_str v then the_str v else [])"

definition payment_create_route ::
  "hashfn \<Rightarrow> (string \<Rightarrow> bool) \<Rightarrow> string \<Rightarrow> nat \<Rightarrow> jsval \<Rightarrow> rat option \<Rightarrow> payout_db \<Rightarrow> payout_db \<times> (payout_reply + handshake \<times> string)" where
  "payment_create_route h tenantExists uuid n body amount db =
     (let tenantId = str_or_empty (member body ''tenantId''); recipient = str_or_empty (member body ''recipient''); route = member body ''route''
      in if js_trim tenantId = [] then (db, Inl (PayoutError 400 ''tenantId_REQUIRED''))
         else if js_trim recipient = [] then (db, Inl (PayoutError 400 ''recipient_REQUIRED''))
         else if \<not> truthy route then (db, Inl (PayoutError 400 ''route_REQUIRED''))
         else (case amount of
                 None \<Rightarrow> (db, Inl (PayoutError 400 ''amount_INVALID''))
               | Some a \<Rightarrow>
                   (case createHandshake h tenantExists uuid n (JStr tenantId) a (JStr recipient) (js_String route) db of
                      (db', Inl err) \<Rightarrow>
                        (let msg = error_message err
                         in (db', Inl (PayoutError (if str_includes ''REQUIRED'' msg \<or> str_includes ''INVALID'' msg then 400 else 500) msg)))
                    | (db', Inr created) \<Rightarrow> (db', Inr created))))"

definition payment_verify_route ::
  "hashfn \<Rightarrow> env \<Rightarrow> string \<Rightarrow> jsval \<Rightarrow> payout_db \<Rightarrow> payout_db \<times> payout_reply" where
  "payment_verify_route h e idempotencyHeader body db =
     (let key = js_trim idempotencyHeader; handshakeId = str_or_empty (member body ''handshakeId'');
          otp = str_or_empty (member body ''otpCode''); url = str_or_empty (member body ''safetyNetImageUrl'');
          photo = str_or_empty (member body ''photoBase64'')
      in if key = [] then (db, PayoutError 400 ''idempotencyKey_REQUIRED'')
         else if js_trim handshakeId = [] then (db, PayoutError 400 ''handshakeId_REQUIRED'')
         else if js_trim otp = [] then (db, PayoutError 400 ''otpCode_REQUIRED'')
         else if js_trim url = [] \<and> js_trim photo = [] then (db, PayoutError 400 ''safetyNetImageUrl_OR_photoBase64_REQUIRED'')
         else (case verifyAndRelease h e (JStr handshakeId) (JStr otp) (JStr (if js_trim photo \<noteq> [] then photo else url))
                      (member body ''gpsCoords'') (JStr key) db of
                 (db', Inr u) \<Rightarrow> (db', PayoutReleased u)
               | (db', Inl err) \<Rightarrow>
                   (let msg = error_message err
                    in (db', PayoutError (if msg = ''INVALID_OTP'' then 400 else if msg = ''NOT_FOUND'' then 404
                                          else if msg = ''ALREADY_PROCESSED'' then 409 else 500) msg))))"

section \<open>The password round trip\<close>

lemma digit_is_digit: "n < 10 \<Longrightarrow> digit n \<in> set ''0123456789''"
proof -
  have "list_all (\<lambda>n. digit n \<in> set ''0123456789'') [0..<10]" by code_simp
  moreover assume "n < 10"
  ultimately show ?thesis by (simp add: list_all_iff)
qed

lemma show_nat_digits: "list_all (\<lambda>c. c \<in> set ''0123456789'') (show_nat n)"
proof (induction n rule: show_nat.induct)
  case (1 n)
  have "digit n \<in> set ''0123456789''" if "n < 10" by (rule digit_is_digit [OF that])
  moreover have "digit (n mod 10) \<in> set ''0123456789''" by (rule digit_is_digit) simp
  ultimately show ?case
    using 1 by (cases "n < 10") (simp_all only: show_nat.simps [of n] if_True if_False list_all_append list.pred_inject simp_thms)
qed

lemma show_nat_length: "n < 10 ^ Suc k \<Longrightarrow> length (show_nat n) \<le> Suc k"
proof (induction k arbitrary: n)
  case 0
  then show ?case by (simp add: show_nat.simps [of n])
next
  case (Suc k)
  then have "n div 10 < 10 ^ Suc k" by (simp add: less_mult_imp_div_less)
  from Suc.IH [OF this] show ?case by (simp add: show_nat.simps [of n])
qed

lemma otp_shape:
  assumes "n < 1000000"
  shows "length (generateSecure6DigitOtp n) = 6" "all_digits (generateSecure6DigitOtp n)"
proof -
  have "length (show_nat n) \<le> 6" using show_nat_length [of n 5] assms by simp
  then show l: "length (generateSecure6DigitOtp n) = 6" by (simp add: generateSecure6DigitOtp_def pad_start6_def)
  then have "generateSecure6DigitOtp n \<noteq> []" by auto
  moreover have "CHR ''0'' \<in> set ''0123456789''" by simp
  ultimately show "all_digits (generateSecure6DigitOtp n)"
    using show_nat_digits [of n] by (simp add: all_digits_def generateSecure6DigitOtp_def pad_start6_def list_all_iff ball_Un)
qed

text \<open>
  The password handed out at the creation of a handshake is the one that releases it: with it and an unused
  key the release succeeds on the stored row, and a password with another hash is refused and changes
  nothing.
\<close>

theorem created_handshake_releases:
  assumes "createHandshake h tenantExists uuid n tenant amount recipient route db = (db1, Inr (row, otp))" "n < 1000000"
    and "h otp \<noteq> []" "js_trim (''hs_'' @ uuid) = ''hs_'' @ uuid" "js_trim key = key" "key \<noteq> []" "js_trim photo = photo" "photo \<noteq> []"
    and "\<forall>p \<in> set db. hs_releaseIdempotencyKey (snd p) \<noteq> Some key"
  shows "(\<exists>db2 u. verifyAndRelease h e (JStr (hs_handshakeId row)) (JStr otp) (JStr photo) gps (JStr key) db1 = (db2, Inr u)
            \<and> hs_status u = HsReleased \<and> hs_amountKESCents u = hs_amountKESCents row \<and> js_get db2 (hs_handshakeId row) = Some u)
       \<and> (length otp' = 6 \<and> all_digits otp' \<and> h otp' \<noteq> h otp \<longrightarrow>
            verifyAndRelease h e (JStr (hs_handshakeId row)) (JStr otp') (JStr photo) gps (JStr key) db1 = (db1, Inl (JsError ''INVALID_OTP'')))"
proof -
  have c: "otp = generateSecure6DigitOtp n" "hs_handshakeId row = ''hs_'' @ uuid" "hs_handshakeCodeHash row = Some (h otp)"
    "hs_status row = HsLocked" "hs_releaseIdempotencyKey row = None" "db1 = js_set (''hs_'' @ uuid) row db"
    using assms(1) by (auto simp: createHandshake_def db_create_def bind_result_Inr_iff Let_def split: sum.splits if_splits)
  have otp: "length otp = 6" "all_digits otp" using otp_shape [OF assms(2)] c(1) by simp_all
  have get: "js_get db1 (hs_handshakeId row) = Some row" using c(2,6) by (simp add: js_get_set)
  have keys: "\<forall>p \<in> set db1. hs_releaseIdempotencyKey (snd p) \<noteq> Some key"
    using assms(9) c(5,6) by (auto dest!: in_set_js_set)
  have i: "js_trim (hs_handshakeId row) = hs_handshakeId row" "hs_handshakeId row \<noteq> []" using assms(4) c(2) by simp_all
  have run: "verifyAndRelease h e (JStr (hs_handshakeId row)) (JStr p) (JStr photo) gps (JStr key) db1 =
      release_transaction e (hs_handshakeId row) (h p) key photo (json_stringify (if gps = JUndefined then JNull else gps)) db1"
    if "length p = 6" "all_digits p" for p
    by (rule verifyAndRelease_run [OF i assms(5,6) js_trim_digits [OF that(2)] that assms(7,8)])
  have "\<exists>db2 u. release_transaction e (hs_handshakeId row) (h otp) key photo g db1 = (db2, Inr u)
      \<and> hs_status u = HsReleased \<and> hs_amountKESCents u = hs_amountKESCents row \<and> js_get db2 (hs_handshakeId row) = Some u" for g
    unfolding release_transaction_iff using get c(3,4) assms(3) keys by (auto simp: js_get_set)
  moreover have "release_transaction e (hs_handshakeId row) (h p) key photo g db1 = (db1, Inl (JsError ''INVALID_OTP''))"
    if "h p \<noteq> h otp" for p g
    using get c(3) that by (simp add: release_transaction_def)
  ultimately show ?thesis using run otp by simp
qed

theorem created_handshake_releases_witness:
  "\<exists>db1 row otp db2 u. createHandshake (\<lambda>s. s) (\<lambda>t. True) ''1'' 42 (JStr ''t'') 5 (JStr ''254'') ''MPESA'' [] = (db1, Inr (row, otp))
     \<and> verifyAndRelease (\<lambda>s. s) (sample_env 9) (JStr (hs_handshakeId row)) (JStr otp) (JStr ''p'') JNull (JStr ''k'') db1 = (db2, Inr u)"
proof -
  have t: "js_trim ''t'' = ''t''" "js_trim ''254'' = ''254''" "js_trim (''hs_'' @ ''1'') = ''hs_'' @ ''1''" "js_trim ''k'' = ''k''" "js_trim ''p'' = ''p''"
    by code_simp+
  have "\<lfloor>\<bar>5\<bar> * 100 + 1 / 2 :: rat\<rfloor> = 500" by (simp add: floor_eq_iff)
  then have a: "toCentsKESBigInt 5 = Inr 500" by (simp add: toCentsKESBigInt_def)
  obtain db1 row otp where c: "createHandshake (\<lambda>s. s) (\<lambda>t. True) ''1'' 42 (JStr ''t'') 5 (JStr ''254'') ''MPESA'' [] = (db1, Inr (row, otp))"
    by (simp add: createHandshake_def assertNonEmptyJs_def t a db_create_def payout_routes_def Let_def)
  then have "otp = generateSecure6DigitOtp 42"
    by (auto simp: createHandshake_def assertNonEmptyJs_def t a db_create_def payout_routes_def Let_def)
  then have "length otp = 6" using otp_shape(1) [of 42] by simp
  then have "otp \<noteq> []" by auto
  with created_handshake_releases [OF c, of "''k''" "''p''" "sample_env 9" JNull otp] t c show ?thesis by fastforce
qed

end
