(* ===== verification/Webhook.thy ===== *)
theory Webhook
  imports Escrow
begin

text \<open>
  Webhooks: the receiving side of \<^verbatim>\<open>packages/backend/src/controllers/webhook.controller.ts\<close>, which
  releases escrows, and the sending side of \<^verbatim>\<open>services/webhook.service.ts\<close>, with its retries and its
  dead-letter queue. The HTTP client and HMAC are parameters.
\<close>

section \<open>Receiving\<close>

text \<open>\<^verbatim>\<open>toUpperCase\<close> and \<^verbatim>\<open>toLowerCase\<close> on the ASCII letters.\<close>

definition upper_char :: "char \<Rightarrow> char" where
  "upper_char c = (let n = of_char c :: nat in if 97 \<le> n \<and> n \<le> 122 then char_of (n - 32) else c)"

definition lower_char :: "char \<Rightarrow> char" where
  "lower_char c = (let n = of_char c :: nat in if 65 \<le> n \<and> n \<le> 90 then char_of (n + 32) else c)"

definition js_or :: "jsval \<Rightarrow> jsval \<Rightarrow> jsval" where
  "js_or a b = (if truthy a then a else b)"

datatype webhook_reply =
    WebhookError int string
  | WebhookDone string escrow_status string
  | WebhookConfig string string

text \<open>
  The query on the transaction id answers in document order. A transaction id that is not a text matches
  no document, and the adapters are given its text.
\<close>

definition find_by_transaction :: "jsval \<Rightarrow> escrow_store \<Rightarrow> string option" where
  "find_by_transaction t st =
     map_option fst (find (\<lambda>(i, x). is_str t \<and> es_transactionId x = Some (the_str t)) (sort_key fst st))"

definition handleWebhook ::
  "(string \<Rightarrow> int option) \<Rightarrow> gateway \<Rightarrow> env \<Rightarrow> string option \<Rightarrow> jsval \<Rightarrow> string list \<Rightarrow> escrow_store
     \<Rightarrow> string list \<times> escrow_store \<times> webhook_reply" where
  "handleWebhook num gw e prov body cache st =
     (let providerType = map upper_char (case prov of None \<Rightarrow> '''' | Some p \<Rightarrow> p);
          transactionId = js_or (member body ''transactionId'') (js_or (member body ''checkoutRequestId'') (member body ''paymentIntentId''))
      in if \<not> isProviderSupported providerType then (cache, st, WebhookError 400 (''PROVIDER_NOT_SUPPORTED_'' @ providerType))
         else (case getProvider num gw e providerType cache of
                 (cache', Inl err) \<Rightarrow> (cache', st, WebhookError 500 (error_message err))
               | (cache', Inr pv) \<Rightarrow>
                   if \<not> truthy transactionId then (cache', st, WebhookError 400 ''TRANSACTION_ID_REQUIRED'')
                   else (case verifyTransaction pv (js_String transactionId) of
                           Inl err \<Rightarrow> (cache', st, WebhookError 500 (error_message err))
                         | Inr isVerified \<Rightarrow>
                             if \<not> isVerified then (cache', st, WebhookError 401 ''WEBHOOK_VERIFICATION_FAILED'')
                             else (case find_by_transaction transactionId st of
                                     None \<Rightarrow> (cache', st, WebhookError 404 ''ESCROW_NOT_FOUND'')
                                   | Some i \<Rightarrow>
                                       (case releaseEscrow e pv i st of
                                          (st', calls, Inl err) \<Rightarrow> (cache', st', WebhookError 500 (error_message err))
                                        | (st', calls, Inr u) \<Rightarrow> (cache', st', WebhookDone i (es_status u) (js_String transactionId)))))))"

definition handleMpesaWebhook ::
  "(string \<Rightarrow> int option) \<Rightarrow> gateway \<Rightarrow> env \<Rightarrow> jsval \<Rightarrow> string list \<Rightarrow> escrow_store \<Rightarrow> string list \<times> escrow_store \<times> webhook_reply" where
  "handleMpesaWebhook num gw e body = handleWebhook num gw e (Some ''MPESA'') body"

definition getWebhookConfig :: "string \<Rightarrow> string option \<Rightarrow> webhook_reply" where
  "getWebhookConfig baseUrl prov =
     (let providerType = map upper_char (case prov of None \<Rightarrow> '''' | Some p \<Rightarrow> p)
      in if \<not> isProviderSupported providerType then WebhookError 400 (''PROVIDER_NOT_SUPPORTED_'' @ providerType)
         else WebhookConfig providerType (baseUrl @ ''/webhooks/'' @ map lower_char providerType))"

section \<open>Sending\<close>

record webhook_event =
  we_id :: string
  we_type :: string
  we_data :: jsval

record dead_letter =
  dl_tenantId :: string
  dl_eventId :: string
  dl_eventType :: string
  dl_callbackUrl :: string
  dl_ipAddress :: string
  dl_attempts :: nat
  dl_failureReason :: string
  dl_payload :: webhook_event

text \<open>One POST: a response with its status and data, or a rejection with its code and message.\<close>

datatype post_result = Response int jsval | Rejected "string option" string

record send_outcome =
  so_ok :: bool
  so_status :: "int option"
  so_text :: "string option"

record signed_request =
  sr_url :: string
  sr_body :: string
  sr_signature :: string
  sr_timestamp :: string

definition event_json :: "webhook_event \<Rightarrow> string" where
  "event_json v = json_stringify (JObj [(''id'', JStr (we_id v)), (''type'', JStr (we_type v)), (''data'', we_data v)])"

definition getExponentialBackoffDelayMs :: "nat \<Rightarrow> int" where
  "getExponentialBackoffDelayMs attempt = min (1000 * 2 ^ attempt) (30 * 60000)"

definition response_text :: "jsval \<Rightarrow> string" where
  "response_text d = (if is_str d then the_str d else json_stringify (if d = JUndefined \<or> d = JNull then JStr '''' else d))"

definition maxAttempts :: nat where
  "maxAttempts = 5"

text \<open>
  The loop from attempt \<^verbatim>\<open>k\<close> on: either an answer, or the reason and the last response once the attempts
  are spent; with it the delays slept.
\<close>

fun send_loop ::
  "(nat \<Rightarrow> post_result) \<Rightarrow> nat \<Rightarrow> nat \<Rightarrow> string \<Rightarrow> int option \<Rightarrow> string option
     \<Rightarrow> (send_outcome + string \<times> int option \<times> string option) \<times> int list" where
  "send_loop post k 0 reason st rt = (Inr (reason, st, rt), [])"
| "send_loop post k (Suc n) reason st rt =
     (let sleeps = (if n = 0 then [] else [getExponentialBackoffDelayMs k])
      in case post k of
           Response sc d \<Rightarrow>
             if 200 \<le> sc \<and> sc < 400
             then (Inl \<lparr>so_ok = True, so_status = Some sc, so_text = Some (response_text d)\<rparr>, [])
             else if sc = 429 \<or> (500 \<le> sc \<and> sc \<le> 599)
             then (let (r, ds) = send_loop post (Suc k) n (''WEBHOOK_SERVER_ERROR_'' @ show_int sc) (Some sc) (Some (response_text d))
                   in (r, sleeps @ ds))
             else (Inl \<lparr>so_ok = False, so_status = Some sc, so_text = Some (response_text d)\<rparr>, [])
         | Rejected code msg \<Rightarrow>
             (let why = (case code of
                           Some c \<Rightarrow> if c \<noteq> [] then ''WEBHOOK_NETWORK_ERROR_'' @ c
                                      else if msg \<noteq> [] then ''WEBHOOK_NETWORK_ERROR_'' @ msg else ''WEBHOOK_NETWORK_ERROR''
                         | None \<Rightarrow> if msg \<noteq> [] then ''WEBHOOK_NETWORK_ERROR_'' @ msg else ''WEBHOOK_NETWORK_ERROR'');
                  (r, ds) = send_loop post (Suc k) n why None None
              in (r, sleeps @ ds)))"

definition writeDeadLetterQueueFailure :: "bool \<Rightarrow> dead_letter \<Rightarrow> dead_letter list \<Rightarrow> dead_letter list" where
  "writeDeadLetterQueueFailure dbOk f dlq = (if dbOk then dlq @ [f] else dlq)"

definition signed_webhook :: "hmacfn \<Rightarrow> env \<Rightarrow> string \<Rightarrow> string \<Rightarrow> webhook_event \<Rightarrow> signed_request" where
  "signed_webhook hm e secret url v =
     \<lparr>sr_url = url, sr_body = event_json v, sr_signature = hm secret (event_json v), sr_timestamp = nowIso e\<rparr>"

definition sendWebhookEvent ::
  "hmacfn \<Rightarrow> env \<Rightarrow> (signed_request \<Rightarrow> nat \<Rightarrow> post_result) \<Rightarrow> bool \<Rightarrow> string \<Rightarrow> string \<Rightarrow> string \<Rightarrow> string option \<Rightarrow> webhook_event
     \<Rightarrow> dead_letter list \<Rightarrow> dead_letter list \<times> send_outcome js_result" where
  "sendWebhookEvent hm e post dbOk tenantId secret url ip v dlq =
     (if tenantId = [] then (dlq, Inl (JsError ''TENANT_ID_MISSING''))
      else if secret = [] then (dlq, Inl (JsError ''WEBHOOK_SECRET_MISSING''))
      else if url = [] then (dlq, Inl (JsError ''WEBHOOK_CALLBACK_URL_MISSING''))
      else if we_id v = [] then (dlq, Inl (JsError ''WEBHOOK_EVENT_ID_MISSING''))
      else if we_type v = [] then (dlq, Inl (JsError ''WEBHOOK_EVENT_TYPE_MISSING''))
      else if \<not> truthy (we_data v) then (dlq, Inl (JsError ''WEBHOOK_EVENT_DATA_MISSING''))
      else
        let req = signed_webhook hm e secret url v
        in case fst (send_loop (post req) 0 maxAttempts ''WEBHOOK_SEND_FAILED'' None None) of
             Inl out \<Rightarrow> (dlq, Inr out)
           | Inr (reason, sc, rt) \<Rightarrow>
               (writeDeadLetterQueueFailure dbOk
                  \<lparr>dl_tenantId = tenantId, dl_eventId = we_id v, dl_eventType = we_type v, dl_callbackUrl = url,
                   dl_ipAddress = (case ip of None \<Rightarrow> '''' | Some a \<Rightarrow> a), dl_attempts = maxAttempts,
                   dl_failureReason = reason, dl_payload = v\<rparr> dlq,
                Inr \<lparr>so_ok = False, so_status = sc, so_text = rt\<rparr>))"

section \<open>The retry loop\<close>

definition post_ok :: "post_result \<Rightarrow> bool" where
  "post_ok r = (case r of Response s d \<Rightarrow> 200 \<le> s \<and> s < 400 | Rejected c m \<Rightarrow> False)"

definition post_retry :: "post_result \<Rightarrow> bool" where
  "post_retry r = (case r of Response s d \<Rightarrow> s = 429 \<or> (500 \<le> s \<and> s \<le> 599) | Rejected c m \<Rightarrow> True)"

lemma post_ok_not_retry: "post_ok r \<Longrightarrow> \<not> post_retry r"
  by (cases r) (auto simp: post_ok_def post_retry_def)

lemma fst_prepend_sleeps [simp]: "fst (case p of (r, ds) \<Rightarrow> (r, sl @ ds)) = fst p"
  by (cases p) simp

text \<open>The loop answers at the first attempt that is not to be retried, and is spent when there is none.\<close>

lemma send_loop_result:
  "case fst (send_loop post k n reason st rt) of
     Inl out \<Rightarrow> \<exists>j < n. (\<forall>i < j. post_retry (post (k + i))) \<and> \<not> post_retry (post (k + j)) \<and> so_ok out = post_ok (post (k + j))
   | Inr x \<Rightarrow> \<forall>i < n. post_retry (post (k + i))"
proof (induction n arbitrary: k reason st rt)
  case (Suc n)
  show ?case
  proof (cases "post_retry (post k)")
    case True
    have step: "\<exists>reason' st' rt'. fst (send_loop post k (Suc n) reason st rt) = fst (send_loop post (Suc k) n reason' st' rt')"
    proof (cases "post k")
      case (Response s d)
      with True have s: "s = 429 \<or> (500 \<le> s \<and> s \<le> 599)" by (simp add: post_retry_def)
      then have "\<not> (200 \<le> s \<and> s < 400)" by auto
      with s Response show ?thesis by (simp add: Let_def) blast
    next
      case (Rejected c m)
      then show ?thesis by (simp add: Let_def) blast
    qed
    then obtain reason' st' rt' where eq: "fst (send_loop post k (Suc n) reason st rt) = fst (send_loop post (Suc k) n reason' st' rt')"
      by blast
    show ?thesis
    proof (cases "fst (send_loop post (Suc k) n reason' st' rt')")
      case (Inl out)
      with Suc [of "Suc k" reason' st' rt'] obtain j where "j < n" "\<forall>i < j. post_retry (post (Suc k + i))" "\<not> post_retry (post (Suc k + j))"
        "so_ok out = post_ok (post (Suc k + j))" by auto
      then have "Suc j < Suc n \<and> (\<forall>i < Suc j. post_retry (post (k + i))) \<and> \<not> post_retry (post (k + Suc j)) \<and> so_ok out = post_ok (post (k + Suc j))"
        using True by (auto simp: less_Suc_eq_0_disj)
      then show ?thesis unfolding eq Inl by auto
    next
      case (Inr x)
      with Suc [of "Suc k" reason' st' rt'] True show ?thesis unfolding eq Inr by (auto simp: less_Suc_eq_0_disj)
    qed
  next
    case False
    then obtain s d where p: "post k = Response s d" "\<not> (s = 429 \<or> (500 \<le> s \<and> s \<le> 599))"
      by (cases "post k") (auto simp: post_retry_def)
    then show ?thesis using False by (auto simp: post_ok_def Let_def)
  qed
qed simp

text \<open>A complete event always gets an outcome.\<close>

lemma sendWebhookEvent_answers:
  assumes "tenantId \<noteq> []" "secret \<noteq> []" "url \<noteq> []" "we_id v \<noteq> []" "we_type v \<noteq> []" "truthy (we_data v)"
  shows "\<exists>dlq' out. sendWebhookEvent hm e post dbOk tenantId secret url ip v dlq = (dlq', Inr out)"
  using assms by (simp add: sendWebhookEvent_def Let_def split: sum.split prod.split)


section \<open>Release by webhook\<close>

lemma find_by_transaction_Some:
  "find_by_transaction (JStr t) st = Some i \<Longrightarrow> distinct (map fst st) \<Longrightarrow> \<exists>x. js_get st i = Some x \<and> es_transactionId x = Some t"
proof -
  assume a: "find_by_transaction (JStr t) st = Some i" and d: "distinct (map fst st)"
  then obtain x where "find (\<lambda>(i, x). is_str (JStr t) \<and> es_transactionId x = Some (the_str (JStr t))) (sort_key fst st) = Some (i, x)"
    by (auto simp: find_by_transaction_def)
  from find_Some_mem [OF this] have "(i, x) \<in> set st" "es_transactionId x = Some t" by auto
  with d show ?thesis by (auto intro: map_of_is_SomeI)
qed

text \<open>
  The provider that confirms a payment is the one named by the caller, not the one of the escrow: anyone
  who knows the transaction id of a locked escrow releases it by a webhook in the name of a card
  provider, whatever the provider it was locked with would answer.
\<close>

theorem webhook_releases_any_locked:
  assumes "t \<noteq> ''''" "member body ''transactionId'' = JStr t" "distinct (map fst st)"
    and "find_by_transaction (JStr t) st = Some i" "js_get st i = Some x" "es_status x = LOCKED"
    and "handleWebhook num gw e (Some ''stripe'') body cache st = (cache', st', reply)"
  shows "reply = WebhookDone i RELEASED t \<and> (\<exists>y. js_get st' i = Some y \<and> es_status y = RELEASED)"
proof -
  have up: "map upper_char ''stripe'' = ''STRIPE''" by code_simp
  have sup: "isProviderSupported ''STRIPE''" by (simp add: isProviderSupported_def supportedProviders_def)
  have tx: "es_transactionId x = Some t" using find_by_transaction_Some [OF assms(4,3)] assms(5) by auto
  have rel: "\<exists>y u. releaseEscrow e (stripeAdapter gw) i st = (js_set i y st, [Verify t], Inr u) \<and> es_status u = RELEASED \<and> es_status y = RELEASED"
    using assms(1,5,6) tx
    by (auto simp: releaseEscrow_def run_op_def release_op_def stripeAdapter_def write_update_def merge_update_def)
  then obtain y u where yu: "releaseEscrow e (stripeAdapter gw) i st = (js_set i y st, [Verify t], Inr u)" "es_status u = RELEASED" "es_status y = RELEASED"
    by blast
  have "verifyTransaction (stripeAdapter gw) t = Inr True" by (simp add: stripeAdapter_def)
  moreover have "js_or (JStr t) z = JStr t" for z using assms(1) by (simp add: js_or_def)
  ultimately show ?thesis
    using assms(1,2,4,7) yu
    unfolding handleWebhook_def Let_def option.case up
    by (auto simp: sup getProvider_def Let_def js_get_set)
qed

section \<open>Concrete instances\<close>

definition sample_event :: webhook_event where
  "sample_event = \<lparr>we_id = ''ev1'', we_type = ''handshake.verified'', we_data = JObj []\<rparr>"

definition sample_post :: "signed_request \<Rightarrow> nat \<Rightarrow> post_result" where
  "sample_post r k = (if k = 0 then Rejected None ''timeout'' else if k = 1 then Response 503 JNull else Response 200 (JStr ''ok''))"


definition sample_mpesa_store :: escrow_store where
  "sample_mpesa_store = [(''escrow_1'', sample_locked\<lparr>es_providerType := ''MPESA''\<rparr>)]"

theorem webhook_releases_any_locked_witness:
  "\<exists>cache' st' reply. handleWebhook (\<lambda>s. None) sample_gateway (sample_env 9) (Some ''stripe'') (JObj [(''transactionId'', JStr ''pi_u'')]) [] sample_mpesa_store
      = (cache', st', reply) \<and> reply = WebhookDone ''escrow_1'' RELEASED ''pi_u''"
proof -
  obtain cache' st' reply where r: "handleWebhook (\<lambda>s. None) sample_gateway (sample_env 9) (Some ''stripe'') (JObj [(''transactionId'', JStr ''pi_u'')]) []
      sample_mpesa_store = (cache', st', reply)" by (metis prod.collapse)
  have "find_by_transaction (JStr ''pi_u'') sample_mpesa_store = Some ''escrow_1''"
    by (simp add: find_by_transaction_def sample_mpesa_store_def sample_locked_def)
  from webhook_releases_any_locked [OF _ _ _ this _ _ r] r show ?thesis
    by (simp add: sample_mpesa_store_def sample_locked_def)
qed

end
