(* ===== verification/Mpesa.thy ===== *)
theory Mpesa
  imports Webhook
begin

text \<open>
  The mobile-money rail of the backend: \<^verbatim>\<open>packages/backend/src/payout/mpesa-handler.ts\<close> (fees and
  callbacks), the Daraja client of \<^verbatim>\<open>services/mpesa.service.ts\<close> with its token cache, the premium
  flag of \<^verbatim>\<open>services/firestore.service.ts\<close>, the settlement destination of \<^verbatim>\<open>config/settlement.ts\<close> and
  the request check of \<^verbatim>\<open>middleware/integrity.ts\<close>. HTTP answers and environment are parameters.
\<close>

type_synonym environment = "string \<Rightarrow> string option"

text \<open>An HTTP call: None when it throws, else the parsed body.\<close>

type_synonym http_answer = "jsval option"

section \<open>Disbursement\<close>

definition FEE_BPS :: int where
  "FEE_BPS = 300"

text \<open>Division of \<^verbatim>\<open>bigint\<close> values truncates towards zero.\<close>

definition big_div :: "int \<Rightarrow> int \<Rightarrow> int" where
  "big_div a b = sgn a * sgn b * (\<bar>a\<bar> div \<bar>b\<bar>)"

definition payout_fee :: "int \<Rightarrow> int" where
  "payout_fee gross = big_div (gross * FEE_BPS) 10000"

definition get_env :: "environment \<Rightarrow> string \<Rightarrow> string js_result" where
  "get_env pe name = (case pe name of None \<Rightarrow> Inl (JsError (name @ ''_MISSING'')) | Some v \<Rightarrow>
     if v = [] then Inl (JsError (name @ ''_MISSING'')) else Inr v)"

text \<open>The amount sent, in whole shillings, and what the rail answered.\<close>

definition disburseFunds ::
  "environment \<Rightarrow> string js_result \<Rightarrow> (string \<Rightarrow> int \<Rightarrow> jsval js_result) \<Rightarrow> string \<Rightarrow> int \<Rightarrow> (int \<times> jsval) js_result" where
  "disburseFunds pe token send recipient gross =
     bind_result token (\<lambda>_. bind_result (get_env pe ''MPESA_SHORTCODE'') (\<lambda>_. bind_result (get_env pe ''MPESA_PASSKEY'') (\<lambda>_.
       let net = gross - payout_fee gross; whole = big_div net 100
       in if net \<le> 0 then Inl (JsError ''MPESA_NET_AMOUNT_INVALID'')
          else bind_result (send recipient whole) (\<lambda>json.
            let code = member json ''ResultCode''
            in Inr (whole, if code = JUndefined \<or> code = JNull then JStr ''UNKNOWN'' else code)))))"

section \<open>Callbacks\<close>

record callback_result =
  cb_isValid :: bool
  cb_shouldRelease :: bool
  cb_resultCode :: "string option"

fun first_non_nullish :: "jsval list \<Rightarrow> jsval" where
  "first_non_nullish [] = JUndefined"
| "first_non_nullish [v] = v"
| "first_non_nullish (v # r) = (if v = JUndefined \<or> v = JNull then first_non_nullish r else v)"

definition callback_code :: "jsval \<Rightarrow> jsval" where
  "callback_code body =
     first_non_nullish
       [member (member body ''Result'') ''ResultCode'',
        member (member (member body ''body'') ''stkCallback'') ''ResultCode'',
        member (member (member body ''Body'') ''stkCallback'') ''ResultCode'',
        member (member (member (member body ''Body'') ''stkCallback'') ''Result'') ''ResultCode'',
        member body ''ResultCode'']"

definition validateMpesaCallback :: "jsval \<Rightarrow> callback_result" where
  "validateMpesaCallback body =
     (let code = callback_code body;
          normalized = (if code = JUndefined \<or> code = JNull then None else Some (js_String code))
      in \<lparr>cb_isValid = (normalized \<noteq> None), cb_shouldRelease = (normalized = Some ''0''), cb_resultCode = normalized\<rparr>)"

definition computeCallbackSignature :: "hmacfn \<Rightarrow> string \<Rightarrow> jsval \<Rightarrow> string" where
  "computeCallbackSignature hm secret payload = hm secret (if is_str payload then the_str payload else json_stringify payload)"

definition isReleaseStatusAllowedFromSafaricom :: "string option \<Rightarrow> bool" where
  "isReleaseStatusAllowedFromSafaricom code \<longleftrightarrow> (case code of None \<Rightarrow> ''undefined'' | Some c \<Rightarrow> c) = ''0''"

section \<open>The Daraja client\<close>

record token_cache =
  tc_token :: string
  tc_expiresAt :: "int option"

definition get_env_trimmed :: "environment \<Rightarrow> string \<Rightarrow> string js_result" where
  "get_env_trimmed pe name =
     (case pe name of
        None \<Rightarrow> Inl (JsError (name @ ''_MISSING''))
      | Some v \<Rightarrow> if js_trim v = [] then Inl (JsError (name @ ''_MISSING'')) else Inr (js_trim v))"

text \<open>
  The authorisation server answers with a token and a life time in seconds; the cached token is used
  while the clock is before its expiry (never when the life time is not a number).
\<close>

definition token_fresh :: "env \<Rightarrow> token_cache option \<Rightarrow> bool" where
  "token_fresh e cache =
     (case cache of None \<Rightarrow> False | Some c \<Rightarrow> (case tc_expiresAt c of None \<Rightarrow> False | Some t \<Rightarrow> nowMs e < t))"

definition fetchOAuthToken ::
  "environment \<Rightarrow> (string \<Rightarrow> int option) \<Rightarrow> env \<Rightarrow> http_answer \<Rightarrow> token_cache option \<Rightarrow> token_cache option \<times> string js_result" where
  "fetchOAuthToken pe num e answer cache =
     (if token_fresh e cache then (cache, Inr (tc_token (the cache)))
      else case bind_result (get_env_trimmed pe ''MPESA_CONSUMER_KEY'') (\<lambda>_. get_env_trimmed pe ''MPESA_CONSUMER_SECRET'') of
             Inl err \<Rightarrow> (cache, Inl err)
           | Inr _ \<Rightarrow>
               (case answer of
                  None \<Rightarrow> (cache, Inl (JsError ''Request failed''))
                | Some d \<Rightarrow>
                    (let token = member d ''access_token''; life = member d ''expires_in'';
                         expiresIn = js_to_number num (if life = JUndefined \<or> life = JNull then JNum 3400 else life)
                     in if \<not> truthy token \<or> \<not> is_str token then (cache, Inl (JsError ''MPESA_ACCESS_TOKEN_MISSING''))
                        else (Some \<lparr>tc_token = the_str token,
                                    tc_expiresAt = map_option (\<lambda>s. nowMs e + max 2000 (s - 30) * 1000) expiresIn\<rparr>,
                              Inr (the_str token)))))"

definition normalizePhoneNumber :: "string \<Rightarrow> string" where
  "normalizePhoneNumber s = filter (\<lambda>c. c \<in> set ''0123456789'') s"

record stk_request =
  sk_amount :: string
  sk_phone :: string
  sk_reference :: string
  sk_callback :: string

record stk_result =
  sk_checkoutRequestId :: string
  sk_merchantRequestId :: jsval
  sk_responseCode :: jsval

definition stk_request_of :: "environment \<Rightarrow> int \<Rightarrow> string \<Rightarrow> string \<Rightarrow> string option \<Rightarrow> stk_request" where
  "stk_request_of pe cents phone reference callback =
     \<lparr>sk_amount = show_int (big_div cents 100), sk_phone = normalizePhoneNumber phone, sk_reference = reference,
      sk_callback = (case callback of Some u \<Rightarrow> u | None \<Rightarrow> (case pe ''MPESA_STK_CALLBACK_URL'' of Some u \<Rightarrow> u | None \<Rightarrow> []))\<rparr>"

definition initiateStkPush ::
  "environment \<Rightarrow> (string \<Rightarrow> int option) \<Rightarrow> env \<Rightarrow> http_answer \<Rightarrow> (stk_request \<Rightarrow> http_answer) \<Rightarrow> int \<Rightarrow> string \<Rightarrow> string \<Rightarrow> string option
     \<Rightarrow> token_cache option \<Rightarrow> token_cache option \<times> stk_result js_result" where
  "initiateStkPush pe num e auth post cents phone reference callback cache =
     (case fetchOAuthToken pe num e auth cache of
        (cache', Inl err) \<Rightarrow> (cache', Inl err)
      | (cache', Inr token) \<Rightarrow>
          (cache',
           bind_result (get_env_trimmed pe ''MPESA_SHORTCODE'') (\<lambda>_. bind_result (get_env_trimmed pe ''MPESA_PASSKEY'') (\<lambda>_.
             if big_div cents 100 \<le> 0 then Inl (JsError ''MPESA_AMOUNT_INVALID'')
             else (case post (stk_request_of pe cents phone reference callback) of
                     None \<Rightarrow> Inl (JsError ''Request failed'')
                   | Some d \<Rightarrow>
                       if \<not> truthy (member d ''CheckoutRequestID'') then Inl (JsError ''MPESA_STK_PUSH_FAILED'')
                       else Inr \<lparr>sk_checkoutRequestId = js_String (member d ''CheckoutRequestID''),
                                 sk_merchantRequestId = member d ''MerchantRequestID'', sk_responseCode = member d ''ResponseCode''\<rparr>)))))"

record subscription =
  sub_id :: string
  sub_tenantId :: string
  sub_phone :: string
  sub_amount :: string
  sub_interval :: string
  sub_nextBillingAt :: int

definition createRecurringSubscription ::
  "env \<Rightarrow> string \<Rightarrow> string \<Rightarrow> string \<Rightarrow> int \<Rightarrow> string \<Rightarrow> (string, subscription) jsmap \<Rightarrow> (string, subscription) jsmap \<times> subscription js_result" where
  "createRecurringSubscription e uuid tenantId phone cents interval subs =
     (if big_div cents 100 \<le> 0 then (subs, Inl (JsError ''RECURRING_AMOUNT_INVALID''))
      else
        let s = \<lparr>sub_id = ''sub_'' @ uuid, sub_tenantId = tenantId, sub_phone = normalizePhoneNumber phone, sub_amount = show_int cents,
                 sub_interval = interval,
                 sub_nextBillingAt = nowMs e + (if interval = ''MONTHLY'' then 30 * 24 * 3600 * 1000 else 7 * 24 * 3600 * 1000)\<rparr>
        in (js_set (sub_id s) s subs, Inr s))"

definition updatePremiumStatus :: "string \<Rightarrow> bool \<Rightarrow> (string, bool) jsmap \<Rightarrow> (string, bool) jsmap \<times> unit js_result" where
  "updatePremiumStatus phone isPremium users =
     (let p = normalizePhoneNumber phone
      in if p = [] then (users, Inl (JsError ''phoneNumber_INVALID'')) else (js_set p isPremium users, Inr ()))"

record webhook_outcome =
  wo_shouldUpdatePremium :: bool
  wo_phoneNumber :: "string option"
  wo_resultCode :: "string option"

definition callback_phone :: "jsval \<Rightarrow> jsval js_result" where
  "callback_phone body =
     (let item = member (member (member (member body ''Body'') ''stkCallback'') ''CallbackMetadata'') ''Item'';
          fallback = first_non_nullish [member body ''PhoneNumber'', JNull]
      in if item = JUndefined \<or> item = JNull then Inr fallback
         else if \<not> is_arr item then Inl (TypeError ''find is not a function'')
         else (case find (\<lambda>v. member v ''Name'' = JStr ''PhoneNumber'') (the_arr item) of
                 None \<Rightarrow> Inr fallback
               | Some v \<Rightarrow> Inr (first_non_nullish [member v ''Value'', fallback])))"

definition processWebhook :: "jsval \<Rightarrow> (string, bool) jsmap \<Rightarrow> (string, bool) jsmap \<times> webhook_outcome js_result" where
  "processWebhook body users =
     (let r = validateMpesaCallback body; ok = isReleaseStatusAllowedFromSafaricom (cb_resultCode r)
      in case callback_phone body of
           Inl err \<Rightarrow> (users, Inl err)
         | Inr phone \<Rightarrow>
             if ok \<and> is_str phone
             then (case updatePremiumStatus (the_str phone) True users of
                     (users', Inl err) \<Rightarrow> (users', Inl err)
                   | (users', Inr _) \<Rightarrow>
                       (users', Inr \<lparr>wo_shouldUpdatePremium = True, wo_phoneNumber = Some (the_str phone), wo_resultCode = cb_resultCode r\<rparr>))
             else (users, Inr \<lparr>wo_shouldUpdatePremium = False, wo_phoneNumber = (if is_str phone then Some (the_str phone) else None),
                               wo_resultCode = cb_resultCode r\<rparr>))"

section \<open>Settlement and request integrity\<close>

record settlement_destination =
  sd_bank :: string
  sd_accountName :: string
  sd_accountNumber :: string

definition ncbaLoopSettlementDestination :: settlement_destination where
  "ncbaLoopSettlementDestination =
     \<lparr>sd_bank = ''NCBA Loop'', sd_accountName = ''SECURERISE SOLUTIONS LIMITED'', sd_accountNumber = ''880200283180''\<rparr>"

definition getMasterSettlementDestination :: "environment \<Rightarrow> settlement_destination" where
  "getMasterSettlementDestination pe =
     (case pe ''SETTLEMENT_ACC'' of
        None \<Rightarrow> ncbaLoopSettlementDestination
      | Some raw \<Rightarrow>
          if raw = [] then ncbaLoopSettlementDestination
          else (case map js_trim (split_at_char CHR ''|'' raw) of
                  [bank, accountName, accountNumber] \<Rightarrow>
                    if bank = [] \<or> accountName = [] \<or> accountNumber = [] then ncbaLoopSettlementDestination
                    else \<lparr>sd_bank = bank, sd_accountName = accountName, sd_accountNumber = accountNumber\<rparr>
                | _ \<Rightarrow> ncbaLoopSettlementDestination))"

definition computeExpectedRequestHmac :: "hmacfn \<Rightarrow> string \<Rightarrow> string option \<Rightarrow> string \<Rightarrow> string option \<Rightarrow> string" where
  "computeExpectedRequestHmac hm key escrowId operation ts =
     hm key ((case escrowId of None \<Rightarrow> [] | Some i \<Rightarrow> i) @ '':'' @ operation @ '':'' @ (case ts of None \<Rightarrow> [] | Some t \<Rightarrow> t))"

text \<open>None lets the request pass; otherwise the status and the error.\<close>

definition validateRequestIntegrityHash ::
  "hmacfn \<Rightarrow> environment \<Rightarrow> jsval \<Rightarrow> (string \<Rightarrow> string option) \<Rightarrow> string option \<Rightarrow> string \<Rightarrow> (int \<times> string) option" where
  "validateRequestIntegrityHash hm pe body header escrowId operation =
     (let pick = (\<lambda>field name. if is_str (member body field) then Some (the_str (member body field)) else header name);
          given = pick ''integrityHash'' ''x-integrity-hash'';
          ts = pick ''timestamp'' ''x-integrity-timestamp''
      in case pe ''MASTER_INTEGRITY_KEY'' of
           None \<Rightarrow> Some (500, ''MASTER_INTEGRITY_KEY_MISSING'')
         | Some key \<Rightarrow>
             if key = [] then Some (500, ''MASTER_INTEGRITY_KEY_MISSING'')
             else (case given of
                     None \<Rightarrow> Some (403, ''INTEGRITY_HASH_REQUIRED'')
                   | Some g \<Rightarrow>
                       if g = [] then Some (403, ''INTEGRITY_HASH_REQUIRED'')
                       else if timingSafeEqual g (computeExpectedRequestHmac hm key escrowId operation ts) = Inr True then None
                       else Some (403, ''INTEGRITY_HASH_INVALID'')))"

section \<open>Properties\<close>

lemma big_div_nonneg: "0 \<le> a \<Longrightarrow> 0 < b \<Longrightarrow> big_div a b = a div b"
  by (cases "a = 0") (simp_all add: big_div_def)

text \<open>
  A disbursement that goes out sends whole shillings only: with the 3% fee rounded down to the cent, the
  amount sent is within one shilling below the net amount, so up to 99 cents of every payout stay
  behind, and a positive gross of a cent or more always passes the amount check.
\<close>

theorem disburse_amount_bounds:
  assumes "0 < gross" "disburseFunds pe token send recipient gross = Inr (whole, code)"
  shows "whole * 100 \<le> gross - payout_fee gross \<and> gross - payout_fee gross < whole * 100 + 100
     \<and> 3 * gross - 100 < 100 * payout_fee gross \<and> 100 * payout_fee gross \<le> 3 * gross \<and> 0 < gross - payout_fee gross"
proof -
  have fee: "payout_fee gross = (gross * 300) div 10000"
    using assms(1) by (simp add: payout_fee_def FEE_BPS_def big_div_nonneg)
  have net: "0 < gross - payout_fee gross" unfolding fee using assms(1) by linarith
  then have "whole = (gross - payout_fee gross) div 100"
    using assms(2) by (auto simp: disburseFunds_def bind_result_Inr_iff Let_def big_div_nonneg split: if_splits)
  then have "whole * 100 \<le> gross - payout_fee gross" "gross - payout_fee gross < whole * 100 + 100" by linarith+
  moreover have "3 * gross - 100 < 100 * payout_fee gross" "100 * payout_fee gross \<le> 3 * gross" unfolding fee by linarith+
  ultimately show ?thesis using net by blast
qed

text \<open>
  A callback grants the premium flag exactly when its first result code prints as 0 and it names a phone
  as a text with a digit; then that number alone is flagged, and nothing else of the callback is
  checked.
\<close>

theorem webhook_grants_premium_iff:
  "(\<exists>out. snd (processWebhook body users) = Inr out \<and> wo_shouldUpdatePremium out) \<longleftrightarrow>
     callback_code body \<noteq> JUndefined \<and> callback_code body \<noteq> JNull \<and> js_String (callback_code body) = ''0''
     \<and> (\<exists>p. callback_phone body = Inr (JStr p) \<and> normalizePhoneNumber p \<noteq> []
          \<and> fst (processWebhook body users) = js_set (normalizePhoneNumber p) True users)"
proof (cases "callback_phone body")
  case (Inl err)
  then show ?thesis by (simp add: processWebhook_def Let_def)
next
  case (Inr phone)
  show ?thesis
  proof (cases phone)
    case (JStr p)
    then show ?thesis using Inr
      by (auto simp: processWebhook_def validateMpesaCallback_def isReleaseStatusAllowedFromSafaricom_def updatePremiumStatus_def Let_def)
  qed (use Inr in \<open>auto simp: processWebhook_def Let_def\<close>)
qed

text \<open>
  A token fetched with a life time shorter than 2000 seconds is used after it expired: the cache keeps it
  for 2000 seconds, and a later call in that time gets it back without asking the server.
\<close>

theorem expired_token_is_reused:
  assumes "\<not> token_fresh e cache" "fetchOAuthToken pe num e (Some d) cache = (cache1, Inr tok)"
    and "member d ''expires_in'' = JNum life" "life < 2000" "nowMs e + life * 1000 < nowMs e'" "nowMs e' < nowMs e + 2000 * 1000"
  shows "fetchOAuthToken pe num e' answer cache1 = (cache1, Inr tok)"
proof -
  have "cache1 = Some \<lparr>tc_token = tok, tc_expiresAt = Some (nowMs e + 2000 * 1000)\<rparr>"
    using assms(1-4) by (auto simp: fetchOAuthToken_def Let_def max_def split: sum.splits if_splits)
  then show ?thesis using assms(6) by (simp add: fetchOAuthToken_def token_fresh_def)
qed

text \<open>
  A request passes the integrity check only with the digest, under the master key, of its escrow, operation
  and time stamp, and without a master key none does; since the time stamp is the request's own and nothing
  is remembered, an accepted request is accepted again at any time.
\<close>

theorem integrity_gate_iff:
  assumes "\<And>p. utf8_length (hm key p) = 64" "pe ''MASTER_INTEGRITY_KEY'' = Some key" "key \<noteq> []"
    and "member body ''integrityHash'' = JStr g" "member body ''timestamp'' = JStr ts"
  shows "validateRequestIntegrityHash hm pe body header (Some i) operation = None \<longleftrightarrow> g = hm key (i @ '':'' @ operation @ '':'' @ ts)"
proof -
  have "hm key p \<noteq> []" "[] \<noteq> hm key p" for p using assms(1) [of p] by (auto simp: utf8_length_def)
  then show ?thesis
    using assms by (auto simp: validateRequestIntegrityHash_def computeExpectedRequestHmac_def timingSafeEqual_def Let_def)
qed

section \<open>Concrete instances\<close>

definition sample_environment :: environment where
  "sample_environment n = Some ''v''"

theorem disburse_amount_bounds_witness:
  "disburseFunds sample_environment (Inr ''tok'') (\<lambda>r w. Inr (JObj [])) ''254'' 12345 = Inr (119, JStr ''UNKNOWN'') \<and> 11900 \<le> 12345 - payout_fee 12345"
proof -
  have r: "disburseFunds sample_environment (Inr ''tok'') (\<lambda>r w. Inr (JObj [])) ''254'' 12345 = Inr (119, JStr ''UNKNOWN'')"
    by (simp add: disburseFunds_def sample_environment_def get_env_def payout_fee_def FEE_BPS_def big_div_def)
  from disburse_amount_bounds [OF _ r] r show ?thesis by simp
qed

theorem expired_token_is_reused_witness:
  "\<exists>c. fetchOAuthToken sample_environment (\<lambda>s. None) (sample_env 0) (Some (JObj [(''access_token'', JStr ''tok''), (''expires_in'', JNum 60)])) None = (c, Inr ''tok'')
     \<and> fetchOAuthToken sample_environment (\<lambda>s. None) (sample_env 100000) None c = (c, Inr ''tok'')"
proof -
  have "js_trim ''v'' = ''v''" by code_simp
  then obtain c where r: "fetchOAuthToken sample_environment (\<lambda>s. None) (sample_env 0)
      (Some (JObj [(''access_token'', JStr ''tok''), (''expires_in'', JNum 60)])) None = (c, Inr ''tok'')"
    by (simp add: fetchOAuthToken_def token_fresh_def sample_environment_def get_env_trimmed_def Let_def)
  from expired_token_is_reused [OF _ r, of 60 "sample_env 100000" None] r show ?thesis
    by (simp add: token_fresh_def sample_env_def)
qed

theorem integrity_gate_iff_witness:
  "validateRequestIntegrityHash sample_hmac sample_environment (JObj [(''integrityHash'', JStr (replicate 64 CHR ''a'')), (''timestamp'', JStr ''1'')])
     (\<lambda>n. None) (Some ''e'') ''/release'' = None"
proof -
  have "utf8_length (sample_hmac ''v'' p) = 64" for p
    by (simp add: sample_hmac_def utf8_length_def sum_list_replicate)
  from integrity_gate_iff [of sample_hmac "''v''" sample_environment, OF this] show ?thesis
    by (simp add: sample_environment_def sample_hmac_def)
qed

end
