(* ===== verification/Http.thy ===== *)
theory Http
  imports Json
begin

text \<open>
  The part of \<^verbatim>\<open>express\<close> the services are written against: a request with its headers, body and
  path parameters, a handler as a function of the server state, and a route as the list of its
  handlers. A handler answers, calls \<^verbatim>\<open>next()\<close>, or returns without doing either, and then nothing
  ever answers the request.
\<close>

record request =
  rq_header :: "string \<Rightarrow> string option"
  rq_body :: jsval
  rq_ip :: "string option"

datatype outcome = Answer int jsval | PassOn | Silent

type_synonym 's handler = "'s \<Rightarrow> 's \<times> outcome"

fun run_chain :: "'s handler list \<Rightarrow> 's handler" where
  "run_chain [] s = (s, PassOn)"
| "run_chain (f # fs) s =
     (case f s of
        (s', PassOn) \<Rightarrow> run_chain fs s'
      | (s', Answer c b) \<Rightarrow> (s', Answer c b)
      | (s', Silent) \<Rightarrow> (s', Silent))"

text \<open>The answers \<^verbatim>\<open>{status: 'FAILED', error}\<close> and \<^verbatim>\<open>{status: 'SUCCESS', ...}\<close>.\<close>

definition failed :: "int \<Rightarrow> string \<Rightarrow> outcome" where
  "failed c msg = Answer c (JObj [(''status'', JStr ''FAILED''), (''error'', JStr msg)])"

definition failed_with :: "int \<Rightarrow> string \<Rightarrow> (string \<times> jsval) list \<Rightarrow> outcome" where
  "failed_with c msg ms = Answer c (JObj ([(''status'', JStr ''FAILED''), (''error'', JStr msg)] @ ms))"

definition success :: "int \<Rightarrow> (string \<times> jsval) list \<Rightarrow> outcome" where
  "success c ms = Answer c (JObj ((''status'', JStr ''SUCCESS'') # ms))"

text \<open>\<^verbatim>\<open>const { a, b } = req.body ?? {}\<close> reads the members of anything but null.\<close>

definition body_or_empty :: "jsval \<Rightarrow> jsval" where
  "body_or_empty b = nullish_or b (JObj [])"

fun answer_code :: "outcome \<Rightarrow> int option" where
  "answer_code (Answer c b) = Some c"
| "answer_code _ = None"

fun answer_body :: "outcome \<Rightarrow> jsval" where
  "answer_body (Answer c b) = b"
| "answer_body _ = JUndefined"

lemma answer_code_replies [simp]:
  "answer_code (failed c m) = Some c" "answer_code (failed_with c m ms) = Some c" "answer_code (success c ms) = Some c"
  by (simp_all add: failed_def failed_with_def success_def)

lemma replies_distinct [simp]:
  "failed c m \<noteq> PassOn" "failed c m \<noteq> Silent" "failed_with c m ms \<noteq> PassOn" "failed_with c m ms \<noteq> Silent"
  "success c ms \<noteq> PassOn" "success c ms \<noteq> Silent"
  by (simp_all add: failed_def failed_with_def success_def)

lemma failed_eq_iff [simp]:
  "failed c m = failed c' m' \<longleftrightarrow> c = c' \<and> m = m'"
  "failed c m \<noteq> success c' ms" "failed_with c m ms' \<noteq> success c' ms"
  by (auto simp: failed_def failed_with_def success_def)

text \<open>Nothing behind a handler that stays silent or answers is run.\<close>

lemma run_chain_Cons [simp]:
  "run_chain (f # fs) s = (if snd (f s) = PassOn then run_chain fs (fst (f s)) else f s)"
  by (cases "f s") (auto split: outcome.split)

declare run_chain.simps(2) [simp del]

lemma run_chain_last: "run_chain [f] s = f s"
  by (cases "f s") simp

end
