(* ===== verification/Text.thy ===== *)
theory Text
  imports Json
begin

text \<open>
  The methods of the language's strings that several services search keys and log lines with:
  \<^verbatim>\<open>toLowerCase\<close> on the Latin-1 characters, \<^verbatim>\<open>endsWith\<close>, \<^verbatim>\<open>includes\<close>, and what regular
  expressions see as a word character.
\<close>

definition lower_char :: "char \<Rightarrow> char" where
  "lower_char c =
     (let n = of_char c :: nat in
      if 65 \<le> n \<and> n \<le> 90 \<or> 192 \<le> n \<and> n \<le> 222 \<and> n \<noteq> 215 then char_of (n + 32) else c)"

definition js_lower :: "string \<Rightarrow> string" where
  "js_lower s = map lower_char s"

definition ends_with :: "string \<Rightarrow> string \<Rightarrow> bool" where
  "ends_with s t \<longleftrightarrow> length t \<le> length s \<and> drop (length s - length t) s = t"

definition begins_with :: "string \<Rightarrow> string \<Rightarrow> bool" where
  "begins_with s t \<longleftrightarrow> take (length t) s = t"

fun contains :: "string \<Rightarrow> string \<Rightarrow> bool" where
  "contains [] t \<longleftrightarrow> t = []"
| "contains (c # s) t \<longleftrightarrow> begins_with (c # s) t \<or> contains s t"

definition word_char :: "char \<Rightarrow> bool" where
  "word_char c \<longleftrightarrow>
     (let n = of_char c :: nat in 48 \<le> n \<and> n \<le> 57 \<or> 65 \<le> n \<and> n \<le> 90 \<or> 97 \<le> n \<and> n \<le> 122 \<or> n = 95)"

lemma length_js_lower [simp]: "length (js_lower s) = length s"
  by (simp add: js_lower_def)

lemma js_lower_append: "js_lower (a @ b) = js_lower a @ js_lower b"
  by (simp add: js_lower_def)

lemma ends_with_append [simp]: "ends_with (a @ t) t"
  by (simp add: ends_with_def)

lemma contains_iff: "contains s t \<longleftrightarrow> (\<exists>a b. s = a @ t @ b)"
proof (induction s)
  case (Cons c s)
  note ih = Cons.IH
  show ?case
  proof
    assume "contains (c # s) t"
    then consider "begins_with (c # s) t" | "contains s t" by auto
    then show "\<exists>a b. c # s = a @ t @ b"
    proof cases
      case 1
      then have "c # s = [] @ t @ drop (length t) (c # s)"
        by (metis append_Nil append_take_drop_id begins_with_def)
      then show ?thesis by blast
    next
      case 2
      then show ?thesis using ih by (metis append_Cons)
    qed
  next
    assume "\<exists>a b. c # s = a @ t @ b"
    then obtain a b where ab: "c # s = a @ t @ b" by blast
    then show "contains (c # s) t"
    proof (cases a)
      case Nil
      then have "begins_with (c # s) t" using ab by (simp add: begins_with_def)
      then show ?thesis by simp
    next
      case (Cons d a')
      then have "\<exists>a b. s = a @ t @ b" using ab by auto
      then have "contains s t" using ih by simp
      then show ?thesis by simp
    qed
  qed
qed auto

lemma word_char_letters [simp]: "hex_digit_ci c \<Longrightarrow> word_char c"
proof -
  have "list_all word_char ''0123456789abcdefABCDEF''" by code_simp
  moreover assume "hex_digit_ci c"
  ultimately show ?thesis by (simp only: hex_digit_ci_def list_all_iff Ball_def)
qed

lemma word_char_not_special: "word_char c \<Longrightarrow> \<not> js_space c \<and> c \<noteq> CHR '':'' \<and> c \<noteq> CHR ''='' \<and> c \<noteq> CHR '','' \<and> c \<noteq> CHR '';''"
  by (auto simp: word_char_def js_space_def Let_def)

end
