(* ===== verification/Perimeter.thy ===== *)
theory Perimeter
  imports Complex_Main Bytes Http Text
begin

text \<open>
  The two perimeter middlewares of \<^verbatim>\<open>middleware/IntegrityMiddleware.ts\<close> and
  \<^verbatim>\<open>middleware/RevenueShield.ts\<close>: the HMAC over the canonical body, and the licence surcharge. HMAC and
  the conversion of texts to numbers are parameters; amounts are exact rationals.
\<close>

section \<open>The canonical body\<close>

fun sort_members :: "jsval \<Rightarrow> jsval" where
  "sort_members (JArr vs) = JArr (map (\<lambda>v. sort_members v) vs)"
| "sort_members (JObj ms) = JObj (sort_key fst (map (\<lambda>(k, v). (k, sort_members v)) ms))"
| "sort_members v = v"

definition stableSerialize :: "jsval \<Rightarrow> string" where
  "stableSerialize v = json_stringify (sort_members v)"

definition integrity_keys :: "string list" where
  "integrity_keys = [''integrityHash'', ''integritySignature'', ''xIntegrityHash'', ''xIntegritySignature'']"

fun scrubIntegrityFields :: "jsval \<Rightarrow> jsval" where
  "scrubIntegrityFields (JArr vs) = JArr (map (\<lambda>v. scrubIntegrityFields v) vs)"
| "scrubIntegrityFields (JObj ms) =
     JObj (map (\<lambda>(k, v). (k, scrubIntegrityFields v)) (filter (\<lambda>(k, v). k \<notin> set integrity_keys) ms))"
| "scrubIntegrityFields v = v"

section \<open>The integrity gate\<close>

definition body_text :: "jsval \<Rightarrow> string \<Rightarrow> string option" where
  "body_text body k =
     (case member body k of JStr s \<Rightarrow> (if js_trim s = [] then None else Some (js_trim s)) | _ \<Rightarrow> None)"

definition readRequestSignature :: "request \<Rightarrow> string option" where
  "readRequestSignature rq =
     (case rq_header rq ''x-integrity-signature'' of
        Some s \<Rightarrow> if js_trim s \<noteq> [] then Some (js_trim s)
                  else (case body_text (rq_body rq) ''integritySignature'' of
                          Some t \<Rightarrow> Some t | None \<Rightarrow> body_text (rq_body rq) ''integrityHash'')
      | None \<Rightarrow> (case body_text (rq_body rq) ''integritySignature'' of
                   Some t \<Rightarrow> Some t | None \<Rightarrow> body_text (rq_body rq) ''integrityHash''))"

text \<open>\<^verbatim>\<open>JSON.stringify(undefined)\<close> is no text, and the HMAC throws on it.\<close>

definition computeRequestHmac :: "(string \<Rightarrow> string \<Rightarrow> string) \<Rightarrow> string \<Rightarrow> jsval \<Rightarrow> string js_result" where
  "computeRequestHmac hm masterKey payload =
     (if payload = JUndefined then Inl (TypeError ''The data argument must be of type string'')
      else Inr (hm masterKey (stableSerialize (scrubIntegrityFields payload))))"

definition integrity_refusal :: "int \<Rightarrow> string \<Rightarrow> outcome" where
  "integrity_refusal c msg = Answer c (JObj [(''error'', JStr msg)])"

definition integrityMiddleware ::
  "(string \<Rightarrow> string \<Rightarrow> string) \<Rightarrow> (string \<Rightarrow> string option) \<Rightarrow> request \<Rightarrow> outcome js_result" where
  "integrityMiddleware hm pe rq =
     (case pe ''ENV_MASTER_KEY'' of
        None \<Rightarrow> Inr (integrity_refusal 500 ''ENV_MASTER_KEY_MISSING'')
      | Some masterKey \<Rightarrow>
          if js_trim masterKey = [] then Inr (integrity_refusal 500 ''ENV_MASTER_KEY_MISSING'')
          else (case readRequestSignature rq of
                  None \<Rightarrow> Inr (integrity_refusal 403 ''INTEGRITY_SIGNATURE_REQUIRED'')
                | Some sig \<Rightarrow>
                    bind_result (computeRequestHmac hm masterKey (rq_body rq)) (\<lambda>expected.
                      let sb = hex_decode_lenient sig; eb = hex_decode_lenient expected
                      in if length sb \<noteq> length eb then Inr (integrity_refusal 403 ''INTEGRITY_SIGNATURE_INVALID'')
                         else if sb \<noteq> eb then Inr (integrity_refusal 403 ''INTEGRITY_SIGNATURE_INVALID'')
                         else Inr PassOn)))"

section \<open>The licence surcharge\<close>

text \<open>A number of the body, by the first of its members that is neither null nor missing.\<close>

definition coerceAmount :: "(string \<Rightarrow> rat option) \<Rightarrow> jsval \<Rightarrow> rat option" where
  "coerceAmount num v =
     (case v of
        JNum n \<Rightarrow> Some (of_int n)
      | JStr s \<Rightarrow> (if js_trim s = [] then None else num (js_trim s))
      | _ \<Rightarrow> None)"

definition extractTotalAmount :: "(string \<Rightarrow> rat option) \<Rightarrow> jsval \<Rightarrow> rat option" where
  "extractTotalAmount num body =
     coerceAmount num
       (nullish_or (member body ''total_amount'') (nullish_or (member body ''amount'')
         (nullish_or (member body ''amountKES'') (member body ''amountKESCents''))))"

text \<open>
  The capture of \<^verbatim>\<open>(.+?)(?:\.git|\/|$)\<close>: at least one character, then the shortest way to a \<^verbatim>\<open>.git\<close>, a
  slash or the end, without crossing a line.
\<close>

definition line_end :: "char \<Rightarrow> bool" where
  "line_end c \<longleftrightarrow> of_char c \<in> ({10, 13} :: nat set)"

definition capture_stops :: "string \<Rightarrow> bool" where
  "capture_stops s \<longleftrightarrow> s = [] \<or> begins_with s ''/'' \<or> begins_with (js_lower s) ''.git''"

fun lazy_capture :: "string \<Rightarrow> string option" where
  "lazy_capture [] = None"
| "lazy_capture (c # s) =
     (if line_end c then None
      else if capture_stops s then Some [c] else map_option (\<lambda>t. c # t) (lazy_capture s))"

fun parseGitOrigin :: "string \<Rightarrow> string option" where
  "parseGitOrigin [] = None"
| "parseGitOrigin (c # s) =
     (let t = c # s; r = drop 10 t; hit = (if begins_with (js_lower t) ''github.com'' \<and> (begins_with r '':'' \<or> begins_with r ''/'')
                                           then lazy_capture (tl r) else None)
      in (case hit of Some v \<Rightarrow> Some (js_lower v) | None \<Rightarrow> parseGitOrigin s))"

text \<open>
  The first \<^verbatim>\<open>url\s*=\s*(.+)\<close> of the git configuration; None when there is no readable file. When only white
  space follows, the capture gets its last character that ends no line, and trims to nothing.
\<close>

definition url_value :: "string \<Rightarrow> string option" where
  "url_value t =
     (if \<not> begins_with (js_lower t) ''url'' then None
      else (case dropWhile js_space (drop 3 t) of
              [] \<Rightarrow> None
            | c # r \<Rightarrow>
                if c \<noteq> CHR ''='' then None
                else (case dropWhile js_space r of
                        [] \<Rightarrow> if list_all line_end r then None else Some []
                      | v \<Rightarrow> Some (takeWhile (\<lambda>c. \<not> line_end c) v))))"

fun find_url :: "string \<Rightarrow> string option" where
  "find_url [] = None"
| "find_url (c # s) = (case url_value (c # s) of Some v \<Rightarrow> Some v | None \<Rightarrow> find_url s)"

definition readLocalGitRemote :: "string option \<Rightarrow> string option" where
  "readLocalGitRemote gitConfig = (case gitConfig of None \<Rightarrow> None | Some t \<Rightarrow> map_option js_trim (find_url t))"

definition parseHost :: "string \<Rightarrow> string" where
  "parseHost host = js_lower (js_trim (hd (split_at_char CHR '':'' host)))"

definition buildAuthorizedHostSet :: "(string \<Rightarrow> string option) \<Rightarrow> string list" where
  "buildAuthorizedHostSet pe =
     filter (\<lambda>h. h \<noteq> []) (map (\<lambda>h. js_lower (js_trim h))
       (split_at_char CHR '','' (case pe ''AUTHORIZED_HOSTS'' of None \<Rightarrow> [] | Some s \<Rightarrow> s)))"

definition unauthorized_patterns :: "(string \<Rightarrow> string option) \<Rightarrow> string list" where
  "unauthorized_patterns pe =
     map (\<lambda>p. js_lower (js_trim p)) (split_at_char CHR '',''
       (case pe ''UNAUTHORIZED_DOMAIN_PATTERNS'' of None \<Rightarrow> ''vercel.app,netlify.app,github.io,glitch.me'' | Some s \<Rightarrow> s))"

definition isHostUnauthorized :: "(string \<Rightarrow> string option) \<Rightarrow> string option \<Rightarrow> bool" where
  "isHostUnauthorized pe header =
     (case header of
        None \<Rightarrow> True
      | Some raw \<Rightarrow>
          if raw = [] then True
          else
            let host = parseHost raw; authorized = buildAuthorizedHostSet pe
            in if 0 < length authorized \<and> \<not> list_ex (\<lambda>a. host = a \<or> ends_with host (''.'' @ a)) authorized then True
               else list_ex (contains host) (unauthorized_patterns pe))"

fun first_nonempty :: "string option list \<Rightarrow> string" where
  "first_nonempty [] = []"
| "first_nonempty (v # vs) = (case v of Some s \<Rightarrow> if s = [] then first_nonempty vs else s | None \<Rightarrow> first_nonempty vs)"

definition foreign_owner :: "string \<Rightarrow> string \<Rightarrow> bool" where
  "foreign_owner owner url = (case parseGitOrigin url of None \<Rightarrow> False | Some p \<Rightarrow> p \<noteq> [] \<and> \<not> contains p owner)"

definition isGitRepositoryUnauthorized :: "(string \<Rightarrow> string option) \<Rightarrow> string option \<Rightarrow> bool" where
  "isGitRepositoryUnauthorized pe gitConfig =
     (let owner = js_trim (js_lower (case pe ''AUTHORIZED_OWNER'' of None \<Rightarrow> ''jjaokoth'' | Some s \<Rightarrow> s));
          envRemote = first_nonempty [pe ''GIT_ORIGIN'', pe ''GIT_REMOTE_ORIGIN'', pe ''REPO_ORIGIN'', pe ''REPOSITORY_OWNER'']
      in if envRemote \<noteq> [] \<and> foreign_owner owner envRemote then True
         else (case readLocalGitRemote gitConfig of
                 Some r \<Rightarrow> r \<noteq> [] \<and> foreign_owner owner r
               | None \<Rightarrow> False))"

record integrity_result =
  ig_licenseOk :: bool
  ig_surchargeRateBps :: int
  ig_surchargeAmount :: rat
  ig_adjustedTotalAmount :: rat

definition applyIntegrityAdjustment :: "rat \<Rightarrow> integrity_result" where
  "applyIntegrityAdjustment totalAmount =
     (let surchargeRateBps = 100; surchargeAmount = (totalAmount * of_int surchargeRateBps) / 10000
      in \<lparr>ig_licenseOk = False, ig_surchargeRateBps = surchargeRateBps, ig_surchargeAmount = surchargeAmount,
          ig_adjustedTotalAmount = totalAmount + surchargeAmount\<rparr>)"

definition buildRevenueGuardMetadata :: "bool \<Rightarrow> rat \<Rightarrow> integrity_result" where
  "buildRevenueGuardMetadata unauthorized amount =
     (if unauthorized then applyIntegrityAdjustment amount
      else \<lparr>ig_licenseOk = True, ig_surchargeRateBps = 0, ig_surchargeAmount = 0, ig_adjustedTotalAmount = amount\<rparr>)"

definition masterSettlement :: "(string \<Rightarrow> string option) \<Rightarrow> string" where
  "masterSettlement pe = (case pe ''MASTER_SETTLEMENT_ACCOUNT'' of None \<Rightarrow> ''880200283180'' | Some s \<Rightarrow> s)"

text \<open>
  What the middleware adds to the body before it calls \<^verbatim>\<open>next()\<close>, which it always does; None when it adds
  nothing.
\<close>

record shield_marks =
  sh_guard :: integrity_result
  sh_destination :: string
  sh_unauthorized :: bool
  sh_host :: "string option"
  sh_localRepo :: "string option"
  sh_timestamp :: string
  sh_warning :: "string option"

definition revenueShieldMiddleware ::
  "(string \<Rightarrow> rat option) \<Rightarrow> (string \<Rightarrow> string option) \<Rightarrow> string option \<Rightarrow> env \<Rightarrow> request \<Rightarrow> shield_marks option" where
  "revenueShieldMiddleware num pe gitConfig e rq =
     (case extractTotalAmount num (rq_body rq) of
        None \<Rightarrow> None
      | Some amount \<Rightarrow>
          let unauthorized = isHostUnauthorized pe (rq_header rq ''host'') \<or> isGitRepositoryUnauthorized pe gitConfig
          in Some \<lparr>sh_guard = buildRevenueGuardMetadata unauthorized amount, sh_destination = masterSettlement pe,
                   sh_unauthorized = unauthorized, sh_host = rq_header rq ''host'', sh_localRepo = readLocalGitRemote gitConfig,
                   sh_timestamp = nowIso e,
                   sh_warning = (if unauthorized then Some ''UNAUTHORIZED_DEPLOYMENT_DETECTED'' else None)\<rparr>)"


section \<open>What the signature covers\<close>

text \<open>The length test is part of the comparison.\<close>

lemma gate_passes_iff:
  "integrityMiddleware hm pe rq = Inr PassOn \<longleftrightarrow>
     (\<exists>k sig expected. pe ''ENV_MASTER_KEY'' = Some k \<and> js_trim k \<noteq> [] \<and> readRequestSignature rq = Some sig
        \<and> computeRequestHmac hm k (rq_body rq) = Inr expected \<and> hex_decode_lenient sig = hex_decode_lenient expected)"
  by (auto simp: integrityMiddleware_def integrity_refusal_def bind_result_Inr_iff Let_def split: option.splits if_splits)

text \<open>
  With a master key, a request passes the integrity gate exactly when its signature reads as the bytes of
  the HMAC over its body without the integrity members, printed in key order.
\<close>

theorem integrity_middleware_iff:
  assumes "pe ''ENV_MASTER_KEY'' = Some k" "js_trim k \<noteq> []" "rq_body rq \<noteq> JUndefined"
    and "\<And>p. \<exists>bs. byte_list bs \<and> hm k p = bytes_hex bs"
  shows "integrityMiddleware hm pe rq = Inr PassOn \<longleftrightarrow>
     (\<exists>sig. readRequestSignature rq = Some sig \<and>
        bytes_hex (hex_decode_lenient sig) = hm k (json_stringify (sort_members (scrubIntegrityFields (rq_body rq)))))"
proof -
  obtain bs where bs: "byte_list bs" "hm k (stableSerialize (scrubIntegrityFields (rq_body rq))) = bytes_hex bs"
    using assms(4) by blast
  have "hex_decode_lenient sig = bs \<longleftrightarrow> bytes_hex (hex_decode_lenient sig) = bytes_hex bs" for sig
    using bytes_hex_inj [OF hex_decode_byte_list bs(1)] by simp
  then show ?thesis using assms(1-3) bs
    by (auto simp: gate_passes_iff computeRequestHmac_def stableSerialize_def)
qed

lemma map_members_perm:
  "mset ms = mset ns \<Longrightarrow> mset (map (\<lambda>(k, v). (k, f v)) ms) = mset (map (\<lambda>(k, v). (k, f v)) ns)"
  by (simp only: mset_map)

lemma sort_members_order:
  assumes "distinct (map fst ms)" "mset ms = mset ns"
  shows "sort_members (JObj ms) = sort_members (JObj ns)"
proof -
  have "map fst (map (\<lambda>(k, v). (k, sort_members v)) ms) = map fst ms" by (induction ms) auto
  then have "distinct (map fst (map (\<lambda>(k, v). (k, sort_members v)) ms))" using assms(1) by (simp only:)
  from sort_members_perm [OF this map_members_perm [OF assms(2)]] show ?thesis by simp
qed

text \<open>
  The signature does not cover the order of the members, nor anything that hides in a member with an integrity
  name: a signed request passes again with any value in such a member, as long as the signature is in the
  header.
\<close>

theorem integrity_members_unsigned:
  assumes "integrityMiddleware hm pe rq = Inr PassOn" "rq_header rq ''x-integrity-signature'' = Some s" "js_trim s \<noteq> []"
    and "rq_body rq = JObj ms" "distinct (map fst ms)" "x \<in> set integrity_keys" "mset ns = mset (ms @ [(x, v)])"
  shows "integrityMiddleware hm pe (rq\<lparr>rq_body := JObj ns\<rparr>) = Inr PassOn"
proof -
  let ?keep = "filter (\<lambda>(k, v). k \<notin> set integrity_keys)" and ?f = "map (\<lambda>(k, v). (k, scrubIntegrityFields v))"
  have "mset (?keep ns) = mset (?keep ms)" using assms(6,7) by (simp add: mset_filter)
  then have perm: "mset (?f (?keep ms)) = mset (?f (?keep ns))" by (intro map_members_perm) simp
  have "distinct (map fst (?keep ms))" using assms(5) by (simp add: distinct_map_filter)
  moreover have "map fst (?f (?keep ms)) = map fst (?keep ms)" by (induction ms) auto
  ultimately have "distinct (map fst (?f (?keep ms)))" by (simp only:)
  from sort_members_order [OF this perm]
  have "stableSerialize (scrubIntegrityFields (JObj ms)) = stableSerialize (scrubIntegrityFields (JObj ns))"
    by (simp add: stableSerialize_def)
  then show ?thesis using assms(1-4)
    by (auto simp: gate_passes_iff computeRequestHmac_def readRequestSignature_def)
qed

section \<open>What the surcharge looks at\<close>

text \<open>
  With a list of authorised hosts, a host is let through exactly when it is one of them or ends with a dot and
  one of them, and contains none of the forbidden patterns; the port and the case of its letters do not count.
\<close>

theorem host_authorized_iff:
  assumes "buildAuthorizedHostSet pe \<noteq> []"
  shows "\<not> isHostUnauthorized pe header \<longleftrightarrow>
     (\<exists>raw. header = Some raw \<and> raw \<noteq> []
        \<and> (\<exists>a \<in> set (buildAuthorizedHostSet pe). parseHost raw = a \<or> (\<exists>s. parseHost raw = s @ ''.'' @ a))
        \<and> (\<forall>p \<in> set (unauthorized_patterns pe). \<nexists>s t. parseHost raw = s @ p @ t))"
proof -
  have suffix: "ends_with h t \<longleftrightarrow> (\<exists>s. h = s @ t)" for h t
    by (metis append_take_drop_id ends_with_append ends_with_def)
  show ?thesis using assms
    by (auto simp: isHostUnauthorized_def suffix contains_iff list_ex_iff Let_def split: option.splits)
qed

text \<open>
  An unauthorised deployment is charged one percent on top and nothing is charged otherwise; the request
  goes on in both cases, with the rate, the surcharge and the sum in its marks.
\<close>

theorem surcharge_is_one_percent:
  "revenueShieldMiddleware num pe gitConfig e rq = Some marks \<longleftrightarrow>
     (\<exists>amount. extractTotalAmount num (rq_body rq) = Some amount
        \<and> ig_surchargeAmount (sh_guard marks) = (if sh_unauthorized marks then amount / 100 else 0)
        \<and> ig_surchargeRateBps (sh_guard marks) = (if sh_unauthorized marks then 100 else 0)
        \<and> ig_adjustedTotalAmount (sh_guard marks) = amount + ig_surchargeAmount (sh_guard marks)
        \<and> ig_licenseOk (sh_guard marks) = (\<not> sh_unauthorized marks)
        \<and> sh_unauthorized marks = (isHostUnauthorized pe (rq_header rq ''host'') \<or> isGitRepositoryUnauthorized pe gitConfig)
        \<and> sh_destination marks = masterSettlement pe \<and> sh_host marks = rq_header rq ''host''
        \<and> sh_localRepo marks = readLocalGitRemote gitConfig \<and> sh_timestamp marks = nowIso e
        \<and> sh_warning marks = (if sh_unauthorized marks then Some ''UNAUTHORIZED_DEPLOYMENT_DETECTED'' else None))"
  by (cases marks; cases "sh_guard marks")
     (auto simp: revenueShieldMiddleware_def buildRevenueGuardMetadata_def applyIntegrityAdjustment_def Let_def
      split: option.splits)


section \<open>Concrete instances\<close>

definition sample_digest :: "string \<Rightarrow> string \<Rightarrow> string" where
  "sample_digest k p = ''abcd''"

definition gate_environment :: "string \<Rightarrow> string option" where
  "gate_environment k = (if k = ''ENV_MASTER_KEY'' then Some ''k'' else if k = ''AUTHORIZED_HOSTS'' then Some ''escrow.example'' else None)"

definition signed_request :: request where
  "signed_request = \<lparr>rq_header = (\<lambda>k. if k = ''x-integrity-signature'' then Some ''ABCD'' else None),
     rq_body = JObj [(''amount'', JNum 5)], rq_ip = None\<rparr>"

lemma trims [simp]: "js_trim ''k'' = ''k''" "js_trim ''ABCD'' = ''ABCD''"
  by code_simp+

lemma decoded_signature: "hex_decode_lenient ''ABCD'' = [171, 205]" "bytes_hex [171, 205] = ''abcd''" "byte_list [171, 205]"
  by code_simp+

theorem integrity_middleware_iff_witness:
  "integrityMiddleware sample_digest gate_environment signed_request = Inr PassOn"
proof -
  have "\<exists>bs. byte_list bs \<and> sample_digest ''k'' p = bytes_hex bs" for p
    using decoded_signature(2,3) by (intro exI [of _ "[171, 205]"]) (simp only: sample_digest_def)
  from integrity_middleware_iff [of gate_environment "''k''" signed_request sample_digest, OF _ _ _ this] show ?thesis
    by (simp add: gate_environment_def signed_request_def readRequestSignature_def sample_digest_def decoded_signature
        del: hex_decode_lenient.simps bytes_hex.simps)
qed

theorem integrity_members_unsigned_witness:
  "integrityMiddleware sample_digest gate_environment (signed_request\<lparr>rq_body := JObj [(''integrityHash'', JNum 7), (''amount'', JNum 5)]\<rparr>) = Inr PassOn"
proof -
  have "integrityMiddleware sample_digest gate_environment signed_request = Inr PassOn"
    by (simp add: gate_passes_iff computeRequestHmac_def gate_environment_def signed_request_def readRequestSignature_def sample_digest_def
        decoded_signature) (simp add: decoded_signature hex_digit_ci_def hex_byte_value_def)
  then show ?thesis
    by (rule integrity_members_unsigned [where s = "''ABCD''" and ms = "[(''amount'', JNum 5)]" and x = "''integrityHash''" and v = "JNum 7"])
       (simp_all add: signed_request_def integrity_keys_def)
qed

theorem host_authorized_iff_witness:
  "\<not> isHostUnauthorized gate_environment (Some ''API.escrow.example:8443'')"
proof -
  have h: "parseHost ''API.escrow.example:8443'' = ''api'' @ ''.'' @ ''escrow.example''" by code_simp
  have a: "buildAuthorizedHostSet gate_environment = [''escrow.example'']" by code_simp
  have "\<forall>p \<in> set (unauthorized_patterns gate_environment). \<not> contains (parseHost ''API.escrow.example:8443'') p" by code_simp
  then show ?thesis using a h host_authorized_iff [of gate_environment "Some ''API.escrow.example:8443''"] by (auto simp: contains_iff)
qed

end
