(* ===== verification/Access.thy ===== *)
theory Access
  imports Perimeter
begin

text \<open>
  Who may call the backend: the key checks of \<^verbatim>\<open>packages/backend/src/middleware\<close> over the tenants as the
  schema of \<^verbatim>\<open>prisma/schema.prisma\<close> stores them, the errors of \<^verbatim>\<open>lib/httpErrors.ts\<close>, and the
  application of \<^verbatim>\<open>app.ts\<close> with the escrow table of \<^verbatim>\<open>services/escrowService.ts\<close> behind them. The hash and
  request ids are parameters.
\<close>

section \<open>Errors\<close>

record api_error =
  ae_statusCode :: int
  ae_code :: string
  ae_message :: string
  ae_requestId :: string
  ae_details :: jsval

definition toApiErrorBody :: "api_error \<Rightarrow> jsval" where
  "toApiErrorBody err = JObj [(''error'', JObj
     ([(''code'', JStr (ae_code err)), (''message'', JStr (ae_message err)), (''requestId'', JStr (ae_requestId err))]
      @ (if ae_details err \<noteq> JUndefined then [(''details'', ae_details err)] else [])))]"

definition sendApiError :: "api_error \<Rightarrow> outcome" where
  "sendApiError err = Answer (ae_statusCode err) (toApiErrorBody err)"

text \<open>What is thrown: an error of this kind, or any other.\<close>

definition asApiError :: "string \<Rightarrow> api_error + js_error \<Rightarrow> api_error" where
  "asApiError rid err =
     (case err of
        Inl a \<Rightarrow> a
      | Inr e \<Rightarrow> \<lparr>ae_statusCode = 500, ae_code = ''INTERNAL_ERROR'', ae_message = ''Internal Server Error'', ae_requestId = rid,
                  ae_details = JUndefined\<rparr>)"

section \<open>Tenants\<close>

record tenant =
  tn_id :: string
  tn_name :: string
  tn_hashedApiKey :: string
  tn_webhookSecret :: string

definition tenant_ok :: "tenant list \<Rightarrow> bool" where
  "tenant_ok ts \<longleftrightarrow> distinct (map tn_id ts) \<and> distinct (map tn_hashedApiKey ts)"

text \<open>
  A search by a unique column of the model \<^verbatim>\<open>Tenant\<close>, which are \<^verbatim>\<open>id\<close> and \<^verbatim>\<open>hashedApiKey\<close>; the client refuses any
  other.
\<close>

definition findUniqueTenant :: "string \<Rightarrow> string \<Rightarrow> tenant list \<Rightarrow> tenant option js_result" where
  "findUniqueTenant column v ts =
     (if column = ''id'' then Inr (find (\<lambda>t. tn_id t = v) ts)
      else if column = ''hashedApiKey'' then Inr (find (\<lambda>t. tn_hashedApiKey t = v) ts)
      else Inl (JsError ''Invalid `prisma.tenant.findUnique()` invocation''))"

section \<open>The key checks\<close>

text \<open>They answer, or pass on with the tenant they found.\<close>

definition parseBearerAuthorizationHeader :: "string option \<Rightarrow> string option" where
  "parseBearerAuthorizationHeader header =
     (case header of
        None \<Rightarrow> None
      | Some s \<Rightarrow>
          (let t = js_trim s; r = drop 6 t; key = dropWhile js_space r in
           if \<not> begins_with t ''Bearer'' \<or> r = [] \<or> \<not> js_space (hd r) then None
           else if key = [] \<or> list_ex line_end key then None
           else if js_trim key = [] then None else Some (js_trim key)))"

definition unauthorized :: "string \<Rightarrow> string \<Rightarrow> jsval \<Rightarrow> outcome" where
  "unauthorized rid msg details =
     sendApiError \<lparr>ae_statusCode = 401, ae_code = ''UNAUTHORIZED'', ae_message = msg, ae_requestId = rid, ae_details = details\<rparr>"

definition thrown_message :: "js_error \<Rightarrow> string" where
  "thrown_message err = (case err of TypeError m \<Rightarrow> m | RangeError m \<Rightarrow> m | JsError m \<Rightarrow> m)"

definition apiKeyMiddleware :: "hashfn \<Rightarrow> string \<Rightarrow> request \<Rightarrow> tenant list \<Rightarrow> outcome + tenant" where
  "apiKeyMiddleware h rid rq ts =
     (case parseBearerAuthorizationHeader (rq_header rq ''authorization'') of
        None \<Rightarrow> Inl (unauthorized rid ''Missing or invalid Authorization header'' JUndefined)
      | Some key \<Rightarrow>
          (case findUniqueTenant ''apiKey'' (h key) ts of
             Inl err \<Rightarrow> Inl (unauthorized rid ''Unauthorized'' (JStr (thrown_message err)))
           | Inr None \<Rightarrow> Inl (unauthorized rid ''Invalid API key'' JUndefined)
           | Inr (Some t) \<Rightarrow> Inr t))"

definition invalid_key :: outcome where
  "invalid_key = Answer 401 (JObj [(''error'', JStr ''Unauthorized''), (''message'', JStr ''Invalid or missing API key'')])"

definition tenantAuth :: "hashfn \<Rightarrow> request \<Rightarrow> tenant list \<Rightarrow> outcome + tenant" where
  "tenantAuth h rq ts =
     (case rq_header rq ''x-api-key'' of
        None \<Rightarrow> Inl invalid_key
      | Some key \<Rightarrow>
          if key = [] then Inl invalid_key
          else (case findUniqueTenant ''hashedApiKey'' (h key) ts of
                  Inl err \<Rightarrow> Inl invalid_key
                | Inr None \<Rightarrow> Inl invalid_key
                | Inr (Some t) \<Rightarrow> Inr t))"

definition internalApiKeyMiddleware :: "(string \<Rightarrow> string option) \<Rightarrow> request \<Rightarrow> outcome" where
  "internalApiKeyMiddleware pe rq =
     (case pe ''INTERNAL_API_KEY'' of
        None \<Rightarrow> Answer 500 (JObj [(''error'', JStr ''Internal configuration error'')])
      | Some k \<Rightarrow>
          if k = [] then Answer 500 (JObj [(''error'', JStr ''Internal configuration error'')])
          else if rq_header rq ''x-api-key'' \<noteq> Some k then Answer 401 (JObj [(''error'', JStr ''Unauthorized'')])
          else PassOn)"

definition privacyMiddleware :: "request \<Rightarrow> request" where
  "privacyMiddleware rq = rq\<lparr>rq_header := (rq_header rq)(''sensitive-header'' := None)\<rparr>"

section \<open>The escrow table of the application\<close>

record escrow_row =
  er_id :: int
  er_amount :: jsval
  er_sender :: jsval
  er_receiver :: jsval
  er_status :: string

text \<open>
  The table \<^verbatim>\<open>escrowTransaction\<close> of the client, None when the client has no such member: the schema names
  no such model. The drawn id of a new row and the conversion of ids are parameters.
\<close>

type_synonym escrow_table = "escrow_row list option"

definition no_table :: js_error where
  "no_table = TypeError ''Cannot read properties of undefined''"

definition createEscrowRow :: "int \<Rightarrow> jsval \<Rightarrow> jsval \<Rightarrow> jsval \<Rightarrow> escrow_table \<Rightarrow> escrow_table \<times> escrow_row js_result" where
  "createEscrowRow fresh amount sender receiver tbl =
     (case tbl of
        None \<Rightarrow> (tbl, Inl no_table)
      | Some rows \<Rightarrow>
          let r = \<lparr>er_id = fresh, er_amount = amount, er_sender = sender, er_receiver = receiver, er_status = ''PENDING''\<rparr>
          in (Some (rows @ [r]), Inr r))"

definition getEscrowById :: "(string \<Rightarrow> int option) \<Rightarrow> string \<Rightarrow> escrow_table \<Rightarrow> escrow_row option js_result" where
  "getEscrowById num escrowId tbl =
     (case num escrowId of
        None \<Rightarrow> Inr None
      | Some i \<Rightarrow> (case tbl of None \<Rightarrow> Inl no_table | Some rows \<Rightarrow> Inr (find (\<lambda>r. er_id r = i) rows)))"

text \<open>\<^verbatim>\<open>update\<close> of a row that is not there throws.\<close>

definition table_update :: "int \<Rightarrow> string \<Rightarrow> escrow_table \<Rightarrow> escrow_table \<times> escrow_row js_result" where
  "table_update i st tbl =
     (case tbl of
        None \<Rightarrow> (tbl, Inl no_table)
      | Some rows \<Rightarrow>
          (case find (\<lambda>r. er_id r = i) rows of
             None \<Rightarrow> (tbl, Inl (JsError ''Record to update not found.''))
           | Some r \<Rightarrow> (Some (map (\<lambda>r. if er_id r = i then r\<lparr>er_status := st\<rparr> else r) rows), Inr (r\<lparr>er_status := st\<rparr>))))"

definition updateEscrow ::
  "(string \<Rightarrow> int option) \<Rightarrow> string \<Rightarrow> jsval \<Rightarrow> escrow_table \<Rightarrow> escrow_table \<times> escrow_row option js_result" where
  "updateEscrow num escrowId data tbl =
     (case num escrowId of
        None \<Rightarrow> (tbl, Inr None)
      | Some i \<Rightarrow>
          let st = member data ''status'' in
          if \<not> truthy st then (tbl, getEscrowById num escrowId tbl)
          else (case table_update i (js_String st) tbl of
                  (tbl', Inr r) \<Rightarrow> (tbl', Inr (Some r))
                | (tbl', Inl err) \<Rightarrow> (tbl', Inr None)))"

definition deleteEscrow :: "(string \<Rightarrow> int option) \<Rightarrow> string \<Rightarrow> escrow_table \<Rightarrow> escrow_table \<times> bool" where
  "deleteEscrow num escrowId tbl =
     (case num escrowId of
        None \<Rightarrow> (tbl, False)
      | Some i \<Rightarrow>
          (case tbl of
             None \<Rightarrow> (tbl, False)
           | Some rows \<Rightarrow> if list_ex (\<lambda>r. er_id r = i) rows then (Some (filter (\<lambda>r. er_id r \<noteq> i) rows), True) else (tbl, False)))"

definition set_status ::
  "string \<Rightarrow> (string \<Rightarrow> int option) \<Rightarrow> string \<Rightarrow> escrow_table \<Rightarrow> escrow_table \<times> escrow_row option js_result" where
  "set_status st num escrowId tbl =
     (case num escrowId of
        None \<Rightarrow> (tbl, Inr None)
      | Some i \<Rightarrow> (case table_update i st tbl of (tbl', Inr r) \<Rightarrow> (tbl', Inr (Some r)) | (tbl', Inl err) \<Rightarrow> (tbl', Inl err)))"

definition completeEscrow :: "(string \<Rightarrow> int option) \<Rightarrow> string \<Rightarrow> escrow_table \<Rightarrow> escrow_table \<times> escrow_row option js_result" where
  "completeEscrow = set_status ''COMPLETED''"

definition cancelEscrow :: "(string \<Rightarrow> int option) \<Rightarrow> string \<Rightarrow> escrow_table \<Rightarrow> escrow_table \<times> escrow_row option js_result" where
  "cancelEscrow = set_status ''CANCELED''"

definition getAllEscrows :: "escrow_table \<Rightarrow> escrow_row list js_result" where
  "getAllEscrows tbl = (case tbl of None \<Rightarrow> Inl no_table | Some rows \<Rightarrow> Inr rows)"

section \<open>Its controller\<close>

definition row_json :: "escrow_row \<Rightarrow> jsval" where
  "row_json r = JObj [(''id'', JNum (er_id r)), (''amount'', er_amount r), (''sender'', er_sender r), (''receiver'', er_receiver r),
     (''status'', JStr (er_status r))]"

definition plain_error :: "int \<Rightarrow> string \<Rightarrow> outcome" where
  "plain_error c msg = Answer c (JObj [(''error'', JStr msg)])"

definition create_handler :: "int \<Rightarrow> jsval \<Rightarrow> escrow_table handler" where
  "create_handler fresh body tbl =
     (if body = JUndefined \<or> body = JNull then (tbl, plain_error 500 ''Failed to create escrow'')
      else case createEscrowRow fresh (member body ''amount'') (member body ''senderId'') (member body ''receiverId'') tbl of
             (tbl', Inl err) \<Rightarrow> (tbl', plain_error 500 ''Failed to create escrow'')
           | (tbl', Inr r) \<Rightarrow> (tbl', Answer 201 (row_json r)))"

definition get_handler :: "(string \<Rightarrow> int option) \<Rightarrow> string \<Rightarrow> escrow_table handler" where
  "get_handler num i tbl =
     (tbl, case getEscrowById num i tbl of
             Inl err \<Rightarrow> plain_error 500 ''Failed to retrieve escrow''
           | Inr None \<Rightarrow> plain_error 404 ''Escrow not found''
           | Inr (Some r) \<Rightarrow> Answer 200 (row_json r))"

definition update_handler :: "(string \<Rightarrow> int option) \<Rightarrow> string \<Rightarrow> jsval \<Rightarrow> escrow_table handler" where
  "update_handler num i body tbl =
     (case updateEscrow num i body tbl of
        (tbl', Inl err) \<Rightarrow> (tbl', plain_error 500 ''Failed to update escrow'')
      | (tbl', Inr None) \<Rightarrow> (tbl', plain_error 404 ''Escrow not found'')
      | (tbl', Inr (Some r)) \<Rightarrow> (tbl', Answer 200 (row_json r)))"

definition delete_handler :: "(string \<Rightarrow> int option) \<Rightarrow> string \<Rightarrow> escrow_table handler" where
  "delete_handler num i tbl =
     (let (tbl', ok) = deleteEscrow num i tbl in (tbl', if ok then Answer 204 JUndefined else plain_error 404 ''Escrow not found''))"

section \<open>The application\<close>

text \<open>A route below \<^verbatim>\<open>/api\<close>: the key of the tenant, the internal key, the handler.\<close>

datatype app_route = CreateRow int jsval | GetRow string | UpdateRow string jsval | DeleteRow string

fun app_handler :: "(string \<Rightarrow> int option) \<Rightarrow> app_route \<Rightarrow> escrow_table handler" where
  "app_handler num (CreateRow fresh body) = create_handler fresh body"
| "app_handler num (GetRow i) = get_handler num i"
| "app_handler num (UpdateRow i body) = update_handler num i body"
| "app_handler num (DeleteRow i) = delete_handler num i"

definition app_request ::
  "hashfn \<Rightarrow> string \<Rightarrow> (string \<Rightarrow> string option) \<Rightarrow> (string \<Rightarrow> int option) \<Rightarrow> tenant list \<Rightarrow> request \<Rightarrow> app_route
     \<Rightarrow> escrow_table handler" where
  "app_request h rid pe num ts rq route =
     run_chain
       [\<lambda>tbl. (tbl, case apiKeyMiddleware h rid (privacyMiddleware rq) ts of Inl out \<Rightarrow> out | Inr t \<Rightarrow> PassOn),
        \<lambda>tbl. (tbl, internalApiKeyMiddleware pe (privacyMiddleware rq)),
        app_handler num route]"

section \<open>Properties\<close>

text \<open>
  With its key a tenant gets in, and only with it: the tenant that is attached is the one whose stored digest is
  that of the key, and no two tenants share one.
\<close>

theorem tenant_auth_iff:
  assumes "tenant_ok ts"
  shows "tenantAuth h rq ts = Inr t \<longleftrightarrow>
     (\<exists>key. rq_header rq ''x-api-key'' = Some key \<and> key \<noteq> [] \<and> t \<in> set ts \<and> tn_hashedApiKey t = h key)"
proof -
  have found: "find (\<lambda>t. tn_hashedApiKey t = v) ts = Some t \<longleftrightarrow> t \<in> set ts \<and> tn_hashedApiKey t = v" for v
  proof
    assume r: "t \<in> set ts \<and> tn_hashedApiKey t = v"
    then obtain t' where f: "find (\<lambda>t. tn_hashedApiKey t = v) ts = Some t'" by (fastforce simp: find_None_iff)
    then have "t' \<in> set ts" "tn_hashedApiKey t' = tn_hashedApiKey t" using find_Some_mem [OF f] r by auto
    then have "t' = t" using assms r by (auto simp: tenant_ok_def distinct_map dest: inj_onD)
    then show "find (\<lambda>t. tn_hashedApiKey t = v) ts = Some t" using f by simp
  qed (auto dest: find_Some_mem)
  have "tenantAuth h rq ts = Inr t \<longleftrightarrow>
      (\<exists>key. rq_header rq ''x-api-key'' = Some key \<and> key \<noteq> [] \<and> find (\<lambda>t. tn_hashedApiKey t = h key) ts = Some t)"
    by (cases "rq_header rq ''x-api-key''") (simp_all add: tenantAuth_def findUniqueTenant_def split: option.split)
  then show ?thesis by (simp only: found)
qed

text \<open>
  The application serves no route below \<^verbatim>\<open>/api\<close>: its key check searches a column the schema does not have, the
  search throws, and every request with a well-formed key is answered 401 as every other is, before the
  escrow table is touched.
\<close>

theorem application_refuses_all:
  "\<exists>body. app_request h rid pe num ts rq route tbl = (tbl, Answer 401 body)"
proof -
  have "\<exists>body. apiKeyMiddleware h rid (privacyMiddleware rq) ts = Inl (Answer 401 body)"
    by (auto simp: apiKeyMiddleware_def findUniqueTenant_def unauthorized_def sendApiError_def split: option.splits)
  then show ?thesis by (auto simp: app_request_def)
qed

text \<open>
  Behind the checks the escrow table is no state machine: with a table, an update writes whatever status it is
  given over whatever status there is; without one, no operation succeeds.
\<close>

theorem escrow_table_has_no_transitions:
  assumes "num i = Some n" "tbl = Some rows" "find (\<lambda>r. er_id r = n) rows = Some r" "st \<noteq> []"
  shows "update_handler num i (JObj [(''status'', JStr st)]) tbl =
           (Some (map (\<lambda>r. if er_id r = n then r\<lparr>er_status := st\<rparr> else r) rows), Answer 200 (row_json (r\<lparr>er_status := st\<rparr>)))
     \<and> answer_code (snd (update_handler num i (JObj [(''status'', JStr st)]) None)) = Some 404
     \<and> answer_code (snd (get_handler num i None)) = Some 500 \<and> answer_code (snd (delete_handler num i None)) = Some 404
     \<and> answer_code (snd (create_handler n body None)) = Some 500"
  using assms by (simp add: update_handler_def updateEscrow_def table_update_def get_handler_def getEscrowById_def delete_handler_def
      deleteEscrow_def create_handler_def createEscrowRow_def plain_error_def)

section \<open>Concrete instances\<close>

definition sample_tenant :: tenant where
  "sample_tenant = \<lparr>tn_id = ''t'', tn_name = ''n'', tn_hashedApiKey = ''hk'', tn_webhookSecret = ''w''\<rparr>"

definition keyed_request :: request where
  "keyed_request = \<lparr>rq_header = (\<lambda>k. if k = ''x-api-key'' then Some ''k'' else None), rq_body = JNull, rq_ip = None\<rparr>"

theorem tenant_auth_iff_witness:
  "tenantAuth (\<lambda>s. CHR ''h'' # s) keyed_request [sample_tenant] = Inr sample_tenant"
  using tenant_auth_iff [of "[sample_tenant]" "\<lambda>s. CHR ''h'' # s" keyed_request sample_tenant]
  by (simp add: tenant_ok_def keyed_request_def sample_tenant_def)

theorem escrow_table_has_no_transitions_witness:
  "\<exists>rows. fst (update_handler (\<lambda>s. Some 1) ''1'' (JObj [(''status'', JStr ''PENDING'')])
      (Some [\<lparr>er_id = 1, er_amount = JNum 5, er_sender = JNull, er_receiver = JNull, er_status = ''COMPLETED''\<rparr>]))
    = Some rows \<and> map er_status rows = [''PENDING'']"
  using escrow_table_has_no_transitions [of "\<lambda>s. Some 1" "''1''" 1
      "Some [\<lparr>er_id = 1, er_amount = JNum 5, er_sender = JNull, er_receiver = JNull, er_status = ''COMPLETED''\<rparr>]"
      "[\<lparr>er_id = 1, er_amount = JNum 5, er_sender = JNull, er_receiver = JNull, er_status = ''COMPLETED''\<rparr>]"
      "\<lparr>er_id = 1, er_amount = JNum 5, er_sender = JNull, er_receiver = JNull, er_status = ''COMPLETED''\<rparr>" "''PENDING''"]
  by simp

end
