(* ===== verification/Payments.thy ===== *)
theory Payments
  imports Payout Mpesa Access
begin

text \<open>
  The payment routes of \<^verbatim>\<open>controllers/PaymentController.ts\<close> beyond the handshakes: transactions with their
  licence guard (\<^verbatim>\<open>middleware/integrity.ts\<close>), the rail verifications and the callback, and the STK push of
  \<^verbatim>\<open>payout/mpesa-handler.ts\<close>. Finite numbers are rationals; the HTTP answers, the git configuration and
  the conversion of texts to numbers are parameters.
\<close>

section \<open>The licence guard\<close>

text \<open>Here a blank text is the number 0, as \<^verbatim>\<open>Number\<close> reads it.\<close>

definition coerceAmountText :: "(string \<Rightarrow> rat option) \<Rightarrow> jsval \<Rightarrow> rat option" where
  "coerceAmountText num v =
     (case v of JNum n \<Rightarrow> Some (of_int n) | JStr s \<Rightarrow> (if js_trim s = [] then Some 0 else num s) | _ \<Rightarrow> None)"

definition extractAmount :: "(string \<Rightarrow> rat option) \<Rightarrow> jsval \<Rightarrow> rat option" where
  "extractAmount num body =
     coerceAmountText num
       (nullish_or (member body ''total_amount'') (nullish_or (member body ''amount'')
         (nullish_or (member body ''amountKES'') (member body ''amountKESCents''))))"

definition owner_differs :: "string option \<Rightarrow> bool" where
  "owner_differs owner = (case owner of None \<Rightarrow> False | Some s \<Rightarrow> s \<noteq> [] \<and> s \<noteq> ''jjaokoth'')"

definition detectUnauthorized :: "environment \<Rightarrow> string option \<Rightarrow> bool" where
  "detectUnauthorized pe gitConfig =
     (let envOwner = first_nonempty [pe ''GIT_ORIGIN'', pe ''GIT_REMOTE_ORIGIN'', pe ''REPO_ORIGIN'', pe ''REPOSITORY_OWNER'',
                                     pe ''PACKAGE_OWNER'', pe ''AUTHORIZED_OWNER''];
          origin = first_nonempty [pe ''GIT_ORIGIN'', pe ''GIT_REMOTE_ORIGIN'', pe ''REPO_ORIGIN'']
      in if envOwner \<noteq> [] \<and> owner_differs (Some (case parseGitOrigin envOwner of Some v \<Rightarrow> v | None \<Rightarrow> js_lower (js_trim envOwner)))
         then True
         else if origin \<noteq> [] \<and> owner_differs (parseGitOrigin origin) then True
         else (case gitConfig of
                 None \<Rightarrow> False
               | Some t \<Rightarrow> (case find_url t of None \<Rightarrow> False | Some v \<Rightarrow> owner_differs (parseGitOrigin (js_trim v)))))"

definition ensureIntegrityAndMaybeAdjust ::
  "environment \<Rightarrow> string option \<Rightarrow> rat \<Rightarrow> integrity_result \<times> settlement_destination" where
  "ensureIntegrityAndMaybeAdjust pe gitConfig amount =
     (buildRevenueGuardMetadata (detectUnauthorized pe gitConfig) amount, getMasterSettlementDestination pe)"

text \<open>
  What the middleware writes into the body before it passes on; the adjusted sum is written only when it was
  adjusted. A request without an amount is passed on as it is.
\<close>

record guard_marks =
  gm_licenseGuard :: integrity_result
  gm_destination :: settlement_destination
  gm_feeType :: "string option"
  gm_finalAmount :: "rat option"

definition licenseGuardMiddleware ::
  "(string \<Rightarrow> rat option) \<Rightarrow> environment \<Rightarrow> string option \<Rightarrow> jsval \<Rightarrow> guard_marks option" where
  "licenseGuardMiddleware num pe gitConfig body =
     (case extractAmount num body of
        None \<Rightarrow> None
      | Some amount \<Rightarrow>
          if body = JUndefined \<or> body = JNull then None
          else
            let (guard, destination) = ensureIntegrityAndMaybeAdjust pe gitConfig amount
            in Some \<lparr>gm_licenseGuard = guard, gm_destination = destination,
                     gm_feeType = (if detectUnauthorized pe gitConfig then Some ''Service Licensing Fee'' else None),
                     gm_finalAmount = (if detectUnauthorized pe gitConfig then Some (ig_adjustedTotalAmount guard) else None)\<rparr>)"

section \<open>Initiating a transaction\<close>

datatype subscription_type = Instant | Weekly | Monthly | Offline

definition parseSubscriptionType :: "jsval \<Rightarrow> subscription_type" where
  "parseSubscriptionType v =
     (case v of
        JStr s \<Rightarrow> (let n = js_lower (js_trim s) in
                   if n = ''weekly'' then Weekly else if n = ''monthly'' then Monthly else if n = ''offline'' then Offline else Instant)
      | _ \<Rightarrow> Instant)"

record revenue_entry =
  re_tenantId :: string
  re_phoneNumber :: string
  re_originalAmount :: rat
  re_surchargeAmount :: rat
  re_adjustedTotalAmount :: rat
  re_subscription :: subscription_type

record payment_state =
  ps_revenue :: "revenue_entry list"
  ps_subscriptions :: "(string, subscription) jsmap"
  ps_pushes :: "stk_request list"

datatype initiate_reply =
    InitiateError int string
  | InstantStarted stk_result integrity_result settlement_destination
  | RecurringStarted subscription integrity_result settlement_destination

text \<open>\<^verbatim>\<open>Math.round(amount * 100)\<close>.\<close>

definition amount_cents :: "rat \<Rightarrow> int" where
  "amount_cents amount = \<lfloor>amount * 100 + 1 / 2\<rfloor>"

definition initiate_error :: "js_error \<Rightarrow> initiate_reply" where
  "initiate_error err =
     (let msg = thrown_message err
      in InitiateError (if str_includes ''REQUIRED'' msg \<or> str_includes ''INVALID'' msg then 400 else 500) msg)"

text \<open>
  The answers of the world to one call: the token server, the push, the write of the revenue entry (None when it
  succeeds), and the drawn identifiers.
\<close>

record rail_world =
  rw_auth :: http_answer
  rw_push :: "stk_request \<Rightarrow> http_answer"
  rw_revenueError :: "js_error option"
  rw_num :: "string \<Rightarrow> int option"
  rw_pe :: environment
  rw_gitConfig :: "string option"
  rw_uuid :: string
  rw_env :: env

definition pushed :: "rail_world \<Rightarrow> int \<Rightarrow> string \<Rightarrow> string \<Rightarrow> stk_result js_result" where
  "pushed w cents phone reference =
     snd (initiateStkPush (rw_pe w) (rw_num w) (rw_env w) (rw_auth w) (rw_push w) cents phone reference None None)"

definition initiateTransaction ::
  "(string \<Rightarrow> rat option) \<Rightarrow> rail_world \<Rightarrow> jsval \<Rightarrow> payment_state \<Rightarrow> payment_state \<times> initiate_reply" where
  "initiateTransaction num w body st =
     (let tenantId = js_trim (str_or_empty (member body ''tenantId'')); phone = js_trim (str_or_empty (member body ''phoneNumber''));
          kind = parseSubscriptionType (member body ''subscriptionType'')
      in if tenantId = [] then (st, InitiateError 400 ''tenantId_REQUIRED'')
         else if phone = [] then (st, InitiateError 400 ''phoneNumber_REQUIRED'')
         else (case coerceAmountText num (member body ''amount'') of
                 None \<Rightarrow> (st, InitiateError 400 ''amount_INVALID'')
               | Some amount \<Rightarrow>
                   if amount \<le> 0 then (st, InitiateError 400 ''amount_INVALID'')
                   else if kind = Offline then (st, InitiateError 400 ''OFFLINE_PAYMENT_USE_USSD'')
                   else
                     let cents = amount_cents amount;
                         (guard, destination) = ensureIntegrityAndMaybeAdjust (rw_pe w) (rw_gitConfig w) amount;
                         logs = 0 < ig_surchargeAmount guard;
                         entry = \<lparr>re_tenantId = tenantId, re_phoneNumber = normalizePhoneNumber phone, re_originalAmount = amount,
                                  re_surchargeAmount = ig_surchargeAmount guard, re_adjustedTotalAmount = ig_adjustedTotalAmount guard,
                                  re_subscription = kind\<rparr>
                     in if logs \<and> rw_revenueError w \<noteq> None then (st, initiate_error (the (rw_revenueError w)))
                        else
                          let st1 = (if logs then st\<lparr>ps_revenue := ps_revenue st @ [entry]\<rparr> else st);
                              reference = ''trx_'' @ rw_uuid w
                          in if kind = Instant
                             then (case pushed w cents phone reference of
                                     Inl err \<Rightarrow> (st1, initiate_error err)
                                   | Inr r \<Rightarrow>
                                       (st1\<lparr>ps_pushes := ps_pushes st1 @ [stk_request_of (rw_pe w) cents phone reference None]\<rparr>,
                                        InstantStarted r guard destination))
                             else (case createRecurringSubscription (rw_env w) (rw_uuid w) tenantId phone cents
                                          (if kind = Weekly then ''WEEKLY'' else ''MONTHLY'') (ps_subscriptions st1) of
                                     (subs, Inl err) \<Rightarrow> (st1, initiate_error err)
                                   | (subs, Inr s) \<Rightarrow> (st1\<lparr>ps_subscriptions := subs\<rparr>, RecurringStarted s guard destination))))"

definition handleMpesaWebhook :: "jsval \<Rightarrow> (string, bool) jsmap \<Rightarrow> (string, bool) jsmap \<times> outcome" where
  "handleMpesaWebhook body users =
     (case processWebhook body users of
        (users', Inl err) \<Rightarrow> (users', plain_error 500 (thrown_message err))
      | (users', Inr r) \<Rightarrow>
          (users', Answer 200 (JObj [(''success'', JBool True), (''handled'', JBool (wo_shouldUpdatePremium r)),
             (''phoneNumber'', case wo_phoneNumber r of None \<Rightarrow> JUndefined | Some p \<Rightarrow> JStr p),
             (''resultCode'', case wo_resultCode r of None \<Rightarrow> JUndefined | Some c \<Rightarrow> JStr c)])))"

section \<open>Rail verification\<close>

definition verifyRail :: "hashfn \<Rightarrow> env \<Rightarrow> string \<Rightarrow> jsval \<Rightarrow> payout_db \<Rightarrow> payout_db \<times> payout_reply" where
  "verifyRail h e idempotencyHeader body db =
     (let idempotencyKey = js_trim idempotencyHeader
      in if idempotencyKey = [] then (db, PayoutError 400 ''idempotencyKey_REQUIRED'')
         else
           let handshakeId = str_or_empty (member body ''handshakeId''); otpCode = str_or_empty (member body ''otpCode'');
               imageUrl = str_or_empty (member body ''safetyNetImageUrl''); photoBase64 = str_or_empty (member body ''photoBase64'')
           in if js_trim handshakeId = [] then (db, PayoutError 400 ''handshakeId_REQUIRED'')
              else if js_trim otpCode = [] then (db, PayoutError 400 ''otpCode_REQUIRED'')
              else if js_trim imageUrl = [] \<and> js_trim photoBase64 = []
              then (db, PayoutError 400 ''safetyNetImageUrl_OR_photoBase64_REQUIRED'')
              else (case verifyAndRelease h e (JStr handshakeId) (JStr otpCode)
                           (JStr (if js_trim photoBase64 \<noteq> [] then photoBase64 else imageUrl)) (member body ''gpsCoords'')
                           (JStr idempotencyKey) db of
                      (db', Inr updated) \<Rightarrow> (db', PayoutReleased updated)
                    | (db', Inl err) \<Rightarrow>
                        (let msg = error_message err in
                         if msg = ''INVALID_OTP'' then (db', PayoutError 400 msg)
                         else if msg = ''NOT_FOUND'' then (db', PayoutError 404 msg)
                         else if msg = ''ALREADY_PROCESSED'' then (db', PayoutError 409 msg)
                         else (db', PayoutError 500 msg))))"

definition verifyMpesa :: "hashfn \<Rightarrow> env \<Rightarrow> string \<Rightarrow> jsval \<Rightarrow> payout_db \<Rightarrow> payout_db \<times> payout_reply" where
  "verifyMpesa = verifyRail"

definition verifyAirtel :: "hashfn \<Rightarrow> env \<Rightarrow> string \<Rightarrow> jsval \<Rightarrow> payout_db \<Rightarrow> payout_db \<times> payout_reply" where
  "verifyAirtel = verifyRail"

definition verifyBank :: "hashfn \<Rightarrow> env \<Rightarrow> string \<Rightarrow> jsval \<Rightarrow> payout_db \<Rightarrow> payout_db \<times> payout_reply" where
  "verifyBank = verifyRail"


section \<open>What is charged\<close>

text \<open>
  An instant transaction pushes the whole shillings of the amount that was asked for, never the adjusted sum: for an
  unauthorised deployment the surcharge is written to the revenue log, in the same step, but not charged.
\<close>

theorem surcharge_is_logged_not_charged:
  assumes "initiateTransaction num w body st = (st', InstantStarted r guard destination)"
    and "coerceAmountText num (member body ''amount'') = Some amount"
  shows "\<exists>push. ps_pushes st' = ps_pushes st @ [push] \<and> sk_amount push = show_int (amount_cents amount div 100) \<and> 100 \<le> amount_cents amount
     \<and> (if detectUnauthorized (rw_pe w) (rw_gitConfig w)
        then ig_adjustedTotalAmount guard = amount + amount / 100
             \<and> (\<exists>entry. ps_revenue st' = ps_revenue st @ [entry] \<and> re_surchargeAmount entry = amount / 100 \<and> re_originalAmount entry = amount)
        else ig_adjustedTotalAmount guard = amount \<and> ps_revenue st' = ps_revenue st)"
proof -
  let ?g = "fst (ensureIntegrityAndMaybeAdjust (rw_pe w) (rw_gitConfig w) amount)"
  let ?phone = "js_trim (str_or_empty (member body ''phoneNumber''))"
  have pos: "0 < amount" using assms by (auto simp: initiateTransaction_def Let_def split: if_splits)
  have g: "ig_surchargeAmount ?g = (if detectUnauthorized (rw_pe w) (rw_gitConfig w) then amount / 100 else 0)"
    "ig_adjustedTotalAmount ?g = amount + ig_surchargeAmount ?g"
    by (simp_all add: ensureIntegrityAndMaybeAdjust_def buildRevenueGuardMetadata_def applyIntegrityAdjustment_def Let_def)
  have run: "guard = ?g \<and> (\<exists>r. pushed w (amount_cents amount) ?phone (''trx_'' @ rw_uuid w) = Inr r)
     \<and> ps_pushes st' = ps_pushes st @ [stk_request_of (rw_pe w) (amount_cents amount) ?phone (''trx_'' @ rw_uuid w) None]
     \<and> (if 0 < ig_surchargeAmount ?g
        then (\<exists>entry. ps_revenue st' = ps_revenue st @ [entry] \<and> re_surchargeAmount entry = ig_surchargeAmount ?g \<and> re_originalAmount entry = amount)
        else ps_revenue st' = ps_revenue st)"
    using assms by (auto simp: initiateTransaction_def initiate_error_def Let_def split: if_splits sum.splits prod.splits)
  then have whole: "0 < big_div (amount_cents amount) 100"
    by (auto simp: pushed_def initiateStkPush_def bind_result_Inr_iff split: prod.splits sum.splits if_splits)
  have "0 \<le> amount_cents amount" using pos by (simp add: amount_cents_def)
  with whole have "100 \<le> amount_cents amount" "big_div (amount_cents amount) 100 = amount_cents amount div 100"
    by (simp_all add: big_div_nonneg)
  then show ?thesis using run g pos by (auto simp: stk_request_of_def)
qed

text \<open>
  The three rails verify as the handshake route does.
\<close>

lemma rails_verify_alike: "verifyMpesa = payment_verify_route \<and> verifyAirtel = payment_verify_route \<and> verifyBank = payment_verify_route"
proof -
  have "verifyRail h e key body db = payment_verify_route h e key body db" for h e key body db
    by (auto simp: verifyRail_def payment_verify_route_def Let_def split: sum.split prod.split)
  then have "verifyRail = payment_verify_route" by blast
  then show ?thesis by (simp add: verifyMpesa_def verifyAirtel_def verifyBank_def)
qed

section \<open>Concrete instances\<close>

text \<open>A fork of the repository, whose origin names another owner.\<close>

definition sample_rail_world :: rail_world where
  "sample_rail_world =
     \<lparr>rw_auth = Some (JObj [(''access_token'', JStr ''tok'')]),
      rw_push = (\<lambda>r. Some (JObj [(''CheckoutRequestID'', JStr ''ws_1'')])),
      rw_revenueError = None, rw_num = (\<lambda>s. None),
      rw_pe = (\<lambda>n. if n = ''PACKAGE_OWNER'' then Some ''acme'' else if take 5 n = ''MPESA'' then Some ''v'' else None),
      rw_gitConfig = None, rw_uuid = ''u1'', rw_env = \<lparr>nowMs = 0, nowIso = ''t'', diskOk = (\<lambda>n. True)\<rparr>\<rparr>"

definition sample_initiate_body :: jsval where
  "sample_initiate_body = JObj [(''tenantId'', JStr ''t1''), (''phoneNumber'', JStr ''254''), (''amount'', JNum 250)]"

definition no_payments :: payment_state where
  "no_payments = \<lparr>ps_revenue = [], ps_subscriptions = [], ps_pushes = []\<rparr>"

theorem surcharge_is_logged_not_charged_witness:
  "\<exists>st' r guard destination. initiateTransaction (\<lambda>s. None) sample_rail_world sample_initiate_body no_payments = (st', InstantStarted r guard destination)
     \<and> (\<exists>push. ps_pushes st' = [push] \<and> sk_amount push = ''250'') \<and> ig_adjustedTotalAmount guard = 250 + 250 / 100 \<and> length (ps_revenue st') = 1"
proof -
  have "(case snd (initiateTransaction (\<lambda>s. None) sample_rail_world sample_initiate_body no_payments) of
          InstantStarted r guard destination \<Rightarrow> True | _ \<Rightarrow> False)"
    by code_simp
  then obtain st' r guard destination where
    run: "initiateTransaction (\<lambda>s. None) sample_rail_world sample_initiate_body no_payments = (st', InstantStarted r guard destination)"
    by (cases "initiateTransaction (\<lambda>s. None) sample_rail_world sample_initiate_body no_payments") (auto split: initiate_reply.splits)
  have owner: "detectUnauthorized (rw_pe sample_rail_world) (rw_gitConfig sample_rail_world)" by code_simp
  have c: "amount_cents 250 = 25000" unfolding amount_cents_def by (rule floor_unique) simp_all
  have t: "show_int 250 = ''250''" by code_simp
  have a: "coerceAmountText (\<lambda>s. None) (member sample_initiate_body ''amount'') = Some 250"
    by (simp add: coerceAmountText_def sample_initiate_body_def)
  from surcharge_is_logged_not_charged [OF run a] owner run c t show ?thesis by (auto simp: no_payments_def)
qed

end
