(* ===== verification/Backend.thy ===== *)
theory Backend
  imports Payments
begin

text \<open>
  The server of the backend, \<^verbatim>\<open>packages/backend/src/index.ts\<close>, with its routers \<^verbatim>\<open>routes/escrowRoutes.ts\<close>,
  \<^verbatim>\<open>paymentRoutes.ts\<close>, \<^verbatim>\<open>paymentsRoutes.ts\<close> and \<^verbatim>\<open>webhookRoutes.ts\<close>: one request goes through the origin check, the
  handlers its route mounts in their order, and the controller, over the stores of all services.
\<close>

section \<open>State and surroundings\<close>

record backend =
  be_escrows :: escrow_store
  be_providers :: "string list"
  be_handshakes :: payout_db
  be_premium :: "(string, bool) jsmap"
  be_payments :: payment_state

text \<open>
  What one request meets outside: hash, HMAC, environment, number parsing, provider gateway, the clocks before and
  after a provider call, drawn identifiers, the tenants and the answers of the mobile-money rail.
\<close>

record backend_world =
  bw_hash :: hashfn
  bw_hmac :: hmacfn
  bw_pe :: environment
  bw_num :: "string \<Rightarrow> int option"
  bw_rat :: "string \<Rightarrow> rat option"
  bw_gateway :: gateway
  bw_env :: env
  bw_after :: env
  bw_uuid :: string
  bw_otp :: nat
  bw_tenants :: "tenant list"
  bw_rail :: rail_world
  bw_baseUrl :: string

definition master_key :: "environment \<Rightarrow> string" where
  "master_key pe = (case pe ''MASTER_INTEGRITY_KEY'' of None \<Rightarrow> ''default-development-key''
                    | Some k \<Rightarrow> if k = [] then ''default-development-key'' else k)"

datatype rail = MpesaRail | AirtelRail | BankRail

datatype backend_route =
    Health
  | EscrowCreate | EscrowGet string | EscrowsOf string
  | EscrowLock string | EscrowRelease string | EscrowRefund string | EscrowDispute string
  | HandshakeCreate | HandshakeVerify | RailVerify rail
  | PaymentInitiate | PaymentCallback
  | ProviderWebhook string | MpesaCallback | ProviderConfig string

datatype backend_reply =
    RpOutcome outcome
  | RpEscrow escrow_reply
  | RpPayout payout_reply
  | RpHandshake handshake string
  | RpInitiate initiate_reply
  | RpWebhook webhook_reply

section \<open>The checks in front\<close>

definition localDevOrigins :: "string list" where
  "localDevOrigins =
     [''http://localhost:3000'', ''http://localhost:8080'', ''http://localhost:5000'', ''http://127.0.0.1:3000'',
      ''http://127.0.0.1:8080'', ''http://127.0.0.1:5000'']"

definition productionOrigin :: string where
  "productionOrigin = ''https://securerise-gen-lang-client-0791519677-uc.a.run.app''"

definition cors_allows :: "string option \<Rightarrow> bool" where
  "cors_allows origin = (case origin of None \<Rightarrow> True | Some r \<Rightarrow> r = productionOrigin \<or> r \<in> set localDevOrigins)"

definition with_tenant ::
  "backend_world \<Rightarrow> request \<Rightarrow> (tenant \<Rightarrow> backend \<Rightarrow> backend \<times> backend_reply) \<Rightarrow> backend \<Rightarrow> backend \<times> backend_reply" where
  "with_tenant w rq k s =
     (case tenantAuth (bw_hash w) rq (bw_tenants w) of Inl out \<Rightarrow> (s, RpOutcome out) | Inr t \<Rightarrow> k t s)"

definition with_integrity ::
  "backend_world \<Rightarrow> request \<Rightarrow> string \<Rightarrow> string \<Rightarrow> (backend \<Rightarrow> backend \<times> backend_reply) \<Rightarrow> backend \<Rightarrow> backend \<times> backend_reply" where
  "with_integrity w rq i operation k s =
     (case validateRequestIntegrityHash (bw_hmac w) (bw_pe w) (rq_body rq) (rq_header rq) (Some i) operation of
        Some (code, msg) \<Rightarrow> (s, RpOutcome (plain_error code msg))
      | None \<Rightarrow> k s)"

section \<open>The routes\<close>

definition on_escrows ::
  "(string list \<Rightarrow> escrow_store \<Rightarrow> string list \<times> escrow_store \<times> 'r) \<Rightarrow> ('r \<Rightarrow> backend_reply) \<Rightarrow> backend \<Rightarrow> backend \<times> backend_reply" where
  "on_escrows f reply s =
     (case f (be_providers s) (be_escrows s) of
        (cache, st, r) \<Rightarrow> (s\<lparr>be_providers := cache, be_escrows := st\<rparr>, reply r))"

definition escrow_routes ::
  "backend_world \<Rightarrow> request \<Rightarrow> backend_route \<Rightarrow> backend \<Rightarrow> backend \<times> backend_reply" where
  "escrow_routes w rq route s =
     (let hm = bw_hmac w; key = master_key (bw_pe w); num = bw_num w; gw = bw_gateway w; e = bw_env w; body = rq_body rq;
          guarded = (\<lambda>i operation f. with_tenant w rq (\<lambda>t. with_integrity w rq i operation (on_escrows f RpEscrow)) s)
      in case route of
           EscrowCreate \<Rightarrow>
             with_tenant w rq (\<lambda>t. on_escrows (\<lambda>cache st. (cache, create_route num e (bw_uuid w) (JStr (tn_id t)) body st)) RpEscrow) s
         | EscrowGet i \<Rightarrow> (s, RpEscrow (get_route hm key e i (be_escrows s)))
         | EscrowsOf t \<Rightarrow> (s, RpEscrow (tenant_route t (be_escrows s)))
         | EscrowLock i \<Rightarrow> guarded i ''/:escrowId/lock'' (lock_route hm key num gw e (bw_after w) i)
         | EscrowRelease i \<Rightarrow> guarded i ''/:escrowId/release'' (release_route num gw e i)
         | EscrowRefund i \<Rightarrow> guarded i ''/:escrowId/refund'' (refund_route num gw e i body)
         | EscrowDispute i \<Rightarrow> guarded i ''/:escrowId/dispute'' (\<lambda>cache st. (cache, dispute_route e i body st))
         | _ \<Rightarrow> (s, RpOutcome Silent))"

definition payment_routes ::
  "backend_world \<Rightarrow> request \<Rightarrow> backend_route \<Rightarrow> backend \<Rightarrow> backend \<times> backend_reply" where
  "payment_routes w rq route s =
     (let h = bw_hash w; e = bw_env w; body = rq_body rq;
          idempotencyKey = (case rq_header rq ''x-idempotency-key'' of None \<Rightarrow> [] | Some k \<Rightarrow> k);
          payout = (\<lambda>f. with_tenant w rq (\<lambda>t s. case f (be_handshakes s) of (db, r) \<Rightarrow> (s\<lparr>be_handshakes := db\<rparr>, RpPayout r)) s)
      in case route of
           HandshakeCreate \<Rightarrow>
             with_tenant w rq (\<lambda>t s.
               case payment_create_route h (\<lambda>i. i \<in> tn_id ` set (bw_tenants w)) (bw_uuid w) (bw_otp w) body
                      (case member body ''amount'' of JNum n \<Rightarrow> Some (of_int n) | _ \<Rightarrow> None) (be_handshakes s) of
                 (db, Inl r) \<Rightarrow> (s\<lparr>be_handshakes := db\<rparr>, RpPayout r)
               | (db, Inr (x, otp)) \<Rightarrow> (s\<lparr>be_handshakes := db\<rparr>, RpHandshake x otp)) s
         | HandshakeVerify \<Rightarrow> payout (payment_verify_route h e idempotencyKey body)
         | RailVerify r \<Rightarrow>
             payout ((case r of MpesaRail \<Rightarrow> verifyMpesa | AirtelRail \<Rightarrow> verifyAirtel | BankRail \<Rightarrow> verifyBank) h e idempotencyKey body)
         | PaymentInitiate \<Rightarrow>
             with_tenant w rq (\<lambda>t s.
               case initiateTransaction (bw_rat w) (bw_rail w) body (be_payments s) of (p, r) \<Rightarrow> (s\<lparr>be_payments := p\<rparr>, RpInitiate r)) s
         | PaymentCallback \<Rightarrow>
             (case Payments.handleMpesaWebhook body (be_premium s) of (users, out) \<Rightarrow> (s\<lparr>be_premium := users\<rparr>, RpOutcome out))
         | _ \<Rightarrow> (s, RpOutcome Silent))"

definition webhook_routes ::
  "backend_world \<Rightarrow> request \<Rightarrow> backend_route \<Rightarrow> backend \<Rightarrow> backend \<times> backend_reply" where
  "webhook_routes w rq route s =
     (case route of
        ProviderWebhook p \<Rightarrow> on_escrows (handleWebhook (bw_num w) (bw_gateway w) (bw_env w) (Some p) (rq_body rq)) RpWebhook s
      | MpesaCallback \<Rightarrow> on_escrows (Webhook.handleMpesaWebhook (bw_num w) (bw_gateway w) (bw_env w) (rq_body rq)) RpWebhook s
      | ProviderConfig p \<Rightarrow> (s, RpWebhook (getWebhookConfig (bw_baseUrl w) (Some p)))
      | _ \<Rightarrow> (s, RpOutcome Silent))"

text \<open>
  The licence guard in front of \<^verbatim>\<open>/initiate\<close> only adds members to the body, which no later handler reads, and always
  passes on. A refused origin is an error, which express answers with 500 and a page that is left out here.
\<close>

definition backend_request :: "backend_world \<Rightarrow> request \<Rightarrow> backend_route \<Rightarrow> backend \<Rightarrow> backend \<times> backend_reply" where
  "backend_request w rq route s =
     (if \<not> cors_allows (rq_header rq ''origin'') then (s, RpOutcome (Answer 500 JUndefined))
      else case route of
             Health \<Rightarrow> (s, RpOutcome (Answer 200 (JStr ''OK'')))
           | HandshakeCreate \<Rightarrow> payment_routes w rq route s
           | HandshakeVerify \<Rightarrow> payment_routes w rq route s
           | RailVerify r \<Rightarrow> payment_routes w rq route s
           | PaymentInitiate \<Rightarrow> payment_routes w rq route s
           | PaymentCallback \<Rightarrow> payment_routes w rq route s
           | ProviderWebhook p \<Rightarrow> webhook_routes w rq route s
           | MpesaCallback \<Rightarrow> webhook_routes w rq route s
           | ProviderConfig p \<Rightarrow> webhook_routes w rq route s
           | _ \<Rightarrow> escrow_routes w rq route s)"

text \<open>The server as a step relation: the HMAC and the environment stay, everything else differs from request to request.\<close>

inductive server_step :: "hmacfn \<Rightarrow> environment \<Rightarrow> backend \<Rightarrow> backend \<Rightarrow> bool" for hm pe where
  served: "bw_hmac w = hm \<Longrightarrow> bw_pe w = pe \<Longrightarrow> js_get (be_escrows s) (''escrow_'' @ bw_uuid w) = None \<Longrightarrow>
     server_step hm pe s (fst (backend_request w rq route s))"

definition fresh_backend :: "payout_db \<Rightarrow> payment_state \<Rightarrow> backend" where
  "fresh_backend db ps = \<lparr>be_escrows = [], be_providers = [], be_handshakes = db, be_premium = [], be_payments = ps\<rparr>"

section \<open>What a request does to the escrows\<close>

lemma payment_routes_escrows [simp]: "be_escrows (fst (payment_routes w rq route s)) = be_escrows s"
  by (auto simp: payment_routes_def with_tenant_def Let_def split: backend_route.split sum.split prod.split)

lemma on_escrows_store [simp]:
  "be_escrows (fst (on_escrows f reply s)) = fst (snd (f (be_providers s) (be_escrows s)))"
  by (simp add: on_escrows_def split: prod.split)

lemma with_provider_store:
  "fst (snd (with_provider num gw e i run cache st)) = st
   \<or> (\<exists>pv j calls r. run pv j st = (fst (snd (with_provider num gw e i run cache st)), calls, r))"
  by (auto simp: with_provider_def Let_def split: option.split prod.split sum.split)

definition escrow_effect :: "backend_world \<Rightarrow> escrow_store \<Rightarrow> escrow_store \<Rightarrow> bool" where
  "escrow_effect w st st' \<longleftrightarrow> st' = st \<or> escrow_step (bw_hmac w) (master_key (bw_pe w)) st st'"

lemma escrow_effect_same [simp]: "escrow_effect w st st"
  by (simp add: escrow_effect_def)

lemma create_route_effect:
  assumes "js_get st (''escrow_'' @ bw_uuid w) = None"
  shows "escrow_effect w st (fst (create_route num e (bw_uuid w) t body st))"
  using step_create [OF assms]
  by (auto simp: create_route_def escrow_effect_def Let_def split: prod.splits intro!: step_create [OF assms])

lemma provider_routes_effect:
  "escrow_effect w st (fst (snd (lock_route (bw_hmac w) (master_key (bw_pe w)) num gw e e' i cache st)))"
  "escrow_effect w st (fst (snd (release_route num gw e i cache st)))"
  "escrow_effect w st (fst (snd (refund_route num gw e i body cache st)))"
  using with_provider_store [of num gw e i "lockEscrow (bw_hmac w) (master_key (bw_pe w)) e e'" cache st]
    with_provider_store [of num gw e i "releaseEscrow e" cache st]
    with_provider_store [of num gw e i "\<lambda>pv j. refundEscrow e pv j
        (if truthy (member body ''reason'') then member body ''reason'' else JStr ''Escrow refund requested'')" cache st]
  by (auto simp: lock_route_def release_route_def refund_route_def escrow_effect_def Let_def
      intro: step_lock step_release step_refund)

lemma dispute_route_effect: "escrow_effect w st (fst (dispute_route e i body st))"
  by (auto simp: dispute_route_def escrow_effect_def Let_def split: prod.splits sum.splits intro: step_dispute)

lemma webhook_effect:
  "escrow_effect w st (fst (snd (handleWebhook num gw e p body cache st)))"
  by (auto simp: handleWebhook_def escrow_effect_def Let_def split: option.splits prod.splits sum.splits if_splits intro: step_release)

lemmas effects = create_route_effect provider_routes_effect dispute_route_effect webhook_effect

lemma escrow_routes_effect:
  assumes "js_get (be_escrows s) (''escrow_'' @ bw_uuid w) = None"
  shows "escrow_effect w (be_escrows s) (be_escrows (fst (escrow_routes w rq route s)))"
  using effects assms
  by (cases route) (simp_all add: escrow_routes_def with_tenant_def with_integrity_def Let_def split: sum.split option.split prod.split)

lemma webhook_routes_effect: "escrow_effect w (be_escrows s) (be_escrows (fst (webhook_routes w rq route s)))"
  by (cases route) (simp_all add: webhook_routes_def Webhook.handleMpesaWebhook_def webhook_effect)

lemma request_effect:
  assumes "js_get (be_escrows s) (''escrow_'' @ bw_uuid w) = None"
  shows "escrow_effect w (be_escrows s) (be_escrows (fst (backend_request w rq route s)))"
  using escrow_routes_effect [OF assms] webhook_routes_effect
  by (cases route) (simp_all add: backend_request_def)


lemma server_run_refines:
  assumes "(server_step hm pe)\<^sup>*\<^sup>* s s'"
  shows "(escrow_step hm (master_key pe))\<^sup>*\<^sup>* (be_escrows s) (be_escrows s')"
  using assms
proof (induction rule: rtranclp_induct)
  case (step s1 s2)
  from step.hyps(2) have "be_escrows s2 = be_escrows s1 \<or> escrow_step hm (master_key pe) (be_escrows s1) (be_escrows s2)"
    using request_effect by (cases rule: server_step.cases) (auto simp: escrow_effect_def)
  then show ?case using step.IH by (auto intro: rtranclp.rtrancl_into_rtrancl)
qed simp

text \<open>
  However the server is used, from its start on, each stored escrow has the fields its status calls for, and whatever it
  had been once the terms it was created with are the same later.
\<close>

theorem server_keeps_escrows:
  assumes "(server_step hm pe)\<^sup>*\<^sup>* (fresh_backend db ps) s" "(server_step hm pe)\<^sup>*\<^sup>* s s'" "js_get (be_escrows s) i = Some x"
  shows "doc_ok hm (master_key pe) i x
     \<and> (\<exists>y. js_get (be_escrows s') i = Some y \<and> doc_ok hm (master_key pe) i y \<and> same_terms x y \<and> allowed_move\<^sup>*\<^sup>* (es_status x) (es_status y))"
proof -
  have st: "(escrow_step hm (master_key pe))\<^sup>*\<^sup>* [] (be_escrows s)"
    using server_run_refines [OF assms(1)] by (simp add: fresh_backend_def)
  then have ok: "store_ok hm (master_key pe) (be_escrows s)" by (rule store_ok_steps) (rule store_ok_empty)
  note run = server_run_refines [OF assms(2)]
  from allowed_chain [OF run ok assms(3)] store_ok_steps [OF run ok] show ?thesis
    using store_okD [OF ok assms(3)] store_okD by blast
qed

section \<open>Who may change an escrow\<close>

text \<open>The operation a guarded route is signed for, and the escrow in its path.\<close>

fun operation_of :: "backend_route \<Rightarrow> (string \<times> string) option" where
  "operation_of (EscrowLock i) = Some (i, ''/:escrowId/lock'')"
| "operation_of (EscrowRelease i) = Some (i, ''/:escrowId/release'')"
| "operation_of (EscrowRefund i) = Some (i, ''/:escrowId/refund'')"
| "operation_of (EscrowDispute i) = Some (i, ''/:escrowId/dispute'')"
| "operation_of _ = None"

definition integrity_passes :: "backend_world \<Rightarrow> request \<Rightarrow> string \<times> string \<Rightarrow> bool" where
  "integrity_passes w rq = (\<lambda>(i, operation).
     validateRequestIntegrityHash (bw_hmac w) (bw_pe w) (rq_body rq) (rq_header rq) (Some i) operation = None)"

fun is_webhook :: "backend_route \<Rightarrow> bool" where
  "is_webhook (ProviderWebhook p) = True"
| "is_webhook MpesaCallback = True"
| "is_webhook _ = False"

lemma with_tenant_changes:
  "fst (with_tenant w rq k s) \<noteq> s \<Longrightarrow> \<exists>t. tenantAuth (bw_hash w) rq (bw_tenants w) = Inr t \<and> fst (with_tenant w rq k s) = fst (k t s)"
  by (auto simp: with_tenant_def split: sum.splits)

lemma with_integrity_changes:
  "fst (with_integrity w rq i operation k s) \<noteq> s \<Longrightarrow> integrity_passes w rq (i, operation)"
  by (auto simp: with_integrity_def integrity_passes_def split: option.splits)

text \<open>
  C7. An escrow changes only at a request from an allowed origin, and then either through a webhook or with the key of some
  tenant; everything but creation must moreover carry the integrity hash of its own escrow and operation.
\<close>

theorem escrow_changes_authorised:
  assumes "backend_request w rq route s = (s', reply)" "be_escrows s' \<noteq> be_escrows s"
  shows "cors_allows (rq_header rq ''origin'')
     \<and> (is_webhook route
        \<or> (\<exists>t. tenantAuth (bw_hash w) rq (bw_tenants w) = Inr t)
          \<and> (route = EscrowCreate \<or> (\<exists>op. operation_of route = Some op \<and> integrity_passes w rq op)))"
proof -
  have changed: "fst (backend_request w rq route s) \<noteq> s" "be_escrows (fst (backend_request w rq route s)) \<noteq> be_escrows s"
    using assms by auto
  then have cors: "cors_allows (rq_header rq ''origin'')"
    by (cases "cors_allows (rq_header rq ''origin'')") (simp_all add: backend_request_def)
  have guarded: "(\<exists>t. tenantAuth (bw_hash w) rq (bw_tenants w) = Inr t) \<and> integrity_passes w rq (i, operation)"
    if "fst (with_tenant w rq (\<lambda>t. with_integrity w rq i operation f) s) \<noteq> s" for i operation f
    using with_tenant_changes [OF that] that with_integrity_changes by metis
  show ?thesis
  proof (cases route)
    case EscrowCreate
    then have "fst (with_tenant w rq (\<lambda>t. on_escrows (\<lambda>cache st. (cache, create_route (bw_num w) (bw_env w) (bw_uuid w) (JStr (tn_id t)) (rq_body rq) st)) RpEscrow) s) \<noteq> s"
      using changed(1) cors by (simp add: backend_request_def escrow_routes_def Let_def)
    from with_tenant_changes [OF this] EscrowCreate cors show ?thesis by auto
  next
    case (EscrowLock i)
    then show ?thesis using changed(1) cors guarded by (simp add: backend_request_def escrow_routes_def Let_def)
  next
    case (EscrowRelease i)
    then show ?thesis using changed(1) cors guarded by (simp add: backend_request_def escrow_routes_def Let_def)
  next
    case (EscrowRefund i)
    then show ?thesis using changed(1) cors guarded by (simp add: backend_request_def escrow_routes_def Let_def)
  next
    case (EscrowDispute i)
    then show ?thesis using changed(1) cors guarded by (simp add: backend_request_def escrow_routes_def Let_def)
  qed (use changed cors in \<open>simp_all add: backend_request_def escrow_routes_def webhook_routes_def Let_def\<close>)
qed

text \<open>
  The key only has to be some tenant's: a request that locks, releases, refunds or disputes an escrow does the same and is
  answered the same with the key of any other tenant, whoever the escrow belongs to.
\<close>

theorem any_tenant_moves_any_escrow:
  assumes "operation_of route = Some op"
    and "tenantAuth (bw_hash w) rq (bw_tenants w) = Inr t"
    and "tenantAuth (bw_hash w) (rq\<lparr>rq_header := (rq_header rq)(''x-api-key'' := Some key)\<rparr>) (bw_tenants w) = Inr t'"
  shows "backend_request w (rq\<lparr>rq_header := (rq_header rq)(''x-api-key'' := Some key)\<rparr>) route s = backend_request w rq route s"
proof -
  let ?rq = "rq\<lparr>rq_header := (rq_header rq)(''x-api-key'' := Some key)\<rparr>"
  have i: "with_integrity w ?rq i operation k = with_integrity w rq i operation k" for i operation k
    by (auto simp: fun_eq_iff with_integrity_def validateRequestIntegrityHash_def Let_def split: option.split)
  show ?thesis using assms
    by (cases route) (simp_all add: backend_request_def escrow_routes_def with_tenant_def i Let_def)
qed

section \<open>Concrete instances\<close>

definition sample_world :: backend_world where
  "sample_world =
     \<lparr>bw_hash = (\<lambda>k. ''h'' @ k), bw_hmac = sample_hmac, bw_pe = sample_environment, bw_num = (\<lambda>s. None), bw_rat = (\<lambda>s. None),
      bw_gateway = sample_gateway, bw_env = sample_env 1, bw_after = sample_env 2, bw_uuid = ''1'', bw_otp = 0,
      bw_tenants = [sample_tenant, sample_tenant\<lparr>tn_id := ''t2'', tn_hashedApiKey := ''hk2''\<rparr>],
      bw_rail = sample_rail_world, bw_baseUrl = []\<rparr>"

definition sample_dispute_request :: request where
  "sample_dispute_request =
     \<lparr>rq_header = (\<lambda>k. if k = ''x-api-key'' then Some ''k'' else if k = ''x-integrity-timestamp'' then Some ''1'' else None),
      rq_body = JObj [(''integrityHash'', JStr (replicate 64 CHR ''a'')), (''reason'', JStr ''r'')], rq_ip = None\<rparr>"

definition sample_create_request :: request where
  "sample_create_request = sample_dispute_request\<lparr>rq_body :=
     JObj [(''buyerId'', JStr ''b''), (''sellerId'', JStr ''s''), (''amount'', JNum 5), (''currency'', JStr ''KES''), (''providerType'', JStr ''STRIPE'')]\<rparr>"

definition sample_backend :: backend where
  "sample_backend = fst (backend_request sample_world sample_create_request EscrowCreate (fresh_backend [] no_payments))"

definition disputed_backend :: backend where
  "disputed_backend = fst (backend_request (sample_world\<lparr>bw_uuid := ''2''\<rparr>) sample_dispute_request (EscrowDispute ''escrow_1'') sample_backend)"

lemma sample_backend_status:
  "map_option es_status (js_get (be_escrows sample_backend) ''escrow_1'') = Some PENDING"
  "map_option es_status (js_get (be_escrows disputed_backend) ''escrow_1'') = Some DISPUTED"
  "js_get (be_escrows sample_backend) ''escrow_2'' = None"
  by code_simp+

lemma sample_fresh_id: "js_get (be_escrows (fresh_backend [] no_payments)) (''escrow_'' @ bw_uuid sample_world) = None"
  by (simp add: fresh_backend_def)

lemma sample_create_step: "server_step sample_hmac sample_environment (fresh_backend [] no_payments) sample_backend"
  unfolding sample_backend_def by (rule served) (simp_all add: sample_world_def fresh_backend_def)

lemma sample_dispute_step: "server_step sample_hmac sample_environment sample_backend disputed_backend"
  unfolding disputed_backend_def by (rule served) (simp_all add: sample_world_def sample_backend_status(3))


theorem server_keeps_escrows_witness:
  "\<exists>x y. js_get (be_escrows sample_backend) ''escrow_1'' = Some x \<and> js_get (be_escrows disputed_backend) ''escrow_1'' = Some y
     \<and> same_terms x y \<and> allowed_move\<^sup>*\<^sup>* PENDING DISPUTED"
proof -
  obtain x where x: "js_get (be_escrows sample_backend) ''escrow_1'' = Some x" "es_status x = PENDING"
    using sample_backend_status(1) by auto
  obtain y where "js_get (be_escrows disputed_backend) ''escrow_1'' = Some y" "es_status y = DISPUTED"
    using sample_backend_status(2) by auto
  with server_keeps_escrows [OF r_into_rtranclp r_into_rtranclp x(1), OF sample_create_step sample_dispute_step] x show ?thesis by auto
qed

theorem escrow_changes_authorised_witness:
  "integrity_passes sample_world sample_dispute_request (''escrow_1'', ''/:escrowId/dispute'')
     \<and> (\<exists>t. tenantAuth (bw_hash sample_world) sample_dispute_request (bw_tenants sample_world) = Inr t)"
proof -
  let ?w = "sample_world\<lparr>bw_uuid := ''2''\<rparr>"
  have run: "backend_request ?w sample_dispute_request (EscrowDispute ''escrow_1'') sample_backend
      = (disputed_backend, snd (backend_request ?w sample_dispute_request (EscrowDispute ''escrow_1'') sample_backend))"
    by (simp add: disputed_backend_def)
  have "be_escrows disputed_backend \<noteq> be_escrows sample_backend"
    using sample_backend_status(1,2) by auto
  from escrow_changes_authorised [OF run this] show ?thesis by (simp add: integrity_passes_def)
qed

theorem any_tenant_moves_any_escrow_witness:
  "backend_request sample_world (sample_dispute_request\<lparr>rq_header := (rq_header sample_dispute_request)(''x-api-key'' := Some ''k2'')\<rparr>)
     (EscrowDispute ''escrow_1'') sample_backend
   = backend_request sample_world sample_dispute_request (EscrowDispute ''escrow_1'') sample_backend"
proof -
  have "tenantAuth (bw_hash sample_world) sample_dispute_request (bw_tenants sample_world) = Inr sample_tenant"
    "tenantAuth (bw_hash sample_world) (sample_dispute_request\<lparr>rq_header := (rq_header sample_dispute_request)(''x-api-key'' := Some ''k2'')\<rparr>)
       (bw_tenants sample_world) = Inr (sample_tenant\<lparr>tn_id := ''t2'', tn_hashedApiKey := ''hk2''\<rparr>)"
    by (simp_all add: tenantAuth_def sample_world_def sample_dispute_request_def findUniqueTenant_def sample_tenant_def)
  from any_tenant_moves_any_escrow [OF _ this] show ?thesis by simp
qed

end
