(* ===== verification/MpesaAdapter.thy ===== *)
theory MpesaAdapter
  imports Mpesa
begin

text \<open>
  The gateway's own payment adapter, \<^verbatim>\<open>adapters/MpesaAdapter.ts\<close>: the token cache, STK push, status
  query and the two refund rails, over a network that answers each request. Environment, clock, JSON
  parsing and number parsing are parameters; the requests sent are kept in order.
\<close>

section \<open>Requests\<close>

record http_request =
  hr_url :: string
  hr_method :: string
  hr_payload :: string
  hr_authorization :: string

datatype http_reply = Refused string | Reply int string

record adapter_state =
  ad_token :: "(jsval \<times> int) option"
  ad_sent :: "http_request list"

text \<open>The network and the surroundings of one call.\<close>

record wire =
  w_net :: "http_request \<Rightarrow> http_reply"
  w_parse :: "string \<Rightarrow> jsval option"
  w_num :: "string \<Rightarrow> int option"
  w_pe :: environment
  w_env :: env

definition env_json :: "wire \<Rightarrow> string \<Rightarrow> jsval" where
  "env_json w k = (case w_pe w k of None \<Rightarrow> JUndefined | Some v \<Rightarrow> JStr v)"

definition env_set :: "wire \<Rightarrow> string \<Rightarrow> bool" where
  "env_set w k \<longleftrightarrow> truthy (env_json w k)"

definition getBaseUrl :: "wire \<Rightarrow> string" where
  "getBaseUrl w = (if w_pe w ''MPESA_ENVIRONMENT'' = Some ''production'' then ''https://api.safaricom.co.ke''
                   else ''https://sandbox.safaricom.co.ke'')"

definition getOauthUrl :: "wire \<Rightarrow> string" where
  "getOauthUrl w = getBaseUrl w @ ''/oauth/v1/generate?grant_type=client_credentials''"

definition getStkPushUrl :: "wire \<Rightarrow> string" where
  "getStkPushUrl w = getBaseUrl w @ ''/mpesa/stkpush/v1/processrequest''"

definition getStkStatusUrl :: "wire \<Rightarrow> string" where
  "getStkStatusUrl w = getBaseUrl w @ ''/mpesa/stkpushquery/v1/query''"

definition getB2cUrl :: "wire \<Rightarrow> string" where
  "getB2cUrl w = getBaseUrl w @ ''/mpesa/b2c/v1/paymentrequest''"

definition getReversalUrl :: "wire \<Rightarrow> string" where
  "getReversalUrl w = getBaseUrl w @ ''/mpesa/reversal/v1/request''"

record utc_date =
  ud_year :: nat
  ud_month :: nat
  ud_day :: nat
  ud_hours :: nat
  ud_minutes :: nat
  ud_seconds :: nat

definition padDate :: "nat \<Rightarrow> string" where
  "padDate v = replicate (2 - length (show_nat v)) CHR ''0'' @ show_nat v"

definition buildMpesaTimestamp :: "utc_date \<Rightarrow> string" where
  "buildMpesaTimestamp d =
     show_nat (ud_year d) @ padDate (ud_month d) @ padDate (ud_day d) @ padDate (ud_hours d) @ padDate (ud_minutes d)
     @ padDate (ud_seconds d)"

text \<open>Base 64 of the bytes of an ASCII text.\<close>

definition base64_char :: "nat \<Rightarrow> char" where
  "base64_char n =
     (if n < 26 then char_of (65 + n) else if n < 52 then char_of (71 + n) else if n < 62 then char_of (n - 4)
      else if n = 62 then CHR ''+'' else CHR ''/'')"

fun base64 :: "nat list \<Rightarrow> string" where
  "base64 [] = []"
| "base64 [a] = [base64_char (a div 4), base64_char (a mod 4 * 16), CHR ''='', CHR ''='']"
| "base64 [a, b] = [base64_char (a div 4), base64_char (a mod 4 * 16 + b div 16), base64_char (b mod 16 * 4), CHR ''='']"
| "base64 (a # b # c # r) =
     base64_char (a div 4) # base64_char (a mod 4 * 16 + b div 16) # base64_char (b mod 16 * 4 + c div 64) # base64_char (c mod 64)
     # base64 r"

definition text_base64 :: "string \<Rightarrow> string" where
  "text_base64 s = base64 (map of_char s)"

definition buildPassword :: "string \<Rightarrow> string \<Rightarrow> string \<Rightarrow> string" where
  "buildPassword shortcode passkey ts = text_base64 (shortcode @ passkey @ ts)"

definition buildBasicAuthHeader :: "string \<Rightarrow> string \<Rightarrow> string" where
  "buildBasicAuthHeader key secret = ''Basic '' @ text_base64 (key @ '':'' @ secret)"

text \<open>One request: a 2xx answer is its parsed body, an empty body an empty object.\<close>

definition performJsonRequest :: "wire \<Rightarrow> http_request \<Rightarrow> adapter_state \<Rightarrow> adapter_state \<times> jsval js_result" where
  "performJsonRequest w rq st =
     (st\<lparr>ad_sent := ad_sent st @ [rq]\<rparr>,
      (case w_net w rq of
         Refused msg \<Rightarrow> Inl (JsError msg)
       | Reply code raw \<Rightarrow>
           (case (if raw = [] then Some (JObj []) else w_parse w raw) of
              None \<Rightarrow> Inl (JsError ''Unexpected token in JSON'')
            | Some v \<Rightarrow> if 200 \<le> code \<and> code < 300 then Inr v
                        else Inl (JsError (''MPESA_REQUEST_FAILED '' @ show_int code @ '': '' @ raw)))))"

section \<open>The token\<close>

text \<open>\<^verbatim>\<open>Number(v) || 3600\<close>; a body that is null has no members to read.\<close>

definition token_life :: "wire \<Rightarrow> jsval \<Rightarrow> int" where
  "token_life w v = (case js_to_number (w_num w) v of None \<Rightarrow> 3600 | Some n \<Rightarrow> if n = 0 then 3600 else n)"

definition requestBearerToken :: "wire \<Rightarrow> adapter_state \<Rightarrow> adapter_state \<times> jsval js_result" where
  "requestBearerToken w st =
     (if \<not> env_set w ''MPESA_CONSUMER_KEY'' \<or> \<not> env_set w ''MPESA_CONSUMER_SECRET''
      then (st, Inl (JsError ''MPESA_CREDENTIALS_MISSING''))
      else if (case ad_token st of None \<Rightarrow> False | Some c \<Rightarrow> nowMs (w_env w) + 60000 < snd c)
      then (st, Inr (fst (the (ad_token st))))
      else
        (case performJsonRequest w
                \<lparr>hr_url = getOauthUrl w, hr_method = ''GET'', hr_payload = [],
                 hr_authorization = buildBasicAuthHeader (the_str (env_json w ''MPESA_CONSUMER_KEY''))
                                      (the_str (env_json w ''MPESA_CONSUMER_SECRET''))\<rparr> st of
           (st1, Inl err) \<Rightarrow> (st1, Inl err)
         | (st1, Inr v) \<Rightarrow>
             if v = JNull then (st1, Inl (TypeError ''Cannot read properties of null''))
             else (st1\<lparr>ad_token := Some (member v ''access_token'', nowMs (w_env w) + token_life w (member v ''expires_in'') * 1000)\<rparr>,
                   Inr (member v ''access_token''))))"

definition bearer :: "jsval \<Rightarrow> string" where
  "bearer token = ''Bearer '' @ js_String token"

definition authorized_post :: "wire \<Rightarrow> string \<Rightarrow> jsval \<Rightarrow> adapter_state \<Rightarrow> adapter_state \<times> jsval js_result" where
  "authorized_post w url payload st =
     (case requestBearerToken w st of
        (st1, Inl err) \<Rightarrow> (st1, Inl err)
      | (st1, Inr token) \<Rightarrow>
          performJsonRequest w \<lparr>hr_url = url, hr_method = ''POST'', hr_payload = json_stringify payload, hr_authorization = bearer token\<rparr> st1)"

section \<open>Payment\<close>

text \<open>\<^verbatim>\<open>String(a ?? b ?? ... ?? d)\<close>.\<close>

definition text_of :: "jsval list \<Rightarrow> string \<Rightarrow> string" where
  "text_of vs d = js_String (first_non_nullish (vs @ [JStr d]))"

definition shortcode_of :: "wire \<Rightarrow> jsval \<Rightarrow> string" where
  "shortcode_of w metadata = text_of [member metadata ''businessShortCode'', env_json w ''MPESA_SHORTCODE''] []"

definition buildStkPushPayload :: "wire \<Rightarrow> jsval \<Rightarrow> int \<Rightarrow> string \<Rightarrow> string \<Rightarrow> jsval" where
  "buildStkPushPayload w md amount ts password =
     (let businessShortCode = shortcode_of w md in JObj
       [(''BusinessShortCode'', JStr businessShortCode), (''Password'', JStr password), (''Timestamp'', JStr ts),
        (''TransactionType'', nullish_or (member md ''transactionType'') (JStr ''CustomerPayBillOnline'')),
        (''Amount'', JNum amount),
        (''PartyA'', JStr (text_of [member md ''partyA'', member md ''phoneNumber''] [])),
        (''PartyB'', JStr (text_of [member md ''partyB''] businessShortCode)),
        (''PhoneNumber'', JStr (text_of [member md ''phoneNumber'', member md ''partyA''] [])),
        (''CallBackURL'', JStr (text_of [member md ''callbackUrl'', env_json w ''MPESA_CALLBACK_URL''] [])),
        (''AccountReference'', JStr (text_of [member md ''accountReference'']
           (''ESCROW_'' @ js_String (nullish_or (member md ''escrowId'') (JStr ''UNKNOWN''))))),
        (''TransactionDesc'', JStr (text_of [member md ''transactionDesc''] ''Univer-Escrow collection''))])"

definition getStkQueryPayload :: "wire \<Rightarrow> string \<Rightarrow> jsval \<Rightarrow> string \<Rightarrow> string \<Rightarrow> jsval" where
  "getStkQueryPayload w tid md ts password = JObj
     [(''BusinessShortCode'', JStr (shortcode_of w md)), (''Password'', JStr password), (''Timestamp'', JStr ts),
      (''CheckoutRequestID'', JStr tid), (''TransactionType'', JStr ''CustomerPayBillOnline''),
      (''PartyA'', JStr (text_of [member md ''partyA'', member md ''phoneNumber''] [])),
      (''IdentifierType'', nullish_or (member md ''identifierType'') (JStr ''4'')),
      (''ResultURL'', JStr (text_of [member md ''statusCallbackUrl'', env_json w ''MPESA_STATUS_CALLBACK_URL''] []))]"

datatype payment_result = Failed string | PendingPayment string jsval

definition error_text :: "js_error \<Rightarrow> string" where
  "error_text err = (case err of TypeError m \<Rightarrow> m | RangeError m \<Rightarrow> m | JsError m \<Rightarrow> m)"

definition checkout_id :: "env \<Rightarrow> jsval \<Rightarrow> string" where
  "checkout_id e v =
     text_of [member v ''CheckoutRequestID'', member v ''checkoutRequestID''] (''mpesa_'' @ show_int (nowMs e))"

definition initializePayment ::
  "wire \<Rightarrow> utc_date \<Rightarrow> int \<Rightarrow> string \<Rightarrow> jsval \<Rightarrow> adapter_state \<Rightarrow> adapter_state \<times> payment_result" where
  "initializePayment w date amount currency md st =
     (if currency \<noteq> ''KES'' then (st, Failed ''MPESA_ONLY_SUPPORTS_KES'')
      else
        let shortcode = shortcode_of w md; passkey = text_of [member md ''passkey'', env_json w ''MPESA_PASSKEY''] [];
            phone = text_of [member md ''phoneNumber'', member md ''partyA''] [];
            callback = text_of [member md ''callbackUrl'', env_json w ''MPESA_CALLBACK_URL''] []
        in if shortcode = [] \<or> passkey = [] \<or> phone = [] \<or> callback = []
           then (st, Failed ''MPESA_INITIALIZATION_MISSING_CONFIGURATION'')
           else
             let ts = buildMpesaTimestamp date;
                 payload = buildStkPushPayload w md amount ts (buildPassword shortcode passkey ts)
             in (case authorized_post w (getStkPushUrl w) payload st of
                   (st1, Inl err) \<Rightarrow> (st1, Failed (error_text err))
                 | (st1, Inr v) \<Rightarrow>
                     if v = JNull then (st1, Failed ''Cannot read properties of null'')
                     else (st1, PendingPayment (checkout_id (w_env w) v) v)))"

definition verifyTransaction :: "wire \<Rightarrow> utc_date \<Rightarrow> string \<Rightarrow> adapter_state \<Rightarrow> adapter_state \<times> bool" where
  "verifyTransaction w date tid st =
     (let ts = buildMpesaTimestamp date; shortcode = text_of [env_json w ''MPESA_SHORTCODE''] [];
          passkey = text_of [env_json w ''MPESA_PASSKEY''] []
      in if tid = [] \<or> shortcode = [] \<or> passkey = [] then (st, False)
         else (case authorized_post w (getStkStatusUrl w)
                      (getStkQueryPayload w tid (JObj []) ts (buildPassword shortcode passkey ts)) st of
                 (st1, Inl err) \<Rightarrow> (st1, False)
               | (st1, Inr v) \<Rightarrow> (st1, v \<noteq> JNull \<and> js_String (member v ''ResultCode'') = ''0'')))"

section \<open>Refunds\<close>

definition b2c_payload :: "wire \<Rightarrow> string \<Rightarrow> int \<Rightarrow> jsval" where
  "b2c_payload w tid amount = JObj
     [(''Initiator'', env_json w ''MPESA_B2C_INITIATOR_NAME''), (''SecurityCredential'', env_json w ''MPESA_B2C_SECURITY_CREDENTIAL''),
      (''CommandID'', nullish_or (env_json w ''MPESA_B2C_COMMAND_ID'') (JStr ''BusinessPayment'')), (''Amount'', JNum amount),
      (''PartyA'', env_json w ''MPESA_B2C_SHORTCODE''), (''PartyB'', env_json w ''MPESA_REFUND_PARTY_B''),
      (''Remarks'', nullish_or (env_json w ''MPESA_B2C_REMARKS'') (JStr (''Refund for '' @ tid))),
      (''QueueTimeOutURL'', env_json w ''MPESA_B2C_QUEUE_TIMEOUT_URL''), (''ResultURL'', env_json w ''MPESA_B2C_RESULT_URL''),
      (''Occasion'', nullish_or (env_json w ''MPESA_B2C_OCCASION'') (JStr ''REFUND''))]"

definition b2c_settings :: "string list" where
  "b2c_settings = [''MPESA_B2C_INITIATOR_NAME'', ''MPESA_B2C_SECURITY_CREDENTIAL'', ''MPESA_B2C_SHORTCODE'', ''MPESA_REFUND_PARTY_B'',
     ''MPESA_B2C_QUEUE_TIMEOUT_URL'', ''MPESA_B2C_RESULT_URL'']"

definition executeB2cRefund :: "wire \<Rightarrow> string \<Rightarrow> int \<Rightarrow> adapter_state \<Rightarrow> adapter_state \<times> unit js_result" where
  "executeB2cRefund w tid amount st =
     (if \<not> list_all (env_set w) b2c_settings then (st, Inl (JsError ''MPESA_B2C_CONFIGURATION_INCOMPLETE''))
      else case authorized_post w (getB2cUrl w) (b2c_payload w tid amount) st of
             (st1, Inl err) \<Rightarrow> (st1, Inl err)
           | (st1, Inr v) \<Rightarrow> (st1, Inr ()))"

definition reversal_payload :: "wire \<Rightarrow> string \<Rightarrow> int \<Rightarrow> jsval" where
  "reversal_payload w tid amount = JObj
     [(''Initiator'', env_json w ''MPESA_REVERSAL_INITIATOR_NAME''),
      (''SecurityCredential'', env_json w ''MPESA_REVERSAL_SECURITY_CREDENTIAL''), (''CommandID'', JStr ''TransactionReversal''),
      (''TransactionID'', JStr tid), (''Amount'', JNum amount),
      (''ReceiverParty'', env_json w ''MPESA_REVERSAL_RECEIVER_PARTY''), (''RecieverIdentifierType'', JStr ''1''),
      (''ResultURL'', env_json w ''MPESA_REVERSAL_RESULT_URL''), (''QueueTimeOutURL'', env_json w ''MPESA_REVERSAL_QUEUE_TIMEOUT_URL''),
      (''Remarks'', nullish_or (env_json w ''MPESA_REVERSAL_REMARKS'') (JStr ''Escrow refund reversal'')),
      (''Occasion'', nullish_or (env_json w ''MPESA_REVERSAL_OCCASION'') (JStr ''REFUND''))]"

definition reversal_settings :: "string list" where
  "reversal_settings = [''MPESA_REVERSAL_INITIATOR_NAME'', ''MPESA_REVERSAL_SECURITY_CREDENTIAL'', ''MPESA_REVERSAL_RECEIVER_PARTY'',
     ''MPESA_REVERSAL_RESULT_URL'', ''MPESA_REVERSAL_QUEUE_TIMEOUT_URL'']"

definition executeReversal :: "wire \<Rightarrow> string \<Rightarrow> int \<Rightarrow> adapter_state \<Rightarrow> adapter_state \<times> unit js_result" where
  "executeReversal w tid amount st =
     (if \<not> list_all (env_set w) reversal_settings then (st, Inl (JsError ''MPESA_REVERSAL_CONFIGURATION_INCOMPLETE''))
      else case authorized_post w (getReversalUrl w) (reversal_payload w tid amount) st of
             (st1, Inl err) \<Rightarrow> (st1, Inl err)
           | (st1, Inr v) \<Rightarrow> (st1, Inr ()))"

definition initiateRefund :: "wire \<Rightarrow> string \<Rightarrow> int option \<Rightarrow> adapter_state \<Rightarrow> adapter_state \<times> bool" where
  "initiateRefund w tid amount st =
     (let refundAmount = (case amount of None \<Rightarrow> 0 | Some a \<Rightarrow> a)
      in if tid = [] \<or> refundAmount \<le> 0 then (st, False)
         else
           let (st1, r) = (if env_set w ''MPESA_B2C_INITIATOR_NAME'' \<and> env_set w ''MPESA_B2C_SECURITY_CREDENTIAL''
                           then executeB2cRefund w tid refundAmount st
                           else executeReversal w tid refundAmount st)
           in (st1, r = Inr ()))"


section \<open>What a call sends\<close>

definition accepted :: "wire \<Rightarrow> http_request \<Rightarrow> jsval \<Rightarrow> bool" where
  "accepted w rq v \<longleftrightarrow>
     (\<exists>code raw. w_net w rq = Reply code raw \<and> 200 \<le> code \<and> code < 300
        \<and> (if raw = [] then Some (JObj []) else w_parse w raw) = Some v)"

lemma accepted_unique: "accepted w rq u \<Longrightarrow> accepted w rq v \<Longrightarrow> u = v"
  by (auto simp: accepted_def)

lemma performJsonRequest_sent [simp]: "fst (performJsonRequest w rq st) = st\<lparr>ad_sent := ad_sent st @ [rq]\<rparr>"
  by (simp add: performJsonRequest_def)

lemma performJsonRequest_Inr [simp]: "snd (performJsonRequest w rq st) = Inr v \<longleftrightarrow> accepted w rq v"
  by (auto simp: performJsonRequest_def accepted_def split: http_reply.splits option.splits if_splits)

lemma performJsonRequest_run:
  "performJsonRequest w rq st = (st', Inr v) \<longleftrightarrow> st' = st\<lparr>ad_sent := ad_sent st @ [rq]\<rparr> \<and> accepted w rq v"
  by (metis performJsonRequest_Inr performJsonRequest_sent prod.collapse fst_conv snd_conv)

definition oauth_request :: "wire \<Rightarrow> http_request" where
  "oauth_request w =
     \<lparr>hr_url = getOauthUrl w, hr_method = ''GET'', hr_payload = [],
      hr_authorization = buildBasicAuthHeader (the_str (env_json w ''MPESA_CONSUMER_KEY'')) (the_str (env_json w ''MPESA_CONSUMER_SECRET''))\<rparr>"

definition cached_token :: "wire \<Rightarrow> adapter_state \<Rightarrow> jsval option" where
  "cached_token w st = (case ad_token st of None \<Rightarrow> None | Some c \<Rightarrow> if nowMs (w_env w) + 60000 < snd c then Some (fst c) else None)"

lemma bearer_token_run:
  "requestBearerToken w st = (st', Inr tok) \<longleftrightarrow>
     env_set w ''MPESA_CONSUMER_KEY'' \<and> env_set w ''MPESA_CONSUMER_SECRET'' \<and>
     (case cached_token w st of
        Some t \<Rightarrow> st' = st \<and> tok = t
      | None \<Rightarrow> \<exists>v. accepted w (oauth_request w) v \<and> v \<noteq> JNull \<and> tok = member v ''access_token''
          \<and> st' = st\<lparr>ad_sent := ad_sent st @ [oauth_request w],
                     ad_token := Some (tok, nowMs (w_env w) + token_life w (member v ''expires_in'') * 1000)\<rparr>)"
proof (cases "performJsonRequest w (oauth_request w) st")
  case (Pair st1 r)
  have st1: "st1 = st\<lparr>ad_sent := ad_sent st @ [oauth_request w]\<rparr>" "\<And>v. r = Inr v \<longleftrightarrow> accepted w (oauth_request w) v"
    using performJsonRequest_sent [of w "oauth_request w" st] performJsonRequest_Inr [of w "oauth_request w" st]
    unfolding Pair by simp_all
  show ?thesis
  proof (cases r)
    case (Inl err)
    then have "\<not> accepted w (oauth_request w) v" for v using st1(2) by (metis Inl_Inr_False)
    then show ?thesis using Pair Inl
      by (auto simp: requestBearerToken_def oauth_request_def [symmetric] cached_token_def split: option.splits)
  next
    case (Inr v)
    then have "accepted w (oauth_request w) v" using st1(2) by simp
    then have "accepted w (oauth_request w) u \<longleftrightarrow> u = v" for u using accepted_unique by blast
    then show ?thesis using Pair Inr st1(1)
      by (auto simp: requestBearerToken_def oauth_request_def [symmetric] cached_token_def split: option.splits)
  qed
qed

definition post_request :: "string \<Rightarrow> jsval \<Rightarrow> jsval \<Rightarrow> http_request" where
  "post_request url payload token =
     \<lparr>hr_url = url, hr_method = ''POST'', hr_payload = json_stringify payload, hr_authorization = bearer token\<rparr>"

lemma authorized_post_run:
  "authorized_post w url payload st = (st', Inr v) \<longleftrightarrow>
     (\<exists>st1 tok. requestBearerToken w st = (st1, Inr tok) \<and> accepted w (post_request url payload tok) v
        \<and> st' = st1\<lparr>ad_sent := ad_sent st1 @ [post_request url payload tok]\<rparr>)"
  by (auto simp: authorized_post_def post_request_def performJsonRequest_run split: prod.splits sum.splits)

lemma bearer_sends: "requestBearerToken w st = (st1, Inr tok) \<Longrightarrow> ad_sent st1 \<in> {ad_sent st, ad_sent st @ [oauth_request w]}"
  by (auto simp: bearer_token_run split: option.splits)

text \<open>
  A token that is used without asking for a new one has more than a minute of the life the server gave it
  left.
\<close>

theorem bearer_token_alive:
  assumes "requestBearerToken w st = (st1, Inr tok)" "ad_sent st1 \<noteq> ad_sent st"
    and "requestBearerToken w' st1 = (st2, Inr tok')" "ad_sent st2 = ad_sent st1"
  shows "\<exists>v. accepted w (oauth_request w) v \<and> tok' = member v ''access_token''
     \<and> nowMs (w_env w') + 60000 < nowMs (w_env w) + token_life w (member v ''expires_in'') * 1000"
proof -
  obtain v where v: "accepted w (oauth_request w) v" "tok = member v ''access_token''"
    "ad_token st1 = Some (tok, nowMs (w_env w) + token_life w (member v ''expires_in'') * 1000)"
    using assms(1,2) by (auto simp: bearer_token_run split: option.splits)
  moreover have "cached_token w' st1 = Some tok'"
    using assms(3,4) by (auto simp: bearer_token_run split: option.splits)
  ultimately show ?thesis by (auto simp: cached_token_def split: if_splits)
qed

definition push_configured :: "wire \<Rightarrow> jsval \<Rightarrow> bool" where
  "push_configured w md \<longleftrightarrow>
     shortcode_of w md \<noteq> [] \<and> text_of [member md ''passkey'', env_json w ''MPESA_PASSKEY''] [] \<noteq> []
     \<and> text_of [member md ''phoneNumber'', member md ''partyA''] [] \<noteq> []
     \<and> text_of [member md ''callbackUrl'', env_json w ''MPESA_CALLBACK_URL''] [] \<noteq> []"

definition push_payload :: "wire \<Rightarrow> utc_date \<Rightarrow> int \<Rightarrow> jsval \<Rightarrow> jsval" where
  "push_payload w date amount md =
     buildStkPushPayload w md amount (buildMpesaTimestamp date)
       (buildPassword (shortcode_of w md) (text_of [member md ''passkey'', env_json w ''MPESA_PASSKEY''] []) (buildMpesaTimestamp date))"

text \<open>
  A payment is pending exactly when it is in shillings, everything it needs is configured, a token is had and
  the push request, which carries its amount, is accepted; it never succeeds at once.
\<close>

theorem payment_pending_iff:
  "initializePayment w date amount currency md st = (st', PendingPayment i v) \<longleftrightarrow>
     currency = ''KES'' \<and> push_configured w md \<and> v \<noteq> JNull \<and> i = checkout_id (w_env w) v
     \<and> (\<exists>st1 tok. requestBearerToken w st = (st1, Inr tok)
          \<and> accepted w (post_request (getStkPushUrl w) (push_payload w date amount md) tok) v
          \<and> st' = st1\<lparr>ad_sent := ad_sent st1 @ [post_request (getStkPushUrl w) (push_payload w date amount md) tok]\<rparr>)"
proof -
  obtain s r where sr: "authorized_post w (getStkPushUrl w) (push_payload w date amount md) st = (s, r)" by fastforce
  have "initializePayment w date amount currency md st =
      (if currency \<noteq> ''KES'' then (st, Failed ''MPESA_ONLY_SUPPORTS_KES'')
       else if \<not> push_configured w md then (st, Failed ''MPESA_INITIALIZATION_MISSING_CONFIGURATION'')
       else (s, case r of Inl err \<Rightarrow> Failed (error_text err)
                | Inr v \<Rightarrow> if v = JNull then Failed ''Cannot read properties of null'' else PendingPayment (checkout_id (w_env w) v) v))"
    using sr by (simp add: initializePayment_def push_configured_def push_payload_def Let_def split: sum.split)
  then have "initializePayment w date amount currency md st = (st', PendingPayment i v) \<longleftrightarrow>
      currency = ''KES'' \<and> push_configured w md \<and> v \<noteq> JNull \<and> i = checkout_id (w_env w) v
      \<and> authorized_post w (getStkPushUrl w) (push_payload w date amount md) st = (st', Inr v)"
    unfolding sr by (cases r) auto
  then show ?thesis unfolding authorized_post_run .
qed

definition uses_b2c :: "wire \<Rightarrow> bool" where
  "uses_b2c w \<longleftrightarrow> env_set w ''MPESA_B2C_INITIATOR_NAME'' \<and> env_set w ''MPESA_B2C_SECURITY_CREDENTIAL''"

definition refund_request :: "wire \<Rightarrow> string \<Rightarrow> int \<Rightarrow> jsval \<Rightarrow> http_request" where
  "refund_request w tid a tok =
     (if uses_b2c w then post_request (getB2cUrl w) (b2c_payload w tid a) tok
      else post_request (getReversalUrl w) (reversal_payload w tid a) tok)"

text \<open>
  A refund succeeds exactly when it has a transaction and a positive amount, its rail is configured, and the one
  request it sends besides that for a token is accepted: what the rail says in its answer is not read.
\<close>

theorem refund_succeeds_iff:
  "initiateRefund w tid amount st = (st', True) \<longleftrightarrow>
     (\<exists>a st1 tok v. tid \<noteq> [] \<and> amount = Some a \<and> 0 < a
        \<and> list_all (env_set w) (if uses_b2c w then b2c_settings else reversal_settings)
        \<and> requestBearerToken w st = (st1, Inr tok) \<and> accepted w (refund_request w tid a tok) v
        \<and> st' = st1\<lparr>ad_sent := ad_sent st1 @ [refund_request w tid a tok]\<rparr>)"
proof -
  have b2c: "executeB2cRefund w tid a st = (st', Inr u) \<longleftrightarrow> list_all (env_set w) b2c_settings \<and>
      (\<exists>v. authorized_post w (getB2cUrl w) (b2c_payload w tid a) st = (st', Inr v))" for a u
    by (auto simp: executeB2cRefund_def split: prod.splits sum.splits)
  have rev: "executeReversal w tid a st = (st', Inr u) \<longleftrightarrow> list_all (env_set w) reversal_settings \<and>
      (\<exists>v. authorized_post w (getReversalUrl w) (reversal_payload w tid a) st = (st', Inr v))" for a u
    by (auto simp: executeReversal_def split: prod.splits sum.splits)
  have "initiateRefund w tid amount st = (st', True) \<longleftrightarrow>
      (\<exists>a. tid \<noteq> [] \<and> amount = Some a \<and> 0 < a \<and>
         (if uses_b2c w then executeB2cRefund w tid a st = (st', Inr ()) else executeReversal w tid a st = (st', Inr ())))"
    by (cases amount; cases "uses_b2c w")
       (auto simp: initiateRefund_def uses_b2c_def Let_def split: prod.splits)
  then show ?thesis
    by (cases "uses_b2c w") (auto simp: b2c rev authorized_post_run refund_request_def)
qed

section \<open>Concrete instances\<close>

definition sample_wire :: wire where
  "sample_wire = \<lparr>w_net = (\<lambda>rq. Reply 200 ''{}''), w_parse = (\<lambda>t. Some (JObj [(''access_token'', JStr ''tok''), (''expires_in'', JNum 3599)])),
     w_num = (\<lambda>s. None), w_pe = (\<lambda>k. Some ''v''), w_env = \<lparr>nowMs = 0, nowIso = ''t'', diskOk = (\<lambda>f. True)\<rparr>\<rparr>"

theorem bearer_token_alive_witness:
  "\<exists>st1 tok. requestBearerToken sample_wire \<lparr>ad_token = None, ad_sent = []\<rparr> = (st1, Inr tok)
     \<and> requestBearerToken (sample_wire\<lparr>w_env := \<lparr>nowMs = 3000000, nowIso = ''u'', diskOk = (\<lambda>f. True)\<rparr>\<rparr>) st1 = (st1, Inr tok)
     \<and> 3000000 + 60000 < (3599000 :: int)"
proof -
  let ?st = "\<lparr>ad_token = None, ad_sent = []\<rparr>" and ?w' = "sample_wire\<lparr>w_env := \<lparr>nowMs = 3000000, nowIso = ''u'', diskOk = (\<lambda>f. True)\<rparr>\<rparr>"
  let ?v = "JObj [(''access_token'', JStr ''tok''), (''expires_in'', JNum 3599)]"
  have acc: "accepted sample_wire (oauth_request sample_wire) v \<longleftrightarrow> v = ?v" for v
    by (auto simp: accepted_def sample_wire_def)
  obtain st1 where one: "requestBearerToken sample_wire ?st = (st1, Inr (JStr ''tok''))" "ad_sent st1 \<noteq> ad_sent ?st"
    "ad_token st1 = Some (JStr ''tok'', 3599000)"
    by (auto simp: bearer_token_run cached_token_def acc env_set_def env_json_def)
       (simp_all add: sample_wire_def token_life_def)
  have two: "requestBearerToken ?w' st1 = (st1, Inr (JStr ''tok''))"
    by (simp add: bearer_token_run cached_token_def one env_set_def env_json_def) (simp add: sample_wire_def)
  from bearer_token_alive [OF one(1,2) two refl] one(1) two show ?thesis by (auto simp: acc token_life_def)
qed

end
