(* ===== verification/Assurance.thy ===== *)
theory Assurance
  imports Payout MpesaAdapter
begin

text \<open>
  The two AI services of the backend, \<^verbatim>\<open>services/aiTrustService.ts\<close> (proof of delivery) and
  \<^verbatim>\<open>services/ai.service.ts\<close> (asset inspection), and their composition with the payout routes. The model that looks
  at the picture is a parameter, and so are \<^verbatim>\<open>JSON.parse\<close> and \<^verbatim>\<open>Number\<close> on its answer.
\<close>

section \<open>What the model answers\<close>

text \<open>
  A parsed answer, by the members the services read: the score as \<^verbatim>\<open>Number\<close> makes it of the member, None when
  that is not finite. A missing member is undefined.
\<close>

record model_answer =
  ma_score :: "rat option"
  ma_flag :: jsval
  ma_text :: jsval
  ma_issue :: jsval

text \<open>
  The surroundings of a call: the key, whether the SDK can be loaded, the model on a prompt and a picture in base64, the parser
  of its answer with the conversions that may throw (None: no JSON), and \<^verbatim>\<open>Buffer.from\<close> on an array.
\<close>

record ai_world =
  ai_key :: "string option"
  ai_sdk :: bool
  ai_model :: "string \<Rightarrow> string \<Rightarrow> string js_result"
  ai_parse :: "string \<Rightarrow> model_answer option"
  ai_array_bytes :: "jsval list \<Rightarrow> nat list"

definition key_missing :: "ai_world \<Rightarrow> bool" where
  "key_missing w \<longleftrightarrow> ai_key w = None \<or> ai_key w = Some []"

definition quoted :: "string \<Rightarrow> string" where
  "quoted s = CHR 0x22 # s @ [CHR 0x22]"

section \<open>Proof of delivery\<close>

definition coerceResult :: "model_answer \<Rightarrow> proof_verdict" where
  "coerceResult a =
     (let score = (case ma_score a of None \<Rightarrow> 0 | Some c \<Rightarrow> c)
      in \<lparr>vd_verified = (truthy (ma_flag a) \<and> 0 \<le> score \<and> score \<le> 1), vd_confidence = score,
          vd_reasoning = Some (if is_str (ma_text a) then the_str (ma_text a) else [])\<rparr>)"

definition unverified :: "string \<Rightarrow> proof_verdict" where
  "unverified why = \<lparr>vd_verified = False, vd_confidence = 0, vd_reasoning = Some why\<rparr>"

definition proof_prompt :: "string \<Rightarrow> string" where
  "proof_prompt metadata = join_with [CHR 0x0A]
     [''You are an AI Vision Specialist for secure escrow handshakes.'',
      [],
      ''Task:'',
      ''Determine if the provided image is genuine proof that the item was delivered/transferred.'',
      [],
      ''Verification checks (must consider all):'',
      ''1) Physical presence: Does the image plausibly show the item being delivered/transferred?'',
      ''2) Matching identity: Do visible names/labels/serial numbers/order references match the handshake metadata?'',
      ''3) Consistency: Are colors, lighting, shadows, perspective, and textures internally consistent?'',
      [],
      ''Security checks (anti-fraud):'',
      ''- Detect deepfakes, AI-generated imagery, or tampering.'',
      ''- Detect screenshots of photos, screen captures, or re-photos.'',
      ''  Use pixel-consistency signals: compression artifacts consistency, aliasing patterns, moire/interpolation artifacts, edge halos, unnatural noise patterns, or mismatch between foreground/background.'',
      [],
      ''Output requirements:'',
      ''- Return ONLY valid JSON (no markdown, no extra text) with this exact schema:'',
      ''  {'' @ quoted ''confidence_score'' @ '': float, '' @ quoted ''reasoning'' @ '': string, '' @ quoted ''verified'' @ '': boolean}'',
      ''- confidence_score must be a number between 0 and 1.'',
      ''- verified must be true ONLY if the evidence strongly supports genuine delivery/transfer AND all key identifiers match.'',
      ''- If the image appears to be a screenshot, edited, or otherwise untrustworthy, set verified=false and confidence_score <= 0.5.'',
      [],
      ''Handshake metadata:'',
      metadata,
      [],
      ''Image:'',
      ''(You will be given an image as input.)'']"

definition verifyProofOfDelivery :: "ai_world \<Rightarrow> nat list \<Rightarrow> jsval \<Rightarrow> proof_verdict js_result" where
  "verifyProofOfDelivery w imageBuffer metadata =
     (if key_missing w then Inl (JsError ''GEMINI_API_KEY_MISSING'')
      else if \<not> ai_sdk w then Inr (unverified ''GEMINI_SDK_UNAVAILABLE'')
      else bind_result (ai_model w (proof_prompt (json_stringify metadata)) (base64 imageBuffer)) (\<lambda>text.
        Inr (case ai_parse w text of None \<Rightarrow> unverified ''MODEL_OUTPUT_NOT_VALID_JSON'' | Some a \<Rightarrow> coerceResult a)))"

text \<open>
  The picture of a request: a text loses what stands before its last comma and is decoded as \<^verbatim>\<open>Buffer.from\<close> decodes
  base64, which stops at a padding sign, skips what is no digit and also knows the digits of the URL alphabet. An array has an
  \<^verbatim>\<open>includes\<close> of its own.
\<close>

definition base64_digit :: "char \<Rightarrow> nat option" where
  "base64_digit c =
     (let n = of_char c :: nat
      in if 65 \<le> n \<and> n \<le> 90 then Some (n - 65)
         else if 97 \<le> n \<and> n \<le> 122 then Some (n - 71)
         else if 48 \<le> n \<and> n \<le> 57 then Some (n + 4)
         else if c = CHR ''+'' \<or> c = CHR ''-'' then Some 62
         else if c = CHR ''/'' \<or> c = CHR ''_'' then Some 63 else None)"

fun base64_groups :: "nat list \<Rightarrow> nat list" where
  "base64_groups [] = []"
| "base64_groups [a] = []"
| "base64_groups [a, b] = [a * 4 + b div 16]"
| "base64_groups [a, b, c] = [a * 4 + b div 16, b mod 16 * 16 + c div 4]"
| "base64_groups (a # b # c # d # r) = (a * 4 + b div 16) # (b mod 16 * 16 + c div 4) # (c mod 4 * 64 + d) # base64_groups r"

definition base64_bytes :: "string \<Rightarrow> nat list" where
  "base64_bytes s = base64_groups (List.map_filter base64_digit (takeWhile (\<lambda>c. c \<noteq> CHR ''='') s))"

definition decodeBase64ToBuffer :: "ai_world \<Rightarrow> jsval \<Rightarrow> nat list js_result" where
  "decodeBase64ToBuffer w v =
     (case v of
        JStr s \<Rightarrow> Inr (base64_bytes (if CHR '','' \<in> set s then last (split_at_char CHR '','' s) else s))
      | JArr vs \<Rightarrow> if JStr '','' \<in> set vs then Inl (TypeError ''imageBase64.split is not a function'') else Inr (ai_array_bytes w vs)
      | _ \<Rightarrow> Inl (TypeError ''imageBase64.includes is not a function''))"

definition trust_service :: "ai_world \<Rightarrow> jsval \<Rightarrow> jsval \<Rightarrow> proof_verdict js_result" where
  "trust_service w picture metadata =
     bind_result (decodeBase64ToBuffer w picture) (\<lambda>buffer. verifyProofOfDelivery w buffer metadata)"

section \<open>Asset inspection\<close>

definition clamp01 :: "rat option \<Rightarrow> rat" where
  "clamp01 n = (case n of None \<Rightarrow> 0 | Some r \<Rightarrow> max 0 (min 1 r))"

definition normalizeCandidateString :: "jsval \<Rightarrow> string" where
  "normalizeCandidateString v =
     (if is_str v then the_str v else if v = JNull \<or> v = JUndefined then [] else json_stringify v)"

definition coerceOutput :: "model_answer \<Rightarrow> asset_verification" where
  "coerceOutput a =
     \<lparr>av_isMatch = truthy (ma_flag a), av_confidence = clamp01 (ma_score a),
      av_extractedDetails = Some (normalizeCandidateString (ma_text a)), av_issueDetected = truthy (ma_issue a)\<rparr>"

definition flagged :: "string \<Rightarrow> asset_verification" where
  "flagged why = \<lparr>av_isMatch = False, av_confidence = 0, av_extractedDetails = Some why, av_issueDetected = True\<rparr>"

text \<open>
  \<^verbatim>\<open>String.replace\<close> reads the dollar signs of the replacement: the match, what stands before and what stands
  after it.
\<close>

fun expand_template :: "string \<Rightarrow> string \<Rightarrow> string \<Rightarrow> string \<Rightarrow> string" where
  "expand_template bef matched aft [] = []"
| "expand_template bef matched aft [c] = [c]"
| "expand_template bef matched aft (c # d # r) =
     (if c = CHR ''$'' \<and> d = CHR ''$'' then CHR ''$'' # expand_template bef matched aft r
      else if c = CHR ''$'' \<and> d = CHR ''&'' then matched @ expand_template bef matched aft r
      else if c = CHR ''$'' \<and> d = CHR 0x60 then bef @ expand_template bef matched aft r
      else if c = CHR ''$'' \<and> d = CHR 0x27 then aft @ expand_template bef matched aft r
      else c # expand_template bef matched aft (d # r))"

definition system_instruction :: "string \<Rightarrow> string" where
  "system_instruction expectedItem =
     (let bef = ''You are a professional quality inspector. Look at this image. Is it the item described as '';
          aft = ''? Extract part numbers and check for damage.''
      in bef @ expand_template bef ''[expectedItem]'' aft expectedItem @ aft)"

definition inspection_prompt :: "string \<Rightarrow> string" where
  "inspection_prompt expectedItem = join_with [CHR 0x0A]
     [system_instruction expectedItem,
      [],
      ''Return ONLY valid JSON in the following exact schema:'',
      ''{ '' @ quoted ''isMatch'' @ '': boolean, '' @ quoted ''confidence'' @ '': number, ''
        @ quoted ''extractedDetails'' @ '': string, '' @ quoted ''issueDetected'' @ '': boolean }'',
      [],
      ''Rules:'',
      ''- confidence must be a number between 0 and 1'',
      ''- extractedDetails should include extracted part numbers (if any) and a brief damage assessment'',
      ''- issueDetected should be true if damage/tampering is detected or the item looks suspicious'',
      []]"

definition verifyAsset :: "ai_world \<Rightarrow> nat list \<Rightarrow> string \<Rightarrow> asset_verification js_result" where
  "verifyAsset w imageBuffer expectedItem =
     (if key_missing w then Inr (flagged ''GEMINI_API_KEY_MISSING'')
      else if \<not> ai_sdk w then Inr (flagged ''GEMINI_SDK_UNAVAILABLE'')
      else bind_result (ai_model w (inspection_prompt expectedItem) (base64 imageBuffer)) (\<lambda>text.
        Inr (case ai_parse w text of None \<Rightarrow> flagged ''MODEL_OUTPUT_NOT_VALID_JSON'' | Some a \<Rightarrow> coerceOutput a)))"

section \<open>Pictures in base64\<close>

lemma base64_char_digit:
  "n < 64 \<Longrightarrow> base64_digit (base64_char n) = Some n"
  by (auto simp: base64_digit_def base64_char_def Let_def)

lemma base64_digit_known:
  assumes "n < 64" shows "base64_char n \<noteq> CHR ''=''" "base64_char n \<noteq> CHR '',''"
  using base64_char_digit [OF assms] by (auto simp: base64_digit_def Let_def)

lemma base64_groups_exact:
  assumes "a < 256" "b < 256" "c < (256 :: nat)"
  shows "base64_groups (a div 4 # (a mod 4 * 16 + b div 16) # (b mod 16 * 4 + c div 64) # c mod 64 # r) = a # b # c # base64_groups r"
    "base64_groups [a div 4, a mod 4 * 16 + b div 16, b mod 16 * 4] = [a, b]"
    "base64_groups [a div 4, a mod 4 * 16] = [a]"
    "a div 4 < 64" "a mod 4 * 16 < 64" "a mod 4 * 16 + b div 16 < 64" "b mod 16 * 4 < 64" "b mod 16 * 4 + c div 64 < 64" "c mod 64 < 64"
proof -
  have a: "a div 4 * 4 + (a mod 4 * 16 + b div 16) div 16 = a" using assms by (simp add: div_add1_eq)
  have a': "a div 4 * 4 + (a mod 4 * 16) div 16 = a" by simp
  have low: "b div 16 < 16" "c div 64 < 4" using assms by (simp_all add: less_mult_imp_div_less)
  have b: "(a mod 4 * 16 + b div 16) mod 16 * 16 + (b mod 16 * 4 + c div 64) div 4 = b"
    using low by (simp add: mod_mult_self3 div_mult_self3 add.commute)
  have b': "(a mod 4 * 16 + b div 16) mod 16 * 16 + (b mod 16 * 4) div 4 = b" using low by simp
  have c: "(b mod 16 * 4 + c div 64) mod 4 * 64 + c mod 64 = c" using low by simp
  show "base64_groups (a div 4 # (a mod 4 * 16 + b div 16) # (b mod 16 * 4 + c div 64) # c mod 64 # r) = a # b # c # base64_groups r"
    by (simp only: base64_groups.simps a b c)
  show "base64_groups [a div 4, a mod 4 * 16 + b div 16, b mod 16 * 4] = [a, b]" by (simp only: base64_groups.simps a b')
  show "base64_groups [a div 4, a mod 4 * 16] = [a]" by (simp only: base64_groups.simps a')
  have "a div 4 < 64" "b div 16 < 16" "c div 64 < 4" using assms by (simp_all add: less_mult_imp_div_less)
  moreover have "a mod 4 \<le> 3" "b mod 16 \<le> 15" "c mod 64 < 64" using pos_mod_bound [of 4 "int a"] by (auto simp: less_Suc_eq_le [symmetric])
  ultimately show "a div 4 < 64" "a mod 4 * 16 < 64" "a mod 4 * 16 + b div 16 < 64" "b mod 16 * 4 < 64" "b mod 16 * 4 + c div 64 < 64"
    "c mod 64 < 64" by linarith+
qed

lemma base64_bytes_base64 [simp]:
  "byte_list bs \<Longrightarrow> base64_bytes (base64 bs) = bs"
proof (induction bs rule: base64.induct)
  case (4 a b c r)
  then have "a < 256" "b < 256" "c < 256" "byte_list r" by (simp_all add: byte_list_def)
  with 4 base64_groups_exact [of a b c] show ?case
    by (simp add: base64_bytes_def base64_digit_known base64_char_digit List.map_filter_simps del: base64_groups.simps)
next
  case (2 a)
  with base64_groups_exact [of a 0 0] show ?case
    by (simp add: base64_bytes_def byte_list_def base64_digit_known base64_char_digit List.map_filter_simps del: base64_groups.simps)
next
  case (3 a b)
  with base64_groups_exact [of a b 0] show ?case
    by (simp add: base64_bytes_def byte_list_def base64_digit_known base64_char_digit List.map_filter_simps del: base64_groups.simps)
qed (simp add: base64_bytes_def)

lemma base64_no_comma:
  "byte_list bs \<Longrightarrow> CHR '','' \<notin> set (base64 bs)"
proof (induction bs rule: base64.induct)
  case (4 a b c r)
  then have "a < 256" "b < 256" "c < 256" "byte_list r" by (simp_all add: byte_list_def)
  with 4 base64_groups_exact [of a b c] show ?case by (simp add: base64_digit_known(2) [symmetric])
next
  case (2 a)
  with base64_groups_exact [of a 0 0] show ?case by (simp add: byte_list_def base64_digit_known(2) [symmetric])
next
  case (3 a b)
  with base64_groups_exact [of a b 0] show ?case by (simp add: byte_list_def base64_digit_known(2) [symmetric])
qed simp

lemma split_at_char_cut:
  "\<exists>p q. split_at_char c (s @ c # t) = p # q @ split_at_char c t"
proof (induction s)
  case (Cons a s)
  then show ?case by (auto split: list.splits)
qed auto

lemma split_at_char_last:
  "c \<notin> set t \<Longrightarrow> last (split_at_char c (s @ c # t)) = t"
  using split_at_char_cut [of c s t] by auto

text \<open>
  A picture reaches the model as it was sent: the bytes encoded as base64, alone or behind the header of a data URL, are
  decoded to the same bytes.
\<close>

theorem picture_roundtrip:
  assumes "byte_list bs"
  shows "decodeBase64ToBuffer w (JStr (base64 bs)) = Inr bs"
    and "decodeBase64ToBuffer w (JStr (header @ CHR '','' # base64 bs)) = Inr bs"
  using assms by (simp_all add: decodeBase64ToBuffer_def base64_no_comma split_at_char_last)

section \<open>What the routes rely on\<close>

lemma proof_verified:
  assumes "verifyProofOfDelivery w buffer metadata = Inr v" "vd_verified v"
  shows "\<exists>text a. \<not> key_missing w \<and> ai_sdk w
     \<and> ai_model w (proof_prompt (json_stringify metadata)) (base64 buffer) = Inr text
     \<and> ai_parse w text = Some a \<and> truthy (ma_flag a)
     \<and> (ma_score a = Some (vd_confidence v) \<or> vd_confidence v = 0) \<and> vd_confidence v \<le> 1"
  using assms
  by (cases "ai_model w (proof_prompt (json_stringify metadata)) (base64 buffer)")
     (auto simp: verifyProofOfDelivery_def unverified_def coerceResult_def Let_def split: if_splits option.splits)

text \<open>
  C9. A payout leaves by a proof of delivery only when everything spoke for it: the picture could be decoded, the service was configured, the model
  was asked about this picture and this metadata, answered with JSON, called it verified, and with a score above 0.95 and at
  most 1, and the handshake was locked. A missing key or SDK, an answer that is no JSON and a score out of range all end in a refusal.
\<close>

theorem proof_releases_only_verified:
  assumes "verify_proof_route (trust_service w) e e' i body db = (db', PayoutReleased u)"
  shows "\<exists>x buffer text a c. js_get db i = Some x \<and> hs_status x = HsLocked
     \<and> decodeBase64ToBuffer w (member body ''imageBase64'') = Inr buffer
     \<and> \<not> key_missing w \<and> ai_sdk w
     \<and> ai_model w (proof_prompt (json_stringify (member body ''handshakeMetadata''))) (base64 buffer) = Inr text
     \<and> ai_parse w text = Some a \<and> truthy (ma_flag a) \<and> ma_score a = Some c \<and> 95 / 100 < c \<and> c \<le> 1"
proof -
  obtain x v where x: "js_get db i = Some x" "hs_status x = HsLocked"
    and v: "trust_service w (member body ''imageBase64'') (member body ''handshakeMetadata'') = Inr v" "vd_verified v" "95 / 100 < vd_confidence v"
    using assms by (auto simp: verify_proof_route_def Let_def split: if_splits option.splits sum.splits prod.splits)
  from v(1) obtain buffer where b: "decodeBase64ToBuffer w (member body ''imageBase64'') = Inr buffer"
    and vb: "verifyProofOfDelivery w buffer (member body ''handshakeMetadata'') = Inr v"
    by (cases "decodeBase64ToBuffer w (member body ''imageBase64'')") (auto simp: trust_service_def)
  from proof_verified [OF vb v(2)] v(3) x b show ?thesis by fastforce
qed

text \<open>
  Whatever the model answers, the score that is stored for an asset lies between 0 and 1, a match is the model's own word,
  and with no key the asset counts as flagged.
\<close>

theorem inspection_is_bounded:
  assumes "verifyAsset w buffer item = Inr v"
  shows "0 \<le> av_confidence v \<and> av_confidence v \<le> 1
     \<and> (av_isMatch v \<longrightarrow> (\<exists>text a. ai_model w (inspection_prompt item) (base64 buffer) = Inr text \<and> ai_parse w text = Some a \<and> truthy (ma_flag a)))
     \<and> (key_missing w \<longrightarrow> \<not> av_isMatch v \<and> av_issueDetected v)"
  using assms
  by (cases "ai_model w (inspection_prompt item) (base64 buffer)")
     (auto simp: verifyAsset_def flagged_def coerceOutput_def clamp01_def split: if_splits option.splits)

text \<open>
  The inspection has no threshold: an asset the model matches releases its handshake in whatever state it is, with a score of 0 and
  with damage seen, while the proof of delivery asks for a score above 0.95 and a locked handshake.
\<close>

theorem match_releases_without_confidence:
  assumes "js_get db i = Some x" "hs_tenantId x = t" "t \<noteq> []"
    and "verifyAsset w buffer (js_String (expected_item parse x)) = Inr v" "av_isMatch v"
  shows "verify_asset_route parse (verifyAsset w buffer) i True (JStr t) db
       = (js_set i (x\<lparr>hs_status := HsReleased, hs_aiConfidence := av_confidence v, hs_failureReason := None\<rparr>) db,
          PayoutVerified v HsReleased ''AI_VERIFIED'')"
  using assms by (simp add: verify_asset_route_def Let_def)

section \<open>Concrete instances\<close>

definition sample_ai :: "rat \<Rightarrow> ai_world" where
  "sample_ai c = \<lparr>ai_key = Some ''k'', ai_sdk = True, ai_model = (\<lambda>prompt picture. Inr picture),
     ai_parse = (\<lambda>text. Some \<lparr>ma_score = Some c, ma_flag = JBool True, ma_text = JUndefined, ma_issue = JBool True\<rparr>),
     ai_array_bytes = (\<lambda>vs. [])\<rparr>"

definition sample_proof_body :: jsval where
  "sample_proof_body = JObj [(''imageBase64'', JStr ''AQID''), (''handshakeMetadata'', JObj [(''ref'', JStr ''r1'')])]"

theorem picture_roundtrip_witness:
  "decodeBase64ToBuffer (sample_ai 1) (JStr (''data:image/jpeg;base64'' @ CHR '','' # base64 [255, 0, 7, 129])) = Inr [255, 0, 7, 129]"
proof -
  have "byte_list [255, 0, 7, 129]" by (simp add: byte_list_def)
  from picture_roundtrip(2) [OF this, of "sample_ai 1" "''data:image/jpeg;base64''"] show ?thesis .
qed

theorem proof_releases_only_verified_witness:
  "\<exists>x c. js_get sample_db ''hs_1'' = Some x \<and> hs_status x = HsLocked \<and> 95 / 100 < (c :: rat) \<and> c \<le> 1"
proof -
  have v: "trust_service (sample_ai (97 / 100)) (JStr ''AQID'') (JObj [(''ref'', JStr ''r1'')])
      = Inr \<lparr>vd_verified = True, vd_confidence = 97 / 100, vd_reasoning = Some []\<rparr>"
    by (simp add: trust_service_def decodeBase64ToBuffer_def verifyProofOfDelivery_def key_missing_def sample_ai_def coerceResult_def Let_def)
  have m: "member sample_proof_body ''imageBase64'' = JStr ''AQID''"
    "member sample_proof_body ''handshakeMetadata'' = JObj [(''ref'', JStr ''r1'')]"
    by (simp_all add: sample_proof_body_def)
  have "\<exists>db' u. verify_proof_route (trust_service (sample_ai (97 / 100))) (sample_env 5) (sample_env 6) ''hs_1'' sample_proof_body sample_db
      = (db', PayoutReleased u)"
    by (simp add: verify_proof_route_def m v sample_db_get)
       (simp add: sample_db_def sample_handshake_def processUniversalHandshake_def preflight_def executeRouteRelease_def settle_def mark_released_def
         js_get_set Let_def)
  then obtain db' u where
    "verify_proof_route (trust_service (sample_ai (97 / 100))) (sample_env 5) (sample_env 6) ''hs_1'' sample_proof_body sample_db = (db', PayoutReleased u)"
    by blast
  from proof_releases_only_verified [OF this] show ?thesis by blast
qed

theorem inspection_is_bounded_witness:
  "\<exists>v. verifyAsset (sample_ai 7) [1, 2, 3] ''wheel'' = Inr v \<and> av_confidence v \<le> 1"
proof -
  obtain v where v: "verifyAsset (sample_ai 7) [1, 2, 3] ''wheel'' = Inr v" by (simp add: verifyAsset_def key_missing_def sample_ai_def)
  with inspection_is_bounded [OF v] show ?thesis by blast
qed

theorem match_releases_without_confidence_witness:
  "verify_asset_route (\<lambda>s. None) (verifyAsset (sample_ai 0) [1, 2, 3]) ''hs_1'' True (JStr ''t'') sample_db
     = (js_set ''hs_1'' (sample_handshake\<lparr>hs_status := HsReleased, hs_aiConfidence := 0, hs_failureReason := None\<rparr>) sample_db,
        PayoutVerified \<lparr>av_isMatch = True, av_confidence = 0, av_extractedDetails = Some [], av_issueDetected = True\<rparr> HsReleased ''AI_VERIFIED'')"
proof -
  have v: "verifyAsset (sample_ai 0) [1, 2, 3] item = Inr \<lparr>av_isMatch = True, av_confidence = 0, av_extractedDetails = Some [], av_issueDetected = True\<rparr>" for item
    by (simp add: verifyAsset_def key_missing_def sample_ai_def coerceOutput_def clamp01_def normalizeCandidateString_def)
  have t: "hs_tenantId sample_handshake = ''t''" by (simp add: sample_handshake_def)
  from match_releases_without_confidence [OF sample_db_get t _ v] show ?thesis by simp
qed

end
