(* ===== verification/Application.thy ===== *)
theory Application
  imports Backend Assurance
begin

text \<open>
  The two applications side by side. The server of \<^verbatim>\<open>index.ts\<close> mounts the routes that release handshakes, the older
  application of \<^verbatim>\<open>app.ts\<close> the routes that settle them on a rail (\<^verbatim>\<open>payoutController.ts\<close>,
  \<^verbatim>\<open>payoutProofController.ts\<close>), behind its own key check.
\<close>

section \<open>The older application\<close>

record legacy_app =
  la_rows :: escrow_table
  la_backend :: backend

datatype legacy_route =
    AppHealth
  | RowRoute app_route
  | PaymentRoute backend_route
  | ProcessHandshake string
  | VerifyProof string

definition with_api_key ::
  "backend_world \<Rightarrow> string \<Rightarrow> request \<Rightarrow> (legacy_app \<Rightarrow> legacy_app \<times> backend_reply) \<Rightarrow> legacy_app \<Rightarrow> legacy_app \<times> backend_reply" where
  "with_api_key w rid rq k s =
     (case apiKeyMiddleware (bw_hash w) rid rq (bw_tenants w) of Inl out \<Rightarrow> (s, RpOutcome out) | Inr t \<Rightarrow> k s)"

definition with_internal_key ::
  "backend_world \<Rightarrow> request \<Rightarrow> (legacy_app \<Rightarrow> legacy_app \<times> backend_reply) \<Rightarrow> legacy_app \<Rightarrow> legacy_app \<times> backend_reply" where
  "with_internal_key w rq k s =
     (case internalApiKeyMiddleware (bw_pe w) rq of PassOn \<Rightarrow> k s | out \<Rightarrow> (s, RpOutcome out))"

definition on_handshakes ::
  "(payout_db \<Rightarrow> payout_db \<times> payout_reply) \<Rightarrow> legacy_app \<Rightarrow> legacy_app \<times> backend_reply" where
  "on_handshakes f s =
     (case f (be_handshakes (la_backend s)) of
        (db, r) \<Rightarrow> (s\<lparr>la_backend := (la_backend s)\<lparr>be_handshakes := db\<rparr>\<rparr>, RpPayout r))"

text \<open>Everything below \<^verbatim>\<open>/api\<close> is behind the key check; the payment router is the one of the server.\<close>

definition legacy_request ::
  "backend_world \<Rightarrow> ai_world \<Rightarrow> string \<Rightarrow> request \<Rightarrow> legacy_route \<Rightarrow> legacy_app \<Rightarrow> legacy_app \<times> backend_reply" where
  "legacy_request w aw rid rq0 route s =
     (let rq = privacyMiddleware rq0
      in case route of
           AppHealth \<Rightarrow> (s, RpOutcome (Answer 200 (JObj [(''ok'', JBool True)])))
         | RowRoute r \<Rightarrow>
             with_api_key w rid rq (with_internal_key w rq (\<lambda>s.
               case app_handler (bw_num w) r (la_rows s) of (rows, out) \<Rightarrow> (s\<lparr>la_rows := rows\<rparr>, RpOutcome out))) s
         | PaymentRoute r \<Rightarrow>
             with_api_key w rid rq (\<lambda>s. case payment_routes w rq r (la_backend s) of (b, out) \<Rightarrow> (s\<lparr>la_backend := b\<rparr>, out)) s
         | ProcessHandshake i \<Rightarrow>
             with_api_key w rid rq (with_internal_key w rq (on_handshakes (process_route (bw_env w) (bw_after w) i))) s
         | VerifyProof i \<Rightarrow>
             with_api_key w rid rq (with_internal_key w rq
               (on_handshakes (verify_proof_route (trust_service aw) (bw_env w) (bw_after w) i (rq_body rq)))) s)"

section \<open>The handshake router\<close>

text \<open>
  \<^verbatim>\<open>routes/api.ts\<close>, which neither application mounts: creation and the verification of an uploaded picture. An
  upload is a media type and bytes; a refused one is an error, which express answers with 500 and a page that is left out here. The
  second identifier is drawn for the escrow address.
\<close>

datatype handshake_api = ApiCreate bool string | ApiVerify string "(string \<times> nat list) option"

definition accept_upload :: "(string \<times> nat list) option \<Rightarrow> nat list option js_result" where
  "accept_upload upload =
     (case upload of
        None \<Rightarrow> Inr None
      | Some (mimetype, buffer) \<Rightarrow>
          if mimetype \<noteq> ''image/png'' \<and> mimetype \<noteq> ''image/jpeg'' then Inl (JsError ''INVALID_FILE_TYPE'')
          else if 10 * 1024 * 1024 < length buffer then Inl (JsError ''File too large'')
          else Inr (Some buffer))"

definition handshake_api_request ::
  "backend_world \<Rightarrow> ai_world \<Rightarrow> (string \<Rightarrow> jsval option) \<Rightarrow> request \<Rightarrow> handshake_api \<Rightarrow> backend \<Rightarrow> backend \<times> backend_reply" where
  "handshake_api_request w aw parse rq api =
     with_tenant w rq (\<lambda>t s.
       let respond = (\<lambda>(db, r). (s\<lparr>be_handshakes := db\<rparr>, RpPayout r))
       in case api of
            ApiCreate dbUp uuid' \<Rightarrow>
              respond (create_handshake_route (\<lambda>i. i \<in> tn_id ` set (bw_tenants w)) dbUp (bw_uuid w) uuid' (JStr (tn_id t)) (rq_body rq) (be_handshakes s))
          | ApiVerify i upload \<Rightarrow>
              (case accept_upload upload of
                 Inl err \<Rightarrow> (s, RpOutcome (Answer 500 JUndefined))
               | Inr buffer \<Rightarrow>
                   respond (verify_asset_route parse (verifyAsset aw (case buffer of None \<Rightarrow> [] | Some b \<Rightarrow> b)) i (buffer \<noteq> None)
                              (JStr (tn_id t)) (be_handshakes s))))"

section \<open>Settled handshakes\<close>

text \<open>A handshake a rail was executed for carries the identifier of that execution.\<close>

definition settled_as :: "payout_db \<Rightarrow> string \<Rightarrow> string \<Rightarrow> bool" where
  "settled_as db i tx \<longleftrightarrow> (\<exists>x. js_get db i = Some x \<and> hs_processedReleaseTxId x = Some tx)"

lemma settled_unchanged:
  "hs_processedReleaseTxId u = hs_processedReleaseTxId x \<Longrightarrow> js_get db i = Some x \<Longrightarrow> settled_as (js_set i u db) = settled_as db"
  by (auto simp: settled_as_def js_get_set fun_eq_iff)

lemma settled_created:
  "hs_processedReleaseTxId u = None \<Longrightarrow> \<not> js_has db i \<Longrightarrow> settled_as (js_set i u db) = settled_as db"
  by (auto simp: settled_as_def js_get_set fun_eq_iff)

lemma release_transaction_settles:
  "release_transaction e i hash key photo gps db = (db', r) \<Longrightarrow> settled_as db' = settled_as db"
  by (auto simp: release_transaction_def Let_def settled_unchanged split: option.splits if_splits)

lemma verifyAndRelease_settles:
  "verifyAndRelease h e i otp photo gps key db = (db', r) \<Longrightarrow> settled_as db' = settled_as db"
  by (auto simp: verifyAndRelease_def dest: release_transaction_settles split: sum.splits)

lemma db_create_settles:
  "db_create tenantExists row db = (db', r) \<Longrightarrow> hs_processedReleaseTxId row = None \<Longrightarrow> settled_as db' = settled_as db"
  by (auto simp: db_create_def settled_created split: if_splits)

lemma createHandshake_settles:
  "createHandshake h tenantExists uuid n t a rc route db = (db', r) \<Longrightarrow> settled_as db' = settled_as db"
  by (auto simp: createHandshake_def Let_def dest: db_create_settles split: sum.splits prod.splits)

lemma payment_verify_settles:
  "payment_verify_route h e key body db = (db', r) \<Longrightarrow> settled_as db' = settled_as db"
  by (auto simp: payment_verify_route_def Let_def dest: verifyAndRelease_settles split: if_splits sum.splits prod.splits)

lemma payment_create_settles:
  "payment_create_route h tenantExists uuid n body a db = (db', r) \<Longrightarrow> settled_as db' = settled_as db"
  by (auto simp: payment_create_route_def Let_def dest: createHandshake_settles split: if_splits option.splits sum.splits prod.splits)

lemmas handshake_routes_settle = payment_verify_settles payment_create_settles

lemma payment_routes_settle:
  assumes "payment_routes w rq route s = (s', reply)"
  shows "settled_as (be_handshakes s') = settled_as (be_handshakes s)"
proof (cases route)
  case (RailVerify r)
  with assms rails_verify_alike show ?thesis
    by (cases r) (auto simp: payment_routes_def with_tenant_def Let_def dest: payment_verify_settles split: sum.splits prod.splits)
qed (use assms in \<open>auto simp: payment_routes_def with_tenant_def Let_def dest: handshake_routes_settle split: sum.splits prod.splits\<close>)

lemma other_routes_handshakes [simp]:
  "be_handshakes (fst (escrow_routes w rq route s)) = be_handshakes s"
  "be_handshakes (fst (webhook_routes w rq route s)) = be_handshakes s"
  by (cases route; simp add: escrow_routes_def with_tenant_def with_integrity_def on_escrows_def Let_def split: sum.split option.split prod.split)
     (cases route; simp add: webhook_routes_def on_escrows_def split: prod.split)

lemma request_settles:
  "settled_as (be_handshakes (fst (backend_request w rq route s))) = settled_as (be_handshakes s)"
proof -
  have "settled_as (be_handshakes (fst (payment_routes w rq route s))) = settled_as (be_handshakes s)"
    by (cases "payment_routes w rq route s") (simp add: payment_routes_settle)
  then show ?thesis by (cases route) (simp_all add: backend_request_def)
qed

section \<open>Properties\<close>

text \<open>
  No request to the older application gets past its key check, whatever its headers: it answers 401 and changes
  neither store, except for the health route. So its payout routes, the only ones that settle a handshake, cannot be reached.
\<close>

theorem older_application_is_shut:
  "fst (legacy_request w aw rid rq route s) = s
     \<and> (if route = AppHealth then snd (legacy_request w aw rid rq route s) = RpOutcome (Answer 200 (JObj [(''ok'', JBool True)]))
        else \<exists>body. snd (legacy_request w aw rid rq route s) = RpOutcome (Answer 401 body))"
proof -
  have "\<exists>body. apiKeyMiddleware (bw_hash w) rid (privacyMiddleware rq) (bw_tenants w) = Inl (Answer 401 body)"
    by (auto simp: apiKeyMiddleware_def findUniqueTenant_def unauthorized_def sendApiError_def split: option.splits)
  then show ?thesis by (cases route) (auto simp: legacy_request_def with_api_key_def Let_def)
qed

text \<open>
  Through the handshake router a stored handshake changes only at a request of its own tenant, and then to the word of the
  inspection on an uploaded picture of an accepted type and size.
\<close>

theorem handshake_router_isolates_tenants:
  assumes "js_get (be_handshakes s) i = Some x" "handshake_api_request w aw parse rq api s = (s', reply)"
    and "js_get (be_handshakes s') i \<noteq> Some x"
  shows "\<exists>t upload buffer v. tenantAuth (bw_hash w) rq (bw_tenants w) = Inr t \<and> tn_id t = hs_tenantId x
     \<and> api = ApiVerify i upload \<and> accept_upload upload = Inr (Some buffer)
     \<and> verifyAsset aw buffer (js_String (expected_item parse x)) = Inr v
     \<and> map_option hs_status (js_get (be_handshakes s') i) = Some (if av_isMatch v then HsReleased else HsFailed)"
proof -
  obtain t where t: "tenantAuth (bw_hash w) rq (bw_tenants w) = Inr t"
    using assms by (auto simp: handshake_api_request_def with_tenant_def split: sum.splits)
  show ?thesis
  proof (cases api)
    case (ApiCreate dbUp uuid')
    obtain db r where c: "create_handshake_route (\<lambda>i. i \<in> tn_id ` set (bw_tenants w)) dbUp (bw_uuid w) uuid' (JStr (tn_id t)) (rq_body rq) (be_handshakes s) = (db, r)"
      by fastforce
    then have "js_get db i = Some x"
      using assms(1) by (auto simp: create_handshake_route_def db_create_def js_get_set Let_def split: if_splits sum.splits prod.splits)
    with c t ApiCreate assms(2,3) show ?thesis by (auto simp: handshake_api_request_def with_tenant_def)
  next
    case (ApiVerify j upload)
    with assms t obtain buffer where b: "accept_upload upload = Inr buffer"
      by (auto simp: handshake_api_request_def with_tenant_def split: sum.splits)
    define out where "out = verify_asset_route parse (verifyAsset aw (case buffer of None \<Rightarrow> [] | Some b \<Rightarrow> b)) j (buffer \<noteq> None) (JStr (tn_id t)) (be_handshakes s)"
    have s': "be_handshakes s' = fst out"
      using assms(2) t ApiVerify b by (auto simp: handshake_api_request_def with_tenant_def out_def split: prod.splits)
    then have changed: "fst out \<noteq> be_handshakes s" using assms(1,3) by auto
    then obtain b' y v where y: "buffer = Some b'" "js_get (be_handshakes s) j = Some y" "hs_tenantId y = tn_id t"
      "verifyAsset aw b' (js_String (expected_item parse y)) = Inr v"
      by (auto simp: out_def verify_asset_route_def split: if_splits option.splits sum.splits)
    then have new: "\<exists>u. fst out = js_set j u (be_handshakes s) \<and> hs_status u = (if av_isMatch v then HsReleased else HsFailed)"
      using changed by (auto simp: out_def verify_asset_route_def Let_def split: if_splits option.splits sum.splits)
    then have "j = i" using assms(1,3) s' by (auto simp: js_get_set split: if_splits)
    with y b t ApiVerify new s' assms(1) show ?thesis by (auto simp: js_get_set)
  qed
qed

text \<open>
  C21. Nobody is paid: however long the server runs, no handshake is ever settled on a rail that was not settled before, and one
  that the server has released can not be settled afterwards either, because settling asks for a locked handshake.
\<close>

theorem released_handshakes_are_never_paid:
  assumes "(server_step hm pe)\<^sup>*\<^sup>* s s'"
  shows "settled_as (be_handshakes s') = settled_as (be_handshakes s)
     \<and> (\<forall>i x. js_get (be_handshakes s') i = Some x \<and> hs_status x = HsReleased \<longrightarrow>
          processUniversalHandshake e e' i (be_handshakes s') = (be_handshakes s', Inl (JsError ''HANDSHAKE_NOT_LOCKED'')))"
proof -
  have "settled_as (be_handshakes s') = settled_as (be_handshakes s)"
    using assms by (induction) (auto simp: request_settles elim!: server_step.cases)
  moreover have "processUniversalHandshake e e' i db = (db, Inl (JsError ''HANDSHAKE_NOT_LOCKED''))"
    if "js_get db i = Some x" "hs_status x = HsReleased" for i x db
    using that by (simp add: processUniversalHandshake_def preflight_def)
  ultimately show ?thesis by blast
qed

section \<open>Concrete instances\<close>

theorem released_handshakes_are_never_paid_witness:
  "let s = fst (backend_request sample_world sample_dispute_request HandshakeVerify (fresh_backend sample_released_db no_payments))
   in settled_as (be_handshakes s) = settled_as sample_released_db
      \<and> processUniversalHandshake (sample_env 1) (sample_env 2) ''hs_1'' (be_handshakes s) = (be_handshakes s, Inl (JsError ''HANDSHAKE_NOT_LOCKED''))"
proof -
  let ?s = "fresh_backend sample_released_db no_payments"
  let ?s' = "fst (backend_request sample_world sample_dispute_request HandshakeVerify ?s)"
  have "server_step (bw_hmac sample_world) (bw_pe sample_world) ?s ?s'"
    by (rule server_step.served) (simp_all add: fresh_backend_def)
  then have run: "(server_step (bw_hmac sample_world) (bw_pe sample_world))\<^sup>*\<^sup>* ?s ?s'" by (rule r_into_rtranclp)
  have blank: "js_trim [] = []" by code_simp
  have "be_handshakes ?s' = sample_released_db"
    by (auto simp: blank backend_request_def payment_routes_def with_tenant_def payment_verify_route_def fresh_backend_def sample_dispute_request_def
        Let_def split: sum.split)
  moreover have "js_get sample_released_db ''hs_1'' = Some (sample_handshake\<lparr>hs_status := HsReleased, hs_releaseIdempotencyKey := Some ''key1''\<rparr>)"
    by (simp add: sample_released_db_def)
  ultimately show ?thesis
    using released_handshakes_are_never_paid [OF run, of "sample_env 1" "sample_env 2"] by (simp add: Let_def fresh_backend_def)
qed

theorem handshake_router_isolates_tenants_witness:
  "\<exists>t v. tenantAuth (bw_hash sample_world) sample_dispute_request (bw_tenants sample_world) = Inr t \<and> tn_id t = ''t''
     \<and> verifyAsset (sample_ai 0) [2, 3, 4] (js_String (expected_item (\<lambda>s. None) sample_handshake)) = Inr v"
proof -
  let ?s = "fresh_backend sample_db no_payments"
  have v: "verifyAsset (sample_ai 0) [2, 3, 4] item = Inr \<lparr>av_isMatch = True, av_confidence = 0, av_extractedDetails = Some [], av_issueDetected = True\<rparr>" for item
    by (simp add: verifyAsset_def key_missing_def sample_ai_def coerceOutput_def clamp01_def normalizeCandidateString_def)
  obtain t where t: "tenantAuth (bw_hash sample_world) sample_dispute_request (bw_tenants sample_world) = Inr t" "tn_id t = ''t''"
    by (simp add: tenantAuth_def findUniqueTenant_def sample_world_def sample_dispute_request_def sample_tenant_def)
  obtain s' reply where run: "handshake_api_request sample_world (sample_ai 0) (\<lambda>s. None) sample_dispute_request
      (ApiVerify ''hs_1'' (Some (''image/png'', [2, 3, 4]))) ?s = (s', reply)" by fastforce
  have get: "js_get (be_handshakes ?s) ''hs_1'' = Some sample_handshake" by (simp add: fresh_backend_def sample_db_get)
  have id: "hs_tenantId sample_handshake = ''t''" by (simp add: sample_handshake_def)
  have "map_option hs_status (js_get (be_handshakes s') ''hs_1'') = Some HsReleased"
    using run t match_releases_without_confidence [OF sample_db_get id _ v]
    by (auto simp: handshake_api_request_def with_tenant_def accept_upload_def js_get_set fresh_backend_def Let_def)
  then have "js_get (be_handshakes s') ''hs_1'' \<noteq> Some sample_handshake" by (auto simp: sample_handshake_def)
  from handshake_router_isolates_tenants [OF get run this] t v show ?thesis by (auto simp: sample_handshake_def)
qed

end
