(* ===== verification/Outbound.thy ===== *)
theory Outbound
  imports Payout Mpesa
begin

text \<open>
  What leaves the system beside payments: the older webhook sender \<^verbatim>\<open>services/webhook-service.ts\<close>, the
  tax record of \<^verbatim>\<open>logging/kratims-logger.ts\<close>, the session store \<^verbatim>\<open>SecureStorageService.ts\<close> of
  the mobile client and its gateway client \<^verbatim>\<open>MobileGatewayClient.ts\<close>. HTTP, HMAC, the hash, the file system and the
  keychain are parameters.
\<close>

section \<open>The older webhook sender\<close>

text \<open>
  One attempt: an answer with its flag, status and text, or a rejection (an abort after the timeout included) with its message
  where it has a text for one.
\<close>

datatype fetch_result = Fetched bool int string | Threw "string option"

text \<open>The planned delays in milliseconds, on the random numbers the jitter draws.\<close>

definition getRetryPlan :: "(nat \<Rightarrow> rat) \<Rightarrow> nat \<Rightarrow> rat list" where
  "getRetryPlan rnd attempts = map (\<lambda>i. 60000 * 2 ^ i * (8 / 10 + rnd i * (4 / 10))) [0..<attempts]"

text \<open>The loop from attempt \<^verbatim>\<open>k\<close> on, with the delays slept.\<close>

fun attempt_loop :: "(nat \<Rightarrow> fetch_result) \<Rightarrow> rat list \<Rightarrow> nat \<Rightarrow> nat \<Rightarrow> int \<Rightarrow> string \<Rightarrow> (bool \<times> int \<times> string) \<times> rat list" where
  "attempt_loop fetch delays k 0 lastStatus lastText = ((False, lastStatus, lastText), [])"
| "attempt_loop fetch delays k (Suc n) lastStatus lastText =
     (let sleeps = (if n = 0 then [] else [delays ! k])
      in case fetch k of
           Fetched ok sc txt \<Rightarrow>
             if ok then ((True, sc, txt), [])
             else (let (r, ds) = attempt_loop fetch delays (Suc k) n sc txt in (r, sleeps @ ds))
         | Threw msg \<Rightarrow>
             (let (r, ds) = attempt_loop fetch delays (Suc k) n 0 (case msg of None \<Rightarrow> ''WEBHOOK_SEND_FAILED'' | Some m \<Rightarrow> m)
              in (r, sleeps @ ds)))"

record signed_post =
  sp_url :: string
  sp_body :: string
  sp_signature :: string
  sp_timestamp :: string

text \<open>
  Without a \<^verbatim>\<open>fetch\<close> in the runtime every attempt throws. The request is built once; an answer comes with the
  delays slept.
\<close>

definition sendSignedWebhook ::
  "(string \<Rightarrow> string \<Rightarrow> string) \<Rightarrow> env \<Rightarrow> (nat \<Rightarrow> rat) \<Rightarrow> (signed_post \<Rightarrow> nat \<Rightarrow> fetch_result) option \<Rightarrow> jsval \<Rightarrow> string \<Rightarrow> string
     \<Rightarrow> ((bool \<times> int \<times> string) \<times> rat list) js_result" where
  "sendSignedWebhook hm e rnd fetch payload secret callbackUrl =
     (if secret = [] then Inl (JsError ''WEBHOOK_SECRET_MISSING'')
      else if callbackUrl = [] then Inl (JsError ''WEBHOOK_CALLBACK_URL_MISSING'')
      else
        let bodyText = json_stringify payload;
            req = \<lparr>sp_url = callbackUrl, sp_body = bodyText, sp_signature = hm secret bodyText, sp_timestamp = nowIso e\<rparr>
        in Inr (attempt_loop (case fetch of None \<Rightarrow> (\<lambda>k. Threw (Some ''FETCH_NOT_AVAILABLE'')) | Some f \<Rightarrow> f req)
                  (getRetryPlan rnd 5) 0 5 0 []))"

definition fetched_ok :: "fetch_result \<Rightarrow> bool" where
  "fetched_ok r = (case r of Fetched ok s t \<Rightarrow> ok | Threw m \<Rightarrow> False)"

text \<open>The loop, as the first attempt that succeeds.\<close>

lemma attempt_loop_result:
  assumes "attempt_loop fetch delays k n ls lt = ((ok, s, t), slept)"
  shows "if ok then \<exists>j < n. (\<forall>i < j. \<not> fetched_ok (fetch (k + i))) \<and> fetch (k + j) = Fetched True s t \<and> slept = map (\<lambda>i. delays ! (k + i)) [0..<j]
         else (\<forall>i < n. \<not> fetched_ok (fetch (k + i))) \<and> slept = map (\<lambda>i. delays ! (k + i)) [0..<n - 1]"
  using assms
proof (induction n arbitrary: k ls lt ok s t slept)
  case (Suc n)
  show ?case
  proof (cases "fetched_ok (fetch k)")
    case True
    then obtain s' t' where "fetch k = Fetched True s' t'" by (auto simp: fetched_ok_def split: fetch_result.splits)
    with Suc.prems show ?thesis by (auto simp: Let_def)
  next
    case False
    then obtain ls' lt' where step: "attempt_loop fetch delays k (Suc n) ls lt
        = (let (r, ds) = attempt_loop fetch delays (Suc k) n ls' lt' in (r, (if n = 0 then [] else [delays ! k]) @ ds))"
      by (cases "fetch k") (auto simp: fetched_ok_def Let_def)
    obtain r ds where rest: "attempt_loop fetch delays (Suc k) n ls' lt' = (r, ds)" by fastforce
    with step Suc.prems have r: "r = (ok, s, t)" and slept: "slept = (if n = 0 then [] else [delays ! k]) @ ds" by auto
    note IH = Suc.IH [OF rest [unfolded r]]
    show ?thesis
    proof (cases ok)
      case True
      with IH obtain j where j: "j < n" "\<forall>i < j. \<not> fetched_ok (fetch (Suc k + i))" "fetch (Suc k + j) = Fetched True s t"
        "ds = map (\<lambda>i. delays ! (Suc k + i)) [0..<j]" by auto
      have "slept = map (\<lambda>i. delays ! (k + i)) [0..<Suc j]"
        using j slept by (simp add: upt_conv_Cons map_Suc_upt [symmetric] o_def del: upt_Suc)
      moreover have "\<forall>i < Suc j. \<not> fetched_ok (fetch (k + i))" using j False by (auto simp: less_Suc_eq_0_disj)
      ultimately show ?thesis using True j by (auto intro!: exI [of _ "Suc j"])
    next
      case False': False
      with IH have all: "\<forall>i < n. \<not> fetched_ok (fetch (Suc k + i))" and ds: "ds = map (\<lambda>i. delays ! (Suc k + i)) [0..<n - 1]" by auto
      have "slept = map (\<lambda>i. delays ! (k + i)) [0..<n]"
      proof (cases n)
        case (Suc m)
        with ds slept show ?thesis by (simp add: upt_conv_Cons map_Suc_upt [symmetric] o_def del: upt_Suc)
      qed (use ds slept in simp)
      with all False False' show ?thesis by (auto simp: less_Suc_eq_0_disj)
    qed
  qed
qed simp

text \<open>Delays below a doubling bound add up to less than twice the last bound.\<close>

lemma sum_of_doubled:
  fixes d :: "nat \<Rightarrow> rat"
  assumes "0 < m" "\<forall>i < m. d i < c * 2 ^ i"
  shows "sum_list (map d [0..<m]) < c * (2 ^ m - 1)"
  using assms
proof (induction m rule: nat_induct_non_zero)
  case (Suc n)
  then have "sum_list (map d [0..<n]) < c * (2 ^ n - 1)" "d n < c * 2 ^ n" by simp_all
  then show ?case by (simp add: algebra_simps)
qed simp

text \<open>
  The older sender makes at most five attempts and succeeds exactly when one of them does; it sleeps at most four times, and
  with the jitter drawn from 0 to 1 for less than 18 minutes in all: the delay planned after the last attempt is never slept.
\<close>

theorem older_webhook_bounds:
  assumes "\<And>i. 0 \<le> rnd i \<and> rnd i < 1"
    and "sendSignedWebhook hm e rnd (Some f) payload secret url = Inr ((ok, s, t), slept)"
  shows "let req = \<lparr>sp_url = url, sp_body = json_stringify payload, sp_signature = hm secret (json_stringify payload), sp_timestamp = nowIso e\<rparr>
     in (ok \<longleftrightarrow> (\<exists>j < 5. fetched_ok (f req j))) \<and> length slept \<le> 4 \<and> sum_list slept < 1080000"
proof -
  define req where "req = \<lparr>sp_url = url, sp_body = json_stringify payload, sp_signature = hm secret (json_stringify payload), sp_timestamp = nowIso e\<rparr>"
  have run: "attempt_loop (f req) (getRetryPlan rnd 5) 0 5 0 [] = ((ok, s, t), slept)"
    using assms(2) by (simp add: sendSignedWebhook_def Let_def req_def split: if_splits)
  note loop = attempt_loop_result [OF run]
  have ok: "ok \<longleftrightarrow> (\<exists>j < 5. fetched_ok (f req j))"
    using loop by (auto simp: fetched_ok_def split: if_splits)
  obtain m where m: "m \<le> 4" "slept = map (\<lambda>i. getRetryPlan rnd 5 ! i) [0..<m]"
  proof (cases ok)
    case True
    with loop obtain j where "j < 5" "slept = map (\<lambda>i. getRetryPlan rnd 5 ! (0 + i)) [0..<j]" by auto
    with that [of j] show ?thesis by simp
  next
    case False
    with loop that [of 4] show ?thesis by simp
  qed
  have delay: "0 \<le> getRetryPlan rnd 5 ! i \<and> getRetryPlan rnd 5 ! i < 72000 * 2 ^ i" if "i < 5" for i
    using that assms(1) [of i] by (simp add: getRetryPlan_def)
  have "sum_list slept < 1080000"
  proof (cases "m = 0")
    case False
    with sum_of_doubled [of m "(!) (getRetryPlan rnd 5)" 72000] m delay
    have "sum_list slept < 72000 * (2 ^ m - 1)" by simp
    also have "\<dots> \<le> 72000 * (2 ^ 4 - 1)" using power_increasing [OF m(1), of "2 :: rat"] by simp
    finally show ?thesis by simp
  qed (use m in simp)
  with ok m show ?thesis by (simp add: req_def [symmetric])
qed

section \<open>The tax record\<close>

definition maskPin :: "jsval \<Rightarrow> string" where
  "maskPin pin =
     (let s = (if is_str pin then the_str pin else if pin = JUndefined \<or> pin = JNull then [] else js_String pin)
      in if s = [] then ''***''
         else if length s \<le> 4 then replicate (length s) CHR ''*''
         else replicate (length s - 4) CHR ''*'' @ drop (length s - 4) s)"

text \<open>\<^verbatim>\<open>Number\<close> on a text is a parameter, None when it is not finite.\<close>

definition parseTotalAmount :: "(string \<Rightarrow> rat option) \<Rightarrow> jsval \<Rightarrow> rat option" where
  "parseTotalAmount num amt = (case amt of JNum i \<Rightarrow> Some (of_int i) | JStr s \<Rightarrow> num s | _ \<Rightarrow> None)"

definition getInvoiceNumber :: "string \<Rightarrow> jsval \<Rightarrow> string" where
  "getInvoiceNumber uuid h =
     (let candidate = first_non_nullish [member h ''invoiceNumber'', member h ''invoiceNumberUuid'', member h ''invoice_no'', JNull]
      in if is_str candidate \<and> 8 \<le> length (the_str candidate) then the_str candidate else uuid)"

definition getCustomerPin :: "jsval \<Rightarrow> string" where
  "getCustomerPin h = maskPin (first_non_nullish [member h ''customerPin'', member h ''pin'', member h ''customer_pin''])"

definition id_text :: "jsval \<Rightarrow> string option" where
  "id_text v = (if is_str v then Some (the_str v) else if v = JUndefined \<or> v = JNull then None else Some (js_String v))"

definition getBuyerSellerIds :: "jsval \<Rightarrow> string option \<times> string option" where
  "getBuyerSellerIds h =
     (id_text (first_non_nullish [member h ''buyerId'', member h ''buyer_id'', member h ''senderId'', member h ''sender_id'']),
      id_text (first_non_nullish [member h ''sellerId'', member h ''seller_id'', member h ''receiverId'', member h ''receiver_id'']))"

record etims_record =
  et_invoiceNumber :: string
  et_customerPinMasked :: string
  et_itemDescription :: string
  et_totalAmount :: rat
  et_taxAmount :: rat
  et_buyerIdHash :: "string option"
  et_sellerIdHash :: "string option"
  et_loggedAt :: string
  et_version :: nat

definition hash_id :: "hashfn \<Rightarrow> string option \<Rightarrow> string option" where
  "hash_id h v = (case v of None \<Rightarrow> None | Some s \<Rightarrow> if s = [] then None else Some (h s))"

definition etims_record_of :: "hashfn \<Rightarrow> (string \<Rightarrow> rat option) \<Rightarrow> string \<Rightarrow> env \<Rightarrow> jsval \<Rightarrow> etims_record option" where
  "etims_record_of sha num uuid e h =
     (case parseTotalAmount num (first_non_nullish [member h ''totalAmount'', member h ''total'', member h ''amount'']) of
        None \<Rightarrow> None
      | Some amt \<Rightarrow>
          (let (buyer, seller) = getBuyerSellerIds h; fee = amt * (3 / 100)
           in Some \<lparr>et_invoiceNumber = getInvoiceNumber uuid h, et_customerPinMasked = getCustomerPin h,
                    et_itemDescription = ''Automated Escrow Service'', et_totalAmount = amt, et_taxAmount = fee * (16 / 100),
                    et_buyerIdHash = hash_id sha buyer, et_sellerIdHash = hash_id sha seller, et_loggedAt = nowIso e, et_version = 1\<rparr>))"

text \<open>The journal, a record per line; a failing file system is swallowed.\<close>

definition logToETIMS ::
  "hashfn \<Rightarrow> (string \<Rightarrow> rat option) \<Rightarrow> string \<Rightarrow> env \<Rightarrow> bool \<Rightarrow> jsval \<Rightarrow> etims_record list \<Rightarrow> etims_record list" where
  "logToETIMS sha num uuid e fsOk h journal =
     (case etims_record_of sha num uuid e h of None \<Rightarrow> journal | Some r \<Rightarrow> if fsOk then journal @ [r] else journal)"

text \<open>
  What a tax record tells of a PIN is its length and, when it is longer than four, its last four characters: two PINs are
  masked alike exactly when they agree in these.
\<close>

theorem mask_reveals_last_four:
  assumes "a \<noteq> []" "b \<noteq> []"
  shows "maskPin (JStr a) = maskPin (JStr b) \<longleftrightarrow>
     length a = length b \<and> (length a \<le> 4 \<or> drop (length a - 4) a = drop (length b - 4) b)"
proof -
  have len: "length (maskPin (JStr s)) = length s" if "s \<noteq> []" for s
    using that by (simp add: maskPin_def Let_def)
  show ?thesis
  proof (cases "length a = length b")
    case True
    then show ?thesis using assms by (auto simp: maskPin_def Let_def)
  next
    case False
    then have "maskPin (JStr a) \<noteq> maskPin (JStr b)" using len [OF assms(1)] len [OF assms(2)] by metis
    with False show ?thesis by blast
  qed
qed

lemma logged_tax:
  assumes "logToETIMS sha num uuid e fsOk h journal = journal @ [r]"
  shows "et_taxAmount r = et_totalAmount r * (48 / 10000) \<and> et_itemDescription r = ''Automated Escrow Service''"
  using assms by (auto simp: logToETIMS_def etims_record_of_def Let_def split: option.splits if_splits prod.splits)

section \<open>The session store of the mobile client\<close>

text \<open>
  The keychain module on its own state: setting, reading (no entry, or an entry whose password may be missing) and resetting a
  service.
\<close>

record 's keychain =
  kc_set :: "string \<Rightarrow> string \<Rightarrow> 's \<Rightarrow> 's js_result"
  kc_get :: "string \<Rightarrow> 's \<Rightarrow> jsval option js_result"
  kc_reset :: "string \<Rightarrow> 's \<Rightarrow> 's js_result"

definition assertNonEmptyString :: "jsval \<Rightarrow> string \<Rightarrow> string js_result" where
  "assertNonEmptyString v name =
     (if is_str v \<and> js_trim (the_str v) \<noteq> [] then Inr (the_str v) else Inl (TypeError (name @ '' must be a non-empty string'')))"

text \<open>The import of the module may throw, and its result may be no object.\<close>

datatype 's import_result = ImportThrows js_error | NoModule | Module "'s keychain"

definition loadKeychain :: "'s import_result \<Rightarrow> 's keychain js_result" where
  "loadKeychain m =
     (case m of ImportThrows err \<Rightarrow> Inl err
      | NoModule \<Rightarrow> Inl (JsError ''react-native-keychain is not available in this runtime'')
      | Module k \<Rightarrow> Inr k)"

definition newSecureStorage :: "jsval \<Rightarrow> string js_result" where
  "newSecureStorage accountId =
     assertNonEmptyString (if accountId = JUndefined then JStr ''univer-escrow-session'' else accountId) ''accountId''"

definition lock_token :: "'s import_result \<Rightarrow> string \<Rightarrow> jsval \<Rightarrow> 's \<Rightarrow> 's js_result" where
  "lock_token m accountId token st =
     bind_result (assertNonEmptyString token ''token'') (\<lambda>t. bind_result (loadKeychain m) (\<lambda>k. kc_set k accountId t st))"

definition retrieve_token :: "'s import_result \<Rightarrow> string \<Rightarrow> 's \<Rightarrow> string option js_result" where
  "retrieve_token m accountId st =
     bind_result (loadKeychain m) (\<lambda>k. bind_result (kc_get k accountId st) (\<lambda>r.
       Inr (case r of None \<Rightarrow> None
            | Some p \<Rightarrow> if is_str p \<and> js_trim (the_str p) \<noteq> [] then Some (the_str p) else None)))"

definition wipe_token :: "'s import_result \<Rightarrow> string \<Rightarrow> 's \<Rightarrow> 's js_result" where
  "wipe_token m accountId st = bind_result (loadKeychain m) (\<lambda>k. kc_reset k accountId st)"

text \<open>
  On a keychain that returns what was set and nothing after a reset, a locked token is retrieved as it was, and a wiped one
  not at all.
\<close>

theorem session_token_roundtrip:
  assumes "\<And>i t st st'. kc_set k i t st = Inr st' \<Longrightarrow> kc_get k i st' = Inr (Some (JStr t))"
    and "\<And>i st st'. kc_reset k i st = Inr st' \<Longrightarrow> kc_get k i st' = Inr None"
    and "lock_token (Module k) i token st = Inr st1" "wipe_token (Module k) i st1 = Inr st2"
  shows "\<exists>t. token = JStr t \<and> js_trim t \<noteq> [] \<and> retrieve_token (Module k) i st1 = Inr (Some t) \<and> retrieve_token (Module k) i st2 = Inr None"
proof -
  obtain t where t: "token = JStr t" "js_trim t \<noteq> []" "kc_set k i t st = Inr st1"
    using assms(3) by (cases token) (auto simp: lock_token_def assertNonEmptyString_def loadKeychain_def split: if_splits)
  have "kc_reset k i st1 = Inr st2" using assms(4) by (simp add: wipe_token_def loadKeychain_def)
  from assms(1) [OF t(3)] assms(2) [OF this] t show ?thesis by (simp add: retrieve_token_def loadKeychain_def)
qed

section \<open>The mobile gateway client\<close>

definition settlement_account :: "string option \<Rightarrow> string" where
  "settlement_account v = (case v of None \<Rightarrow> ''FALLBACK_POOL'' | Some s \<Rightarrow> if s = [] then ''FALLBACK_POOL'' else s)"

record validated_payload =
  vp_status :: string
  vp_tenant :: string
  vp_routingTarget :: string
  vp_timestamp :: string

definition initiateTransaction :: "string option \<Rightarrow> env \<Rightarrow> int \<Rightarrow> string \<Rightarrow> validated_payload js_result" where
  "initiateTransaction account e amount tenantId =
     (if settlement_account account = ''FALLBACK_POOL''
      then Inl (JsError ''CRITICAL: Settlement account environment variable is not configured.'')
      else Inr \<lparr>vp_status = ''VALIDATED'', vp_tenant = tenantId, vp_routingTarget = settlement_account account, vp_timestamp = nowIso e\<rparr>)"

text \<open>The answer says that the transaction is validated, whatever its amount.\<close>

lemma validated_whatever_the_amount:
  "initiateTransaction account e amount tenantId = initiateTransaction account e amount' tenantId"
  by (simp add: initiateTransaction_def)

section \<open>Concrete instances\<close>

theorem older_webhook_bounds_witness:
  "\<exists>ok s t slept. sendSignedWebhook (\<lambda>k m. m) (sample_env 1) (\<lambda>i. 1 / 2) (Some (\<lambda>r j. Fetched (j = 3) 500 ''x'')) JNull ''s'' ''u'' = Inr ((ok, s, t), slept)
     \<and> ok \<and> sum_list slept < 1080000"
proof -
  obtain ok s t slept where
    run: "sendSignedWebhook (\<lambda>k m. m) (sample_env 1) (\<lambda>i. 1 / 2) (Some (\<lambda>r j. Fetched (j = 3) 500 ''x'')) JNull ''s'' ''u'' = Inr ((ok, s, t), slept)"
    by (simp add: sendSignedWebhook_def Let_def) (metis prod.collapse)
  have "\<And>i :: nat. 0 \<le> (1 / 2 :: rat) \<and> (1 / 2 :: rat) < 1" by simp
  from older_webhook_bounds [OF this run] run show ?thesis by (auto simp: fetched_ok_def Let_def)
qed

theorem mask_reveals_last_four_witness: "maskPin (JStr ''A001234567Z'') \<noteq> maskPin (JStr ''A001234568Z'')"
  using mask_reveals_last_four [of "''A001234567Z''" "''A001234568Z''"] by simp

definition map_keychain :: "(string \<Rightarrow> string option) keychain" where
  "map_keychain = \<lparr>kc_set = (\<lambda>i t st. Inr (st(i \<mapsto> t))), kc_get = (\<lambda>i st. Inr (map_option JStr (st i))), kc_reset = (\<lambda>i st. Inr (st(i := None)))\<rparr>"

theorem session_token_roundtrip_witness:
  "retrieve_token (Module map_keychain) ''acc'' [''acc'' \<mapsto> ''tok''] = Inr (Some ''tok'')"
proof -
  have "js_trim ''tok'' \<noteq> []" by code_simp
  then have l: "lock_token (Module map_keychain) ''acc'' (JStr ''tok'') Map.empty = Inr [''acc'' \<mapsto> ''tok'']"
    by (simp add: lock_token_def assertNonEmptyString_def loadKeychain_def map_keychain_def)
  have w: "wipe_token (Module map_keychain) ''acc'' [''acc'' \<mapsto> ''tok''] = Inr (Map.empty)"
    by (simp add: wipe_token_def loadKeychain_def map_keychain_def fun_eq_iff)
  from session_token_roundtrip [OF _ _ l w] show ?thesis by (auto simp: map_keychain_def)
qed

end
