(* ===== verification/Raft.thy ===== *)
theory Raft
  imports Auditor Bft
begin

text \<open>
  The replicated log of \<^verbatim>\<open>consensus/EnclaveRaftEngine.ts\<close>: appending, the majority commit kept for
  compatibility, and the commit gated by a Byzantine quorum payload. A commit writes through
  \<^verbatim>\<open>DatabaseService.saveRecord\<close>, so the node state goes along.
\<close>

section \<open>State\<close>

datatype raft_role = FOLLOWER | CANDIDATE | LEADER

record raft_entry =
  re_term :: int
  re_index :: int
  re_record :: EscrowRecord

record raft_state =
  currentTerm :: int
  currentRole :: raft_role
  votedFor :: "string option"
  raft_log :: "raft_entry list"
  commitIndex :: int
  failClosed :: bool

definition new_raft :: raft_state where
  "new_raft = \<lparr>currentTerm = 0, currentRole = FOLLOWER, votedFor = None, raft_log = [], commitIndex = 0, failClosed = True\<rparr>"

definition resetEngine :: "raft_state \<Rightarrow> raft_state" where
  "resetEngine r = r\<lparr>currentTerm := 0, currentRole := FOLLOWER, votedFor := None, raft_log := [], commitIndex := 0\<rparr>"

definition requiredQuorumAcks :: "int \<Rightarrow> int" where
  "requiredQuorumAcks clusterSize = clusterSize div 2 + 1"

definition hasQuorum :: "int \<Rightarrow> int \<Rightarrow> bool" where
  "hasQuorum ackCount clusterSize \<longleftrightarrow> requiredQuorumAcks clusterSize \<le> ackCount"

definition appendLocalLog :: "EscrowRecord \<Rightarrow> raft_state \<Rightarrow> raft_state \<times> raft_entry" where
  "appendLocalLog rec r =
     (let entry = \<lparr>re_term = currentTerm r, re_index = int (length (raft_log r)) + 1, re_record = rec\<rparr>
      in (r\<lparr>raft_log := raft_log r @ [entry]\<rparr>, entry))"

definition find_entry :: "int \<Rightarrow> raft_state \<Rightarrow> raft_entry option" where
  "find_entry i r = find (\<lambda>e. re_index e = i) (raft_log r)"

section \<open>Commits\<close>

datatype commit_result = Committed | NotCommitted string

definition finish_commit ::
  "hashfn \<Rightarrow> env \<Rightarrow> (broadcast_request \<Rightarrow> fetch_result) \<Rightarrow> int \<Rightarrow> raft_entry \<Rightarrow> raft_state \<Rightarrow> 'a node_scheme
     \<Rightarrow> raft_state \<times> 'a node_scheme \<times> commit_result js_result" where
  "finish_commit h e bnet entryIndex entry r nd =
     (case saveRecord h e bnet (re_record entry) nd of
        (nd', Inl err) \<Rightarrow> (r, nd', Inl err)
      | (nd', Inr u) \<Rightarrow> (r\<lparr>commitIndex := entryIndex\<rparr>, nd', Inr Committed))"

definition commitToLedgerIfQuorum ::
  "hashfn \<Rightarrow> env \<Rightarrow> (broadcast_request \<Rightarrow> fetch_result) \<Rightarrow> int \<Rightarrow> int \<Rightarrow> int \<Rightarrow> raft_state \<Rightarrow> 'a node_scheme
     \<Rightarrow> raft_state \<times> 'a node_scheme \<times> commit_result js_result" where
  "commitToLedgerIfQuorum h e bnet entryIndex ackCount clusterSize r nd =
     (case find_entry entryIndex r of
        None \<Rightarrow> (r, nd, Inr (NotCommitted ''MISSING_ENTRY''))
      | Some entry \<Rightarrow>
          if \<not> hasQuorum ackCount clusterSize \<and> failClosed r then (r, nd, Inr (NotCommitted ''QUORUM_FAILED''))
          else if entryIndex \<le> commitIndex r then (r, nd, Inr (NotCommitted ''ALREADY_COMMITTED''))
          else finish_commit h e bnet entryIndex entry r nd)"

record bft_payload =
  bp_clusterSize :: int
  bp_f :: int
  bp_threshold :: int
  bp_uniqueNodeIds :: "string list"
  bp_shares :: "verification_share option list"

record bft_commit =
  bc_entryIndex :: int
  bc_clusterSize :: int
  bc_proposalCommitment :: string
  bc_consensusTerm :: int
  bc_index :: int
  bc_payload :: "bft_payload option"

text \<open>The loop over the shares: the reason of the first bad one, or the distinct node ids seen.\<close>

fun scan_shares :: "int \<Rightarrow> int \<Rightarrow> verification_share option list \<Rightarrow> string list \<Rightarrow> string + string list" where
  "scan_shares trm idx [] seen = Inr seen"
| "scan_shares trm idx (None # r) seen = Inl ''MALFORMED_SHARE''"
| "scan_shares trm idx (Some s # r) seen =
     (if vs_consensusTerm s \<noteq> trm then Inl ''SHARE_TERM_MISMATCH''
      else if vs_index s \<noteq> idx then Inl ''SHARE_INDEX_MISMATCH''
      else scan_shares trm idx r (List.insert (vs_nodeId s) seen))"

definition first_share :: "verification_share option list \<Rightarrow> verification_share option" where
  "first_share shares = (case shares of [] \<Rightarrow> None | s # _ \<Rightarrow> s)"

text \<open>The checks on the payload, in order; None when they all pass.\<close>

definition check_bft_payload :: "bft_commit \<Rightarrow> raft_entry \<Rightarrow> bft_payload \<Rightarrow> string option" where
  "check_bft_payload p entry pl =
     (let fExpected = (bc_clusterSize p - 1) div 3; thresholdExpected = 2 * fExpected + 1 in
      if bp_clusterSize pl \<noteq> bc_clusterSize p then Some ''PAYLOAD_CLUSTER_SIZE_MISMATCH''
      else if bp_f pl \<noteq> fExpected then Some ''PAYLOAD_F_MISMATCH''
      else if bp_threshold pl \<noteq> thresholdExpected then Some ''PAYLOAD_THRESHOLD_MISMATCH''
      else if int (length (bp_uniqueNodeIds pl)) < bp_threshold pl then Some ''BFT_THRESHOLD_NOT_REACHED''
      else if int (length (bp_shares pl)) < bp_threshold pl then Some ''BFT_THRESHOLD_NOT_REACHED''
      else if escrowRecordLeafHash (re_record entry) \<noteq> bc_proposalCommitment p then Some ''COMMITMENT_RECORD_MISMATCH''
      else if map_option vs_consensusTerm (first_share (bp_shares pl)) \<noteq> Some (bc_consensusTerm p)
      then Some ''CONSENSUS_TERM_MISMATCH''
      else if map_option vs_index (first_share (bp_shares pl)) \<noteq> Some (bc_index p) then Some ''INDEX_MISMATCH''
      else (case scan_shares (bc_consensusTerm p) (bc_index p) (bp_shares pl) [] of
              Inl reason \<Rightarrow> Some reason
            | Inr seen \<Rightarrow> if int (length seen) < bp_threshold pl then Some ''BFT_THRESHOLD_NOT_REACHED'' else None))"

definition commitToLedgerIfBftQuorum ::
  "hashfn \<Rightarrow> env \<Rightarrow> (broadcast_request \<Rightarrow> fetch_result) \<Rightarrow> bft_commit \<Rightarrow> raft_state \<Rightarrow> 'a node_scheme
     \<Rightarrow> raft_state \<times> 'a node_scheme \<times> commit_result js_result" where
  "commitToLedgerIfBftQuorum h e bnet p r nd =
     (case find_entry (bc_entryIndex p) r of
        None \<Rightarrow> (r, nd, Inr (NotCommitted ''MISSING_ENTRY''))
      | Some entry \<Rightarrow>
          if bc_entryIndex p \<le> commitIndex r then (r, nd, Inr (NotCommitted ''ALREADY_COMMITTED''))
          else (case bc_payload p of
                  None \<Rightarrow> (r, nd, Inr (NotCommitted (if failClosed r then ''MISSING_BFT_PAYLOAD''
                                                 else ''MISSING_BFT_PAYLOAD_NON_FAIL_CLOSED'')))
                | Some pl \<Rightarrow>
                    (case check_bft_payload p entry pl of
                       Some reason \<Rightarrow> (r, nd, Inr (NotCommitted reason))
                     | None \<Rightarrow> finish_commit h e bnet (bc_entryIndex p) entry r nd)))"

section \<open>The log\<close>

definition log_ok :: "raft_state \<Rightarrow> bool" where
  "log_ok r \<longleftrightarrow> map re_index (raft_log r) = map int [1..<length (raft_log r) + 1]
     \<and> 0 \<le> commitIndex r \<and> commitIndex r \<le> int (length (raft_log r))"

lemma log_ok_append: "log_ok r \<Longrightarrow> log_ok (fst (appendLocalLog rec r))"
  by (simp add: log_ok_def appendLocalLog_def Let_def)

lemma log_ok_new: "log_ok new_raft"
  by (simp add: log_ok_def new_raft_def)

lemma log_ok_reset: "log_ok (resetEngine r)"
  by (simp add: log_ok_def resetEngine_def)

lemma log_index:
  assumes "log_ok r" "i < length (raft_log r)"
  shows "re_index (raft_log r ! i) = int i + 1"
proof -
  have "re_index (raft_log r ! i) = map re_index (raft_log r) ! i" using assms(2) by simp
  also have "\<dots> = map int [1..<length (raft_log r) + 1] ! i" using assms(1) by (simp only: log_ok_def)
  also have "\<dots> = int i + 1" using assms(2) by (simp del: upt_Suc)
  finally show ?thesis .
qed

lemma find_entry_Some:
  assumes "find_entry i r = Some en"
  shows "en \<in> set (raft_log r) \<and> re_index en = i"
  using find_Some_mem [OF assms [unfolded find_entry_def]] by simp

lemma find_entry_range:
  assumes "log_ok r" "find_entry i r = Some en"
  shows "1 \<le> i \<and> i \<le> int (length (raft_log r))"
proof -
  obtain k where "k < length (raft_log r)" "en = raft_log r ! k"
    using find_entry_Some [OF assms(2)] by (auto simp: in_set_conv_nth)
  then show ?thesis using find_entry_Some [OF assms(2)] log_index [OF assms(1)] by auto
qed

lemma scan_shares_Inr:
  "scan_shares trm idx shares seen = Inr ids \<Longrightarrow> distinct seen \<Longrightarrow>
     distinct ids \<and> set ids = set seen \<union> {vs_nodeId s | s. Some s \<in> set shares}
     \<and> (\<forall>x \<in> set shares. \<exists>s. x = Some s \<and> vs_consensusTerm s = trm \<and> vs_index s = idx)"
  by (induction trm idx shares seen rule: scan_shares.induct) (auto split: if_splits)

section \<open>The majority rule\<close>

definition raft_majority :: "nat \<Rightarrow> nat" where
  "raft_majority n = nat (requiredQuorumAcks (int n))"

lemma raft_majority_eq: "raft_majority n = n div 2 + 1"
  unfolding raft_majority_def requiredQuorumAcks_def by linarith

interpretation raft: quorum_rule n 0 "raft_majority n" for n
  by unfold_locales (simp add: raft_majority_eq)

section \<open>Steps\<close>

inductive raft_step :: "hashfn \<Rightarrow> raft_state \<times> node \<Rightarrow> raft_state \<times> node \<Rightarrow> bool" for h where
  append: "raft_step h (r, nd) (fst (appendLocalLog rec r), nd)"
| majority: "commitToLedgerIfQuorum h e bnet i acks n r nd = (r', nd', res) \<Longrightarrow> raft_step h (r, nd) (r', nd')"
| bft: "commitToLedgerIfBftQuorum h e bnet p r nd = (r', nd', res) \<Longrightarrow> raft_step h (r, nd) (r', nd')"

inductive_cases raft_step_cases: "raft_step h (r, nd) s'"

lemma finish_commit_cases:
  assumes "finish_commit h e bnet i entry r nd = (r', nd', res)"
  shows "(res = Inr Committed \<and> r' = r\<lparr>commitIndex := i\<rparr> \<and> saveRecord h e bnet (re_record entry) nd = (nd', Inr ()))
       \<or> (\<exists>err. res = Inl err \<and> r' = r)"
  using assms by (auto simp: finish_commit_def split: prod.splits sum.splits)

lemma majority_cases:
  assumes "commitToLedgerIfQuorum h e bnet i acks n r nd = (r', nd', res)"
  shows "(\<exists>reason. res = Inr (NotCommitted reason) \<and> r' = r \<and> nd' = nd)
       \<or> (\<exists>entry. find_entry i r = Some entry \<and> commitIndex r < i \<and> (failClosed r \<longrightarrow> hasQuorum acks n)
            \<and> finish_commit h e bnet i entry r nd = (r', nd', res))"
  using assms by (auto simp: commitToLedgerIfQuorum_def split: option.splits if_splits)

lemma bft_cases:
  assumes "commitToLedgerIfBftQuorum h e bnet p r nd = (r', nd', res)"
  shows "(\<exists>reason. res = Inr (NotCommitted reason) \<and> r' = r \<and> nd' = nd)
       \<or> (\<exists>entry pl. find_entry (bc_entryIndex p) r = Some entry \<and> commitIndex r < bc_entryIndex p
            \<and> bc_payload p = Some pl \<and> check_bft_payload p entry pl = None
            \<and> finish_commit h e bnet (bc_entryIndex p) entry r nd = (r', nd', res))"
  using assms by (auto simp: commitToLedgerIfBftQuorum_def split: option.splits if_splits)

lemmas commit_cases = majority_cases bft_cases finish_commit_cases

lemma raft_step_facts:
  assumes "raft_step h (r, nd) (r', nd')" "log_ok r"
  shows "log_ok r' \<and> commitIndex r \<le> commitIndex r' \<and> take (length (raft_log r)) (raft_log r') = raft_log r"
  using assms(1)
proof (cases rule: raft_step.cases)
  case (append rec)
  then show ?thesis using log_ok_append [OF assms(2), of rec] by (simp add: appendLocalLog_def Let_def)
next
  case (majority e bnet i acks n res)
  consider "r' = r" | en where "find_entry i r = Some en" "commitIndex r < i" "r' = r\<lparr>commitIndex := i\<rparr>"
    using majority_cases [OF majority(1)] finish_commit_cases by blast
  then show ?thesis
    using assms(2) find_entry_range [OF assms(2)] by cases (auto simp: log_ok_def)
next
  case (bft e bnet p res)
  consider "r' = r" | en where "find_entry (bc_entryIndex p) r = Some en" "commitIndex r < bc_entryIndex p"
      "r' = r\<lparr>commitIndex := bc_entryIndex p\<rparr>"
    using bft_cases [OF bft(1)] finish_commit_cases by blast
  then show ?thesis
    using assms(2) find_entry_range [OF assms(2)] by cases (auto simp: log_ok_def)
qed

section \<open>Properties\<close>


text \<open>
  C17. A Byzantine commit writes only what a quorum asked for: the entry is in the log and beyond the commit
  index, its leaf hash is the proposal's, and at least \<open>2f+1\<close> different nodes sent a share, all of
  them with the proposal's term and index. Anything else leaves log and ledger as they were.
\<close>

theorem bft_commit_needs_quorum:
  assumes "commitToLedgerIfBftQuorum h e bnet p r nd = (r', nd', Inr out)"
  shows "(out = Committed \<longrightarrow>
      (\<exists>entry pl. entry \<in> set (raft_log r) \<and> re_index entry = bc_entryIndex p \<and> commitIndex r < bc_entryIndex p
         \<and> bc_payload p = Some pl \<and> escrowRecordLeafHash (re_record entry) = bc_proposalCommitment p
         \<and> (\<forall>x \<in> set (bp_shares pl). \<exists>s. x = Some s \<and> vs_consensusTerm s = bc_consensusTerm p \<and> vs_index s = bc_index p)
         \<and> snd (quorumThreshold (bc_clusterSize p)) \<le> int (card {vs_nodeId s | s. Some s \<in> set (bp_shares pl)})
         \<and> r' = r\<lparr>commitIndex := bc_entryIndex p\<rparr> \<and> saveRecord h e bnet (re_record entry) nd = (nd', Inr ())))
     \<and> (out \<noteq> Committed \<longrightarrow> r' = r \<and> nd' = nd)"
  using bft_cases [OF assms]
proof (elim disjE exE conjE)
  fix reason
  assume "Inr out = Inr (NotCommitted reason)" "r' = r" "nd' = nd"
  then show ?thesis by simp
next
  fix entry pl
  assume found: "find_entry (bc_entryIndex p) r = Some entry" "commitIndex r < bc_entryIndex p" "bc_payload p = Some pl"
    and check: "check_bft_payload p entry pl = None"
    and fin: "finish_commit h e bnet (bc_entryIndex p) entry r nd = (r', nd', Inr out)"
  obtain ids where ids: "scan_shares (bc_consensusTerm p) (bc_index p) (bp_shares pl) [] = Inr ids"
    "bp_threshold pl \<le> int (length ids)"
    and leaf: "escrowRecordLeafHash (re_record entry) = bc_proposalCommitment p"
    and thr: "bp_threshold pl = snd (quorumThreshold (bc_clusterSize p))"
    using check by (auto simp: check_bft_payload_def quorumThreshold_def Let_def split: if_splits sum.splits)
  note scan = scan_shares_Inr [OF ids(1)]
  have "int (length ids) = int (card {vs_nodeId s | s. Some s \<in> set (bp_shares pl)})"
    using scan distinct_card [of ids] by simp
  with ids(2) thr have "snd (quorumThreshold (bc_clusterSize p)) \<le> int (card {vs_nodeId s | s. Some s \<in> set (bp_shares pl)})"
    by simp
  then show ?thesis
    using finish_commit_cases [OF fin] found find_entry_Some [OF found(1)] leaf scan by auto
qed

text \<open>
  The compatibility commit is fail-closed by a flag only: with the flag up it needs a majority of
  acknowledgements, with the flag down it writes an entry nobody acknowledged.
\<close>

theorem majority_commit_iff:
  assumes "find_entry i r = Some entry" "commitIndex r < i" "saveRecord h e bnet (re_record entry) nd = (nd', Inr ())"
  shows "snd (snd (commitToLedgerIfQuorum h e bnet i acks n r nd)) = Inr Committed
           \<longleftrightarrow> hasQuorum acks n \<or> \<not> failClosed r"
  using assms by (simp add: commitToLedgerIfQuorum_def finish_commit_def)

section \<open>Concrete instances\<close>


definition sample_raft :: raft_state where
  "sample_raft = fst (appendLocalLog sample_record new_raft)"

definition sample_bft_payload :: bft_payload where
  "sample_bft_payload = \<lparr>bp_clusterSize = 1, bp_f = 0, bp_threshold = 1, bp_uniqueNodeIds = [''n1''],
     bp_shares = sample_shares [''n1'']\<rparr>"

definition sample_commit :: bft_commit where
  "sample_commit = \<lparr>bc_entryIndex = 1, bc_clusterSize = 1, bc_proposalCommitment = ''ab'', bc_consensusTerm = 1, bc_index = 1,
     bc_payload = Some sample_bft_payload\<rparr>"

lemma sample_entry:
  "find_entry 1 sample_raft = Some \<lparr>re_term = 0, re_index = 1, re_record = sample_record\<rparr>"
  by (simp add: find_entry_def sample_raft_def appendLocalLog_def new_raft_def Let_def)

lemma sample_save: "\<exists>nd'. saveRecord sample_hash sample_env bnet sample_record sample_node = (nd', Inr ())"
proof (cases "saveRecord sample_hash sample_env bnet sample_record sample_node")
  case (Pair nd' res)
  then show ?thesis using saveRecord_checkpoint(1) [OF sample_hash_hex sample_env_good sample_ready Pair] by simp
qed

theorem bft_commit_needs_quorum_witness:
  "snd (quorumThreshold 1) \<le> int (card {vs_nodeId s | s. Some s \<in> set (sample_shares [''n1''])})"
proof -
  obtain nd' where sv: "saveRecord sample_hash sample_env (\<lambda>r. NetworkError ''down'') sample_record sample_node = (nd', Inr ())"
    using sample_save by blast
  have leaf: "escrowRecordLeafHash sample_record = ''ab''" by (simp add: sample_record_def)
  have idx: "commitIndex sample_raft = 0" by (simp add: sample_raft_def appendLocalLog_def new_raft_def Let_def)
  have run: "commitToLedgerIfBftQuorum sample_hash sample_env (\<lambda>r. NetworkError ''down'') sample_commit sample_raft sample_node
      = (sample_raft\<lparr>commitIndex := 1\<rparr>, nd', Inr Committed)"
    by (simp add: commitToLedgerIfBftQuorum_def sample_commit_def sample_entry idx check_bft_payload_def leaf
        sample_bft_payload_def sample_shares_def first_share_def finish_commit_def sv Let_def)
  show ?thesis
    using bft_commit_needs_quorum [OF run] by (auto simp: sample_commit_def sample_bft_payload_def)
qed

theorem majority_commit_iff_witness:
  "snd (snd (commitToLedgerIfQuorum sample_hash sample_env (\<lambda>r. NetworkError ''down'') 1 0 5 (sample_raft\<lparr>failClosed := False\<rparr>) sample_node))
     = Inr Committed"
proof -
  obtain nd' where sv: "saveRecord sample_hash sample_env (\<lambda>r. NetworkError ''down'') sample_record sample_node = (nd', Inr ())"
    using sample_save by blast
  have "find_entry 1 (sample_raft\<lparr>failClosed := False\<rparr>) = Some \<lparr>re_term = 0, re_index = 1, re_record = sample_record\<rparr>"
    using sample_entry by (simp add: find_entry_def)
  then show ?thesis
    using majority_commit_iff [of 1 "sample_raft\<lparr>failClosed := False\<rparr>" _ sample_hash sample_env "\<lambda>r. NetworkError ''down''" sample_node nd' 0 5] sv
    by (simp add: sample_raft_def appendLocalLog_def new_raft_def Let_def)
qed

end
