(* ===== verification/Reconciliation.thy ===== *)
theory Reconciliation
  imports Raft "HOL-Library.Sublist"
begin

text \<open>
  Recovery of a lagging node: the state snapshots of \<^verbatim>\<open>consensus/EnclaveSnapshotManager.ts\<close> and the
  block-by-block catch-up of \<^verbatim>\<open>consensus/EnclaveReconciliationEngine.ts\<close>. Snapshots that arrive
  from a peer are JSON values; random identifiers are arguments.
\<close>

section \<open>Hash chains\<close>

definition entry_hash :: "hashfn \<Rightarrow> EscrowRecord \<Rightarrow> string" where
  "entry_hash h r = h (json_stringify (encodeRecord r))"

fun chain_from :: "hashfn \<Rightarrow> string \<Rightarrow> EscrowRecord list \<Rightarrow> string" where
  "chain_from h cur [] = cur"
| "chain_from h cur (r # rs) = chain_from h (h (cur @ entry_hash h r)) rs"

definition computeMerkleRoot :: "hashfn \<Rightarrow> EscrowRecord list \<Rightarrow> string" where
  "computeMerkleRoot h entries =
     (case entries of [] \<Rightarrow> h ''EMPTY'' | r # rs \<Rightarrow> chain_from h (entry_hash h r) rs)"

definition computeMerklePath :: "hashfn \<Rightarrow> EscrowRecord list \<Rightarrow> string list" where
  "computeMerklePath h entries = map (entry_hash h) entries"

definition computeBlockMerkleHash :: "hashfn \<Rightarrow> EscrowRecord list \<Rightarrow> string" where
  "computeBlockMerkleHash h entries =
     (case entries of [] \<Rightarrow> h ''EMPTY'' | r # rs \<Rightarrow> chain_from h (entry_hash h r) rs)"

section \<open>Snapshots\<close>

record snapshot_metadata =
  sm_snapshotId :: string
  sm_timestamp :: int
  sm_latestIndex :: int
  sm_latestTerm :: int
  sm_merkleRootHash :: string
  sm_committedTransactionCount :: nat

record quorum_signature =
  qs_nodeId :: string
  qs_signature :: string
  qs_term :: int

record epoch_snapshot =
  es_metadata :: snapshot_metadata
  es_quorumSignatures :: "quorum_signature list"
  es_merklePath :: "string list"
  es_latestEntry :: "EscrowRecord option"

record snapshot_manager =
  snapshots :: "(string, epoch_snapshot) jsmap"
  snapshotHistory :: "epoch_snapshot list"

definition MAX_SNAPSHOT_HISTORY :: nat where
  "MAX_SNAPSHOT_HISTORY = 10"

definition snapshot_id :: "epoch_snapshot \<Rightarrow> string" where
  "snapshot_id s = sm_snapshotId (es_metadata s)"

definition make_snapshot ::
  "hashfn \<Rightarrow> env \<Rightarrow> string \<Rightarrow> int \<Rightarrow> int \<Rightarrow> EscrowRecord list \<Rightarrow> quorum_signature list \<Rightarrow> epoch_snapshot" where
  "make_snapshot h e uuid idx trm entries sigs =
     \<lparr>es_metadata = \<lparr>sm_snapshotId = uuid, sm_timestamp = nowMs e, sm_latestIndex = idx, sm_latestTerm = trm,
                     sm_merkleRootHash = computeMerkleRoot h entries, sm_committedTransactionCount = length entries\<rparr>,
      es_quorumSignatures = sigs, es_merklePath = computeMerklePath h entries,
      es_latestEntry = (if entries = [] then None else Some (last entries))\<rparr>"

definition createSnapshot ::
  "hashfn \<Rightarrow> env \<Rightarrow> string \<Rightarrow> int \<Rightarrow> int \<Rightarrow> EscrowRecord list \<Rightarrow> quorum_signature list \<Rightarrow> snapshot_manager
     \<Rightarrow> snapshot_manager \<times> epoch_snapshot" where
  "createSnapshot h e uuid idx trm entries sigs m =
     (let s = make_snapshot h e uuid idx trm entries sigs;
          m1 = js_set (snapshot_id s) s (snapshots m);
          hist = snapshotHistory m @ [s]
      in if MAX_SNAPSHOT_HISTORY < length hist
         then (\<lparr>snapshots = js_delete (snapshot_id (hd hist)) m1, snapshotHistory = tl hist\<rparr>, s)
         else (\<lparr>snapshots = m1, snapshotHistory = hist\<rparr>, s))"

definition getSnapshot :: "string \<Rightarrow> snapshot_manager \<Rightarrow> epoch_snapshot option" where
  "getSnapshot sid m = js_get (snapshots m) sid"

definition getLatestSnapshot :: "snapshot_manager \<Rightarrow> epoch_snapshot option" where
  "getLatestSnapshot m = (if 0 < length (snapshotHistory m) then Some (last (snapshotHistory m)) else None)"

definition getSnapshotHistory :: "snapshot_manager \<Rightarrow> epoch_snapshot list" where
  "getSnapshotHistory m = snapshotHistory m"

definition test_clear_snapshots :: "snapshot_manager \<Rightarrow> snapshot_manager" where
  "test_clear_snapshots m = m\<lparr>snapshots := [], snapshotHistory := []\<rparr>"

section \<open>Validation of a received snapshot\<close>

record validation =
  vr_valid :: bool
  vr_reason :: "string option"
  vr_quorumMet :: "bool option"
  vr_signatureVerified :: "bool option"

definition invalid :: "string \<Rightarrow> bool option \<Rightarrow> bool option \<Rightarrow> validation" where
  "invalid reason q s = \<lparr>vr_valid = False, vr_reason = Some reason, vr_quorumMet = q, vr_signatureVerified = s\<rparr>"

definition sig_well_formed :: "jsval \<Rightarrow> bool" where
  "sig_well_formed s \<longleftrightarrow> is_str (member s ''nodeId'') \<and> nonempty_str (member s ''signature'') \<and> is_num (member s ''term'')"

text \<open>\<^verbatim>\<open>every\<close> stops at the first malformed signature; reading a member of null throws.\<close>

fun all_signatures :: "jsval list \<Rightarrow> bool js_result" where
  "all_signatures [] = Inr True"
| "all_signatures (s # r) =
     (if s = JNull \<or> s = JUndefined then Inl (TypeError ''Cannot read properties'')
      else if sig_well_formed s then all_signatures r else Inr False)"

definition snapshot_threshold :: "nat \<Rightarrow> nat" where
  "snapshot_threshold n = max 2 ((n * 2 + 2) div 3)"

definition validateSnapshot :: "jsval \<Rightarrow> validation js_result" where
  "validateSnapshot snap =
     (let sigs = member snap ''quorumSignatures''; n = length (the_arr sigs) in
      if \<not> truthy (member snap ''metadata'') \<or> \<not> truthy sigs
      then Inr (invalid ''Missing required snapshot fields'' None None)
      else if \<not> is_arr sigs \<or> n = 0 then Inr (invalid ''No quorum signatures present'' None None)
      else if n < snapshot_threshold n
      then Inr (invalid (''Insufficient quorum: '' @ show_nat n @ '' < '' @ show_nat (snapshot_threshold n)) (Some False) None)
      else bind_result (all_signatures (the_arr sigs)) (\<lambda>ok.
        if \<not> ok then Inr (invalid ''Invalid signature format'' None (Some False))
        else if \<not> is_arr (member snap ''merklePath'') then Inr (invalid ''Invalid Merkle path format'' None None)
        else Inr \<lparr>vr_valid = True, vr_reason = None, vr_quorumMet = Some True, vr_signatureVerified = Some True\<rparr>))"

section \<open>Catch-up\<close>

record catch_up_block =
  cb_blockId :: string
  cb_index :: int
  cb_term :: int
  cb_entries :: "EscrowRecord list"
  cb_merkleHash :: string
  cb_signature :: string
  cb_previousMerkleHash :: string

record reconciliation_state =
  rs_isReconciling :: bool
  rs_startedAt :: int
  rs_localIndex :: int
  rs_targetCommitIndex :: int
  rs_blocksApplied :: nat
  rs_lastAppliedMerkleHash :: string

record reconciliation =
  rc_state :: "reconciliation_state option"
  rc_appliedBlocks :: "(int, catch_up_block) jsmap"
  rc_lastAppliedMerkleHash :: string

definition new_reconciliation :: reconciliation where
  "new_reconciliation = \<lparr>rc_state = None, rc_appliedBlocks = [], rc_lastAppliedMerkleHash = ''GENESIS_BLOCK''\<rparr>"

definition detectLag :: "int \<Rightarrow> int \<Rightarrow> bool" where
  "detectLag localIndex clusterCommitIndex \<longleftrightarrow> localIndex < clusterCommitIndex"

definition beginReconciliation :: "env \<Rightarrow> int \<Rightarrow> int \<Rightarrow> reconciliation \<Rightarrow> reconciliation" where
  "beginReconciliation e localIndex target c =
     c\<lparr>rc_state := Some \<lparr>rs_isReconciling = True, rs_startedAt = nowMs e, rs_localIndex = localIndex,
                         rs_targetCommitIndex = target, rs_blocksApplied = 0,
                         rs_lastAppliedMerkleHash = rc_lastAppliedMerkleHash c\<rparr>,
       rc_appliedBlocks := []\<rparr>"

definition last_applied_index :: "reconciliation \<Rightarrow> reconciliation_state \<Rightarrow> int" where
  "last_applied_index c st =
     (if 0 < length (rc_appliedBlocks c) then Max (set (js_keys (rc_appliedBlocks c))) else rs_localIndex st)"

text \<open>None when the block was applied, else the reason of the refusal.\<close>

definition applyCatchUpBlock :: "hashfn \<Rightarrow> catch_up_block \<Rightarrow> reconciliation \<Rightarrow> reconciliation \<times> string option" where
  "applyCatchUpBlock h b c =
     (case rc_state c of
        None \<Rightarrow> (c, Some ''No active reconciliation'')
      | Some st \<Rightarrow>
          let expectedIndex = last_applied_index c st + 1 in
          if \<not> rs_isReconciling st then (c, Some ''No active reconciliation'')
          else if cb_index b \<noteq> expectedIndex
          then (c, Some (''Non-linear block index: expected '' @ show_int expectedIndex @ '', got '' @ show_int (cb_index b)))
          else if cb_previousMerkleHash b \<noteq> rc_lastAppliedMerkleHash c
          then (c, Some ''Merkle chain broken: previous hash mismatch'')
          else if cb_merkleHash b \<noteq> computeBlockMerkleHash h (cb_entries b) then (c, Some ''Block Merkle hash invalid'')
          else if cb_signature b = '''' then (c, Some ''Block missing valid signature'')
          else (c\<lparr>rc_appliedBlocks := js_set (cb_index b) b (rc_appliedBlocks c),
                  rc_lastAppliedMerkleHash := cb_merkleHash b,
                  rc_state := Some (st\<lparr>rs_blocksApplied := rs_blocksApplied st + 1,
                                       rs_lastAppliedMerkleHash := cb_merkleHash b\<rparr>)\<rparr>, None))"

definition applySnapshot :: "jsval \<Rightarrow> reconciliation \<Rightarrow> reconciliation \<times> string option js_result" where
  "applySnapshot snap c =
     (case rc_state c of
        None \<Rightarrow> (c, Inr (Some ''No active reconciliation''))
      | Some st \<Rightarrow>
          if \<not> rs_isReconciling st then (c, Inr (Some ''No active reconciliation''))
          else (case validateSnapshot snap of
                  Inl err \<Rightarrow> (c, Inl err)
                | Inr v \<Rightarrow>
                    let meta = member snap ''metadata''; root = the_str (member meta ''merkleRootHash'') in
                    if \<not> vr_valid v
                    then (c, Inr (Some (''Snapshot validation failed: '' @ (case vr_reason v of None \<Rightarrow> ''undefined'' | Some m \<Rightarrow> m))))
                    else (c\<lparr>rc_lastAppliedMerkleHash := root,
                            rc_state := Some (st\<lparr>rs_blocksApplied := rs_blocksApplied st + 1,
                                                 rs_localIndex := the_num (member meta ''latestIndex''),
                                                 rs_lastAppliedMerkleHash := root\<rparr>)\<rparr>, Inr None)))"

definition completeReconciliation :: "reconciliation \<Rightarrow> reconciliation \<times> reconciliation_state option" where
  "completeReconciliation c =
     (case rc_state c of
        None \<Rightarrow> (c, None)
      | Some st \<Rightarrow> (c\<lparr>rc_state := None\<rparr>, Some (st\<lparr>rs_isReconciling := False\<rparr>)))"

definition isReconciling :: "reconciliation \<Rightarrow> bool" where
  "isReconciling c = (case rc_state c of None \<Rightarrow> False | Some st \<Rightarrow> rs_isReconciling st)"

definition getAppliedBlocks :: "reconciliation \<Rightarrow> catch_up_block list" where
  "getAppliedBlocks c = sort_key cb_index (map snd (rc_appliedBlocks c))"

definition getReconciliationState :: "reconciliation \<Rightarrow> reconciliation_state option" where
  "getReconciliationState c = rc_state c"

definition test_reset :: "reconciliation \<Rightarrow> reconciliation" where
  "test_reset c = c\<lparr>rc_state := None, rc_appliedBlocks := [], rc_lastAppliedMerkleHash := ''GENESIS_BLOCK''\<rparr>"

definition test_set_last_merkle_hash :: "string \<Rightarrow> reconciliation \<Rightarrow> reconciliation" where
  "test_set_last_merkle_hash hash c = c\<lparr>rc_lastAppliedMerkleHash := hash\<rparr>"

section \<open>The snapshot history\<close>

definition history_ok :: "snapshot_manager \<Rightarrow> bool" where
  "history_ok m \<longleftrightarrow> length (snapshotHistory m) \<le> MAX_SNAPSHOT_HISTORY \<and> distinct (map snapshot_id (snapshotHistory m))
     \<and> snapshots m = map (\<lambda>s. (snapshot_id s, s)) (snapshotHistory m)"

lemma js_set_fresh: "k \<notin> fst ` set m \<Longrightarrow> js_set k v m = m @ [(k, v)]"
  by (induction m) auto

lemma history_fresh:
  assumes "history_ok m" "uuid \<notin> snapshot_id ` set (snapshotHistory m)" "snapshot_id s = uuid"
  shows "js_set uuid s (snapshots m) = map (\<lambda>s. (snapshot_id s, s)) (snapshotHistory m @ [s])"
  using assms by (subst js_set_fresh) (auto simp: history_ok_def)

lemma createSnapshot_ok:
  assumes "history_ok m" "uuid \<notin> snapshot_id ` set (snapshotHistory m)"
    and "createSnapshot h e uuid idx trm entries sigs m = (m', s)"
  shows "history_ok m' \<and> s = make_snapshot h e uuid idx trm entries sigs
     \<and> snapshotHistory m' = (if length (snapshotHistory m) = MAX_SNAPSHOT_HISTORY then tl (snapshotHistory m) else snapshotHistory m) @ [s]"
proof -
  let ?s = "make_snapshot h e uuid idx trm entries sigs" and ?H = "snapshotHistory m"
  have id: "snapshot_id ?s = uuid" by (simp add: snapshot_id_def make_snapshot_def)
  note fresh = history_fresh [OF assms(1,2) id]
  show ?thesis
  proof (cases "length ?H = MAX_SNAPSHOT_HISTORY")
    case True
    then obtain x xs where H: "?H = x # xs" by (cases ?H) (auto simp: MAX_SNAPSHOT_HISTORY_def)
    have "js_delete (snapshot_id x) (map (\<lambda>s. (snapshot_id s, s)) (?H @ [?s])) = map (\<lambda>s. (snapshot_id s, s)) (xs @ [?s])"
      using assms(1,2) H id by (subst H) (auto simp: history_ok_def image_iff intro!: delete_id)
    then show ?thesis
      using assms True H fresh id
      by (auto simp: createSnapshot_def Let_def history_ok_def)
  next
    case False
    then show ?thesis
      using assms fresh id by (auto simp: createSnapshot_def Let_def history_ok_def)
  qed
qed

lemma history_get:
  assumes "history_ok m" "s \<in> set (snapshotHistory m)"
  shows "getSnapshot (snapshot_id s) m = Some s"
proof -
  have "distinct (js_keys (snapshots m))" "(snapshot_id s, s) \<in> set (snapshots m)"
    using assms by (auto simp: history_ok_def comp_def)
  then show ?thesis unfolding getSnapshot_def by (rule map_of_is_SomeI)
qed

section \<open>Catch-up chains\<close>

text \<open>Blocks numbered from \<open>l+1\<close>, each with the right hash and pointing at its predecessor's.\<close>

fun chain_ok :: "hashfn \<Rightarrow> int \<Rightarrow> string \<Rightarrow> catch_up_block list \<Rightarrow> bool" where
  "chain_ok h l g [] = True"
| "chain_ok h l g (b # bs) =
     (cb_index b = l + 1 \<and> cb_previousMerkleHash b = g \<and> cb_merkleHash b = computeBlockMerkleHash h (cb_entries b)
      \<and> chain_ok h (l + 1) (cb_merkleHash b) bs)"

definition chain_tip :: "string \<Rightarrow> catch_up_block list \<Rightarrow> string" where
  "chain_tip g bs = (if bs = [] then g else cb_merkleHash (last bs))"

lemma chain_ok_snoc:
  "chain_ok h l g (bs @ [b]) \<longleftrightarrow> chain_ok h l g bs \<and> cb_index b = l + int (length bs) + 1
     \<and> cb_previousMerkleHash b = chain_tip g bs \<and> cb_merkleHash b = computeBlockMerkleHash h (cb_entries b)"
  by (induction bs arbitrary: l g) (auto simp: chain_tip_def)

lemma chain_ok_indices:
  "chain_ok h l g bs \<Longrightarrow> map cb_index bs = map (\<lambda>i. l + 1 + int i) [0..<length bs]"
proof (induction bs rule: rev_induct)
  case (snoc b bs)
  then show ?case by (simp add: chain_ok_snoc)
qed simp

definition catching_up :: "hashfn \<Rightarrow> int \<Rightarrow> string \<Rightarrow> catch_up_block list \<Rightarrow> reconciliation \<Rightarrow> bool" where
  "catching_up h l g bs c \<longleftrightarrow> chain_ok h l g bs
     \<and> rc_appliedBlocks c = map (\<lambda>b. (cb_index b, b)) bs \<and> rc_lastAppliedMerkleHash c = chain_tip g bs
     \<and> (\<exists>st. rc_state c = Some st \<and> rs_isReconciling st \<and> rs_localIndex st = l \<and> rs_blocksApplied st = length bs)"

lemma catching_up_begin:
  "catching_up h l (rc_lastAppliedMerkleHash c) [] (beginReconciliation e l target c)"
  by (simp add: catching_up_def beginReconciliation_def chain_tip_def)

lemma test_hooks_restart:
  "test_reset c = new_reconciliation"
  "catching_up h l g [] (beginReconciliation e l target (test_set_last_merkle_hash g c))"
  by (simp_all add: test_reset_def new_reconciliation_def catching_up_def beginReconciliation_def
      test_set_last_merkle_hash_def chain_tip_def)

lemma last_applied_index_chain:
  assumes "chain_ok h l g bs" "rc_appliedBlocks c = map (\<lambda>b. (cb_index b, b)) bs" "rs_localIndex st = l"
  shows "last_applied_index c st = l + int (length bs)"
proof (cases bs rule: rev_cases)
  case (snoc ys y)
  have idx: "map cb_index bs = map (\<lambda>i. l + 1 + int i) [0..<length bs]" using chain_ok_indices [OF assms(1)] .
  have "Max (set (map cb_index bs)) = l + int (length bs)"
    unfolding idx
  proof (rule Max_eqI)
    show "l + int (length bs) \<in> set (map (\<lambda>i. l + 1 + int i) [0..<length bs])"
      using snoc by (auto simp: image_iff intro!: bexI [of _ "length ys"])
  qed auto
  then show ?thesis using snoc assms(2) by (simp add: last_applied_index_def comp_def)
qed (use assms in \<open>simp add: last_applied_index_def\<close>)

lemma applyCatchUpBlock_step:
  assumes "catching_up h l g bs c" "applyCatchUpBlock h b c = (c', res)"
  shows "(res = None \<and> catching_up h l g (bs @ [b]) c') \<or> (res \<noteq> None \<and> c' = c)"
proof -
  obtain st where st: "rc_state c = Some st" "rs_isReconciling st" "rs_localIndex st = l" "rs_blocksApplied st = length bs"
    and c: "chain_ok h l g bs" "rc_appliedBlocks c = map (\<lambda>b. (cb_index b, b)) bs" "rc_lastAppliedMerkleHash c = chain_tip g bs"
    using assms(1) by (auto simp: catching_up_def)
  have expected: "last_applied_index c st = l + int (length bs)"
    by (rule last_applied_index_chain [OF c(1,2) st(3)])
  show ?thesis
  proof (cases "res = None")
    case True
    then have b: "cb_index b = l + int (length bs) + 1" "cb_previousMerkleHash b = chain_tip g bs"
      "cb_merkleHash b = computeBlockMerkleHash h (cb_entries b)"
      and c': "c' = c\<lparr>rc_appliedBlocks := js_set (cb_index b) b (rc_appliedBlocks c), rc_lastAppliedMerkleHash := cb_merkleHash b,
                  rc_state := Some (st\<lparr>rs_blocksApplied := rs_blocksApplied st + 1, rs_lastAppliedMerkleHash := cb_merkleHash b\<rparr>)\<rparr>"
      using assms(2) st c expected by (auto simp: applyCatchUpBlock_def Let_def split: if_splits)
    have "cb_index b \<notin> set (map cb_index bs)" using chain_ok_indices [OF c(1)] b(1) by auto
    then have "js_set (cb_index b) b (rc_appliedBlocks c) = map (\<lambda>b. (cb_index b, b)) (bs @ [b])"
      using c(2) by (simp add: js_set_fresh image_iff)
    then show ?thesis using True b c' c st by (simp add: catching_up_def chain_ok_snoc chain_tip_def)
  next
    case False
    then show ?thesis using assms(2) st(1) by (auto simp: applyCatchUpBlock_def Let_def split: if_splits)
  qed
qed

lemma catch_up_fold:
  "catching_up h l g done c \<Longrightarrow>
     \<exists>applied. subseq applied bs \<and> catching_up h l g (done @ applied) (fold (\<lambda>b c. fst (applyCatchUpBlock h b c)) bs c)"
proof (induction bs arbitrary: "done" c)
  case (Cons b bs)
  obtain c' res where r: "applyCatchUpBlock h b c = (c', res)" by (cases "applyCatchUpBlock h b c")
  from applyCatchUpBlock_step [OF Cons.prems r] show ?case
  proof (elim disjE conjE)
    assume "catching_up h l g (done @ [b]) c'"
    from Cons.IH [OF this] obtain applied where "subseq applied bs"
      "catching_up h l g ((done @ [b]) @ applied) (fold (\<lambda>b c. fst (applyCatchUpBlock h b c)) bs c')" by blast
    then show ?thesis using r by (intro exI [of _ "b # applied"]) simp
  next
    assume "c' = c"
    with Cons.IH [OF Cons.prems] obtain applied where "subseq applied bs"
      "catching_up h l g (done @ applied) (fold (\<lambda>b c. fst (applyCatchUpBlock h b c)) bs c')" by blast
    then show ?thesis using r by (intro exI [of _ applied]) (auto intro: subseq_Cons')
  qed
qed (use subseq_order.refl in fastforce)

section \<open>Properties\<close>

text \<open>
  C31. Whatever blocks a peer sends, in whatever order, the ones a reconciliation applies form a
  chain: they are numbered consecutively from the local index, every block's hash is the one of
  its entries, and each names its predecessor's hash, the first the hash known locally.
\<close>

theorem catch_up_is_a_chain:
  "let c1 = fold (\<lambda>b c. fst (applyCatchUpBlock h b c)) blocks (beginReconciliation e l target c)
   in \<exists>applied. subseq applied blocks \<and> getAppliedBlocks c1 = applied
        \<and> chain_ok h l (rc_lastAppliedMerkleHash c) applied
        \<and> rc_lastAppliedMerkleHash c1 = chain_tip (rc_lastAppliedMerkleHash c) applied"
proof -
  let ?c1 = "fold (\<lambda>b c. fst (applyCatchUpBlock h b c)) blocks (beginReconciliation e l target c)"
  obtain applied where a: "subseq applied blocks" "catching_up h l (rc_lastAppliedMerkleHash c) ([] @ applied) ?c1"
    using catch_up_fold [OF catching_up_begin] by blast
  then have ch: "chain_ok h l (rc_lastAppliedMerkleHash c) applied"
    "map snd (rc_appliedBlocks ?c1) = applied" "rc_lastAppliedMerkleHash ?c1 = chain_tip (rc_lastAppliedMerkleHash c) applied"
    by (auto simp: catching_up_def comp_def)
  have "sorted (map cb_index applied)"
    unfolding chain_ok_indices [OF ch(1)] by (auto simp: sorted_iff_nth_mono)
  then have "getAppliedBlocks ?c1 = applied" unfolding getAppliedBlocks_def ch(2) by (rule sort_key_id_if_sorted)
  with a(1) ch show ?thesis by (auto simp: Let_def)
qed

text \<open>
  Installing a snapshot in the middle of a catch-up does not move the expected block: after a
  block has been applied, the block that follows a snapshot is refused unless the snapshot ends
  exactly where the applied blocks do.
\<close>

theorem snapshot_does_not_move_catch_up:
  assumes "catching_up h l g bs c" "bs \<noteq> []" "applySnapshot snap c = (c', Inr None)"
    and "cb_index b = the_num (member (member snap ''metadata'') ''latestIndex'') + 1"
    and "the_num (member (member snap ''metadata'') ''latestIndex'') \<noteq> l + int (length bs)"
  shows "\<exists>reason. applyCatchUpBlock h b c' = (c', Some reason)"
proof -
  obtain st where st: "rc_state c = Some st" "rs_isReconciling st" "rs_localIndex st = l"
    and c: "chain_ok h l g bs" "rc_appliedBlocks c = map (\<lambda>b. (cb_index b, b)) bs"
    using assms(1) by (auto simp: catching_up_def)
  obtain st' where st': "rc_state c' = Some st'" "rs_isReconciling st'" and ab: "rc_appliedBlocks c' = rc_appliedBlocks c"
    using assms(3) st by (auto simp: applySnapshot_def Let_def split: sum.splits if_splits)
  have "last_applied_index c' st' = last_applied_index c st"
    using ab c(2) assms(2) by (simp add: last_applied_index_def)
  then have "last_applied_index c' st' = l + int (length bs)"
    using last_applied_index_chain [OF c st(3)] by simp
  then show ?thesis using st' assms(4,5) by (simp add: applyCatchUpBlock_def)
qed

text \<open>
  The quorum test of a snapshot is vacuous from two signatures on: the threshold is computed from
  the number of signatures itself, and no signature is verified, so a snapshot is valid exactly
  when it has a metadata member, a path array and at least two well-formed signature objects.
\<close>

theorem validateSnapshot_iff:
  "(\<exists>v. validateSnapshot snap = Inr v \<and> vr_valid v) \<longleftrightarrow>
     truthy (member snap ''metadata'') \<and> is_arr (member snap ''merklePath'')
     \<and> (\<exists>sigs. member snap ''quorumSignatures'' = JArr sigs \<and> 2 \<le> length sigs
          \<and> (\<forall>s \<in> set sigs. s \<noteq> JNull \<and> s \<noteq> JUndefined \<and> sig_well_formed s))"
proof -
  have sigs: "all_signatures ss = Inr True \<longleftrightarrow> (\<forall>s \<in> set ss. s \<noteq> JNull \<and> s \<noteq> JUndefined \<and> sig_well_formed s)" for ss
    by (induction ss) auto
  have thr: "n < snapshot_threshold n \<longleftrightarrow> n < 2" for n
    unfolding snapshot_threshold_def less_max_iff_disj by presburger
  show ?thesis
  proof (cases "member snap ''quorumSignatures''")
    case (JArr ss)
    show ?thesis
    proof (cases "all_signatures ss")
      case (Inr ok)
      then show ?thesis using JArr sigs [of ss] thr [of "length ss"]
        by (cases ok) (auto simp: validateSnapshot_def Let_def invalid_def)
    next
      case (Inl err)
      then have "all_signatures ss \<noteq> Inr True" by simp
      then show ?thesis using Inl JArr sigs [of ss] thr [of "length ss"]
        by (auto simp: validateSnapshot_def Let_def invalid_def)
    qed
  qed (auto simp: validateSnapshot_def Let_def invalid_def)
qed

text \<open>
  The snapshot history is a bounded queue: a new snapshot with a fresh identifier is the latest
  and can be fetched, at most ten are kept, and the identifiers kept are the ones that can be
  fetched, the oldest one leaving first.
\<close>

theorem createSnapshot_history:
  assumes "history_ok m" "uuid \<notin> snapshot_id ` set (snapshotHistory m)"
    and "createSnapshot h e uuid idx trm entries sigs m = (m', s)"
  shows "history_ok m' \<and> getLatestSnapshot m' = Some s \<and> getSnapshot uuid m' = Some s
     \<and> (\<forall>i. getSnapshot i m' \<noteq> None \<longleftrightarrow> i \<in> snapshot_id ` set (snapshotHistory m'))
     \<and> (length (snapshotHistory m) < MAX_SNAPSHOT_HISTORY \<longrightarrow> (\<forall>i. i \<noteq> uuid \<longrightarrow> getSnapshot i m' = getSnapshot i m))"
proof -
  note ok = createSnapshot_ok [OF assms]
  have id: "snapshot_id s = uuid" using ok by (simp add: snapshot_id_def make_snapshot_def)
  have keys: "js_keys (snapshots m') = map snapshot_id (snapshotHistory m')"
    using ok by (simp add: history_ok_def comp_def)
  then have "getSnapshot i m' \<noteq> None \<longleftrightarrow> i \<in> snapshot_id ` set (snapshotHistory m')" for i
    by (simp add: getSnapshot_def map_of_eq_None_iff) (metis image_set list.set_map)
  moreover have "getSnapshot uuid m' = Some s"
    using history_get [of m' s] ok id by simp
  moreover have "getSnapshot i m' = getSnapshot i m"
    if "length (snapshotHistory m) < MAX_SNAPSHOT_HISTORY" "i \<noteq> uuid" for i
    using that ok assms(1) id by (auto simp: getSnapshot_def history_ok_def map_add_def split: option.split)
  ultimately show ?thesis using ok by (simp add: getLatestSnapshot_def)
qed

section \<open>Concrete instances\<close>

definition sample_block :: catch_up_block where
  "sample_block = \<lparr>cb_blockId = ''b6'', cb_index = 6, cb_term = 1, cb_entries = [], cb_merkleHash = ''hh'', cb_signature = ''s'',
     cb_previousMerkleHash = ''GENESIS_BLOCK''\<rparr>"

definition sample_snapshot :: jsval where
  "sample_snapshot = JObj
     [(''metadata'', JObj [(''latestIndex'', JNum 20), (''merkleRootHash'', JStr ''rr'')]),
      (''quorumSignatures'', JArr (map (\<lambda>n. JObj [(''nodeId'', JStr n), (''signature'', JStr ''s''), (''term'', JNum 1)]) [''n1'', ''n2''])),
      (''merklePath'', JArr [])]"

definition sample_catch_up :: reconciliation where
  "sample_catch_up = fst (applyCatchUpBlock (\<lambda>t. ''hh'') sample_block (beginReconciliation sample_env 5 30 new_reconciliation))"

lemma sample_catching_up: "catching_up (\<lambda>t. ''hh'') 5 ''GENESIS_BLOCK'' [sample_block] sample_catch_up"
  using applyCatchUpBlock_step [OF catching_up_begin, of "\<lambda>t. ''hh''" sample_block sample_env 5 30 new_reconciliation]
  by (cases "applyCatchUpBlock (\<lambda>t. ''hh'') sample_block (beginReconciliation sample_env 5 30 new_reconciliation)")
     (auto simp: sample_catch_up_def new_reconciliation_def sample_block_def beginReconciliation_def applyCatchUpBlock_def
        last_applied_index_def computeBlockMerkleHash_def Let_def)

theorem snapshot_does_not_move_catch_up_witness:
  "\<exists>reason. applyCatchUpBlock (\<lambda>t. ''hh'') (sample_block\<lparr>cb_index := 21\<rparr>) (fst (applySnapshot sample_snapshot sample_catch_up))
     = (fst (applySnapshot sample_snapshot sample_catch_up), Some reason)"
proof -
  have run: "snd (applySnapshot sample_snapshot sample_catch_up) = Inr None"
    using sample_catching_up
    by (auto simp: catching_up_def applySnapshot_def validateSnapshot_def sample_snapshot_def snapshot_threshold_def
        sig_well_formed_def nonempty_str_def Let_def)
  show ?thesis
    by (rule snapshot_does_not_move_catch_up [OF sample_catching_up, of sample_snapshot])
       (use run in \<open>auto simp: sample_snapshot_def prod_eq_iff\<close>)
qed

theorem createSnapshot_history_witness:
  "history_ok (fst (createSnapshot (\<lambda>t. ''hh'') sample_env ''u1'' 1 1 [] [] \<lparr>snapshots = [], snapshotHistory = []\<rparr>))"
proof -
  have "history_ok \<lparr>snapshots = [], snapshotHistory = []\<rparr>" by (simp add: history_ok_def)
  then show ?thesis
    using createSnapshot_history [of "\<lparr>snapshots = [], snapshotHistory = []\<rparr>" "''u1''" "\<lambda>t. ''hh''" sample_env 1 1 "[]" "[]"]
    by (metis empty_iff image_is_empty list.set(1) prod.collapse snapshot_manager.select_convs(2))
qed

end
