(* ===== verification/Membership.thy ===== *)
theory Membership
  imports Complex_Main Bft
begin

text \<open>
  The node life cycle of \<^verbatim>\<open>consensus/ClusterMembershipManager.ts\<close>: registration, heartbeats, failures,
  and eviction by vote. Ratios are rationals; a division by zero is written out.
\<close>

section \<open>State\<close>

datatype node_status = ACTIVE | OFFLINE | SUSPECTED | EVICTED | JOINING

record cluster_node =
  cn_nodeId :: string
  cn_status :: node_status
  cn_joinedAt :: int
  cn_lastHeartbeat :: int
  cn_failureCount :: int
  cn_attestationValid :: bool

record eviction_proposal =
  ep_proposalId :: string
  ep_targetNodeId :: string
  ep_proposerNodeId :: string
  ep_reason :: string
  ep_timestamp :: int
  ep_approved :: bool
  ep_approvalVotes :: "string option list"
  ep_rejectionVotes :: "string option list"

record membership_config =
  maxFailureCount :: int
  heartbeatTimeoutMs :: int
  evictionApprovalThreshold :: rat
  enableAutoEviction :: bool

record membership =
  mm_config :: membership_config
  mm_nodes :: "(string, cluster_node) jsmap"
  mm_proposals :: "(string, eviction_proposal) jsmap"
  mm_currentTerm :: int
  mm_leader :: "string option"
  mm_local :: "string option"

definition default_config :: membership_config where
  "default_config = \<lparr>maxFailureCount = 3, heartbeatTimeoutMs = 30000, evictionApprovalThreshold = 67 / 100, enableAutoEviction = True\<rparr>"

definition new_membership :: "membership_config option \<Rightarrow> membership" where
  "new_membership c =
     \<lparr>mm_config = (case c of None \<Rightarrow> default_config | Some x \<Rightarrow> x), mm_nodes = [], mm_proposals = [],
      mm_currentTerm = 0, mm_leader = None, mm_local = None\<rparr>"

section \<open>Operations\<close>

definition make_node :: "env \<Rightarrow> string \<Rightarrow> node_status \<Rightarrow> bool \<Rightarrow> cluster_node" where
  "make_node e n st att =
     \<lparr>cn_nodeId = n, cn_status = st, cn_joinedAt = nowMs e, cn_lastHeartbeat = nowMs e, cn_failureCount = 0, cn_attestationValid = att\<rparr>"

definition initializeLocalNode :: "env \<Rightarrow> string \<Rightarrow> membership \<Rightarrow> membership" where
  "initializeLocalNode e n m = m\<lparr>mm_local := Some n, mm_nodes := js_set n (make_node e n ACTIVE True) (mm_nodes m)\<rparr>"

definition registerNode :: "env \<Rightarrow> string \<Rightarrow> bool \<Rightarrow> membership \<Rightarrow> membership" where
  "registerNode e n att m =
     (if js_has (mm_nodes m) n then m else m\<lparr>mm_nodes := js_set n (make_node e n JOINING att) (mm_nodes m)\<rparr>)"

text \<open>A mutation of the object stored under a key.\<close>

definition touch_node :: "string \<Rightarrow> (cluster_node \<Rightarrow> cluster_node) \<Rightarrow> membership \<Rightarrow> membership" where
  "touch_node n f m =
     (case js_get (mm_nodes m) n of None \<Rightarrow> m | Some x \<Rightarrow> m\<lparr>mm_nodes := js_set n (f x) (mm_nodes m)\<rparr>)"

definition updateHeartbeat :: "env \<Rightarrow> string \<Rightarrow> membership \<Rightarrow> membership" where
  "updateHeartbeat e n m =
     touch_node n (\<lambda>x. x\<lparr>cn_lastHeartbeat := nowMs e, cn_failureCount := 0,
                        cn_status := (if cn_status x = SUSPECTED then ACTIVE else cn_status x)\<rparr>) m"

definition recordFailure :: "string \<Rightarrow> membership \<Rightarrow> membership" where
  "recordFailure n m =
     touch_node n (\<lambda>x. x\<lparr>cn_failureCount := cn_failureCount x + 1,
                        cn_status := (if maxFailureCount (mm_config m) \<le> cn_failureCount x + 1 then SUSPECTED
                                      else cn_status x)\<rparr>) m"

definition proposeNodeEviction ::
  "env \<Rightarrow> string \<Rightarrow> string \<Rightarrow> membership \<Rightarrow> membership \<times> eviction_proposal js_result" where
  "proposeNodeEviction e n reason m =
     (case mm_local m of
        None \<Rightarrow> (m, Inl (JsError ''Local node not initialized''))
      | Some loc \<Rightarrow>
          if loc = '''' then (m, Inl (JsError ''Local node not initialized''))
          else (case js_get (mm_nodes m) n of
                  None \<Rightarrow> (m, Inl (JsError (''Node '' @ n @ '' not found'')))
                | Some target \<Rightarrow>
                    if cn_status target = EVICTED then (m, Inl (JsError (''Node '' @ n @ '' already evicted'')))
                    else
                      let pid = ''evict-'' @ n @ ''-'' @ show_int (nowMs e);
                          p = \<lparr>ep_proposalId = pid, ep_targetNodeId = n, ep_proposerNodeId = loc, ep_reason = reason,
                               ep_timestamp = nowMs e, ep_approved = False, ep_approvalVotes = [], ep_rejectionVotes = []\<rparr>
                      in (m\<lparr>mm_proposals := js_set pid p (mm_proposals m)\<rparr>, Inr p)))"

definition getActiveNodeCount :: "membership \<Rightarrow> nat" where
  "getActiveNodeCount m = length (filter (\<lambda>x. cn_status x = ACTIVE \<or> cn_status x = JOINING) (map snd (mm_nodes m)))"

definition evictNode :: "string \<Rightarrow> membership \<Rightarrow> membership" where
  "evictNode n m = touch_node n (\<lambda>x. x\<lparr>cn_status := EVICTED\<rparr>) m"

text \<open>\<^verbatim>\<open>votes / total >= threshold\<close>: with no voters the ratio is infinite, or not a number.\<close>

definition ratio_reaches :: "nat \<Rightarrow> nat \<Rightarrow> rat \<Rightarrow> bool" where
  "ratio_reaches votes voters thr =
     (if voters = 0 then 0 < votes else thr \<le> of_nat votes / of_nat voters)"

definition voteEviction :: "string \<Rightarrow> bool \<Rightarrow> membership \<Rightarrow> membership \<times> bool" where
  "voteEviction pid approve m =
     (case js_get (mm_proposals m) pid of
        None \<Rightarrow> (m, False)
      | Some p \<Rightarrow>
          let p1 = (if approve then p\<lparr>ep_approvalVotes := ep_approvalVotes p @ [mm_local m]\<rparr>
                    else p\<lparr>ep_rejectionVotes := ep_rejectionVotes p @ [mm_local m]\<rparr>);
              reached = ratio_reaches (length (ep_approvalVotes p1)) (getActiveNodeCount m) (evictionApprovalThreshold (mm_config m));
              p2 = (if reached then p1\<lparr>ep_approved := True\<rparr> else p1);
              m1 = m\<lparr>mm_proposals := js_set pid p2 (mm_proposals m)\<rparr>
          in (if reached then evictNode (ep_targetNodeId p) m1 else m1, ep_approved p2))"

definition finalizeEviction :: "string \<Rightarrow> membership \<Rightarrow> membership \<times> bool" where
  "finalizeEviction pid m =
     (case js_get (mm_proposals m) pid of
        None \<Rightarrow> (m, False)
      | Some p \<Rightarrow> if \<not> ep_approved p then (m, False) else (evictNode (ep_targetNodeId p) m, True))"

definition calculateThreshold :: "membership \<Rightarrow> int \<times> int \<times> int" where
  "calculateThreshold m =
     (let clusterSize = int (getActiveNodeCount m); f = (clusterSize - 1) div 3 in (clusterSize, f, 2 * f + 1))"

record cluster_state_view =
  cv_clusterSize :: int
  cv_f :: int
  cv_threshold :: int
  cv_activeNodes :: "cluster_node list"
  cv_currentTerm :: int

definition getClusterState :: "membership \<Rightarrow> cluster_state_view" where
  "getClusterState m =
     (let (n, f, t) = calculateThreshold m
      in \<lparr>cv_clusterSize = n, cv_f = f, cv_threshold = t,
          cv_activeNodes = filter (\<lambda>x. cn_status x \<noteq> EVICTED) (map snd (mm_nodes m)), cv_currentTerm = mm_currentTerm m\<rparr>)"

definition getActiveNodes :: "membership \<Rightarrow> cluster_node list" where
  "getActiveNodes m = filter (\<lambda>x. cn_status x = ACTIVE) (map snd (mm_nodes m))"

definition setLeader :: "string \<Rightarrow> membership \<Rightarrow> membership" where
  "setLeader n m = m\<lparr>mm_leader := Some n, mm_currentTerm := mm_currentTerm m + 1\<rparr>"

definition getNode :: "string \<Rightarrow> membership \<Rightarrow> cluster_node option" where
  "getNode n m = js_get (mm_nodes m) n"

definition getLeader :: "membership \<Rightarrow> string option" where
  "getLeader m = mm_leader m"

definition membership_getConfig :: "membership \<Rightarrow> membership_config" where
  "membership_getConfig m = mm_config m"

definition isNodeActive :: "string \<Rightarrow> membership \<Rightarrow> bool" where
  "isNodeActive n m = (case js_get (mm_nodes m) n of None \<Rightarrow> False | Some x \<Rightarrow> cn_status x = ACTIVE)"

definition status_of :: "string \<Rightarrow> membership \<Rightarrow> node_status option" where
  "status_of n m = map_option cn_status (js_get (mm_nodes m) n)"

section \<open>Node states\<close>

lemma touch_node_get:
  "js_get (mm_nodes (touch_node n f m)) k = (if k = n then map_option f (js_get (mm_nodes m) n) else js_get (mm_nodes m) k)"
  by (auto simp: touch_node_def js_get_set split: option.split)

lemma touch_node_fields [simp]:
  "mm_config (touch_node n f m) = mm_config m" "mm_proposals (touch_node n f m) = mm_proposals m"
  "mm_local (touch_node n f m) = mm_local m"
  by (simp_all add: touch_node_def split: option.split)

lemmas node_ops = updateHeartbeat_def recordFailure_def evictNode_def status_of_def

lemma recordFailure_iter:
  assumes "js_get (mm_nodes m) n = Some x" "0 \<le> cn_failureCount x"
  shows "\<exists>y. js_get (mm_nodes ((recordFailure n ^^ k) m)) n = Some y \<and> cn_failureCount y = cn_failureCount x + int k
           \<and> mm_config ((recordFailure n ^^ k) m) = mm_config m
           \<and> (0 < k \<and> maxFailureCount (mm_config m) \<le> cn_failureCount x + int k \<longrightarrow> cn_status y = SUSPECTED)"
proof (induction k)
  case (Suc k)
  let ?m = "(recordFailure n ^^ k) m"
  obtain y where y: "js_get (mm_nodes ?m) n = Some y" "cn_failureCount y = cn_failureCount x + int k"
    "mm_config ?m = mm_config m" using Suc by blast
  have "js_get (mm_nodes (recordFailure n ?m)) n =
      Some (y\<lparr>cn_failureCount := cn_failureCount y + 1,
              cn_status := (if maxFailureCount (mm_config m) \<le> cn_failureCount y + 1 then SUSPECTED else cn_status y)\<rparr>)"
    by (simp add: recordFailure_def touch_node_get y)
  moreover have "mm_config (recordFailure n ?m) = mm_config m" by (simp add: recordFailure_def y)
  ultimately show ?case using y by simp
qed (use assms in simp)

lemma voteEviction_approve:
  assumes "js_get (mm_proposals m) pid = Some p" "voteEviction pid True m = (m', ok)"
  shows "\<exists>q. js_get (mm_proposals m') pid = Some q \<and> ep_targetNodeId q = ep_targetNodeId p
           \<and> length (ep_approvalVotes q) = length (ep_approvalVotes p) + 1 \<and> ok = ep_approved q
           \<and> mm_config m' = mm_config m \<and> mm_local m' = mm_local m
           \<and> (if ratio_reaches (length (ep_approvalVotes p) + 1) (getActiveNodeCount m) (evictionApprovalThreshold (mm_config m))
              then ok \<and> (js_has (mm_nodes m) (ep_targetNodeId p) \<longrightarrow> status_of (ep_targetNodeId p) m' = Some EVICTED)
              else mm_nodes m' = mm_nodes m \<and> ok = ep_approved p)"
  using assms
  by (auto simp: voteEviction_def Let_def evictNode_def status_of_def touch_node_get js_get_set split: if_splits)

section \<open>Properties\<close>

text \<open>
  Votes are not counted per voter: the local node alone evicts any member by approving its proposal
  often enough, whatever the number of active nodes.
\<close>

theorem one_voter_evicts:
  assumes "js_get (mm_proposals m) pid = Some p" "ep_approvalVotes p = []" "js_has (mm_nodes m) (ep_targetNodeId p)"
    and "0 < getActiveNodeCount m" "evictionApprovalThreshold (mm_config m) \<le> 1"
  shows "\<exists>k \<le> getActiveNodeCount m. status_of (ep_targetNodeId p) (((\<lambda>x. fst (voteEviction pid True x)) ^^ k) m) = Some EVICTED"
proof (rule ccontr)
  let ?run = "\<lambda>k. ((\<lambda>x. fst (voteEviction pid True x)) ^^ k) m"
  assume none: "\<not> ?thesis"
  have "\<exists>q. js_get (mm_proposals (?run k)) pid = Some q \<and> ep_targetNodeId q = ep_targetNodeId p
          \<and> length (ep_approvalVotes q) = k \<and> mm_config (?run k) = mm_config m \<and> mm_nodes (?run k) = mm_nodes m"
    if "k \<le> getActiveNodeCount m" for k
    using that
  proof (induction k)
    case 0
    then show ?case using assms by simp
  next
    case (Suc k)
    then obtain q where q: "js_get (mm_proposals (?run k)) pid = Some q" "ep_targetNodeId q = ep_targetNodeId p"
      "length (ep_approvalVotes q) = k" "mm_config (?run k) = mm_config m" "mm_nodes (?run k) = mm_nodes m" by auto
    obtain m' ok where r: "voteEviction pid True (?run k) = (m', ok)" by fastforce
    have run: "?run (Suc k) = m'" using r by simp
    have "status_of (ep_targetNodeId p) (?run (Suc k)) \<noteq> Some EVICTED" using none Suc.prems by blast
    then have "status_of (ep_targetNodeId p) m' \<noteq> Some EVICTED" unfolding run .
    then show ?case
      using voteEviction_approve [OF q(1) r] q r assms(3) by (auto split: if_splits)
  qed
  from this [of "getActiveNodeCount m - 1"] obtain q where q: "js_get (mm_proposals (?run (getActiveNodeCount m - 1))) pid = Some q"
    "ep_targetNodeId q = ep_targetNodeId p" "length (ep_approvalVotes q) = getActiveNodeCount m - 1"
    "mm_config (?run (getActiveNodeCount m - 1)) = mm_config m" "mm_nodes (?run (getActiveNodeCount m - 1)) = mm_nodes m" by auto
  obtain m' ok where r: "voteEviction pid True (?run (getActiveNodeCount m - 1)) = (m', ok)" by fastforce
  have cnt: "getActiveNodeCount (?run (getActiveNodeCount m - 1)) = getActiveNodeCount m"
    using q(5) by (simp add: getActiveNodeCount_def)
  have "status_of (ep_targetNodeId p) m' = Some EVICTED"
    using voteEviction_approve [OF q(1) r] q cnt assms(3-5) by (auto simp: ratio_reaches_def split: if_splits)
  moreover have "?run (getActiveNodeCount m) = m'"
    using assms(4) r by (cases "getActiveNodeCount m") auto
  ultimately show False using none by auto
qed

text \<open>
  Eviction is not final: an evicted node that keeps failing becomes suspected, and one heartbeat
  then makes it active again.
\<close>

theorem eviction_is_reversible:
  assumes "js_get (mm_nodes m) n = Some x" "cn_status x = EVICTED" "0 \<le> cn_failureCount x"
  shows "status_of n (updateHeartbeat e n ((recordFailure n ^^ nat (max 1 (maxFailureCount (mm_config m)))) m)) = Some ACTIVE"
proof -
  let ?k = "nat (max 1 (maxFailureCount (mm_config m)))"
  obtain y where "js_get (mm_nodes ((recordFailure n ^^ ?k) m)) n = Some y"
    "0 < ?k \<and> maxFailureCount (mm_config m) \<le> cn_failureCount x + int ?k \<longrightarrow> cn_status y = SUSPECTED"
    using recordFailure_iter [OF assms(1,3), of ?k] by auto
  then show ?thesis using assms(3) by (auto simp: updateHeartbeat_def status_of_def touch_node_get)
qed

section \<open>Concrete instances\<close>

definition member_env :: env where
  "member_env = \<lparr>nowMs = 7, nowIso = ''now'', diskOk = (\<lambda>f. True)\<rparr>"

definition sample_members :: membership where
  "sample_members = (new_membership None)\<lparr>
     mm_nodes := [(''a'', make_node member_env ''a'' ACTIVE True), (''b'', make_node member_env ''b'' ACTIVE True)],
     mm_local := Some ''a'',
     mm_proposals := [(''p'', \<lparr>ep_proposalId = ''p'', ep_targetNodeId = ''b'', ep_proposerNodeId = ''a'', ep_reason = ''r'',
        ep_timestamp = 7, ep_approved = False, ep_approvalVotes = [], ep_rejectionVotes = []\<rparr>)]\<rparr>"

lemma sample_members_count: "getActiveNodeCount sample_members = 2"
  by (simp add: sample_members_def new_membership_def getActiveNodeCount_def make_node_def)

theorem one_voter_evicts_witness:
  "\<exists>k \<le> 2. status_of ''b'' (((\<lambda>x. fst (voteEviction ''p'' True x)) ^^ k) sample_members) = Some EVICTED"
proof -
  obtain p where p: "js_get (mm_proposals sample_members) ''p'' = Some p" "ep_approvalVotes p = []" "ep_targetNodeId p = ''b''"
    by (simp add: sample_members_def)
  have "js_has (mm_nodes sample_members) ''b''" by (simp add: sample_members_def)
  moreover have "evictionApprovalThreshold (mm_config sample_members) \<le> 1"
    by (simp add: sample_members_def new_membership_def default_config_def)
  ultimately show ?thesis
    using one_voter_evicts [OF p(1,2)] p(3) by (simp add: sample_members_count)
qed

theorem eviction_is_reversible_witness:
  "status_of ''b'' (updateHeartbeat member_env ''b'' ((recordFailure ''b'' ^^ 3)
     (sample_members\<lparr>mm_nodes := [(''b'', make_node member_env ''b'' EVICTED True)]\<rparr>))) = Some ACTIVE"
  using eviction_is_reversible [of "sample_members\<lparr>mm_nodes := [(''b'', make_node member_env ''b'' EVICTED True)]\<rparr>" "''b''" _ member_env]
  by (simp add: sample_members_def new_membership_def default_config_def make_node_def)

end
