(* ===== verification/TimeAnchor.thy ===== *)
theory TimeAnchor
  imports Complex_Main Bft
begin

text \<open>
  The quorum clock of \<^verbatim>\<open>consensus/EnclaveTimeAnchorService.ts\<close>: the rolling window of signed time
  assertions, the median with its outlier filter, and the fingerprint of the anchor. Times are
  integers; a median is rational, since it may fall half-way between two times.
\<close>

section \<open>Assertions\<close>

record time_assertion =
  ta_nodeId :: string
  ta_assertedAtMs :: int
  ta_signature :: string
  ta_pcr0Hash :: string
  ta_validUntilMs :: "int option"

record time_service =
  assertions :: "(string, time_assertion) jsmap"
  windowMaxSize :: nat
  driftThresholdMs :: int

definition new_time_service :: "nat option \<Rightarrow> int option \<Rightarrow> time_service" where
  "new_time_service w d =
     \<lparr>assertions = [], windowMaxSize = (case w of None \<Rightarrow> 32 | Some n \<Rightarrow> n),
      driftThresholdMs = (case d of None \<Rightarrow> 5000 | Some n \<Rightarrow> n)\<rparr>"

definition reset_assertions :: "time_service \<Rightarrow> time_service" where
  "reset_assertions st = st\<lparr>assertions := []\<rparr>"

definition assertion_json :: "time_assertion \<Rightarrow> jsval" where
  "assertion_json a = JObj
     [(''nodeId'', JStr (ta_nodeId a)), (''assertedAtMs'', JNum (ta_assertedAtMs a)),
      (''pcr0Hash'', JStr (ta_pcr0Hash a)),
      (''validUntilMs'', case ta_validUntilMs a of None \<Rightarrow> JNull | Some v \<Rightarrow> JNum v)]"

definition verifySignatureMock :: "hashfn \<Rightarrow> time_assertion \<Rightarrow> bool" where
  "verifySignatureMock h a \<longleftrightarrow> ta_signature a = h (canonicalizeJsonStable (assertion_json a))"

text \<open>The field checks of an untyped assertion, in order.\<close>

definition decode_assertion :: "jsval \<Rightarrow> string + time_assertion" where
  "decode_assertion v =
     (let vu = member v ''validUntilMs'' in
      if \<not> js_object v then Inl ''INVALID_ASSERTION''
      else if \<not> nonempty_str (member v ''nodeId'') then Inl ''INVALID_NODE_ID''
      else if \<not> is_num (member v ''assertedAtMs'') then Inl ''INVALID_ASSERTED_AT_MS''
      else if \<not> nonempty_str (member v ''pcr0Hash'') then Inl ''INVALID_PCR0_HASH''
      else if \<not> nonempty_str (member v ''signature'') then Inl ''INVALID_SIGNATURE''
      else if vu \<noteq> JUndefined \<and> \<not> is_num vu then Inl ''INVALID_VALID_UNTIL_MS''
      else if vu \<noteq> JUndefined \<and> the_num vu \<le> the_num (member v ''assertedAtMs'') then Inl ''ASSERTION_EXPIRED_OR_INVALID''
      else Inr \<lparr>ta_nodeId = the_str (member v ''nodeId''), ta_assertedAtMs = the_num (member v ''assertedAtMs''),
                ta_signature = the_str (member v ''signature''), ta_pcr0Hash = the_str (member v ''pcr0Hash''),
                ta_validUntilMs = (if vu = JUndefined then None else Some (the_num vu))\<rparr>)"

definition evict_smallest :: "(string, time_assertion) jsmap \<Rightarrow> (string, time_assertion) jsmap" where
  "evict_smallest m = (case sort (js_keys m) of [] \<Rightarrow> m | k # _ \<Rightarrow> js_delete k m)"

definition ingestAssertion :: "hashfn \<Rightarrow> jsval \<Rightarrow> time_service \<Rightarrow> time_service \<times> (string + unit)" where
  "ingestAssertion h v st =
     (case decode_assertion v of
        Inl reason \<Rightarrow> (st, Inl reason)
      | Inr a \<Rightarrow>
          if \<not> verifySignatureMock h a then (st, Inl ''SIGNATURE_REJECTED'')
          else
            let m = (if windowMaxSize st \<le> length (assertions st) then evict_smallest (assertions st) else assertions st)
            in (st\<lparr>assertions := js_set (ta_nodeId a) a m\<rparr>, Inr ()))"

definition getAssertionCount :: "time_service \<Rightarrow> nat" where
  "getAssertionCount st = length (assertions st)"

section \<open>The median\<close>

definition medianOfSorted :: "int list \<Rightarrow> rat" where
  "medianOfSorted xs =
     (let n = length xs; mid = n div 2
      in if n mod 2 = 0 then (of_int (xs ! (mid - 1)) + of_int (xs ! mid)) / 2 else of_int (xs ! mid))"

record median_anchor =
  ma_anchorMs :: rat
  ma_fingerprint :: string
  ma_included :: "string list"
  ma_outliers :: "string list"

text \<open>A whole or half number as JavaScript prints it.\<close>

definition show_half :: "rat \<Rightarrow> string" where
  "show_half q =
     (if of_int \<lfloor>q\<rfloor> = q then show_int \<lfloor>q\<rfloor>
      else if q < 0 then ''-'' @ show_int \<lfloor>- q\<rfloor> @ ''.5''
      else show_int \<lfloor>q\<rfloor> @ ''.5'')"

definition anchor_text :: "rat \<Rightarrow> string list \<Rightarrow> string list \<Rightarrow> string" where
  "anchor_text ms inc out =
     ''{'' @ js_quote ''anchorMs'' @ '':'' @ show_half ms @ '','' @ js_quote ''domain'' @ '':'' @ js_quote ''ENCLAVE_MEDIAN_TIME_ANCHOR''
       @ '','' @ js_quote ''includedNodeIds'' @ '':'' @ canonicalizeJsonStable (JArr (map JStr inc))
       @ '','' @ js_quote ''outlierNodeIds'' @ '':'' @ canonicalizeJsonStable (JArr (map JStr out)) @ ''}''"

definition within_drift :: "time_service \<Rightarrow> rat \<Rightarrow> time_assertion \<Rightarrow> bool" where
  "within_drift st median a \<longleftrightarrow> \<bar>of_int (ta_assertedAtMs a) - median\<bar> \<le> of_int (driftThresholdMs st)"

definition computeMedianAnchor :: "hashfn \<Rightarrow> nat option \<Rightarrow> time_service \<Rightarrow> (string + median_anchor) js_result" where
  "computeMedianAnchor h requiredMinAssertions st =
     (let values = map snd (assertions st) in
      if values = [] then Inr (Inl ''NO_ASSERTIONS'')
      else
        let median = medianOfSorted (sort (map ta_assertedAtMs values));
            included = filter (within_drift st median) values;
            outliers = filter (\<lambda>a. \<not> within_drift st median a) values;
            requiredMin = (case requiredMinAssertions of None \<Rightarrow> 3 | Some n \<Rightarrow> n)
        in if length included < requiredMin then Inr (Inl ''INSUFFICIENT_QUORUM_AFTER_FILTERING'')
           else if included = [] then Inl (JsError ''medianOfSorted: empty'')
           else
             let anchorMs = medianOfSorted (sort (map ta_assertedAtMs included));
                 inc = sort (map ta_nodeId included); out = sort (map ta_nodeId outliers)
             in Inr (Inr \<lparr>ma_anchorMs = anchorMs, ma_fingerprint = h (anchor_text anchorMs inc out),
                          ma_included = inc, ma_outliers = out\<rparr>))"

text \<open>The anchor as it appears in a proposal, when the median is a whole number.\<close>

definition anchor_json :: "median_anchor \<Rightarrow> jsval" where
  "anchor_json a = JObj
     [(''anchorMs'', JNum \<lfloor>ma_anchorMs a\<rfloor>), (''anchorFingerprint'', JStr (ma_fingerprint a)),
      (''includedNodeIds'', JArr (map JStr (ma_included a))), (''outlierNodeIds'', JArr (map JStr (ma_outliers a)))]"

section \<open>The window\<close>

definition window_ok :: "time_service \<Rightarrow> bool" where
  "window_ok st \<longleftrightarrow> js_map_ok (assertions st) \<and> length (assertions st) \<le> windowMaxSize st
     \<and> (\<forall>(k, a) \<in> set (assertions st). ta_nodeId a = k)"

lemma evict_smallest_facts:
  assumes "js_map_ok m"
  shows "js_map_ok (evict_smallest m)" "set (evict_smallest m) \<subseteq> set m" "length (evict_smallest m) = length m - 1"
proof -
  show "js_map_ok (evict_smallest m)" using assms by (auto simp: evict_smallest_def distinct_delete split: list.split)
  show "set (evict_smallest m) \<subseteq> set m" by (auto simp: evict_smallest_def AList.delete_eq split: list.split)
  show "length (evict_smallest m) = length m - 1"
  proof (cases "sort (js_keys m)")
    case Nil
    then have "m = []" by (metis length_0_conv length_map length_sort)
    then show ?thesis by (simp add: evict_smallest_def)
  next
    case (Cons k ks)
    then have "k \<in> set (js_keys m)" by (metis list.set_intros(1) set_sort)
    moreover have "length (js_delete k m) = length (removeAll k (js_keys m))" by (metis delete_keys length_map)
    ultimately show ?thesis using assms Cons
      by (simp add: evict_smallest_def distinct_remove1_removeAll [symmetric] length_remove1)
  qed
qed

lemma new_window_ok: "window_ok (new_time_service w d)"
  by (simp add: window_ok_def new_time_service_def)

section \<open>Medians\<close>

lemma filter_prefix_count:
  fixes xs :: "int list"
  assumes "sorted xs" "i < length xs" "xs ! i < lo" "\<And>x. P x \<Longrightarrow> lo \<le> x"
  shows "length (filter P xs) + Suc i \<le> length xs"
proof -
  have "filter P (take (Suc i) xs) = []"
  proof -
    have "x < lo" if x: "x \<in> set (take (Suc i) xs)" for x
    proof -
      obtain j where "j < Suc i" "x = xs ! j" using x assms(2) by (auto simp: in_set_conv_nth)
      then have "x \<le> xs ! i" using assms(1,2) by (simp add: sorted_nth_mono)
      then show ?thesis using assms(3) by (rule le_less_trans)
    qed
    then show ?thesis using assms(4) by (fastforce simp: filter_empty_conv)
  qed
  then have "filter P xs = filter P (drop (Suc i) xs)"
    by (metis append_take_drop_id filter_append self_append_conv2)
  then have "length (filter P xs) \<le> length xs - Suc i" by (metis length_drop length_filter_le)
  then show ?thesis using assms(2) by linarith
qed

lemma filter_suffix_count:
  fixes xs :: "int list"
  assumes "sorted xs" "i < length xs" "hi < xs ! i" "\<And>x. P x \<Longrightarrow> x \<le> hi"
  shows "length (filter P xs) \<le> i"
proof -
  have "filter P (drop i xs) = []"
  proof -
    have "hi < x" if x: "x \<in> set (drop i xs)" for x
    proof -
      obtain j where "i \<le> j" "j < length xs" "x = xs ! j"
        using x by (auto simp: in_set_conv_nth) (metis add.commute le_add1 less_diff_conv)
      then have "xs ! i \<le> x" using assms(1) by (simp add: sorted_nth_mono)
      with assms(3) show ?thesis by (rule less_le_trans)
    qed
    then show ?thesis using assms(4) by (fastforce simp: filter_empty_conv)
  qed
  then have "filter P xs = filter P (take i xs)"
    by (metis append_take_drop_id filter_append append_Nil2)
  then show ?thesis by (metis length_take length_filter_le min.bounded_iff)
qed

text \<open>A majority of values inside an interval keeps the median inside it.\<close>

lemma median_in_majority_interval:
  fixes xs :: "int list"
  assumes "sorted xs" "length xs < 2 * length (filter (\<lambda>x. lo \<le> x \<and> x \<le> hi) xs)"
  shows "of_int lo \<le> medianOfSorted xs \<and> medianOfSorted xs \<le> of_int hi"
proof -
  let ?n = "length xs" and ?c = "length (filter (\<lambda>x. lo \<le> x \<and> x \<le> hi) xs)"
  have in_range: "lo \<le> xs ! i \<and> xs ! i \<le> hi" if "i < ?n" "?n \<le> 2 * Suc i" "2 * i \<le> ?n" for i
  proof (rule ccontr)
    assume "\<not> ?thesis"
    then consider "xs ! i < lo" | "hi < xs ! i" by linarith
    then show False
    proof cases
      case 1
      then show False using filter_prefix_count [OF assms(1) that(1) 1, of "\<lambda>x. lo \<le> x \<and> x \<le> hi"] assms(2) that by simp
    next
      case 2
      then show False using filter_suffix_count [OF assms(1) that(1) 2, of "\<lambda>x. lo \<le> x \<and> x \<le> hi"] assms(2) that by simp
    qed
  qed
  have pos: "0 < ?n" using assms(2) by (cases xs) auto
  show ?thesis
  proof (cases "?n mod 2 = 0")
    case True
    then have i: "?n div 2 - 1 < ?n" "?n \<le> 2 * Suc (?n div 2 - 1)" "2 * (?n div 2 - 1) \<le> ?n"
      "?n div 2 < ?n" "?n \<le> 2 * Suc (?n div 2)" "2 * (?n div 2) \<le> ?n" using pos True by presburger+
    have "of_int lo \<le> (of_int (xs ! (?n div 2 - 1)) :: rat)" "of_int (xs ! (?n div 2 - 1)) \<le> (of_int hi :: rat)"
      "of_int lo \<le> (of_int (xs ! (?n div 2)) :: rat)" "of_int (xs ! (?n div 2)) \<le> (of_int hi :: rat)"
      using in_range [OF i(1,2,3)] in_range [OF i(4,5,6)] by (simp_all only: of_int_le_iff)
    then show ?thesis using True by (simp add: medianOfSorted_def Let_def)
  next
    case False
    then have i: "?n div 2 < ?n" "?n \<le> 2 * Suc (?n div 2)" "2 * (?n div 2) \<le> ?n" using pos by auto
    then show ?thesis using in_range [OF i] False by (simp add: medianOfSorted_def Let_def)
  qed
qed

lemma median_of_all_in_interval:
  fixes xs :: "int list"
  assumes "xs \<noteq> []" "\<And>x. x \<in> set xs \<Longrightarrow> of_int lo - d \<le> (of_int x :: rat) \<and> (of_int x :: rat) \<le> of_int hi + d"
  shows "of_int lo - d \<le> medianOfSorted (sort xs) \<and> medianOfSorted (sort xs) \<le> of_int hi + d"
proof -
  let ?s = "sort xs"
  have n: "0 < length ?s" using assms(1) by simp
  have at: "of_int lo - d \<le> (of_int (?s ! i) :: rat) \<and> (of_int (?s ! i) :: rat) \<le> of_int hi + d" if "i < length ?s" for i
    using that assms(2) by (metis nth_mem set_sort)
  have "length ?s div 2 < length ?s" "length ?s div 2 - 1 < length ?s" using n by presburger+
  then show ?thesis
    using at [of "length ?s div 2"] at [of "length ?s div 2 - 1"]
    by (auto simp: medianOfSorted_def Let_def)
qed

section \<open>Properties\<close>

text \<open>
  The window is never exceeded: ingesting keeps at most one assertion per node, at most
  \<^verbatim>\<open>windowMaxSize\<close> of them, and takes only assertions signed with the hash of their content.
\<close>

theorem ingestAssertion_window:
  assumes "window_ok st" "0 < windowMaxSize st" "ingestAssertion h v st = (st', res)"
  shows "window_ok st'
     \<and> (\<forall>k a. js_get (assertions st') k = Some a \<longrightarrow> js_get (assertions st) k = Some a
          \<or> decode_assertion v = Inr a \<and> verifySignatureMock h a \<and> res = Inr ())
     \<and> (res \<noteq> Inr () \<longrightarrow> st' = st)"
proof (cases "res = Inr ()")
  case False
  then have "st' = st" using assms(3)
    by (auto simp: ingestAssertion_def Let_def split: sum.splits if_splits)
  then show ?thesis using assms(1) False by simp
next
  case True
  define m where "m = (if windowMaxSize st \<le> length (assertions st) then evict_smallest (assertions st) else assertions st)"
  obtain a where a: "decode_assertion v = Inr a" "verifySignatureMock h a"
    "st' = st\<lparr>assertions := js_set (ta_nodeId a) a m\<rparr>"
    using assms(3) True by (auto simp: ingestAssertion_def Let_def m_def split: sum.splits if_splits)
  have ok: "js_map_ok (assertions st)" using assms(1) by (simp add: window_ok_def)
  note ev = evict_smallest_facts [OF ok]
  have m: "js_map_ok m" "set m \<subseteq> set (assertions st)" "length m < windowMaxSize st"
    using ev ok assms(1,2) by (auto simp: m_def window_ok_def)
  have "window_ok st'"
    using a(3) m assms(1)
    by (auto simp: window_ok_def distinct_update length_js_set dest!: in_set_js_set)
  moreover have "js_get (assertions st) k = Some b" if "js_get m k = Some b" for k b
    using that m ok by (metis map_of_SomeD map_of_is_SomeI subsetD)
  ultimately show ?thesis using a True by (auto simp: js_get_set)
qed

text \<open>
  C33. A minority of wrong clocks cannot drag the anchor away: when more than half of the assertions
  in the window lie in an interval, the anchor lies within the drift threshold of it.
\<close>

theorem anchor_near_majority:
  assumes "computeMedianAnchor h rm st = Inr (Inr anchor)"
    and "length (assertions st) < 2 * length (filter (\<lambda>a. lo \<le> ta_assertedAtMs (snd a) \<and> ta_assertedAtMs (snd a) \<le> hi) (assertions st))"
  shows "of_int (lo - driftThresholdMs st) \<le> ma_anchorMs anchor \<and> ma_anchorMs anchor \<le> of_int (hi + driftThresholdMs st)"
proof -
  let ?vals = "map snd (assertions st)" and ?ts = "map ta_assertedAtMs (map snd (assertions st))"
  let ?med = "medianOfSorted (sort ?ts)"
  let ?inc = "filter (within_drift st ?med) ?vals"
  have inc: "?inc \<noteq> []" "ma_anchorMs anchor = medianOfSorted (sort (map ta_assertedAtMs ?inc))"
    using assms(1) by (auto simp: computeMedianAnchor_def Let_def split: if_splits simp del: map_map)
  have "length (filter (\<lambda>x. lo \<le> x \<and> x \<le> hi) (sort ?ts)) =
        length (filter (\<lambda>a. lo \<le> ta_assertedAtMs (snd a) \<and> ta_assertedAtMs (snd a) \<le> hi) (assertions st))"
  proof -
    have "size (filter_mset (\<lambda>x. lo \<le> x \<and> x \<le> hi) (mset (sort ?ts))) = size (filter_mset (\<lambda>x. lo \<le> x \<and> x \<le> hi) (mset ?ts))"
      by simp
    then have "length (filter (\<lambda>x. lo \<le> x \<and> x \<le> hi) (sort ?ts)) = length (filter (\<lambda>x. lo \<le> x \<and> x \<le> hi) ?ts)"
      by (simp only: mset_filter [symmetric] size_mset)
    then show ?thesis by (simp add: filter_map comp_def)
  qed
  then have "of_int lo \<le> ?med \<and> ?med \<le> of_int hi"
    using assms(2) by (intro median_in_majority_interval) simp_all
  then have "of_int lo - of_int (driftThresholdMs st) \<le> (of_int x :: rat) \<and> (of_int x :: rat) \<le> of_int hi + of_int (driftThresholdMs st)"
    if "x \<in> set (map ta_assertedAtMs ?inc)" for x
    using that by (auto simp: within_drift_def abs_le_iff)
  then show ?thesis
    using median_of_all_in_interval [of "map ta_assertedAtMs ?inc" lo "of_int (driftThresholdMs st)" hi] inc by simp
qed

text \<open>
  The two consensus services disagree on the fingerprint of an anchor: one hashes the members
  with a domain tag, the other without. A proposal that carries an anchor of the time service is
  refused, unless the hash collides on the two texts.
\<close>

theorem time_service_anchors_refused:
  assumes "computeMedianAnchor h rm st = Inr (Inr anchor)" "of_int \<lfloor>ma_anchorMs anchor\<rfloor> = ma_anchorMs anchor"
    and "member (member p ''timeLocks'') ''quorumMedianAnchor'' = anchor_json anchor"
    and "\<And>x y. h x = h y \<Longrightarrow> x = y"
  shows "verifyProposalStructurally h p \<noteq> None"
proof
  assume none: "verifyProposalStructurally h p = None"
  have fp: "ma_fingerprint anchor = h (anchor_text (ma_anchorMs anchor) (ma_included anchor) (ma_outliers anchor))"
    using assms(1) by (auto simp: computeMedianAnchor_def Let_def split: if_splits)
  have "bft_anchorFingerprint h (anchor_json anchor) = ma_fingerprint anchor"
    using structural_fields(9) [OF none] assms(3) by (simp add: anchor_json_def)
  then have "h (json_stringify (JObj [(''anchorMs'', JNum \<lfloor>ma_anchorMs anchor\<rfloor>),
      (''includedNodeIds'', JArr (map JStr (ma_included anchor))), (''outlierNodeIds'', JArr (map JStr (ma_outliers anchor)))]))
      = h (anchor_text (ma_anchorMs anchor) (ma_included anchor) (ma_outliers anchor))"
    by (simp add: fp bft_anchorFingerprint_def anchor_json_def)
  from assms(4) [OF this] show False
    using assms(2) by (simp add: anchor_text_def show_half_def js_quote_prefix_free js_quote_def quote_char_def dquote_def)
qed

definition sample_assertion :: "string \<Rightarrow> int \<Rightarrow> time_assertion" where
  "sample_assertion n t = \<lparr>ta_nodeId = n, ta_assertedAtMs = t, ta_signature = ''s'', ta_pcr0Hash = ''p'', ta_validUntilMs = None\<rparr>"

definition sample_clock :: time_service where
  "sample_clock = \<lparr>assertions = map (\<lambda>(n, t). (n, sample_assertion n t)) [(''n1'', 100), (''n2'', 102), (''n3'', 104)],
     windowMaxSize = 32, driftThresholdMs = 5000\<rparr>"

definition sample_anchor :: "hashfn \<Rightarrow> median_anchor" where
  "sample_anchor h = \<lparr>ma_anchorMs = 102, ma_fingerprint = h (anchor_text 102 [''n1'', ''n2'', ''n3''] []),
     ma_included = [''n1'', ''n2'', ''n3''], ma_outliers = []\<rparr>"

lemma sample_clock_anchor: "computeMedianAnchor h None sample_clock = Inr (Inr (sample_anchor h))"
proof -
  let ?vals = "[sample_assertion ''n1'' 100, sample_assertion ''n2'' 102, sample_assertion ''n3'' 104]"
  have vals: "map snd (assertions sample_clock) = ?vals" by (simp add: sample_clock_def)
  have times: "sort (map ta_assertedAtMs ?vals) = [100, 102, 104]" by (simp add: sample_assertion_def)
  have med: "medianOfSorted [100, 102, 104] = 102" by (simp add: medianOfSorted_def)
  have near: "within_drift sample_clock 102 (sample_assertion n t)" if "t = 100 \<or> t = 102 \<or> t = 104" for n t
    using that by (auto simp: within_drift_def sample_clock_def sample_assertion_def)
  have inc: "filter (within_drift sample_clock 102) ?vals = ?vals"
    "filter (\<lambda>a. \<not> within_drift sample_clock 102 a) ?vals = []"
    by (simp_all add: near)
  have ids: "sort (map ta_nodeId ?vals) = [''n1'', ''n2'', ''n3'']"
    by (simp add: sample_assertion_def less_eq_char_def less_char_def)
  show ?thesis
    unfolding computeMedianAnchor_def vals times med Let_def inc ids by (simp add: sample_anchor_def)
qed

theorem ingestAssertion_window_witness:
  "window_ok (fst (ingestAssertion (\<lambda>t. ''s'') (JObj [(''nodeId'', JStr ''n1''), (''assertedAtMs'', JNum 5), (''pcr0Hash'', JStr ''p''),
     (''signature'', JStr ''s'')]) (new_time_service None None)))"
  (is "window_ok (fst ?run)")
proof -
  obtain st' res where r: "?run = (st', res)" by (cases ?run)
  show ?thesis
    unfolding r fst_conv
    by (rule ingestAssertion_window [OF new_window_ok [of None None] _ r, THEN conjunct1]) (simp add: new_time_service_def)
qed

theorem anchor_near_majority_witness:
  "of_int (100 - 5000) \<le> ma_anchorMs (sample_anchor (\<lambda>x. x)) \<and> ma_anchorMs (sample_anchor (\<lambda>x. x)) \<le> of_int (104 + 5000)"
  using anchor_near_majority [OF sample_clock_anchor [of "\<lambda>x. x"], of 100 104]
  by (simp add: sample_clock_def sample_assertion_def)

theorem time_service_anchors_refused_witness:
  "verifyProposalStructurally (\<lambda>x. x)
     (JObj [(''timeLocks'', JObj [(''quorumMedianAnchor'', anchor_json (sample_anchor (\<lambda>x. x)))])]) \<noteq> None"
  by (rule time_service_anchors_refused [OF sample_clock_anchor [of "\<lambda>x. x"]])
     (simp_all add: sample_anchor_def)

end
