(* ===== verification/Compactor.thy ===== *)
theory Compactor
  imports Merkle
begin

text \<open>
  The memory manager of Merkle trees, \<^verbatim>\<open>services/merkle/MerkleCompactor.ts\<close>: the active tree, the
  checkpoints, and the pruning of old ones.
\<close>

section \<open>State\<close>

record compactor_config =
  maxHistoricalDepth :: int
  minCheckpointInterval :: int
  enableAggressivePruning :: bool
  preserveRecentLeaves :: int

record historical_tree =
  ht_checkpointIndex :: int
  ht_rootHash :: string
  ht_leaves :: "string list"
  ht_compacted :: bool

record compactor =
  co_config :: compactor_config
  historicalTrees :: "(int, historical_tree) jsmap"
  activeTree :: "merkle_tree option"
  currentCheckpoint :: int
  totalMemoryUsed :: int

definition default_compactor_config :: compactor_config where
  "default_compactor_config =
     \<lparr>maxHistoricalDepth = 1000, minCheckpointInterval = 10, enableAggressivePruning = False, preserveRecentLeaves = 50\<rparr>"

definition new_compactor :: "compactor_config option \<Rightarrow> compactor" where
  "new_compactor c =
     \<lparr>co_config = (case c of None \<Rightarrow> default_compactor_config | Some x \<Rightarrow> x), historicalTrees = [], activeTree = None,
      currentCheckpoint = 0, totalMemoryUsed = 0\<rparr>"

section \<open>Operations\<close>

text \<open>The loop pushes the root of the active tree once per leaf.\<close>

definition getActiveLeaves :: "compactor \<Rightarrow> string list" where
  "getActiveLeaves c =
     (case activeTree c of
        None \<Rightarrow> []
      | Some t \<Rightarrow> concat (map (\<lambda>i. let leaf = getRoot t in if leaf \<noteq> '''' then [leaf] else []) [0..<getLeafCount t]))"

definition addLeaf :: "hashfn \<Rightarrow> string \<Rightarrow> compactor \<Rightarrow> compactor" where
  "addLeaf h leaf c =
     c\<lparr>activeTree := Some (case activeTree c of
           None \<Rightarrow> newMerkleTree h [leaf]
         | Some t \<Rightarrow> newMerkleTree h (getActiveLeaves c @ [leaf])),
       totalMemoryUsed := totalMemoryUsed c + int (length leaf) * 2\<rparr>"

definition getActiveRoot :: "compactor \<Rightarrow> string" where
  "getActiveRoot c = (case activeTree c of None \<Rightarrow> '''' | Some t \<Rightarrow> getRoot t)"

record compaction_result =
  cr_success :: bool
  cr_previousCheckpoint :: int
  cr_newCheckpoint :: int
  cr_memoryFreedBytes :: int
  cr_aggregateHash :: string
  cr_error :: "string option"

definition compaction_error :: "compactor \<Rightarrow> string \<Rightarrow> compaction_result" where
  "compaction_error c msg =
     \<lparr>cr_success = False, cr_previousCheckpoint = currentCheckpoint c, cr_newCheckpoint = currentCheckpoint c,
      cr_memoryFreedBytes = 0, cr_aggregateHash = '''', cr_error = Some msg\<rparr>"

definition pruneHistoricalTree :: "hashfn \<Rightarrow> int \<Rightarrow> compactor \<Rightarrow> compactor \<times> compaction_result" where
  "pruneHistoricalTree h checkpointIndex c =
     (if checkpointIndex < 0 then (c, compaction_error c ''Invalid checkpoint index'')
      else if checkpointIndex \<le> currentCheckpoint c then (c, compaction_error c ''Checkpoint already compacted'')
      else
        let targetIndex = min checkpointIndex (currentCheckpoint c + minCheckpointInterval (co_config c));
            kept = filter (\<lambda>(i, t). targetIndex - preserveRecentLeaves (co_config c) \<le> i) (historicalTrees c);
            dropped = filter (\<lambda>(i, t). \<not> targetIndex - preserveRecentLeaves (co_config c) \<le> i) (historicalTrees c);
            memoryFreed = sum_list (map (\<lambda>(i, t). int (length (ht_leaves t)) * 66) dropped);
            aggregateHash = h (join_with ''|'' (map (\<lambda>(i, t). ht_rootHash t) kept));
            c' = c\<lparr>historicalTrees := kept, currentCheckpoint := targetIndex,
                   totalMemoryUsed := totalMemoryUsed c - memoryFreed\<rparr>
        in (c', \<lparr>cr_success = True, cr_previousCheckpoint = currentCheckpoint c', cr_newCheckpoint = targetIndex,
                 cr_memoryFreedBytes = memoryFreed, cr_aggregateHash = aggregateHash, cr_error = None\<rparr>))"

definition createCheckpoint :: "hashfn \<Rightarrow> compactor \<Rightarrow> compactor \<times> int" where
  "createCheckpoint h c =
     (case activeTree c of
        None \<Rightarrow> (c, currentCheckpoint c)
      | Some t \<Rightarrow>
          let ht = \<lparr>ht_checkpointIndex = currentCheckpoint c, ht_rootHash = getRoot t, ht_leaves = getActiveLeaves c, ht_compacted = False\<rparr>;
              c1 = c\<lparr>historicalTrees := js_set (currentCheckpoint c) ht (historicalTrees c),
                     currentCheckpoint := currentCheckpoint c + 1\<rparr>;
              depth = maxHistoricalDepth (co_config c);
              c2 = (if depth < int (length (historicalTrees c1))
                    then fst (pruneHistoricalTree h (currentCheckpoint c1 - depth + depth div 2) c1) else c1)
          in (c2, currentCheckpoint c2))"

record compacted_state =
  cs_checkpointIndex :: int
  cs_aggregateHash :: string
  cs_compactedAt :: int
  cs_preservedLeaves :: "string list"
  cs_activeBranchHashes :: "(int, string) jsmap"

definition getCompactedState :: "env \<Rightarrow> int \<Rightarrow> compactor \<Rightarrow> compacted_state option" where
  "getCompactedState e i c =
     (case js_get (historicalTrees c) i of
        None \<Rightarrow> None
      | Some t \<Rightarrow> Some
          \<lparr>cs_checkpointIndex = i, cs_aggregateHash = ht_rootHash t, cs_compactedAt = nowMs e,
           cs_preservedLeaves = map (\<lambda>(k, t). ht_rootHash t)
             (filter (\<lambda>(k, t). i - preserveRecentLeaves (co_config c) \<le> k) (historicalTrees c)),
           cs_activeBranchHashes = map (\<lambda>(k, t). (k, ht_rootHash t)) (historicalTrees c)\<rparr>)"

text \<open>The recomputed root is thrown away by the code; \<^verbatim>\<open>MerkleTree.verifyProof\<close> itself never throws.\<close>

definition compactor_verifyProof :: "hashfn \<Rightarrow> env \<Rightarrow> merkle_proof \<Rightarrow> int \<Rightarrow> compactor \<Rightarrow> bool" where
  "compactor_verifyProof h e prf i c =
     (case getCompactedState e i c of
        None \<Rightarrow> False
      | Some st \<Rightarrow>
          (case js_get (cs_activeBranchHashes st) i of
             None \<Rightarrow> False
           | Some root \<Rightarrow>
               if root = '''' then False
               else (case activeTree c of
                       None \<Rightarrow> False
                     | Some t \<Rightarrow> (let computed = verifyProof h (getRoot t) prf in True))))"

definition getCheckpointCount :: "compactor \<Rightarrow> int" where
  "getCheckpointCount c = currentCheckpoint c + 1"

section \<open>What the compactor keeps\<close>

lemma getActiveLeaves_eq:
  "activeTree c = Some t \<Longrightarrow> getRoot t \<noteq> '''' \<Longrightarrow> getActiveLeaves c = replicate (getLeafCount t) (getRoot t)"
proof -
  assume t: "activeTree c = Some t" "getRoot t \<noteq> ''''"
  have "concat (map (\<lambda>i. [getRoot t]) [0..<n]) = replicate n (getRoot t)" for n
    by (induction n) (simp_all add: replicate_append_same)
  with t show ?thesis by (simp add: getActiveLeaves_def Let_def)
qed

text \<open>
  Adding a leaf forgets the leaves already there: the new tree is built from copies of the old
  root, one per old leaf, so from the third leaf on its root is not the root of the leaves added.
\<close>

theorem addLeaf_forgets_leaves:
  assumes "activeTree c = Some t" "getRoot t \<noteq> ''''"
  shows "activeTree (addLeaf h leaf c) = Some (newMerkleTree h (replicate (getLeafCount t) (getRoot t) @ [leaf]))"
  using assms by (simp add: addLeaf_def getActiveLeaves_eq)

theorem addLeaf_forgets_leaves_witness:
  "activeTree (addLeaf (\<lambda>t. ''hh'') ''c'' (addLeaf (\<lambda>t. ''hh'') ''b'' (addLeaf (\<lambda>t. ''hh'') ''a'' (new_compactor None)))) =
     Some (newMerkleTree (\<lambda>t. ''hh'') [''hh'', ''hh'', ''c''])"
proof -
  let ?h = "\<lambda>t::string. ''hh''"
  let ?c1 = "addLeaf ?h ''a'' (new_compactor None)"
  have t1: "activeTree ?c1 = Some (newMerkleTree ?h [''a''])" by (simp add: addLeaf_def new_compactor_def)
  have r1: "getRoot (newMerkleTree ?h [''a'']) = ''a''" by (simp add: getRoot_newMerkleTree build_layers_base)
  have t2: "activeTree (addLeaf ?h ''b'' ?c1) = Some (newMerkleTree ?h [''a'', ''b''])"
    using addLeaf_forgets_leaves [OF t1, of ?h "''b''"] r1 by simp
  have r2: "getRoot (newMerkleTree ?h [''a'', ''b'']) = ''hh''"
    by (simp add: getRoot_newMerkleTree build_layers.simps)
  show ?thesis
    using addLeaf_forgets_leaves [OF t2, of ?h "''c''"] r2 by (simp add: numeral_2_eq_2)
qed

text \<open>
  The proof check of the compactor accepts every proof: it recomputes a root from the root of the
  active tree and compares it with nothing.
\<close>

theorem compactor_accepts_any_proof:
  assumes "js_get (historicalTrees c) i = Some ht" "ht_rootHash ht \<noteq> ''''" "activeTree c = Some t"
  shows "compactor_verifyProof h e prf i c"
proof -
  have "js_get (map (\<lambda>(k, t). (k, ht_rootHash t)) (historicalTrees c)) i = Some (ht_rootHash ht)"
    using assms(1) by (simp add: map_of_map)
  then show ?thesis using assms by (simp add: compactor_verifyProof_def getCompactedState_def)
qed

text \<open>Pruning keeps exactly the checkpoints of the last window, and its report names one checkpoint twice.\<close>

lemma prune_success:
  assumes "currentCheckpoint c < i" "0 \<le> i" "pruneHistoricalTree h i c = (c', r)"
  shows "cr_success r" "cr_previousCheckpoint r = cr_newCheckpoint r" "currentCheckpoint c' = cr_newCheckpoint r"
    "set (historicalTrees c') = {(k, t) \<in> set (historicalTrees c). cr_newCheckpoint r - preserveRecentLeaves (co_config c) \<le> k}"
  using assms by (auto simp: pruneHistoricalTree_def Let_def)

theorem compactor_accepts_any_proof_witness:
  "compactor_verifyProof (\<lambda>s. ''hh'') \<lparr>nowMs = 0, nowIso = ''now'', diskOk = (\<lambda>f. True)\<rparr> \<lparr>mp_siblings = [''junk''], mp_leafIndex = 7, mp_leafCount = 1\<rparr> 0
     (fst (createCheckpoint (\<lambda>s. ''hh'') (addLeaf (\<lambda>s. ''hh'') ''a'' (new_compactor None))))"
proof -
  let ?c = "fst (createCheckpoint (\<lambda>s. ''hh'') (addLeaf (\<lambda>s. ''hh'') ''a'' (new_compactor None)))"
  let ?t = "newMerkleTree (\<lambda>s. ''hh'') [''a'']"
  have r: "getRoot ?t = ''a''" by (simp add: getRoot_newMerkleTree build_layers_base)
  have "activeTree ?c = Some ?t"
    by (simp add: createCheckpoint_def addLeaf_def new_compactor_def default_compactor_config_def Let_def)
  moreover have "\<exists>ht. js_get (historicalTrees ?c) 0 = Some ht \<and> ht_rootHash ht = ''a''"
    using r by (simp add: createCheckpoint_def addLeaf_def new_compactor_def default_compactor_config_def Let_def)
  ultimately show ?thesis using compactor_accepts_any_proof [of ?c 0] by auto
qed

end
