(* ===== verification/Rotation.thy ===== *)
theory Rotation
  imports Bft Bytes
begin

text \<open>
  Key life cycle, \<^verbatim>\<open>services/cryptography\<close>: the epochs of \<^verbatim>\<open>EnclaveKeyRotator.ts\<close> that keep the keys
  of unspent time-locked transactions, the share forwarding of \<^verbatim>\<open>EnclaveSecretForwarder.ts\<close> and the
  cold recovery of \<^verbatim>\<open>EnclaveRecoveryEngine.ts\<close>.
\<close>

section \<open>Epochs\<close>

record key_set =
  classicalPublicKeyHex :: string
  pqcPublicKeyToken :: string

record epoch_state =
  es_epoch :: int
  es_deprecated :: bool
  es_signingKeys :: key_set
  es_referencedUnspentTxIds :: "string list"

record rotator =
  kr_epochState :: "epoch_state option"
  kr_epochIndexByTxId :: "(string, int) jsmap"
  kr_deprecatedEpochs :: "epoch_state list"

definition deriveDeterministicKeySet :: "hashfn \<Rightarrow> string \<Rightarrow> key_set" where
  "deriveDeterministicKeySet h seed =
     \<lparr>classicalPublicKeyHex = h (''CLASSICAL_PUBKEY_V1|'' @ seed), pqcPublicKeyToken = h (''PQC_PUBKEY_TOKEN_V1|'' @ seed)\<rparr>"

definition epoch_seed :: "int \<Rightarrow> string" where
  "epoch_seed n = ''EPOCH_SEED_V1|'' @ show_int n @ ''|inrepo''"

definition new_epoch :: "hashfn \<Rightarrow> int \<Rightarrow> epoch_state" where
  "new_epoch h n =
     \<lparr>es_epoch = n, es_deprecated = False, es_signingKeys = deriveDeterministicKeySet h (epoch_seed n), es_referencedUnspentTxIds = []\<rparr>"

definition new_rotator :: "hashfn \<Rightarrow> rotator" where
  "new_rotator h = \<lparr>kr_epochState = Some (new_epoch h 1), kr_epochIndexByTxId = [], kr_deprecatedEpochs = []\<rparr>"

definition getCurrentEpoch :: "rotator \<Rightarrow> int" where
  "getCurrentEpoch r = (case kr_epochState r of None \<Rightarrow> 0 | Some s \<Rightarrow> es_epoch s)"

definition getCurrentSigningPublicKeys :: "rotator \<Rightarrow> key_set js_result" where
  "getCurrentSigningPublicKeys r =
     (case kr_epochState r of None \<Rightarrow> Inl (JsError ''KEY_ROTATOR_NOT_INITIALIZED'') | Some s \<Rightarrow> Inr (es_signingKeys s))"

text \<open>\<^verbatim>\<open>Set.add\<close> and \<^verbatim>\<open>Set.delete\<close> of the referenced transactions.\<close>

definition add_ref :: "string \<Rightarrow> epoch_state \<Rightarrow> epoch_state" where
  "add_ref tx s = s\<lparr>es_referencedUnspentTxIds := (if tx \<in> set (es_referencedUnspentTxIds s) then es_referencedUnspentTxIds s
                       else es_referencedUnspentTxIds s @ [tx])\<rparr>"

definition del_ref :: "string \<Rightarrow> int \<Rightarrow> epoch_state \<Rightarrow> epoch_state" where
  "del_ref tx n s =
     (if es_epoch s = n then s\<lparr>es_referencedUnspentTxIds := removeAll tx (es_referencedUnspentTxIds s)\<rparr> else s)"

definition registerUnspentTimeLockedTx :: "string \<Rightarrow> rotator \<Rightarrow> rotator" where
  "registerUnspentTimeLockedTx tx r =
     r\<lparr>kr_epochIndexByTxId := js_set tx (getCurrentEpoch r) (kr_epochIndexByTxId r),
       kr_epochState := map_option (add_ref tx) (kr_epochState r)\<rparr>"

definition markTxSpent :: "string \<Rightarrow> rotator \<Rightarrow> rotator" where
  "markTxSpent tx r =
     (case js_get (kr_epochIndexByTxId r) tx of
        None \<Rightarrow> r
      | Some n \<Rightarrow>
          if n = 0 then r
          else r\<lparr>kr_epochIndexByTxId := js_delete tx (kr_epochIndexByTxId r),
                 kr_epochState := map_option (del_ref tx n) (kr_epochState r),
                 kr_deprecatedEpochs :=
                   filter (\<lambda>s. es_referencedUnspentTxIds s \<noteq> []) (map (del_ref tx n) (kr_deprecatedEpochs r))\<rparr>)"

definition getSigningPublicKeysForEpoch :: "int \<Rightarrow> rotator \<Rightarrow> key_set option" where
  "getSigningPublicKeysForEpoch n r =
     (case kr_epochState r of
        Some s \<Rightarrow> if es_epoch s = n then Some (es_signingKeys s)
                  else map_option es_signingKeys (find (\<lambda>s. es_epoch s = n) (kr_deprecatedEpochs r))
      | None \<Rightarrow> map_option es_signingKeys (find (\<lambda>s. es_epoch s = n) (kr_deprecatedEpochs r)))"

record rotation_receipt =
  rr_prevEpoch :: int
  rr_nextEpoch :: int
  rr_signingKeys :: key_set

definition triggerEpochRotation :: "hashfn \<Rightarrow> bridge_state \<Rightarrow> rotator \<Rightarrow> rotator \<times> rotation_receipt js_result" where
  "triggerEpochRotation h b r =
     (if \<not> isEnclaveReady b then (r, Inl (JsError ''SECURITY_VIOLATION: enclave not ready for epoch rotation''))
      else (case kr_epochState r of
              None \<Rightarrow> (r, Inl (JsError ''KEY_ROTATOR_STATE_MISSING''))
            | Some s \<Rightarrow>
                let prev = s\<lparr>es_deprecated := True\<rparr>; next_epoch = new_epoch h (es_epoch s + 1)
                in (r\<lparr>kr_deprecatedEpochs := kr_deprecatedEpochs r @ (if es_referencedUnspentTxIds prev \<noteq> [] then [prev] else []),
                      kr_epochState := Some next_epoch\<rparr>,
                    Inr \<lparr>rr_prevEpoch = es_epoch s, rr_nextEpoch = es_epoch s + 1, rr_signingKeys = es_signingKeys next_epoch\<rparr>)))"

definition getEpochForTxId :: "string \<Rightarrow> rotator \<Rightarrow> int option" where
  "getEpochForTxId tx r =
     (case js_get (kr_epochIndexByTxId r) tx of Some n \<Rightarrow> if n = 0 then None else Some n | None \<Rightarrow> None)"

section \<open>The rotator as a state machine\<close>

inductive rotator_step :: "hashfn \<Rightarrow> rotator \<Rightarrow> rotator \<Rightarrow> bool" for h where
  step_register: "rotator_step h r (registerUnspentTimeLockedTx tx r)"
| step_spent: "rotator_step h r (markTxSpent tx r)"
| step_rotate: "rotator_step h r (fst (triggerEpochRotation h b r))"

inductive rotator_reach :: "hashfn \<Rightarrow> rotator \<Rightarrow> bool" for h where
  reach_new: "rotator_reach h (new_rotator h)"
| reach_step: "rotator_reach h r \<Longrightarrow> rotator_step h r r' \<Longrightarrow> rotator_reach h r'"

inductive_cases rotator_stepE: "rotator_step h r r'"

definition all_epochs :: "rotator \<Rightarrow> epoch_state list" where
  "all_epochs r = kr_deprecatedEpochs r @ (case kr_epochState r of None \<Rightarrow> [] | Some s \<Rightarrow> [s])"

text \<open>
  The invariant: epochs are numbered apart, carry the keys derived from their number, a deprecated epoch
  is kept only while it is referenced, and the epoch a transaction is bound to still references it.
\<close>

definition rotator_ok :: "hashfn \<Rightarrow> rotator \<Rightarrow> bool" where
  "rotator_ok h r \<longleftrightarrow>
     (\<exists>cur. kr_epochState r = Some cur \<and> 1 \<le> es_epoch cur
        \<and> sorted_wrt (<) (map es_epoch (kr_deprecatedEpochs r @ [cur]))
        \<and> (\<forall>s \<in> set (kr_deprecatedEpochs r @ [cur]). 1 \<le> es_epoch s \<and> es_signingKeys s = deriveDeterministicKeySet h (epoch_seed (es_epoch s)))
        \<and> (\<forall>s \<in> set (kr_deprecatedEpochs r). es_referencedUnspentTxIds s \<noteq> [])
        \<and> (\<forall>tx n. js_get (kr_epochIndexByTxId r) tx = Some n \<longrightarrow>
              (\<exists>s \<in> set (kr_deprecatedEpochs r @ [cur]). es_epoch s = n \<and> tx \<in> set (es_referencedUnspentTxIds s))))"

lemma ref_simps [simp]:
  "es_epoch (add_ref tx s) = es_epoch s" "es_signingKeys (add_ref tx s) = es_signingKeys s"
  "es_epoch (del_ref tx n s) = es_epoch s" "es_signingKeys (del_ref tx n s) = es_signingKeys s"
  "set (es_referencedUnspentTxIds (add_ref tx s)) = insert tx (set (es_referencedUnspentTxIds s))"
  "set (es_referencedUnspentTxIds (del_ref tx n s)) =
     (if es_epoch s = n then set (es_referencedUnspentTxIds s) - {tx} else set (es_referencedUnspentTxIds s))"
  by (auto simp: add_ref_def del_ref_def)

lemma add_ref_nonempty [simp]: "es_referencedUnspentTxIds (add_ref tx s) \<noteq> []"
  by (auto simp: add_ref_def)

lemma new_epoch_simps [simp]:
  "es_epoch (new_epoch h n) = n" "es_signingKeys (new_epoch h n) = deriveDeterministicKeySet h (epoch_seed n)"
  "es_referencedUnspentTxIds (new_epoch h n) = []"
  by (simp_all add: new_epoch_def)

lemma rotator_ok_new: "rotator_ok h (new_rotator h)"
  by (simp add: rotator_ok_def new_rotator_def)

lemma rotator_ok_register: "rotator_ok h r \<Longrightarrow> rotator_ok h (registerUnspentTimeLockedTx tx r)"
  by (auto simp: rotator_ok_def registerUnspentTimeLockedTx_def getCurrentEpoch_def js_get_set sorted_wrt_append split: if_splits)
    (metis+)?

lemma rotator_ok_rotate: "rotator_ok h r \<Longrightarrow> rotator_ok h (fst (triggerEpochRotation h b r))"
proof -
  assume ok: "rotator_ok h r"
  then obtain cur where cur: "kr_epochState r = Some cur" by (auto simp: rotator_ok_def)
  show ?thesis
  proof (cases "isEnclaveReady b")
    case True
    have lt: "\<forall>s \<in> set (kr_deprecatedEpochs r). es_epoch s < es_epoch cur"
      using ok cur by (auto simp: rotator_ok_def sorted_wrt_append)
    show ?thesis
      using ok cur True lt
      by (auto simp: rotator_ok_def triggerEpochRotation_def Let_def sorted_wrt_append) (fastforce+)?
  qed (use ok in \<open>simp add: triggerEpochRotation_def\<close>)
qed

lemma map_del_ref_epochs [simp]: "map es_epoch (map (del_ref tx n) ss) = map es_epoch ss"
  by (induction ss) auto

lemma sorted_del_ref:
  assumes "sorted_wrt (<) (map es_epoch (ss @ [cur]))"
  shows "sorted_wrt (<) (map es_epoch (filter P (map (del_ref tx n) ss) @ [del_ref tx n cur]))"
  using assms by (auto simp: sorted_wrt_append sorted_wrt_map intro: sorted_wrt_filter)

lemma rotator_ok_spent: "rotator_ok h r \<Longrightarrow> rotator_ok h (markTxSpent tx r)"
proof (cases "\<exists>n. js_get (kr_epochIndexByTxId r) tx = Some n \<and> n \<noteq> 0")
  case True
  then obtain n where n: "js_get (kr_epochIndexByTxId r) tx = Some n" "n \<noteq> 0" by blast
  assume "rotator_ok h r"
  then obtain cur where cur: "kr_epochState r = Some cur" "1 \<le> es_epoch cur"
    "sorted_wrt (<) (map es_epoch (kr_deprecatedEpochs r @ [cur]))"
    "\<forall>s \<in> set (kr_deprecatedEpochs r @ [cur]). 1 \<le> es_epoch s \<and> es_signingKeys s = deriveDeterministicKeySet h (epoch_seed (es_epoch s))"
    "\<forall>tx n. js_get (kr_epochIndexByTxId r) tx = Some n \<longrightarrow>
        (\<exists>s \<in> set (kr_deprecatedEpochs r @ [cur]). es_epoch s = n \<and> tx \<in> set (es_referencedUnspentTxIds s))"
    unfolding rotator_ok_def by blast
  let ?dep = "filter (\<lambda>s. es_referencedUnspentTxIds s \<noteq> []) (map (del_ref tx n) (kr_deprecatedEpochs r))"
  have r': "markTxSpent tx r = r\<lparr>kr_epochIndexByTxId := js_delete tx (kr_epochIndexByTxId r),
      kr_epochState := Some (del_ref tx n cur), kr_deprecatedEpochs := ?dep\<rparr>"
    using n cur(1) by (simp add: markTxSpent_def)
  have idx: "\<exists>s \<in> set (?dep @ [del_ref tx n cur]). es_epoch s = m \<and> tx' \<in> set (es_referencedUnspentTxIds s)"
    if "js_get (js_delete tx (kr_epochIndexByTxId r)) tx' = Some m" for tx' m
  proof -
    have "tx' \<noteq> tx" "js_get (kr_epochIndexByTxId r) tx' = Some m" using that by (auto simp: js_get_delete split: if_splits)
    then obtain s where s: "s \<in> set (kr_deprecatedEpochs r @ [cur])" "es_epoch s = m" "tx' \<in> set (es_referencedUnspentTxIds s)"
      using cur(5) by blast
    then have "tx' \<in> set (es_referencedUnspentTxIds (del_ref tx n s))" using \<open>tx' \<noteq> tx\<close> by simp
    moreover from this have "es_referencedUnspentTxIds (del_ref tx n s) \<noteq> []" by (metis empty_iff list.set(1))
    ultimately show ?thesis using s by fastforce
  qed
  show ?thesis
    unfolding rotator_ok_def r'
    using cur(2,4) sorted_del_ref [OF cur(3), where P = "\<lambda>s. es_referencedUnspentTxIds s \<noteq> []" and tx = tx and n = n] idx
    by (intro exI [of _ "del_ref tx n cur"]) auto
next
  case False
  assume "rotator_ok h r"
  then show ?thesis using False by (auto simp: markTxSpent_def split: option.splits)
qed

lemma rotator_ok_step: "rotator_step h r r' \<Longrightarrow> rotator_ok h r \<Longrightarrow> rotator_ok h r'"
  by (auto elim!: rotator_stepE intro: rotator_ok_register rotator_ok_spent rotator_ok_rotate)

lemma rotator_reach_ok: "rotator_reach h r \<Longrightarrow> rotator_ok h r"
  by (induction rule: rotator_reach.induct) (auto intro: rotator_ok_new rotator_ok_step)

lemma epoch_found:
  assumes "rotator_ok h r" "s \<in> set (all_epochs r)"
  shows "getSigningPublicKeysForEpoch (es_epoch s) r = Some (deriveDeterministicKeySet h (epoch_seed (es_epoch s)))"
proof -
  obtain cur where cur: "kr_epochState r = Some cur"
    "\<forall>s \<in> set (kr_deprecatedEpochs r @ [cur]). es_signingKeys s = deriveDeterministicKeySet h (epoch_seed (es_epoch s))"
    using assms(1) by (auto simp: rotator_ok_def)
  show ?thesis
  proof (cases "es_epoch cur = es_epoch s")
    case False
    then have "s \<in> set (kr_deprecatedEpochs r)" using assms(2) cur(1) by (auto simp: all_epochs_def)
    then obtain s' where s': "find (\<lambda>x. es_epoch x = es_epoch s) (kr_deprecatedEpochs r) = Some s'"
      using find_None_iff [of "\<lambda>x. es_epoch x = es_epoch s" "kr_deprecatedEpochs r"] by fastforce
    then show ?thesis using False cur find_Some_mem [OF s'] by (simp add: getSigningPublicKeysForEpoch_def)
  qed (use cur in \<open>simp add: getSigningPublicKeysForEpoch_def\<close>)
qed

text \<open>
  C22. In every state the rotator can reach, a transaction still bound to an epoch finds the keys of that
  epoch, however many rotations and spends happened since, and keys are kept for no other past epoch than
  those some transaction was bound to.
\<close>

theorem unspent_keys_stay:
  assumes "rotator_reach h r"
  shows "(\<forall>tx n. getEpochForTxId tx r = Some n \<longrightarrow>
            getSigningPublicKeysForEpoch n r = Some (deriveDeterministicKeySet h (epoch_seed n)) \<and> n \<le> getCurrentEpoch r)
       \<and> (\<forall>n k. getSigningPublicKeysForEpoch n r = Some k \<longrightarrow> n = getCurrentEpoch r \<or>
            (\<exists>s \<in> set (kr_deprecatedEpochs r). es_epoch s = n \<and> es_referencedUnspentTxIds s \<noteq> []))"
proof (intro conjI allI impI)
  note ok = rotator_reach_ok [OF assms]
  show "getSigningPublicKeysForEpoch n r = Some (deriveDeterministicKeySet h (epoch_seed n))"
    if "getEpochForTxId tx r = Some n" for tx n
  proof -
    have "js_get (kr_epochIndexByTxId r) tx = Some n" using that by (auto simp: getEpochForTxId_def split: option.splits if_splits)
    then obtain s where "s \<in> set (all_epochs r)" "es_epoch s = n" using ok by (fastforce simp: rotator_ok_def all_epochs_def)
    then show ?thesis using epoch_found [OF ok] by blast
  qed
  show "n \<le> getCurrentEpoch r" if "getEpochForTxId tx r = Some n" for tx n
  proof -
    have "js_get (kr_epochIndexByTxId r) tx = Some n" using that by (auto simp: getEpochForTxId_def split: option.splits if_splits)
    then show ?thesis using ok by (fastforce simp: rotator_ok_def getCurrentEpoch_def sorted_wrt_append)
  qed
  show "n = getCurrentEpoch r \<or> (\<exists>s \<in> set (kr_deprecatedEpochs r). es_epoch s = n \<and> es_referencedUnspentTxIds s \<noteq> [])"
    if "getSigningPublicKeysForEpoch n r = Some k" for n k
    using that ok
    by (auto simp: getSigningPublicKeysForEpoch_def rotator_ok_def getCurrentEpoch_def split: if_splits dest!: find_Some_mem)
qed

section \<open>A leak\<close>

definition stale_ref :: "string \<Rightarrow> int \<Rightarrow> rotator \<Rightarrow> bool" where
  "stale_ref tx n r \<longleftrightarrow> n < getCurrentEpoch r \<and> js_get (kr_epochIndexByTxId r) tx \<noteq> Some n
     \<and> (\<exists>s \<in> set (kr_deprecatedEpochs r). es_epoch s = n \<and> tx \<in> set (es_referencedUnspentTxIds s))"

lemma stale_ref_step:
  assumes "rotator_step h r r'" "stale_ref tx n r"
  shows "stale_ref tx n r'"
  using assms(1)
proof (cases rule: rotator_step.cases)
  case (step_register tx')
  then show ?thesis using assms(2)
    by (auto simp: stale_ref_def registerUnspentTimeLockedTx_def getCurrentEpoch_def js_get_set split: option.splits)
next
  case (step_rotate b)
  then show ?thesis using assms(2)
    by (auto simp: stale_ref_def triggerEpochRotation_def getCurrentEpoch_def Let_def split: option.splits)
next
  case (step_spent tx')
  obtain s where s: "s \<in> set (kr_deprecatedEpochs r)" "es_epoch s = n" "tx \<in> set (es_referencedUnspentTxIds s)"
    using assms(2) by (auto simp: stale_ref_def)
  show ?thesis
  proof (cases "\<exists>m. js_get (kr_epochIndexByTxId r) tx' = Some m \<and> m \<noteq> 0")
    case True
    then obtain m where m: "js_get (kr_epochIndexByTxId r) tx' = Some m" "m \<noteq> 0" by blast
    have keep: "tx \<in> set (es_referencedUnspentTxIds (del_ref tx' m s))"
      using s m assms(2) by (auto simp: stale_ref_def)
    then have "es_referencedUnspentTxIds (del_ref tx' m s) \<noteq> []" by (metis empty_iff list.set(1))
    with keep s m step_spent assms(2) show ?thesis
      by (auto simp: stale_ref_def markTxSpent_def getCurrentEpoch_def js_get_delete split: option.splits intro!: bexI [of _ s])
  next
    case False
    then show ?thesis using step_spent assms(2) by (auto simp: markTxSpent_def split: option.splits)
  qed
qed

text \<open>
  A transaction registered in two epochs leaks the first one: whatever happens afterwards, its spending
  included, the older epoch stays referenced and is never collected.
\<close>

theorem reregistered_epoch_leaks:
  assumes "rotator_reach h r" "isEnclaveReady b"
    and "r1 = fst (triggerEpochRotation h b (registerUnspentTimeLockedTx tx r))"
    and "(rotator_step h)\<^sup>*\<^sup>* (registerUnspentTimeLockedTx tx r1) r2"
  shows "\<exists>s \<in> set (kr_deprecatedEpochs r2). es_epoch s = getCurrentEpoch r \<and> tx \<in> set (es_referencedUnspentTxIds s)"
proof -
  obtain cur where "kr_epochState r = Some cur" using rotator_reach_ok [OF assms(1)] by (auto simp: rotator_ok_def)
  then have "stale_ref tx (getCurrentEpoch r) (registerUnspentTimeLockedTx tx r1)"
    using assms(2,3)
    by (auto simp: stale_ref_def registerUnspentTimeLockedTx_def triggerEpochRotation_def getCurrentEpoch_def js_get_set Let_def)
  with assms(4) have "stale_ref tx (getCurrentEpoch r) r2"
    by (induction rule: rtranclp_induct) (auto intro: stale_ref_step)
  then show ?thesis by (simp add: stale_ref_def)
qed

section \<open>Forwarding the shares\<close>

record node_provisioning =
  np_nodeId :: string
  np_endpoint :: string
  np_attestationDocument :: jsval
  np_nodePublicKeyPem :: string

record split_share =
  ss_shareIndex :: int
  ss_shareBytesHex :: string

record forwarding_envelope =
  fe_epoch :: int
  fe_masterSecretId :: string
  fe_recipientNodeId :: string
  fe_encryptedShareBlobs :: "string list"
  fe_shareIndices :: "int list"
  fe_envelopeHash :: string

record forward_receipt =
  fr_nodeId :: string
  fr_epoch :: int
  fr_forwarded :: bool
  fr_envelope :: forwarding_envelope

definition assertNonEmptyString :: "string \<Rightarrow> string \<Rightarrow> unit js_result" where
  "assertNonEmptyString x name = (if x = [] then Inl (JsError (''INVALID_'' @ name)) else Inr ())"

text \<open>
  \<^verbatim>\<open>crypto.publicEncrypt\<close> is a parameter: it may throw, and its randomness is the index of the call.
\<close>

type_synonym encrypt_fn = "string \<Rightarrow> int \<Rightarrow> nat list \<Rightarrow> string option"

definition share_digest :: "hashfn \<Rightarrow> string \<Rightarrow> int \<Rightarrow> int \<Rightarrow> string" where
  "share_digest h sid epoch i = h (sid @ ''|'' @ show_int epoch @ ''|SHARE_'' @ show_int i)"

definition split_shares :: "hashfn \<Rightarrow> string \<Rightarrow> int \<Rightarrow> int \<Rightarrow> split_share list" where
  "split_shares h sid epoch shareCount =
     map (\<lambda>i. \<lparr>ss_shareIndex = i, ss_shareBytesHex = bytes_hex (hex_decode_lenient (share_digest h sid epoch i))\<rparr>) [1..shareCount]"

fun encrypt_shares :: "encrypt_fn \<Rightarrow> string \<Rightarrow> split_share list \<Rightarrow> string list js_result" where
  "encrypt_shares enc key [] = Inr []"
| "encrypt_shares enc key (s # ss) =
     (case enc key (ss_shareIndex s) (hex_decode_lenient (ss_shareBytesHex s)) of
        None \<Rightarrow> Inl (JsError ''publicEncrypt'')
      | Some blob \<Rightarrow> bind_result (encrypt_shares enc key ss) (\<lambda>blobs. Inr (blob # blobs)))"

definition share_count :: "int \<Rightarrow> int" where
  "share_count totalShares = max 1 (to_int32 totalShares)"

definition forwardSplitSharesToNewNode ::
  "hashfn \<Rightarrow> verify_fn \<Rightarrow> encrypt_fn \<Rightarrow> node_provisioning \<Rightarrow> int \<Rightarrow> string \<Rightarrow> int \<Rightarrow> int \<Rightarrow> nat list \<Rightarrow> bridge_state
     \<Rightarrow> bridge_state \<times> forward_receipt js_result" where
  "forwardSplitSharesToNewNode h vf enc node epoch sid totalShares threshold masterSecretBytes b =
     (if \<not> isEnclaveReady b then (b, Inl (JsError ''SECURITY_VIOLATION: enclave not ready for secret forwarding''))
      else
        case bind_result (assertNonEmptyString (np_nodeId node) ''NODE_ID'') (\<lambda>_.
             bind_result (assertNonEmptyString (np_endpoint node) ''ENDPOINT'') (\<lambda>_.
             bind_result (assertNonEmptyString (np_nodePublicKeyPem node) ''NODE_PUBLIC_KEY_PEM'') (\<lambda>_.
               assertNonEmptyString sid ''MASTER_SECRET_ID''))) of
          Inl err \<Rightarrow> (b, Inl err)
        | Inr _ \<Rightarrow>
            (let (b', ok) = verifyEnclaveAttestation vf (np_attestationDocument node) b;
                 shares = split_shares h sid epoch (share_count totalShares);
                 indices = map ss_shareIndex shares
             in if \<not> ok then (b', Inl (JsError ''ATTESTATION_GATE_REJECTED''))
                else (b', bind_result (encrypt_shares enc (np_nodePublicKeyPem node) shares) (\<lambda>blobs.
                       Inr \<lparr>fr_nodeId = np_nodeId node, fr_epoch = epoch, fr_forwarded = True,
                            fr_envelope =
                              \<lparr>fe_epoch = epoch, fe_masterSecretId = sid, fe_recipientNodeId = np_nodeId node,
                               fe_encryptedShareBlobs = blobs, fe_shareIndices = indices,
                               fe_envelopeHash = h (''ENCRYPTED_FORWARD_V1|'' @ sid @ ''|'' @ show_int epoch @ ''|'' @ np_nodeId node
                                 @ ''|'' @ join_with '','' (map show_int indices) @ ''|'' @ join_with ''|'' blobs)\<rparr>\<rparr>))))"

lemma share_count_bounds: "1 \<le> share_count n \<and> share_count n < 2 ^ 31"
  using to_int32_bounds [of n] by (auto simp: share_count_def)

text \<open>The blobs are the encryptions of the digests, share by share.\<close>

lemma encrypt_shares_decrypt:
  assumes "\<And>key i bs blob. byte_list bs \<Longrightarrow> enc key i bs = Some blob \<Longrightarrow> dec key blob = Some bs"
    and "encrypt_shares enc key ss = Inr blobs"
  shows "map (dec key) blobs = map (\<lambda>s. Some (hex_decode_lenient (ss_shareBytesHex s))) ss"
  using assms(2)
proof (induction ss arbitrary: blobs)
  case (Cons s ss)
  from Cons.prems obtain blob rest where b: "enc key (ss_shareIndex s) (hex_decode_lenient (ss_shareBytesHex s)) = Some blob"
    "encrypt_shares enc key ss = Inr rest" "blobs = blob # rest"
    by (auto simp: bind_result_Inr_iff split: option.splits)
  show ?case using Cons.IH [OF b(2)] b assms(1) [OF _ b(1)] by simp
qed simp

text \<open>
  A node that receives an envelope decrypts from it exactly the digests of the shares 1, 2, ... up to
  the requested count cut to 32 bits; neither the threshold nor the secret itself enters them. The envelope
  is issued only when the enclave is ready and the document of the node is attested.
\<close>

theorem forwarded_shares_decrypt:
  assumes "\<And>key i bs blob. byte_list bs \<Longrightarrow> enc key i bs = Some blob \<Longrightarrow> dec key blob = Some bs"
    and "forwardSplitSharesToNewNode h vf enc node epoch sid n k secret b = (b', Inr rc)"
  shows "map (dec (np_nodePublicKeyPem node)) (fe_encryptedShareBlobs (fr_envelope rc)) =
           map (\<lambda>i. Some (hex_decode_lenient (share_digest h sid epoch i))) [1..share_count n]
       \<and> fe_shareIndices (fr_envelope rc) = [1..share_count n]
       \<and> isEnclaveReady b \<and> verifyEnclaveAttestation vf (np_attestationDocument node) b = (b', True)
       \<and> forwardSplitSharesToNewNode h vf enc node epoch sid n k' secret' b = (b', Inr rc)"
proof -
  let ?ss = "split_shares h sid epoch (share_count n)"
  have blobs: "encrypt_shares enc (np_nodePublicKeyPem node) ?ss = Inr (fe_encryptedShareBlobs (fr_envelope rc))"
    and ix: "fe_shareIndices (fr_envelope rc) = map ss_shareIndex ?ss"
    and rest: "isEnclaveReady b" "verifyEnclaveAttestation vf (np_attestationDocument node) b = (b', True)"
    using assms(2)
    by (auto simp: forwardSplitSharesToNewNode_def bind_result_Inr_iff Let_def split: if_splits sum.splits prod.splits)
  have "map ss_shareIndex ?ss = [1..share_count n]" by (simp add: split_shares_def comp_def)
  moreover have "map (\<lambda>s. Some (hex_decode_lenient (ss_shareBytesHex s))) ?ss =
      map (\<lambda>i. Some (hex_decode_lenient (share_digest h sid epoch i))) [1..share_count n]"
    by (simp add: split_shares_def)
  moreover have "forwardSplitSharesToNewNode h vf enc node epoch sid n k' secret' b = (b', Inr rc)"
    using assms(2) by (simp add: forwardSplitSharesToNewNode_def)
  ultimately show ?thesis using encrypt_shares_decrypt [OF assms(1) blobs] ix rest by simp
qed

section \<open>Cold recovery\<close>

record node_share =
  ns_nodeId :: string
  ns_shareIndex :: int
  ns_shareBytesHex :: string

record recovery_receipt =
  rc_recovered :: bool
  rc_epoch :: int
  rc_masterSecretId :: string
  rc_masterSecretHex :: "string option"
  rc_recoveryAuditHash :: string

definition usable_share :: "node_share \<Rightarrow> bool" where
  "usable_share s \<longleftrightarrow> 0 < ns_shareIndex s \<and> ns_shareBytesHex s \<noteq> []"

text \<open>The first usable share of each node; a missing entry is skipped.\<close>

fun distinct_shares :: "node_share option list \<Rightarrow> (string, node_share) jsmap \<Rightarrow> (string, node_share) jsmap" where
  "distinct_shares [] acc = acc"
| "distinct_shares (None # r) acc = distinct_shares r acc"
| "distinct_shares (Some s # r) acc =
     (if js_has acc (ns_nodeId s) then distinct_shares r acc
      else if \<not> usable_share s then distinct_shares r acc
      else distinct_shares r (js_set (ns_nodeId s) s acc))"

definition reconstruct :: "hashfn \<Rightarrow> string \<Rightarrow> int \<Rightarrow> node_share list \<Rightarrow> string" where
  "reconstruct h sid epoch shares =
     (let seed = h (''RECONSTRUCT_SEED_V1|'' @ sid @ ''|'' @ show_int epoch @ ''|'' @ join_with '','' (map (\<lambda>s. show_int (ns_shareIndex s)) shares));
          material = h (join_with ''|'' (map ns_shareBytesHex shares))
      in h (''MASTER_SECRET_DERIVE_V1|'' @ seed @ ''|'' @ material))"

definition recoverMasterSecretFromShares ::
  "hashfn \<Rightarrow> bridge_state \<Rightarrow> int \<Rightarrow> string \<Rightarrow> int \<Rightarrow> node_share option list \<Rightarrow> recovery_receipt js_result" where
  "recoverMasterSecretFromShares h b epoch sid threshold shares =
     (if \<not> isEnclaveReady b then Inl (JsError ''SECURITY_VIOLATION: enclave not ready for cold recovery'')
      else if sid = [] then Inl (JsError ''INVALID_MASTER_SECRET_ID'')
      else if threshold \<le> 0 then Inl (JsError ''INVALID_THRESHOLD'')
      else
        let found = distinct_shares shares []
        in if int (length found) < threshold
           then Inr \<lparr>rc_recovered = False, rc_epoch = epoch, rc_masterSecretId = sid, rc_masterSecretHex = None,
                     rc_recoveryAuditHash = h (''RECOVERY_FAIL|'' @ sid @ ''|'' @ show_int epoch @ ''|size='' @ show_int (int (length found)))\<rparr>
           else
             let sorted_shares = sort_by (\<lambda>x y. ns_shareIndex x \<le> ns_shareIndex y) (map snd found);
                 master = reconstruct h sid epoch sorted_shares
             in Inr \<lparr>rc_recovered = True, rc_epoch = epoch, rc_masterSecretId = sid, rc_masterSecretHex = Some master,
                     rc_recoveryAuditHash = h (''RECOVERY_AUDIT_V1|'' @ sid @ ''|'' @ show_int epoch @ ''|threshold='' @ show_int threshold
                       @ ''|nodes='' @ join_with '','' (map ns_nodeId sorted_shares) @ ''|master='' @ master)\<rparr>)"

lemma distinct_shares_keys:
  "distinct (map fst acc) \<Longrightarrow>
     distinct (map fst (distinct_shares ss acc))
     \<and> fst ` set (distinct_shares ss acc) = fst ` set acc \<union> {ns_nodeId s | s. Some s \<in> set ss \<and> usable_share s}"
proof (induction ss acc rule: distinct_shares.induct)
  case (3 s r acc)
  show ?case
  proof (cases "js_has acc (ns_nodeId s)")
    case True
    then have "ns_nodeId s \<in> fst ` set acc" by (auto simp: map_of_eq_None_iff)
    with 3 True show ?thesis by auto
  next
    case False
    with 3 show ?thesis by (auto simp: distinct_update dom_update)
  qed
qed auto

text \<open>
  C32. Cold recovery answers, on a ready enclave and well-formed parameters, with a secret exactly when the
  number of different nodes that sent a usable share reaches the threshold. It counts nodes and never looks
  at the indices, so one share sent by several nodes is counted several times.
\<close>

theorem recovery_needs_threshold_nodes:
  assumes "isEnclaveReady b" "sid \<noteq> []" "0 < threshold"
  shows "\<exists>rc. recoverMasterSecretFromShares h b epoch sid threshold shares = Inr rc
     \<and> (rc_recovered rc \<longleftrightarrow> threshold \<le> int (card {ns_nodeId s | s. Some s \<in> set shares \<and> usable_share s}))
     \<and> (rc_recovered rc \<longleftrightarrow> rc_masterSecretHex rc \<noteq> None)"
proof -
  note d = distinct_shares_keys [of "[]" shares, simplified]
  then have "length (distinct_shares shares []) = card {ns_nodeId s | s. Some s \<in> set shares \<and> usable_share s}"
    using distinct_card [of "map fst (distinct_shares shares [])"] by simp
  then show ?thesis using assms by (simp add: recoverMasterSecretFromShares_def Let_def)
qed

section \<open>Concrete instances\<close>

definition sample_rotator :: rotator where
  "sample_rotator = registerUnspentTimeLockedTx ''t'' (new_rotator (\<lambda>t. t))"

lemma sample_rotator_reach: "rotator_reach (\<lambda>t. t) sample_rotator"
  unfolding sample_rotator_def by (intro reach_step [OF reach_new] step_register)

theorem unspent_keys_stay_witness:
  "getSigningPublicKeysForEpoch 1 (fst (triggerEpochRotation (\<lambda>t. t) sample_bridge sample_rotator)) =
     Some (deriveDeterministicKeySet (\<lambda>t. t) (epoch_seed 1))"
proof -
  have "getEpochForTxId ''t'' (fst (triggerEpochRotation (\<lambda>t. t) sample_bridge sample_rotator)) = Some 1"
    by (simp add: getEpochForTxId_def triggerEpochRotation_def sample_rotator_def registerUnspentTimeLockedTx_def
        new_rotator_def getCurrentEpoch_def sample_bridge_def isEnclaveReady_def Let_def)
  then show ?thesis
    using unspent_keys_stay [OF reach_step [OF sample_rotator_reach step_rotate [of _ _ sample_bridge]]] by blast
qed

theorem reregistered_epoch_leaks_witness:
  "\<exists>s \<in> set (kr_deprecatedEpochs (markTxSpent ''t'' (registerUnspentTimeLockedTx ''t''
       (fst (triggerEpochRotation (\<lambda>t. t) sample_bridge (registerUnspentTimeLockedTx ''t'' sample_rotator)))))).
     es_epoch s = getCurrentEpoch sample_rotator \<and> ''t'' \<in> set (es_referencedUnspentTxIds s)"
proof -
  have "isEnclaveReady sample_bridge" by (simp add: sample_bridge_def isEnclaveReady_def)
  from reregistered_epoch_leaks [OF sample_rotator_reach this refl, OF r_into_rtranclp, OF step_spent]
  show ?thesis .
qed

definition sample_node :: node_provisioning where
  "sample_node = \<lparr>np_nodeId = ''n1'', np_endpoint = ''host'',
     np_attestationDocument = fst (createAttestationDocument (\<lambda>m k. ''ab'') (''PUB'', ''PRIV'') ''n1'' (fst getBaselineTemplate) ''p1''),
     np_nodePublicKeyPem = ''KEY''\<rparr>"

lemma sample_node_attested: "verifyEnclaveAttestation (\<lambda>m s k. Some True) (np_attestationDocument sample_node) sample_bridge = (sample_bridge, True)"
  by (simp add: sample_node_def attested_opens createAttestationDocument_def attested_def getBaselineTemplate_def trust_key_def
      js_trim_def js_space_def sample_bridge_def)

theorem forwarded_shares_decrypt_witness:
  "\<exists>rc. forwardSplitSharesToNewNode (\<lambda>t. ''0a'') (\<lambda>m s k. Some True) (\<lambda>k i bs. Some (bytes_hex bs)) sample_node 1 ''m'' 2 2 [7] sample_bridge
          = (sample_bridge, Inr rc)
      \<and> fe_shareIndices (fr_envelope rc) = [1, 2]"
proof -
  have two: "share_count 2 = 2" by (simp add: share_count_def to_int32_id)
  have "\<exists>rc. forwardSplitSharesToNewNode (\<lambda>t. ''0a'') (\<lambda>m s k. Some True) (\<lambda>k i bs. Some (bytes_hex bs)) sample_node 1 ''m'' 2 2 [7] sample_bridge
          = (sample_bridge, Inr rc)"
    unfolding forwardSplitSharesToNewNode_def sample_node_attested two
    by (simp add: sample_node_def assertNonEmptyString_def sample_bridge_def isEnclaveReady_def split_shares_def upto.simps)
  then obtain rc where rc: "forwardSplitSharesToNewNode (\<lambda>t. ''0a'') (\<lambda>m s k. Some True) (\<lambda>k i bs. Some (bytes_hex bs)) sample_node 1 ''m'' 2 2 [7] sample_bridge
          = (sample_bridge, Inr rc)" by blast
  have "\<And>key i bs blob. byte_list bs \<Longrightarrow> Some (bytes_hex bs) = Some blob \<Longrightarrow> Some (hex_decode_lenient blob) = Some bs"
    by auto
  from forwarded_shares_decrypt [where dec = "\<lambda>k s. Some (hex_decode_lenient s)", OF this rc]
  have "fe_shareIndices (fr_envelope rc) = [1, 2]" using two by (simp add: upto.simps)
  with rc show ?thesis by blast
qed

theorem recovery_needs_threshold_nodes_witness:
  "\<exists>rc. recoverMasterSecretFromShares (\<lambda>t. t) sample_bridge 1 ''m'' 2
          [Some \<lparr>ns_nodeId = ''a'', ns_shareIndex = 1, ns_shareBytesHex = ''0a''\<rparr>,
           Some \<lparr>ns_nodeId = ''b'', ns_shareIndex = 1, ns_shareBytesHex = ''0a''\<rparr>] = Inr rc \<and> rc_recovered rc"
proof -
  let ?ss = "[Some \<lparr>ns_nodeId = ''a'', ns_shareIndex = 1, ns_shareBytesHex = ''0a''\<rparr>,
              Some \<lparr>ns_nodeId = ''b'', ns_shareIndex = 1, ns_shareBytesHex = ''0a''\<rparr>]"
  have "{ns_nodeId s | s. Some s \<in> set ?ss \<and> usable_share s} = {''a'', ''b''}"
    by (auto simp: usable_share_def intro: exI [of _ "\<lparr>ns_nodeId = ''a'', ns_shareIndex = 1, ns_shareBytesHex = ''0a''\<rparr>"]
        exI [of _ "\<lparr>ns_nodeId = ''b'', ns_shareIndex = 1, ns_shareBytesHex = ''0a''\<rparr>"])
  then show ?thesis
    using recovery_needs_threshold_nodes [of sample_bridge "''m''" 2 "\<lambda>t. t" 1 ?ss]
    by (auto simp: sample_bridge_def isEnclaveReady_def)
qed

end
