(* ===== verification/Sealing.thy ===== *)
theory Sealing
  imports Bft Bytes
begin

text \<open>
  Sealed state: \<^verbatim>\<open>services/cryptography/EnclaveSealingEngine.ts\<close>, its use by
  \<^verbatim>\<open>services/infrastructure/EnclaveMigrationManager.ts\<close>, and the guests of
  \<^verbatim>\<open>services/infrastructure/EnclaveProvisioner.ts\<close>. SHA-256, HKDF, AES-GCM and RSA are parameters.
\<close>

section \<open>The engine\<close>

record platform =
  pl_cpuPlatformId :: string
  pl_mrsigner :: string
  pl_mrenclave :: string

record sealed_blob =
  sb_version :: int
  sb_policy :: string
  sb_platform :: platform
  sb_dkSaltHex :: string
  sb_nonceHex :: string
  sb_ciphertextHex :: string
  sb_tagHex :: string
  sb_keyId :: string
  sb_sealedAtMs :: int

record sealing_engine =
  se_cpuMasterSecret :: string
  se_cpuPlatformId :: string
  se_mrsigner :: string
  se_mrenclave :: string

type_synonym bytes = "nat list"

text \<open>AES-256-GCM: ciphertext and tag from key, nonce, associated data and plaintext; decryption may refuse.\<close>

record crypto_lib =
  cl_hash :: hashfn
  cl_hkdf :: "string \<Rightarrow> bytes \<Rightarrow> string \<Rightarrow> bytes"
  cl_encrypt :: "bytes \<Rightarrow> bytes \<Rightarrow> string \<Rightarrow> bytes \<Rightarrow> bytes \<times> bytes"
  cl_decrypt :: "bytes \<Rightarrow> bytes \<Rightarrow> string \<Rightarrow> bytes \<Rightarrow> bytes \<Rightarrow> bytes option"

definition computeCpuPlatformId :: "crypto_lib \<Rightarrow> string \<Rightarrow> string" where
  "computeCpuPlatformId L secret = cl_hash L (''cpu-master-root|'' @ secret)"

definition newSealingEngine :: "crypto_lib \<Rightarrow> string \<Rightarrow> string \<Rightarrow> string \<Rightarrow> sealing_engine" where
  "newSealingEngine L secret mrsigner mrenclave =
     \<lparr>se_cpuMasterSecret = secret, se_cpuPlatformId = computeCpuPlatformId L secret,
      se_mrsigner = mrsigner, se_mrenclave = mrenclave\<rparr>"

definition canonicalAad :: "sealing_engine \<Rightarrow> string \<Rightarrow> string" where
  "canonicalAad g policy =
     ''policy='' @ policy @ ''|cpu='' @ se_cpuPlatformId g @ ''|mrsigner='' @ se_mrsigner g @ ''|mrenclave='' @ se_mrenclave g"

definition computeDkSaltHex :: "crypto_lib \<Rightarrow> sealing_engine \<Rightarrow> string \<Rightarrow> string" where
  "computeDkSaltHex L g policy =
     cl_hash L (''hkdf-salt|policy='' @ policy @ ''|cpu='' @ se_cpuMasterSecret g @ ''|mrs='' @ se_mrsigner g @ ''|mren='' @ se_mrenclave g)"

definition deriveAesKey :: "crypto_lib \<Rightarrow> sealing_engine \<Rightarrow> string \<Rightarrow> string \<Rightarrow> bytes" where
  "deriveAesKey L g policy dkSaltHex =
     (let ikm = (if policy = ''MRENCLAVE'' then se_cpuMasterSecret g @ ''|'' @ se_mrsigner g @ ''|'' @ se_mrenclave g
                 else se_cpuMasterSecret g @ ''|'' @ se_mrsigner g)
      in cl_hkdf L ikm (hex_decode_lenient dkSaltHex) ''enclave-sealing'')"

definition computeKeyId :: "crypto_lib \<Rightarrow> sealing_engine \<Rightarrow> string \<Rightarrow> string" where
  "computeKeyId L g policy =
     cl_hash L (''keyid|policy='' @ policy @ ''|cpu='' @ se_cpuPlatformId g @ ''|mrs='' @ se_mrsigner g @ ''|mren='' @ se_mrenclave g)"

text \<open>The nonce is the value \<^verbatim>\<open>crypto.randomBytes(12)\<close> returned.\<close>

definition sealData :: "crypto_lib \<Rightarrow> env \<Rightarrow> bytes \<Rightarrow> sealing_engine \<Rightarrow> bytes \<Rightarrow> string \<Rightarrow> sealed_blob js_result" where
  "sealData L e nonce g plaintext policy =
     (if plaintext = [] then Inl (JsError ''plaintext must not be empty'')
      else
        let dkSaltHex = computeDkSaltHex L g policy;
            (ciphertext, tag) = cl_encrypt L (deriveAesKey L g policy dkSaltHex) nonce (canonicalAad g policy) plaintext
        in Inr \<lparr>sb_version = 1, sb_policy = policy,
                sb_platform = \<lparr>pl_cpuPlatformId = se_cpuPlatformId g, pl_mrsigner = se_mrsigner g, pl_mrenclave = se_mrenclave g\<rparr>,
                sb_dkSaltHex = dkSaltHex, sb_nonceHex = bytes_hex nonce, sb_ciphertextHex = bytes_hex ciphertext,
                sb_tagHex = bytes_hex tag, sb_keyId = computeKeyId L g policy, sb_sealedAtMs = nowMs e\<rparr>)"

definition unsealData :: "crypto_lib \<Rightarrow> sealing_engine \<Rightarrow> sealed_blob \<Rightarrow> bytes js_result" where
  "unsealData L g blob =
     (if sb_version blob \<noteq> 1 then Inl (JsError ''UNSEAL_FAILED: unsupported blob version'')
      else if pl_cpuPlatformId (sb_platform blob) \<noteq> se_cpuPlatformId g then Inl (JsError ''UNSEAL_FAILED: CPU platform identity mismatch'')
      else if pl_mrsigner (sb_platform blob) \<noteq> se_mrsigner g then Inl (JsError ''UNSEAL_FAILED: MRSIGNER mismatch'')
      else if pl_mrenclave (sb_platform blob) \<noteq> se_mrenclave g then Inl (JsError ''UNSEAL_FAILED: MRENCLAVE mismatch'')
      else if sb_policy blob \<noteq> ''MRENCLAVE'' \<and> sb_policy blob \<noteq> ''MRSIGNER'' then Inl (JsError ''UNSEAL_FAILED: invalid policy'')
      else if sb_dkSaltHex blob \<noteq> computeDkSaltHex L g (sb_policy blob) then Inl (JsError ''UNSEAL_FAILED: dkSaltHex mismatch'')
      else if sb_keyId blob \<noteq> computeKeyId L g (sb_policy blob) then Inl (JsError ''UNSEAL_FAILED: keyId mismatch'')
      else
        let nonce = hex_decode_lenient (sb_nonceHex blob)
        in if length nonce \<noteq> 12 then Inl (JsError ''UNSEAL_FAILED: invalid nonce length'')
           else (case cl_decrypt L (deriveAesKey L g (sb_policy blob) (sb_dkSaltHex blob)) nonce (canonicalAad g (sb_policy blob))
                        (hex_decode_lenient (sb_ciphertextHex blob)) (hex_decode_lenient (sb_tagHex blob)) of
                   None \<Rightarrow> Inl (JsError ''Unsupported state or unable to authenticate data'')
                 | Some plaintext \<Rightarrow> Inr plaintext))"

section \<open>Migration\<close>

record migration_metadata =
  mg_mrsigner :: string
  mg_targetMrenclave :: string

record migration_payload =
  mp_blob :: "sealed_blob option"
  mp_metadata :: "migration_metadata option"
  mp_migrationId :: string
  mp_packageSignatureHex :: string
  mp_packagePublicKeyPem :: string

definition canonicalMigrationHeader :: "string \<Rightarrow> migration_metadata \<Rightarrow> string" where
  "canonicalMigrationHeader mid meta =
     ''migrationId='' @ mid @ ''|mrsigner='' @ mg_mrsigner meta @ ''|targetMrenclave='' @ mg_targetMrenclave meta"

definition verifyHexRsaSha256 :: "verify_fn \<Rightarrow> string \<Rightarrow> string \<Rightarrow> string \<Rightarrow> bool" where
  "verifyHexRsaSha256 vf data sigHex publicKeyPem =
     (if sigHex = [] \<or> publicKeyPem = [] then False
      else if \<not> list_all hex_digit_ci sigHex \<or> odd (length sigHex) then False
      else (case vf data (hex_decode_lenient sigHex) publicKeyPem of None \<Rightarrow> False | Some ok \<Rightarrow> ok))"

text \<open>The result is the new blob, or the text of the error.\<close>

definition migrateBlob ::
  "crypto_lib \<Rightarrow> verify_fn \<Rightarrow> env \<Rightarrow> bytes \<Rightarrow> string \<Rightarrow> migration_payload option \<Rightarrow> string \<Rightarrow> string \<Rightarrow> string + sealed_blob" where
  "migrateBlob L vf e nonce secret payload trustedMRSIGNER trustedKey =
     (case payload of None \<Rightarrow> Inl ''MIGRATION_PAYLOAD_MISSING''
      | Some p \<Rightarrow>
     (case mp_blob p of None \<Rightarrow> Inl ''MIGRATION_BLOB_MISSING''
      | Some blob \<Rightarrow>
     (case mp_metadata p of None \<Rightarrow> Inl ''MIGRATION_METADATA_MISSING''
      | Some meta \<Rightarrow>
          if mp_migrationId p = [] then Inl ''MIGRATION_ID_MISSING''
          else if \<not> verifyHexRsaSha256 vf (canonicalMigrationHeader (mp_migrationId p) meta) (mp_packageSignatureHex p) trustedKey
            then Inl ''PACKAGE_SIGNATURE_INVALID''
          else if mg_mrsigner meta \<noteq> trustedMRSIGNER then Inl ''MRSIGNER_NOT_TRUSTED''
          else if pl_mrsigner (sb_platform blob) \<noteq> trustedMRSIGNER then Inl ''BLOB_MRSIGNER_MISMATCH''
          else
            (let engineOld = newSealingEngine L secret (pl_mrsigner (sb_platform blob)) (pl_mrenclave (sb_platform blob));
                 engineNew = newSealingEngine L secret trustedMRSIGNER (mg_targetMrenclave meta)
             in case bind_result (unsealData L engineOld blob) (\<lambda>plaintext. sealData L e nonce engineNew plaintext (sb_policy blob)) of
                  Inl err \<Rightarrow> Inl (error_message err)
                | Inr newBlob \<Rightarrow> Inr newBlob))))"

section \<open>Guests\<close>

record provisioning_profile =
  pp_nodeId :: string
  pp_listenPort :: int
  pp_vsockEndpoint :: string
  pp_pcr0 :: string
  pp_pcr1 :: string
  pp_memoryMbLimit :: int

definition provisionEphemeralConfidentialNode ::
  "(string \<Rightarrow> string \<Rightarrow> string) \<Rightarrow> string \<times> string \<Rightarrow> string \<Rightarrow> int \<Rightarrow> string \<Rightarrow> string \<Rightarrow> int option \<Rightarrow> provisioning_profile \<times> jsval" where
  "provisionEphemeralConfidentialNode sign keys nodeId port pcr0 pcr1 mem =
     (\<lparr>pp_nodeId = nodeId, pp_listenPort = port, pp_vsockEndpoint = ''vsock://localhost:'' @ show_int port,
       pp_pcr0 = pcr0, pp_pcr1 = pcr1, pp_memoryMbLimit = (case mem of None \<Rightarrow> 256 | Some m \<Rightarrow> m)\<rparr>,
      fst (createAttestationDocument sign keys nodeId pcr0 pcr1))"

definition provisionInvalidGuest ::
  "(string \<Rightarrow> string \<Rightarrow> string) \<Rightarrow> string \<times> string \<Rightarrow> string \<Rightarrow> int \<Rightarrow> provisioning_profile \<times> jsval" where
  "provisionInvalidGuest sign keys nodeId port =
     provisionEphemeralConfidentialNode sign keys nodeId port (replicate 64 CHR ''0'') ''invalid-config'' None"

section \<open>The documented behaviour of AES-GCM\<close>

text \<open>Decryption inverts encryption under the same key, nonce and associated data; buffers hold bytes.\<close>

definition aead_ok :: "crypto_lib \<Rightarrow> bool" where
  "aead_ok L \<longleftrightarrow>
     (\<forall>k n a p c t. byte_list p \<longrightarrow> cl_encrypt L k n a p = (c, t) \<longrightarrow> byte_list c \<and> byte_list t \<and> cl_decrypt L k n a c t = Some p)
     \<and> (\<forall>k n a p c t. cl_decrypt L k n a c t = Some p \<longrightarrow> byte_list p)"

lemma aead_okD:
  "aead_ok L \<Longrightarrow> byte_list p \<Longrightarrow> cl_encrypt L k n a p = (c, t) \<Longrightarrow> byte_list c \<and> byte_list t \<and> cl_decrypt L k n a c t = Some p"
  unfolding aead_ok_def by blast

definition valid_policy :: "string \<Rightarrow> bool" where
  "valid_policy p \<longleftrightarrow> p = ''MRENCLAVE'' \<or> p = ''MRSIGNER''"

lemma unsealData_Inr:
  "unsealData L g blob = Inr p \<Longrightarrow>
     pl_cpuPlatformId (sb_platform blob) = se_cpuPlatformId g \<and> pl_mrsigner (sb_platform blob) = se_mrsigner g
     \<and> pl_mrenclave (sb_platform blob) = se_mrenclave g \<and> valid_policy (sb_policy blob)
     \<and> sb_dkSaltHex blob = computeDkSaltHex L g (sb_policy blob) \<and> sb_keyId blob = computeKeyId L g (sb_policy blob)
     \<and> cl_decrypt L (deriveAesKey L g (sb_policy blob) (sb_dkSaltHex blob)) (hex_decode_lenient (sb_nonceHex blob))
          (canonicalAad g (sb_policy blob)) (hex_decode_lenient (sb_ciphertextHex blob)) (hex_decode_lenient (sb_tagHex blob)) = Some p"
  by (auto simp: unsealData_def valid_policy_def Let_def split: if_splits option.splits)

text \<open>
  What an engine seals it unseals: every non-empty buffer comes back unchanged under both policies.
\<close>

theorem unseal_seal:
  assumes "aead_ok L" "byte_list plaintext" "plaintext \<noteq> []" "byte_list nonce" "length nonce = 12" "valid_policy policy"
  shows "\<exists>blob. sealData L e nonce g plaintext policy = Inr blob \<and> unsealData L g blob = Inr plaintext"
proof -
  obtain c t where ct: "cl_encrypt L (deriveAesKey L g policy (computeDkSaltHex L g policy)) nonce (canonicalAad g policy) plaintext = (c, t)"
    by fastforce
  note d = aead_okD [OF assms(1,2) ct]
  show ?thesis
    using assms ct d by (auto simp: sealData_def unsealData_def valid_policy_def Let_def)
qed

text \<open>
  C28. A sealed blob opens only on the platform, signer and measurement it was sealed for, under either
  policy: an engine of the same signer with another measurement is refused also under \<^verbatim>\<open>MRSIGNER\<close>.
\<close>

theorem unseal_needs_same_measurement:
  assumes "sealData L e nonce g plaintext policy = Inr blob"
    and "se_cpuPlatformId g' \<noteq> se_cpuPlatformId g \<or> se_mrsigner g' \<noteq> se_mrsigner g \<or> se_mrenclave g' \<noteq> se_mrenclave g"
  shows "\<exists>err. unsealData L g' blob = Inl err"
proof (rule ccontr)
  assume "\<not> ?thesis"
  then obtain p where "unsealData L g' blob = Inr p" by (cases "unsealData L g' blob") auto
  from unsealData_Inr [OF this] assms show False
    by (auto simp: sealData_def Let_def split: if_splits prod.splits)
qed

text \<open>
  A migration answers with a blob exactly when the package signature verifies, both signer identities
  are the trusted one and the old blob opens to a non-empty secret; the new blob then opens, on the
  engine of the target measurement, to the same secret.
\<close>

theorem migration_preserves_secret:
  assumes "aead_ok L" "byte_list nonce" "length nonce = 12"
    and "mp_blob p = Some blob" "mp_metadata p = Some meta" "mp_migrationId p \<noteq> []"
  shows "((\<exists>b'. migrateBlob L vf e nonce secret (Some p) signer key = Inr b') \<longleftrightarrow>
            verifyHexRsaSha256 vf (canonicalMigrationHeader (mp_migrationId p) meta) (mp_packageSignatureHex p) key
            \<and> mg_mrsigner meta = signer \<and> pl_mrsigner (sb_platform blob) = signer
            \<and> (\<exists>secr. unsealData L (newSealingEngine L secret (pl_mrsigner (sb_platform blob)) (pl_mrenclave (sb_platform blob))) blob = Inr secr
                  \<and> secr \<noteq> []))
       \<and> (\<forall>b'. migrateBlob L vf e nonce secret (Some p) signer key = Inr b' \<longrightarrow>
            unsealData L (newSealingEngine L secret signer (mg_targetMrenclave meta)) b'
              = unsealData L (newSealingEngine L secret (pl_mrsigner (sb_platform blob)) (pl_mrenclave (sb_platform blob))) blob
            \<and> sb_policy b' = sb_policy blob)"
proof -
  let ?old = "newSealingEngine L secret (pl_mrsigner (sb_platform blob)) (pl_mrenclave (sb_platform blob))"
  let ?new = "newSealingEngine L secret signer (mg_targetMrenclave meta)"
  let ?run = "migrateBlob L vf e nonce secret (Some p) signer key"
  let ?sig = "verifyHexRsaSha256 vf (canonicalMigrationHeader (mp_migrationId p) meta) (mp_packageSignatureHex p) key"
  have ok: "\<exists>b'. sealData L e nonce ?new secr (sb_policy blob) = Inr b' \<and> unsealData L ?new b' = Inr secr \<and> sb_policy b' = sb_policy blob"
    if "unsealData L ?old blob = Inr secr" "secr \<noteq> []" for secr
  proof -
    have "byte_list secr" "valid_policy (sb_policy blob)"
      using unsealData_Inr [OF that(1)] assms(1) unfolding aead_ok_def by blast+
    from unseal_seal [OF assms(1) this(1) that(2) assms(2,3) this(2), of e "?new"] show ?thesis
      by (auto simp: sealData_def Let_def split: if_splits prod.splits)
  qed
  have empty: "sealData L e nonce ?new [] q = Inl (JsError ''plaintext must not be empty'')" for q
    by (simp add: sealData_def)
  have run: "?run = (if \<not> ?sig then Inl ''PACKAGE_SIGNATURE_INVALID''
      else if mg_mrsigner meta \<noteq> signer then Inl ''MRSIGNER_NOT_TRUSTED''
      else if pl_mrsigner (sb_platform blob) \<noteq> signer then Inl ''BLOB_MRSIGNER_MISMATCH''
      else case bind_result (unsealData L ?old blob) (\<lambda>s. sealData L e nonce ?new s (sb_policy blob)) of
             Inl err \<Rightarrow> Inl (error_message err) | Inr b' \<Rightarrow> Inr b')"
    using assms(4-6) by (simp add: migrateBlob_def)
  show ?thesis
  proof (cases "unsealData L ?old blob")
    case (Inl err)
    then show ?thesis by (auto simp: run)
  next
    case (Inr s)
    show ?thesis
    proof (cases "s = []")
      case True
      then show ?thesis using Inr empty by (auto simp: run)
    next
      case False
      from ok [OF Inr this] Inr False show ?thesis by (auto simp: run)
    qed
  qed
qed

section \<open>Concrete instances\<close>

definition sample_lib :: crypto_lib where
  "sample_lib = \<lparr>cl_hash = (\<lambda>t. ''0a''), cl_hkdf = (\<lambda>ikm salt info. [1]), cl_encrypt = (\<lambda>k n a p. (p, [9])),
     cl_decrypt = (\<lambda>k n a c t. if byte_list c \<and> t = [9] then Some c else None)\<rparr>"

definition sample_engine :: "string \<Rightarrow> sealing_engine" where
  "sample_engine m = newSealingEngine sample_lib ''root'' ''signer'' m"

definition sample_nonce :: bytes where
  "sample_nonce = replicate 12 7"

definition sample_seal_env :: env where
  "sample_seal_env = \<lparr>nowMs = 5, nowIso = ''now'', diskOk = (\<lambda>f. True)\<rparr>"

lemma sample_aead: "aead_ok sample_lib"
  by (auto simp: aead_ok_def sample_lib_def) (simp add: byte_list_def)

lemma sample_nonce_ok: "byte_list sample_nonce" "length sample_nonce = 12"
  by (simp_all add: sample_nonce_def byte_list_def list_all_iff)

theorem unseal_seal_witness:
  "\<exists>blob. sealData sample_lib sample_seal_env sample_nonce (sample_engine ''m1'') [1, 2] ''MRSIGNER'' = Inr blob
     \<and> unsealData sample_lib (sample_engine ''m1'') blob = Inr [1, 2]"
  by (rule unseal_seal [OF sample_aead _ _ sample_nonce_ok]) (simp_all add: byte_list_def valid_policy_def)

definition sample_blob :: sealed_blob where
  "sample_blob = projr (sealData sample_lib sample_seal_env sample_nonce (sample_engine ''m1'') [1, 2] ''MRSIGNER'')"

lemma sample_blob_sealed: "sealData sample_lib sample_seal_env sample_nonce (sample_engine ''m1'') [1, 2] ''MRSIGNER'' = Inr sample_blob"
  by (simp add: sample_blob_def sealData_def Let_def split: prod.splits)

theorem unseal_needs_same_measurement_witness:
  "\<exists>err. unsealData sample_lib (sample_engine ''m2'') sample_blob = Inl err"
  by (rule unseal_needs_same_measurement [OF sample_blob_sealed]) (simp add: sample_engine_def newSealingEngine_def)

definition sample_migration :: migration_payload where
  "sample_migration = \<lparr>mp_blob = Some sample_blob, mp_metadata = Some \<lparr>mg_mrsigner = ''signer'', mg_targetMrenclave = ''m2''\<rparr>,
     mp_migrationId = ''mig'', mp_packageSignatureHex = ''ab'', mp_packagePublicKeyPem = ''KEY''\<rparr>"

theorem migration_preserves_secret_witness:
  "\<exists>b'. migrateBlob sample_lib (\<lambda>m s k. Some True) sample_seal_env sample_nonce ''root'' (Some sample_migration) ''signer'' ''KEY'' = Inr b'"
proof -
  obtain blob where "sealData sample_lib sample_seal_env sample_nonce (sample_engine ''m1'') [1, 2] ''MRSIGNER'' = Inr blob"
    "unsealData sample_lib (sample_engine ''m1'') blob = Inr [1, 2]"
    using unseal_seal [OF sample_aead _ _ sample_nonce_ok, of "[1, 2]" "''MRSIGNER''" sample_seal_env "sample_engine ''m1''"]
    by (auto simp: byte_list_def valid_policy_def)
  then have u: "unsealData sample_lib (sample_engine ''m1'') sample_blob = Inr [1, 2]" using sample_blob_sealed by simp
  have pl: "pl_mrsigner (sb_platform sample_blob) = ''signer''" "pl_mrenclave (sb_platform sample_blob) = ''m1''"
    using unsealData_Inr [OF u] by (auto simp: sample_engine_def newSealingEngine_def)
  have s: "verifyHexRsaSha256 (\<lambda>m s k. Some True) d ''ab'' ''KEY''" for d
    by (simp add: verifyHexRsaSha256_def hex_digit_ci_def)
  have "unsealData sample_lib (newSealingEngine sample_lib ''root'' ''signer'' ''m1'') sample_blob = Inr [1, 2]"
    using u by (simp add: sample_engine_def)
  then show ?thesis
    using migration_preserves_secret [OF sample_aead sample_nonce_ok, of sample_migration sample_blob
        "\<lparr>mg_mrsigner = ''signer'', mg_targetMrenclave = ''m2''\<rparr>" "\<lambda>m s k. Some True" sample_seal_env "''root''" "''signer''" "''KEY''"] s
    by (simp add: pl) (simp add: sample_migration_def)
qed

end
