(* ===== verification/Identity.thy ===== *)
theory Identity
  imports Bytes Text
begin

text \<open>
  The credential checks of \<^verbatim>\<open>services/security/ConfidentialIdentityEngine.ts\<close> and the relay of
  \<^verbatim>\<open>services/bridge/CrossChainRelayEngine.ts\<close>. The reading of dates is a parameter, which gives
  None for an invalid date: its time is NaN and every comparison with it is false.
\<close>

section \<open>The engine\<close>

record verification_method =
  vm_id :: string
  vm_type :: string
  vm_publicKeyHex :: "string option"

record did_document =
  dd_id :: string
  dd_verificationMethod :: "verification_method list"

record identity_engine =
  ie_enclaveKeys :: "(string, nat list) jsmap"
  ie_didResolutions :: "(string, did_document) jsmap"
  ie_maxCredentialAgeMs :: int

definition new_identity_engine :: "int \<Rightarrow> identity_engine" where
  "new_identity_engine maxAgeHours =
     \<lparr>ie_enclaveKeys = [], ie_didResolutions = [], ie_maxCredentialAgeMs = maxAgeHours * 60 * 60 * 1000\<rparr>"

definition registerEnclaveKey :: "string \<Rightarrow> nat list \<Rightarrow> identity_engine \<Rightarrow> identity_engine" where
  "registerEnclaveKey keyId k g = g\<lparr>ie_enclaveKeys := js_set keyId k (ie_enclaveKeys g)\<rparr>"

definition cacheDidResolution :: "string \<Rightarrow> did_document \<Rightarrow> identity_engine \<Rightarrow> identity_engine" where
  "cacheDidResolution did doc g = g\<lparr>ie_didResolutions := js_set did doc (ie_didResolutions g)\<rparr>"

definition getCachedDidDocument :: "string \<Rightarrow> identity_engine \<Rightarrow> did_document option" where
  "getCachedDidDocument did g = js_get (ie_didResolutions g) did"

text \<open>The keys of the cache are texts: a lookup with anything else finds nothing.\<close>

definition resolveDid :: "identity_engine \<Rightarrow> jsval \<Rightarrow> did_document option" where
  "resolveDid g did = (case did of JStr s \<Rightarrow> js_get (ie_didResolutions g) s | _ \<Rightarrow> None)"

section \<open>Reading a credential\<close>

definition read_error :: js_error where
  "read_error = TypeError ''Cannot read properties''"

text \<open>\<^verbatim>\<open>o.k\<close>, which throws on null and undefined, and \<^verbatim>\<open>a || null\<close>.\<close>

definition get_prop :: "jsval \<Rightarrow> string \<Rightarrow> jsval js_result" where
  "get_prop v k = (if v = JUndefined \<or> v = JNull then Inl read_error else Inr (member v k))"

definition or_null :: "jsval \<Rightarrow> jsval" where
  "or_null v = (if truthy v then v else JNull)"

definition issuer_did :: "jsval \<Rightarrow> jsval js_result" where
  "issuer_did cred =
     (let issuer = member cred ''issuer'' in if is_str issuer then Inr issuer else get_prop issuer ''id'')"

definition checkTimestampFreshness :: "(jsval \<Rightarrow> int option) \<Rightarrow> env \<Rightarrow> int \<Rightarrow> jsval \<Rightarrow> bool" where
  "checkTimestampFreshness date e maxAge cred =
     (let now = nowMs e; issuance = date (member cred ''issuanceDate''); expiry = member cred ''expirationDate''
      in if (case issuance of None \<Rightarrow> False | Some t \<Rightarrow> now < t) then True
         else if truthy expiry \<and> (case date expiry of None \<Rightarrow> False | Some t \<Rightarrow> t < now) then True
         else (case issuance of None \<Rightarrow> False | Some t \<Rightarrow> maxAge < now - t))"

section \<open>The signature check\<close>

definition verifyEd25519Signature :: "jsval \<Rightarrow> string \<Rightarrow> bool" where
  "verifyEd25519Signature prf publicKey =
     (if \<not> truthy (member prf ''jws'') then False
      else length (hex_decode_lenient (drop 2 publicKey)) = 32)"

definition verifySecp256k1Signature :: "jsval \<Rightarrow> string \<Rightarrow> bool" where
  "verifySecp256k1Signature prf publicKey =
     (if \<not> truthy (member prf ''jws'') \<and> \<not> truthy (member prf ''signatureValue'') then False
      else let n = length (hex_decode_lenient (drop 2 publicKey)) in n = 33 \<or> n = 65)"

definition names_method :: "jsval \<Rightarrow> verification_method \<Rightarrow> bool" where
  "names_method name vm \<longleftrightarrow> JStr (vm_id vm) = name \<or> ends_with (vm_id vm) (js_String name)"

definition verifyCredentialSignature :: "jsval \<Rightarrow> did_document \<Rightarrow> bool js_result" where
  "verifyCredentialSignature cred doc =
     (let prf = member cred ''proof''
      in if dd_verificationMethod doc \<noteq> [] \<and> (prf = JUndefined \<or> prf = JNull) then Inl read_error
         else (case find (names_method (member prf ''verificationMethod'')) (dd_verificationMethod doc) of
                 None \<Rightarrow> Inr False
               | Some vm \<Rightarrow>
                   (case vm_publicKeyHex vm of
                      None \<Rightarrow> Inr False
                    | Some key \<Rightarrow>
                        Inr (if key = [] then False
                             else if vm_type vm = ''Ed25519'' then verifyEd25519Signature prf key
                             else if vm_type vm = ''Secp256k1'' then verifySecp256k1Signature prf key
                             else False))))"

section \<open>The verification\<close>

record identity_result =
  ir_valid :: bool
  ir_credentialId :: jsval
  ir_subjectDid :: jsval
  ir_issuerDid :: jsval
  ir_verifiedAt :: string
  ir_error :: "string option"

definition err_text :: "js_error \<Rightarrow> string" where
  "err_text err = (case err of TypeError m \<Rightarrow> m | RangeError m \<Rightarrow> m | JsError m \<Rightarrow> m)"

text \<open>The body of the \<^verbatim>\<open>try\<close>.\<close>

definition try_credential ::
  "(jsval \<Rightarrow> int option) \<Rightarrow> env \<Rightarrow> identity_engine \<Rightarrow> jsval \<Rightarrow> identity_result js_result" where
  "try_credential date e g cred =
     (if cred = JUndefined \<or> cred = JNull then Inl read_error
      else
        let answer = (\<lambda>ok err. bind_result (get_prop (member cred ''credentialSubject'') ''id'') (\<lambda>subject.
               bind_result (issuer_did cred) (\<lambda>issuer.
                 Inr \<lparr>ir_valid = ok, ir_credentialId = or_null (member cred ''id''), ir_subjectDid = subject,
                      ir_issuerDid = issuer, ir_verifiedAt = nowIso e, ir_error = err\<rparr>)))
        in if checkTimestampFreshness date e (ie_maxCredentialAgeMs g) cred
           then answer False (Some ''Credential expired or not yet valid'')
           else bind_result (issuer_did cred) (\<lambda>issuer.
             (case resolveDid g issuer of
                None \<Rightarrow> answer False (Some ''Issuer DID not resolved'')
              | Some doc \<Rightarrow>
                  bind_result (verifyCredentialSignature cred doc) (\<lambda>isValid.
                    if \<not> isValid then answer False (Some ''Invalid signature'') else answer True None))))"

text \<open>The \<^verbatim>\<open>catch\<close> reads the credential again, and throws when there is none.\<close>

definition verifyCredential ::
  "(jsval \<Rightarrow> int option) \<Rightarrow> env \<Rightarrow> identity_engine \<Rightarrow> jsval \<Rightarrow> identity_result js_result" where
  "verifyCredential date e g cred =
     (case try_credential date e g cred of
        Inr r \<Rightarrow> Inr r
      | Inl err \<Rightarrow>
          if cred = JUndefined \<or> cred = JNull then Inl read_error
          else Inr \<lparr>ir_valid = False, ir_credentialId = or_null (member cred ''id''),
                    ir_subjectDid = or_null (member (member cred ''credentialSubject'') ''id''),
                    ir_issuerDid = (let issuer = member cred ''issuer'' in if is_str issuer then issuer else or_null (member issuer ''id'')),
                    ir_verifiedAt = nowIso e, ir_error = Some (err_text err)\<rparr>)"

section \<open>The relay\<close>

datatype TargetChain = ETHEREUM | POLYGON | BSC

definition parse_chain :: "jsval \<Rightarrow> TargetChain option" where
  "parse_chain v =
     (if v = JStr ''ethereum'' then Some ETHEREUM
      else if v = JStr ''polygon'' then Some POLYGON
      else if v = JStr ''bsc'' then Some BSC else None)"

record chain_config =
  cc_chain :: TargetChain
  cc_chainId :: int
  cc_consensusType :: string

definition default_chains :: "chain_config list" where
  "default_chains =
     [\<lparr>cc_chain = ETHEREUM, cc_chainId = 1, cc_consensusType = ''pow''\<rparr>,
      \<lparr>cc_chain = POLYGON, cc_chainId = 137, cc_consensusType = ''pos''\<rparr>,
      \<lparr>cc_chain = BSC, cc_chainId = 56, cc_consensusType = ''pow''\<rparr>]"

definition new_relay :: "chain_config list option \<Rightarrow> (TargetChain, chain_config) jsmap" where
  "new_relay cfg = fold (\<lambda>x m. js_set (cc_chain x) x m) (case cfg of None \<Rightarrow> default_chains | Some c \<Rightarrow> c) []"

record block_header =
  bh_parentHash :: string
  bh_stateRoot :: string
  bh_number :: int

text \<open>The decoder gives the whole buffer as the only item; a missing item prints as \<^verbatim>\<open>0x\<close>.\<close>

definition rlp_decode :: "nat list \<Rightarrow> nat list list" where
  "rlp_decode buf = (if 0 < length buf then [buf] else [])"

definition b2h :: "nat list option \<Rightarrow> string" where
  "b2h b = ''0x'' @ (case b of None \<Rightarrow> [] | Some bs \<Rightarrow> bytes_hex bs)"

definition item_at :: "'a list \<Rightarrow> nat \<Rightarrow> 'a option" where
  "item_at f i = (if i < length f then Some (f ! i) else None)"

definition parseBlock :: "nat list list \<Rightarrow> block_header" where
  "parseBlock f = \<lparr>bh_parentHash = b2h (item_at f 0), bh_stateRoot = b2h (item_at f 3), bh_number = 0\<rparr>"

definition verifyBlockHeaders ::
  "(TargetChain, chain_config) jsmap \<Rightarrow> nat list list \<Rightarrow> jsval \<Rightarrow> block_header list js_result" where
  "verifyBlockHeaders configs raw tc =
     (case (case parse_chain tc of None \<Rightarrow> None | Some c \<Rightarrow> js_get configs c) of
        None \<Rightarrow> Inl (JsError ''bad'')
      | Some cfg \<Rightarrow> Inr (map (\<lambda>r. parseBlock (rlp_decode r)) raw))"

text \<open>State proofs are taken as they come: neither the root nor the proof nodes are looked at.\<close>

record state_proof =
  sp_key :: string
  sp_value :: string
  sp_proof :: "string list"

definition verifyStateProofs :: "string \<Rightarrow> state_proof list \<Rightarrow> (string, string) jsmap" where
  "verifyStateProofs root proofs = fold (\<lambda>p m. js_set (sp_key p) (sp_value p) m) proofs []"

definition extractStateLogs :: "(string \<Rightarrow> jsval option) \<Rightarrow> state_proof list \<Rightarrow> jsval list" where
  "extractStateLogs parse proofs =
     map (\<lambda>p. case parse (sp_value p) of
                Some v \<Rightarrow> v
              | None \<Rightarrow> JObj [(''address'', JStr (sp_key p)), (''topics'', JArr []), (''data'', JStr []), (''logIndex'', JNum 0)])
         proofs"


section \<open>What a valid answer means\<close>

text \<open>The key has the size its type calls for, and the proof carries some signature text.\<close>

definition proof_shape :: "jsval \<Rightarrow> verification_method \<Rightarrow> bool" where
  "proof_shape prf vm \<longleftrightarrow>
     (\<exists>key. vm_publicKeyHex vm = Some key \<and> key \<noteq> [] \<and>
       (vm_type vm = ''Ed25519'' \<and> truthy (member prf ''jws'') \<and> length (hex_decode_lenient (drop 2 key)) = 32
        \<or> vm_type vm = ''Secp256k1'' \<and> (truthy (member prf ''jws'') \<or> truthy (member prf ''signatureValue''))
           \<and> length (hex_decode_lenient (drop 2 key)) \<in> {33, 65}))"

lemma signature_check_iff:
  "verifyCredentialSignature cred doc = Inr True \<longleftrightarrow>
     (\<exists>vm. find (names_method (member (member cred ''proof'') ''verificationMethod'')) (dd_verificationMethod doc) = Some vm
        \<and> \<not> (member cred ''proof'' = JUndefined \<or> member cred ''proof'' = JNull) \<and> proof_shape (member cred ''proof'') vm)"
  by (auto simp: verifyCredentialSignature_def verifyEd25519Signature_def verifySecp256k1Signature_def proof_shape_def
      Let_def split: option.splits if_splits)

lemma get_prop_Inr_iff: "(\<exists>x. get_prop v k = Inr x) \<longleftrightarrow> v \<noteq> JUndefined \<and> v \<noteq> JNull"
  by (auto simp: get_prop_def)

lemma resolveDid_Some_iff: "resolveDid g v = Some doc \<longleftrightarrow> (\<exists>did. v = JStr did \<and> js_get (ie_didResolutions g) did = Some doc)"
  by (cases v) (auto simp: resolveDid_def)

text \<open>
  A credential is found valid exactly when it is not stale, its issuer is in the cache of resolved
  identities, its proof names a method of the issuer and the method's key has the right length: neither the
  signature nor the subject takes part, so that a credential with other claims and the same proof is as valid.
\<close>

theorem credential_valid_iff:
  "(\<exists>r. verifyCredential date e g cred = Inr r \<and> ir_valid r) \<longleftrightarrow>
     \<not> checkTimestampFreshness date e (ie_maxCredentialAgeMs g) cred
     \<and> (\<exists>did doc vm. issuer_did cred = Inr (JStr did) \<and> js_get (ie_didResolutions g) did = Some doc
          \<and> find (names_method (member (member cred ''proof'') ''verificationMethod'')) (dd_verificationMethod doc) = Some vm
          \<and> member cred ''proof'' \<noteq> JUndefined \<and> member cred ''proof'' \<noteq> JNull \<and> proof_shape (member cred ''proof'') vm)
     \<and> member cred ''credentialSubject'' \<noteq> JUndefined \<and> member cred ''credentialSubject'' \<noteq> JNull"
proof -
  have catch: "(\<exists>r. verifyCredential date e g cred = Inr r \<and> ir_valid r) \<longleftrightarrow>
      (\<exists>r. try_credential date e g cred = Inr r \<and> ir_valid r)"
    by (auto simp: verifyCredential_def Let_def split: sum.splits)
  have cred: "member cred ''proof'' \<noteq> JUndefined \<Longrightarrow> cred \<noteq> JUndefined \<and> cred \<noteq> JNull" by auto
  obtain subj where subj: "get_prop (member cred ''credentialSubject'') ''id'' = subj" by simp
  have some: "(\<exists>x. subj = Inr x) \<longleftrightarrow> member cred ''credentialSubject'' \<noteq> JUndefined \<and> member cred ''credentialSubject'' \<noteq> JNull"
    using get_prop_Inr_iff [of "member cred ''credentialSubject''" "''id''"] subj by simp
  show ?thesis
  proof (cases "issuer_did cred")
    case (Inl err)
    then show ?thesis unfolding catch
      by (auto simp: try_credential_def Let_def bind_result_Inr_iff)
  next
    case (Inr issuer)
    show ?thesis
    proof (cases "resolveDid g issuer")
      case None
      then show ?thesis unfolding catch using Inr resolveDid_Some_iff [of g issuer]
        by (auto simp: try_credential_def Let_def bind_result_Inr_iff split: if_splits)
    next
      case (Some doc)
      then obtain did where "issuer = JStr did" "js_get (ie_didResolutions g) did = Some doc"
        by (auto simp: resolveDid_Some_iff)
      then show ?thesis unfolding catch
        using some subj Inr Some cred signature_check_iff [of cred doc]
        by (cases "verifyCredentialSignature cred doc"; cases subj) (auto simp: try_credential_def Let_def)
    qed
  qed
qed


text \<open>
  The relay verifies nothing: for a known chain every buffer becomes a header with the empty state root and
  the block number 0, and every claimed key is recorded with the last value claimed for it, whatever the
  root and the proof nodes are.
\<close>

theorem relay_verifies_nothing:
  "verifyBlockHeaders (new_relay None) raw tc =
      (case parse_chain tc of
         None \<Rightarrow> Inl (JsError ''bad'')
       | Some c \<Rightarrow> Inr (map (\<lambda>r. \<lparr>bh_parentHash = ''0x'' @ bytes_hex r, bh_stateRoot = ''0x'', bh_number = 0\<rparr>) raw))
   \<and> js_get (verifyStateProofs root proofs) k = map_of (rev (map (\<lambda>p. (sp_key p, sp_value p)) proofs)) k"
proof
  have known: "\<exists>cfg. js_get (new_relay None) c = Some cfg" for c
    by (cases c) (simp_all add: new_relay_def default_chains_def)
  show "verifyBlockHeaders (new_relay None) raw tc =
      (case parse_chain tc of
         None \<Rightarrow> Inl (JsError ''bad'')
       | Some c \<Rightarrow> Inr (map (\<lambda>r. \<lparr>bh_parentHash = ''0x'' @ bytes_hex r, bh_stateRoot = ''0x'', bh_number = 0\<rparr>) raw))"
  proof (cases "parse_chain tc")
    case (Some c)
    with known [of c] show ?thesis
      by (auto simp: verifyBlockHeaders_def parseBlock_def rlp_decode_def b2h_def item_at_def)
  qed (simp add: verifyBlockHeaders_def)
  have "verifyStateProofs root proofs = js_map.put_all (map (\<lambda>p. (sp_key p, sp_value p)) proofs) []"
    by (simp add: verifyStateProofs_def js_map.put_all_def fold_map comp_def)
  then show "js_get (verifyStateProofs root proofs) k = map_of (rev (map (\<lambda>p. (sp_key p, sp_value p)) proofs)) k"
    by (simp only: js_map.put_all_from_empty)
qed

end
