(* ===== verification/Puzzle.thy ===== *)
theory Puzzle
  imports Http Bytes
begin

text \<open>
  The client puzzles of \<^verbatim>\<open>services/security/EnclaveClientPuzzleEngine.ts\<close> (request counters per
  window, challenges, solutions) and the middleware of \<^verbatim>\<open>middleware/AntiDosMiddleware.ts\<close> in front
  of the routes. The random seed of a challenge, the hash and \<^verbatim>\<open>JSON.parse\<close> are parameters.
\<close>

section \<open>Challenges\<close>

record challenge =
  ch_clientId :: string
  ch_serverSeed :: string
  ch_timestampMs :: int
  ch_expiresAtMs :: int
  ch_difficultyMask :: string
  ch_challengeHash :: string

record puzzle_engine =
  pe_windowMs :: int
  pe_maxRequests :: int
  pe_challengeTtlMs :: int
  pe_difficultyMask :: int
  pe_windowStart :: int
  pe_total :: int
  pe_windowCounts :: "(string, int) jsmap"
  pe_challenges :: "(string, challenge) jsmap"

text \<open>
  \<^verbatim>\<open>Number(env ?? default)\<close> replaced by the default when it is not finite or not positive (the mask:
  not finite or negative); \<open>num\<close> reads a number and gives None for the values that are not finite.
\<close>

definition env_number :: "(string \<Rightarrow> int option) \<Rightarrow> string option \<Rightarrow> int \<Rightarrow> int option" where
  "env_number num v dflt = (case v of None \<Rightarrow> Some dflt | Some s \<Rightarrow> num s)"

definition positive_or :: "int option \<Rightarrow> int \<Rightarrow> int" where
  "positive_or v dflt = (case v of None \<Rightarrow> dflt | Some n \<Rightarrow> if n \<le> 0 then dflt else n)"

definition new_puzzle_engine :: "(string \<Rightarrow> int option) \<Rightarrow> (string \<Rightarrow> string option) \<Rightarrow> env \<Rightarrow> puzzle_engine" where
  "new_puzzle_engine num pe e =
     \<lparr>pe_windowMs = positive_or (env_number num (pe ''ENCLAVE_PUZZLE_WINDOW_MS'') 10000) 10000,
      pe_maxRequests = positive_or (env_number num (pe ''ENCLAVE_PUZZLE_REQUEST_THRESHOLD'') 6) 6,
      pe_challengeTtlMs = positive_or (env_number num (pe ''ENCLAVE_PUZZLE_TTL_MS'') 30000) 30000,
      pe_difficultyMask = (case env_number num (pe ''ENCLAVE_PUZZLE_DIFFICULTY_MASK'') 65535 of
                             None \<Rightarrow> 65535 | Some n \<Rightarrow> if n < 0 then 65535 else n),
      pe_windowStart = nowMs e, pe_total = 0, pe_windowCounts = [], pe_challenges = []\<rparr>"

definition createNewEngine ::
  "(string \<Rightarrow> int option) \<Rightarrow> (string \<Rightarrow> string option) \<Rightarrow> env \<Rightarrow> int \<Rightarrow> puzzle_engine" where
  "createNewEngine num pe e difficulty = new_puzzle_engine num pe e\<lparr>pe_difficultyMask := difficulty\<rparr>"

definition normalizeClientId :: "jsval \<Rightarrow> string" where
  "normalizeClientId c =
     (let candidate = js_trim (js_String (nullish_or c (JStr ''anonymous'')))
      in if 0 < length candidate then candidate else ''anonymous'')"

section \<open>Counting\<close>

definition advanceWindowIfNeeded :: "env \<Rightarrow> puzzle_engine \<Rightarrow> puzzle_engine" where
  "advanceWindowIfNeeded e p =
     (if nowMs e - pe_windowStart p < pe_windowMs p then p
      else p\<lparr>pe_windowStart := nowMs e, pe_total := 0, pe_windowCounts := [], pe_challenges := []\<rparr>)"

definition client_count :: "puzzle_engine \<Rightarrow> string \<Rightarrow> int" where
  "client_count p c = (case js_get (pe_windowCounts p) c of None \<Rightarrow> 0 | Some n \<Rightarrow> n)"

definition isUnderPressure :: "string \<Rightarrow> puzzle_engine \<Rightarrow> bool" where
  "isUnderPressure clientId p \<longleftrightarrow>
     client_count p (normalizeClientId (JStr clientId)) > pe_maxRequests p \<or> pe_total p > pe_maxRequests p * 3"

definition recordRequest :: "env \<Rightarrow> string \<Rightarrow> puzzle_engine \<Rightarrow> puzzle_engine \<times> bool" where
  "recordRequest e clientId p =
     (let c = normalizeClientId (JStr clientId);
          p1 = advanceWindowIfNeeded e p;
          p2 = p1\<lparr>pe_total := pe_total p1 + 1, pe_windowCounts := js_set c (client_count p1 c + 1) (pe_windowCounts p1)\<rparr>
      in (p2, isUnderPressure c p2))"

section \<open>Challenges and solutions\<close>

fun show_hex :: "nat \<Rightarrow> string" where
  "show_hex n = (if n < 16 then [hex_char n] else show_hex (n div 16) @ [hex_char (n mod 16)])"

declare show_hex.simps [simp del]

definition pad_start :: "nat \<Rightarrow> char \<Rightarrow> string \<Rightarrow> string" where
  "pad_start n c s = replicate (n - length s) c @ s"

definition difficultyMaskHex :: "puzzle_engine \<Rightarrow> string" where
  "difficultyMaskHex p =
     (let v = pe_difficultyMask p
      in ''0x'' @ pad_start 8 CHR ''0'' (if v < 0 then CHR ''-'' # show_hex (nat (- v)) else show_hex (nat v)))"

definition createChallenge :: "hashfn \<Rightarrow> env \<Rightarrow> string \<Rightarrow> string \<Rightarrow> puzzle_engine \<Rightarrow> challenge" where
  "createChallenge h e seed clientId p =
     \<lparr>ch_clientId = clientId, ch_serverSeed = seed, ch_timestampMs = nowMs e,
      ch_expiresAtMs = nowMs e + pe_challengeTtlMs p, ch_difficultyMask = difficultyMaskHex p,
      ch_challengeHash = h (seed @ clientId @ show_int (nowMs e))\<rparr>"

definition getOrCreateChallenge ::
  "hashfn \<Rightarrow> env \<Rightarrow> string \<Rightarrow> string \<Rightarrow> puzzle_engine \<Rightarrow> puzzle_engine \<times> challenge" where
  "getOrCreateChallenge h e seed clientId p =
     (let c = normalizeClientId (JStr clientId);
          fresh = createChallenge h e seed c p
      in case js_get (pe_challenges p) c of
           Some ch \<Rightarrow> if nowMs e < ch_expiresAtMs ch then (p, ch) else (p\<lparr>pe_challenges := js_set c fresh (pe_challenges p)\<rparr>, fresh)
         | None \<Rightarrow> (p\<lparr>pe_challenges := js_set c fresh (pe_challenges p)\<rparr>, fresh))"

definition isValidPuzzleSolution :: "jsval \<Rightarrow> bool" where
  "isValidPuzzleSolution v \<longleftrightarrow>
     truthy v \<and> (is_obj v \<or> is_arr v) \<and> is_str (member v ''clientId'') \<and> is_str (member v ''serverSeed'')
     \<and> is_num (member v ''timestampMs'') \<and> is_num (member v ''expiresAtMs'') \<and> is_str (member v ''difficultyMask'')
     \<and> is_str (member v ''challengeHash'') \<and> is_str (member v ''nonce'')"

definition matches_challenge :: "challenge \<Rightarrow> jsval \<Rightarrow> bool" where
  "matches_challenge ch v \<longleftrightarrow>
     member v ''challengeHash'' = JStr (ch_challengeHash ch) \<and> member v ''serverSeed'' = JStr (ch_serverSeed ch)
     \<and> member v ''timestampMs'' = JNum (ch_timestampMs ch) \<and> member v ''expiresAtMs'' = JNum (ch_expiresAtMs ch)
     \<and> member v ''difficultyMask'' = JStr (ch_difficultyMask ch)"

text \<open>\<^verbatim>\<open>digest.readUInt32BE(0)\<close>, the digest being given by its hexadecimal text.\<close>

definition leading32 :: "string \<Rightarrow> 32 word" where
  "leading32 digest = word_of_int (foldl (\<lambda>a b. 256 * a + int b) 0 (take 4 (hex_bytes digest)))"

definition nonce_solves :: "hashfn \<Rightarrow> puzzle_engine \<Rightarrow> challenge \<Rightarrow> string \<Rightarrow> bool" where
  "nonce_solves h p ch nonce \<longleftrightarrow>
     and (leading32 (h (ch_challengeHash ch @ nonce))) (word_of_int (pe_difficultyMask p)) = 0"

definition verifyPuzzleSolution :: "hashfn \<Rightarrow> env \<Rightarrow> jsval \<Rightarrow> puzzle_engine \<Rightarrow> puzzle_engine \<times> bool" where
  "verifyPuzzleSolution h e v p =
     (if \<not> isValidPuzzleSolution v then (p, False)
      else
        let c = normalizeClientId (member v ''clientId'')
        in case js_get (pe_challenges p) c of
             None \<Rightarrow> (p, False)
           | Some ch \<Rightarrow>
               if \<not> matches_challenge ch v then (p, False)
               else if nowMs e > ch_expiresAtMs ch \<or> nowMs e > the_num (member v ''expiresAtMs'')
               then (p\<lparr>pe_challenges := js_delete c (pe_challenges p)\<rparr>, False)
               else if nonce_solves h p ch (the_str (member v ''nonce''))
               then (p\<lparr>pe_challenges := js_delete c (pe_challenges p)\<rparr>, True)
               else (p, False))"

section \<open>The middleware\<close>

text \<open>\<^verbatim>\<open>a || b || c || d\<close> on the header and three members of the body.\<close>

definition str_member :: "jsval \<Rightarrow> string \<Rightarrow> string" where
  "str_member v k = the_str (member v k)"

definition resolveClientId :: "request \<Rightarrow> string" where
  "resolveClientId rq =
     (let hd0 = (case rq_header rq ''x-client-id'' of None \<Rightarrow> [] | Some s \<Rightarrow> s);
          b = rq_body rq;
          explicit = (if hd0 \<noteq> [] then hd0
                      else if str_member b ''tenantId'' \<noteq> [] then str_member b ''tenantId''
                      else if str_member b ''nodeId'' \<noteq> [] then str_member b ''nodeId''
                      else str_member b ''leaderId'')
      in if explicit \<noteq> [] \<and> 0 < length (js_trim explicit) then js_trim explicit
         else (case rq_ip rq of
                 Some ip \<Rightarrow> if ip \<noteq> [] \<and> 0 < length (js_trim ip) then ip else ''anonymous''
               | None \<Rightarrow> ''anonymous''))"

definition parsePuzzleSolution :: "(string \<Rightarrow> jsval option) \<Rightarrow> request \<Rightarrow> jsval option" where
  "parsePuzzleSolution parse rq =
     (let raw = (case rq_header rq ''x-puzzle-solution'' of Some s \<Rightarrow> JStr s | None \<Rightarrow> member (rq_body rq) ''puzzleSolution'')
      in if \<not> truthy raw then None
         else if \<not> is_str raw then None
         else (case parse (the_str raw) of
                 None \<Rightarrow> None
               | Some payload \<Rightarrow> if \<not> truthy payload \<or> \<not> (is_obj payload \<or> is_arr payload) then None else Some payload))"

definition challenge_json :: "challenge \<Rightarrow> jsval" where
  "challenge_json ch = JObj
     [(''clientId'', JStr (ch_clientId ch)), (''serverSeed'', JStr (ch_serverSeed ch)),
      (''timestampMs'', JNum (ch_timestampMs ch)), (''expiresAtMs'', JNum (ch_expiresAtMs ch)),
      (''difficultyMask'', JStr (ch_difficultyMask ch)), (''challengeHash'', JStr (ch_challengeHash ch))]"

text \<open>The challenge that goes with a refusal.\<close>

definition puzzle_refusal :: "hashfn \<Rightarrow> env \<Rightarrow> string \<Rightarrow> string \<Rightarrow> puzzle_engine handler" where
  "puzzle_refusal h e seed clientId p =
     (let (p', ch) = getOrCreateChallenge h e seed clientId p
      in (p', Answer 429 (JObj [(''status'', JStr ''RATE_LIMITED''), (''error'', JStr ''PUZZLE_REQUIRED''),
                                (''challenge'', challenge_json ch)])))"

text \<open>The function the factory returns; the configuration given to the factory is not used.\<close>

definition antiDosChallenge ::
  "hashfn \<Rightarrow> (string \<Rightarrow> jsval option) \<Rightarrow> env \<Rightarrow> string \<Rightarrow> request \<Rightarrow> puzzle_engine handler" where
  "antiDosChallenge h parse e seed rq p =
     (let clientId = resolveClientId rq; (p1, requiresPuzzle) = recordRequest e clientId p
      in if \<not> requiresPuzzle then (p1, PassOn)
         else (case parsePuzzleSolution parse rq of
                 None \<Rightarrow> puzzle_refusal h e seed clientId p1
               | Some solution \<Rightarrow>
                   (let (p2, ok) = verifyPuzzleSolution h e solution p1
                    in if ok then (p2, PassOn) else puzzle_refusal h e seed clientId p2)))"

text \<open>
  The factory itself in the place of a handler: called with the request it builds a middleware
  and returns it to \<^verbatim>\<open>express\<close>, which drops it.
\<close>

definition antiDosChallengeMiddleware :: "'s handler" where
  "antiDosChallengeMiddleware s = (s, Silent)"


section \<open>Invariant\<close>

definition challenge_ok :: "hashfn \<Rightarrow> puzzle_engine \<Rightarrow> string \<Rightarrow> challenge \<Rightarrow> bool" where
  "challenge_ok h p c ch \<longleftrightarrow>
     c \<noteq> [] \<and> ch_clientId ch = c \<and> ch_expiresAtMs ch = ch_timestampMs ch + pe_challengeTtlMs p
     \<and> ch_difficultyMask ch = difficultyMaskHex p
     \<and> ch_challengeHash ch = h (ch_serverSeed ch @ c @ show_int (ch_timestampMs ch))"

definition puzzle_ok :: "hashfn \<Rightarrow> puzzle_engine \<Rightarrow> bool" where
  "puzzle_ok h p \<longleftrightarrow>
     js_map_ok (pe_windowCounts p) \<and> (\<forall>(c, n) \<in> set (pe_windowCounts p). c \<noteq> [] \<and> 1 \<le> n)
     \<and> pe_total p = sum_list (map snd (pe_windowCounts p))
     \<and> js_map_ok (pe_challenges p) \<and> (\<forall>(c, ch) \<in> set (pe_challenges p). challenge_ok h p c ch)"

text \<open>What the callers of the engine do to it.\<close>

inductive puzzle_step :: "hashfn \<Rightarrow> puzzle_engine \<Rightarrow> puzzle_engine \<Rightarrow> bool" for h where
  count: "puzzle_step h p (fst (recordRequest e c p))"
| issue: "puzzle_step h p (fst (getOrCreateChallenge h e seed c p))"
| solve: "puzzle_step h p (fst (verifyPuzzleSolution h e v p))"

inductive_cases puzzle_stepE: "puzzle_step h p p'"

lemma js_trim_idem [simp]: "js_trim (js_trim s) = js_trim s"
proof -
  have end_clean: "dropWhile js_space (rev (dropWhile js_space (rev u))) = rev (dropWhile js_space (rev u))"
    if "dropWhile js_space u = u" for u
  proof (cases u)
    case (Cons x xs)
    then have "\<not> js_space x" using that by (metis dropWhile_eq_Cons_conv)
    then have "\<exists>w. rev (dropWhile js_space (rev u)) = x # w"
      using Cons by (auto simp: dropWhile_append) (metis rev_rev_ident)+
    then show ?thesis using \<open>\<not> js_space x\<close> by auto
  qed simp
  have "dropWhile js_space (js_trim s) = js_trim s"
    unfolding js_trim_def by (rule end_clean) simp
  moreover have "rev (dropWhile js_space (rev (js_trim s))) = js_trim s"
    by (simp add: js_trim_def)
  ultimately show ?thesis by (metis js_trim_def)
qed

lemma normalizeClientId_idem [simp]: "normalizeClientId (JStr (normalizeClientId v)) = normalizeClientId v"
proof -
  have "js_trim ''anonymous'' = ''anonymous''" by (simp add: js_trim_def js_space_def)
  then show ?thesis by (simp add: normalizeClientId_def nullish_or_def Let_def)
qed

lemma normalizeClientId_nonempty [simp]: "normalizeClientId v \<noteq> []"
  by (simp add: normalizeClientId_def Let_def)

lemma sum_js_set:
  "js_map_ok m \<Longrightarrow> sum_list (map snd (js_set k (case js_get m k of None \<Rightarrow> 1 | Some n \<Rightarrow> n + 1) m))
     = sum_list (map snd m) + (1::int)"
  by (induction m) (auto split: option.splits)

lemma puzzle_ok_new: "puzzle_ok h (new_puzzle_engine num pe e)"
  by (simp add: puzzle_ok_def new_puzzle_engine_def)

lemma puzzle_ok_create: "puzzle_ok h (createNewEngine num pe e d)"
  by (simp add: puzzle_ok_def new_puzzle_engine_def createNewEngine_def)

lemma puzzle_ok_advance: "puzzle_ok h p \<Longrightarrow> puzzle_ok h (advanceWindowIfNeeded e p)"
  by (simp add: puzzle_ok_def advanceWindowIfNeeded_def)

lemma challenge_ok_frame [simp]:
  "challenge_ok h (p\<lparr>pe_windowCounts := x\<rparr>) = challenge_ok h p" "challenge_ok h (p\<lparr>pe_total := y\<rparr>) = challenge_ok h p"
  "challenge_ok h (p\<lparr>pe_challenges := z\<rparr>) = challenge_ok h p"
  by (intro ext; simp add: challenge_ok_def difficultyMaskHex_def Let_def)+

lemma ball_js_set: "(\<forall>x \<in> set m. P x) \<Longrightarrow> P (k, v) \<Longrightarrow> \<forall>x \<in> set (js_set k v m). P x"
  by (auto dest: in_set_js_set)

lemma ball_js_delete: "(\<forall>x \<in> set m. P x) \<Longrightarrow> \<forall>x \<in> set (js_delete k m). P x"
  by (auto simp: AList.delete_eq)

lemma client_count_nonneg: "puzzle_ok h p \<Longrightarrow> 0 \<le> client_count p c"
  by (force simp: client_count_def puzzle_ok_def split: option.split dest: map_of_SomeD)

lemma puzzle_ok_record:
  assumes "puzzle_ok h p"
  shows "puzzle_ok h (fst (recordRequest e c p))"
proof -
  let ?p = "advanceWindowIfNeeded e p" and ?c = "normalizeClientId (JStr c)"
  have ok: "puzzle_ok h ?p" by (rule puzzle_ok_advance [OF assms])
  have "client_count ?p ?c + 1 = (case js_get (pe_windowCounts ?p) ?c of None \<Rightarrow> 1 | Some n \<Rightarrow> n + 1)"
    by (simp add: client_count_def split: option.split)
  moreover have "js_map_ok (pe_windowCounts ?p)" using ok by (simp add: puzzle_ok_def)
  ultimately have "sum_list (map snd (js_set ?c (client_count ?p ?c + 1) (pe_windowCounts ?p))) = pe_total ?p + 1"
    using sum_js_set [of "pe_windowCounts ?p" ?c] ok by (simp add: puzzle_ok_def)
  moreover have "\<forall>(c, n) \<in> set (js_set ?c (client_count ?p ?c + 1) (pe_windowCounts ?p)). c \<noteq> [] \<and> 1 \<le> n"
    using ok client_count_nonneg [OF ok, of ?c] by (intro ball_js_set) (auto simp: puzzle_ok_def)
  ultimately show ?thesis
    using ok js_map_ok_set [of "pe_windowCounts ?p"] by (simp add: puzzle_ok_def recordRequest_def Let_def)
qed

lemma puzzle_ok_challenge:
  assumes "puzzle_ok h p"
  shows "puzzle_ok h (fst (getOrCreateChallenge h e seed c p))"
proof -
  let ?c = "normalizeClientId (JStr c)"
  let ?m = "js_set ?c (createChallenge h e seed ?c p) (pe_challenges p)"
  have "challenge_ok h p ?c (createChallenge h e seed ?c p)"
    by (simp add: challenge_ok_def createChallenge_def)
  then have "\<forall>(c, ch) \<in> set ?m. challenge_ok h p c ch"
    using assms by (intro ball_js_set) (auto simp: puzzle_ok_def)
  then have "puzzle_ok h (p\<lparr>pe_challenges := ?m\<rparr>)"
    using assms js_map_ok_set [of "pe_challenges p"] by (simp add: puzzle_ok_def)
  then show ?thesis using assms by (simp add: getOrCreateChallenge_def Let_def split: option.split)
qed

lemma puzzle_ok_verify:
  assumes "puzzle_ok h p"
  shows "puzzle_ok h (fst (verifyPuzzleSolution h e v p))"
proof -
  have "puzzle_ok h (p\<lparr>pe_challenges := js_delete k (pe_challenges p)\<rparr>)" for k
  proof -
    have "\<forall>(c, ch) \<in> set (js_delete k (pe_challenges p)). challenge_ok h p c ch"
      using assms by (intro ball_js_delete) (simp add: puzzle_ok_def)
    then show ?thesis using assms js_map_ok_delete [of "pe_challenges p"] by (simp add: puzzle_ok_def)
  qed
  then show ?thesis using assms by (simp add: verifyPuzzleSolution_def Let_def split: option.split)
qed

lemma puzzle_ok_reachable:
  assumes "(puzzle_step h)\<^sup>*\<^sup>* p p'" "puzzle_ok h p"
  shows "puzzle_ok h p'"
  using assms
  by (induction rule: rtranclp_induct) (auto elim!: puzzle_stepE simp: puzzle_ok_record puzzle_ok_challenge puzzle_ok_verify)


section \<open>Admission\<close>

text \<open>The requests of a list served in order, and how many of a class passed without a solution.\<close>

fun serve ::
  "hashfn \<Rightarrow> (string \<Rightarrow> jsval option) \<Rightarrow> (env \<times> string \<times> request) list \<Rightarrow> puzzle_engine \<Rightarrow> (request \<times> outcome) list" where
  "serve h parse [] p = []"
| "serve h parse ((e, seed, rq) # rs) p =
     (let (p', out) = antiDosChallenge h parse e seed rq p in (rq, out) # serve h parse rs p')"

definition free_passes :: "(string \<Rightarrow> jsval option) \<Rightarrow> (request \<Rightarrow> bool) \<Rightarrow> (request \<times> outcome) list \<Rightarrow> nat" where
  "free_passes parse sel log =
     length (filter (\<lambda>(rq, out). sel rq \<and> out = PassOn \<and> parsePuzzleSolution parse rq = None) log)"

definition rq_client :: "request \<Rightarrow> string" where
  "rq_client rq = normalizeClientId (JStr (resolveClientId rq))"

abbreviation in_window :: "puzzle_engine \<Rightarrow> env \<Rightarrow> bool" where
  "in_window p e \<equiv> nowMs e - pe_windowStart p < pe_windowMs p"

definition same_window :: "puzzle_engine \<Rightarrow> puzzle_engine \<Rightarrow> bool" where
  "same_window p q \<longleftrightarrow> pe_windowStart q = pe_windowStart p \<and> pe_windowMs q = pe_windowMs p
     \<and> pe_maxRequests q = pe_maxRequests p"

lemma verify_keeps_counts:
  "pe_total (fst (verifyPuzzleSolution h e v p)) = pe_total p"
  "pe_windowCounts (fst (verifyPuzzleSolution h e v p)) = pe_windowCounts p"
  "same_window p (fst (verifyPuzzleSolution h e v p))"
  by (simp_all add: verifyPuzzleSolution_def same_window_def Let_def split: option.split)

lemma refusal_keeps_counts:
  "pe_total (fst (puzzle_refusal h e seed c p)) = pe_total p"
  "pe_windowCounts (fst (puzzle_refusal h e seed c p)) = pe_windowCounts p"
  "same_window p (fst (puzzle_refusal h e seed c p))"
  "snd (puzzle_refusal h e seed c p) \<noteq> PassOn"
  by (simp_all add: puzzle_refusal_def getOrCreateChallenge_def same_window_def Let_def split: option.split)

lemma same_window_trans: "same_window p q \<Longrightarrow> same_window q r \<Longrightarrow> same_window p r"
  by (simp add: same_window_def)

lemma record_counts:
  assumes "in_window p e"
  shows "pe_total (fst (recordRequest e c p)) = pe_total p + 1"
    "client_count (fst (recordRequest e c p)) k = client_count p k + (if k = normalizeClientId (JStr c) then 1 else 0)"
    "same_window p (fst (recordRequest e c p))"
    "pe_challenges (fst (recordRequest e c p)) = pe_challenges p"
    "snd (recordRequest e c p) \<longleftrightarrow>
       pe_maxRequests p < client_count p (normalizeClientId (JStr c)) + 1 \<or> pe_maxRequests p * 3 < pe_total p + 1"
  using assms
  by (simp_all add: recordRequest_def advanceWindowIfNeeded_def same_window_def client_count_def isUnderPressure_def
      js_get_set Let_def)

text \<open>One request inside the window: the counters move by one, and a free pass is under both limits.\<close>

lemma antiDos_step:
  assumes "in_window p e" "antiDosChallenge h parse e seed rq p = (p', out)"
  shows "pe_total p' = pe_total p + 1" "same_window p p'"
    "client_count p' k = client_count p k + (if k = rq_client rq then 1 else 0)"
    "out = PassOn \<Longrightarrow> parsePuzzleSolution parse rq = None \<Longrightarrow>
       client_count p' (rq_client rq) \<le> pe_maxRequests p \<and> pe_total p' \<le> pe_maxRequests p * 3"
proof -
  obtain p1 b where r: "recordRequest e (resolveClientId rq) p = (p1, b)" by fastforce
  have rec: "pe_total p1 = pe_total p + 1" "same_window p p1"
    "client_count p1 k = client_count p k + (if k = rq_client rq then 1 else 0)" for k
    using record_counts [OF assms(1), of "resolveClientId rq"] r by (simp_all add: rq_client_def)
  have press: "b \<longleftrightarrow> pe_maxRequests p < client_count p (rq_client rq) + 1 \<or> pe_maxRequests p * 3 < pe_total p + 1"
    using record_counts(5) [OF assms(1), of "resolveClientId rq"] r by (simp add: rq_client_def)
  have keep: "pe_total p' = pe_total p1 \<and> pe_windowCounts p' = pe_windowCounts p1 \<and> same_window p1 p'
      \<and> (out = PassOn \<and> parsePuzzleSolution parse rq = None \<longrightarrow> \<not> b)"
  proof (cases "parsePuzzleSolution parse rq")
    case None
    then show ?thesis using assms(2) r refusal_keeps_counts [where h = h and e = e and seed = seed and c = "resolveClientId rq" and p = p1]
      by (auto simp: antiDosChallenge_def Let_def same_window_def split: if_splits)
  next
    case (Some v)
    obtain p2 ok where v: "verifyPuzzleSolution h e v p1 = (p2, ok)" by fastforce
    then show ?thesis
      using assms(2) r Some refusal_keeps_counts [where h = h and e = e and seed = seed and c = "resolveClientId rq" and p = p2]
        verify_keeps_counts [where h = h and e = e and v = v and p = p1]
      by (auto simp: antiDosChallenge_def Let_def same_window_def split: if_splits)
  qed
  then have cc: "client_count p' k = client_count p1 k" for k by (simp add: client_count_def)
  show "pe_total p' = pe_total p + 1" "same_window p p'" using keep rec by (auto intro: same_window_trans)
  show "client_count p' k = client_count p k + (if k = rq_client rq then 1 else 0)" using cc rec by simp
  assume "out = PassOn" "parsePuzzleSolution parse rq = None"
  then show "client_count p' (rq_client rq) \<le> pe_maxRequests p \<and> pe_total p' \<le> pe_maxRequests p * 3"
    using keep press cc rec by auto
qed

text \<open>The counting argument, for the total and for one client alike.\<close>

lemma free_passes_bound:
  assumes "\<forall>(e, seed, rq) \<in> set rs. in_window p e"
    and "\<And>p p' e seed rq out. in_window p e \<Longrightarrow> antiDosChallenge h parse e seed rq p = (p', out) \<Longrightarrow>
           (if sel rq then m p + 1 \<le> m p' else m p \<le> m p')
           \<and> (sel rq \<and> out = PassOn \<and> parsePuzzleSolution parse rq = None \<longrightarrow> m p' \<le> k * pe_maxRequests p)"
  shows "int (free_passes parse sel (serve h parse rs p)) \<le> max 0 (k * pe_maxRequests p - m p)"
  using assms(1)
proof (induction rs arbitrary: p)
  case (Cons r rs)
  obtain e seed rq where r: "r = (e, seed, rq)" by (cases r)
  obtain p' out where run: "antiDosChallenge h parse e seed rq p = (p', out)" by fastforce
  have win: "in_window p e" using Cons.prems r by simp
  note step = assms(2) [OF win run]
  have same: "same_window p p'" by (rule antiDos_step(2) [OF win run])
  then have "\<forall>(e, seed, rq) \<in> set rs. in_window p' e" using Cons.prems by (auto simp: same_window_def)
  from Cons.IH [OF this] show ?case
    using r run step same by (auto simp: free_passes_def same_window_def split: if_splits)
qed (simp add: free_passes_def)

text \<open>
  A window lets through only so many requests that bring no puzzle solution: whatever the requests are,
  at most three times the threshold in all and at most the threshold for one client, less what the
  window has counted already.
\<close>

theorem puzzle_window_bound:
  assumes "\<forall>(e, seed, rq) \<in> set rs. in_window p e"
  shows "int (free_passes parse (\<lambda>rq. True) (serve h parse rs p)) \<le> max 0 (3 * pe_maxRequests p - pe_total p)
     \<and> int (free_passes parse (\<lambda>rq. rq_client rq = c) (serve h parse rs p)) \<le> max 0 (pe_maxRequests p - client_count p c)"
proof
  have all: "(if True then pe_total p + 1 \<le> pe_total p' else pe_total p \<le> pe_total p')
      \<and> (True \<and> out = PassOn \<and> parsePuzzleSolution parse rq = None \<longrightarrow> pe_total p' \<le> 3 * pe_maxRequests p)"
    if "in_window p e" "antiDosChallenge h parse e seed rq p = (p', out)" for p p' e seed rq out
    using antiDos_step(1) [OF that] antiDos_step(4) [OF that] by auto
  show "int (free_passes parse (\<lambda>rq. True) (serve h parse rs p)) \<le> max 0 (3 * pe_maxRequests p - pe_total p)"
    by (rule free_passes_bound [OF assms all])
  have one: "(if rq_client rq = c then client_count p c + 1 \<le> client_count p' c else client_count p c \<le> client_count p' c)
      \<and> (rq_client rq = c \<and> out = PassOn \<and> parsePuzzleSolution parse rq = None \<longrightarrow> client_count p' c \<le> 1 * pe_maxRequests p)"
    if "in_window p e" "antiDosChallenge h parse e seed rq p = (p', out)" for p p' e seed rq out
    using antiDos_step(3) [OF that, of c] antiDos_step(4) [OF that] by auto
  show "int (free_passes parse (\<lambda>rq. rq_client rq = c) (serve h parse rs p)) \<le> max 0 (pe_maxRequests p - client_count p c)"
    using free_passes_bound [where sel = "\<lambda>rq. rq_client rq = c" and m = "\<lambda>p. client_count p c" and k = 1, OF assms one] by simp
qed


text \<open>The solution a client builds from the challenge it was sent.\<close>

definition solution_of :: "challenge \<Rightarrow> string \<Rightarrow> jsval" where
  "solution_of ch nonce = JObj
     [(''clientId'', JStr (ch_clientId ch)), (''serverSeed'', JStr (ch_serverSeed ch)),
      (''timestampMs'', JNum (ch_timestampMs ch)), (''expiresAtMs'', JNum (ch_expiresAtMs ch)),
      (''difficultyMask'', JStr (ch_difficultyMask ch)), (''challengeHash'', JStr (ch_challengeHash ch)),
      (''nonce'', JStr nonce)]"

lemma verify_solution_of:
  assumes "js_get (pe_challenges p) c = Some ch" "ch_clientId ch = c" "normalizeClientId (JStr c) = c"
  shows "verifyPuzzleSolution h e (solution_of ch nonce) p =
     (if ch_expiresAtMs ch < nowMs e then (p\<lparr>pe_challenges := js_delete c (pe_challenges p)\<rparr>, False)
      else if nonce_solves h p ch nonce then (p\<lparr>pe_challenges := js_delete c (pe_challenges p)\<rparr>, True)
      else (p, False))"
  using assms
  by (auto simp: verifyPuzzleSolution_def isValidPuzzleSolution_def solution_of_def matches_challenge_def Let_def)

lemma verify_accepted:
  assumes "verifyPuzzleSolution h e v p = (p', True)"
  obtains ch where "js_get (pe_challenges p) (normalizeClientId (member v ''clientId'')) = Some ch"
    "isValidPuzzleSolution v" "matches_challenge ch v" "nowMs e \<le> ch_expiresAtMs ch"
    "nonce_solves h p ch (the_str (member v ''nonce''))"
    "p' = p\<lparr>pe_challenges := js_delete (normalizeClientId (member v ''clientId'')) (pe_challenges p)\<rparr>"
  using assms by (auto simp: verifyPuzzleSolution_def Let_def split: if_splits option.splits)

text \<open>
  C37. A solution is accepted exactly when it repeats the stored challenge of its client, the challenge has
  not expired and the nonce clears the mask; the challenge is then consumed, so that no solution for the
  same client is accepted until a new challenge is issued.
\<close>

theorem puzzle_solution_once:
  assumes "verifyPuzzleSolution h e v p = (p', ok)"
  shows "(ok \<longleftrightarrow> isValidPuzzleSolution v
       \<and> (\<exists>ch. js_get (pe_challenges p) (normalizeClientId (member v ''clientId'')) = Some ch \<and> matches_challenge ch v
            \<and> nowMs e \<le> ch_expiresAtMs ch \<and> nonce_solves h p ch (the_str (member v ''nonce''))))
     \<and> (ok \<longrightarrow> (\<forall>e' v'. normalizeClientId (member v' ''clientId'') = normalizeClientId (member v ''clientId'')
            \<longrightarrow> \<not> snd (verifyPuzzleSolution h e' v' p')))"
proof (cases ok)
  case True
  then have acc: "verifyPuzzleSolution h e v p = (p', True)" using assms by simp
  obtain ch where "js_get (pe_challenges p) (normalizeClientId (member v ''clientId'')) = Some ch"
    "isValidPuzzleSolution v" "matches_challenge ch v" "nowMs e \<le> ch_expiresAtMs ch"
    "nonce_solves h p ch (the_str (member v ''nonce''))"
    "p' = p\<lparr>pe_challenges := js_delete (normalizeClientId (member v ''clientId'')) (pe_challenges p)\<rparr>"
    by (rule verify_accepted [OF acc])
  then show ?thesis using True by (simp add: verifyPuzzleSolution_def js_get_delete Let_def)
next
  case False
  then show ?thesis using assms
    by (auto simp: verifyPuzzleSolution_def matches_challenge_def Let_def split: if_splits option.splits)
qed

text \<open>
  The way through is open: a client refused with a challenge, in an engine in a reachable state, that comes
  back in the same window and before the expiry with a nonce that clears the mask is let through.
\<close>

theorem puzzle_round_trip:
  assumes "puzzle_ok h p" "antiDosChallenge h parse e seed rq p = (p1, Answer code reply)" "in_window p1 e'"
    and "js_get (pe_challenges p1) (rq_client rq) = Some ch" "nowMs e' \<le> ch_expiresAtMs ch" "nonce_solves h p1 ch nonce"
    and "resolveClientId rq' = resolveClientId rq" "parsePuzzleSolution parse rq' = Some (solution_of ch nonce)"
  shows "member reply ''challenge'' = challenge_json ch \<and> snd (antiDosChallenge h parse e' seed' rq' p1) = PassOn"
proof -
  let ?cl = "resolveClientId rq" and ?c = "rq_client rq"
  have c: "normalizeClientId (JStr ?cl) = ?c" "normalizeClientId (JStr ?c) = ?c" by (simp_all add: rq_client_def)
  obtain q where q: "puzzle_ok h q" "puzzle_refusal h e seed ?cl q = (p1, Answer code reply)"
  proof -
    obtain pr b where r: "recordRequest e ?cl p = (pr, b)" by fastforce
    have okr: "puzzle_ok h pr" using puzzle_ok_record [OF assms(1), of e ?cl] r by simp
    show ?thesis
    proof (cases "parsePuzzleSolution parse rq")
      case None
      then show ?thesis using that [OF okr] assms(2) r by (simp add: antiDosChallenge_def Let_def split: if_splits)
    next
      case (Some v)
      obtain p2 ok where v: "verifyPuzzleSolution h e v pr = (p2, ok)" by fastforce
      have "puzzle_ok h p2" using puzzle_ok_verify [OF okr, of e v] v by simp
      then show ?thesis using that assms(2) r Some v by (simp add: antiDosChallenge_def Let_def split: if_splits)
    qed
  qed
  have ok1: "puzzle_ok h p1"
    using q puzzle_ok_challenge [OF q(1), of e seed ?cl] by (auto simp: puzzle_refusal_def split: prod.splits)
  have sent: "member reply ''challenge'' = challenge_json ch"
    using q(2) assms(4) c
    by (auto simp: puzzle_refusal_def getOrCreateChallenge_def js_get_set Let_def split: if_splits option.splits)
  have id: "ch_clientId ch = ?c"
    using ok1 assms(4) by (auto simp: puzzle_ok_def challenge_ok_def dest!: map_of_SomeD)
  obtain p2 b where r2: "recordRequest e' ?cl p1 = (p2, b)" by fastforce
  have p2: "pe_challenges p2 = pe_challenges p1" "pe_difficultyMask p2 = pe_difficultyMask p1"
    using record_counts(4) [OF assms(3), of ?cl] r2
    by (auto simp: recordRequest_def advanceWindowIfNeeded_def Let_def split: if_splits)
  have "nonce_solves h p2 ch nonce" using assms(6) p2 by (simp add: nonce_solves_def)
  then have "snd (verifyPuzzleSolution h e' (solution_of ch nonce) p2)"
    using verify_solution_of [of p2 ?c ch h e' nonce] p2 assms(4,5) id c by simp
  then have "snd (antiDosChallenge h parse e' seed' rq' p1) = PassOn"
    using r2 assms(7,8)
    by (cases "verifyPuzzleSolution h e' (solution_of ch nonce) p2") (auto simp: antiDosChallenge_def Let_def)
  with sent show ?thesis by simp
qed


section \<open>Concrete instances\<close>

definition at_ms :: "int \<Rightarrow> env" where
  "at_ms t = \<lparr>nowMs = t, nowIso = ''2024-01-01T00:00:00.000Z'', diskOk = (\<lambda>f. True)\<rparr>"

definition plain_request :: request where
  "plain_request = \<lparr>rq_header = (\<lambda>k. None), rq_body = JObj [(''tenantId'', JStr ''t1'')], rq_ip = Some ''10.0.0.1''\<rparr>"

definition zero_hash :: hashfn where
  "zero_hash s = replicate 64 CHR ''0''"

text \<open>An engine one request short of the threshold 1.\<close>

definition pressed_engine :: puzzle_engine where
  "pressed_engine = \<lparr>pe_windowMs = 10000, pe_maxRequests = 1, pe_challengeTtlMs = 30000, pe_difficultyMask = 65535,
     pe_windowStart = 0, pe_total = 1, pe_windowCounts = [(''t1'', 1)], pe_challenges = []\<rparr>"

definition issued :: challenge where
  "issued = createChallenge zero_hash (at_ms 5) ''seed'' ''t1'' pressed_engine"

definition solved_request :: request where
  "solved_request = plain_request\<lparr>rq_header := (\<lambda>k. if k = ''x-puzzle-solution'' then Some ''s'' else None)\<rparr>"

lemma plain_client: "resolveClientId plain_request = ''t1''" "resolveClientId solved_request = ''t1''"
  "normalizeClientId (JStr ''t1'') = ''t1''"
  by (simp_all add: resolveClientId_def plain_request_def solved_request_def str_member_def js_trim_def js_space_def
      normalizeClientId_def nullish_or_def)

lemma plain_no_solution: "parsePuzzleSolution parse plain_request = None"
  by (simp add: parsePuzzleSolution_def plain_request_def)

definition refused_engine :: puzzle_engine where
  "refused_engine = pressed_engine\<lparr>pe_total := 2, pe_windowCounts := [(''t1'', 2)], pe_challenges := [(''t1'', issued)]\<rparr>"

lemma pressed_refuses:
  "antiDosChallenge zero_hash parse (at_ms 5) ''seed'' plain_request pressed_engine
     = (refused_engine, Answer 429 (JObj [(''status'', JStr ''RATE_LIMITED''), (''error'', JStr ''PUZZLE_REQUIRED''),
                                          (''challenge'', challenge_json issued)]))"
  by (simp add: antiDosChallenge_def plain_client plain_no_solution recordRequest_def advanceWindowIfNeeded_def
      at_ms_def pressed_engine_def client_count_def isUnderPressure_def puzzle_refusal_def getOrCreateChallenge_def
      issued_def refused_engine_def createChallenge_def difficultyMaskHex_def Let_def)

lemma zero_solves: "nonce_solves zero_hash p ch nonce"
proof -
  have "leading32 (zero_hash s) = 0" for s
    by (simp add: leading32_def zero_hash_def hex_byte_value_def numeral_eq_Suc)
  then show ?thesis by (simp add: nonce_solves_def)
qed

theorem puzzle_round_trip_witness:
  "snd (antiDosChallenge zero_hash (\<lambda>s. Some (solution_of issued ''n'')) (at_ms 9) ''seed2'' solved_request refused_engine) = PassOn"
proof -
  have "puzzle_ok zero_hash pressed_engine" by (simp add: puzzle_ok_def pressed_engine_def)
  moreover have "rq_client plain_request = ''t1''" by (simp add: rq_client_def plain_client)
  moreover have "parsePuzzleSolution (\<lambda>s. Some (solution_of issued ''n'')) solved_request = Some (solution_of issued ''n'')"
    by (simp add: parsePuzzleSolution_def solved_request_def solution_of_def)
  ultimately show ?thesis
    using puzzle_round_trip [OF _ pressed_refuses, of "at_ms 9" issued "''n''" solved_request "\<lambda>s. Some (solution_of issued ''n'')" "''seed2''"]
    by (simp add: refused_engine_def pressed_engine_def at_ms_def plain_client zero_solves issued_def createChallenge_def)
qed

theorem puzzle_solution_once_witness:
  "\<exists>p'. verifyPuzzleSolution zero_hash (at_ms 9) (solution_of issued ''n'') refused_engine = (p', True)
     \<and> \<not> snd (verifyPuzzleSolution zero_hash (at_ms 9) (solution_of issued ''n'') p')"
proof -
  have "verifyPuzzleSolution zero_hash (at_ms 9) (solution_of issued ''n'') refused_engine
      = (refused_engine\<lparr>pe_challenges := js_delete ''t1'' (pe_challenges refused_engine)\<rparr>, True)"
    by (subst verify_solution_of [of _ "''t1''"])
       (simp_all add: refused_engine_def issued_def createChallenge_def plain_client zero_solves at_ms_def pressed_engine_def)
  with puzzle_solution_once [OF this] show ?thesis by auto
qed

theorem puzzle_window_bound_witness:
  "int (free_passes (\<lambda>s. None) (\<lambda>rq. True) (serve zero_hash (\<lambda>s. None) (replicate 5 (at_ms 5, ''s'', plain_request)) pressed_engine)) \<le> 2"
  using puzzle_window_bound [of "replicate 5 (at_ms 5, ''s'', plain_request)" pressed_engine "\<lambda>s. None" zero_hash "''t1''"]
  by (simp add: at_ms_def pressed_engine_def)

end
