(* ===== verification/Router.thy ===== *)
theory Router
  imports AdminRecovery Raft Reconciliation Sealing Identity Puzzle
begin

text \<open>
  The gateway of \<^verbatim>\<open>services/EscrowRouter.ts\<close>: every route of the router as a chain of handlers over one
  server state that holds the singletons of the services. Bodies are read at the types their
  declarations give them; SHA-256, signatures, AES, the network, the clock and the environment are
  parameters.
\<close>

section \<open>State and surroundings\<close>

record server =
  sv_node :: recovery_node
  sv_bridge :: bridge_state
  sv_cluster :: cluster
  sv_raft :: raft_state
  sv_reconciliation :: reconciliation
  sv_snapshots :: snapshot_manager
  sv_sealing :: "(string \<times> string \<times> string) option"

record surroundings =
  x_hash :: hashfn
  x_verify :: verify_fn
  x_env :: env
  x_fetch :: "nat \<Rightarrow> fetch_result"
  x_broadcast :: "broadcast_request \<Rightarrow> fetch_result"
  x_parseIso :: "string \<Rightarrow> int option"
  x_date :: "jsval \<Rightarrow> int option"
  x_recovery :: recovery_config
  x_crypto :: crypto_lib
  x_nonce :: "nat list"
  x_environment :: "string \<Rightarrow> string option"

definition audit_file :: string where
  "audit_file = ''gateway-events.jsonl''"

text \<open>\<^verbatim>\<open>AuditLogger.logEvent\<close>, which throws when the log cannot be appended to.\<close>

definition audit :: "surroundings \<Rightarrow> audit_payload \<Rightarrow> server \<Rightarrow> server \<times> unit js_result" where
  "audit x p sv =
     (if diskOk (x_env x) audit_file
      then (sv\<lparr>sv_node := sv_node sv\<lparr>nd_auditor := nd_auditor (sv_node sv)
                 \<lparr>au_log := fst (logEvent (x_hash x) (x_env x) p (au_log (nd_auditor (sv_node sv))))\<rparr>\<rparr>\<rparr>, Inr ())
      else (sv, Inl (JsError ''append failed'')))"

definition isFrozen :: "server \<Rightarrow> bool" where
  "isFrozen sv = au_frozen (nd_auditor (sv_node sv))"

definition frozen_text :: string where
  "frozen_text = ''EMERGENCY_SYSTEM_FREEZE: Ledger tampering detected. System write paths suspended.''"

text \<open>The two shapes of the answer of a \<^verbatim>\<open>catch\<close>.\<close>

definition crashed :: "js_error \<Rightarrow> outcome" where
  "crashed err = failed 500 (error_message err)"

definition crashed_state :: "js_error \<Rightarrow> outcome" where
  "crashed_state err = Answer 500 (JObj [(''state'', JStr ''FAILED''), (''error'', JStr (error_message err))])"

section \<open>Ledger and attestation\<close>

definition records_handler :: "surroundings \<Rightarrow> server handler" where
  "records_handler x sv =
     (let (d', records) = getAllRecords (x_env x) (nd_db (sv_node sv))
      in (sv\<lparr>sv_node := sv_node sv\<lparr>nd_db := d'\<rparr>\<rparr>, Answer 200 (JArr (map encodeRecord records))))"

definition attest_handler :: "surroundings \<Rightarrow> jsval \<Rightarrow> server handler" where
  "attest_handler x doc sv =
     (let (b', ok) = verifyEnclaveAttestation (x_verify x) doc (sv_bridge sv); sv' = sv\<lparr>sv_bridge := b'\<rparr>
      in if \<not> ok then (sv', failed 403 ''Hardware attestation document validation mismatch.'')
         else (sv', success 200 [(''message'', JStr ''Enclave boundary attested and secured.'')]))"

definition lock_gate :: "server handler" where
  "lock_gate sv =
     (if isFrozen sv then (sv, failed 503 frozen_text)
      else if \<not> isEnclaveReady (sv_bridge sv)
      then (sv, failed 503 ''CONFIDENTIAL_COMPUTE_ERROR: Hardware isolation enclave is uncredentialed or unverified.'')
      else (sv, PassOn))"

definition utf8_bytes :: "string \<Rightarrow> nat list" where
  "utf8_bytes s = concat (map (\<lambda>c. let n = of_char c :: nat in if n < 128 then [n] else [192 + n div 64, 128 + n mod 64]) s)"

definition lock_text :: "jsval \<Rightarrow> string" where
  "lock_text b = js_String (member b ''tenantId'') @ '':'' @ js_String (member b ''account'') @ '':'' @ js_String (member b ''amount'')"

definition lock_transaction_id :: "jsval \<Rightarrow> string" where
  "lock_transaction_id b = ''tx_'' @ take 32 (bytes_hex (utf8_bytes (lock_text b)))"

text \<open>The checks of the lock parameters, in order; None when they all pass.\<close>

definition lock_params :: "jsval \<Rightarrow> outcome option" where
  "lock_params b =
     (let va = member b ''validAfterMs''; vu = member b ''validUntilMs''; amount = member b ''amount'' in
      if \<not> truthy (member b ''tenantId'') \<or> \<not> truthy (member b ''account'') \<or> amount = JUndefined \<or> amount = JNull
         \<or> \<not> truthy (member b ''signature'') \<or> \<not> truthy (member b ''publicKey'') \<or> va = JUndefined \<or> vu = JUndefined
      then Some (failed 400 ''Missing required parameters for lock challenge.'')
      else if \<not> is_num va \<or> \<not> is_num vu then Some (failed 400 ''validAfterMs/validUntilMs must be numbers.'')
      else if the_num vu \<le> the_num va then Some (failed 400 ''Invalid time-lock window.'')
      else None)"

definition lock_record :: "env \<Rightarrow> jsval \<Rightarrow> EscrowRecord" where
  "lock_record e b =
     \<lparr>transactionId = lock_transaction_id b, escrowRecordLeafHash = ''PENDING'',
      signature = js_String (member b ''signature''), status = LOCKED, validAfterMs = the_num (member b ''validAfterMs''),
      validUntilMs = the_num (member b ''validUntilMs''), timestamp = nowIso e\<rparr>"

definition lock_handler :: "surroundings \<Rightarrow> jsval \<Rightarrow> server handler" where
  "lock_handler x body sv =
     (let b = body_or_empty body in
      case lock_params b of
        Some out \<Rightarrow> (sv, out)
      | None \<Rightarrow>
          (case verifySignatureInEnclave (x_verify x) (lock_text b) (js_String (member b ''signature''))
                  (js_String (member b ''publicKey'')) (sv_bridge sv) of
             (b', Inl err) \<Rightarrow> (sv\<lparr>sv_bridge := b'\<rparr>, crashed_state err)
           | (b', Inr verified) \<Rightarrow>
               let sv1 = sv\<lparr>sv_bridge := b'\<rparr> in
               if \<not> verified
               then (case audit x \<lparr>ap_tenantId = js_String (member b ''tenantId''), ap_action = ''LOCK'', ap_amount = None,
                                   ap_transactionId = None, ap_status = ''FAILED'',
                                   ap_error = Some ''CRYPTOGRAPHIC_VERIFICATION_FAILED''\<rparr> sv1 of
                       (sv2, Inl err) \<Rightarrow> (sv2, crashed_state err)
                     | (sv2, Inr u) \<Rightarrow> (sv2, failed 401 ''Invalid Cryptographic Signature Profile''))
               else (case saveRecord (x_hash x) (x_env x) (x_broadcast x) (lock_record (x_env x) b) (sv_node sv1) of
                       (nd', Inl err) \<Rightarrow> (sv1\<lparr>sv_node := nd'\<rparr>, crashed_state err)
                     | (nd', Inr u) \<Rightarrow>
                         (sv1\<lparr>sv_node := nd'\<rparr>,
                          success 201 [(''receipt'', JObj [(''transactionId'', JStr (lock_transaction_id b)),
                            (''tenantId'', member b ''tenantId''), (''account'', member b ''account''),
                            (''amount'', member b ''amount'')])]))))"

text \<open>
  The chain as it is mounted: the factory of the anti-DoS middleware stands where the middleware
  it builds should stand. Behind it come the gate and the handler.
\<close>

definition lock_behind_gate :: "surroundings \<Rightarrow> jsval \<Rightarrow> server handler" where
  "lock_behind_gate x body = run_chain [lock_gate, lock_handler x body]"

definition mounted_lock :: "surroundings \<Rightarrow> jsval \<Rightarrow> server handler" where
  "mounted_lock x body = run_chain [antiDosChallengeMiddleware, lock_gate, lock_handler x body]"

definition release_gate :: "server handler" where
  "release_gate sv = (if isFrozen sv then (sv, failed 503 frozen_text) else (sv, PassOn))"

definition release_handler :: "surroundings \<Rightarrow> jsval \<Rightarrow> server handler" where
  "release_handler x body sv =
     (let b = body_or_empty body; tid = member b ''transactionId'' in
      if \<not> truthy tid \<or> \<not> truthy (member b ''signature'')
      then (sv, failed 400 ''Invalid payload: transactionId and signature are required.'')
      else (case audit x \<lparr>ap_tenantId = ''unknown'', ap_action = ''RELEASE'', ap_amount = None,
                          ap_transactionId = Some (js_String tid), ap_status = ''SUCCESS'', ap_error = None\<rparr> sv of
              (sv', Inl err) \<Rightarrow> (sv', crashed_state err)
            | (sv', Inr u) \<Rightarrow> (sv', success 200 [(''escrow'', JObj [(''transactionId'', tid)])])))"

definition mounted_release :: "surroundings \<Rightarrow> jsval \<Rightarrow> server handler" where
  "mounted_release x body = run_chain [release_gate, release_handler x body]"

section \<open>The unfreeze ritual\<close>

definition decode_recovery :: "jsval \<Rightarrow> recovery_payload" where
  "decode_recovery v =
     \<lparr>requestId = the_str (member v ''requestId''), rp_action = the_str (member v ''action''),
      expiresAt = the_str (member v ''expiresAt''),
      signatures = map (\<lambda>s. \<lparr>officerPublicKey = the_str (member s ''officerPublicKey''),
                             signatureHex = the_str (member s ''signatureHex'')\<rparr>) (the_arr (member v ''signatures''))\<rparr>"

definition notary_json :: "notary_state option \<Rightarrow> jsval" where
  "notary_json n = (case n of None \<Rightarrow> JUndefined | Some s \<Rightarrow> JObj (notary_members s))"

definition unfreeze_handler :: "surroundings \<Rightarrow> jsval \<Rightarrow> server handler" where
  "unfreeze_handler x v sv =
     (if \<not> truthy v \<or> \<not> truthy (member v ''requestId'') \<or> \<not> truthy (member v ''action'')
         \<or> \<not> truthy (member v ''expiresAt'') \<or> \<not> is_arr (member v ''signatures'')
      then (sv, failed 400 ''Invalid payload: requestId, action, expiresAt, signatures are required.'')
      else
        let p = decode_recovery v in
        if \<not> verifyMultiSig (x_hash x) (x_verify x) (x_parseIso x) (x_env x) (x_recovery x) p
        then (sv, failed 403 ''MULTISIG_THRESHOLD_VERIFICATION_FAILED'')
        else (case attemptHealAndReturnOutcome (x_hash x) (x_verify x) (x_parseIso x) (x_env x) (x_fetch x) (x_broadcast x)
                     (x_recovery x) p (sv_node sv) of
                (nd', Inl err) \<Rightarrow> (sv\<lparr>sv_node := nd'\<rparr>, crashed err)
              | (nd', Inr out) \<Rightarrow>
                  if \<not> ro_ok out
                  then (sv\<lparr>sv_node := nd'\<rparr>,
                        failed_with 409 (case ro_error out of None \<Rightarrow> ''LEDGER_HEAL_FAILED'' | Some m \<Rightarrow> m)
                          [(''authoritativeState'', notary_json (ro_authoritativeState out))])
                  else
                    let (nd2, ok) = unfreezeIfClean (x_hash x) (x_env x) (x_fetch x) (''unfreeze request '' @ requestId p) nd'
                    in if \<not> ok then (sv\<lparr>sv_node := nd2\<rparr>, failed 409 ''LEDGER_REVERIFY_FAILED_AFTER_HEAL'')
                       else (sv\<lparr>sv_node := nd2\<rparr>,
                             success 200
                               [(''healedRoot'', case ro_healedRoot out of None \<Rightarrow> JUndefined | Some r \<Rightarrow> JStr r),
                                (''healedLeafCount'', case ro_healedLeafCount out of None \<Rightarrow> JUndefined | Some n \<Rightarrow> JNum (int n))])))"


section \<open>Proofs\<close>

definition merkle_proof_json :: "merkle_proof \<Rightarrow> jsval" where
  "merkle_proof_json p = JObj
     [(''siblings'', JArr (map JStr (mp_siblings p))), (''leafIndex'', JNum (mp_leafIndex p)),
      (''leafCount'', JNum (int (mp_leafCount p)))]"

fun index_of :: "string \<Rightarrow> EscrowRecord list \<Rightarrow> nat \<Rightarrow> nat option" where
  "index_of tid [] i = None"
| "index_of tid (r # rs) i = (if transactionId r = tid then Some i else index_of tid rs (Suc i))"

definition attestation_json :: "notary_state option \<Rightarrow> jsval" where
  "attestation_json n =
     (case n of None \<Rightarrow> JNull
      | Some s \<Rightarrow> JObj [(''sequenceNumber'', JNum (ns_sequenceNumber s)),
                        (''anchoringTimestamp'', JStr (ns_anchoringTimestamp s)),
                        (''witnessSignatures'', JArr (map witness_json (ns_witnessSignatures s)))])"

definition verify_proof_handler :: "surroundings \<Rightarrow> string \<Rightarrow> server handler" where
  "verify_proof_handler x tid sv =
     (let (d', records) = getAllRecords (x_env x) (nd_db (sv_node sv)); sv1 = sv\<lparr>sv_node := sv_node sv\<lparr>nd_db := d'\<rparr>\<rparr>
      in case buildMerkleForLedger (x_hash x) records of
           Inl err \<Rightarrow> (sv1, crashed err)
         | Inr (tree, root, proofs) \<Rightarrow>
             (case index_of tid records 0 of
                None \<Rightarrow> (sv1, failed 404 ''Transaction element not found in ledger.'')
              | Some i \<Rightarrow>
                  (case js_get proofs tid of
                     None \<Rightarrow> (sv1, failed 500 ''Merkle proof construction failed for transaction.'')
                   | Some (leaf, prf) \<Rightarrow>
                       let (n', answer) = fetchAuthoritativeState (x_hash x) (x_env x) (x_fetch x) (nd_notary (sv_node sv1));
                           attestation = (case answer of Inl err \<Rightarrow> None | Inr s \<Rightarrow> if ns_root s \<noteq> root then None else Some s)
                       in (sv1\<lparr>sv_node := sv_node sv1\<lparr>nd_notary := n'\<rparr>\<rparr>,
                           success 200 [(''transactionId'', JStr tid), (''leafIndex'', JNum (int i)), (''leafHash'', JStr leaf),
                             (''proof'', merkle_proof_json prf), (''root'', JStr root),
                             (''attestation'', attestation_json attestation)]))))"

definition verify_zk_handler :: "surroundings \<Rightarrow> jsval \<Rightarrow> server handler" where
  "verify_zk_handler x body sv =
     (let b = body_or_empty body; prf = member b ''zkProof''; pc = member b ''publicCommitment'';
          pk = member b ''publicKey''; th = member b ''allowedTenantHash''
      in if \<not> truthy prf \<or> \<not> is_str pc then (sv, failed 400 ''Missing zkProof or publicCommitment.'')
         else if \<not> is_str pk then (sv, failed 400 ''Missing publicKey.'')
         else if \<not> is_str th then (sv, failed 400 ''Missing allowedTenantHash.'')
         else (case verifyZkProofInEnclave (x_hash x) prf (the_str pc) (the_str th) (sv_bridge sv) of
                 (b', Inl err) \<Rightarrow> (sv\<lparr>sv_bridge := b'\<rparr>, crashed err)
               | (b', Inr ok) \<Rightarrow>
                   if \<not> ok then (sv\<lparr>sv_bridge := b'\<rparr>, failed 403 ''ZK_PROOF_VERIFICATION_FAILED'')
                   else (sv\<lparr>sv_bridge := b'\<rparr>, success 200 [(''verified'', JBool True)])))"

definition ledger_root_handler :: "surroundings \<Rightarrow> server handler" where
  "ledger_root_handler x sv =
     (let (d', acc, answer) = getRootHash (x_hash x) (x_env x) (nd_db (sv_node sv)) new_accumulator;
          sv' = sv\<lparr>sv_node := sv_node sv\<lparr>nd_db := d'\<rparr>\<rparr>
      in case answer of
           Inl err \<Rightarrow> (sv', crashed err)
         | Inr root \<Rightarrow> (sv', success 200 [(''merkleRootHash'', JStr root)]))"

definition receipt_json :: "zk_receipt \<Rightarrow> jsval" where
  "receipt_json r = JObj [(''verified'', JBool (zk_verified r)), (''computedRootHash'', zk_computedRoot r)]"

definition verify_inclusion_handler :: "surroundings \<Rightarrow> jsval \<Rightarrow> server handler" where
  "verify_inclusion_handler x body sv =
     (let tid = member (body_or_empty body) ''transactionId'' in
      if \<not> truthy tid \<or> \<not> is_str tid then (sv, failed 400 ''Missing transactionId'')
      else
        let (d', answer) = getInclusionProof (x_hash x) (x_env x) (nd_db (sv_node sv)) (the_str tid);
            sv' = sv\<lparr>sv_node := sv_node sv\<lparr>nd_db := d'\<rparr>\<rparr>
        in case answer of
             Inl err \<Rightarrow> (sv', crashed err)
           | Inr inc \<Rightarrow>
               let receipt = zk_verify (x_hash x) (JStr (ia_leafHash inc)) (JStr (ia_root inc)) (matrix_json inc)
               in if \<not> zk_verified receipt
                  then (sv', Answer 403 (JObj [(''status'', JStr ''FAILED''), (''verified'', JBool False), (''receipt'', receipt_json receipt)]))
                  else (sv', success 200 [(''verified'', JBool True), (''receipt'', receipt_json receipt), (''transactionId'', tid),
                              (''leafHash'', JStr (ia_leafHash inc)), (''proof'', matrix_json inc)]))"

section \<open>Infrastructure\<close>

text \<open>The switch meant for the tests is thrown before anything is checked.\<close>

definition join_handler :: "surroundings \<Rightarrow> jsval \<Rightarrow> server handler" where
  "join_handler x body sv =
     (let b = body_or_empty body; nodeId = member b ''nodeId''; doc = member b ''attestationDocument'';
          sv1 = sv\<lparr>sv_bridge := setEnclaveReadyForTest True (sv_bridge sv)\<rparr>
      in if \<not> truthy nodeId \<or> \<not> is_str nodeId then (sv1, failed 400 ''Missing/invalid nodeId.'')
         else if \<not> truthy doc then (sv1, failed 400 ''Missing attestationDocument.'')
         else
           let (b2, okStructural) = verifyEnclaveAttestation (x_verify x) doc (sv_bridge sv1); sv2 = sv1\<lparr>sv_bridge := b2\<rparr>
           in if \<not> okStructural
              then (sv2, failed_with 403 ''ATTestation structural verification failed.'' [(''code'', JStr ''ATTN_STRUCT_FAIL'')])
              else if member doc ''pcr0'' \<noteq> JStr (fst getBaselineTemplate) \<or> member doc ''pcr1'' \<noteq> JStr (snd getBaselineTemplate)
              then (sv2, failed_with 403 ''MEASUREMENT_MISMATCH'' [(''code'', JStr ''MEASUREMENT_MISMATCH'')])
              else
                let (b3, peers, okJoin) = registerPeer (x_verify x) (the_str nodeId) (''vsock://internal/'' @ the_str nodeId) doc
                                            (sv_bridge sv2) (sv_cluster sv2);
                    sv3 = sv2\<lparr>sv_bridge := b3, sv_cluster := peers\<rparr>
                in if \<not> okJoin
                   then (sv3, failed_with 403 ''Hardware measurement mismatch.'' [(''code'', JStr ''JOIN_REJECTED'')])
                   else (sv3, success 200 [(''message'', JStr ''Node admitted to BFT sync plane.'')]))"

definition register_peer_handler :: "surroundings \<Rightarrow> jsval \<Rightarrow> server handler" where
  "register_peer_handler x body sv =
     (let b = body_or_empty body; nodeId = member b ''nodeId''; endpoint = member b ''endpoint''; attestation = member b ''attestation''
      in if \<not> truthy nodeId \<or> \<not> truthy endpoint \<or> \<not> truthy attestation
         then (sv, failed 400 ''Missing registration matrices.'')
         else
           let (b', peers, ok) = registerPeer (x_verify x) (js_String nodeId) (js_String endpoint) attestation (sv_bridge sv) (sv_cluster sv);
               sv' = sv\<lparr>sv_bridge := b', sv_cluster := peers\<rparr>
           in if \<not> ok then (sv', failed 403 ''Hardware measurement mismatch.'')
              else (sv', success 200 [(''message'', JStr ''Peer added to consensus group.'')]))"

definition platform_json :: "platform \<Rightarrow> jsval" where
  "platform_json p = JObj [(''cpuPlatformId'', JStr (pl_cpuPlatformId p)), (''mrsigner'', JStr (pl_mrsigner p)),
     (''mrenclave'', JStr (pl_mrenclave p))]"

definition blob_json :: "sealed_blob \<Rightarrow> jsval" where
  "blob_json b = JObj
     [(''version'', JNum (sb_version b)), (''policy'', JStr (sb_policy b)), (''platform'', platform_json (sb_platform b)),
      (''dkSaltHex'', JStr (sb_dkSaltHex b)), (''nonceHex'', JStr (sb_nonceHex b)), (''ciphertextHex'', JStr (sb_ciphertextHex b)),
      (''tagHex'', JStr (sb_tagHex b)), (''keyId'', JStr (sb_keyId b)), (''sealedAtMs'', JNum (sb_sealedAtMs b))]"

text \<open>\<^verbatim>\<open>process.env.X ?? ''\<close>, for the context used before any was set.\<close>

definition env_or_empty :: "surroundings \<Rightarrow> string \<Rightarrow> string" where
  "env_or_empty x k = (case x_environment x k of None \<Rightarrow> [] | Some v \<Rightarrow> v)"

definition sealing_context :: "surroundings \<Rightarrow> server \<Rightarrow> string \<times> string \<times> string" where
  "sealing_context x sv =
     (case sv_sealing sv of
        Some c \<Rightarrow> c
      | None \<Rightarrow> (env_or_empty x ''CPU_MASTER_SECRET'', env_or_empty x ''CURRENT_MRSIGNER'', env_or_empty x ''CURRENT_MRENCLAVE''))"

text \<open>The payload is None when it is missing or not an object.\<close>

definition upgrade_handler ::
  "surroundings \<Rightarrow> migration_payload option \<Rightarrow> jsval \<Rightarrow> jsval \<Rightarrow> server handler" where
  "upgrade_handler x payload trustedMRSIGNER trustedKey sv =
     (if \<not> isEnclaveReady (sv_bridge sv) then (sv, failed 503 ''ENCLAVE_NOT_READY'')
      else if payload = None then (sv, failed 400 ''MIGRATION_PAYLOAD_REQUIRED'')
      else if \<not> truthy trustedMRSIGNER \<or> \<not> is_str trustedMRSIGNER then (sv, failed 400 ''TRUSTED_MRSIGNER_REQUIRED'')
      else if \<not> truthy trustedKey \<or> \<not> is_str trustedKey then (sv, failed 400 ''TRUSTED_PACKAGE_PUBLIC_KEY_REQUIRED'')
      else
        let (secret, mrsigner, mrenclave) = sealing_context x sv in
        if secret = [] \<or> mrsigner = [] \<or> mrenclave = [] then (sv, failed 500 ''ACTIVE_SEALING_CONTEXT_UNAVAILABLE'')
        else (case migrateBlob (x_crypto x) (x_verify x) (x_env x) (x_nonce x) secret payload (the_str trustedMRSIGNER) (the_str trustedKey) of
                Inl err \<Rightarrow> (sv, failed 403 err)
              | Inr newBlob \<Rightarrow>
                  let target = (case payload of Some p \<Rightarrow> (case mp_metadata p of Some m \<Rightarrow> mg_targetMrenclave m | None \<Rightarrow> []) | None \<Rightarrow> [])
                  in (sv\<lparr>sv_sealing := Some (secret, the_str trustedMRSIGNER, target)\<rparr>,
                      success 200 [(''newBlob'', blob_json newBlob)])))"

section \<open>Consensus\<close>

definition share_json :: "verification_share \<Rightarrow> jsval" where
  "share_json s = JObj
     [(''nodeId'', JStr (vs_nodeId s)), (''nodePcr0Hash'', JStr (vs_nodePcr0Hash s)), (''consensusTerm'', JNum (vs_consensusTerm s)),
      (''index'', JNum (vs_index s)), (''approvalHash'', JStr (vs_approvalHash s)), (''nodeSignature'', JStr (vs_nodeSignature s))]"

definition transition_handler :: "surroundings \<Rightarrow> jsval \<Rightarrow> server handler" where
  "transition_handler x body sv =
     (let b = body_or_empty body; nodeId = member b ''nodeId''; pcr = member b ''nodePcr0Hash''; proposal = member b ''proposal''
      in if \<not> isEnclaveReady (sv_bridge sv) then (sv, failed 503 ''ENCLAVE_NOT_READY'')
         else if \<not> truthy nodeId \<or> \<not> is_str nodeId \<or> \<not> truthy pcr \<or> \<not> is_str pcr then (sv, failed 400 ''Missing nodeId/nodePcr0Hash.'')
         else if \<not> truthy proposal then (sv, failed 400 ''Missing proposal.'')
         else (case verifyProposalAndBuildShare (x_hash x) ''inrepo-node-secret'' (sv_bridge sv) proposal (the_str nodeId) (the_str pcr) of
                 Inl reason \<Rightarrow> (sv, failed 403 reason)
               | Inr share \<Rightarrow> (sv, success 200 [(''share'', share_json share)])))"

definition mounted_transition :: "surroundings \<Rightarrow> jsval \<Rightarrow> server handler" where
  "mounted_transition x body = run_chain [antiDosChallengeMiddleware, transition_handler x body]"

text \<open>The entry, the cluster size and the payload are None when the body does not have them.\<close>

definition append_handler ::
  "surroundings \<Rightarrow> jsval \<Rightarrow> EscrowRecord option \<Rightarrow> int option \<Rightarrow> bft_payload option \<Rightarrow> server handler" where
  "append_handler x term entry clusterSize payload sv =
     (if \<not> is_num term then (sv, failed 400 ''Missing/invalid term.'')
      else if isFrozen sv then (sv, failed 503 ''EMERGENCY_SYSTEM_FREEZE: Active ledger anomalies.'')
      else if \<not> isEnclaveReady (sv_bridge sv) then (sv, failed 503 ''CONFIDENTIAL_COMPUTE_ERROR: Attestation missing.'')
      else if the_num term < currentTerm (sv_raft sv)
      then (sv, Answer 400 (JObj [(''status'', JStr ''FAILED''), (''term'', JNum (currentTerm (sv_raft sv))),
                                  (''error'', JStr ''Stale term validation parameters.'')]))
      else (case entry of
              None \<Rightarrow> (sv, failed 400 ''Missing entry.'')
            | Some rec \<Rightarrow>
                let (r1, appended) = appendLocalLog rec (sv_raft sv); sv1 = sv\<lparr>sv_raft := r1\<rparr>;
                    size = (case clusterSize of None \<Rightarrow> 0 | Some n \<Rightarrow> n)
                in if size = 0 \<or> payload = None then (sv1, failed 409 ''BFT_PAYLOAD_REQUIRED'')
                   else (case commitToLedgerIfBftQuorum (x_hash x) (x_env x) (x_broadcast x)
                            \<lparr>bc_entryIndex = re_index appended, bc_clusterSize = size,
                             bc_proposalCommitment = escrowRecordLeafHash (re_record appended), bc_consensusTerm = the_num term,
                             bc_index = re_index appended, bc_payload = payload\<rparr> r1 (sv_node sv1) of
                           (r2, nd', Inl err) \<Rightarrow> (sv1\<lparr>sv_raft := r2, sv_node := nd'\<rparr>, crashed err)
                         | (r2, nd', Inr (NotCommitted reason)) \<Rightarrow> (sv1\<lparr>sv_raft := r2, sv_node := nd'\<rparr>, failed 409 reason)
                         | (r2, nd', Inr Committed) \<Rightarrow>
                             (sv1\<lparr>sv_raft := r2, sv_node := nd'\<rparr>,
                              success 200 [(''term'', JNum (currentTerm r2)), (''commitIndex'', JNum (commitIndex r2))]))))"

definition mounted_append ::
  "surroundings \<Rightarrow> jsval \<Rightarrow> EscrowRecord option \<Rightarrow> int option \<Rightarrow> bft_payload option \<Rightarrow> server handler" where
  "mounted_append x term entry clusterSize payload =
     run_chain [antiDosChallengeMiddleware, append_handler x term entry clusterSize payload]"


section \<open>Reconciliation\<close>

definition snapshot_json :: "epoch_snapshot \<Rightarrow> jsval" where
  "snapshot_json s =
     (let m = es_metadata s in JObj
        [(''metadata'', JObj
            [(''snapshotId'', JStr (sm_snapshotId m)), (''timestamp'', JNum (sm_timestamp m)), (''latestIndex'', JNum (sm_latestIndex m)),
             (''latestTerm'', JNum (sm_latestTerm m)), (''merkleRootHash'', JStr (sm_merkleRootHash m)),
             (''committedTransactionCount'', JNum (int (sm_committedTransactionCount m)))]),
         (''quorumSignatures'', JArr (map (\<lambda>q. JObj [(''nodeId'', JStr (qs_nodeId q)), (''signature'', JStr (qs_signature q)),
            (''term'', JNum (qs_term q))]) (es_quorumSignatures s))),
         (''merklePath'', JArr (map JStr (es_merklePath s))),
         (''latestEntry'', case es_latestEntry s of None \<Rightarrow> JNull | Some r \<Rightarrow> encodeRecord r)])"

definition snapshot_handler :: "server handler" where
  "snapshot_handler sv =
     (case getLatestSnapshot (sv_snapshots sv) of
        None \<Rightarrow> (sv, failed_with 404 ''No snapshot available'' [(''code'', JStr ''SNAPSHOT_NOT_FOUND'')])
      | Some s \<Rightarrow>
          (case validateSnapshot (snapshot_json s) of
             Inl err \<Rightarrow> (sv, crashed err)
           | Inr v \<Rightarrow>
               if \<not> vr_valid v
               then (sv, failed_with 500 ''Snapshot validation failed''
                           [(''reason'', case vr_reason v of None \<Rightarrow> JUndefined | Some m \<Rightarrow> JStr m), (''code'', JStr ''SNAPSHOT_INVALID'')])
               else (sv, success 200 [(''snapshot'', snapshot_json s)])))"

definition recon_json :: "reconciliation_state option \<Rightarrow> jsval" where
  "recon_json st =
     (case st of None \<Rightarrow> JNull
      | Some s \<Rightarrow> JObj
          [(''isReconciling'', JBool (rs_isReconciling s)), (''startedAt'', JNum (rs_startedAt s)), (''localIndex'', JNum (rs_localIndex s)),
           (''targetCommitIndex'', JNum (rs_targetCommitIndex s)), (''blocksApplied'', JNum (int (rs_blocksApplied s))),
           (''lastAppliedMerkleHash'', JStr (rs_lastAppliedMerkleHash s))])"

text \<open>The body: the action, the two indices, the block (None when it is missing) and the snapshot.\<close>

definition invalid_request :: "string \<Rightarrow> outcome" where
  "invalid_request msg = failed_with 400 msg [(''code'', JStr ''INVALID_REQUEST'')]"

definition catch_up_handler ::
  "surroundings \<Rightarrow> jsval \<Rightarrow> catch_up_block option \<Rightarrow> server handler" where
  "catch_up_handler x body blk sv =
     (let b = body_or_empty body; action = member b ''action''; c = sv_reconciliation sv;
          state = (\<lambda>c. recon_json (rc_state c))
      in if action = JStr ''BEGIN''
         then (if \<not> is_num (member b ''localIndex'') \<or> \<not> is_num (member b ''targetCommitIndex'')
               then (sv, invalid_request ''Missing or invalid localIndex/targetCommitIndex'')
               else let c' = beginReconciliation (x_env x) (the_num (member b ''localIndex'')) (the_num (member b ''targetCommitIndex'')) c
                    in (sv\<lparr>sv_reconciliation := c'\<rparr>, success 200 [(''reconciliationState'', state c')]))
         else if action = JStr ''APPLY_BLOCK''
         then (case blk of
                 None \<Rightarrow> (sv, invalid_request ''Missing catch-up block'')
               | Some blk \<Rightarrow>
                   (case applyCatchUpBlock (x_hash x) blk c of
                      (c', Some reason) \<Rightarrow> (sv\<lparr>sv_reconciliation := c'\<rparr>, failed_with 409 reason [(''code'', JStr ''BLOCK_APPLY_FAILED'')])
                    | (c', None) \<Rightarrow> (sv\<lparr>sv_reconciliation := c'\<rparr>,
                        success 200 [(''applied'', JBool True), (''blockIndex'', JNum (cb_index blk)), (''reconciliationState'', state c')])))
         else if action = JStr ''APPLY_SNAPSHOT''
         then (let snap = member b ''snapshot'' in
               if \<not> truthy snap then (sv, invalid_request ''Missing snapshot'')
               else (case applySnapshot snap c of
                       (c', Inl err) \<Rightarrow> (sv\<lparr>sv_reconciliation := c'\<rparr>, crashed err)
                     | (c', Inr (Some reason)) \<Rightarrow> (sv\<lparr>sv_reconciliation := c'\<rparr>, failed_with 409 reason [(''code'', JStr ''SNAPSHOT_APPLY_FAILED'')])
                     | (c', Inr None) \<Rightarrow> (sv\<lparr>sv_reconciliation := c'\<rparr>,
                         success 200 [(''applied'', JBool True), (''reconciliationState'', state c')])))
         else if action = JStr ''COMPLETE''
         then (case completeReconciliation c of
                 (c', None) \<Rightarrow> (sv\<lparr>sv_reconciliation := c'\<rparr>,
                   failed_with 409 ''No active reconciliation to complete'' [(''code'', JStr ''NO_ACTIVE_RECONCILIATION'')])
               | (c', Some st) \<Rightarrow> (sv\<lparr>sv_reconciliation := c'\<rparr>, success 200 [(''reconciliationCompleted'', recon_json (Some st))]))
         else if action = JStr ''STATUS''
         then (sv, success 200 [(''isReconciling'', JBool (isReconciling c)), (''reconciliationState'', state c)])
         else (sv, failed_with 400 ''Unknown reconciliation action'' [(''code'', JStr ''INVALID_ACTION'')]))"

section \<open>Bridge\<close>

text \<open>\<^verbatim>\<open>res.json\<close> of an object with a \<^verbatim>\<open>bigint\<close> throws, and \<^verbatim>\<open>headers[0]?.number || 0n\<close> is always one.\<close>

definition bigint_error :: js_error where
  "bigint_error = TypeError ''Do not know how to serialize a BigInt''"

definition decode_raw_header :: "jsval \<Rightarrow> nat list" where
  "decode_raw_header h = hex_decode_lenient (drop 2 (the_str h))"

definition decode_state_proof :: "jsval \<Rightarrow> state_proof" where
  "decode_state_proof p =
     \<lparr>sp_key = js_String (member p ''key''), sp_value = js_String (member p ''value''),
      sp_proof = map the_str (the_arr (member p ''proof''))\<rparr>"

definition bridge_handler :: "surroundings \<Rightarrow> (string \<Rightarrow> jsval option) \<Rightarrow> jsval \<Rightarrow> server handler" where
  "bridge_handler x parse body sv =
     (if body = JUndefined \<or> body = JNull then (sv, crashed (TypeError ''Cannot destructure property''))
      else
        let raw = member body ''rawHeaders''; proofs = member body ''stateProofs''
        in if \<not> is_arr raw then (sv, crashed (TypeError ''rawHeaders.map is not a function''))
           else if \<not> list_all is_str (the_arr raw) then (sv, crashed (TypeError ''h.slice is not a function''))
           else (case verifyBlockHeaders (new_relay None) (map decode_raw_header (the_arr raw)) (member body ''targetChain'') of
                   Inl err \<Rightarrow> (sv, crashed err)
                 | Inr headers \<Rightarrow>
                     if \<not> is_arr proofs then (sv, crashed (TypeError ''proofs.forEach is not a function''))
                     else
                       let ps = map decode_state_proof (the_arr proofs);
                           verifiedState = verifyStateProofs (case headers of [] \<Rightarrow> [] | h # _ \<Rightarrow> bh_stateRoot h) ps;
                           logs = extractStateLogs parse ps
                       in (sv, crashed bigint_error)))"

definition identity_handler :: "surroundings \<Rightarrow> jsval \<Rightarrow> server handler" where
  "identity_handler x body sv =
     (if body = JUndefined \<or> body = JNull then (sv, crashed (TypeError ''Cannot destructure property''))
      else (case verifyCredential (x_date x) (x_env x) (new_identity_engine 24) (member body ''credential'') of
              Inl err \<Rightarrow> (sv, crashed err)
            | Inr r \<Rightarrow>
                if \<not> ir_valid r
                then (sv, Answer 400 (JObj [(''status'', JStr ''FAILED''), (''error'', case ir_error r of None \<Rightarrow> JUndefined | Some m \<Rightarrow> JStr m)]))
                else (sv, success 200 [(''subjectDid'', ir_subjectDid r), (''issuerDid'', ir_issuerDid r)])))"

section \<open>The router\<close>

text \<open>A request to one of the routes, at the types the handlers read.\<close>

datatype route =
    GetRecords
  | PostAttest jsval
  | PostLock jsval
  | PostRelease jsval
  | PostUnfreeze jsval
  | GetVerifyProof string
  | PostVerifyZk jsval
  | PostJoin jsval
  | PostUpgrade "migration_payload option" jsval jsval
  | PostRegisterPeer jsval
  | PostTransition jsval
  | PostAppend jsval "EscrowRecord option" "int option" "bft_payload option"
  | GetLedgerRoot
  | PostVerifyInclusion jsval
  | PostSnapshot
  | PostCatchUp jsval "catch_up_block option"
  | PostBridge "string \<Rightarrow> jsval option" jsval
  | PostIdentity jsval

fun route_handler :: "surroundings \<Rightarrow> route \<Rightarrow> server handler" where
  "route_handler x GetRecords = records_handler x"
| "route_handler x (PostAttest b) = attest_handler x b"
| "route_handler x (PostLock b) = mounted_lock x b"
| "route_handler x (PostRelease b) = mounted_release x b"
| "route_handler x (PostUnfreeze b) = unfreeze_handler x b"
| "route_handler x (GetVerifyProof t) = verify_proof_handler x t"
| "route_handler x (PostVerifyZk b) = verify_zk_handler x b"
| "route_handler x (PostJoin b) = join_handler x b"
| "route_handler x (PostUpgrade p s k) = upgrade_handler x p s k"
| "route_handler x (PostRegisterPeer b) = register_peer_handler x b"
| "route_handler x (PostTransition b) = mounted_transition x b"
| "route_handler x (PostAppend t r n p) = mounted_append x t r n p"
| "route_handler x GetLedgerRoot = ledger_root_handler x"
| "route_handler x (PostVerifyInclusion b) = verify_inclusion_handler x b"
| "route_handler x PostSnapshot = snapshot_handler"
| "route_handler x (PostCatchUp b k) = catch_up_handler x b k"
| "route_handler x (PostBridge parse b) = bridge_handler x parse b"
| "route_handler x (PostIdentity b) = identity_handler x b"

end
