(* ===== verification/Gateway.thy ===== *)
theory Gateway
  imports Router
begin

text \<open>
  What the gateway guarantees and what it does not: which requests are answered and how, what the
  ledger can become through the mounted routes, who opens the enclave boundary, and what the lock
  and append handlers do once a request reaches them.
\<close>

section \<open>Answers\<close>

fun never_answered :: "route \<Rightarrow> bool" where
  "never_answered (PostLock b) = True"
| "never_answered (PostTransition b) = True"
| "never_answered (PostAppend t r n p) = True"
| "never_answered _ = False"

text \<open>A success has a 2xx code and the status SUCCESS, a failure another code and FAILED; the list of records is bare.\<close>

definition reply_ok :: "route \<Rightarrow> outcome \<Rightarrow> bool" where
  "reply_ok r out = (case out of
     Answer c b \<Rightarrow> (if c = 200 \<or> c = 201 then member b ''status'' = JStr ''SUCCESS'' \<or> r = GetRecords \<and> is_arr b
                    else c \<in> {400, 401, 403, 404, 409, 500, 503}
                       \<and> (member b ''status'' = JStr ''FAILED'' \<or> member b ''state'' = JStr ''FAILED''))
   | _ \<Rightarrow> False)"

lemma crashed_distinct [simp]:
  "crashed err \<noteq> PassOn" "crashed err \<noteq> Silent" "crashed_state err \<noteq> PassOn" "crashed_state err \<noteq> Silent"
  "answer_code (crashed err) = Some 500" "answer_code (crashed_state err) = Some 500"
  by (simp_all add: crashed_def crashed_state_def)

lemma reply_ok_simps [simp]:
  "reply_ok r (failed c m) \<longleftrightarrow> c \<in> {400, 401, 403, 404, 409, 500, 503}"
  "reply_ok r (failed_with c m ms) \<longleftrightarrow> c \<in> {400, 401, 403, 404, 409, 500, 503}"
  "c = 200 \<or> c = 201 \<Longrightarrow> reply_ok r (success c ms)"
  "reply_ok r (crashed err)" "reply_ok r (crashed_state err)"
  by (auto simp: reply_ok_def failed_def failed_with_def success_def crashed_def crashed_state_def)

lemma mounted_guard_silent [simp]:
  "run_chain (antiDosChallengeMiddleware # fs) sv = (sv, Silent)"
  by (simp add: antiDosChallengeMiddleware_def)

lemmas mounted_chains = mounted_lock_def mounted_transition_def mounted_append_def

lemma lock_params_reply: "lock_params b = Some out \<Longrightarrow> reply_ok r out"
  by (auto simp: lock_params_def Let_def split: if_splits)

lemma plain_handlers_reply:
  "reply_ok GetRecords (snd (records_handler x sv))"
  "reply_ok r (snd (attest_handler x b sv))"
  "reply_ok r (snd (mounted_release x b sv))"
  "reply_ok r (snd (verify_zk_handler x b sv))"
  "reply_ok r (snd (ledger_root_handler x sv))"
  "reply_ok r (snd (verify_inclusion_handler x b sv))"
  "reply_ok r (snd (register_peer_handler x b sv))"
  "reply_ok r (snd (snapshot_handler sv))"
  "reply_ok r (snd (bridge_handler x parse b sv))"
  "reply_ok r (snd (identity_handler x b sv))"
  "reply_ok r (snd (join_handler x b sv))"
  "reply_ok r (snd (upgrade_handler x p s k sv))"
  "reply_ok r (snd (verify_proof_handler x t sv))"
  "reply_ok r (snd (unfreeze_handler x b sv))"
  "reply_ok r (snd (catch_up_handler x b blk sv))"
               apply (simp add: records_handler_def reply_ok_def Let_def split: prod.split)
              apply (simp add: attest_handler_def Let_def split: prod.split)
             apply (auto simp: mounted_release_def release_gate_def release_handler_def Let_def split: prod.split sum.split if_splits)[1]
            apply (simp add: verify_zk_handler_def Let_def split: prod.split sum.split)
           apply (simp add: ledger_root_handler_def Let_def split: prod.split sum.split)
          apply (auto simp: verify_inclusion_handler_def Let_def reply_ok_def success_def failed_def crashed_def split: prod.split sum.split)[1]
         apply (simp add: register_peer_handler_def Let_def split: prod.split)
        apply (simp add: snapshot_handler_def split: option.split sum.split)
       apply (simp add: bridge_handler_def Let_def split: sum.split)
      apply (auto simp: identity_handler_def reply_ok_def success_def failed_def crashed_def split: sum.split)[1]
     apply (simp add: join_handler_def Let_def split: prod.split)
    apply (simp add: upgrade_handler_def Let_def split: prod.split sum.split)
   apply (simp add: verify_proof_handler_def Let_def split: prod.split sum.split option.split)
  apply (simp add: unfreeze_handler_def Let_def split: prod.split sum.split)
  apply (simp add: catch_up_handler_def invalid_request_def Let_def split: prod.split sum.split option.split)
  done


section \<open>What the mounted routes do to the ledger\<close>

definition stored :: "db_state \<Rightarrow> EscrowRecord list" where
  "stored d = (case readAllRecordsInternal d of Inl err \<Rightarrow> [] | Inr rs \<Rightarrow> rs)"

definition truncates :: "db_state \<Rightarrow> db_state \<Rightarrow> bool" where
  "truncates d d' \<longleftrightarrow> (\<exists>k. stored d' = take k (stored d))"

inductive gateway_step :: "server \<Rightarrow> server \<Rightarrow> bool" where
  request: "gateway_step sv (fst (route_handler x r sv))"

lemma truncates_refl [simp]: "truncates d d"
  unfolding truncates_def by (rule exI [of _ "length (stored d)"]) simp

lemma truncates_trans: "truncates d d' \<Longrightarrow> truncates d' d'' \<Longrightarrow> truncates d d''"
  by (auto simp: truncates_def)

lemma initializeStore_truncates: "truncates d (fst (initializeStore e d))"
proof -
  have "stored (fst (initializeStore e d)) = stored d \<or> stored (fst (initializeStore e d)) = []"
    by (auto simp: stored_def initializeStore_def readAllRecordsInternal_def Let_def split: json_file.split jsval.split)
  then show ?thesis
    unfolding truncates_def by (metis take0 take_all order_refl)
qed

lemma getAllRecords_truncates: "truncates d (fst (getAllRecords e d))"
  using initializeStore_truncates [of d e]
  by (cases "initializeStore e d") (auto simp: getAllRecords_def split: sum.split)

lemma getAllRecords_list: "\<exists>k. snd (getAllRecords e d) = take k (stored d)"
proof (cases "initializeStore e d")
  case (Pair d' r)
  show ?thesis
  proof (cases r)
    case (Inl err)
    then show ?thesis using Pair by (auto simp: getAllRecords_def intro: exI [of _ 0])
  next
    case (Inr u)
    then show ?thesis using Pair initializeStore_truncates [of d e]
      by (simp add: getAllRecords_def truncates_def stored_def)
  qed
qed

lemma buildFromLedger_truncates: "truncates d (fst (buildFromLedger h e d))"
  using getAllRecords_truncates [of d e] by (cases "getAllRecords e d") (simp add: buildFromLedger_def Let_def)

lemma getRootHash_truncates: "truncates d (fst (getRootHash h e d acc))"
proof (cases "buildFromLedger h e d")
  case (Pair d1 r1)
  then have t1: "truncates d d1" using buildFromLedger_truncates [of d h e] by simp
  obtain d2 r2 where r2: "buildFromLedger h e d1 = (d2, r2)" by fastforce
  have "truncates d1 d2" using buildFromLedger_truncates [of d1 h e] r2 by simp
  then have "truncates d d2" using t1 truncates_trans by blast
  then show ?thesis using Pair t1 r2
    by (cases r1; cases r2) (auto simp: getRootHash_def Let_def)
qed

lemma getInclusionProof_truncates: "truncates d (fst (getInclusionProof h e d tid))"
  using buildFromLedger_truncates [of d h e]
  by (cases "buildFromLedger h e d") (auto simp: getInclusionProof_def split: sum.split)

lemma auditOnce_truncates: "truncates (nd_db s) (nd_db (auditOnce h e net s))"
  using getAllRecords_truncates [of "nd_db s" e]
  by (auto simp: auditOnce_def Let_def split: option.split prod.split sum.split json_file.split)

lemma unfreezeIfClean_truncates: "truncates (nd_db s) (nd_db (fst (unfreezeIfClean h e net reason s)))"
  using auditOnce_truncates [of "s\<lparr>nd_auditor := (nd_auditor s)\<lparr>au_frozen := False\<rparr>\<rparr>" h e net]
  by (auto simp: unfreezeIfClean_def Let_def)

lemma appendRecoveryRequest_db [simp]: "nd_db (appendRecoveryRequest e rid s) = nd_db s"
  by (simp add: appendRecoveryRequest_def Let_def)

lemma stored_written [simp]: "stored (d\<lparr>storeFile := Parsed (JArr (map encodeRecord rs))\<rparr>) = rs"
  by (simp add: stored_def readAllRecordsInternal_def)

lemma heal_truncates: "truncates (nd_db s) (nd_db (fst (attemptHealAndReturnOutcome h vf pI e net bnet c p s)))"
proof -
  obtain d' records where g: "getAllRecords e (nd_db s) = (d', records)" by fastforce
  have t: "truncates (nd_db s) d'" using getAllRecords_truncates [of "nd_db s" e] g by simp
  have l: "truncates (nd_db s) (d'\<lparr>storeFile := Parsed (JArr (map encodeRecord (take k records)))\<rparr>)" for k
    using getAllRecords_list [of e "nd_db s"] g by (auto simp: truncates_def)
  show ?thesis
    using t l by (auto simp: attemptHealAndReturnOutcome_def updateCheckpointNow_def Let_def g split: prod.split sum.split option.split)
qed

lemma audit_db [simp]: "nd_db (sv_node (fst (audit x p sv))) = nd_db (sv_node sv)"
  by (simp add: audit_def)

lemma unfreeze_handler_truncates:
  "truncates (nd_db (sv_node sv)) (nd_db (sv_node (fst (unfreeze_handler x b sv))))"
proof -
  let ?p = "decode_recovery b"
  obtain nd' r where h: "attemptHealAndReturnOutcome (x_hash x) (x_verify x) (x_parseIso x) (x_env x) (x_fetch x) (x_broadcast x)
      (x_recovery x) ?p (sv_node sv) = (nd', r)" by fastforce
  have t: "truncates (nd_db (sv_node sv)) (nd_db nd')"
    using heal_truncates [of "sv_node sv"] h by (metis fst_conv)
  obtain nd2 ok where u: "unfreezeIfClean (x_hash x) (x_env x) (x_fetch x) (''unfreeze request '' @ requestId ?p) nd' = (nd2, ok)"
    by fastforce
  have "truncates (nd_db nd') (nd_db nd2)" using unfreezeIfClean_truncates [of nd'] u by (metis fst_conv)
  with t have "truncates (nd_db (sv_node sv)) (nd_db nd2)" by (rule truncates_trans)
  with t show ?thesis using u by (simp add: unfreeze_handler_def h Let_def split: sum.split)
qed

lemma route_truncates: "truncates (nd_db (sv_node sv)) (nd_db (sv_node (fst (route_handler x r sv))))"
proof (cases r)
  case GetRecords
  then show ?thesis using getAllRecords_truncates [of "nd_db (sv_node sv)"]
    by (simp add: records_handler_def Let_def split: prod.split) (metis fst_conv)
next
  case (PostUnfreeze b)
  then show ?thesis by (simp add: unfreeze_handler_truncates)
next
  case (GetVerifyProof t)
  then show ?thesis using getAllRecords_truncates [of "nd_db (sv_node sv)" "x_env x"]
    by (auto simp: verify_proof_handler_def Let_def split: prod.split sum.split option.split)
next
  case GetLedgerRoot
  then show ?thesis using getRootHash_truncates [of "nd_db (sv_node sv)" "x_hash x" "x_env x" new_accumulator]
    by (auto simp: ledger_root_handler_def Let_def split: prod.split sum.split)
next
  case (PostVerifyInclusion b)
  then show ?thesis
    using getInclusionProof_truncates [of "nd_db (sv_node sv)" "x_hash x" "x_env x" "the_str (member (body_or_empty b) ''transactionId'')"]
    by (auto simp: verify_inclusion_handler_def Let_def split: prod.split sum.split)
next
  case (PostRelease b)
  have "nd_db (sv_node (fst (release_handler x b sv))) = nd_db (sv_node sv)"
    by (auto simp: release_handler_def Let_def audit_def split: sum.split)
  with PostRelease show ?thesis by (simp add: mounted_release_def release_gate_def)
next
  case PostSnapshot
  then show ?thesis by (simp add: snapshot_handler_def split: option.split sum.split)
next
  case (PostCatchUp b k)
  then show ?thesis by (simp add: catch_up_handler_def Let_def split: option.split sum.split prod.split)
next
  case (PostBridge parse b)
  then show ?thesis by (simp add: bridge_handler_def Let_def split: sum.split)
qed (simp_all add: mounted_chains antiDosChallengeMiddleware_def attest_handler_def verify_zk_handler_def join_handler_def
    upgrade_handler_def register_peer_handler_def identity_handler_def Let_def split: prod.split sum.split)

text \<open>
  C36. Through the router as it is mounted the ledger never gains a record: after any sequence of requests the
  records on disk are an initial segment of what they were before it.
\<close>

theorem mounted_ledger_only_shrinks:
  assumes "gateway_step\<^sup>*\<^sup>* sv sv'"
  shows "\<exists>k. stored (nd_db (sv_node sv')) = take k (stored (nd_db (sv_node sv)))"
proof -
  have "truncates (nd_db (sv_node sv)) (nd_db (sv_node sv'))"
    using assms
  proof (induction rule: rtranclp_induct)
    case (step sv1 sv2)
    from step.hyps(2) have "truncates (nd_db (sv_node sv1)) (nd_db (sv_node sv2))"
      by cases (simp add: route_truncates)
    with step.IH show ?case by (rule truncates_trans)
  qed simp
  then show ?thesis by (simp add: truncates_def)
qed


section \<open>Locking\<close>

lemma take_bytes_hex: "take (2 * n) (bytes_hex bs) = bytes_hex (take n bs)"
proof (induction bs arbitrary: n)
  case (Cons b bs)
  then show ?case by (cases n) auto
qed simp

lemma lock_transaction_id_prefix: "lock_transaction_id b = ''tx_'' @ bytes_hex (take 16 (utf8_bytes (lock_text b)))"
  using take_bytes_hex [of 16 "utf8_bytes (lock_text b)"] by (simp add: lock_transaction_id_def)

definition lock_accepted :: "surroundings \<Rightarrow> jsval \<Rightarrow> server \<Rightarrow> bool" where
  "lock_accepted x b sv \<longleftrightarrow>
     \<not> isFrozen sv \<and> enclaveReady (sv_bridge sv) \<and> lock_params b = None
     \<and> verifySignature (x_verify x) (lock_text b) (js_String (member b ''signature'')) (js_String (member b ''publicKey''))"

lemma lock_run:
  assumes "hex_hash (x_hash x)" "good_env (x_env x)" "ledger_ready (nd_db (sv_node sv)) rs"
    and "lock_behind_gate x body sv = (sv', out)"
  shows "if lock_accepted x (body_or_empty body) sv
         then answer_code out = Some 201 \<and> ledger_ready (nd_db (sv_node sv')) (upsert (lock_record (x_env x) (body_or_empty body)) rs)
              \<and> isFrozen sv' = isFrozen sv \<and> enclaveReady (sv_bridge sv')
         else answer_code out \<noteq> Some 201 \<and> nd_db (sv_node sv') = nd_db (sv_node sv)"
proof -
  let ?b = "body_or_empty body"
  consider (gate) "isFrozen sv \<or> \<not> isEnclaveReady (sv_bridge sv)"
    | (params) out' where "\<not> isFrozen sv" "isEnclaveReady (sv_bridge sv)" "lock_params ?b = Some out'"
    | (closed) "\<not> isFrozen sv" "isEnclaveReady (sv_bridge sv)" "lock_params ?b = None" "\<not> enclaveReady (sv_bridge sv)"
    | (checked) "\<not> isFrozen sv" "isEnclaveReady (sv_bridge sv)" "lock_params ?b = None" "enclaveReady (sv_bridge sv)"
    by (cases "lock_params ?b") auto
  then show ?thesis
  proof cases
    case gate
    then show ?thesis using assms(4)
      by (auto simp: lock_behind_gate_def lock_gate_def lock_accepted_def isEnclaveReady_def split: if_splits)
  next
    case params
    then show ?thesis using assms(4)
      by (auto simp: lock_behind_gate_def lock_gate_def lock_handler_def lock_accepted_def lock_params_def Let_def split: if_splits)
  next
    case closed
    then show ?thesis using assms(4)
      by (auto simp: lock_behind_gate_def lock_gate_def lock_handler_def lock_accepted_def verifySignatureInEnclave_def Let_def
          split: if_splits)
  next
    case checked
    let ?sg = "js_String (member ?b ''signature'')" and ?pk = "js_String (member ?b ''publicKey'')"
    obtain b' where v: "verifySignatureInEnclave (x_verify x) (lock_text ?b) ?sg ?pk (sv_bridge sv)
        = (b', Inr (verifySignature (x_verify x) (lock_text ?b) ?sg ?pk))" "enclaveReady b'"
      using checked by (auto simp: verifySignatureInEnclave_def)
    show ?thesis
    proof (cases "verifySignature (x_verify x) (lock_text ?b) ?sg ?pk")
      case True
      obtain nd' res where s: "saveRecord (x_hash x) (x_env x) (x_broadcast x) (lock_record (x_env x) ?b) (sv_node sv) = (nd', res)"
        by fastforce
      note saved = saveRecord_checkpoint [OF assms(1-3) s]
      have "(sv', out) = (sv\<lparr>sv_bridge := b', sv_node := nd'\<rparr>,
               success 201 [(''receipt'', JObj [(''transactionId'', JStr (lock_transaction_id ?b)),
                  (''tenantId'', member ?b ''tenantId''), (''account'', member ?b ''account''), (''amount'', member ?b ''amount'')])])"
        using assms(4) checked True v(1) s saved(1)
        by (simp add: lock_behind_gate_def lock_gate_def lock_handler_def Let_def)
      then show ?thesis using checked True v(2) saved(2,4)
        by (simp add: lock_accepted_def isFrozen_def)
    next
      case False
      then show ?thesis using assms(4) checked v(1)
        by (auto simp: lock_behind_gate_def lock_gate_def lock_handler_def lock_accepted_def audit_def Let_def split: if_splits)
    qed
  qed
qed

text \<open>
  Behind its gate a lock is accepted exactly when the node is not frozen, the enclave is attested, the
  parameters are well formed and the signature over tenant, account and amount verifies; then the
  ledger has the new record under its transaction id, and otherwise it is as it was.
\<close>

theorem lock_accepts_iff:
  assumes "hex_hash (x_hash x)" "good_env (x_env x)" "ledger_ready (nd_db (sv_node sv)) rs"
    and "lock_behind_gate x body sv = (sv', out)"
  shows "(answer_code out = Some 201 \<longleftrightarrow> lock_accepted x (body_or_empty body) sv)
     \<and> (if answer_code out = Some 201
        then snd (getRecord (x_env x) (lock_transaction_id (body_or_empty body)) (nd_db (sv_node sv')))
               = Some (lock_record (x_env x) (body_or_empty body))
        else nd_db (sv_node sv') = nd_db (sv_node sv))"
  using lock_run [OF assms]
  by (auto simp: find_upsert lock_record_def split: if_splits)

text \<open>
  The transaction id keeps sixteen bytes of the signed text, which may not even reach past the tenant:
  a second lock whose text starts with the same sixteen bytes replaces the first, so that the ledger
  does not grow and the first record is lost.
\<close>

theorem lock_ids_collide:
  assumes "hex_hash (x_hash x)" "good_env (x_env x)" "ledger_ready (nd_db (sv_node sv)) rs"
    and "lock_behind_gate x body1 sv = (sv1, out1)" "answer_code out1 = Some 201"
    and "lock_behind_gate x body2 sv1 = (sv2, out2)" "answer_code out2 = Some 201"
    and "take 16 (utf8_bytes (lock_text (body_or_empty body1))) = take 16 (utf8_bytes (lock_text (body_or_empty body2)))"
  shows "snd (getRecord (x_env x) (lock_transaction_id (body_or_empty body1)) (nd_db (sv_node sv2)))
           = Some (lock_record (x_env x) (body_or_empty body2))
     \<and> length (snd (getAllRecords (x_env x) (nd_db (sv_node sv2)))) = length (snd (getAllRecords (x_env x) (nd_db (sv_node sv1))))"
proof -
  let ?r1 = "lock_record (x_env x) (body_or_empty body1)" and ?r2 = "lock_record (x_env x) (body_or_empty body2)"
  have l1: "ledger_ready (nd_db (sv_node sv1)) (upsert ?r1 rs)"
    using lock_run [OF assms(1-4)] assms(5) by (auto split: if_splits)
  have l2: "ledger_ready (nd_db (sv_node sv2)) (upsert ?r2 (upsert ?r1 rs))"
    using lock_run [OF assms(1,2) l1 assms(6)] assms(7) by (auto split: if_splits)
  have id: "lock_transaction_id (body_or_empty body1) = lock_transaction_id (body_or_empty body2)"
    using assms(8) by (simp add: lock_transaction_id_prefix)
  have "transactionId ?r2 \<in> set (map transactionId (upsert ?r1 rs))"
    using id unfolding upsert_ids by (simp add: lock_record_def)
  then have "length (upsert ?r2 (upsert ?r1 rs)) = length (upsert ?r1 rs)" by (simp add: length_upsert)
  with l1 l2 id show ?thesis by (simp add: find_upsert) (simp add: lock_record_def)
qed

section \<open>The enclave boundary\<close>

text \<open>
  Anybody opens the enclave boundary: a join request without a node id is refused, but the boundary of a
  node that was never attested is open afterwards, the gate of the lock route lets requests through, and
  the proof check no longer refuses to run.
\<close>

theorem join_request_opens_enclave:
  assumes "\<not> truthy (member (body_or_empty body) ''nodeId'')" "join_handler x body sv = (sv', out)"
  shows "answer_code out = Some 400 \<and> enclaveReady (sv_bridge sv')
     \<and> (lock_gate sv' = (sv', PassOn) \<longleftrightarrow> \<not> isFrozen sv) \<and> snd (verify_zk_handler x b sv') \<noteq> crashed boundary_error"
proof -
  have sv': "sv' = sv\<lparr>sv_bridge := setEnclaveReadyForTest True (sv_bridge sv)\<rparr>" "answer_code out = Some 400"
    using assms by (auto simp: join_handler_def Let_def)
  then have open_boundary: "enclaveReady (sv_bridge sv')" by (simp add: setEnclaveReadyForTest_def)
  have frozen: "isFrozen sv' = isFrozen sv" by (simp add: sv' isFrozen_def)
  have gate: "lock_gate sv' = (sv', PassOn) \<longleftrightarrow> \<not> isFrozen sv"
    using open_boundary by (simp add: lock_gate_def isEnclaveReady_def frozen)
  have "snd (verify_zk_handler x b sv') \<noteq> crashed boundary_error"
    using open_boundary by (auto simp: verify_zk_handler_def verifyZkProofInEnclave_def crashed_def Let_def success_def failed_def)
  with sv'(2) open_boundary gate show ?thesis by blast
qed

text \<open>
  Two routes can never succeed: the bridge route builds an answer that cannot be printed and ends with
  500, and the identity route asks a fresh engine, which has resolved no issuer, and ends with 400 or 500.
\<close>

theorem bridge_routes_never_succeed:
  "answer_code (snd (bridge_handler x parse body sv)) = Some 500
   \<and> answer_code (snd (identity_handler x body sv)) \<in> {Some 400, Some 500}"
proof
  show "answer_code (snd (bridge_handler x parse body sv)) = Some 500"
    by (simp add: bridge_handler_def Let_def split: sum.split)
  have none: "resolveDid (new_identity_engine 24) v = None" for v
    by (cases v) (simp_all add: resolveDid_def new_identity_engine_def)
  have "\<not> ir_valid r" if "verifyCredential (x_date x) (x_env x) (new_identity_engine 24) c = Inr r" for c r
    using that
    by (auto simp: verifyCredential_def try_credential_def none Let_def bind_result_Inr_iff split: sum.splits if_splits)
  then show "answer_code (snd (identity_handler x body sv)) \<in> {Some 400, Some 500}"
    by (auto simp: identity_handler_def split: sum.split)
qed


section \<open>The replicated log\<close>

lemma find_append_None: "find P xs = None \<Longrightarrow> find P (xs @ ys) = find P ys"
  by (induction xs) (auto split: if_splits)

lemma find_appended:
  assumes "log_ok r" "appendLocalLog rec r = (r', entry)"
  shows "find_entry (re_index entry) r' = Some entry" "re_index entry = int (length (raft_log r)) + 1"
    "re_record entry = rec" "log_ok r'" "raft_log r' = raft_log r @ [entry]" "commitIndex r' = commitIndex r"
proof -
  have e: "re_index entry = int (length (raft_log r)) + 1" "re_record entry = rec" "raft_log r' = raft_log r @ [entry]"
    "commitIndex r' = commitIndex r"
    using assms(2) by (auto simp: appendLocalLog_def Let_def)
  have "\<forall>e \<in> set (raft_log r). re_index e \<noteq> re_index entry"
    using log_index [OF assms(1)] e(1) by (auto simp: in_set_conv_nth)
  then have "find (\<lambda>e. re_index e = re_index entry) (raft_log r) = None" by (auto simp: find_None_iff)
  then have "find (\<lambda>e. re_index e = re_index entry) (raft_log r @ [entry]) = Some entry"
    by (simp add: find_append_None)
  then show "find_entry (re_index entry) r' = Some entry" by (simp add: find_entry_def e(3))
  show "log_ok r'" using log_ok_append [OF assms(1), of rec] assms(2) by simp
qed (use assms(2) in \<open>auto simp: appendLocalLog_def Let_def\<close>)

text \<open>
  An entry the cluster refused stays in the log and is skipped by the next commit: when a request without a
  payload is followed by one that commits, the commit index is the position of the second entry, the
  first one lies below it in the log, and only the second one was written to the ledger.
\<close>

theorem refused_entry_is_skipped:
  assumes "log_ok (sv_raft sv)" "append_handler x term1 (Some rec1) n1 None sv = (sv1, out1)" "answer_code out1 = Some 409"
    and "append_handler x term2 (Some rec2) n2 pl sv1 = (sv2, out2)" "answer_code out2 = Some 200"
  shows "commitIndex (sv_raft sv2) = int (length (raft_log (sv_raft sv))) + 2
     \<and> map re_record (drop (length (raft_log (sv_raft sv))) (raft_log (sv_raft sv2))) = [rec1, rec2]
     \<and> saveRecord (x_hash x) (x_env x) (x_broadcast x) rec2 (sv_node sv) = (sv_node sv2, Inr ())"
proof -
  obtain r1 e1 where a1: "appendLocalLog rec1 (sv_raft sv) = (r1, e1)" by fastforce
  note f1 = find_appended [OF assms(1) a1]
  have sv1: "sv1 = sv\<lparr>sv_raft := r1\<rparr>"
    using assms(2,3) a1 by (auto simp: append_handler_def Let_def split: if_splits)
  obtain r2 e2 where a2: "appendLocalLog rec2 r1 = (r2, e2)" by fastforce
  note f2 = find_appended [OF f1(4) a2]
  define c where "c = \<lparr>bc_entryIndex = re_index e2, bc_clusterSize = (case n2 of None \<Rightarrow> 0 | Some n \<Rightarrow> n),
      bc_proposalCommitment = escrowRecordLeafHash (re_record e2), bc_consensusTerm = the_num term2,
      bc_index = re_index e2, bc_payload = pl\<rparr>"
  obtain r3 nd' res where run: "commitToLedgerIfBftQuorum (x_hash x) (x_env x) (x_broadcast x) c r2 (sv_node sv) = (r3, nd', res)"
    by (cases "commitToLedgerIfBftQuorum (x_hash x) (x_env x) (x_broadcast x) c r2 (sv_node sv)") auto
  have res: "res = Inr Committed \<and> sv2 = sv1\<lparr>sv_raft := r3, sv_node := nd'\<rparr>"
    using assms(4,5) a2 run
    by (auto simp: append_handler_def sv1 c_def [symmetric] Let_def split: if_splits sum.splits commit_result.splits)
  then have "finish_commit (x_hash x) (x_env x) (x_broadcast x) (re_index e2) e2 r2 (sv_node sv) = (r3, nd', Inr Committed)"
    using run f2(1) by (auto simp: commitToLedgerIfBftQuorum_def c_def split: if_splits option.splits)
  then have "r3 = r2\<lparr>commitIndex := re_index e2\<rparr>"
    "saveRecord (x_hash x) (x_env x) (x_broadcast x) rec2 (sv_node sv) = (nd', Inr ())"
    using f2(3) by (auto simp: finish_commit_def split: prod.splits sum.splits)
  with res f1 f2 show ?thesis by (simp add: sv1)
qed

section \<open>Recovery and proofs\<close>

text \<open>
  The unfreeze route answers with success only for a payload that passes the multi-signature check, and
  leaves the node unfrozen; when the request is new the ledger it leaves on disk is an initial segment
  whose root is the one the notary answered.
\<close>

theorem unfreeze_route_restores:
  assumes "unfreeze_handler x b sv = (sv', out)" "answer_code out = Some 200"
  shows "verifyMultiSig (x_hash x) (x_verify x) (x_parseIso x) (x_env x) (x_recovery x) (decode_recovery b)
     \<and> \<not> isFrozen sv'
     \<and> (requestId (decode_recovery b) \<notin> set (readRecoveryRequests (sv_node sv)) \<longrightarrow>
          (\<exists>auth k. snd (fetchAuthoritativeState (x_hash x) (x_env x) (x_fetch x) (nd_notary (sv_node sv))) = Inr auth
             \<and> stored (nd_db (sv_node sv')) = take k (stored (nd_db (sv_node sv)))
             \<and> ledgerRoot (x_hash x) (stored (nd_db (sv_node sv'))) = ns_root auth))"
proof -
  let ?p = "decode_recovery b"
  obtain nd' r where h: "attemptHealAndReturnOutcome (x_hash x) (x_verify x) (x_parseIso x) (x_env x) (x_fetch x) (x_broadcast x)
      (x_recovery x) ?p (sv_node sv) = (nd', r)" by fastforce
  obtain nd2 ok where u: "unfreezeIfClean (x_hash x) (x_env x) (x_fetch x) (''unfreeze request '' @ requestId ?p) nd' = (nd2, ok)"
    by fastforce
  obtain ro where ro: "r = Inr ro" "ro_ok ro" "ok" "sv' = sv\<lparr>sv_node := nd2\<rparr>"
    and ms: "verifyMultiSig (x_hash x) (x_verify x) (x_parseIso x) (x_env x) (x_recovery x) ?p"
    using assms h u by (auto simp: unfreeze_handler_def Let_def split: if_splits sum.splits)
  have thawed: "\<not> au_frozen (nd_auditor nd2)"
    using u ro(3) by (auto simp: unfreezeIfClean_def Let_def split: if_splits)
  have same: "stored (nd_db nd2) = rs" if "ledger_ready (nd_db nd') rs" for rs
  proof -
    have "nd_db (auditOnce (x_hash x) (x_env x) (x_fetch x) (nd'\<lparr>nd_auditor := (nd_auditor nd')\<lparr>au_frozen := False\<rparr>\<rparr>)) = nd_db nd'"
      using that by (auto simp: auditOnce_def Let_def split: option.split prod.split sum.split json_file.split)
    then have "nd_db nd2 = nd_db nd'" using u by (auto simp: unfreezeIfClean_def Let_def split: if_splits)
    then show ?thesis using that by (simp add: stored_def ledger_ready_def readAllRecordsInternal_def)
  qed
  have fresh: "\<exists>auth k. snd (fetchAuthoritativeState (x_hash x) (x_env x) (x_fetch x) (nd_notary (sv_node sv))) = Inr auth
        \<and> stored (nd_db nd2) = take k (stored (nd_db (sv_node sv))) \<and> ledgerRoot (x_hash x) (stored (nd_db nd2)) = ns_root auth"
    if new: "requestId ?p \<notin> set (readRecoveryRequests (sv_node sv))"
  proof -
    obtain d' records where g: "getAllRecords (x_env x) (nd_db (sv_node sv)) = (d', records)" by fastforce
    obtain n' auth k where heal: "fetchAuthoritativeState (x_hash x) (x_env x) (x_fetch x) (nd_notary (sv_node sv)) = (n', Inr auth)"
        "scan_prefix (x_hash x) (ns_root auth) records (length records) = Some k"
        "nd_db nd' = d'\<lparr>storeFile := Parsed (JArr (map encodeRecord (take k records)))\<rparr>"
      using h new ms ro
      by (auto simp: attemptHealAndReturnOutcome_def g updateCheckpointNow_def outcome_error_def Let_def
          split: prod.splits sum.splits option.splits if_splits)
    have root: "ledgerRoot (x_hash x) (take k records) = ns_root auth"
      using scan_prefix_Some [OF order_refl heal(2)] by simp
    have "storeInitialized d'" using g by (auto simp: getAllRecords_def initializeStore_def Let_def split: if_splits sum.splits json_file.splits)
    then have "ledger_ready (nd_db nd') (take k records)" using heal(3) by (simp add: ledger_ready_def)
    then have "stored (nd_db nd2) = take k records" by (rule same)
    moreover obtain j where "records = take j (stored (nd_db (sv_node sv)))"
      using getAllRecords_list [of "x_env x" "nd_db (sv_node sv)"] g by auto
    ultimately show ?thesis using heal(1) root by (metis snd_conv take_take)
  qed
  show ?thesis using ms thawed fresh ro(4) by (simp add: isFrozen_def)
qed

lemma index_of_Some:
  "index_of tid rs i = Some j \<Longrightarrow> i \<le> j \<and> j < i + length rs \<and> transactionId (rs ! (j - i)) = tid"
proof (induction rs arbitrary: i)
  case (Cons r rs)
  show ?case
  proof (cases "transactionId r = tid")
    case False
    with Cons.IH [of "Suc i"] Cons.prems show ?thesis by (auto simp: nth_Cons' Suc_diff_le)
  qed (use Cons.prems in auto)
qed simp

lemma index_of_exists: "tid \<in> transactionId ` set rs \<Longrightarrow> index_of tid rs i \<noteq> None"
  by (induction rs arbitrary: i) auto

text \<open>
  The proof a client gets from the route is one it can check alone: on a ledger with distinct ids the
  answer is 200 exactly for the ids in the ledger, the leaf is the hash of the record, recomputing the
  path from it gives the root of the ledger, and an attestation comes along only when the notary
  vouches for this very root.
\<close>

theorem proof_route_checks:
  assumes "ledger_ready (nd_db (sv_node sv)) rs" "distinct (map transactionId rs)"
    and "verify_proof_handler x tid sv = (sv', out)"
  shows "(answer_code out = Some 200 \<longleftrightarrow> tid \<in> transactionId ` set rs)
     \<and> (answer_code out = Some 200 \<longrightarrow>
          (\<exists>r \<in> set rs. \<exists>p. transactionId r = tid \<and> member (answer_body out) ''leafHash'' = JStr (ledgerLeafHash (x_hash x) r)
             \<and> member (answer_body out) ''proof'' = merkle_proof_json p
             \<and> member (answer_body out) ''root'' = JStr (ledgerRoot (x_hash x) rs)
             \<and> verifyProof (x_hash x) (ledgerLeafHash (x_hash x) r) p = ledgerRoot (x_hash x) rs)
        \<and> (member (answer_body out) ''attestation'' \<noteq> JNull \<longrightarrow>
             (\<exists>s. snd (fetchAuthoritativeState (x_hash x) (x_env x) (x_fetch x) (nd_notary (sv_node sv))) = Inr s
                \<and> ns_root s = ledgerRoot (x_hash x) rs)))"
proof -
  let ?h = "x_hash x"
  let ?m = "merkle.fill ?h transactionId (ledgerLeafHash ?h) rs"
  obtain n' ans where f: "fetchAuthoritativeState ?h (x_env x) (x_fetch x) (nd_notary (sv_node sv)) = (n', ans)" by fastforce
  show ?thesis
  proof (cases "index_of tid rs 0")
    case None
    then have "tid \<notin> transactionId ` set rs" using index_of_exists by fastforce
    then show ?thesis using assms(1,3) None
      by (auto simp: verify_proof_handler_def buildMerkle_eq Let_def)
  next
    case (Some i)
    then have i: "i < length rs" "transactionId (rs ! i) = tid" using index_of_Some [OF Some] by auto
    then have mem: "tid \<in> transactionId ` set rs" by force
    obtain leaf p where hit: "js_get ?m tid = Some (leaf, p)"
      using merkle.fill_complete [OF assms(2) i(1), where leaf = "ledgerLeafHash ?h" and h = ?h] i(2) by auto
    obtain j where j: "j < length rs" "transactionId (rs ! j) = tid" "ledgerLeafHash ?h (rs ! j) = leaf"
      "verifyProof ?h leaf p = ledgerRoot ?h rs"
      using merkle.fill_sound [OF hit] by auto
    have out: "out = success 200 [(''transactionId'', JStr tid), (''leafIndex'', JNum (int i)), (''leafHash'', JStr leaf),
        (''proof'', merkle_proof_json p), (''root'', JStr (ledgerRoot ?h rs)),
        (''attestation'', attestation_json (case ans of Inl err \<Rightarrow> None | Inr s \<Rightarrow> if ns_root s \<noteq> ledgerRoot ?h rs then None else Some s))]"
      using assms(1,3) Some hit f by (simp add: verify_proof_handler_def buildMerkle_eq Let_def)
    have "rs ! j \<in> set rs" using j(1) by simp
    then show ?thesis using mem j f
      by (auto simp: out success_def attestation_json_def split: sum.splits)
  qed
qed


section \<open>Concrete instances\<close>

definition sample_surroundings :: surroundings where
  "sample_surroundings =
     \<lparr>x_hash = sample_hash, x_verify = (\<lambda>m s k. Some True), x_env = sample_env, x_fetch = sample_net,
      x_broadcast = (\<lambda>r. NetworkError ''down''), x_parseIso = (\<lambda>t. Some 5000), x_date = (\<lambda>v. None),
      x_recovery = sample_config,
      x_crypto = \<lparr>cl_hash = sample_hash, cl_hkdf = (\<lambda>s b i. []), cl_encrypt = (\<lambda>k n a p. (p, [])), cl_decrypt = (\<lambda>k n a c t. Some c)\<rparr>,
      x_nonce = [], x_environment = (\<lambda>k. None)\<rparr>"

definition sample_server :: server where
  "sample_server =
     \<lparr>sv_node = sample_recovery_node NoFile, sv_bridge = sample_bridge, sv_cluster = [], sv_raft = new_raft,
      sv_reconciliation = new_reconciliation, sv_snapshots = \<lparr>snapshots = [], snapshotHistory = []\<rparr>, sv_sealing = None\<rparr>"

definition sample_lock_body :: "string \<Rightarrow> jsval" where
  "sample_lock_body account = JObj
     [(''tenantId'', JStr ''tenant-123456789''), (''account'', JStr account), (''amount'', JNum 5),
      (''signature'', JStr ''ab''), (''publicKey'', JStr ''k''), (''validAfterMs'', JNum 0), (''validUntilMs'', JNum 9)]"

lemma sample_surroundings_simps [simp]:
  "x_hash sample_surroundings = sample_hash" "x_env sample_surroundings = sample_env" "x_fetch sample_surroundings = sample_net"
  "x_verify sample_surroundings = (\<lambda>m s k. Some True)" "x_recovery sample_surroundings = sample_config"
  "x_parseIso sample_surroundings = (\<lambda>t. Some 5000)" "x_broadcast sample_surroundings = (\<lambda>r. NetworkError ''down'')"
  by (simp_all add: sample_surroundings_def)

lemma sample_server_ready [simp]: "ledger_ready (nd_db (sv_node sample_server)) [sample_record]"
  by (simp add: sample_server_def sample_recovery_node_def node.defs ledger_ready_def sample_db_def)

lemma sample_body_simps [simp]: "body_or_empty (sample_lock_body a) = sample_lock_body a"
  by (simp add: body_or_empty_def nullish_or_def sample_lock_body_def)

lemma sample_lock_accepted:
  "a \<noteq> [] \<Longrightarrow> \<not> isFrozen sv \<Longrightarrow> enclaveReady (sv_bridge sv) \<Longrightarrow> lock_accepted sample_surroundings (sample_lock_body a) sv"
  by (simp add: lock_accepted_def lock_params_def sample_lock_body_def verifySignature_def lock_text_def hex_digit_ci_def)

lemma sample_server_open [simp]: "\<not> isFrozen sample_server" "enclaveReady (sv_bridge sample_server)"
  by (simp_all add: isFrozen_def sample_server_def sample_recovery_node_def node.defs sample_node_def sample_bridge_def)

theorem mounted_ledger_only_shrinks_witness:
  "\<exists>k. stored (nd_db (sv_node (fst (route_handler sample_surroundings GetRecords sample_server)))) = take k [sample_record]"
proof -
  have "stored (nd_db (sv_node sample_server)) = [sample_record]"
    using sample_server_ready by (simp add: stored_def ledger_ready_def readAllRecordsInternal_def List.map_filter_simps)
  moreover have "gateway_step\<^sup>*\<^sup>* sample_server (fst (route_handler sample_surroundings GetRecords sample_server))"
    by (rule r_into_rtranclp) (rule gateway_step.request)
  ultimately show ?thesis using mounted_ledger_only_shrinks by metis
qed

theorem lock_accepts_iff_witness:
  "\<exists>sv' out. lock_behind_gate sample_surroundings (sample_lock_body ''A'') sample_server = (sv', out) \<and> answer_code out = Some 201"
proof -
  obtain sv' out where run: "lock_behind_gate sample_surroundings (sample_lock_body ''A'') sample_server = (sv', out)" by fastforce
  have "lock_accepted sample_surroundings (sample_lock_body ''A'') sample_server" by (simp add: sample_lock_accepted)
  then show ?thesis
    using lock_accepts_iff [of sample_surroundings sample_server "[sample_record]", OF _ _ _ run] run by simp
qed

theorem lock_ids_collide_witness:
  "\<exists>sv1 out1 sv2 out2. lock_behind_gate sample_surroundings (sample_lock_body ''A'') sample_server = (sv1, out1)
     \<and> lock_behind_gate sample_surroundings (sample_lock_body ''B'') sv1 = (sv2, out2)
     \<and> snd (getRecord sample_env (lock_transaction_id (sample_lock_body ''A'')) (nd_db (sv_node sv2)))
         = Some (lock_record sample_env (sample_lock_body ''B''))"
proof -
  obtain sv1 out1 where run1: "lock_behind_gate sample_surroundings (sample_lock_body ''A'') sample_server = (sv1, out1)" by fastforce
  have one: "answer_code out1 = Some 201" "ledger_ready (nd_db (sv_node sv1)) (upsert (lock_record sample_env (sample_lock_body ''A'')) [sample_record])"
    "\<not> isFrozen sv1" "enclaveReady (sv_bridge sv1)"
    using lock_run [OF _ _ sample_server_ready run1] by (simp_all add: sample_lock_accepted)
  obtain sv2 out2 where run2: "lock_behind_gate sample_surroundings (sample_lock_body ''B'') sv1 = (sv2, out2)" by fastforce
  have two: "answer_code out2 = Some 201"
    using lock_run [OF _ _ one(2) run2] one(3,4) by (simp add: sample_lock_accepted)
  have same: "take 16 (utf8_bytes (lock_text (sample_lock_body ''A''))) = take 16 (utf8_bytes (lock_text (sample_lock_body ''B'')))"
    by (simp add: utf8_bytes_def lock_text_def sample_lock_body_def)
  show ?thesis
    using lock_ids_collide [of sample_surroundings sample_server "[sample_record]", OF _ _ _ run1 one(1) run2 two] same run1 run2 by auto
qed

theorem join_request_opens_enclave_witness:
  "enclaveReady (sv_bridge (fst (join_handler sample_surroundings (JObj []) (sample_server\<lparr>sv_bridge := revokeEnclaveState sample_bridge\<rparr>))))"
proof -
  have "\<not> truthy (member (body_or_empty (JObj [])) ''nodeId'')" by (simp add: body_or_empty_def nullish_or_def)
  from join_request_opens_enclave [OF this, of sample_surroundings "sample_server\<lparr>sv_bridge := revokeEnclaveState sample_bridge\<rparr>"]
  show ?thesis by (metis prod.collapse)
qed

definition second_share_payload :: bft_payload where
  "second_share_payload = \<lparr>bp_clusterSize = 1, bp_f = 0, bp_threshold = 1, bp_uniqueNodeIds = [''n1''],
     bp_shares = [Some \<lparr>vs_nodeId = ''n1'', vs_nodePcr0Hash = ''p'', vs_consensusTerm = 1, vs_index = 2,
                        vs_approvalHash = ''a'', vs_nodeSignature = ''s''\<rparr>]\<rparr>"

theorem refused_entry_is_skipped_witness:
  "\<exists>sv1 out1 sv2 out2. append_handler sample_surroundings (JNum 1) (Some sample_record) None None sample_server = (sv1, out1)
     \<and> append_handler sample_surroundings (JNum 1) (Some sample_record) (Some 1) (Some second_share_payload) sv1 = (sv2, out2)
     \<and> commitIndex (sv_raft sv2) = 2"
proof -
  obtain r1 where a1: "appendLocalLog sample_record new_raft = (r1, \<lparr>re_term = 0, re_index = 1, re_record = sample_record\<rparr>)"
    by (simp add: appendLocalLog_def new_raft_def Let_def)
  let ?e2 = "\<lparr>re_term = 0, re_index = 2, re_record = sample_record\<rparr>"
  have r1: "currentTerm r1 = 0" "length (raft_log r1) = 1" "commitIndex r1 = 0"
    using a1 by (auto simp: appendLocalLog_def new_raft_def Let_def)
  obtain r2 where a2: "appendLocalLog sample_record r1 = (r2, ?e2)"
    using r1 by (simp add: appendLocalLog_def Let_def)
  have ok1: "log_ok r1" using log_ok_append [OF log_ok_new, of sample_record] a1 by simp
  have found: "find_entry 2 r2 = Some ?e2" "commitIndex r2 = 0"
    using find_appended [OF ok1 a2] r1 by simp_all
  have open0: "isEnclaveReady (sv_bridge sample_server)" "currentTerm (sv_raft sample_server) = 0" "sv_raft sample_server = new_raft"
    by (simp_all add: isEnclaveReady_def sample_server_def new_raft_def sample_bridge_def)
  have one: "append_handler sample_surroundings (JNum 1) (Some sample_record) None None sample_server
      = (sample_server\<lparr>sv_raft := r1\<rparr>, failed 409 ''BFT_PAYLOAD_REQUIRED'')"
    using open0 a1 by (simp add: append_handler_def)
  obtain nd' res where s: "saveRecord sample_hash sample_env (\<lambda>r. NetworkError ''down'') sample_record (sv_node sample_server) = (nd', res)"
    by fastforce
  then have "res = Inr ()" using saveRecord_checkpoint(1) [OF sample_hash_hex sample_env_good sample_server_ready s] by simp
  note s = s [unfolded this]
  let ?sv1 = "sample_server\<lparr>sv_raft := r1\<rparr>"
  have frozen1: "\<not> isFrozen ?sv1" using sample_server_open(1) by (simp add: isFrozen_def)
  have "commitToLedgerIfBftQuorum sample_hash sample_env (\<lambda>r. NetworkError ''down'')
      \<lparr>bc_entryIndex = 2, bc_clusterSize = 1, bc_proposalCommitment = escrowRecordLeafHash sample_record, bc_consensusTerm = 1,
       bc_index = 2, bc_payload = Some second_share_payload\<rparr> r2 (sv_node sample_server) = (r2\<lparr>commitIndex := 2\<rparr>, nd', Inr Committed)"
    by (simp add: commitToLedgerIfBftQuorum_def found check_bft_payload_def second_share_payload_def first_share_def finish_commit_def s Let_def)
  then have two: "append_handler sample_surroundings (JNum 1) (Some sample_record) (Some 1) (Some second_share_payload) ?sv1
      = (?sv1\<lparr>sv_raft := r2\<lparr>commitIndex := 2\<rparr>, sv_node := nd'\<rparr>, success 200 [(''term'', JNum (currentTerm r2)), (''commitIndex'', JNum 2)])"
    using open0 frozen1 r1 a2 by (simp add: append_handler_def)
  show ?thesis
    using refused_entry_is_skipped [OF _ one _ two] one two open0 log_ok_new by (auto simp: new_raft_def)
qed

definition sample_ritual :: jsval where
  "sample_ritual = JObj [(''requestId'', JStr ''r1''), (''action'', JStr ''LEDGER_UNFREEZE_RITUAL''), (''expiresAt'', JStr ''2030''),
     (''signatures'', JArr [])]"

theorem unfreeze_route_restores_witness:
  "\<exists>sv' out. unfreeze_handler sample_surroundings sample_ritual sample_server = (sv', out) \<and> answer_code out = Some 200 \<and> \<not> isFrozen sv'"
proof -
  have guard: "truthy sample_ritual" "truthy (member sample_ritual ''requestId'')" "truthy (member sample_ritual ''action'')"
    "truthy (member sample_ritual ''expiresAt'')" "is_arr (member sample_ritual ''signatures'')"
    by (simp_all add: sample_ritual_def)
  have p: "decode_recovery sample_ritual = sample_payload"
    by (simp add: decode_recovery_def sample_ritual_def sample_payload_def)
  have node: "sv_node sample_server = sample_recovery_node NoFile" by (simp add: sample_server_def)
  have ready: "ledger_ready (nd_db (sample_recovery_node NoFile)) [sample_record]"
    using sample_server_ready by (simp add: node)
  obtain n' where f: "fetchAuthoritativeState sample_hash sample_env sample_net (nd_notary (sample_recovery_node NoFile)) = (n', Inr sample_notary_state)"
    using sample_fetch [of sample_hash sample_env "nd_notary (sample_recovery_node NoFile)"] by (metis prod.collapse)
  have ms: "verifyMultiSig sample_hash (\<lambda>m s k. Some True) (\<lambda>t. Some 5000) sample_env sample_config sample_payload"
    by (simp add: verifyMultiSig_def sample_payload_def sample_env_def sample_config_def)
  have fresh: "requestId sample_payload \<notin> set (readRecoveryRequests (sample_recovery_node NoFile))"
    by (simp add: readRecoveryRequests_def sample_recovery_node_def node.defs)
  obtain nd' ro where h: "attemptHealAndReturnOutcome sample_hash (\<lambda>m s k. Some True) (\<lambda>t. Some 5000) sample_env sample_net
      (\<lambda>r. NetworkError ''down'') sample_config sample_payload (sample_recovery_node NoFile) = (nd', Inr ro)" "ro_ok ro"
      "\<not> au_frozen (nd_auditor nd')"
  proof -
    have "\<not> au_frozen (nd_auditor (sample_recovery_node NoFile))" using sample_server_open(1) by (simp add: isFrozen_def node)
    then show ?thesis using that ms fresh f ready
      by (auto simp: attemptHealAndReturnOutcome_def appendRecoveryRequest_def updateCheckpointNow_def Let_def sample_env_def)
  qed
  obtain sv' out where run: "unfreeze_handler sample_surroundings sample_ritual sample_server = (sv', out)" by fastforce
  have "answer_code out = Some 200"
    using run h ms by (auto simp: unfreeze_handler_def p node unfreezeIfClean_def guard Let_def split: if_splits)
  with unfreeze_route_restores [OF run this] run show ?thesis by blast
qed

theorem proof_route_checks_witness:
  "answer_code (snd (verify_proof_handler sample_surroundings ''t1'' sample_server)) = Some 200"
proof -
  obtain sv' out where run: "verify_proof_handler sample_surroundings ''t1'' sample_server = (sv', out)" by fastforce
  then show ?thesis using proof_route_checks [OF sample_server_ready _ run] by simp
qed

end
