(* ===== verification/Upgrade.thy ===== *)
theory Upgrade
  imports Gateway
begin

text \<open>
  The active sealing context of \<^verbatim>\<open>DatabaseService.ts\<close> with its engine, and the upgrade route of the gateway on it:
  who may move the context to another measurement, and what becomes of the sealed state.
\<close>

section \<open>The active context\<close>

type_synonym active_config = "string \<times> string \<times> string"

record sealing_store =
  st_context :: "active_config option"
  st_engine :: "sealing_engine option"

definition engine_of :: "crypto_lib \<Rightarrow> active_config \<Rightarrow> sealing_engine" where
  "engine_of L c = (case c of (secret, mrsigner, mrenclave) \<Rightarrow> newSealingEngine L secret mrsigner mrenclave)"

text \<open>The config is None when it is no object.\<close>

definition setActiveSealingContext :: "crypto_lib \<Rightarrow> active_config option \<Rightarrow> sealing_store \<Rightarrow> sealing_store \<times> unit js_result" where
  "setActiveSealingContext L config st =
     (case config of
        None \<Rightarrow> (st, Inl (TypeError ''config must be an EnclaveSealingConfig object''))
      | Some c \<Rightarrow> (\<lparr>st_context = Some c, st_engine = Some (engine_of L c)\<rparr>, Inr ()))"

definition getActiveSealingContext :: "sealing_store \<Rightarrow> active_config option" where
  "getActiveSealingContext st = st_context st"

definition getActiveSealingEngine :: "crypto_lib \<Rightarrow> sealing_store \<Rightarrow> sealing_store \<times> sealing_engine option" where
  "getActiveSealingEngine L st =
     (case (st_engine st, st_context st) of
        (None, Some c) \<Rightarrow> (st\<lparr>st_engine := Some (engine_of L c)\<rparr>, Some (engine_of L c))
      | _ \<Rightarrow> (st, st_engine st))"

definition new_sealing_store :: sealing_store where
  "new_sealing_store = \<lparr>st_context = None, st_engine = None\<rparr>"

text \<open>The engine, once there, is the engine of the context; so the gateway's state holds the context only.\<close>

definition sealing_consistent :: "crypto_lib \<Rightarrow> sealing_store \<Rightarrow> bool" where
  "sealing_consistent L st \<longleftrightarrow> (\<forall>g. st_engine st = Some g \<longrightarrow> map_option (engine_of L) (st_context st) = Some g)"

lemma sealing_store_consistent:
  "sealing_consistent L new_sealing_store"
  "sealing_consistent L st \<Longrightarrow> sealing_consistent L (fst (setActiveSealingContext L config st))"
  "sealing_consistent L st \<Longrightarrow> sealing_consistent L (fst (getActiveSealingEngine L st))"
  by (auto simp: sealing_consistent_def new_sealing_store_def setActiveSealingContext_def getActiveSealingEngine_def split: option.splits)

lemma engine_follows_context:
  "sealing_consistent L st \<Longrightarrow> snd (getActiveSealingEngine L st) = map_option (engine_of L) (getActiveSealingContext st)"
  by (auto simp: sealing_consistent_def getActiveSealingEngine_def getActiveSealingContext_def split: option.splits)

section \<open>The upgrade route\<close>

definition active_engine :: "crypto_lib \<Rightarrow> server \<Rightarrow> sealing_engine option" where
  "active_engine L sv = map_option (engine_of L) (sv_sealing sv)"

text \<open>The engine a blob asks for: the platform's secret with the signer and the measurement the blob names itself.\<close>

definition engine_named :: "crypto_lib \<Rightarrow> string \<Rightarrow> sealed_blob \<Rightarrow> sealing_engine" where
  "engine_named L secret blob = newSealingEngine L secret (pl_mrsigner (sb_platform blob)) (pl_mrenclave (sb_platform blob))"

lemma sealed_platform:
  "sealData L e nonce (newSealingEngine L secret signer m) plain policy = Inr blob \<Longrightarrow>
     pl_mrsigner (sb_platform blob) = signer \<and> pl_mrenclave (sb_platform blob) = m"
  by (auto simp: sealData_def newSealingEngine_def Let_def split: if_splits prod.splits)

lemma upgrade_run:
  assumes "isEnclaveReady (sv_bridge sv)" "signer \<noteq> []" "key \<noteq> []" "secret \<noteq> []" "mrsigner \<noteq> []" "mrenclave \<noteq> []"
    and "sealing_context x sv = (secret, mrsigner, mrenclave)" "mp_metadata p = Some meta"
  shows "upgrade_handler x (Some p) (JStr signer) (JStr key) sv =
     (case migrateBlob (x_crypto x) (x_verify x) (x_env x) (x_nonce x) secret (Some p) signer key of
        Inl err \<Rightarrow> (sv, failed 403 err)
      | Inr blob' \<Rightarrow> (sv\<lparr>sv_sealing := Some (secret, signer, mg_targetMrenclave meta)\<rparr>, success 200 [(''newBlob'', blob_json blob')]))"
  using assms by (simp add: upgrade_handler_def split: sum.split)

text \<open>
  C29. An upgrade is accepted exactly when the enclave is ready, the context is complete, the package is signed under the key that comes
  in the same request, its signer and the blob's are the signer of the request, and the blob opens on this platform under the
  measurement the blob itself names. Neither a key of the server nor the running signer and measurement are asked for. On
  acceptance the active engine opens the returned blob to the same secret; on refusal nothing changes.
\<close>

theorem upgrade_accepts_iff:
  assumes "aead_ok (x_crypto x)" "byte_list (x_nonce x)" "length (x_nonce x) = 12"
    and "mp_blob p = Some blob" "mp_metadata p = Some meta" "mp_migrationId p \<noteq> []"
    and "sealing_context x sv = (secret, mrsigner, mrenclave)"
    and "upgrade_handler x (Some p) (JStr signer) (JStr key) sv = (sv', out)"
  shows "if isEnclaveReady (sv_bridge sv) \<and> signer \<noteq> [] \<and> key \<noteq> [] \<and> secret \<noteq> [] \<and> mrsigner \<noteq> [] \<and> mrenclave \<noteq> []
       \<and> verifyHexRsaSha256 (x_verify x) (canonicalMigrationHeader (mp_migrationId p) meta) (mp_packageSignatureHex p) key
       \<and> mg_mrsigner meta = signer \<and> pl_mrsigner (sb_platform blob) = signer
       \<and> (\<exists>plain. unsealData (x_crypto x) (engine_named (x_crypto x) secret blob) blob = Inr plain \<and> plain \<noteq> [])
     then \<exists>blob' g. out = success 200 [(''newBlob'', blob_json blob')] \<and> sv' = sv\<lparr>sv_sealing := Some (secret, signer, mg_targetMrenclave meta)\<rparr>
       \<and> active_engine (x_crypto x) sv' = Some g
       \<and> unsealData (x_crypto x) g blob' = unsealData (x_crypto x) (engine_named (x_crypto x) secret blob) blob
     else sv' = sv \<and> answer_code out \<in> {Some 400, Some 403, Some 500, Some 503}"
proof -
  let ?run = "migrateBlob (x_crypto x) (x_verify x) (x_env x) (x_nonce x) secret (Some p) signer key"
  note mig = migration_preserves_secret [OF assms(1-6), of "x_verify x" "x_env x" secret signer key]
  show ?thesis
  proof (cases "isEnclaveReady (sv_bridge sv) \<and> signer \<noteq> [] \<and> key \<noteq> [] \<and> secret \<noteq> [] \<and> mrsigner \<noteq> [] \<and> mrenclave \<noteq> []")
    case False
    then show ?thesis using assms(7,8) by (auto simp: upgrade_handler_def split: if_splits)
  next
    case True
    show ?thesis
    proof (cases ?run)
      case (Inl err)
      with True assms(8) upgrade_run [OF _ _ _ _ _ _ assms(7,5)] have "sv' = sv" "answer_code out = Some 403" by auto
      with mig Inl show ?thesis by (auto simp: engine_named_def)
    next
      case (Inr blob')
      with True assms(8) upgrade_run [OF _ _ _ _ _ _ assms(7,5)]
      have "sv' = sv\<lparr>sv_sealing := Some (secret, signer, mg_targetMrenclave meta)\<rparr>"
        "out = success 200 [(''newBlob'', blob_json blob')]" by auto
      with mig Inr True show ?thesis by (auto simp: engine_named_def active_engine_def engine_of_def)
    qed
  qed
qed

text \<open>
  The measurement a blob was sealed to does not protect it: a secret sealed under \<^verbatim>\<open>MRENCLAVE\<close> to some measurement is
  handed over to whatever measurement a package names, on a node that runs another one, and whoever signs the package.
\<close>

theorem foreign_blob_is_migrated:
  assumes "aead_ok (x_crypto x)" "byte_list (x_nonce x)" "length (x_nonce x) = 12"
    and "isEnclaveReady (sv_bridge sv)" "sealing_context x sv = (secret, mrsigner, mrenclave)"
    and "secret \<noteq> []" "mrsigner \<noteq> []" "mrenclave \<noteq> []" "signer \<noteq> []" "key \<noteq> []"
    and "sealData (x_crypto x) e0 nonce0 (newSealingEngine (x_crypto x) secret signer m0) plain ''MRENCLAVE'' = Inr blob"
    and "byte_list plain" "plain \<noteq> []" "byte_list nonce0" "length nonce0 = 12"
    and "mp_blob p = Some blob" "mp_metadata p = Some \<lparr>mg_mrsigner = signer, mg_targetMrenclave = target\<rparr>" "mp_migrationId p \<noteq> []"
    and "verifyHexRsaSha256 (x_verify x) (canonicalMigrationHeader (mp_migrationId p) \<lparr>mg_mrsigner = signer, mg_targetMrenclave = target\<rparr>)
           (mp_packageSignatureHex p) key"
  shows "\<exists>sv' blob'. upgrade_handler x (Some p) (JStr signer) (JStr key) sv = (sv', success 200 [(''newBlob'', blob_json blob')])
     \<and> sv_sealing sv' = Some (secret, signer, target)
     \<and> unsealData (x_crypto x) (newSealingEngine (x_crypto x) secret signer target) blob' = Inr plain"
proof -
  have pl: "pl_mrsigner (sb_platform blob) = signer" "pl_mrenclave (sb_platform blob) = m0"
    using sealed_platform [OF assms(11)] by simp_all
  have opens: "unsealData (x_crypto x) (newSealingEngine (x_crypto x) secret signer m0) blob = Inr plain"
    using unseal_seal [OF assms(1,12,13,14,15), of "''MRENCLAVE''" e0 "newSealingEngine (x_crypto x) secret signer m0"] assms(11)
    by (auto simp: valid_policy_def)
  obtain blob' where "migrateBlob (x_crypto x) (x_verify x) (x_env x) (x_nonce x) secret (Some p) signer key = Inr blob'"
    "unsealData (x_crypto x) (newSealingEngine (x_crypto x) secret signer target) blob' = Inr plain"
    using migration_preserves_secret [OF assms(1-3,16-18), of "x_verify x" "x_env x" secret signer key] opens pl assms(13,19) by auto
  then show ?thesis by (auto simp: upgrade_run [OF assms(4,9,10,6,7,8,5,17)])
qed

text \<open>
  An upgrade to an empty measurement is accepted, and then no upgrade is ever accepted again: the context counts as
  unavailable.
\<close>

theorem empty_measurement_locks_upgrades:
  assumes "sv_sealing sv = Some (secret, signer, [])"
    and "upgrade_handler x payload s k sv = (sv', out)"
  shows "sv' = sv \<and> answer_code out \<in> {Some 400, Some 500, Some 503}"
  using assms by (auto simp: upgrade_handler_def sealing_context_def split: if_splits)

section \<open>Concrete instances\<close>

definition upgrade_surroundings :: surroundings where
  "upgrade_surroundings = sample_surroundings\<lparr>x_crypto := sample_lib, x_nonce := sample_nonce\<rparr>"

definition upgrade_server :: server where
  "upgrade_server = sample_server\<lparr>sv_sealing := Some (''root'', ''other'', ''m7'')\<rparr>"

definition foreign_blob :: sealed_blob where
  "foreign_blob = projr (sealData sample_lib sample_seal_env sample_nonce (sample_engine ''m1'') [1, 2] ''MRENCLAVE'')"

lemma foreign_blob_sealed:
  "sealData sample_lib sample_seal_env sample_nonce (newSealingEngine sample_lib ''root'' ''signer'' ''m1'') [1, 2] ''MRENCLAVE'' = Inr foreign_blob"
  by (simp add: foreign_blob_def sample_engine_def sealData_def Let_def split: prod.splits)

definition foreign_package :: "string \<Rightarrow> migration_payload" where
  "foreign_package target = \<lparr>mp_blob = Some foreign_blob, mp_metadata = Some \<lparr>mg_mrsigner = ''signer'', mg_targetMrenclave = target\<rparr>,
     mp_migrationId = ''mig'', mp_packageSignatureHex = ''ab'', mp_packagePublicKeyPem = ''KEY''\<rparr>"

lemma upgrade_sample_facts:
  "x_crypto upgrade_surroundings = sample_lib" "x_nonce upgrade_surroundings = sample_nonce"
  "sealing_context upgrade_surroundings upgrade_server = (''root'', ''other'', ''m7'')"
  "isEnclaveReady (sv_bridge upgrade_server)"
  "verifyHexRsaSha256 (x_verify upgrade_surroundings) d ''ab'' ''KEY''"
  by (simp_all add: upgrade_surroundings_def sealing_context_def upgrade_server_def verifyHexRsaSha256_def hex_digit_ci_def
      sample_server_def sample_bridge_def isEnclaveReady_def)

lemma small_bytes: "byte_list [1, 2]"
  by (simp add: byte_list_def)

theorem foreign_blob_is_migrated_witness:
  "\<exists>sv' blob'. upgrade_handler upgrade_surroundings (Some (foreign_package [])) (JStr ''signer'') (JStr ''KEY'') upgrade_server
       = (sv', success 200 [(''newBlob'', blob_json blob')])
     \<and> sv_sealing sv' = Some (''root'', ''signer'', [])"
proof -
  note f = upgrade_sample_facts
  have p: "mp_blob (foreign_package t) = Some foreign_blob"
    "mp_metadata (foreign_package t) = Some \<lparr>mg_mrsigner = ''signer'', mg_targetMrenclave = t\<rparr>"
    "mp_migrationId (foreign_package t) = ''mig''" "mp_packageSignatureHex (foreign_package t) = ''ab''" for t
    by (simp_all add: foreign_package_def)
  from foreign_blob_is_migrated [where x = upgrade_surroundings and sv = upgrade_server and p = "foreign_package []" and ?m0.0 = "''m1''"
      and plain = "[1, 2]" and ?e0.0 = sample_seal_env and ?nonce0.0 = sample_nonce and target = "[]" and signer = "''signer''" and key = "''KEY''",
      unfolded f(1,2) p, OF sample_aead sample_nonce_ok f(4,3) _ _ _ _ _ foreign_blob_sealed small_bytes _ sample_nonce_ok refl refl _ f(5)]
  show ?thesis by auto
qed

theorem upgrade_accepts_iff_witness:
  "sv_sealing (fst (upgrade_handler upgrade_surroundings (Some (foreign_package ''m2'')) (JStr ''signer'') (JStr ''KEY'') upgrade_server))
     = Some (''root'', ''signer'', ''m2'')"
proof -
  note f = upgrade_sample_facts
  obtain sv' out where run: "upgrade_handler upgrade_surroundings (Some (foreign_package ''m2'')) (JStr ''signer'') (JStr ''KEY'') upgrade_server = (sv', out)"
    by fastforce
  have p: "mp_blob (foreign_package ''m2'') = Some foreign_blob"
    "mp_metadata (foreign_package ''m2'') = Some \<lparr>mg_mrsigner = ''signer'', mg_targetMrenclave = ''m2''\<rparr>"
    "mp_migrationId (foreign_package ''m2'') \<noteq> []" "mp_packageSignatureHex (foreign_package ''m2'') = ''ab''"
    by (simp_all add: foreign_package_def)
  have pl: "pl_mrsigner (sb_platform foreign_blob) = ''signer''" "pl_mrenclave (sb_platform foreign_blob) = ''m1''"
    using sealed_platform [OF foreign_blob_sealed] by simp_all
  have opens: "unsealData sample_lib (engine_named sample_lib ''root'' foreign_blob) foreign_blob = Inr [1, 2]"
    using unseal_seal [OF sample_aead small_bytes _ sample_nonce_ok, of "''MRENCLAVE''" sample_seal_env "newSealingEngine sample_lib ''root'' ''signer'' ''m1''"]
      foreign_blob_sealed by (auto simp: engine_named_def pl valid_policy_def)
  from upgrade_accepts_iff [OF _ _ _ p(1-3) f(3) run] f sample_aead sample_nonce_ok pl p(4) opens run show ?thesis by auto
qed

theorem empty_measurement_locks_upgrades_witness:
  "answer_code (snd (upgrade_handler upgrade_surroundings (Some (foreign_package ''m2'')) (JStr ''signer'') (JStr ''KEY'')
     (sample_server\<lparr>sv_sealing := Some (''root'', ''signer'', [])\<rparr>))) \<noteq> Some 200"
proof -
  let ?s = "sample_server\<lparr>sv_sealing := Some (''root'', ''signer'', [])\<rparr>"
  obtain sv' out where run: "upgrade_handler upgrade_surroundings (Some (foreign_package ''m2'')) (JStr ''signer'') (JStr ''KEY'') ?s = (sv', out)"
    by fastforce
  have "sv_sealing ?s = Some (''root'', ''signer'', [])" by simp
  from empty_measurement_locks_upgrades [OF this run] run show ?thesis by auto
qed

end
