(* ===== verification/LogShield.thy ===== *)
theory LogShield
  imports Http Text
begin

text \<open>
  The redaction of logged values of \<^verbatim>\<open>services/security/EnclaveLogShield.ts\<close>, the confidential errors
  of \<^verbatim>\<open>services/security/EnclaveErrors.ts\<close> and the error interceptor of
  \<^verbatim>\<open>middleware/LogShieldMiddleware.ts\<close>. SHA-256 and the random tracking ids are parameters.
\<close>

section \<open>The ring of cleartexts\<close>

text \<open>What may be logged: the values of JSON, and buffers.\<close>

datatype logval =
    LUndefined
  | LNull
  | LBool bool
  | LNum int
  | LStr string
  | LBuf "nat list"
  | LArr "logval list"
  | LObj "(string \<times> logval) list"

record ring_entry =
  rg_trackingId :: string
  rg_ts :: string
  rg_cleartext :: logval

text \<open>The capacity is None when the environment gives no number: no comparison with NaN holds.\<close>

record log_shield =
  ls_salt :: string
  ls_ring :: "ring_entry list"
  ls_capacity :: "int option"

definition putCleartext :: "env \<Rightarrow> string \<Rightarrow> logval \<Rightarrow> log_shield \<Rightarrow> log_shield" where
  "putCleartext e tid v s =
     (let ring = ls_ring s @ [\<lparr>rg_trackingId = tid, rg_ts = nowIso e, rg_cleartext = v\<rparr>]
      in if (case ls_capacity s of None \<Rightarrow> False | Some c \<Rightarrow> c < int (length ring))
         then s\<lparr>ls_ring := tl ring\<rparr> else s\<lparr>ls_ring := ring\<rparr>)"

definition getCleartextByTrackingId :: "string \<Rightarrow> log_shield \<Rightarrow> ring_entry option" where
  "getCleartextByTrackingId tid s = find (\<lambda>g. rg_trackingId g = tid) (ls_ring s)"

definition clearRingBuffer :: "log_shield \<Rightarrow> log_shield" where
  "clearRingBuffer s = s\<lparr>ls_ring := []\<rparr>"

section \<open>Redaction of texts\<close>

definition computeRedactedToken :: "hashfn \<Rightarrow> string \<Rightarrow> string \<Rightarrow> string" where
  "computeRedactedToken h salt v = h (v @ ''||'' @ salt)"

text \<open>
  One match of \<^verbatim>\<open>\b<word>\b\s*[:=]\s*([^\s,;]+)\<close> at the head of a text, given the character before
  it: the captured value and what follows it.
\<close>

definition value_char :: "char \<Rightarrow> bool" where
  "value_char c \<longleftrightarrow> \<not> js_space c \<and> c \<noteq> CHR '','' \<and> c \<noteq> CHR '';''"

definition head_is :: "(char \<Rightarrow> bool) \<Rightarrow> string \<Rightarrow> bool" where
  "head_is P s = (case s of [] \<Rightarrow> False | c # r \<Rightarrow> P c)"

definition match_marker :: "string \<Rightarrow> char option \<Rightarrow> string \<Rightarrow> (string \<times> string) option" where
  "match_marker w prev s =
     (let after = dropWhile js_space (drop (length w) s); rest = dropWhile js_space (tl after) in
      if (case prev of None \<Rightarrow> False | Some p \<Rightarrow> word_char p) then None
      else if js_lower (take (length w) s) \<noteq> js_lower w then None
      else if head_is word_char (drop (length w) s) then None
      else if \<not> head_is (\<lambda>c. c = CHR '':'' \<or> c = CHR ''='') after then None
      else if takeWhile value_char rest = [] then None
      else Some (takeWhile value_char rest, dropWhile value_char rest))"

lemma match_marker_shorter:
  assumes "match_marker w prev s = Some (v, r)"
  shows "length r < length s"
proof -
  let ?after = "dropWhile js_space (drop (length w) s)"
  have "r = dropWhile value_char (dropWhile js_space (tl ?after)) \<and> ?after \<noteq> []"
    using assms by (cases ?after) (simp_all add: match_marker_def head_is_def Let_def split: if_splits)
  then have r: "r = dropWhile value_char (dropWhile js_space (tl ?after))" "?after \<noteq> []" by simp_all
  have "length r \<le> length (tl ?after)"
    unfolding r(1) by (meson length_dropWhile_le le_trans)
  also have "\<dots> < length ?after" using r(2) by simp
  also have "\<dots> \<le> length (drop (length w) s)" by (rule length_dropWhile_le)
  also have "\<dots> \<le> length s" by simp
  finally show ?thesis .
qed

function replace_markers ::
  "(string \<Rightarrow> string) \<Rightarrow> string \<Rightarrow> string \<Rightarrow> char option \<Rightarrow> string \<Rightarrow> string" where
  "replace_markers tok label w prev s =
     (case match_marker w prev s of
        Some (v, r) \<Rightarrow> label @ ''=[REDACTED_'' @ tok v @ '']'' @ replace_markers tok label w (Some (last v)) r
      | None \<Rightarrow> (case s of [] \<Rightarrow> [] | c # r \<Rightarrow> c # replace_markers tok label w (Some c) r))"
  by pat_completeness auto

termination
  by (relation "measure (\<lambda>(tok, label, w, prev, s). length s)") (auto dest: match_marker_shorter)

declare replace_markers.simps [simp del]

definition log_patterns :: "(string \<times> string) list" where
  "log_patterns =
     [(''commitment'', ''commitment''), (''transactionId'', ''transactionId''), (''transaction_id'', ''transactionId''),
      (''signature'', ''signature'')]"

definition redactString :: "(string \<Rightarrow> string) \<Rightarrow> string \<Rightarrow> string" where
  "redactString tok s = fold (\<lambda>(w, label) out. replace_markers tok label w None out) log_patterns s"

section \<open>Redaction of values\<close>

definition isLikelySensitiveKey :: "string \<Rightarrow> bool" where
  "isLikelySensitiveKey key =
     (let k = js_lower key in
      k = ''commitment'' \<or> k = ''transactionid'' \<or> k = ''transaction_id'' \<or> k = ''signature'' \<or> k = ''publickey''
      \<or> ends_with k ''signature'' \<or> contains k ''commitment'' \<or> contains k ''transaction'')"

fun bytes_text :: "nat list \<Rightarrow> string" where
  "bytes_text [] = []"
| "bytes_text (b # bs) = hex_lower (b div 16) # hex_lower (b mod 16) # bytes_text bs"

definition redacted :: "(string \<Rightarrow> string) \<Rightarrow> string \<Rightarrow> string" where
  "redacted tok s = ''[REDACTED_'' @ tok s @ '']''"

fun is_lstr :: "logval \<Rightarrow> bool" where
  "is_lstr (LStr s) = True"
| "is_lstr _ = False"

definition redact_secret :: "(string \<Rightarrow> string) \<Rightarrow> logval \<Rightarrow> logval" where
  "redact_secret tok v = (case v of LStr s \<Rightarrow> LStr (redacted tok s) | _ \<Rightarrow> LStr ''[REDACTED_NONSTRING]'')"

fun sanitizeAny :: "(string \<Rightarrow> string) \<Rightarrow> logval \<Rightarrow> logval" where
  "sanitizeAny tok (LStr s) = LStr (redactString tok s)"
| "sanitizeAny tok (LBuf bs) = LStr (''[BUFFER_REDACTED_'' @ tok (bytes_text bs) @ '']'')"
| "sanitizeAny tok (LArr vs) = LArr (map (\<lambda>v. sanitizeAny tok v) vs)"
| "sanitizeAny tok (LObj ms) =
     LObj (map (\<lambda>(k, v). (k, if isLikelySensitiveKey k then redact_secret tok v
                             else if js_lower k = ''stack'' \<and> is_lstr v then LStr ''[STACK_REDACTED]''
                             else sanitizeAny tok v)) ms)"
| "sanitizeAny tok v = v"

section \<open>Errors\<close>

text \<open>
  What a handler may throw: a confidential error, another error with its own texts, or any value.
  The details are those of \<^verbatim>\<open>details ?? payload ?? undefined\<close>.
\<close>

record confidential_error =
  ce_name :: string
  ce_trackingId :: string
  ce_statusCode :: int

datatype thrown =
    Confidential confidential_error logval
  | PlainError string string logval
  | ThrownValue logval

definition newConfidentialBaseError ::
  "env \<Rightarrow> string \<Rightarrow> int \<Rightarrow> string \<Rightarrow> logval option \<Rightarrow> log_shield \<Rightarrow> log_shield \<times> confidential_error" where
  "newConfidentialBaseError e uuid statusCode publicMessage rawPayload s =
     ((case rawPayload of None \<Rightarrow> s | Some v \<Rightarrow> putCleartext e uuid v s),
      \<lparr>ce_name = ''ConfidentialBaseError'', ce_trackingId = uuid, ce_statusCode = statusCode\<rparr>)"

definition named_error ::
  "string \<Rightarrow> log_shield \<times> confidential_error \<Rightarrow> log_shield \<times> confidential_error" where
  "named_error n r = (fst r, snd r\<lparr>ce_name := n\<rparr>)"

definition newConfidentialLedgerError ::
  "env \<Rightarrow> string \<Rightarrow> string \<Rightarrow> logval option \<Rightarrow> log_shield \<Rightarrow> log_shield \<times> confidential_error" where
  "newConfidentialLedgerError e uuid msg raw s = named_error ''ConfidentialLedgerError'' (newConfidentialBaseError e uuid 500 msg raw s)"

definition newBftQuorumException ::
  "env \<Rightarrow> string \<Rightarrow> string \<Rightarrow> logval option \<Rightarrow> log_shield \<Rightarrow> log_shield \<times> confidential_error" where
  "newBftQuorumException e uuid msg raw s = named_error ''BftQuorumException'' (newConfidentialBaseError e uuid 409 msg raw s)"

definition newDatabaseLockConflictError ::
  "env \<Rightarrow> string \<Rightarrow> string \<Rightarrow> logval option \<Rightarrow> log_shield \<Rightarrow> log_shield \<times> confidential_error" where
  "newDatabaseLockConflictError e uuid msg raw s =
     named_error ''DatabaseLockConflictError'' (newConfidentialBaseError e uuid 409 msg raw s)"

record error_payload =
  ep_trackingId :: string
  ep_safeMessage :: string
  ep_statusCode :: int

definition getConfidentialErrorPayload :: "thrown \<Rightarrow> error_payload option" where
  "getConfidentialErrorPayload err =
     (case err of
        Confidential ce d \<Rightarrow> Some \<lparr>ep_trackingId = ce_trackingId ce, ep_safeMessage = ''INTERNAL_ERROR'', ep_statusCode = ce_statusCode ce\<rparr>
      | _ \<Rightarrow> None)"

record sanitized_error =
  se_trackingId :: string
  se_message :: string
  se_safe :: logval

definition safe_error :: "(string \<Rightarrow> string) \<Rightarrow> string \<Rightarrow> string \<Rightarrow> logval \<Rightarrow> logval" where
  "safe_error tok name msg details =
     LObj [(''name'', LStr name), (''message'', LStr (redactString tok msg)), (''stack'', LStr ''[STACK_REDACTED]''),
           (''details'', sanitizeAny tok details)]"

definition sanitizeError :: "(string \<Rightarrow> string) \<Rightarrow> string \<Rightarrow> thrown \<Rightarrow> sanitized_error" where
  "sanitizeError tok uuid err =
     \<lparr>se_trackingId = uuid, se_message = ''INTERNAL_ERROR'',
      se_safe = (case err of
                   ThrownValue v \<Rightarrow> sanitizeAny tok v
                 | PlainError name msg details \<Rightarrow> safe_error tok name msg details
                 | Confidential ce details \<Rightarrow> safe_error tok (ce_name ce) ''INTERNAL_ERROR'' details)\<rparr>"

definition tracking_answer :: "int \<Rightarrow> string \<Rightarrow> string \<Rightarrow> outcome" where
  "tracking_answer c msg tid =
     Answer c (JObj [(''status'', JStr ''FAILED''), (''error'', JStr msg), (''trackingId'', JStr tid)])"

definition logShieldErrorInterceptor :: "(string \<Rightarrow> string) \<Rightarrow> string \<Rightarrow> thrown \<Rightarrow> outcome" where
  "logShieldErrorInterceptor tok uuid err =
     (case getConfidentialErrorPayload err of
        Some p \<Rightarrow> tracking_answer (ep_statusCode p) ''INTERNAL_ERROR'' (ep_trackingId p)
      | None \<Rightarrow> (let s = sanitizeError tok uuid err in tracking_answer 500 (se_message s) (se_trackingId s)))"


section \<open>The ring keeps the last entries\<close>

definition put_entries :: "(env \<times> string \<times> logval) list \<Rightarrow> log_shield \<Rightarrow> log_shield" where
  "put_entries ws s = fold (\<lambda>(e, tid, v). putCleartext e tid v) ws s"

definition ring_entries :: "(env \<times> string \<times> logval) list \<Rightarrow> ring_entry list" where
  "ring_entries ws = map (\<lambda>(e, tid, v). \<lparr>rg_trackingId = tid, rg_ts = nowIso e, rg_cleartext = v\<rparr>) ws"

lemma putCleartext_ring:
  "ls_capacity s = Some c \<Longrightarrow> 0 \<le> c \<Longrightarrow> int (length (ls_ring s)) \<le> c \<Longrightarrow>
     ls_capacity (putCleartext e tid v s) = Some c
     \<and> ls_ring (putCleartext e tid v s)
         = drop (Suc (length (ls_ring s)) - nat c) (ls_ring s @ [\<lparr>rg_trackingId = tid, rg_ts = nowIso e, rg_cleartext = v\<rparr>])"
  by (cases "int (length (ls_ring s)) = c") (auto simp: putCleartext_def Let_def drop_Suc simp del: drop_append)

lemma drop_window:
  "drop (Suc (length es - (length es - n)) - n) (drop (length es - n) es @ [x]) = drop (Suc (length es) - n) (es @ [x])"
proof (cases "length es < n")
  case False
  then have "drop (length es - n) es @ [x] = drop (length es - n) (es @ [x])" "Suc (length es) - n = 1 + (length es - n)"
    "Suc (length es - (length es - n)) - n = 1" by simp_all
  then show ?thesis by (simp only: drop_drop)
qed simp

lemma put_entries_ring:
  assumes "ls_capacity s = Some c" "0 \<le> c" "int (length (ls_ring s)) \<le> c"
  shows "ls_capacity (put_entries ws s) = Some c
       \<and> ls_ring (put_entries ws s) = drop (length (ls_ring s @ ring_entries ws) - nat c) (ls_ring s @ ring_entries ws)"
proof (induction ws rule: rev_induct)
  case Nil
  have "length (ls_ring s) - nat c = 0" using assms by simp
  then show ?case using assms by (simp add: put_entries_def ring_entries_def)
next
  case (snoc w ws)
  obtain e tid v where w: "w = (e, tid, v)" by (cases w)
  let ?s = "put_entries ws s" and ?es = "ls_ring s @ ring_entries ws"
  have step: "put_entries (ws @ [w]) s = putCleartext e tid v ?s"
    "ring_entries (ws @ [w]) = ring_entries ws @ [\<lparr>rg_trackingId = tid, rg_ts = nowIso e, rg_cleartext = v\<rparr>]"
    by (simp_all add: put_entries_def ring_entries_def w)
  have ring: "ls_ring ?s = drop (length ?es - nat c) ?es" and cap: "ls_capacity ?s = Some c" using snoc by auto
  have len: "length (ls_ring ?s) = length ?es - (length ?es - nat c)" unfolding ring by simp
  then have "int (length (ls_ring ?s)) \<le> c" using assms(2) by simp
  note put = putCleartext_ring [OF cap assms(2) this, of e tid v]
  then have "ls_ring (putCleartext e tid v ?s) = drop (Suc (length ?es - (length ?es - nat c)) - nat c) (drop (length ?es - nat c) ?es @
      [\<lparr>rg_trackingId = tid, rg_ts = nowIso e, rg_cleartext = v\<rparr>])"
    unfolding len unfolding ring by blast
  moreover have "length (?es @ [\<lparr>rg_trackingId = tid, rg_ts = nowIso e, rg_cleartext = v\<rparr>]) = Suc (length ?es)" by simp
  ultimately show ?case unfolding step drop_window using put by (simp only: append_assoc)
qed


section \<open>Markers in a line\<close>

definition sep_char :: "char \<Rightarrow> bool" where
  "sep_char c \<longleftrightarrow> c = CHR '':'' \<or> c = CHR ''=''"

definition sep_free :: "string \<Rightarrow> bool" where
  "sep_free s \<longleftrightarrow> list_all (\<lambda>c. \<not> sep_char c) s"

lemma sep_free_simps [simp]:
  "sep_free []" "sep_free (c # s) \<longleftrightarrow> \<not> sep_char c \<and> sep_free s" "sep_free (a @ b) \<longleftrightarrow> sep_free a \<and> sep_free b"
  by (simp_all add: sep_free_def)

lemma sep_free_drop: "sep_free s \<Longrightarrow> sep_free (drop n s)"
  unfolding sep_free_def by (metis list_all_append append_take_drop_id)

lemma sep_free_dropWhile: "sep_free s \<Longrightarrow> sep_free (dropWhile P s)"
  unfolding sep_free_def by (metis list_all_append takeWhile_dropWhile_id)

lemma sep_free_head: "sep_free t \<Longrightarrow> \<not> head_is (\<lambda>c. c = CHR '':'' \<or> c = CHR ''='') t"
  by (cases t) (simp_all add: head_is_def sep_char_def)

lemma word_char_lower [simp]: "word_char (lower_char c) \<longleftrightarrow> word_char c"
proof -
  obtain n :: nat where n: "c = char_of n" "n < 256"
    by (metis char_of_char of_char_of nat_of_char_less_256)
  then have "of_char c = n" by simp
  then show ?thesis using n(2) by (auto simp: word_char_def lower_char_def Let_def)
qed

lemma words_of_lower: "js_lower a = js_lower b \<Longrightarrow> list_all word_char a \<longleftrightarrow> list_all word_char b"
proof -
  have "list_all word_char (js_lower s) \<longleftrightarrow> list_all word_char s" for s
    by (induction s) (auto simp: js_lower_def)
  then show "js_lower a = js_lower b \<Longrightarrow> list_all word_char a \<longleftrightarrow> list_all word_char b" by metis
qed

lemma word_char_no_sep: "word_char c \<Longrightarrow> \<not> sep_char c"
  using word_char_not_special by (auto simp: sep_char_def)

lemma words_sep_free: "list_all word_char s \<Longrightarrow> sep_free s"
  by (induction s) (simp_all add: word_char_no_sep)

lemma sep_not_space [simp]: "sep_char c \<Longrightarrow> \<not> js_space c"
  by (auto simp: sep_char_def js_space_def)

lemma dropWhile_to_sep:
  assumes "sep_free a" "sep_char q" "head_is sep_char (dropWhile js_space (a @ q # b))"
  shows "list_all js_space a"
  using assms by (induction a) (auto simp: head_is_def split: if_splits)

lemma no_sep_no_match: "sep_free s \<Longrightarrow> match_marker w prev s = None"
proof -
  assume "sep_free s"
  then have "sep_free (dropWhile js_space (drop (length w) s))" by (simp add: sep_free_dropWhile sep_free_drop)
  then have "\<not> head_is (\<lambda>c. c = CHR '':'' \<or> c = CHR ''='') (dropWhile js_space (drop (length w) s))"
    by (rule sep_free_head)
  then show ?thesis by (simp add: match_marker_def Let_def)
qed

text \<open>Before a separator, only the marker itself can match, and only up to the separator.\<close>

lemma match_before_sep:
  assumes "match_marker w prev (u @ q # rest) \<noteq> None" "list_all word_char w" "w \<noteq> []"
    and "sep_free u" "sep_char q" "u \<noteq> []" "\<not> js_space (last u)"
  shows "js_lower u = js_lower w"
proof -
  let ?s = "u @ q # rest" and ?n = "length w"
  have m: "js_lower (take ?n ?s) = js_lower w" "head_is sep_char (dropWhile js_space (drop ?n ?s))"
    using assms(1) by (auto simp: match_marker_def Let_def sep_char_def [abs_def] split: if_splits)
  have n: "?n \<le> length u"
  proof (rule ccontr)
    assume "\<not> ?n \<le> length u"
    then have "q \<in> set (take ?n ?s)" by (cases "?n - length u") auto
    moreover have "list_all word_char (take ?n ?s)" using words_of_lower [OF m(1)] assms(2) by simp
    ultimately have "word_char q" by (auto simp: list_all_iff)
    then show False using word_char_no_sep assms(5) by blast
  qed
  then have "list_all js_space (drop ?n u)"
    using m(2) dropWhile_to_sep [OF sep_free_drop [OF assms(4)] assms(5)] by simp
  then have "drop ?n u = []"
    using assms(6,7) by (metis last_drop last_in_set list_all_iff drop_eq_Nil linorder_not_le)
  with n m(1) show ?thesis by simp
qed

lemma replace_markers_step:
  "match_marker w prev (c # s) = None \<Longrightarrow>
     replace_markers tok l w prev (c # s) = c # replace_markers tok l w (Some c) s"
  by (subst replace_markers.simps) simp

lemma replace_sep_free: "sep_free s \<Longrightarrow> replace_markers tok l w prev s = s"
proof (induction s arbitrary: prev)
  case Nil
  have "match_marker w prev [] = None" by (rule no_sep_no_match) simp
  then show ?case by (subst replace_markers.simps) simp
next
  case (Cons c s)
  then show ?case by (subst replace_markers_step) (simp_all add: no_sep_no_match)
qed

lemma match_after_word: "word_char p \<Longrightarrow> match_marker w (Some p) s = None"
  by (simp add: match_marker_def Let_def)

lemma replace_after_word:
  assumes "word_char p" "list_all word_char u"
  shows "replace_markers tok l w (Some p) (u @ q # rest) = u @ q # replace_markers tok l w (Some q) rest"
  using assms by (induction u arbitrary: p) (simp_all add: replace_markers_step match_after_word)

text \<open>A text up to its separator is passed over, unless the marker is what stands before it.\<close>

lemma replace_passes:
  assumes "list_all word_char w" "w \<noteq> []" "sep_free u" "sep_char q" "u \<noteq> []" "\<not> js_space (last u)"
    and "\<And>a b. u = a @ b \<Longrightarrow> js_lower b \<noteq> js_lower w \<or> (a \<noteq> [] \<and> word_char (last a)) \<or> (a = [] \<and> prev = Some p \<and> word_char p)"
  shows "replace_markers tok l w prev (u @ q # rest) = u @ q # replace_markers tok l w (Some q) rest"
  using assms(3,5-)
proof (induction u arbitrary: prev p)
  case (Cons c u)
  have "match_marker w prev ((c # u) @ q # rest) = None"
  proof (cases "prev = Some p \<and> word_char p")
    case True
    then show ?thesis by (simp add: match_after_word)
  next
    case False
    then have "js_lower (c # u) \<noteq> js_lower w" using Cons.prems(4) [of "[]" "c # u"] by auto
    then show ?thesis using match_before_sep [OF _ assms(1,2) Cons.prems(1) assms(4)] Cons.prems(2,3) by blast
  qed
  then have step: "replace_markers tok l w prev ((c # u) @ q # rest) = c # replace_markers tok l w (Some c) (u @ q # rest)"
    by (simp add: replace_markers_step)
  show ?case
  proof (cases "u = []")
    case True
    have "match_marker w (Some c) (q # rest) = None"
    proof (rule ccontr)
      assume "match_marker w (Some c) (q # rest) \<noteq> None"
      then have "js_lower (take (length w) (q # rest)) = js_lower w"
        by (auto simp: match_marker_def Let_def split: if_splits)
      then have "list_all word_char (take (length w) (q # rest))" using words_of_lower assms(1) by blast
      then have "word_char q" using assms(2) by (cases w) auto
      then show False using word_char_no_sep assms(4) by blast
    qed
    then show ?thesis unfolding step using True by (simp add: replace_markers_step)
  next
    case False
    have "replace_markers tok l w (Some c) (u @ q # rest) = u @ q # replace_markers tok l w (Some q) rest"
    proof (rule Cons.IH [where p = c])
      fix a b assume "u = a @ b"
      then show "js_lower b \<noteq> js_lower w \<or> (a \<noteq> [] \<and> word_char (last a)) \<or> (a = [] \<and> Some c = Some c \<and> word_char c)"
        using Cons.prems(4) [of "c # a" b] by (cases "a = []") auto
    qed (use Cons.prems False in auto)
    then show ?thesis unfolding step by simp
  qed
qed simp


lemma word_suffix:
  assumes "pre = [] \<or> \<not> word_char (last pre)" "list_all word_char m" "list_all word_char w"
    and "js_lower m \<noteq> js_lower w" "m \<noteq> []" "pre @ m = a @ b" "js_lower b = js_lower w" "w \<noteq> []"
  shows "a \<noteq> [] \<and> word_char (last a)"
proof -
  have b: "list_all word_char b" using words_of_lower [OF assms(7)] assms(3) by simp
  from assms(6) consider us where "pre = a @ us" "us @ m = b" | us where "pre @ us = a" "m = us @ b"
    by (auto simp: append_eq_append_conv2)
  then show ?thesis
  proof cases
    case 1
    have "us = []"
    proof (rule ccontr)
      assume "us \<noteq> []"
      then have "last pre = last us" "last us \<in> set b" "pre \<noteq> []" using 1 by auto
      then show False using assms(1) b by (auto simp: list_all_iff)
    qed
    then show ?thesis using 1 assms(4,7) by simp
  next
    case 2
    have "us \<noteq> []" using 2 assms(4,7) by auto
    then have "last a = last us" "last us \<in> set m" using 2 by auto
    then show ?thesis using 2 \<open>us \<noteq> []\<close> assms(2) by (auto simp: list_all_iff)
  qed
qed

lemma replace_other_marker:
  assumes "pre = [] \<or> \<not> word_char (last pre)" "sep_free pre" "list_all word_char m" "m \<noteq> []"
    and "list_all word_char w" "w \<noteq> []" "js_lower m \<noteq> js_lower w" "sep_char q" "sep_free rest"
  shows "replace_markers tok l w None (pre @ m @ q # rest) = pre @ m @ q # rest"
proof -
  have m: "sep_free m" using assms(3) by (rule words_sep_free)
  have "last m \<in> set m" using assms(4) by simp
  then have "\<not> js_space (last m)" using assms(3) word_char_not_special by (auto simp: list_all_iff)
  then have "replace_markers tok l w None ((pre @ m) @ q # rest) = (pre @ m) @ q # replace_markers tok l w (Some q) rest"
    using assms m word_suffix [OF assms(1,3,5,7,4)] by (intro replace_passes [where p = "CHR ''a''"]) auto
  then show ?thesis using assms(9) by (simp add: replace_sep_free)
qed

lemma match_marker_here:
  assumes "\<not> (case prev of None \<Rightarrow> False | Some p \<Rightarrow> word_char p)" "list_all value_char v" "v \<noteq> []" "sep_char q"
    and "post = [] \<or> \<not> value_char (hd post)"
  shows "match_marker w prev (w @ q # v @ post) = Some (v, post)"
proof -
  have v: "dropWhile js_space (v @ post) = v @ post" using assms(2,3) by (cases v) (auto simp: value_char_def)
  have "takeWhile value_char (v @ post) = v" "dropWhile value_char (v @ post) = post"
    using assms(2,5) by (cases post; simp add: list_all_iff takeWhile_append dropWhile_append)+
  then show ?thesis using assms(1,3,4) v
    by (auto simp: match_marker_def Let_def head_is_def sep_char_def word_char_def js_space_def)
qed

lemma replace_marker_here:
  assumes "pre = [] \<or> \<not> word_char (last pre)" "sep_free pre" "list_all word_char w" "w \<noteq> []" "sep_char q"
    and "list_all value_char v" "v \<noteq> []" "post = [] \<or> \<not> value_char (hd post)" "sep_free post"
    and "pre \<noteq> [] \<or> \<not> (case prev of None \<Rightarrow> False | Some p \<Rightarrow> word_char p)"
  shows "replace_markers tok l w prev (pre @ w @ q # v @ post) = pre @ l @ ''=[REDACTED_'' @ tok v @ '']'' @ post"
  using assms(1,2,10)
proof (induction pre arbitrary: prev)
  case Nil
  then show ?case using assms match_marker_here [of prev v q post w]
    by (subst replace_markers.simps) (simp add: replace_sep_free)
next
  case (Cons c pre)
  have w: "sep_free w" using assms(3) by (rule words_sep_free)
  have "last w \<in> set w" using assms(4) by simp
  then have lw: "\<not> js_space (last w)" using assms(3) word_char_not_special by (auto simp: list_all_iff)
  have "match_marker w prev (((c # pre) @ w) @ q # v @ post) = None"
  proof (rule ccontr)
    assume "match_marker w prev (((c # pre) @ w) @ q # v @ post) \<noteq> None"
    then have "js_lower ((c # pre) @ w) = js_lower w"
      using match_before_sep [OF _ assms(3,4)] Cons.prems w assms(4,5) lw by simp
    then have "length ((c # pre) @ w) = length w" by (metis length_js_lower)
    then show False by simp
  qed
  then have "replace_markers tok l w prev ((c # pre) @ w @ q # v @ post) = c # replace_markers tok l w (Some c) (pre @ w @ q # v @ post)"
    by (simp add: replace_markers_step)
  also have "\<dots> = c # pre @ l @ ''=[REDACTED_'' @ tok v @ '']'' @ post"
    using Cons by (cases "pre = []") auto
  finally show ?case by simp
qed

section \<open>What reaches the log\<close>

text \<open>The marked words whose label is the word itself.\<close>

definition marked_words :: "string list" where
  "marked_words = [''commitment'', ''transactionId'', ''signature'']"

lemma word_char_marks [simp]:
  "list_all word_char ''commitment''" "list_all word_char ''transactionId''" "list_all word_char ''transaction_id''"
  "list_all word_char ''signature''"
  by (simp_all add: word_char_def)

lemma lower_marks [simp]:
  "js_lower ''commitment'' = ''commitment''" "js_lower ''transactionId'' = ''transactionid''"
  "js_lower ''transaction_id'' = ''transaction_id''" "js_lower ''signature'' = ''signature''"
  by code_simp+

lemma hex_values: "list_all hex_digit_ci v \<Longrightarrow> list_all value_char v \<and> sep_free v"
  by (auto simp: list_all_iff sep_free_def value_char_def word_char_no_sep word_char_not_special)

lemma redacted_sep_free: "list_all hex_digit_ci (tok v) \<Longrightarrow> sep_free (redacted tok v)"
  by (simp add: redacted_def hex_values sep_char_def)

text \<open>
  In a log line that carries one marked secret, written with a colon or an equal sign, exactly the secret is
  replaced by its token, and the rest of the line stays as it is.
\<close>

theorem marked_secret_is_redacted:
  assumes "m \<in> set marked_words" "list_all hex_digit_ci v" "v \<noteq> []" "list_all hex_digit_ci (tok v)"
    and "pre = [] \<or> \<not> word_char (last pre)" "sep_free pre" "post = [] \<or> \<not> value_char (hd post)" "sep_free post"
    and "q = CHR '':'' \<or> q = CHR ''=''"
  shows "redactString tok (pre @ m @ q # v @ post) = pre @ m @ ''=[REDACTED_'' @ tok v @ '']'' @ post"
proof -
  have q: "sep_char q" "sep_char CHR ''=''" using assms(9) by (auto simp: sep_char_def)
  have v: "list_all value_char v" "sep_free (v @ post)" "sep_free (redacted tok v @ post)"
    using hex_values [OF assms(2)] redacted_sep_free [of tok v, OF assms(4)] assms(8) by simp_all
  have m: "list_all word_char m" "m \<noteq> []" using assms(1) by (auto simp: marked_words_def word_char_def)
  note other = replace_other_marker [OF assms(5,6) m]
  have untouched: "replace_markers tok l w None (pre @ m @ q # v @ post) = pre @ m @ q # v @ post"
    if "list_all word_char w" "w \<noteq> []" "js_lower m \<noteq> js_lower w" for l w
    using other [OF that q(1) v(2)] .
  have after: "replace_markers tok l w None (pre @ m @ CHR ''='' # redacted tok v @ post) = pre @ m @ CHR ''='' # redacted tok v @ post"
    if "list_all word_char w" "w \<noteq> []" "js_lower m \<noteq> js_lower w" for l w
    using other [OF that q(2) v(3)] .
  have found: "replace_markers tok m m None (pre @ m @ q # v @ post) = pre @ m @ CHR ''='' # redacted tok v @ post"
    using replace_marker_here [OF assms(5,6) m q(1) v(1) assms(3,7,8), of None tok m] by (simp add: redacted_def)
  have result: "pre @ m @ CHR ''='' # redacted tok v @ post = pre @ m @ ''=[REDACTED_'' @ tok v @ '']'' @ post"
    by (simp add: redacted_def)
  from assms(1) consider "m = ''commitment''" | "m = ''transactionId''" | "m = ''signature''" by (auto simp: marked_words_def)
  then show ?thesis
  proof cases
    case 1
    then show ?thesis unfolding redactString_def log_patterns_def result [symmetric]
      using found after by (simp add: word_char_def)
  next
    case 2
    then show ?thesis unfolding redactString_def log_patterns_def result [symmetric]
      using found untouched after by (simp add: word_char_def)
  next
    case 3
    then show ?thesis unfolding redactString_def log_patterns_def result [symmetric]
      using found untouched after by (simp add: word_char_def)
  qed
qed


text \<open>
  The same secret printed by \<^verbatim>\<open>JSON.stringify\<close> is not redacted at all: the quote between the word and the
  colon keeps every pattern from matching, and the line goes out with the secret in it.
\<close>

theorem json_secret_is_not_redacted:
  assumes "m \<in> set marked_words" "list_all hex_digit_ci v"
  shows "redactString tok (json_stringify (JObj [(m, JStr v)])) = ''{'' @ js_quote m @ '':'' @ js_quote v @ ''}''"
proof -
  let ?u = "CHR ''{'' # js_quote m" and ?rest = "js_quote v @ ''}''"
  have plain: "list_all word_char s \<Longrightarrow> concat (map quote_char s) = s" for s
    by (induction s) (auto simp: quote_char_def word_char_def Let_def)
  have m: "list_all word_char m" using assms(1) by (auto simp: marked_words_def word_char_def)
  have v: "list_all word_char v" using assms(2) by (auto simp: list_all_iff)
  have dq: "\<not> sep_char dquote" "\<not> js_space dquote" "\<not> word_char dquote"
    by (simp_all add: dquote_def sep_char_def char_eq_code js_space_def word_char_def Let_def)
  have free: "sep_free ?u" "sep_free ?rest" "\<not> js_space (last ?u)" "\<not> word_char (last ?u)"
  proof -
    have "sep_free m" "sep_free v" using m v by (simp_all add: words_sep_free)
    then show "sep_free ?u" "sep_free ?rest" "\<not> js_space (last ?u)" "\<not> word_char (last ?u)"
      using m v dq by (simp_all add: js_quote_def plain) (simp_all add: sep_char_def)
  qed
  have pass: "replace_markers tok l w None (?u @ CHR '':'' # ?rest) = ?u @ CHR '':'' # ?rest"
    if "list_all word_char w" "w \<noteq> []" for l w
  proof -
    have "replace_markers tok l w None (?u @ CHR '':'' # ?rest) = ?u @ CHR '':'' # replace_markers tok l w (Some (CHR '':'')) ?rest"
    proof (rule replace_passes [OF that free(1) _ _ free(3), where p = "CHR ''a''"])
      fix a b assume ab: "?u = a @ b"
      show "js_lower b \<noteq> js_lower w \<or> a \<noteq> [] \<and> word_char (last a) \<or> a = [] \<and> None = Some CHR ''a'' \<and> word_char CHR ''a''"
      proof (rule disjI1, rule notI)
        assume same: "js_lower b = js_lower w"
        then have "b \<noteq> []" using that(2) by (metis length_0_conv length_js_lower)
        then have "last ?u = last b" "last b \<in> set b" using ab by simp_all
        then show False using words_of_lower [OF same] that(1) free(4) by (auto simp: list_all_iff)
      qed
    qed (simp_all add: sep_char_def)
    then show ?thesis using free(2) by (simp add: replace_sep_free)
  qed
  have printed: "json_stringify (JObj [(m, JStr v)]) = ?u @ CHR '':'' # ?rest" by simp
  show ?thesis unfolding printed redactString_def log_patterns_def
    using pass by (simp add: word_char_def)
qed

section \<open>No information flows from the secrets\<close>

text \<open>
  Two values look alike when they differ at most in the secrets: in members with a sensitive key whose texts
  have the same token or which are both no texts, in buffers with the same token, and in stack traces.
\<close>

definition secrets_alike :: "(string \<Rightarrow> string) \<Rightarrow> logval \<Rightarrow> logval \<Rightarrow> bool" where
  "secrets_alike tok v w \<longleftrightarrow>
     (\<not> is_lstr v \<and> \<not> is_lstr w) \<or> (\<exists>s t. v = LStr s \<and> w = LStr t \<and> tok s = tok t)"

inductive looks_alike :: "(string \<Rightarrow> string) \<Rightarrow> logval \<Rightarrow> logval \<Rightarrow> bool" for tok where
  same: "looks_alike tok v v"
| buffers: "tok (bytes_text a) = tok (bytes_text b) \<Longrightarrow> looks_alike tok (LBuf a) (LBuf b)"
| arrays: "list_all2 (looks_alike tok) vs ws \<Longrightarrow> looks_alike tok (LArr vs) (LArr ws)"
| objects: "list_all2 (\<lambda>p q. fst p = fst q \<and>
      (isLikelySensitiveKey (fst p) \<and> secrets_alike tok (snd p) (snd q)
       \<or> \<not> isLikelySensitiveKey (fst p) \<and> (js_lower (fst p) = ''stack'' \<and> is_lstr (snd p) \<and> is_lstr (snd q)
                                     \<or> is_lstr (snd p) = is_lstr (snd q) \<and> looks_alike tok (snd p) (snd q)))) ms ns
     \<Longrightarrow> looks_alike tok (LObj ms) (LObj ns)"

lemma secrets_alike_redacted: "secrets_alike tok v w \<Longrightarrow> redact_secret tok v = redact_secret tok w"
  by (cases v; cases w) (auto simp: secrets_alike_def redact_secret_def redacted_def)


text \<open>
  The ring never holds more cleartexts than its capacity, and what it holds is always the last ones.
\<close>

theorem ring_keeps_last:
  assumes "ls_capacity s = Some c" "0 \<le> c" "ls_ring s = []"
  shows "ls_ring (put_entries ws s) = drop (length ws - nat c) (ring_entries ws)
       \<and> int (length (ls_ring (put_entries ws s))) \<le> c"
proof -
  have "ls_ring (put_entries ws s) = drop (length ws - nat c) (ring_entries ws)"
    using put_entries_ring [of s c ws] assms by (simp add: ring_entries_def)
  then show ?thesis using assms(2) by (simp add: ring_entries_def)
qed

text \<open>
  Whatever a handler throws, the client learns a status and a tracking identifier: the answer is the same
  for all errors but the confidential ones, which bring their own status and identifier.
\<close>

theorem interceptor_reveals_tracking_only:
  "logShieldErrorInterceptor tok uuid err =
     (case err of Confidential ce d \<Rightarrow> tracking_answer (ce_statusCode ce) ''INTERNAL_ERROR'' (ce_trackingId ce)
      | _ \<Rightarrow> tracking_answer 500 ''INTERNAL_ERROR'' uuid)"
  by (cases err) (simp_all add: logShieldErrorInterceptor_def getConfidentialErrorPayload_def sanitizeError_def Let_def)

section \<open>Concrete instances\<close>

definition sample_token :: "string \<Rightarrow> string" where
  "sample_token s = replicate 64 CHR ''0''"

theorem marked_secret_is_redacted_witness:
  "redactString sample_token ''bad signature: ''  = ''bad signature: '' \<and>
   redactString sample_token (''bad '' @ ''signature'' @ CHR '':'' # ''ab12'' @ '' end'')
     = ''bad '' @ ''signature'' @ ''=[REDACTED_'' @ sample_token ''ab12'' @ '']'' @ '' end''"
proof
  have p: "sep_free ''bad ''" "sep_free '' end''" "\<not> word_char (last ''bad '')" "\<not> value_char (hd '' end'')" "list_all hex_digit_ci ''ab12''"
    "list_all hex_digit_ci (sample_token ''ab12'')"
    by (simp_all add: sep_free_def sep_char_def word_char_def value_char_def js_space_def hex_digit_ci_def sample_token_def list_all_iff)
  show "redactString sample_token (''bad '' @ ''signature'' @ CHR '':'' # ''ab12'' @ '' end'')
     = ''bad '' @ ''signature'' @ ''=[REDACTED_'' @ sample_token ''ab12'' @ '']'' @ '' end''"
    by (rule marked_secret_is_redacted) (use p in \<open>simp_all add: marked_words_def\<close>)
  show "redactString sample_token ''bad signature: '' = ''bad signature: ''" by code_simp
qed

theorem json_secret_is_not_redacted_witness:
  "redactString sample_token (json_stringify (JObj [(''signature'', JStr ''ab12'')])) = ''{'' @ js_quote ''signature'' @ '':'' @ js_quote ''ab12'' @ ''}''"
  by (rule json_secret_is_not_redacted) (simp_all add: marked_words_def hex_digit_ci_def)


theorem ring_keeps_last_witness:
  "ls_ring (put_entries [(\<lparr>nowMs = 0, nowIso = ''t'', diskOk = (\<lambda>f. True)\<rparr>, ''a'', LNull), (\<lparr>nowMs = 1, nowIso = ''u'', diskOk = (\<lambda>f. True)\<rparr>, ''b'', LNum 1)]
     \<lparr>ls_salt = ''s'', ls_ring = [], ls_capacity = Some 1\<rparr>) = [\<lparr>rg_trackingId = ''b'', rg_ts = ''u'', rg_cleartext = LNum 1\<rparr>]"
  using ring_keeps_last [of "\<lparr>ls_salt = ''s'', ls_ring = [], ls_capacity = Some 1\<rparr>" 1] by (simp add: ring_entries_def)

end
