(* ===== verification/Bootstrap.thy ===== *)
theory Bootstrap
  imports Router LogShield
begin

text \<open>
  The start-up of \<^verbatim>\<open>index.ts\<close>: the bootstrapper with its states, the volatile key buffer, the two
  escrow routes it serves and the fail-closed switch. A transaction id is a text. The HMAC, the
  numbers read from the environment and the answer of the listening socket are parameters.
\<close>

section \<open>State\<close>

datatype BootstrapState =
    NOT_STARTED | ATTESTATION_VERIFIED | SEALING_INITIALIZED | MERKLE_ROOT_BUILT | MIDDLEWARE_CONFIGURED
  | LISTENING | FAILED_CLOSED

fun state_name :: "BootstrapState \<Rightarrow> string" where
  "state_name NOT_STARTED = ''NOT_STARTED''"
| "state_name ATTESTATION_VERIFIED = ''ATTESTATION_VERIFIED''"
| "state_name SEALING_INITIALIZED = ''SEALING_INITIALIZED''"
| "state_name MERKLE_ROOT_BUILT = ''MERKLE_ROOT_BUILT''"
| "state_name MIDDLEWARE_CONFIGURED = ''MIDDLEWARE_CONFIGURED''"
| "state_name LISTENING = ''LISTENING''"
| "state_name FAILED_CLOSED = ''FAILED_CLOSED''"

record enclave_identity =
  ei_pcr0 :: string
  ei_mrsigner :: string
  ei_mrenclave :: string

record bootstrap_config =
  bs_identity :: enclave_identity
  bs_cpuMasterSecret :: string
  bs_port :: "int option"
  bs_antiDosDifficulty :: int
  bs_bftQuorumThreshold :: int
  bs_ledgerStorePath :: string

definition default_config :: "(string \<Rightarrow> string option) \<Rightarrow> (string \<Rightarrow> int option) \<Rightarrow> bootstrap_config" where
  "default_config pe parseInt =
     (let or_else = (\<lambda>k d. case pe k of None \<Rightarrow> d | Some s \<Rightarrow> if s = [] then d else s) in
      \<lparr>bs_identity = \<lparr>ei_pcr0 = replicate 70 CHR ''0'', ei_mrsigner = replicate 43 CHR ''A'' @ ''='',
                      ei_mrenclave = replicate 43 CHR ''B'' @ ''=''\<rparr>,
       bs_cpuMasterSecret = or_else ''CPU_MASTER_SECRET'' ''default-dev-secret-do-not-use-in-prod'',
       bs_port = parseInt (or_else ''PORT'' ''8080''), bs_antiDosDifficulty = 1000, bs_bftQuorumThreshold = 3,
       bs_ledgerStorePath = ''../data/ledger-store.json''\<rparr>)"

record bootstrapper =
  bo_state :: BootstrapState
  bo_config :: bootstrap_config
  bo_sealingEngine :: "(string \<times> string \<times> string) option"
  bo_accumulator :: bool
  bo_app :: bool

text \<open>
  The process: the singleton, the volatile key buffer (None once it is zeroed), the store with its
  sealing context, and the engine of the anti-DoS middleware.
\<close>

record process =
  pr_instance :: "bootstrapper option"
  pr_keys :: "nat list option"
  pr_node :: node
  pr_sealing :: "(string \<times> string \<times> string) option"
  pr_puzzle :: puzzle_engine

definition zero_keys :: "process \<Rightarrow> process" where
  "zero_keys m = m\<lparr>pr_keys := None\<rparr>"

definition set_keys :: "string \<Rightarrow> process \<Rightarrow> process" where
  "set_keys d m = (zero_keys m)\<lparr>pr_keys := Some (utf8_bytes d)\<rparr>"

section \<open>The steps of the start\<close>

text \<open>The configuration given on the first call only; its members override the defaults.\<close>

definition new_bootstrapper :: "bootstrap_config \<Rightarrow> bootstrapper" where
  "new_bootstrapper cfg =
     \<lparr>bo_state = NOT_STARTED, bo_config = cfg, bo_sealingEngine = None, bo_accumulator = False, bo_app = False\<rparr>"

definition getInstance :: "bootstrap_config \<Rightarrow> process \<Rightarrow> process \<times> bootstrapper" where
  "getInstance cfg m =
     (case pr_instance m of
        Some b \<Rightarrow> (m, b)
      | None \<Rightarrow> (m\<lparr>pr_instance := Some (new_bootstrapper cfg)\<rparr>, new_bootstrapper cfg))"

definition put_boot :: "bootstrapper \<Rightarrow> process \<Rightarrow> process" where
  "put_boot b m = m\<lparr>pr_instance := Some b\<rparr>"

definition verifyAttestation :: "env \<Rightarrow> bootstrapper \<Rightarrow> bootstrapper \<times> enclave_identity \<times> string" where
  "verifyAttestation e b = (b\<lparr>bo_state := ATTESTATION_VERIFIED\<rparr>, bs_identity (bo_config b), nowIso e)"

definition deriveSealingKey :: "(nat list \<Rightarrow> string \<Rightarrow> string) \<Rightarrow> bootstrapper \<Rightarrow> process \<Rightarrow> string \<Rightarrow> string" where
  "deriveSealingKey hm b m keyId =
     hm (case pr_keys m of None \<Rightarrow> [] | Some k \<Rightarrow> k) (keyId @ ei_mrenclave (bs_identity (bo_config b)))"

definition sealing_config :: "bootstrap_config \<Rightarrow> string \<times> string \<times> string" where
  "sealing_config c = (bs_cpuMasterSecret c, ei_mrsigner (bs_identity c), ei_mrenclave (bs_identity c))"

definition initializeSealing ::
  "(nat list \<Rightarrow> string \<Rightarrow> string) \<Rightarrow> string \<Rightarrow> bootstrapper \<Rightarrow> process \<Rightarrow> process \<times> bootstrapper" where
  "initializeSealing hm mrenclave b m =
     (let b1 = b\<lparr>bo_state := SEALING_INITIALIZED, bo_sealingEngine := Some (sealing_config (bo_config b))\<rparr>;
          m1 = set_keys (bs_cpuMasterSecret (bo_config b)) m;
          dbKey = deriveSealingKey hm b1 m1 (''db-sealing-'' @ mrenclave)
      in (put_boot b1 (m1\<lparr>pr_sealing := Some (sealing_config (bo_config b))\<rparr>), b1))"

definition buildMerkleRoot ::
  "hashfn \<Rightarrow> env \<Rightarrow> bootstrapper \<Rightarrow> process \<Rightarrow> process \<times> bootstrapper \<times> string js_result" where
  "buildMerkleRoot h e b m =
     (let b1 = b\<lparr>bo_state := MERKLE_ROOT_BUILT, bo_accumulator := True\<rparr>;
          (d', acc, answer) = getRootHash h e (nd_db (pr_node m)) new_accumulator
      in (put_boot b1 (m\<lparr>pr_node := pr_node m\<lparr>nd_db := d'\<rparr>\<rparr>), b1, answer))"

definition configureMiddleware :: "bootstrapper \<Rightarrow> process \<Rightarrow> process \<times> bootstrapper" where
  "configureMiddleware b m =
     (let b1 = b\<lparr>bo_state := MIDDLEWARE_CONFIGURED, bo_app := True\<rparr> in (put_boot b1 m, b1))"

definition failClosed :: "bootstrapper \<Rightarrow> process \<Rightarrow> process" where
  "failClosed b m =
     (if bo_state b = FAILED_CLOSED then m
      else if bo_state b = NOT_STARTED then put_boot (b\<lparr>bo_state := FAILED_CLOSED\<rparr>) m
      else put_boot (b\<lparr>bo_state := FAILED_CLOSED\<rparr>) (zero_keys m))"

text \<open>The socket answers with its address, or with the error that fails the start.\<close>

definition listen :: "string js_result \<Rightarrow> bootstrapper \<Rightarrow> process \<Rightarrow> process \<times> string js_result" where
  "listen socket b m =
     (if \<not> bo_app b then (m, Inl (JsError ''Middleware not configured''))
      else let b1 = b\<lparr>bo_state := LISTENING\<rparr> in
        (case socket of
           Inr addr \<Rightarrow> (put_boot b1 m, Inr addr)
         | Inl err \<Rightarrow> (failClosed b1 (put_boot b1 m), Inl err)))"

definition fail_current :: "process \<Rightarrow> process" where
  "fail_current m = (case pr_instance m of None \<Rightarrow> m | Some b \<Rightarrow> failClosed b m)"

definition bootstrap ::
  "hashfn \<Rightarrow> (nat list \<Rightarrow> string \<Rightarrow> string) \<Rightarrow> env \<Rightarrow> string js_result \<Rightarrow> bootstrap_config \<Rightarrow> process
     \<Rightarrow> process \<times> unit js_result" where
  "bootstrap h hm e socket cfg m =
     (let (m0, b0) = getInstance cfg m;
          (b1, att, ts) = verifyAttestation e b0;
          (m2, b2) = initializeSealing hm (ei_mrenclave (bs_identity (bo_config b1))) b1 (put_boot b1 m0);
          (m3, b3, root) = buildMerkleRoot h e b2 m2
      in case root of
           Inl err \<Rightarrow> (failClosed b3 m3, Inl err)
         | Inr r \<Rightarrow>
             let (m4, b4) = configureMiddleware b3 m3 in
             (case listen socket b4 m4 of
                (m5, Inl err) \<Rightarrow> (fail_current m5, Inl err)
              | (m5, Inr addr) \<Rightarrow> (m5, Inr ())))"

definition resetInstance :: "process \<Rightarrow> process" where
  "resetInstance m = (fail_current m)\<lparr>pr_instance := None\<rparr>"

definition shutdown :: "process \<Rightarrow> process" where
  "shutdown m = zero_keys (resetInstance m)"

section \<open>The routes\<close>

record consensus_proposal =
  cp_txId :: string
  cp_proposalCommitment :: string
  cp_consensusTerm :: int

definition createConsensusProposal :: "hashfn \<Rightarrow> env \<Rightarrow> jsval \<Rightarrow> consensus_proposal" where
  "createConsensusProposal h e data =
     \<lparr>cp_txId = js_String (member data ''transactionId''), cp_proposalCommitment = h (json_stringify data),
      cp_consensusTerm = nowMs e\<rparr>"

definition executeBftVerification :: "bootstrap_config \<Rightarrow> consensus_proposal \<Rightarrow> bool \<times> int \<times> int" where
  "executeBftVerification c p = (let required = bs_bftQuorumThreshold c in (True, required, required))"

definition submit_record :: "hashfn \<Rightarrow> env \<Rightarrow> jsval \<Rightarrow> EscrowRecord" where
  "submit_record h e body =
     \<lparr>transactionId = the_str (member body ''transactionId''), escrowRecordLeafHash = h (json_stringify body), signature = [],
      status = LOCKED, validAfterMs = nowMs e, validUntilMs = nowMs e + 86400000, timestamp = nowIso e\<rparr>"

definition internal_failure :: outcome where
  "internal_failure = Answer 500 (JObj [(''status'', JStr ''FAILED''), (''trackingId'', JUndefined)])"

text \<open>The errors the store throws are no confidential errors: the answer has no tracking id.\<close>

definition handleEscrowSubmit ::
  "hashfn \<Rightarrow> env \<Rightarrow> (broadcast_request \<Rightarrow> fetch_result) \<Rightarrow> bootstrap_config \<Rightarrow> jsval \<Rightarrow> process handler" where
  "handleEscrowSubmit h e bnet c body m =
     (if body = JUndefined \<or> body = JNull then (m, internal_failure)
      else if \<not> truthy (member body ''transactionId'') \<or> \<not> truthy (member body ''amount'') \<or> \<not> truthy (member body ''recipient'')
      then (m, failed 400 ''MISSING_REQUIRED_FIELDS'')
      else
        let proposal = createConsensusProposal h e body; (ok, quorum, required) = executeBftVerification c proposal
        in if \<not> ok then (m, failed 400 ''BFT_CONSENSUS_NOT_REACHED'')
           else (case saveRecord h e bnet (submit_record h e body) (pr_node m) of
                   (nd', Inl err) \<Rightarrow> (m\<lparr>pr_node := nd'\<rparr>, internal_failure)
                 | (nd', Inr u) \<Rightarrow>
                     (m\<lparr>pr_node := nd'\<rparr>,
                      Answer 200 (JObj [(''status'', JStr ''COMMITTED''), (''transactionId'', member body ''transactionId''),
                        (''consensusTerm'', JNum (cp_consensusTerm proposal))]))))"

definition handleEscrowQuery :: "env \<Rightarrow> string \<Rightarrow> process handler" where
  "handleEscrowQuery e tid m =
     (let (d', found) = getRecord e tid (nd_db (pr_node m)); m' = m\<lparr>pr_node := pr_node m\<lparr>nd_db := d'\<rparr>\<rparr>
      in (m', case found of
                None \<Rightarrow> Answer 404 (JObj [(''status'', JStr ''NOT_FOUND''), (''transactionId'', JStr tid)])
              | Some r \<Rightarrow> Answer 200 (JObj [(''transactionId'', JStr (transactionId r)), (''status'', JStr (status_text (status r))),
                            (''timestamp'', JStr (timestamp r))])))"

definition health :: "env \<Rightarrow> bootstrapper \<Rightarrow> process handler" where
  "health e b m =
     (m, Answer 200 (JObj [(''status'', JStr ''UP''), (''state'', JStr (state_name (bo_state b))), (''timestamp'', JStr (nowIso e))]))"

text \<open>Every request passes the anti-DoS middleware first; here it is built before it is mounted.\<close>

definition guard_dos :: "hashfn \<Rightarrow> (string \<Rightarrow> jsval option) \<Rightarrow> env \<Rightarrow> string \<Rightarrow> request \<Rightarrow> process handler" where
  "guard_dos h parse e seed rq m =
     (let (p', out) = antiDosChallenge h parse e seed rq (pr_puzzle m) in (m\<lparr>pr_puzzle := p'\<rparr>, out))"

definition submit_route ::
  "hashfn \<Rightarrow> (string \<Rightarrow> jsval option) \<Rightarrow> env \<Rightarrow> string \<Rightarrow> (broadcast_request \<Rightarrow> fetch_result) \<Rightarrow> bootstrap_config \<Rightarrow> request
     \<Rightarrow> process handler" where
  "submit_route h parse e seed bnet c rq =
     run_chain [guard_dos h parse e seed rq, handleEscrowSubmit h e bnet c (rq_body rq)]"

definition query_route ::
  "hashfn \<Rightarrow> (string \<Rightarrow> jsval option) \<Rightarrow> env \<Rightarrow> string \<Rightarrow> request \<Rightarrow> string \<Rightarrow> process handler" where
  "query_route h parse e seed rq tid = run_chain [guard_dos h parse e seed rq, handleEscrowQuery e tid]"


section \<open>The life of a process\<close>

inductive process_step :: "hashfn \<Rightarrow> (nat list \<Rightarrow> string \<Rightarrow> string) \<Rightarrow> process \<Rightarrow> process \<Rightarrow> bool" for h hm where
  start: "process_step h hm m (fst (bootstrap h hm e socket cfg m))"
| socket_error: "pr_instance m = Some b \<Longrightarrow> process_step h hm m (failClosed b m)"
| reset: "process_step h hm m (resetInstance m)"
| stop: "process_step h hm m (shutdown m)"
| submit: "process_step h hm m (fst (submit_route h parse e seed bnet c rq m))"
| query: "process_step h hm m (fst (query_route h parse e seed rq tid m))"

definition fresh_process :: "node \<Rightarrow> puzzle_engine \<Rightarrow> process" where
  "fresh_process nd p = \<lparr>pr_instance = None, pr_keys = Some [], pr_node = nd, pr_sealing = None, pr_puzzle = p\<rparr>"

definition listening_with_keys :: "bootstrapper \<Rightarrow> process \<Rightarrow> bool" where
  "listening_with_keys b m \<longleftrightarrow>
     bo_state b = LISTENING \<and> bo_app b \<and> pr_keys m = Some (utf8_bytes (bs_cpuMasterSecret (bo_config b)))
     \<and> pr_sealing m = Some (sealing_config (bo_config b)) \<and> bo_sealingEngine b = Some (sealing_config (bo_config b))"

definition process_ok :: "process \<Rightarrow> bool" where
  "process_ok m \<longleftrightarrow>
     (case pr_instance m of
        None \<Rightarrow> pr_keys m \<in> {None, Some []}
      | Some b \<Rightarrow> listening_with_keys b m \<or> bo_state b = FAILED_CLOSED \<and> pr_keys m = None)"

lemma put_boot_simps [simp]:
  "pr_instance (put_boot b m) = Some b" "pr_keys (put_boot b m) = pr_keys m" "pr_node (put_boot b m) = pr_node m"
  "pr_sealing (put_boot b m) = pr_sealing m" "pr_puzzle (put_boot b m) = pr_puzzle m"
  by (simp_all add: put_boot_def)

lemma zero_keys_simps [simp]:
  "pr_keys (zero_keys m) = None" "pr_instance (zero_keys m) = pr_instance m" "pr_sealing (zero_keys m) = pr_sealing m"
  "pr_node (zero_keys m) = pr_node m"
  by (simp_all add: zero_keys_def)

text \<open>The state the start has reached when the root has been built.\<close>

lemma start_prefix:
  assumes "getInstance cfg m = (m0, b0)"
    and "initializeSealing hm mr (b0\<lparr>bo_state := ATTESTATION_VERIFIED\<rparr>) (put_boot b1 m0) = (m2, b2)"
    and "buildMerkleRoot h e b2 m2 = (m3, b3, root)"
  shows "pr_instance m3 = Some b3 \<and> bo_state b3 = MERKLE_ROOT_BUILT \<and> bo_config b3 = bo_config b0
     \<and> pr_keys m3 = Some (utf8_bytes (bs_cpuMasterSecret (bo_config b0))) \<and> pr_sealing m3 = Some (sealing_config (bo_config b0))
     \<and> bo_sealingEngine b3 = Some (sealing_config (bo_config b0))
     \<and> root = snd (snd (getRootHash h e (nd_db (pr_node m)) new_accumulator))"
  using assms
  by (auto simp: getInstance_def initializeSealing_def buildMerkleRoot_def set_keys_def zero_keys_def put_boot_def Let_def
      split: prod.splits option.splits)

text \<open>The root can always be built: a ledger that cannot be read counts as empty.\<close>

lemma getRootHash_Inr: "\<exists>r. snd (snd (getRootHash h e d acc)) = Inr r"
proof -
  obtain d1 rs where r1: "getAllRecords e d = (d1, rs)" by fastforce
  obtain d2 rs2 where r2: "getAllRecords e d1 = (d2, rs2)" by fastforce
  show ?thesis
    by (simp add: getRootHash_def buildFromLedger_eq [OF r1] buildFromLedger_eq [OF r2] Let_def)
qed

text \<open>
  A start ends listening exactly when the socket opens, whatever the process went through before, a
  fail-closed stop included; otherwise it ends failed closed with the key buffer zeroed. Nothing is attested:
  no configuration and no ledger makes it fail.
\<close>

theorem bootstrap_outcome:
  assumes "bootstrap h hm e socket cfg m = (m', res)"
  shows "(res = Inr () \<longleftrightarrow> (\<exists>addr. socket = Inr addr))
     \<and> (\<exists>b. pr_instance m' = Some b \<and>
          (if res = Inr () then listening_with_keys b m' else bo_state b = FAILED_CLOSED \<and> pr_keys m' = None))"
proof -
  obtain m0 b0 where i: "getInstance cfg m = (m0, b0)" by fastforce
  let ?b1 = "b0\<lparr>bo_state := ATTESTATION_VERIFIED\<rparr>"
  obtain m2 b2 where s: "initializeSealing hm (ei_mrenclave (bs_identity (bo_config ?b1))) ?b1 (put_boot ?b1 m0) = (m2, b2)"
    by fastforce
  obtain m3 b3 root where r: "buildMerkleRoot h e b2 m2 = (m3, b3, root)" by (metis prod_cases3)
  note p = start_prefix [OF i s r]
  show ?thesis
  proof (cases root)
    case (Inl err)
    then have "(m', res) = (failClosed b3 m3, Inl err)"
      using assms i s r by (simp add: bootstrap_def verifyAttestation_def Let_def)
    then show ?thesis using p Inl getRootHash_Inr [of h e "nd_db (pr_node m)" new_accumulator] by auto
  next
    case (Inr root')
    let ?b4 = "b3\<lparr>bo_state := MIDDLEWARE_CONFIGURED, bo_app := True\<rparr>"
    have run: "(m', res) = (case listen socket ?b4 (put_boot ?b4 m3) of
        (m5, Inl err) \<Rightarrow> (fail_current m5, Inl err) | (m5, Inr addr) \<Rightarrow> (m5, Inr ()))"
      using assms i s r Inr by (simp add: bootstrap_def verifyAttestation_def configureMiddleware_def Let_def)
    show ?thesis
    proof (cases socket)
      case (Inl err)
      then show ?thesis using run p Inr by (auto simp: listen_def failClosed_def fail_current_def Let_def)
    next
      case (Inr addr)
      then show ?thesis using run p by (auto simp: listen_def listening_with_keys_def Let_def)
    qed
  qed
qed

lemma process_ok_fail:
  assumes "process_ok m" "pr_instance m = Some b"
  shows "process_ok (failClosed b m) \<and> pr_keys (failClosed b m) = None"
  using assms by (auto simp: process_ok_def failClosed_def listening_with_keys_def)

lemma process_ok_reset: "process_ok m \<Longrightarrow> process_ok (resetInstance m)"
  using process_ok_fail [of m]
  by (auto simp: resetInstance_def fail_current_def process_ok_def split: option.splits)

lemma routes_keep [simp]:
  "pr_instance (fst (submit_route h parse e seed bnet c rq m)) = pr_instance m"
  "pr_keys (fst (submit_route h parse e seed bnet c rq m)) = pr_keys m"
  "pr_sealing (fst (submit_route h parse e seed bnet c rq m)) = pr_sealing m"
  "pr_instance (fst (query_route h parse e seed rq tid m)) = pr_instance m"
  "pr_keys (fst (query_route h parse e seed rq tid m)) = pr_keys m"
  "pr_sealing (fst (query_route h parse e seed rq tid m)) = pr_sealing m"
  by (simp_all add: submit_route_def query_route_def guard_dos_def handleEscrowSubmit_def handleEscrowQuery_def
      executeBftVerification_def Let_def split: prod.splits sum.splits)

lemma process_ok_cong:
  "process_ok m \<Longrightarrow> pr_instance m' = pr_instance m \<Longrightarrow> pr_keys m' = pr_keys m \<Longrightarrow> pr_sealing m' = pr_sealing m \<Longrightarrow> process_ok m'"
  by (auto simp: process_ok_def listening_with_keys_def split: option.splits)

lemma process_ok_step: "process_step h hm m m' \<Longrightarrow> process_ok m \<Longrightarrow> process_ok m'"
proof (induction rule: process_step.induct)
  case (start m e socket cfg)
  obtain m' res where r: "bootstrap h hm e socket cfg m = (m', res)" by fastforce
  show ?case using bootstrap_outcome [OF r] r by (auto simp: process_ok_def split: if_splits)
next
  case (stop m)
  then have "process_ok (resetInstance m)" by (rule process_ok_reset)
  then show ?case by (auto simp: shutdown_def process_ok_def resetInstance_def)
qed (auto simp: process_ok_fail process_ok_reset intro: process_ok_cong)


lemma process_ok_reachable: "(process_step h hm)\<^sup>*\<^sup>* m m' \<Longrightarrow> process_ok m \<Longrightarrow> process_ok m'"
  by (induction rule: rtranclp_induct) (auto intro: process_ok_step)


section \<open>Submissions\<close>

text \<open>
  A submission is committed exactly when it names a transaction, an amount and a recipient: neither the
  quorum threshold nor the freeze of the ledger nor the state of the bootstrapper, failed closed or not,
  takes part, and a refused one leaves the store as it is.
\<close>

theorem submit_commits_iff:
  assumes "hex_hash h" "good_env e" "ledger_ready (nd_db (pr_node m)) rs"
    and "handleEscrowSubmit h e bnet c body m = (m', out)"
  shows "if truthy (member body ''transactionId'') \<and> truthy (member body ''amount'') \<and> truthy (member body ''recipient'')
         then answer_code out = Some 200 \<and> ledger_ready (nd_db (pr_node m')) (upsert (submit_record h e body) rs)
              \<and> status (submit_record h e body) = LOCKED \<and> signature (submit_record h e body) = []
         else answer_code out \<in> {Some 400, Some 500} \<and> m' = m"
proof (cases "truthy (member body ''transactionId'') \<and> truthy (member body ''amount'') \<and> truthy (member body ''recipient'')")
  case True
  then have body: "body \<noteq> JUndefined" "body \<noteq> JNull" by auto
  obtain nd' res where s: "saveRecord h e bnet (submit_record h e body) (pr_node m) = (nd', res)" by fastforce
  note saved = saveRecord_checkpoint [OF assms(1-3) s]
  then have "m' = m\<lparr>pr_node := nd'\<rparr> \<and> answer_code out = Some 200"
    using assms(4) True body s by (auto simp: handleEscrowSubmit_def executeBftVerification_def Let_def)
  then show ?thesis using True saved by (simp add: submit_record_def)
next
  case False
  then show ?thesis using assms(4)
    by (auto simp: handleEscrowSubmit_def internal_failure_def executeBftVerification_def Let_def split: if_splits)
qed

text \<open>
  After a fail-closed stop the process goes on serving: a complete submission is still committed and can be
  queried, and the sealing context still holds the master secret the stop was to erase.
\<close>

theorem failed_closed_still_serves:
  assumes "hex_hash h" "good_env e" "ledger_ready (nd_db (pr_node m)) rs"
    and "pr_instance m = Some b" "listening_with_keys b m" "m1 = failClosed b m"
    and "truthy (member body ''transactionId'')" "truthy (member body ''amount'')" "truthy (member body ''recipient'')"
    and "handleEscrowSubmit h e bnet (bo_config b) body m1 = (m2, out)"
    and "handleEscrowQuery e (the_str (member body ''transactionId'')) m2 = (m3, reply)"
  shows "map_option bo_state (pr_instance m2) = Some FAILED_CLOSED \<and> answer_code out = Some 200 \<and> answer_code reply = Some 200
     \<and> pr_sealing m3 = Some (sealing_config (bo_config b))"
proof -
  have m1: "nd_db (pr_node m1) = nd_db (pr_node m)" "map_option bo_state (pr_instance m1) = Some FAILED_CLOSED"
    "pr_sealing m1 = Some (sealing_config (bo_config b))"
    using assms(4,5) unfolding assms(6) by (simp_all add: failClosed_def listening_with_keys_def)
  have ready: "ledger_ready (nd_db (pr_node m1)) rs" using assms(3) m1(1) by simp
  have sub: "answer_code out = Some 200" "ledger_ready (nd_db (pr_node m2)) (upsert (submit_record h e body) rs)"
    using submit_commits_iff [OF assms(1,2) ready assms(10)] assms(7-9) by simp_all
  have keep: "pr_instance m2 = pr_instance m1 \<and> pr_sealing m2 = pr_sealing m1"
    using assms(10) by (auto simp: handleEscrowSubmit_def executeBftVerification_def Let_def split: prod.splits sum.splits if_splits)
  have "snd (getRecord e (the_str (member body ''transactionId'')) (nd_db (pr_node m2))) = Some (submit_record h e body)"
    using getRecord_ready [OF sub(2)] by (simp add: find_upsert submit_record_def)
  then have "answer_code reply = Some 200 \<and> pr_sealing m3 = pr_sealing m2"
    using assms(11) by (auto simp: handleEscrowQuery_def Let_def split: prod.splits)
  then show ?thesis using m1 keep sub(1) by simp
qed


section \<open>Concrete instances\<close>

definition sample_puzzle :: puzzle_engine where
  "sample_puzzle = new_puzzle_engine (\<lambda>s. None) (\<lambda>k. None) sample_env"

definition sample_boot_config :: bootstrap_config where
  "sample_boot_config = default_config (\<lambda>k. None) (\<lambda>s. Some 8080)"

definition sample_boot :: bootstrapper where
  "sample_boot = \<lparr>bo_state = LISTENING, bo_config = sample_boot_config, bo_sealingEngine = Some (sealing_config sample_boot_config),
     bo_accumulator = True, bo_app = True\<rparr>"

definition sample_process :: process where
  "sample_process = \<lparr>pr_instance = Some sample_boot, pr_keys = Some (utf8_bytes (bs_cpuMasterSecret sample_boot_config)),
     pr_node = sample_node, pr_sealing = Some (sealing_config sample_boot_config), pr_puzzle = sample_puzzle\<rparr>"

definition sample_submission :: jsval where
  "sample_submission = JObj [(''transactionId'', JStr ''t9''), (''amount'', JNum 5), (''recipient'', JStr ''r'')]"

lemma sample_submission_full [simp]:
  "truthy (member sample_submission ''transactionId'')" "truthy (member sample_submission ''amount'')"
  "truthy (member sample_submission ''recipient'')"
  by (simp_all add: sample_submission_def)

lemma sample_process_ok: "pr_instance sample_process = Some sample_boot" "listening_with_keys sample_boot sample_process"
  "pr_node sample_process = sample_node"
  by (simp_all add: sample_process_def listening_with_keys_def sample_boot_def)

theorem bootstrap_outcome_witness:
  "\<exists>m b. bootstrap sample_hash (\<lambda>k s. []) sample_env (Inr ''addr'') sample_boot_config (failClosed sample_boot sample_process) = (m, Inr ())
     \<and> pr_instance m = Some b \<and> bo_state b = LISTENING"
proof -
  obtain m res where r: "bootstrap sample_hash (\<lambda>k s. []) sample_env (Inr ''addr'') sample_boot_config (failClosed sample_boot sample_process)
      = (m, res)" by fastforce
  from bootstrap_outcome [OF r] r show ?thesis by (auto simp: listening_with_keys_def)
qed


theorem submit_commits_iff_witness:
  "answer_code (snd (handleEscrowSubmit sample_hash sample_env (\<lambda>r. NetworkError ''down'') sample_boot_config sample_submission sample_process)) = Some 200"
proof -
  obtain m out where r: "handleEscrowSubmit sample_hash sample_env (\<lambda>r. NetworkError ''down'') sample_boot_config sample_submission sample_process
      = (m, out)" by fastforce
  from submit_commits_iff [OF _ _ _ r, of "[]"] r show ?thesis by (simp add: sample_process_ok)
qed

theorem failed_closed_still_serves_witness:
  "\<exists>m out. handleEscrowSubmit sample_hash sample_env (\<lambda>r. NetworkError ''down'') sample_boot_config sample_submission
       (failClosed sample_boot sample_process) = (m, out) \<and> answer_code out = Some 200"
proof -
  obtain m2 out where r2: "handleEscrowSubmit sample_hash sample_env (\<lambda>r. NetworkError ''down'') (bo_config sample_boot) sample_submission
      (failClosed sample_boot sample_process) = (m2, out)" by fastforce
  obtain m3 reply where r3: "handleEscrowQuery sample_env (the_str (member sample_submission ''transactionId'')) m2 = (m3, reply)" by fastforce
  from failed_closed_still_serves [OF _ _ _ sample_process_ok(1,2) refl _ _ _ r2 r3, of "[]"] r2
  show ?thesis by (auto simp: sample_process_ok sample_boot_def)
qed

end
