(* ===== verification/Vsock.thy ===== *)
theory Vsock
  imports Bytes
begin

text \<open>
  The socket multiplexer of \<^verbatim>\<open>services/infrastructure/VsockBridgeAdapter.ts\<close>: the adapter with its
  connections, the callbacks of their sockets as steps, and the events handed to the listeners in the
  order in which they are emitted. The random part of a connection id and SHA-256 are parameters; the
  sockets themselves are the environment that takes the steps.
\<close>

section \<open>Data\<close>

datatype VsockChannelState = CONNECTING | CONNECTED | DISCONNECTED | ERROR

record vsock_config =
  vc_devMode :: bool
  vc_localCid :: int
  vc_defaultPort :: int
  vc_connectionTimeoutMs :: int
  vc_keepAliveEnabled :: bool
  vc_keepAliveIntervalMs :: int

record vsock_frame =
  fr_connectionId :: string
  fr_sequenceNumber :: int
  fr_payload :: "nat list"
  fr_timestamp :: int
  fr_checksum :: string

datatype vsock_event =
    EvConnected string int
  | EvDisconnected string int
  | EvError string int string
  | EvData string int vsock_frame
  | EvKeepAlive int

text \<open>
  A connection object, with what its socket and the pending promise of \<^verbatim>\<open>connect\<close> know: whether the
  socket was destroyed, whether it has reported its end, whether the timeout is armed, and how the
  promise was settled.
\<close>

datatype promise = Pending | Resolved | Rejected string

record connection =
  cn_remoteCid :: int
  cn_remotePort :: int
  cn_state :: VsockChannelState
  cn_createdAt :: int
  cn_lastActivityAt :: int
  cn_sequenceNumber :: int
  cn_target :: "int \<times> string"
  cn_destroyed :: bool
  cn_closed :: bool
  cn_timer :: bool
  cn_promise :: promise

text \<open>
  The adapter: the map of its connections holds their ids, and the objects, which the callbacks keep
  alive after they have left the map, are held apart.
\<close>

record adapter =
  va_config :: vsock_config
  va_connections :: "string list"
  va_objects :: "(string, connection) jsmap"
  va_running :: bool
  va_keepAlive :: bool
  va_nextConnectionId :: int
  va_events :: "vsock_event list"

definition or_default :: "'a option \<Rightarrow> 'a \<Rightarrow> 'a" where
  "or_default v0 d = (case v0 of None \<Rightarrow> d | Some v \<Rightarrow> v)"

definition new_adapter ::
  "bool option \<Rightarrow> int option \<Rightarrow> int option \<Rightarrow> int option \<Rightarrow> bool option \<Rightarrow> int option \<Rightarrow> adapter" where
  "new_adapter devMode localCid defaultPort connectionTimeoutMs keepAliveEnabled keepAliveIntervalMs =
     \<lparr>va_config = \<lparr>vc_devMode = or_default devMode False, vc_localCid = or_default localCid 3,
        vc_defaultPort = or_default defaultPort 5000, vc_connectionTimeoutMs = or_default connectionTimeoutMs 30000,
        vc_keepAliveEnabled = or_default keepAliveEnabled True, vc_keepAliveIntervalMs = or_default keepAliveIntervalMs 10000\<rparr>,
      va_connections = [], va_objects = [], va_running = False, va_keepAlive = False, va_nextConnectionId = 0, va_events = []\<rparr>"

definition isValidCid :: "int \<Rightarrow> bool" where
  "isValidCid cid \<longleftrightarrow> 0 \<le> cid \<and> cid \<le> 0xffffffff"

definition isValidPort :: "int \<Rightarrow> bool" where
  "isValidPort port \<longleftrightarrow> 1 \<le> port \<and> port \<le> 0xffff"

definition generateConnectionId :: "string \<Rightarrow> int \<Rightarrow> int \<Rightarrow> string" where
  "generateConnectionId unique cid port = show_int cid @ ''-'' @ show_int port @ ''-'' @ unique"

text \<open>The hashed text, on the bytes of the payload; the digest is cut to 16 digits.\<close>

definition byte_string :: "nat list \<Rightarrow> string" where
  "byte_string bs = map char_of bs"

definition computeChecksum :: "hashfn \<Rightarrow> string \<Rightarrow> int \<Rightarrow> nat list \<Rightarrow> int \<Rightarrow> string" where
  "computeChecksum h cid seq payload ts =
     take 16 (h (''VSOCK_FRAME_V1'' @ cid @ show_int seq @ byte_string payload @ show_int ts))"

section \<open>The operations\<close>

definition emitEvent :: "vsock_event \<Rightarrow> adapter \<Rightarrow> adapter" where
  "emitEvent ev a = a\<lparr>va_events := va_events a @ [ev]\<rparr>"

definition put_object :: "string \<Rightarrow> connection \<Rightarrow> adapter \<Rightarrow> adapter" where
  "put_object cid c a = a\<lparr>va_objects := js_set cid c (va_objects a)\<rparr>"

definition start :: "env \<Rightarrow> adapter \<Rightarrow> adapter" where
  "start e a =
     (if va_running a then a
      else emitEvent (EvKeepAlive (nowMs e)) (a\<lparr>va_running := True, va_keepAlive := vc_keepAliveEnabled (va_config a)\<rparr>))"

definition keep_alive_tick :: "env \<Rightarrow> adapter \<Rightarrow> adapter" where
  "keep_alive_tick e a = (if va_keepAlive a then emitEvent (EvKeepAlive (nowMs e)) a else a)"

definition connection_of :: "string \<Rightarrow> adapter \<Rightarrow> connection option" where
  "connection_of cid a = (if cid \<in> set (va_connections a) then js_get (va_objects a) cid else None)"

definition closeConnection :: "env \<Rightarrow> string \<Rightarrow> bool \<Rightarrow> adapter \<Rightarrow> adapter" where
  "closeConnection e cid emit a =
     (case connection_of cid a of
        None \<Rightarrow> a
      | Some c \<Rightarrow>
          let a1 = (put_object cid (c\<lparr>cn_destroyed := True, cn_state := DISCONNECTED\<rparr>) a)
                     \<lparr>va_connections := removeAll cid (va_connections a)\<rparr>
          in if emit then emitEvent (EvDisconnected cid (nowMs e)) a1 else a1)"

definition stop :: "env \<Rightarrow> adapter \<Rightarrow> adapter" where
  "stop e a =
     (if \<not> va_running a then a
      else (fold (\<lambda>cid. closeConnection e cid False) (va_connections a) (a\<lparr>va_keepAlive := False\<rparr>))
             \<lparr>va_connections := [], va_running := False\<rparr>)"

text \<open>
  \<^verbatim>\<open>connect\<close> up to the call of \<^verbatim>\<open>socket.connect\<close>: the promise stays pending. A host of the environment
  is None when the variable is unset or empty.
\<close>

definition connect_target :: "string option \<Rightarrow> int \<Rightarrow> adapter \<Rightarrow> int \<times> string" where
  "connect_target vsockHost port a =
     (if vc_devMode (va_config a) then (vc_defaultPort (va_config a) + va_nextConnectionId a, ''127.0.0.1'')
      else (port, or_default vsockHost ''127.0.0.1''))"

definition vsock_connect ::
  "env \<Rightarrow> string option \<Rightarrow> string \<Rightarrow> int \<Rightarrow> int \<Rightarrow> adapter \<Rightarrow> adapter \<times> string js_result" where
  "vsock_connect e vsockHost unique cid port a =
     (if \<not> va_running a then (a, Inl (JsError ''VsockBridgeAdapter not started''))
      else if \<not> isValidCid cid then (a, Inl (JsError (''Invalid VSOCK CID: '' @ show_int cid)))
      else if \<not> isValidPort port then (a, Inl (JsError (''Invalid VSOCK port: '' @ show_int port)))
      else
        let connectionId = generateConnectionId unique cid port;
            c = \<lparr>cn_remoteCid = cid, cn_remotePort = port, cn_state = CONNECTING, cn_createdAt = nowMs e,
                 cn_lastActivityAt = nowMs e, cn_sequenceNumber = 0, cn_target = connect_target vsockHost port a, cn_destroyed = False, cn_closed = False, cn_timer = True,
                 cn_promise = Pending\<rparr>
        in ((put_object connectionId c a)
              \<lparr>va_connections := (if connectionId \<in> set (va_connections a) then va_connections a else va_connections a @ [connectionId]),
               va_nextConnectionId := va_nextConnectionId a + (if vc_devMode (va_config a) then 1 else 0)\<rparr>, Inr connectionId))"

text \<open>
  The callbacks. The listener of \<^verbatim>\<open>connect\<close> runs before the callback of \<^verbatim>\<open>socket.connect\<close>, which disarms the
  timeout and settles the promise.
\<close>

definition on_connect :: "env \<Rightarrow> string \<Rightarrow> connection \<Rightarrow> adapter \<Rightarrow> adapter" where
  "on_connect e cid c a =
     emitEvent (EvConnected cid (nowMs e))
       (put_object cid (c\<lparr>cn_state := CONNECTED, cn_lastActivityAt := nowMs e, cn_timer := False,
          cn_promise := (if cn_promise c = Pending then Resolved else cn_promise c)\<rparr>) a)"

definition on_error :: "env \<Rightarrow> string \<Rightarrow> string \<Rightarrow> connection \<Rightarrow> adapter \<Rightarrow> adapter" where
  "on_error e msg cid c a = emitEvent (EvError cid (nowMs e) msg) (put_object cid (c\<lparr>cn_state := ERROR\<rparr>) a)"

definition on_close :: "env \<Rightarrow> string \<Rightarrow> connection \<Rightarrow> adapter \<Rightarrow> adapter" where
  "on_close e cid c a =
     (let a1 = (put_object cid (c\<lparr>cn_state := DISCONNECTED, cn_destroyed := True, cn_closed := True\<rparr>) a)\<lparr>va_connections := removeAll cid (va_connections a)\<rparr>
      in if cn_state c \<noteq> DISCONNECTED then emitEvent (EvDisconnected cid (nowMs e)) a1 else a1)"

text \<open>The sequence number is incremented before the checksum of the frame is computed.\<close>

definition data_frame :: "hashfn \<Rightarrow> env \<Rightarrow> string \<Rightarrow> nat list \<Rightarrow> connection \<Rightarrow> vsock_frame" where
  "data_frame h e cid d c =
     \<lparr>fr_connectionId = cid, fr_sequenceNumber = cn_sequenceNumber c, fr_payload = d, fr_timestamp = nowMs e,
      fr_checksum = computeChecksum h cid (cn_sequenceNumber c + 1) d (nowMs e)\<rparr>"

definition on_data :: "hashfn \<Rightarrow> env \<Rightarrow> string \<Rightarrow> nat list \<Rightarrow> connection \<Rightarrow> adapter \<Rightarrow> adapter" where
  "on_data h e cid d c a =
     emitEvent (EvData cid (nowMs e) (data_frame h e cid d c))
       (put_object cid (c\<lparr>cn_lastActivityAt := nowMs e, cn_sequenceNumber := cn_sequenceNumber c + 1\<rparr>) a)"

definition on_timeout :: "string \<Rightarrow> connection \<Rightarrow> adapter \<Rightarrow> adapter" where
  "on_timeout cid c a =
     put_object cid (c\<lparr>cn_destroyed := True, cn_state := ERROR, cn_timer := False,
        cn_promise := (if cn_promise c = Pending
                       then Rejected (''Connection timeout to '' @ show_int (cn_remoteCid c) @ '':'' @ show_int (cn_remotePort c))
                       else cn_promise c)\<rparr>) a"

definition disconnect :: "env \<Rightarrow> string \<Rightarrow> adapter \<Rightarrow> adapter" where
  "disconnect e cid a = closeConnection e cid True a"

text \<open>\<^verbatim>\<open>socket.write\<close> answers whether the data went out at once.\<close>

definition send :: "env \<Rightarrow> bool \<Rightarrow> string \<Rightarrow> nat list \<Rightarrow> adapter \<Rightarrow> adapter \<times> nat js_result" where
  "send e written cid d a =
     (case connection_of cid a of
        None \<Rightarrow> (a, Inl (JsError (''Connection '' @ cid @ '' not connected'')))
      | Some c \<Rightarrow>
          if cn_state c \<noteq> CONNECTED then (a, Inl (JsError (''Connection '' @ cid @ '' not connected'')))
          else ((if written then put_object cid (c\<lparr>cn_lastActivityAt := nowMs e\<rparr>) a else a),
                Inr (if written then length d else 0)))"

definition getConnections :: "adapter \<Rightarrow> connection list" where
  "getConnections a = List.map_filter (\<lambda>cid. js_get (va_objects a) cid) (va_connections a)"

definition getConnectionCount :: "adapter \<Rightarrow> nat" where
  "getConnectionCount a = length (va_connections a)"


section \<open>Runs\<close>

text \<open>
  What can happen next. A new connection gets an id no other has had. A socket reports its connection or
  an error only while it is not destroyed, its end once, and that before any timer that was still armed
  when it was destroyed.
\<close>

inductive vsock_step :: "hashfn \<Rightarrow> adapter \<Rightarrow> adapter \<Rightarrow> bool" for h where
  started: "vsock_step h a (start e a)"
| stopped: "vsock_step h a (stop e a)"
| tick: "vsock_step h a (keep_alive_tick e a)"
| connecting: "js_get (va_objects a) (generateConnectionId unique cid port) = None \<Longrightarrow>
    vsock_step h a (fst (vsock_connect e host unique cid port a))"
| connected: "js_get (va_objects a) cid = Some c \<Longrightarrow> \<not> cn_destroyed c \<Longrightarrow> cn_state c = CONNECTING \<Longrightarrow>
    vsock_step h a (on_connect e cid c a)"
| failed: "js_get (va_objects a) cid = Some c \<Longrightarrow> \<not> cn_destroyed c \<Longrightarrow> vsock_step h a (on_error e msg cid c a)"
| received: "js_get (va_objects a) cid = Some c \<Longrightarrow> \<not> cn_destroyed c \<Longrightarrow> vsock_step h a (on_data h e cid d c a)"
| closed: "js_get (va_objects a) cid = Some c \<Longrightarrow> \<not> cn_closed c \<Longrightarrow> vsock_step h a (on_close e cid c a)"
| timed_out: "js_get (va_objects a) cid = Some c \<Longrightarrow> cn_timer c \<Longrightarrow> cn_destroyed c \<longrightarrow> cn_closed c \<Longrightarrow>
    vsock_step h a (on_timeout cid c a)"
| disconnected: "vsock_step h a (disconnect e cid a)"
| sent: "vsock_step h a (fst (send e written cid d a))"

inductive_cases vsock_stepE: "vsock_step h a a'"

fun disconnects :: "string \<Rightarrow> vsock_event list \<Rightarrow> nat" where
  "disconnects cid [] = 0"
| "disconnects cid (ev # evs) = (case ev of EvDisconnected i t \<Rightarrow> if i = cid then 1 else 0 | _ \<Rightarrow> 0) + disconnects cid evs"

fun frame_of :: "string \<Rightarrow> vsock_event \<Rightarrow> vsock_frame option" where
  "frame_of cid (EvData i t f) = (if i = cid then Some f else None)"
| "frame_of cid _ = None"

definition frames :: "string \<Rightarrow> vsock_event list \<Rightarrow> vsock_frame list" where
  "frames cid evs = List.map_filter (frame_of cid) evs"

lemma disconnects_append [simp]: "disconnects cid (a @ b) = disconnects cid a + disconnects cid b"
  by (induction a) auto

lemma frames_simps [simp]:
  "frames cid [] = []" "frames cid (a @ b) = frames cid a @ frames cid b"
  "frames cid [ev] = (case frame_of cid ev of None \<Rightarrow> [] | Some f \<Rightarrow> [f])"
  by (simp_all add: frames_def List.map_filter_def split: option.splits)

text \<open>What holds of each connection at every time.\<close>

definition connection_ok :: "hashfn \<Rightarrow> bool \<Rightarrow> vsock_event list \<Rightarrow> string \<Rightarrow> connection \<Rightarrow> bool" where
  "connection_ok h live evs cid c \<longleftrightarrow>
     (live \<longrightarrow> cn_state c \<noteq> DISCONNECTED \<and> \<not> cn_closed c \<and> disconnects cid evs = 0)
     \<and> (\<not> live \<longrightarrow> cn_destroyed c \<and> (cn_closed c \<or> cn_state c = DISCONNECTED) \<and> disconnects cid evs \<le> 1)
     \<and> (cn_promise c = Pending \<longleftrightarrow> cn_timer c)
     \<and> 0 \<le> cn_sequenceNumber c
     \<and> map fr_sequenceNumber (frames cid evs) = map int [0..<nat (cn_sequenceNumber c)]
     \<and> (\<forall>f \<in> set (frames cid evs). fr_connectionId f = cid \<and>
          fr_checksum f = computeChecksum h cid (fr_sequenceNumber f + 1) (fr_payload f) (fr_timestamp f))"

definition adapter_ok :: "hashfn \<Rightarrow> adapter \<Rightarrow> bool" where
  "adapter_ok h a \<longleftrightarrow>
     (\<forall>cid. case js_get (va_objects a) cid of
        None \<Rightarrow> cid \<notin> set (va_connections a) \<and> disconnects cid (va_events a) = 0 \<and> frames cid (va_events a) = []
      | Some c \<Rightarrow> connection_ok h (cid \<in> set (va_connections a)) (va_events a) cid c)"


definition only_touches :: "string \<Rightarrow> adapter \<Rightarrow> adapter \<Rightarrow> bool" where
  "only_touches cid a a' \<longleftrightarrow>
     (\<forall>i. i \<noteq> cid \<longrightarrow> js_get (va_objects a') i = js_get (va_objects a) i
        \<and> (i \<in> set (va_connections a') \<longleftrightarrow> i \<in> set (va_connections a))
        \<and> disconnects i (va_events a') = disconnects i (va_events a) \<and> frames i (va_events a') = frames i (va_events a))"

lemma adapter_ok_update:
  assumes "adapter_ok h a" "only_touches cid a a'" "js_get (va_objects a') cid = Some c"
    and "connection_ok h (cid \<in> set (va_connections a')) (va_events a') cid c"
  shows "adapter_ok h a'"
  unfolding adapter_ok_def
proof
  fix i
  show "case js_get (va_objects a') i of
      None \<Rightarrow> i \<notin> set (va_connections a') \<and> disconnects i (va_events a') = 0 \<and> frames i (va_events a') = []
    | Some c \<Rightarrow> connection_ok h (i \<in> set (va_connections a')) (va_events a') i c"
  proof (cases "i = cid")
    case False
    then have same: "js_get (va_objects a') i = js_get (va_objects a) i" "i \<in> set (va_connections a') \<longleftrightarrow> i \<in> set (va_connections a)"
      "disconnects i (va_events a') = disconnects i (va_events a)" "frames i (va_events a') = frames i (va_events a)"
      using assms(2) by (auto simp: only_touches_def)
    have "connection_ok h live (va_events a') i c = connection_ok h live (va_events a) i c" for live c
      using same by (simp add: connection_ok_def)
    moreover have "case js_get (va_objects a) i of
        None \<Rightarrow> i \<notin> set (va_connections a) \<and> disconnects i (va_events a) = 0 \<and> frames i (va_events a) = []
      | Some c \<Rightarrow> connection_ok h (i \<in> set (va_connections a)) (va_events a) i c"
      using assms(1) by (auto simp: adapter_ok_def)
    ultimately show ?thesis using same by (auto split: option.splits)
  qed (use assms(3,4) in simp)
qed

lemma adapter_ok_object: "adapter_ok h a \<Longrightarrow> js_get (va_objects a) cid = Some c \<Longrightarrow>
    connection_ok h (cid \<in> set (va_connections a)) (va_events a) cid c"
  by (auto simp: adapter_ok_def dest: spec [of _ cid])

lemma adapter_ok_none: "adapter_ok h a \<Longrightarrow> js_get (va_objects a) cid = None \<Longrightarrow>
    cid \<notin> set (va_connections a) \<and> disconnects cid (va_events a) = 0 \<and> frames cid (va_events a) = []"
  by (auto simp: adapter_ok_def dest: spec [of _ cid])

lemma adapter_ok_silent:
  assumes "adapter_ok h a" "va_objects a' = va_objects a" "va_connections a' = va_connections a"
    and same: "\<And>i. disconnects i (va_events a') = disconnects i (va_events a)" "\<And>i. frames i (va_events a') = frames i (va_events a)"
  shows "adapter_ok h a'"
  unfolding adapter_ok_def
proof
  fix cid
  have "connection_ok h live (va_events a') cid c = connection_ok h live (va_events a) cid c" for live c
    by (simp add: connection_ok_def same)
  then show "case js_get (va_objects a') cid of
      None \<Rightarrow> cid \<notin> set (va_connections a') \<and> disconnects cid (va_events a') = 0 \<and> frames cid (va_events a') = []
    | Some c \<Rightarrow> connection_ok h (cid \<in> set (va_connections a')) (va_events a') cid c"
    using assms(1-3) same spec [OF assms(1) [unfolded adapter_ok_def], of cid] by (simp split: option.splits)
qed

lemmas touch_defs = only_touches_def put_object_def emitEvent_def js_get_set

lemma adapter_ok_close: "adapter_ok h a \<Longrightarrow> adapter_ok h (closeConnection e cid emit a)"
proof (cases "connection_of cid a")
  case (Some c)
  assume ok: "adapter_ok h a"
  from Some have c: "js_get (va_objects a) cid = Some c" "cid \<in> set (va_connections a)"
    by (auto simp: connection_of_def split: if_splits)
  let ?c = "c\<lparr>cn_destroyed := True, cn_state := DISCONNECTED\<rparr>"
  let ?a = "closeConnection e cid emit a"
  have "only_touches cid a ?a" "js_get (va_objects ?a) cid = Some ?c"
    using Some by (auto simp: closeConnection_def touch_defs Let_def)
  moreover have "connection_ok h (cid \<in> set (va_connections ?a)) (va_events ?a) cid ?c"
    using adapter_ok_object [OF ok c(1)] c(2) Some by (auto simp: connection_ok_def closeConnection_def put_object_def emitEvent_def Let_def)
  ultimately show ?thesis by (rule adapter_ok_update [OF ok])
qed (simp add: closeConnection_def)

lemma close_leaves: "set (va_connections (closeConnection e cid emit a)) = set (va_connections a) - {cid}
    \<or> (js_get (va_objects a) cid = None \<and> closeConnection e cid emit a = a)"
  by (auto simp: closeConnection_def connection_of_def put_object_def emitEvent_def Let_def split: option.splits if_splits)

lemma adapter_ok_stop: "adapter_ok h a \<Longrightarrow> adapter_ok h (stop e a)"
proof (cases "va_running a")
  case True
  assume ok: "adapter_ok h a"
  let ?close = "\<lambda>cid. closeConnection e cid False"
  have fold: "adapter_ok h (fold ?close cids a') \<and> set (va_connections (fold ?close cids a')) = set (va_connections a') - set cids"
    if "adapter_ok h a'" for cids a'
    using that
  proof (induction cids arbitrary: a')
    case (Cons cid cids)
    have "set (va_connections (closeConnection e cid False a')) = set (va_connections a') - {cid}"
      using close_leaves [of e cid False a'] adapter_ok_none [OF Cons.prems, of cid] by auto
    then show ?case using Cons.IH [OF adapter_ok_close [OF Cons.prems]] by auto
  qed simp
  have "adapter_ok h (a\<lparr>va_keepAlive := False\<rparr>)" using ok by (rule adapter_ok_silent) simp_all
  from fold [OF this, of "va_connections a"]
  have "adapter_ok h (fold ?close (va_connections a) (a\<lparr>va_keepAlive := False\<rparr>))"
    "va_connections (fold ?close (va_connections a) (a\<lparr>va_keepAlive := False\<rparr>)) = []" by auto
  then show ?thesis using True unfolding stop_def by (auto intro: adapter_ok_silent)
qed (simp add: stop_def)

lemma adapter_ok_step: "vsock_step h a a' \<Longrightarrow> adapter_ok h a \<Longrightarrow> adapter_ok h a'"
proof (induction rule: vsock_step.induct)
  case (started a e)
  then show ?case unfolding start_def emitEvent_def by (auto intro!: adapter_ok_silent [OF started])
next
  case (stopped a e)
  then show ?case by (rule adapter_ok_stop)
next
  case (tick a e)
  then show ?case unfolding keep_alive_tick_def emitEvent_def by (auto intro!: adapter_ok_silent [OF tick])
next
  case (connecting a unique cid port e host)
  let ?id = "generateConnectionId unique cid port" and ?a = "fst (vsock_connect e host unique cid port a)"
  note none = adapter_ok_none [OF connecting(2,1)]
  show ?case
  proof (cases "?a = a")
    case False
    then obtain c where "js_get (va_objects ?a) ?id = Some c" "only_touches ?id a ?a"
      "connection_ok h (?id \<in> set (va_connections ?a)) (va_events ?a) ?id c"
      using none by (auto simp: vsock_connect_def touch_defs connection_ok_def Let_def split: if_splits)
    then show ?thesis by (blast intro: adapter_ok_update [OF connecting(2)])
  qed (use connecting in simp)
next
  case (connected a cid c e)
  note ok = adapter_ok_object [OF connected(4,1)]
  show ?case
    by (rule adapter_ok_update [OF connected(4), where cid = cid])
       (use ok connected(2,3) in \<open>auto simp: touch_defs on_connect_def connection_ok_def\<close>)
next
  case (failed a cid c e msg)
  note ok = adapter_ok_object [OF failed(3,1)]
  show ?case
    by (rule adapter_ok_update [OF failed(3), where cid = cid])
       (use ok failed(2) in \<open>auto simp: touch_defs on_error_def connection_ok_def\<close>)
next
  case (received a cid c e d)
  note ok = adapter_ok_object [OF received(3,1)]
  have n: "nat (cn_sequenceNumber c + 1) = Suc (nat (cn_sequenceNumber c))" "0 \<le> cn_sequenceNumber c"
    using ok by (auto simp: connection_ok_def)
  show ?case
    by (rule adapter_ok_update [OF received(3), where cid = cid])
       (use ok received(2) n in \<open>auto simp: touch_defs on_data_def connection_ok_def data_frame_def\<close>)
next
  case (closed a cid c e)
  note ok = adapter_ok_object [OF closed(3,1)]
  show ?case
    by (rule adapter_ok_update [OF closed(3), where cid = cid])
       (use ok closed(2) in \<open>auto simp: touch_defs on_close_def connection_ok_def Let_def\<close>)
next
  case (timed_out a cid c)
  note ok = adapter_ok_object [OF timed_out(4,1)]
  show ?case
    by (rule adapter_ok_update [OF timed_out(4), where cid = cid])
       (use ok timed_out(2,3) in \<open>auto simp: touch_defs on_timeout_def connection_ok_def\<close>)
next
  case (disconnected a e cid)
  then show ?case unfolding disconnect_def by (rule adapter_ok_close)
next
  case (sent a e written cid d)
  show ?case
  proof (cases "fst (send e written cid d a) = a")
    case False
    then obtain c where c: "js_get (va_objects a) cid = Some c"
      and a': "fst (send e written cid d a) = put_object cid (c\<lparr>cn_lastActivityAt := nowMs e\<rparr>) a"
      by (auto simp: send_def connection_of_def split: option.splits if_splits)
    show ?thesis unfolding a'
      by (rule adapter_ok_update [OF sent, where cid = cid])
         (use adapter_ok_object [OF sent c] in \<open>auto simp: touch_defs connection_ok_def\<close>)
  qed (use sent in simp)
qed

lemma adapter_ok_reachable: "(vsock_step h)\<^sup>*\<^sup>* a a' \<Longrightarrow> adapter_ok h a \<Longrightarrow> adapter_ok h a'"
  by (induction rule: rtranclp_induct) (auto intro: adapter_ok_step)

lemma adapter_ok_new: "adapter_ok h (new_adapter dm lc dp ct ka ki)"
  by (simp add: adapter_ok_def new_adapter_def)


section \<open>What the listeners see\<close>

text \<open>
  The end of a connection is announced at most once, and never while the connection is still listed: the
  listed ones are connecting, connected or in error, and have not closed.
\<close>

theorem disconnect_announced_once:
  assumes "(vsock_step h)\<^sup>*\<^sup>* (new_adapter dm lc dp ct ka ki) a"
  shows "disconnects cid (va_events a) \<le> 1
     \<and> (cid \<in> set (va_connections a) \<longrightarrow>
          disconnects cid (va_events a) = 0 \<and> (\<exists>c. connection_of cid a = Some c \<and> cn_state c \<noteq> DISCONNECTED \<and> \<not> cn_closed c))"
proof (cases "js_get (va_objects a) cid")
  case None
  then show ?thesis using adapter_ok_none [OF adapter_ok_reachable [OF assms adapter_ok_new]] by simp
next
  case (Some c)
  have "connection_ok h (cid \<in> set (va_connections a)) (va_events a) cid c"
    using adapter_ok_object [OF adapter_ok_reachable [OF assms adapter_ok_new] Some] .
  then show ?thesis using Some by (auto simp: connection_ok_def connection_of_def)
qed

text \<open>
  The frames of a connection are numbered from 0 without gaps, but each carries the checksum of the number
  after its own: a reader that recomputes it over the frame it got compares it with the wrong text.
\<close>

theorem frames_numbered_checksum_ahead:
  assumes "(vsock_step h)\<^sup>*\<^sup>* (new_adapter dm lc dp ct ka ki) a" "i < length (frames cid (va_events a))"
  shows "fr_sequenceNumber (frames cid (va_events a) ! i) = int i
     \<and> fr_checksum (frames cid (va_events a) ! i)
         = computeChecksum h cid (int i + 1) (fr_payload (frames cid (va_events a) ! i)) (fr_timestamp (frames cid (va_events a) ! i))"
proof -
  note ok = adapter_ok_reachable [OF assms(1) adapter_ok_new]
  let ?f = "frames cid (va_events a) ! i"
  obtain c where c: "js_get (va_objects a) cid = Some c"
    using adapter_ok_none [OF ok] assms(2) by (cases "js_get (va_objects a) cid") auto
  have num: "map fr_sequenceNumber (frames cid (va_events a)) = map int [0..<nat (cn_sequenceNumber c)]"
    and sum: "\<forall>f \<in> set (frames cid (va_events a)). fr_checksum f = computeChecksum h cid (fr_sequenceNumber f + 1) (fr_payload f) (fr_timestamp f)"
    using adapter_ok_object [OF ok c] by (auto simp: connection_ok_def)
  have "length (frames cid (va_events a)) = nat (cn_sequenceNumber c)" using arg_cong [OF num, of length] by simp
  then have "fr_sequenceNumber ?f = int i" using arg_cong [OF num, of "\<lambda>l. l ! i"] assms(2) by simp
  then show ?thesis using sum assms(2) by simp
qed


text \<open>
  Data is taken exactly for a listed connection in the state CONNECTED; the count that is answered is 0 when
  the socket only queued it, although nothing is lost then.
\<close>

theorem send_answers_iff:
  "snd (send e written cid d a) = Inr n \<longleftrightarrow>
     (\<exists>c. connection_of cid a = Some c \<and> cn_state c = CONNECTED) \<and> n = (if written then length d else 0)"
  by (auto simp: send_def split: option.splits)

section \<open>Concrete instances\<close>

definition vsock_env :: env where
  "vsock_env = \<lparr>nowMs = 7, nowIso = ''t'', diskOk = (\<lambda>f. True)\<rparr>"

definition sample_adapter :: adapter where
  "sample_adapter = new_adapter None None None None None None"

definition sample_hash16 :: hashfn where
  "sample_hash16 s = rev s"

text \<open>A run: started, one connection opened, one frame received, the connection closed.\<close>

definition opened_adapter :: adapter where
  "opened_adapter = fst (vsock_connect vsock_env None ''ab'' 3 5000 (start vsock_env sample_adapter))"

definition sample_id :: string where
  "sample_id = generateConnectionId ''ab'' 3 5000"

definition sample_connection :: connection where
  "sample_connection = the (js_get (va_objects opened_adapter) sample_id)"

lemma opened_reached: "(vsock_step sample_hash16)\<^sup>*\<^sup>* sample_adapter opened_adapter"
proof -
  have "vsock_step sample_hash16 sample_adapter (start vsock_env sample_adapter)" by (rule vsock_step.started)
  moreover have "vsock_step sample_hash16 (start vsock_env sample_adapter) opened_adapter"
    unfolding opened_adapter_def
    by (rule vsock_step.connecting) (simp add: start_def sample_adapter_def new_adapter_def emitEvent_def)
  ultimately show ?thesis by (meson converse_rtranclp_into_rtranclp rtranclp.rtrancl_refl)
qed

lemma opened_simps:
  "va_connections opened_adapter = [sample_id]" "js_get (va_objects opened_adapter) sample_id = Some sample_connection"
  "\<not> cn_destroyed sample_connection" "\<not> cn_closed sample_connection" "cn_sequenceNumber sample_connection = 0" "cn_timer sample_connection"
  "va_events opened_adapter = [EvKeepAlive 7]"
  by (simp_all add: opened_adapter_def sample_connection_def sample_id_def start_def sample_adapter_def new_adapter_def emitEvent_def
      vsock_connect_def put_object_def isValidCid_def isValidPort_def or_default_def vsock_env_def Let_def)

theorem disconnect_announced_once_witness:
  "\<exists>a :: adapter. disconnects sample_id (va_events a) = 1 \<and> sample_id \<notin> set (va_connections a)"
proof -
  let ?a = "on_close vsock_env sample_id sample_connection opened_adapter"
  have "vsock_step sample_hash16 opened_adapter ?a" by (rule vsock_step.closed) (simp_all add: opened_simps)
  with opened_reached have reach: "(vsock_step sample_hash16)\<^sup>*\<^sup>* (new_adapter None None None None None None) ?a"
    unfolding sample_adapter_def by simp
  have "cn_state sample_connection = CONNECTING"
    by (simp add: sample_connection_def opened_adapter_def sample_id_def start_def sample_adapter_def new_adapter_def emitEvent_def
        vsock_connect_def put_object_def isValidCid_def isValidPort_def or_default_def vsock_env_def Let_def)
  then have "disconnects sample_id (va_events ?a) = 1" "sample_id \<notin> set (va_connections ?a)"
    by (simp_all add: on_close_def put_object_def emitEvent_def opened_simps Let_def)
  then show ?thesis using disconnect_announced_once [OF reach, of sample_id] by - (rule exI [of _ ?a], simp)
qed

theorem frames_numbered_checksum_ahead_witness:
  "\<exists>(a :: adapter) f. frames sample_id (va_events a) = [f] \<and> fr_sequenceNumber f = 0
     \<and> fr_checksum f = computeChecksum sample_hash16 sample_id 1 [2, 3] 7"
proof -
  have now: "nowMs vsock_env = 7" by (simp add: vsock_env_def)
  let ?a = "on_data sample_hash16 vsock_env sample_id [2, 3] sample_connection opened_adapter"
  have "vsock_step sample_hash16 opened_adapter ?a" by (rule vsock_step.received) (simp_all add: opened_simps)
  with opened_reached have reach: "(vsock_step sample_hash16)\<^sup>*\<^sup>* (new_adapter None None None None None None) ?a"
    unfolding sample_adapter_def by simp
  have fs: "frames sample_id (va_events ?a) = [data_frame sample_hash16 vsock_env sample_id [2, 3] sample_connection]"
    by (simp add: on_data_def emitEvent_def put_object_def opened_simps frames_def List.map_filter_simps)
  from frames_numbered_checksum_ahead [OF reach, of 0 sample_id] show ?thesis unfolding fs
    by - (rule exI [of _ ?a], rule exI [of _ "data_frame sample_hash16 vsock_env sample_id [2, 3] sample_connection"],
        simp add: fs data_frame_def now)
qed


end
