(* ===== verification/StkHandler.thy ===== *)
theory StkHandler
  imports MpesaAdapter Payout Text
begin

text \<open>
  The HTTP side of \<^verbatim>\<open>packages/backend/src/payout/mpesa-handler.ts\<close> (token, STK push, disbursement) and the
  signed requests of \<^verbatim>\<open>services/mpesa.service.ts\<close>. The requests are kept in order; the network, JSON parsing and
  HMAC are parameters. Headers other than the authorisation are left out.
\<close>

section \<open>Calls\<close>

text \<open>A call on the list of requests sent so far, continued when it did not throw.\<close>

type_synonym 'a sending = "http_request list \<Rightarrow> http_request list \<times> 'a js_result"

definition and_then :: "'a sending \<Rightarrow> ('a \<Rightarrow> 'b sending) \<Rightarrow> 'b sending" where
  "and_then m f sent = (case m sent of (sent', Inl err) \<Rightarrow> (sent', Inl err) | (sent', Inr v) \<Rightarrow> f v sent')"

definition local :: "'a js_result \<Rightarrow> 'a sending" where
  "local r sent = (sent, r)"

lemma and_then_local [simp]: "and_then (local r) f sent = (case r of Inl err \<Rightarrow> (sent, Inl err) | Inr v \<Rightarrow> f v sent)"
  by (simp add: and_then_def local_def split: sum.split)

lemma and_then_Inr:
  "and_then m f sent = (sent', Inr v) \<longleftrightarrow> (\<exists>sent1 u. m sent = (sent1, Inr u) \<and> f u sent1 = (sent', Inr v))"
  by (auto simp: and_then_def split: prod.splits sum.splits)

definition answer_json :: "wire \<Rightarrow> string \<Rightarrow> jsval" where
  "answer_json w raw =
     (if raw = [] then JObj [] else case w_parse w raw of None \<Rightarrow> JObj [(''raw'', JStr raw)] | Some v \<Rightarrow> v)"

definition http_failure :: "string \<Rightarrow> int \<Rightarrow> jsval \<Rightarrow> js_error" where
  "http_failure prefix code json =
     JsError (js_String (js_or (member json ''errorMessage'')
       (js_or (member json ''message'') (JStr (prefix @ show_int code)))))"

definition exchange :: "wire \<Rightarrow> string \<Rightarrow> http_request \<Rightarrow> jsval sending" where
  "exchange w prefix rq sent =
     (sent @ [rq],
      case w_net w rq of
        Refused msg \<Rightarrow> Inl (JsError msg)
      | Reply code raw \<Rightarrow> (let json = answer_json w raw in if 200 \<le> code \<and> code < 300 then Inr json else Inl (http_failure prefix code json)))"

definition env_default :: "wire \<Rightarrow> string \<Rightarrow> string \<Rightarrow> string" where
  "env_default w k d = (case w_pe w k of None \<Rightarrow> d | Some v \<Rightarrow> v)"

definition httpJson :: "wire \<Rightarrow> string \<Rightarrow> string \<Rightarrow> jsval \<Rightarrow> jsval sending" where
  "httpJson w url token body =
     exchange w ''MPESA_HTTP_'' \<lparr>hr_url = url, hr_method = ''POST'', hr_payload = json_stringify body, hr_authorization = ''Bearer '' @ token\<rparr>"

definition token_request :: "wire \<Rightarrow> string \<Rightarrow> string \<Rightarrow> http_request" where
  "token_request w key secret =
     \<lparr>hr_url = env_default w ''MPESA_OAUTH_URL'' ''https://sandbox.safaricom.co.ke/oauth/v1/generate'', hr_method = ''GET'', hr_payload = [],
      hr_authorization = buildBasicAuthHeader key secret\<rparr>"

definition fetchMpesaOAuthAccessToken :: "wire \<Rightarrow> string sending" where
  "fetchMpesaOAuthAccessToken w =
     and_then (local (get_env (w_pe w) ''MPESA_CONSUMER_KEY'')) (\<lambda>key.
     and_then (local (get_env (w_pe w) ''MPESA_CONSUMER_SECRET'')) (\<lambda>secret.
     and_then (exchange w ''MPESA_TOKEN_HTTP_'' (token_request w key secret)) (\<lambda>json.
       local (if truthy (member json ''access_token'') then Inr (js_String (member json ''access_token''))
              else Inl (JsError ''MPESA_ACCESS_TOKEN_MISSING'')))))"

section \<open>The STK push\<close>

text \<open>\<^verbatim>\<open>s.replace(t, '')\<close> removes the first occurrence.\<close>

fun remove_first :: "string \<Rightarrow> string \<Rightarrow> string" where
  "remove_first t [] = []"
| "remove_first t (c # s) = (if begins_with (c # s) t then drop (length t) (c # s) else c # remove_first t s)"

definition handler_timestamp :: "string \<Rightarrow> string" where
  "handler_timestamp stamp = remove_first ''.000'' (filter (\<lambda>c. c \<noteq> CHR ''-'' \<and> c \<noteq> CHR '':'') stamp)"

record stk_input =
  si_amountKES :: int
  si_buyerPhone :: string
  si_accountReference :: "string option"
  si_callbackUrl :: "string option"

definition stk_callback :: "wire \<Rightarrow> stk_input \<Rightarrow> string js_result" where
  "stk_callback w i =
     (case si_callbackUrl i of
        Some u \<Rightarrow> Inr u
      | None \<Rightarrow> (case w_pe w ''MPESA_STK_CALLBACK_URL'' of Some u \<Rightarrow> Inr u | None \<Rightarrow> Inl (JsError ''MPESA_STK_CALLBACK_URL_MISSING'')))"

definition handler_stk_payload :: "wire \<Rightarrow> string \<Rightarrow> stk_input \<Rightarrow> string \<Rightarrow> string \<Rightarrow> string \<Rightarrow> jsval" where
  "handler_stk_payload w uuid i shortcode passkey callback =
     (let ts = handler_timestamp (nowIso (w_env w));
          reference = (case si_accountReference i of Some r \<Rightarrow> r | None \<Rightarrow> ''stk_'' @ uuid)
      in JObj
       [(''BusinessShortCode'', JStr shortcode), (''Password'', JStr (buildPassword shortcode passkey ts)), (''Timestamp'', JStr ts),
        (''TransactionType'', JStr ''CustomerPayBillOnline''), (''Amount'', JStr (show_int (big_div (si_amountKES i) 100))),
        (''PartyA'', JStr (si_buyerPhone i)), (''PartyB'', JStr (env_default w ''MPESA_LNM_SHORTCODE'' shortcode)),
        (''PhoneNumber'', JStr (si_buyerPhone i)), (''CallBackURL'', JStr callback), (''AccountReference'', JStr reference),
        (''TransactionDesc'', JStr reference)])"

definition handler_initiateStkPush :: "wire \<Rightarrow> string \<Rightarrow> stk_input \<Rightarrow> stk_result sending" where
  "handler_initiateStkPush w uuid i =
     and_then (fetchMpesaOAuthAccessToken w) (\<lambda>token.
     and_then (local (get_env (w_pe w) ''MPESA_SHORTCODE'')) (\<lambda>shortcode.
     and_then (local (get_env (w_pe w) ''MPESA_PASSKEY'')) (\<lambda>passkey.
     and_then (local (stk_callback w i)) (\<lambda>callback.
     and_then (httpJson w (env_default w ''MPESA_STK_ENDPOINT'' ''https://sandbox.safaricom.co.ke/mpesa/stkpush/v1/processrequest'') token
                 (handler_stk_payload w uuid i shortcode passkey callback)) (\<lambda>json.
       let checkoutRequestId = js_String (nullish_or (member json ''CheckoutRequestID'') (JStr []))
       in local (if checkoutRequestId = [] then Inl (JsError ''MPESA_STK_PUSH_FAILED'')
                 else Inr \<lparr>sk_checkoutRequestId = checkoutRequestId, sk_merchantRequestId = member json ''MerchantRequestID'',
                           sk_responseCode = member json ''ResponseCode''\<rparr>))))))"

section \<open>The disbursement\<close>

definition b2c_request_payload :: "wire \<Rightarrow> string \<Rightarrow> string \<Rightarrow> string \<Rightarrow> int \<Rightarrow> jsval" where
  "b2c_request_payload w shortcode passkey recipient whole = JObj
     [(''InitiatorName'', JStr (env_default w ''MPESA_INITIATOR_NAME'' ''Initiator'')),
      (''SecurityCredential'', JStr (env_default w ''MPESA_SECURITY_CREDENTIAL'' passkey)), (''CommandID'', JStr ''SalaryPayment''),
      (''Amount'', JStr (show_int whole)), (''PartyA'', JStr shortcode), (''PartyB'', JStr recipient),
      (''Remarks'', JStr ''Securerise payout''), (''QueueTimeOutURL'', JStr (env_default w ''MPESA_QUEUE_TIMEOUT_URL'' [])),
      (''ResultURL'', JStr (env_default w ''MPESA_RESULT_URL'' [])), (''Occasion'', JStr ''Payout'')]"

record disburse_result =
  dr_resultCode :: jsval
  dr_conversationId :: jsval
  dr_originatorConversationId :: jsval

definition b2c_request :: "wire \<Rightarrow> string \<Rightarrow> string \<Rightarrow> string \<Rightarrow> string \<Rightarrow> int \<Rightarrow> http_request" where
  "b2c_request w token shortcode passkey recipient whole =
     \<lparr>hr_url = env_default w ''MPESA_B2C_ENDPOINT'' ''https://sandbox.safaricom.co.ke/mpesa/b2c/v1/paymentrequest'', hr_method = ''POST'',
      hr_payload = json_stringify (b2c_request_payload w shortcode passkey recipient whole), hr_authorization = ''Bearer '' @ token\<rparr>"

definition handler_disburseFunds :: "wire \<Rightarrow> string \<Rightarrow> int \<Rightarrow> disburse_result sending" where
  "handler_disburseFunds w recipient gross =
     and_then (fetchMpesaOAuthAccessToken w) (\<lambda>token.
     and_then (local (get_env (w_pe w) ''MPESA_SHORTCODE'')) (\<lambda>shortcode.
     and_then (local (get_env (w_pe w) ''MPESA_PASSKEY'')) (\<lambda>passkey.
       let net = gross - payout_fee gross
       in if net \<le> 0 then local (Inl (JsError ''MPESA_NET_AMOUNT_INVALID''))
          else and_then (exchange w ''MPESA_B2C_HTTP_'' (b2c_request w token shortcode passkey recipient (big_div net 100))) (\<lambda>json.
            local (Inr \<lparr>dr_resultCode = nullish_or (member json ''ResultCode'') (JStr ''UNKNOWN''),
                        dr_conversationId = member json ''ConversationID'',
                        dr_originatorConversationId = member json ''OriginatorConversationID''\<rparr>)))))"

section \<open>Signed Daraja requests\<close>

definition buildRequestSignature :: "hmacfn \<Rightarrow> environment \<Rightarrow> jsval \<Rightarrow> string js_result" where
  "buildRequestSignature hm pe payload =
     bind_result (case pe ''DARAJA_PASSKEY'' of Some k \<Rightarrow> if k \<noteq> [] then Inr k else get_env_trimmed pe ''MPESA_PASSKEY''
                  | None \<Rightarrow> get_env_trimmed pe ''MPESA_PASSKEY'')
       (\<lambda>secret. Inr (hm secret (json_stringify payload)))"

definition daraja_stk_payload :: "environment \<Rightarrow> string \<Rightarrow> string \<Rightarrow> string \<Rightarrow> int \<Rightarrow> string \<Rightarrow> string \<Rightarrow> string option \<Rightarrow> jsval" where
  "daraja_stk_payload pe stamp shortcode passkey cents phone reference callback =
     (let ts = handler_timestamp stamp; rq = stk_request_of pe cents phone reference callback in JObj
       [(''BusinessShortCode'', JStr shortcode), (''Password'', JStr (buildPassword shortcode passkey ts)), (''Timestamp'', JStr ts),
        (''TransactionType'', JStr ''CustomerPayBillOnline''), (''Amount'', JStr (sk_amount rq)), (''PartyA'', JStr (sk_phone rq)),
        (''PartyB'', JStr (case pe ''MPESA_LNM_SHORTCODE'' of None \<Rightarrow> shortcode | Some s \<Rightarrow> s)), (''PhoneNumber'', JStr (sk_phone rq)),
        (''CallBackURL'', JStr (sk_callback rq)), (''AccountReference'', JStr (sk_reference rq)), (''TransactionDesc'', JStr (sk_reference rq))])"

definition pull_payload :: "environment \<Rightarrow> string \<Rightarrow> string \<Rightarrow> jsval" where
  "pull_payload pe shortcode reference = JObj
     [(''CommandID'', JStr ''TransactionStatusQuery''), (''PartyA'', JStr shortcode), (''IdentifierType'', JStr ''1''),
      (''TransactionID'', JStr reference), (''ResultURL'', JStr (case pe ''MPESA_PULL_RESULT_URL'' of None \<Rightarrow> [] | Some u \<Rightarrow> u)),
      (''Occasion'', JStr ''Reconciliation''), (''Remarks'', JStr ''Pull transaction reconciliation'')]"

definition queryPullTransaction ::
  "hmacfn \<Rightarrow> environment \<Rightarrow> (string \<Rightarrow> int option) \<Rightarrow> env \<Rightarrow> http_answer \<Rightarrow> (jsval \<Rightarrow> string \<Rightarrow> string \<Rightarrow> http_answer) \<Rightarrow> string
     \<Rightarrow> token_cache option \<Rightarrow> token_cache option \<times> jsval js_result" where
  "queryPullTransaction hm pe num e auth post reference cache =
     (case fetchOAuthToken pe num e auth cache of
        (cache', Inl err) \<Rightarrow> (cache', Inl err)
      | (cache', Inr token) \<Rightarrow>
          (cache',
           bind_result (get_env_trimmed pe ''MPESA_SHORTCODE'') (\<lambda>shortcode.
             let payload = pull_payload pe shortcode reference
             in bind_result (buildRequestSignature hm pe payload) (\<lambda>signature.
                  case post payload (''Bearer '' @ token) signature of
                    None \<Rightarrow> Inl (JsError ''Request failed'')
                  | Some d \<Rightarrow> Inr (nullish_or d (JObj []))))))"

section \<open>The detailed handler implements the arithmetic\<close>

text \<open>What one exchange returns does not depend on what was sent before.\<close>

lemma exchange_sent [simp]: "fst (exchange w p rq sent) = sent @ [rq]"
  by (simp add: exchange_def)

lemma exchange_result: "snd (exchange w p rq sent) = snd (exchange w p rq [])"
  by (simp add: exchange_def)

lemma fetch_cases:
  obtains (unsent) err where "\<And>sent. fetchMpesaOAuthAccessToken w sent = (sent, Inl err)"
  | (sent) rq r where "\<And>sent. fetchMpesaOAuthAccessToken w sent = (sent @ [rq], r)"
proof (cases "get_env (w_pe w) ''MPESA_CONSUMER_KEY''")
  case (Inl err) then show ?thesis by (intro unsent [of err]) (simp add: fetchMpesaOAuthAccessToken_def)
next
  case key: (Inr key)
  show ?thesis
  proof (cases "get_env (w_pe w) ''MPESA_CONSUMER_SECRET''")
    case (Inl err) then show ?thesis using key by (intro unsent [of err]) (simp add: fetchMpesaOAuthAccessToken_def)
  next
    case (Inr secret)
    then have "fetchMpesaOAuthAccessToken w s = (s @ [token_request w key secret], snd (fetchMpesaOAuthAccessToken w []))" for s
      using key by (auto simp: fetchMpesaOAuthAccessToken_def and_then_def local_def exchange_def Let_def split: http_reply.split sum.split)
    then show ?thesis by (rule sent)
  qed
qed

definition b2c_send :: "wire \<Rightarrow> string \<Rightarrow> int \<Rightarrow> jsval js_result" where
  "b2c_send w recipient whole =
     (case (snd (fetchMpesaOAuthAccessToken w []), get_env (w_pe w) ''MPESA_SHORTCODE'', get_env (w_pe w) ''MPESA_PASSKEY'') of
        (Inr token, Inr shortcode, Inr passkey) \<Rightarrow> snd (exchange w ''MPESA_B2C_HTTP_'' (b2c_request w token shortcode passkey recipient whole) [])
      | _ \<Rightarrow> Inl (JsError []))"

text \<open>
  The disbursement with its token, its payload and its HTTP exchange gives the code and the errors of the abstract disbursement,
  whose amounts are bounded by the fee: at most two requests leave, and none but the token request unless the net amount is positive.
\<close>

theorem disbursement_refines:
  "map_sum id dr_resultCode (snd (handler_disburseFunds w recipient gross sent))
     = map_sum id snd (disburseFunds (w_pe w) (snd (fetchMpesaOAuthAccessToken w [])) (b2c_send w) recipient gross)
   \<and> (\<exists>new. fst (handler_disburseFunds w recipient gross sent) = sent @ new \<and> length new \<le> 2
        \<and> (gross - payout_fee gross \<le> 0 \<longrightarrow> length new \<le> 1))"
proof -
  have local_fetch: "\<exists>new. fetchMpesaOAuthAccessToken w sent = (sent @ new, snd (fetchMpesaOAuthAccessToken w [])) \<and> length new \<le> 1"
    by (rule fetch_cases [of w]) auto
  then obtain new where f: "fetchMpesaOAuthAccessToken w sent = (sent @ new, snd (fetchMpesaOAuthAccessToken w []))" "length new \<le> 1"
    by blast
  let ?x = "\<lambda>token shortcode passkey. exchange w ''MPESA_B2C_HTTP_'' (b2c_request w token shortcode passkey recipient (big_div (gross - payout_fee gross) 100))"
  note run = handler_disburseFunds_def disburseFunds_def b2c_send_def nullish_or_def Let_def and_then_def f(1)
  show ?thesis
  proof (cases "snd (fetchMpesaOAuthAccessToken w [])")
    case (Inl err) then show ?thesis using f(2) by (simp add: run)
  next
    case (Inr token)
    note t = Inr
    show ?thesis
    proof (cases "get_env (w_pe w) ''MPESA_SHORTCODE''")
      case (Inl err) then show ?thesis using f(2) t by (simp add: run local_def)
    next
      case (Inr shortcode)
      note c = Inr
      show ?thesis
      proof (cases "get_env (w_pe w) ''MPESA_PASSKEY''")
        case (Inl err) then show ?thesis using f(2) t c by (simp add: run local_def)
      next
        case (Inr passkey)
        obtain r where "\<And>s. ?x token shortcode passkey s = (s @ [b2c_request w token shortcode passkey recipient (big_div (gross - payout_fee gross) 100)], r)"
          by (simp add: exchange_def)
        then show ?thesis using f(2) t c Inr by (cases r) (auto simp: run local_def)
      qed
    qed
  qed
qed

section \<open>Timestamps\<close>

text \<open>\<^verbatim>\<open>toISOString\<close> of a date with its milliseconds, for the years of four digits.\<close>

definition pad3 :: "nat \<Rightarrow> string" where
  "pad3 ms = replicate (3 - length (show_nat ms)) CHR ''0'' @ show_nat ms"

definition iso_text :: "utc_date \<Rightarrow> nat \<Rightarrow> string" where
  "iso_text d ms =
     show_nat (ud_year d) @ ''-'' @ padDate (ud_month d) @ ''-'' @ padDate (ud_day d) @ ''T'' @ padDate (ud_hours d) @ '':''
     @ padDate (ud_minutes d) @ '':'' @ padDate (ud_seconds d) @ ''.'' @ pad3 ms @ ''Z''"

lemma show_nat_has_digit: "0 < n \<Longrightarrow> \<exists>c \<in> set (show_nat n). c \<noteq> CHR ''0''"
proof (induction n rule: show_nat.induct)
  case (1 n)
  show ?case
  proof (cases "n < 10")
    case True
    have "list_all (\<lambda>n. n = 0 \<or> digit n \<noteq> CHR ''0'') [0..<10]" by code_simp
    then have "\<forall>n \<in> set [0..<10]. n = 0 \<or> digit n \<noteq> CHR ''0''" by (rule list_all_iff [THEN iffD1])
    moreover have "n \<in> set [0..<10]" using True by simp
    ultimately have "n = 0 \<or> digit n \<noteq> CHR ''0''" by (rule bspec)
    then have "digit n \<noteq> CHR ''0''" using "1.prems" by (elim disjE) simp_all
    moreover have "show_nat n = [digit n]" using True by (simp add: show_nat.simps [of n])
    ultimately show ?thesis by (metis list.set_intros(1))
  next
    case False
    then show ?thesis using 1 by (auto simp: show_nat.simps [of n])
  qed
qed

definition marks :: "char list" where
  "marks = ''-:.T''"

lemma show_nat_lacks: "c \<in> set marks \<Longrightarrow> c \<notin> set (show_nat n)"
proof -
  assume c: "c \<in> set marks"
  have "list_all (\<lambda>c. c \<notin> set ''0123456789'') marks" by code_simp
  then have "c \<notin> set ''0123456789''" using c unfolding list_all_iff by blast
  then show ?thesis using show_nat_digits [of n] unfolding list_all_iff by blast
qed

lemma marks_texts:
  assumes "c \<in> set marks"
  shows "c \<notin> set (show_nat n)" "c \<notin> set (padDate n)" "c \<notin> set (pad3 n)"
proof -
  have "CHR ''0'' \<notin> set marks" by code_simp
  then have "c \<noteq> CHR ''0''" using assms by blast
  then show "c \<notin> set (show_nat n)" "c \<notin> set (padDate n)" "c \<notin> set (pad3 n)"
    using show_nat_lacks [OF assms] by (simp_all add: padDate_def pad3_def)
qed

lemma mark_members: "CHR ''-'' \<in> set marks" "CHR '':'' \<in> set marks" "CHR ''.'' \<in> set marks" "CHR ''T'' \<in> set marks"
  by (simp_all add: marks_def)

lemmas lacks = marks_texts [OF mark_members(1)] marks_texts [OF mark_members(2)] marks_texts [OF mark_members(3)] marks_texts [OF mark_members(4)]

lemma filter_lacks:
  "CHR ''-'' \<notin> set s \<Longrightarrow> CHR '':'' \<notin> set s \<Longrightarrow> filter (\<lambda>c. c \<noteq> CHR ''-'' \<and> c \<noteq> CHR '':'') s = s"
  by (rule filter_True) auto

lemma remove_first_skip:
  "CHR ''.'' \<notin> set s \<Longrightarrow> remove_first (CHR ''.'' # t) (s @ u) = s @ remove_first (CHR ''.'' # t) u"
  by (induction s) (auto simp: begins_with_def)

text \<open>
  The timestamp the rail is sent keeps the letter T and the zone letter of the ISO text, and the milliseconds unless they are zero,
  so it is never the fourteen digits which the gateway's own adapter builds for the same instant and from which the rail checks the
  password.
\<close>

theorem handler_timestamp_form:
  assumes "ms < 1000"
  shows "handler_timestamp (iso_text d ms) =
       show_nat (ud_year d) @ padDate (ud_month d) @ padDate (ud_day d) @ ''T'' @ padDate (ud_hours d) @ padDate (ud_minutes d)
       @ padDate (ud_seconds d) @ (if ms = 0 then [] else ''.'' @ pad3 ms) @ ''Z''
     \<and> handler_timestamp (iso_text d ms) \<noteq> buildMpesaTimestamp d"
proof -
  let ?y = "show_nat (ud_year d)"
  let ?s = "?y @ padDate (ud_month d) @ padDate (ud_day d) @ ''T'' @ padDate (ud_hours d) @ padDate (ud_minutes d) @ padDate (ud_seconds d)"
  have len: "length (pad3 ms) = 3" using show_nat_length [of ms 2] assms by (simp add: pad3_def)
  have zero: "pad3 ms = ''000'' \<longleftrightarrow> ms = 0"
  proof
    assume eq: "pad3 ms = ''000''"
    show "ms = 0"
    proof (rule ccontr)
      assume "ms \<noteq> 0"
      then obtain c where "c \<in> set (show_nat ms)" "c \<noteq> CHR ''0''" using show_nat_has_digit [of ms] by auto
      then have "c \<in> set (pad3 ms)" by (simp add: pad3_def)
      then show False using eq \<open>c \<noteq> CHR ''0''\<close> by simp
    qed
  next
    assume "ms = 0"
    then show "pad3 ms = ''000''" by (simp add: pad3_def show_nat.simps [of 0]) code_simp
  qed
  have strip: "filter (\<lambda>c. c \<noteq> CHR ''-'' \<and> c \<noteq> CHR '':'') (iso_text d ms) = ?s @ CHR ''.'' # pad3 ms @ ''Z''"
    by (simp add: iso_text_def filter_lacks lacks)
  have none: "CHR ''.'' \<notin> set ?s"
    by (simp add: lacks)
  have tail: "remove_first ''.000'' (CHR ''.'' # pad3 ms @ ''Z'') = (if ms = 0 then [] else ''.'' @ pad3 ms) @ ''Z''"
  proof (cases "ms = 0")
    case True then show ?thesis using zero by (simp add: begins_with_def)
  next
    case False
    have "CHR ''.'' \<notin> set (pad3 ms @ ''Z'')" by (simp add: lacks)
    from remove_first_skip [OF this, of "''000''" "[]"] show ?thesis using False len zero by (simp add: begins_with_def)
  qed
  have form: "handler_timestamp (iso_text d ms) =
       show_nat (ud_year d) @ padDate (ud_month d) @ padDate (ud_day d) @ ''T'' @ padDate (ud_hours d) @ padDate (ud_minutes d)
       @ padDate (ud_seconds d) @ (if ms = 0 then [] else ''.'' @ pad3 ms) @ ''Z''"
    unfolding handler_timestamp_def strip remove_first_skip [OF none] tail by simp
  have t: "CHR ''T'' \<in> set (a @ b @ c @ ''T'' @ r)" for a b c r :: string by simp
  have "CHR ''T'' \<notin> set (buildMpesaTimestamp d)"
    by (simp add: buildMpesaTimestamp_def lacks)
  then have "handler_timestamp (iso_text d ms) \<noteq> buildMpesaTimestamp d" by (metis form t)
  then show ?thesis using form by blast
qed

theorem handler_timestamp_form_witness:
  "handler_timestamp (iso_text \<lparr>ud_year = 2026, ud_month = 1, ud_day = 2, ud_hours = 3, ud_minutes = 4, ud_seconds = 5\<rparr> 67)
     = ''20260102T030405.067Z''"
proof -
  let ?d = "\<lparr>ud_year = 2026, ud_month = 1, ud_day = 2, ud_hours = 3, ud_minutes = 4, ud_seconds = 5\<rparr>"
  have parts: "show_nat 2026 = ''2026''" "padDate 1 = ''01''" "padDate 2 = ''02''" "padDate 3 = ''03''" "padDate 4 = ''04''" "padDate 5 = ''05''"
    "pad3 67 = ''067''"
    by code_simp+
  from handler_timestamp_form [of 67 ?d] show ?thesis by (simp add: parts del: One_nat_def)
qed

end
