(* ===== verification/JsonText.thy ===== *)
theory JsonText
  imports Json
begin

text \<open>
  JSON text: \<^verbatim>\<open>JSON.parse\<close> as a reader from text to a value with the remaining text, the two
  layouts the code writes (\<^verbatim>\<open>JSON.stringify(v)\<close> and \<^verbatim>\<open>JSON.stringify(v, null, 2)\<close>) as instances
  of one printer, and the round trips between them. Characters are Latin-1, so an escape above
  \<^verbatim>\<open>\u00ff\<close> is not read, and numbers are integers, so a fraction or an exponent is not read
  either; the reader answers \<^term>\<open>None\<close> there, as on malformed text. Member names that are array
  indices keep their place here, where an engine moves them to the front.
\<close>

section \<open>Reading\<close>

definition json_space :: "char \<Rightarrow> bool" where
  "json_space c \<longleftrightarrow> of_char c \<in> ({9, 10, 13, 32} :: nat set)"

definition skip_space :: "string \<Rightarrow> string" where
  "skip_space s = dropWhile json_space s"

definition json_digit :: "char \<Rightarrow> bool" where
  "json_digit c \<longleftrightarrow> c \<in> set ''0123456789''"

definition backslash :: char where
  "backslash = char_of (92::nat)"

text \<open>The one-character escapes of a JSON string.\<close>

definition json_escape :: "char \<Rightarrow> char option" where
  "json_escape e =
     (if e = dquote \<or> e = backslash \<or> e = CHR ''/'' then Some e
      else if e = CHR ''b'' then Some (char_of (8::nat))
      else if e = CHR ''t'' then Some (char_of (9::nat))
      else if e = CHR ''n'' then Some (char_of (10::nat))
      else if e = CHR ''f'' then Some (char_of (12::nat))
      else if e = CHR ''r'' then Some (char_of (13::nat))
      else None)"

text \<open>One character of a string body, escapes resolved; control characters are refused.\<close>

fun read_char :: "string \<Rightarrow> (char \<times> string) option" where
  "read_char [] = None"
| "read_char (c # r) =
     (if c = backslash
      then (case r of
              [] \<Rightarrow> None
            | e # r' \<Rightarrow>
                (case json_escape e of
                   Some d \<Rightarrow> Some (d, r')
                 | None \<Rightarrow>
                     (case r' of
                        a # b # x # y # r'' \<Rightarrow>
                          (if e = CHR ''u'' \<and> a = CHR ''0'' \<and> b = CHR ''0'' \<and> hex_digit_ci x \<and> hex_digit_ci y
                           then Some (char_of (16 * hex_byte_value x + hex_byte_value y), r'')
                           else None)
                      | _ \<Rightarrow> None)))
      else if (of_char c :: nat) < 32 then None
      else Some (c, r))"

lemma read_char_shorter: "read_char s = Some (c, r) \<Longrightarrow> length r < length s"
  by (cases s) (auto split: if_splits list.splits option.splits)

text \<open>The body of a string up to its closing quote.\<close>

function read_string :: "string \<Rightarrow> (string \<times> string) option" where
  "read_string s =
     (case s of
        [] \<Rightarrow> None
      | c # r \<Rightarrow>
          (if c = dquote then Some ([], r)
           else (case read_char s of
                   None \<Rightarrow> None
                 | Some (d, r') \<Rightarrow>
                     (case read_string r' of None \<Rightarrow> None | Some (t, r'') \<Rightarrow> Some (d # t, r'')))))"
  by pat_completeness auto
termination
  by (relation "measure length") (auto dest: read_char_shorter simp del: read_char.simps)

declare read_string.simps [simp del]

definition json_digits_value :: "string \<Rightarrow> nat" where
  "json_digits_value ds = foldl (\<lambda>n c. 10 * n + (of_char c - 48)) 0 ds"

definition read_nat :: "string \<Rightarrow> (nat \<times> string) option" where
  "read_nat s =
     (let ds = takeWhile json_digit s; r = dropWhile json_digit s in
      if ds = [] \<or> (hd ds = CHR ''0'' \<and> tl ds \<noteq> []) \<or> (r \<noteq> [] \<and> hd r \<in> set ''.eE'') then None
      else Some (json_digits_value ds, r))"

definition read_number :: "string \<Rightarrow> (int \<times> string) option" where
  "read_number s =
     (if s \<noteq> [] \<and> hd s = CHR ''-''
      then map_option (\<lambda>(n, r). (- int n, r)) (read_nat (tl s))
      else map_option (\<lambda>(n, r). (int n, r)) (read_nat s))"

definition expect :: "string \<Rightarrow> 'a \<Rightarrow> string \<Rightarrow> ('a \<times> string) option" where
  "expect w v s = (if take (length w) s = w then Some (v, drop (length w) s) else None)"

text \<open>A duplicate name keeps its first place and its last value.\<close>

definition merge_members :: "(string \<times> jsval) list \<Rightarrow> (string \<times> jsval) list" where
  "merge_members ms = fold (\<lambda>(k, v). js_set k v) ms []"

text \<open>
  Values, elements and members. The number counts the nesting of calls; \<^term>\<open>2 * length s + 1\<close> is
  always enough, as shown below.
\<close>

fun read_value :: "nat \<Rightarrow> string \<Rightarrow> (jsval \<times> string) option"
  and read_elements :: "nat \<Rightarrow> string \<Rightarrow> (jsval list \<times> string) option"
  and read_members :: "nat \<Rightarrow> string \<Rightarrow> ((string \<times> jsval) list \<times> string) option"
where
  "read_value 0 s = None"
| "read_value (Suc n) s =
     (case skip_space s of
        [] \<Rightarrow> None
      | c # r \<Rightarrow>
          (if c = dquote then map_option (\<lambda>(t, r'). (JStr t, r')) (read_string r)
           else if c = CHR ''['' then
             (case skip_space r of
                [] \<Rightarrow> None
              | d # r' \<Rightarrow>
                  (if d = CHR '']'' then Some (JArr [], r')
                   else map_option (\<lambda>(vs, r''). (JArr vs, r'')) (read_elements n r)))
           else if c = CHR ''{'' then
             (case skip_space r of
                [] \<Rightarrow> None
              | d # r' \<Rightarrow>
                  (if d = CHR ''}'' then Some (JObj [], r')
                   else map_option (\<lambda>(ms, r''). (JObj (merge_members ms), r'')) (read_members n r)))
           else if c = CHR ''n'' then expect ''null'' JNull (c # r)
           else if c = CHR ''t'' then expect ''true'' (JBool True) (c # r)
           else if c = CHR ''f'' then expect ''false'' (JBool False) (c # r)
           else map_option (\<lambda>(i, r'). (JNum i, r')) (read_number (c # r))))"
| "read_elements 0 s = None"
| "read_elements (Suc n) s =
     (case read_value n s of
        None \<Rightarrow> None
      | Some (v, r) \<Rightarrow>
          (case skip_space r of
             [] \<Rightarrow> None
           | c # r' \<Rightarrow>
               (if c = CHR '']'' then Some ([v], r')
                else if c = CHR '','' then map_option (\<lambda>(vs, r''). (v # vs, r'')) (read_elements n r')
                else None)))"
| "read_members 0 s = None"
| "read_members (Suc n) s =
     (case skip_space s of
        [] \<Rightarrow> None
      | q # r \<Rightarrow>
          (if q \<noteq> dquote then None
           else (case read_string r of
              None \<Rightarrow> None
            | Some (k, r1) \<Rightarrow>
                (case skip_space r1 of
                   [] \<Rightarrow> None
                 | c # r2 \<Rightarrow>
                     (if c \<noteq> CHR '':'' then None
                      else (case read_value n r2 of
                         None \<Rightarrow> None
                       | Some (v, r3) \<Rightarrow>
                           (case skip_space r3 of
                              [] \<Rightarrow> None
                            | d # r4 \<Rightarrow>
                                (if d = CHR ''}'' then Some ([(k, v)], r4)
                                 else if d = CHR '','' then
                                   map_option (\<lambda>(ms, r5). ((k, v) # ms, r5)) (read_members n r4)
                                 else None))))))))"

text \<open>\<^verbatim>\<open>JSON.parse\<close>: one value and nothing but space after it; \<^term>\<open>None\<close> where it throws.\<close>

definition json_parse :: "string \<Rightarrow> jsval option" where
  "json_parse s =
     (case read_value (2 * length s + 1) s of
        Some (v, r) \<Rightarrow> (if skip_space r = [] then Some v else None)
      | None \<Rightarrow> None)"

section \<open>Enough nesting\<close>

declare read_char.simps [simp del]

lemma skip_space_le: "length (skip_space s) \<le> length s"
  by (simp add: skip_space_def length_dropWhile_le)

lemma skip_space_Cons_less: "skip_space s = c # r \<Longrightarrow> length r < length s"
  using skip_space_le [of s] by simp

lemma read_string_shorter: "read_string s = Some (t, r) \<Longrightarrow> length r < length s"
proof (induction s arbitrary: t r rule: read_string.induct)
  case (1 s)
  show ?case
    using "1.prems" "1.IH" read_char_shorter [of s]
    by (subst (asm) read_string.simps) (fastforce split: list.splits if_splits option.splits)
qed

lemma read_nat_shorter: "read_nat s = Some (n, r) \<Longrightarrow> length r < length s"
proof -
  assume a: "read_nat s = Some (n, r)"
  have "length s = length (takeWhile json_digit s) + length (dropWhile json_digit s)"
    by (metis length_append takeWhile_dropWhile_id)
  then show ?thesis
    using a by (cases "takeWhile json_digit s") (auto simp: read_nat_def Let_def split: if_splits)
qed

lemma read_number_shorter: "read_number s = Some (i, r) \<Longrightarrow> length r < length s"
  by (cases s) (auto simp: read_number_def dest!: read_nat_shorter split: if_splits)

lemma expect_shorter: "expect w v s = Some (u, r) \<Longrightarrow> w \<noteq> [] \<Longrightarrow> s \<noteq> [] \<Longrightarrow> length r < length s"
  by (auto simp: expect_def split: if_splits)

lemmas reader_shorter =
  skip_space_Cons_less read_string_shorter read_number_shorter expect_shorter

lemma readers_shorter:
  "\<forall>s v r. read_value n s = Some (v, r) \<longrightarrow> length r < length s"
  "\<forall>s vs r. read_elements n s = Some (vs, r) \<longrightarrow> length r < length s"
  "\<forall>s ms r. read_members n s = Some (ms, r) \<longrightarrow> length r < length s"
proof (induction n)
  case 0
  { case 1 then show ?case by simp }
  { case 2 then show ?case by simp }
  { case 3 then show ?case by simp }
next
  case (Suc n)
  { case 1
    show ?case
      using Suc.IH by (fastforce dest!: reader_shorter split: list.splits if_splits) }
  { case 2
    show ?case
      using Suc.IH by (fastforce dest!: reader_shorter split: list.splits if_splits option.splits) }
  { case 3
    show ?case
      using Suc.IH by (fastforce dest!: reader_shorter split: list.splits if_splits option.splits) }
qed

text \<open>What one level of each reader accepts, as relations between its calls.\<close>

lemma read_elements_iff:
  "read_elements (Suc n) s = Some x \<longleftrightarrow>
     (\<exists>v r c r'. read_value n s = Some (v, r) \<and> skip_space r = c # r' \<and>
        (c = CHR '']'' \<and> x = ([v], r') \<or>
         c = CHR '','' \<and> (\<exists>vs r''. read_elements n r' = Some (vs, r'') \<and> x = (v # vs, r''))))"
  by (subst read_elements.simps)
    (auto split: list.splits option.splits simp del: read_value.simps read_elements.simps)

lemma read_members_iff:
  "read_members (Suc n) s = Some x \<longleftrightarrow>
     (\<exists>r k r1 r2 v r3 d r4. skip_space s = dquote # r \<and> read_string r = Some (k, r1) \<and>
        skip_space r1 = CHR '':'' # r2 \<and> read_value n r2 = Some (v, r3) \<and> skip_space r3 = d # r4 \<and>
        (d = CHR ''}'' \<and> x = ([(k, v)], r4) \<or>
         d = CHR '','' \<and> (\<exists>ms r5. read_members n r4 = Some (ms, r5) \<and> x = ((k, v) # ms, r5))))"
  by (subst read_members.simps)
    (auto split: list.splits option.splits if_splits simp del: read_value.simps read_members.simps)

declare read_value.simps(2) [simp del] read_elements.simps(2) [simp del] read_members.simps(2) [simp del]

text \<open>
  If the calls one reader makes at nesting \<^term>\<open>n\<close> answer the same at nesting \<^term>\<open>m\<close>, so does the reader
  one level above.
\<close>

lemma read_value_transfer:
  assumes "read_value (Suc n) s = Some x"
    and "\<And>c r y. skip_space s = c # r \<Longrightarrow> read_elements n r = Some y \<Longrightarrow> read_elements m r = Some y"
    and "\<And>c r y. skip_space s = c # r \<Longrightarrow> read_members n r = Some y \<Longrightarrow> read_members m r = Some y"
  shows "read_value (Suc m) s = Some x"
proof (cases "skip_space s")
  case Nil
  then show ?thesis using assms(1) by (simp add: read_value.simps(2))
next
  case (Cons c r)
  have "read_elements m r = Some y" if "read_elements n r = Some y" for y
    by (rule assms(2) [OF Cons that])
  moreover have "read_members m r = Some y" if "read_members n r = Some y" for y
    by (rule assms(3) [OF Cons that])
  moreover have "read_value (Suc n) s = Some x" by (rule assms(1))
  ultimately show ?thesis
    using Cons by (auto simp: read_value.simps(2) split: list.splits if_splits)
qed

lemma read_elements_transfer:
  assumes "read_elements (Suc n) s = Some x"
    and "\<And>y. read_value n s = Some y \<Longrightarrow> read_value m s = Some y"
    and "\<And>v r c r' y. read_value n s = Some (v, r) \<Longrightarrow> skip_space r = c # r' \<Longrightarrow>
           read_elements n r' = Some y \<Longrightarrow> read_elements m r' = Some y"
  shows "read_elements (Suc m) s = Some x"
  using assms(1) unfolding read_elements_iff by (elim exE conjE) (blast intro: assms(2,3))

lemma read_members_transfer:
  assumes "read_members (Suc n) s = Some x"
    and "\<And>q r k r1 c r2 y. skip_space s = q # r \<Longrightarrow> read_string r = Some (k, r1) \<Longrightarrow>
           skip_space r1 = c # r2 \<Longrightarrow> read_value n r2 = Some y \<Longrightarrow> read_value m r2 = Some y"
    and "\<And>q r k r1 c r2 v r3 d r4 y. skip_space s = q # r \<Longrightarrow> read_string r = Some (k, r1) \<Longrightarrow>
           skip_space r1 = c # r2 \<Longrightarrow> read_value n r2 = Some (v, r3) \<Longrightarrow> skip_space r3 = d # r4 \<Longrightarrow>
           read_members n r4 = Some y \<Longrightarrow> read_members m r4 = Some y"
  shows "read_members (Suc m) s = Some x"
proof -
  obtain r k r1 r2 v r3 d r4 where
    a: "skip_space s = dquote # r" "read_string r = Some (k, r1)" "skip_space r1 = CHR '':'' # r2"
      "read_value n r2 = Some (v, r3)" "skip_space r3 = d # r4"
    and x: "d = CHR ''}'' \<and> x = ([(k, v)], r4) \<or>
      d = CHR '','' \<and> (\<exists>ms r5. read_members n r4 = Some (ms, r5) \<and> x = ((k, v) # ms, r5))"
    using assms(1) unfolding read_members_iff by blast
  have "read_value m r2 = Some (v, r3)" by (rule assms(2) [OF a(1-3,4)])
  moreover have "read_members m r4 = Some y" if "read_members n r4 = Some y" for y
    by (rule assms(3) [OF a that])
  ultimately show ?thesis
    using a x unfolding read_members_iff by auto
qed

lemma readers_step:
  "\<forall>s x. read_value n s = Some x \<longrightarrow> read_value (Suc n) s = Some x"
  "\<forall>s x. read_elements n s = Some x \<longrightarrow> read_elements (Suc n) s = Some x"
  "\<forall>s x. read_members n s = Some x \<longrightarrow> read_members (Suc n) s = Some x"
proof (induction n)
  case 0
  { case 1 then show ?case by simp }
  { case 2 then show ?case by simp }
  { case 3 then show ?case by simp }
next
  case (Suc n)
  { case 1 show ?case using Suc.IH by (blast intro: read_value_transfer) }
  { case 2 show ?case using Suc.IH by (blast intro: read_elements_transfer) }
  { case 3 show ?case using Suc.IH by (blast intro: read_members_transfer) }
qed

text \<open>More nesting never changes an answer.\<close>

lemma some_step_mono:
  assumes "\<And>n. f n = Some x \<Longrightarrow> f (Suc n) = Some x" "f n = Some x" "n \<le> m"
  shows "f m = Some x"
  using assms(3,2) by (induction m rule: dec_induct) (auto intro: assms(1))

lemma read_value_mono: "read_value n s = Some x \<Longrightarrow> n \<le> m \<Longrightarrow> read_value m s = Some x"
  by (rule some_step_mono [of "\<lambda>n. read_value n s"]) (use readers_step(1) in blast)+

lemma read_elements_mono: "read_elements n s = Some x \<Longrightarrow> n \<le> m \<Longrightarrow> read_elements m s = Some x"
  by (rule some_step_mono [of "\<lambda>n. read_elements n s"]) (use readers_step(2) in blast)+

lemma read_members_mono: "read_members n s = Some x \<Longrightarrow> n \<le> m \<Longrightarrow> read_members m s = Some x"
  by (rule some_step_mono [of "\<lambda>n. read_members n s"]) (use readers_step(3) in blast)+

lemma read_value_shorter: "read_value n s = Some (v, r) \<Longrightarrow> length r < length s"
  using readers_shorter(1) by blast

text \<open>An answer found with any nesting is found with the nesting \<^const>\<open>json_parse\<close> allows.\<close>

lemma readers_bounded:
  "\<forall>s x. read_value n s = Some x \<longrightarrow> read_value (2 * length s + 1) s = Some x"
  "\<forall>s x. read_elements n s = Some x \<longrightarrow> read_elements (2 * length s + 2) s = Some x"
  "\<forall>s x. read_members n s = Some x \<longrightarrow> read_members (2 * length s + 2) s = Some x"
proof (induction n)
  case 0
  { case 1 then show ?case by simp }
  { case 2 then show ?case by simp }
  { case 3 then show ?case by simp }
next
  case (Suc n)
  have val: "read_value m s = Some x" if "read_value n s = Some x" "2 * length s + 1 \<le> m" for s x m
    using that Suc.IH(1) read_value_mono by blast
  have els: "read_elements m s = Some x" if "read_elements n s = Some x" "2 * length s + 2 \<le> m" for s x m
    using that Suc.IH(2) read_elements_mono by blast
  have mem: "read_members m s = Some x" if "read_members n s = Some x" "2 * length s + 2 \<le> m" for s x m
    using that Suc.IH(3) read_members_mono by blast
  { case 1
    have "read_value (Suc (2 * length s)) s = Some x" if "read_value (Suc n) s = Some x" for s x
      by (rule read_value_transfer [OF that]) (erule els mem, auto dest!: skip_space_Cons_less)+
    then show ?case by simp }
  { case 2
    have "read_elements (Suc (2 * length s + 1)) s = Some x" if "read_elements (Suc n) s = Some x" for s x
      by (rule read_elements_transfer [OF that])
        (erule els val, auto dest!: skip_space_Cons_less read_value_shorter)+
    then show ?case by simp }
  { case 3
    have "read_members (Suc (2 * length s + 1)) s = Some x" if "read_members (Suc n) s = Some x" for s x
      by (rule read_members_transfer [OF that])
        (erule mem val, auto dest!: skip_space_Cons_less read_value_shorter read_string_shorter)+
    then show ?case by simp }
qed

text \<open>So \<^const>\<open>json_parse\<close> answers whenever any nesting does.\<close>

lemma json_parse_eq:
  assumes "read_value n s = Some (v, r)" "skip_space r = []"
  shows "json_parse s = Some v"
  using assms readers_bounded(1) [of n] by (simp add: json_parse_def)

section \<open>Strings and numbers are read back\<close>

lemma hex_lower_ci: "n < 16 \<Longrightarrow> hex_digit_ci (hex_lower n)"
proof -
  assume "n < 16"
  then have "n \<in> {0,1,2,3,4,5,6,7,8,9,10,11,12,13,14,15}" by (simp, presburger)
  then show ?thesis by (auto simp: hex_digit_ci_def hex_lower_def char_eq_code)
qed

lemma hex_byte_value_lower: "n < 16 \<Longrightarrow> hex_byte_value (hex_lower n) = n"
  by (simp add: hex_byte_value_def hex_lower_def Let_def)

lemma read_quoted_char: "read_char (quote_char c @ r) = Some (c, r)"
proof -
  obtain n :: nat where n: "c = char_of n" "n < 256"
    by (metis char_of_char of_char_of nat_of_char_less_256)
  then have code: "of_char c = n" by simp
  have hex: "16 * (n div 16) + n mod 16 = n" by simp
  show ?thesis
    using n code
    by (auto simp: quote_char_def read_char.simps Let_def char_eq_code json_escape_def backslash_def dquote_def
        hex_byte_value_lower hex_lower_ci hex)
qed

lemma read_quoted_body: "read_string (concat (map quote_char s) @ dquote # r) = Some (s, r)"
proof (induction s)
  case Nil
  show ?case by (subst read_string.simps) simp
next
  case (Cons c s)
  obtain e t where q: "quote_char c = e # t" by (cases "quote_char c") auto
  then have "e \<noteq> dquote" using quote_char_not_dquote [of c] by simp
  moreover have "read_char (e # t @ concat (map quote_char s) @ dquote # r) =
      Some (c, concat (map quote_char s) @ dquote # r)"
    using read_quoted_char [of c "concat (map quote_char s) @ dquote # r"] q by simp
  ultimately show ?case
    using Cons.IH q by (subst read_string.simps) simp
qed

lemma json_digit_code: "json_digit c \<longleftrightarrow> 48 \<le> (of_char c :: nat) \<and> (of_char c :: nat) \<le> 57"
proof -
  have "(of_char c :: nat) \<in> {48,49,50,51,52,53,54,55,56,57} \<longleftrightarrow> 48 \<le> (of_char c :: nat) \<and> (of_char c :: nat) \<le> 57"
    by (simp, presburger)
  then show ?thesis by (simp add: json_digit_def char_eq_code)
qed

lemma show_nat_all_digits: "list_all json_digit (show_nat n)"
proof (induction n rule: show_nat.induct)
  case (1 n)
  have "json_digit (digit k)" if "k < 10" for k using that by (simp add: json_digit_code)
  then show ?case using 1 by (subst show_nat.simps) simp
qed

lemma json_digits_value_snoc: "json_digits_value (ds @ [c]) = 10 * json_digits_value ds + (of_char c - 48)"
  by (simp add: json_digits_value_def)

lemma json_digits_value_show_nat: "json_digits_value (show_nat n) = n"
proof (induction n rule: show_nat.induct)
  case (1 n)
  show ?case
    using 1 by (subst show_nat.simps) (auto simp: json_digits_value_snoc, simp add: json_digits_value_def)
qed

lemma show_nat_head:
  "show_nat n = c # t \<Longrightarrow> c = CHR ''0'' \<Longrightarrow> t = []"
proof (induction n arbitrary: c t rule: show_nat.induct)
  case (1 n)
  show ?case
  proof (cases "n < 10")
    case True
    then show ?thesis using 1 by (subst (asm) (2) show_nat.simps) simp
  next
    case False
    obtain c' t' where q: "show_nat (n div 10) = c' # t'"
      by (metis list.exhaust show_nat.simps snoc_eq_iff_butlast list.distinct(1))
    have s: "show_nat n = show_nat (n div 10) @ [digit (n mod 10)]" using False by (subst show_nat.simps) simp
    have "c' = CHR ''0''" using 1 s q by simp
    then have "t' = []" using "1.IH" [OF False q] by simp
    then have "json_digits_value (show_nat (n div 10)) = 0" using q \<open>c' = _\<close> by (simp add: json_digits_value_def)
    then show ?thesis using False by (simp add: json_digits_value_show_nat)
  qed
qed

definition delimited :: "string \<Rightarrow> bool" where
  "delimited r \<longleftrightarrow> r = [] \<or> json_space (hd r) \<or> hd r \<in> set '',]}''"

lemma delimited_not_number: "delimited r \<Longrightarrow> r = [] \<or> \<not> json_digit (hd r) \<and> hd r \<notin> set ''.eE''"
  by (auto simp: delimited_def json_space_def json_digit_code char_eq_code)

lemma take_drop_digits:
  assumes "list_all json_digit ds" "delimited r"
  shows "takeWhile json_digit (ds @ r) = ds \<and> dropWhile json_digit (ds @ r) = r"
proof -
  have "takeWhile json_digit r = []" "dropWhile json_digit r = r"
    using delimited_not_number [OF assms(2)] by (cases r; auto)+
  then show ?thesis
    using assms(1) by (simp add: takeWhile_append2 dropWhile_append2 list_all_iff)
qed

lemma show_nat_nonempty [simp]: "show_nat n \<noteq> []"
  by (subst show_nat.simps) simp

lemma show_nat_leading_zero: "hd (show_nat n) = CHR ''0'' \<Longrightarrow> tl (show_nat n) = []"
  by (cases "show_nat n") (auto dest: show_nat_head)

lemma read_shown_nat: "delimited r \<Longrightarrow> read_nat (show_nat n @ r) = Some (n, r)"
  using take_drop_digits [OF show_nat_all_digits [of n], of r] show_nat_leading_zero [of n]
    delimited_not_number [of r]
  by (auto simp: read_nat_def Let_def json_digits_value_show_nat)

lemma show_nat_first: "\<exists>c t. show_nat n = c # t \<and> json_digit c"
  using show_nat_all_digits [of n] by (cases "show_nat n") auto

lemma read_shown_int: "delimited r \<Longrightarrow> read_number (show_int i @ r) = Some (i, r)"
proof -
  assume r: "delimited r"
  obtain c t where "show_nat (nat i) = c # t" "json_digit c" using show_nat_first by blast
  moreover from this have "c \<noteq> CHR ''-''" by (auto simp: json_digit_def)
  ultimately show ?thesis
    using read_shown_nat [OF r, of "nat i"] read_shown_nat [OF r, of "nat (- i)"]
    by (auto simp: read_number_def show_int_def)
qed

section \<open>Writing\<close>

text \<open>
  What \<^verbatim>\<open>JSON.stringify\<close> writes of a value: members that are \<^verbatim>\<open>undefined\<close> are left out and such
  elements become \<^verbatim>\<open>null\<close>.
\<close>

fun json_clean :: "jsval \<Rightarrow> jsval" where
  "json_clean (JArr vs) = JArr (map (\<lambda>v. if v = JUndefined then JNull else json_clean v) vs)"
| "json_clean (JObj ms) = JObj (map (\<lambda>(k, v). (k, json_clean v)) (filter (\<lambda>(k, v). v \<noteq> JUndefined) ms))"
| "json_clean v = v"

text \<open>The printer over a layout: the break before an item at a depth, and the text between name and value.\<close>

fun print_json :: "(nat \<Rightarrow> string) \<Rightarrow> string \<Rightarrow> nat \<Rightarrow> jsval \<Rightarrow> string" where
  "print_json brk sep d JUndefined = ''undefined''"
| "print_json brk sep d JNull = ''null''"
| "print_json brk sep d (JBool b) = (if b then ''true'' else ''false'')"
| "print_json brk sep d (JNum i) = show_int i"
| "print_json brk sep d (JStr s) = js_quote s"
| "print_json brk sep d (JArr vs) =
     (if vs = [] then ''[]''
      else ''['' @ brk (Suc d) @ join_with ('','' @ brk (Suc d)) (map (print_json brk sep (Suc d)) vs) @
           brk d @ '']'')"
| "print_json brk sep d (JObj ms) =
     (if ms = [] then ''{}''
      else ''{'' @ brk (Suc d) @
           join_with ('','' @ brk (Suc d)) (map (\<lambda>(k, v). js_quote k @ sep @ print_json brk sep (Suc d) v) ms) @
           brk d @ ''}'')"

definition no_break :: "nat \<Rightarrow> string" where
  "no_break d = []"

definition two_space_break :: "nat \<Rightarrow> string" where
  "two_space_break d = char_of (10::nat) # replicate (2 * d) CHR '' ''"

text \<open>\<^verbatim>\<open>JSON.stringify(v, null, 2)\<close>.\<close>

definition json_stringify_pretty :: "jsval \<Rightarrow> string" where
  "json_stringify_pretty v = print_json two_space_break '': '' 0 (json_clean v)"

text \<open>A value JSON can hold: nothing is \<^verbatim>\<open>undefined\<close> and no object has a name twice.\<close>

fun json_plain :: "jsval \<Rightarrow> bool" where
  "json_plain JUndefined = False"
| "json_plain JNull = True"
| "json_plain (JBool b) = True"
| "json_plain (JNum i) = True"
| "json_plain (JStr s) = True"
| "json_plain (JArr vs) = list_all json_plain vs"
| "json_plain (JObj ms) = (distinct (map fst ms) \<and> list_all (\<lambda>(k, v). json_plain v) ms)"

lemma json_clean_plain [simp]: "json_plain v \<Longrightarrow> json_clean v = v"
proof (induction v rule: json_clean.induct)
  case (1 vs)
  have "v \<noteq> JUndefined \<and> json_clean v = v" if "v \<in> set vs" for v
    using that 1 by (cases "v = JUndefined") (auto simp: list_all_iff)
  then show ?case by (simp add: map_idI)
next
  case (2 ms)
  have "v \<noteq> JUndefined \<and> json_clean v = v" if "(k, v) \<in> set ms" for k v
    using that 2 by (fastforce simp: list_all_iff)
  then have "filter (\<lambda>(k, v). v \<noteq> JUndefined) ms = ms" "map (\<lambda>(k, v). (k, json_clean v)) ms = ms"
    by (auto simp: filter_id_conv intro!: map_idI)
  then show ?case by simp
qed auto

text \<open>The compact printer is the printer without breaks.\<close>

lemma json_stringify_print: "json_stringify v = print_json no_break '':'' d (json_clean v)"
proof (induction v arbitrary: d rule: json_clean.induct)
  case (1 vs)
  have "map (\<lambda>v. if v = JUndefined then ''null'' else json_stringify v) vs =
        map (print_json no_break '':'' (Suc d)) (map (\<lambda>v. if v = JUndefined then JNull else json_clean v) vs)"
    using 1 by (auto simp: comp_def)
  then show ?case by (simp only: json_stringify.simps json_clean.simps print_json.simps) (simp add: no_break_def)
next
  case (2 ms)
  have "map (\<lambda>(k, v). js_quote k @ '':'' @ json_stringify v) (filter (\<lambda>(k, v). v \<noteq> JUndefined) ms) =
        map (\<lambda>(k, v). js_quote k @ '':'' @ print_json no_break '':'' (Suc d) v)
          (map (\<lambda>(k, v). (k, json_clean v)) (filter (\<lambda>(k, v). v \<noteq> JUndefined) ms))"
    using 2 by (auto simp: comp_def)
  then show ?case by (simp only: json_stringify.simps json_clean.simps print_json.simps) (simp add: no_break_def)
qed auto

section \<open>What is written is read back\<close>

lemma skip_space_print [simp]: "list_all json_space w \<Longrightarrow> skip_space (w @ s) = skip_space s"
  by (simp add: skip_space_def list_all_iff dropWhile_append2)

lemma read_value_leading_space: "list_all json_space w \<Longrightarrow> read_value n (w @ s) = read_value n s"
  by (cases n) (simp_all add: read_value.simps(2))

lemma read_members_leading_space: "list_all json_space w \<Longrightarrow> read_members n (w @ s) = read_members n s"
  by (cases n) (simp_all add: read_members.simps(2))

lemma read_elements_leading_space: "list_all json_space w \<Longrightarrow> read_elements n (w @ s) = read_elements n s"
  by (cases n) (simp_all add: read_elements.simps(2) read_value_leading_space)

definition value_head :: "char \<Rightarrow> bool" where
  "value_head c \<longleftrightarrow> \<not> json_space c \<and> c \<notin> set '',]}:''"

lemma value_head_digit: "json_digit c \<Longrightarrow> value_head c"
  by (auto simp: value_head_def json_digit_code json_space_def char_eq_code)

lemma value_head_literals [simp]:
  "value_head dquote" "value_head CHR ''['' " "value_head CHR ''{''" "value_head CHR ''n''"
  "value_head CHR ''t''" "value_head CHR ''f''" "value_head CHR ''-''"
  by (simp_all add: value_head_def json_space_def dquote_def char_eq_code)

lemma print_json_head: "json_plain v \<Longrightarrow> \<exists>c t. print_json brk sep d v = c # t \<and> value_head c"
proof (cases v)
  case (JNum i)
  obtain c t where "show_nat (nat i) = c # t" "json_digit c" using show_nat_first by blast
  then show ?thesis using JNum by (auto simp: show_int_def value_head_digit)
qed (auto simp: js_quote_def)

lemma value_head_skip: "value_head c \<Longrightarrow> skip_space (c # s) = c # s"
  by (simp add: value_head_def skip_space_def)

lemma js_set_new_key: "k \<notin> set (js_keys m) \<Longrightarrow> js_set k v m = m @ [(k, v)]"
  by (induction m) auto

lemma merge_distinct: "distinct (map fst ms) \<Longrightarrow> merge_members ms = ms"
proof -
  have "fold (\<lambda>(k, v). js_set k v) ms acc = acc @ ms" if "distinct (map fst (acc @ ms))" for acc
    using that by (induction ms arbitrary: acc) (auto simp: js_set_new_key)
  then show "distinct (map fst ms) \<Longrightarrow> ?thesis" by (simp add: merge_members_def)
qed

lemma dquote_apart [simp]:
  "CHR ''['' \<noteq> dquote" "CHR ''{'' \<noteq> dquote" "CHR ''n'' \<noteq> dquote" "CHR ''t'' \<noteq> dquote" "CHR ''f'' \<noteq> dquote"
  "dquote \<noteq> CHR ''}''"
  by (simp_all add: dquote_def char_eq_code)

locale json_layout =
  fixes brk :: "nat \<Rightarrow> string" and sep :: string
  assumes brk_space: "list_all json_space (brk d)"
    and sep_colon: "\<exists>w. sep = CHR '':'' # w \<and> list_all json_space w"
begin

lemma delimited_closing [simp]: "delimited (brk d @ CHR '']'' # r)" "delimited (brk d @ CHR ''}'' # r)"
  using brk_space [of d] by (cases "brk d"; simp add: delimited_def)+

lemma skip_closing [simp]:
  "skip_space (brk d @ CHR '']'' # r) = CHR '']'' # r" "skip_space (brk d @ CHR ''}'' # r) = CHR ''}'' # r"
  using brk_space [of d] by (simp_all add: skip_space_def list_all_iff dropWhile_append2 json_space_def)

lemma read_printed_elements:
  assumes "vs \<noteq> []"
    and each: "\<And>v r. v \<in> set vs \<Longrightarrow> delimited r \<Longrightarrow> \<exists>n. read_value n (p v @ r) = Some (v, r)"
  shows "\<exists>n. read_elements n (join_with ('','' @ brk e) (map p vs) @ brk d @ CHR '']'' # r) = Some (vs, r)"
  using assms
proof (induction vs rule: list_nonempty_induct)
  case (single v)
  obtain n where "read_value n (p v @ brk d @ CHR '']'' # r) = Some (v, brk d @ CHR '']'' # r)"
    using single(1) [of v "brk d @ CHR '']'' # r"] by auto
  then have "read_elements (Suc n) (p v @ brk d @ CHR '']'' # r) = Some ([v], r)"
    by (simp add: read_elements.simps(2))
  then show ?case by auto
next
  case (cons v vs)
  let ?rest = "join_with ('','' @ brk e) (map p vs) @ brk d @ CHR '']'' # r"
  obtain n where n: "read_elements n ?rest = Some (vs, r)" using cons by auto
  obtain m where m: "read_value m (p v @ CHR '','' # brk e @ ?rest) = Some (v, CHR '','' # brk e @ ?rest)"
    using cons(3) [of v "CHR '','' # brk e @ ?rest"] by (auto simp: delimited_def)
  have "read_value (max m n) (p v @ CHR '','' # brk e @ ?rest) = Some (v, CHR '','' # brk e @ ?rest)"
    by (rule read_value_mono [OF m]) simp
  moreover have "read_elements (max m n) (brk e @ ?rest) = Some (vs, r)"
    using read_elements_mono [OF n, of "max m n"] by (simp add: read_elements_leading_space brk_space)
  moreover have "skip_space (CHR '','' # t) = CHR '','' # t" for t
    by (simp add: skip_space_def json_space_def)
  ultimately have "read_elements (Suc (max m n)) (p v @ CHR '','' # brk e @ ?rest) = Some (v # vs, r)"
    by (simp add: read_elements.simps(2))
  moreover have "join_with ('','' @ brk e) (map p (v # vs)) @ brk d @ CHR '']'' # r = p v @ CHR '','' # brk e @ ?rest"
    using cons(1) by (cases vs) auto
  ultimately show ?case by metis
qed

lemma read_printed_members:
  assumes "ms \<noteq> []"
    and each: "\<And>k v r. (k, v) \<in> set ms \<Longrightarrow> delimited r \<Longrightarrow> \<exists>n. read_value n (p v @ r) = Some (v, r)"
  shows "\<exists>n. read_members n
    (join_with ('','' @ brk e) (map (\<lambda>(k, v). js_quote k @ sep @ p v) ms) @ brk d @ CHR ''}'' # r) = Some (ms, r)"
proof -
  obtain w where w: "sep = CHR '':'' # w" "list_all json_space w" using sep_colon by blast
  have skip: "skip_space (CHR '':'' # t) = CHR '':'' # t" "skip_space (CHR '','' # t) = CHR '','' # t"
    "skip_space (dquote # t) = dquote # t" for t
    by (simp_all add: skip_space_def json_space_def dquote_def)
  have one: "read_members (Suc n) (js_quote k @ sep @ s) =
      (case read_value n s of
         None \<Rightarrow> None
       | Some (v, r3) \<Rightarrow>
           (case skip_space r3 of
              [] \<Rightarrow> None
            | d # r4 \<Rightarrow>
                (if d = CHR ''}'' then Some ([(k, v)], r4)
                 else if d = CHR '','' then
                   map_option (\<lambda>(ms, r5). ((k, v) # ms, r5)) (read_members n r4)
                 else None)))" for n k s
    using w by (simp add: read_members.simps(2) js_quote_def skip read_quoted_body read_value_leading_space)
  show ?thesis
    using assms
  proof (induction ms rule: list_nonempty_induct)
    case (single m)
    obtain k v where m: "m = (k, v)" by (cases m)
    obtain n where "read_value n (p v @ brk d @ CHR ''}'' # r) = Some (v, brk d @ CHR ''}'' # r)"
      using single(1) [of k v "brk d @ CHR ''}'' # r"] m by auto
    then have "read_members (Suc n) (js_quote k @ sep @ p v @ brk d @ CHR ''}'' # r) = Some ([(k, v)], r)"
      unfolding one by simp
    then show ?case using m by auto
  next
    case (cons m ms)
    let ?rest = "join_with ('','' @ brk e) (map (\<lambda>(k, v). js_quote k @ sep @ p v) ms) @ brk d @ CHR ''}'' # r"
    obtain k v where kv: "m = (k, v)" by (cases m)
    have "\<exists>n. read_members n ?rest = Some (ms, r)"
      by (rule cons(2)) (use cons(3) in auto)
    then obtain n where n: "read_members n ?rest = Some (ms, r)" by blast
    obtain l where l: "read_value l (p v @ CHR '','' # brk e @ ?rest) = Some (v, CHR '','' # brk e @ ?rest)"
      using cons(3) [of k v "CHR '','' # brk e @ ?rest"] kv by (auto simp: delimited_def)
    have "read_value (max l n) (p v @ CHR '','' # brk e @ ?rest) = Some (v, CHR '','' # brk e @ ?rest)"
      by (rule read_value_mono [OF l]) simp
    moreover have "read_members (max l n) (brk e @ ?rest) = Some (ms, r)"
      using read_members_mono [OF n, of "max l n"] by (simp add: read_members_leading_space brk_space)
    ultimately have "read_members (Suc (max l n)) (js_quote k @ sep @ p v @ CHR '','' # brk e @ ?rest) = Some (m # ms, r)"
      unfolding one by (simp add: skip kv)
    moreover have "join_with ('','' @ brk e) (map (\<lambda>(k, v). js_quote k @ sep @ p v) (m # ms)) @ brk d @ CHR ''}'' # r =
        js_quote k @ sep @ p v @ CHR '','' # brk e @ ?rest"
      using cons(1) kv by (cases ms) auto
    ultimately show ?case by metis
  qed
qed

lemma read_printed_value:
  "json_plain v \<Longrightarrow> delimited r \<Longrightarrow> \<exists>n. read_value n (print_json brk sep d v @ r) = Some (v, r)"
proof (induction v arbitrary: d r rule: json_plain.induct)
  case (6 vs)
  show ?case
  proof (cases vs)
    case Nil
    then have "read_value 1 (print_json brk sep d (JArr vs) @ r) = Some (JArr vs, r)"
      by (simp add: read_value.simps(2) skip_space_def json_space_def)
    then show ?thesis by blast
  next
    case (Cons v ws)
    let ?body = "join_with ('','' @ brk (Suc d)) (map (print_json brk sep (Suc d)) vs) @ brk d @ CHR '']'' # r"
    have "\<exists>n. read_elements n ?body = Some (vs, r)"
      by (rule read_printed_elements) (use 6 Cons in \<open>auto simp: list_all_iff\<close>)
    then obtain n where n: "read_elements n ?body = Some (vs, r)" by blast
    obtain c t where c: "?body = c # t" "value_head c"
      using print_json_head [of v brk sep "Suc d"] 6(2) Cons by (cases ws) auto
    have "read_value (Suc n) (print_json brk sep d (JArr vs) @ r) = Some (JArr vs, r)"
      using n c value_head_skip [OF c(2)] Cons
      by (simp add: read_value.simps(2) skip_space_def [of "CHR ''['' # _"] json_space_def [of "CHR ''[''"] brk_space
          read_elements_leading_space value_head_def)
    then show ?thesis by blast
  qed
next
  case (7 ms)
  show ?case
  proof (cases ms)
    case Nil
    then have "read_value 1 (print_json brk sep d (JObj ms) @ r) = Some (JObj ms, r)"
      by (simp add: read_value.simps(2) skip_space_def json_space_def)
    then show ?thesis by blast
  next
    case (Cons m ws)
    let ?body = "join_with ('','' @ brk (Suc d)) (map (\<lambda>(k, v). js_quote k @ sep @ print_json brk sep (Suc d) v) ms) @
      brk d @ CHR ''}'' # r"
    have "\<exists>n. read_value n (print_json brk sep (Suc d) v @ r') = Some (v, r')"
      if "(k, v) \<in> set ms" "delimited r'" for k v r'
    proof (rule "7.IH" [OF that(1) refl _ that(2)])
      show "json_plain v" using "7.prems"(1) that(1) by (auto simp: list_all_iff)
    qed
    then have "\<exists>n. read_members n ?body = Some (ms, r)"
      using read_printed_members [of ms "print_json brk sep (Suc d)" "Suc d" d r] Cons by simp
    then obtain n where n: "read_members n ?body = Some (ms, r)" by blast
    obtain t where c: "?body = dquote # t" using Cons by (cases m; cases ws) (auto simp: js_quote_def)
    have "read_value (Suc n) (print_json brk sep d (JObj ms) @ r) = Some (JObj ms, r)"
      using n c value_head_skip [of dquote] Cons 7(2)
      by (simp add: read_value.simps(2) skip_space_def [of "CHR ''{'' # _"] json_space_def [of "CHR ''{''"] brk_space
          read_members_leading_space merge_distinct)
    then show ?thesis by blast
  qed
next
  case 2
  show ?case by (rule exI [of _ 1]) (simp add: read_value.simps(2) skip_space_def json_space_def expect_def)
next
  case (3 b)
  show ?case by (rule exI [of _ 1]) (simp add: read_value.simps(2) skip_space_def json_space_def expect_def)
next
  case (4 i)
  obtain c t where c: "show_int i = c # t" "value_head c" "c = CHR ''-'' \<or> json_digit c"
    using show_nat_first [of "nat i"] value_head_digit by (cases "i < 0") (auto simp: show_int_def)
  then have "read_value 1 (show_int i @ r) = Some (JNum i, r)"
    using value_head_skip [OF c(2), of "t @ r"] read_shown_int [OF 4(2), of i]
    by (auto simp: read_value.simps(2) dquote_def json_digit_code char_eq_code)
  then show ?case by auto
next
  case (5 s)
  have "read_value 1 (js_quote s @ r) = Some (JStr s, r)"
    using value_head_skip [of dquote] read_quoted_body [of s r] by (simp add: read_value.simps(2) js_quote_def)
  then show ?case by auto
qed simp

lemma parse_printed: "json_plain v \<Longrightarrow> json_parse (print_json brk sep d v) = Some v"
  using read_printed_value [of v "[]" d] json_parse_eq [of _ _ v "[]"]
  by (auto simp: delimited_def skip_space_def)

end

interpretation compact: json_layout no_break "'':''"
  by unfold_locales (auto simp: no_break_def)

interpretation pretty: json_layout two_space_break "'': ''"
proof
  show "list_all json_space (two_space_break d)" for d
    by (auto simp: two_space_break_def json_space_def list_all_iff)
  show "\<exists>w. '': '' = CHR '':'' # w \<and> list_all json_space w"
    by (auto simp: json_space_def)
qed

lemma json_stringify_plain: "json_plain v \<Longrightarrow> json_stringify v = print_json no_break '':'' 0 v"
  using json_stringify_print [of v 0] by simp

lemma parse_json_stringify: "json_plain v \<Longrightarrow> json_parse (json_stringify v) = Some v"
  by (simp add: json_stringify_plain compact.parse_printed)

lemma parse_json_pretty: "json_plain v \<Longrightarrow> json_parse (json_stringify_pretty v) = Some v"
  by (simp add: json_stringify_pretty_def pretty.parse_printed)

section \<open>The canonical text identifies the value\<close>

text \<open>A value with the members of every object in key order.\<close>

fun canonical_value :: "jsval \<Rightarrow> jsval" where
  "canonical_value (JArr vs) = JArr (map canonical_value vs)"
| "canonical_value (JObj ms) = JObj (sort_key fst (map (\<lambda>(k, v). (k, canonical_value v)) ms))"
| "canonical_value v = v"

lemma map_insort_values:
  "map (\<lambda>(k, v). (k, f v)) (insort_key fst p ms) = insort_key fst (case p of (k, v) \<Rightarrow> (k, f v)) (map (\<lambda>(k, v). (k, f v)) ms)"
  by (induction ms) (auto split: prod.splits)

lemma map_sort_values:
  "map (\<lambda>(k, v). (k, f v)) (sort_key fst ms) = sort_key fst (map (\<lambda>(k, v). (k, f v)) ms)"
  by (induction ms) (simp_all add: map_insort_values)

lemma distinct_keys_sort: "distinct (map fst (sort_key f ms)) \<longleftrightarrow> distinct (map fst ms)"
  by (rule mset_eq_imp_distinct_iff) (simp only: mset_map mset_sort)

lemma canonical_plain: "json_plain v \<Longrightarrow> json_plain (canonical_value v)"
proof (induction v rule: canonical_value.induct)
  case (2 ms)
  have vals: "json_plain (canonical_value v)" if "(k, v) \<in> set ms" for k v
    using 2 that by (fastforce simp: list_all_iff)
  have "map fst (map (\<lambda>(k, v). (k, canonical_value v)) ms) = map fst ms" by (induction ms) auto
  then have "distinct (map fst (sort_key fst (map (\<lambda>(k, v). (k, canonical_value v)) ms)))"
    using 2(2) by (simp only: distinct_keys_sort json_plain.simps)
  then show ?case
    using vals by (auto simp: list_all_iff)
qed (auto simp: list_all_iff)

text \<open>The canonical text is the compact text of that value.\<close>

lemma stableStringify_canonical: "json_plain v \<Longrightarrow> stableStringify v = json_stringify (canonical_value v)"
proof (induction v rule: canonical_value.induct)
  case (1 vs)
  have "stableStringify v = (if canonical_value v = JUndefined then ''null'' else json_stringify (canonical_value v))"
    if "v \<in> set vs" for v
    using 1 that canonical_plain [of v] by (cases "canonical_value v") (auto simp: list_all_iff)
  then show ?case by (simp add: comp_def cong: map_cong)
next
  case (2 ms)
  let ?c = "map (\<lambda>(k, v). (k, canonical_value v)) ms"
  have ih: "stableStringify v = json_stringify (canonical_value v)" if "(k, v) \<in> set ms" for k v
    using 2 that by (fastforce simp: list_all_iff)
  have "map (\<lambda>(k, v). (k, stableStringify v)) ms = map (\<lambda>(k, v). (k, json_stringify v)) ?c"
    using ih by auto
  then have a: "sort_key fst (map (\<lambda>(k, v). (k, stableStringify v)) ms) =
      map (\<lambda>(k, v). (k, json_stringify v)) (sort_key fst ?c)"
    by (simp only: map_sort_values)
  have "json_plain (JObj (sort_key fst ?c))" using canonical_plain [OF 2(2)] by simp
  then have f: "filter (\<lambda>(k, v). v \<noteq> JUndefined) (sort_key fst ?c) = sort_key fst ?c"
    by (auto simp: filter_id_conv list_all_iff)
  have m: "map (\<lambda>(k, s). js_quote k @ '':'' @ s) (map (\<lambda>(k, v). (k, json_stringify v)) xs) =
      map (\<lambda>(k, v). js_quote k @ '':'' @ json_stringify v) xs" for xs
    by (induction xs) auto
  show ?case
    by (simp only: stableStringify.simps canonical_value.simps json_stringify.simps a f m)
qed auto

lemma parse_stableStringify: "json_plain v \<Longrightarrow> json_parse (stableStringify v) = Some (canonical_value v)"
  by (simp add: stableStringify_canonical parse_json_stringify canonical_plain)

lemma canonical_text_identifies_facts:
  assumes "json_plain v" "json_plain w"
  shows "json_parse (stableStringify v) = Some (canonical_value v)"
    and "stableStringify v = stableStringify w \<longleftrightarrow> canonical_value v = canonical_value w"
    and "sha256HexFromJsonStable h v = sha256HexFromJsonStable h w \<longleftrightarrow>
      canonical_value v = canonical_value w \<or>
      stableStringify v \<noteq> stableStringify w \<and> h (stableStringify v) = h (stableStringify w)"
proof -
  show p: "json_parse (stableStringify v) = Some (canonical_value v)"
    by (rule parse_stableStringify [OF assms(1)])
  show i: "stableStringify v = stableStringify w \<longleftrightarrow> canonical_value v = canonical_value w"
    using p parse_stableStringify [OF assms(2)] stableStringify_canonical [OF assms(1)]
      stableStringify_canonical [OF assms(2)] by (metis option.inject)
  show "sha256HexFromJsonStable h v = sha256HexFromJsonStable h w \<longleftrightarrow>
      canonical_value v = canonical_value w \<or>
      stableStringify v \<noteq> stableStringify w \<and> h (stableStringify v) = h (stableStringify w)"
    using i by (auto simp: sha256HexFromJsonStable_def)
qed

text \<open>
  C24. Canonical text is faithful: \<^verbatim>\<open>JSON.parse\<close> of the text \<^verbatim>\<open>stableStringify\<close> gives a value is that
  value with the members of its objects in key order, so two values have the same canonical text
  exactly when they differ in the order of members only; and two that differ otherwise and still
  share a digest are a collision of the hash itself, never an ambiguity of the text that is hashed
  or signed.\<close>

theorem canonical_text_identifies:
  assumes "json_plain v" "json_plain w"
  shows "json_parse (stableStringify v) = Some (canonical_value v)
     \<and> (stableStringify v = stableStringify w \<longleftrightarrow> canonical_value v = canonical_value w)
     \<and> (sha256HexFromJsonStable h v = sha256HexFromJsonStable h w \<longleftrightarrow>
          canonical_value v = canonical_value w \<or>
          stableStringify v \<noteq> stableStringify w \<and> h (stableStringify v) = h (stableStringify w))"
  using canonical_text_identifies_facts [OF assms] by blast

definition sample_written :: jsval where
  "sample_written = JObj [(''b'', JArr [JNum (-7), JNull, JObj []]), (''a'', JStr ''x\"y'')]"

definition sample_reordered :: jsval where
  "sample_reordered = JObj [(''a'', JStr ''x\"y''), (''b'', JArr [JNum (-7), JNull, JObj []])]"

lemma samples_plain: "json_plain sample_written" "json_plain sample_reordered"
  by code_simp+

lemma canonical_text_identifies_witness:
  "json_parse (stableStringify sample_written) = Some sample_reordered \<and>
   sample_written \<noteq> sample_reordered \<and> stableStringify sample_written = stableStringify sample_reordered"
proof -
  have c: "canonical_value sample_written = sample_reordered" "canonical_value sample_reordered = sample_reordered"
    by code_simp+
  have "sample_written \<noteq> sample_reordered" by (simp add: sample_written_def sample_reordered_def)
  then show ?thesis
    using canonical_text_identifies [OF samples_plain, where h = id] unfolding c by blast
qed

section \<open>A text cut short is not read\<close>

text \<open>What a reader accepts, it accepts with the same rest when more text follows.\<close>

lemma skip_space_more: "skip_space s = c # r \<Longrightarrow> skip_space (s @ q) = c # r @ q"
  by (induction s) (auto simp: skip_space_def)

lemma read_char_more: "read_char s = Some (c, r) \<Longrightarrow> read_char (s @ q) = Some (c, r @ q)"
  by (cases s) (auto simp: read_char.simps split: if_splits list.splits option.splits)

lemma read_string_more: "read_string s = Some (t, r) \<Longrightarrow> read_string (s @ q) = Some (t, r @ q)"
proof (induction s arbitrary: t rule: read_string.induct)
  case (1 s)
  show ?case
  proof (cases s)
    case Nil
    then show ?thesis using "1.prems" by (simp add: read_string.simps)
  next
    case (Cons c s')
    show ?thesis
    proof (cases "c = dquote")
      case True
      then show ?thesis using "1.prems" Cons by (subst (asm) read_string.simps, subst read_string.simps) simp
    next
      case False
      obtain d r' u where d: "read_char s = Some (d, r')" "read_string r' = Some (u, r)" "t = d # u"
        using "1.prems" Cons False by (subst (asm) read_string.simps) (auto split: option.splits)
      then have "read_string (r' @ q) = Some (u, r @ q)" using "1.IH" Cons False by blast
      then show ?thesis
        using read_char_more [OF d(1), of q] Cons False d(3) by (subst read_string.simps) simp
    qed
  qed
qed

lemma read_nat_more: "read_nat s = Some (n, r) \<Longrightarrow> r \<noteq> [] \<Longrightarrow> read_nat (s @ q) = Some (n, r @ q)"
proof -
  assume a: "read_nat s = Some (n, r)" "r \<noteq> []"
  then have r: "r = dropWhile json_digit s" by (auto simp: read_nat_def Let_def split: if_splits)
  then obtain x where "x \<in> set s" "\<not> json_digit x" using a(2) by auto
  then have "takeWhile json_digit (s @ q) = takeWhile json_digit s" "dropWhile json_digit (s @ q) = dropWhile json_digit s @ q"
    by (auto simp: takeWhile_append1 dropWhile_append1)
  then show ?thesis using a r by (auto simp: read_nat_def Let_def split: if_splits)
qed

lemma read_nat_nil [simp]: "read_nat [] = None"
  by (simp add: read_nat_def)

lemma read_number_more: "read_number s = Some (i, r) \<Longrightarrow> r \<noteq> [] \<Longrightarrow> read_number (s @ q) = Some (i, r @ q)"
  by (cases s) (auto simp: read_number_def read_nat_more split: if_splits dest: read_nat_more [where q = q])

lemma expect_more: "expect w v s = Some (u, r) \<Longrightarrow> expect w v (s @ q) = Some (u, r @ q)"
  by (auto simp: expect_def split: if_splits) (metis length_take min.cobounded1 take_all_iff nat_le_linear)+

lemma readers_more:
  "\<forall>s v r. read_value n s = Some (v, r) \<longrightarrow> (r \<noteq> [] \<or> \<not> is_num v) \<longrightarrow> read_value n (s @ q) = Some (v, r @ q)"
  "\<forall>s vs r. read_elements n s = Some (vs, r) \<longrightarrow> read_elements n (s @ q) = Some (vs, r @ q)"
  "\<forall>s ms r. read_members n s = Some (ms, r) \<longrightarrow> read_members n (s @ q) = Some (ms, r @ q)"
proof (induction n)
  case 0
  { case 1 then show ?case by simp }
  { case 2 then show ?case by simp }
  { case 3 then show ?case by simp }
next
  case (Suc n)
  { case 1
    have "read_value (Suc n) (s @ q) = Some (v, r @ q)"
      if a: "read_value (Suc n) s = Some (v, r)" and b: "r \<noteq> [] \<or> \<not> is_num v" for s v r
    proof (cases "skip_space s")
      case Nil
      then show ?thesis using a by (simp add: read_value.simps(2))
    next
      case (Cons c t)
      have el: "read_elements n (t @ q) = Some (vs, r @ q)" if "read_elements n t = Some (vs, r)" for vs
        using Suc.IH(2) that by blast
      have me: "read_members n (t @ q) = Some (ms, r @ q)" if "read_members n t = Some (ms, r)" for ms
        using Suc.IH(3) that by blast
      have ex: "expect w u (c' # t @ q) = Some (v, r @ q)" if "expect w u (c' # t) = Some (v, r)" for w u c'
        using expect_more [OF that, of q] by simp
      have nu: "read_number (c # t @ q) = Some (i, r @ q)" if "read_number (c # t) = Some (i, r)" "v = JNum i" for i
        using read_number_more [OF that(1), of q] b that(2) by simp
      show ?thesis
        using a skip_space_more [OF Cons, of q]
        by (cases "skip_space t")
          (auto simp: read_value.simps(2) Cons dquote_apart [symmetric] el me ex nu read_string_more skip_space_more [of t] split: if_splits)
    qed
    then show ?case by blast }
  { case 2
    have "read_elements (Suc n) (s @ q) = Some (vs, r @ q)" if h: "read_elements (Suc n) s = Some (vs, r)" for s vs r
    proof -
      obtain v t c t' where a: "read_value n s = Some (v, t)" "skip_space t = c # t'"
        and x: "c = CHR '']'' \<and> (vs, r) = ([v], t') \<or>
          c = CHR '','' \<and> (\<exists>ws t''. read_elements n t' = Some (ws, t'') \<and> (vs, r) = (v # ws, t''))"
        using h unfolding read_elements_iff by blast
      have "t \<noteq> []" using a(2) by (auto simp: skip_space_def)
      then have "read_value n (s @ q) = Some (v, t @ q)" using Suc.IH(1) a(1) by blast
      moreover have "read_elements n (t' @ q) = Some (ws, t'' @ q)" if "read_elements n t' = Some (ws, t'')" for ws t''
        using Suc.IH(2) that by blast
      ultimately show ?thesis
        using x skip_space_more [OF a(2), of q] unfolding read_elements_iff by auto
    qed
    then show ?case by blast }
  { case 3
    have "read_members (Suc n) (s @ q) = Some (ms, r @ q)" if h: "read_members (Suc n) s = Some (ms, r)" for s ms r
    proof -
      obtain t k t1 t2 v t3 d t4 where
        a: "skip_space s = dquote # t" "read_string t = Some (k, t1)" "skip_space t1 = CHR '':'' # t2"
          "read_value n t2 = Some (v, t3)" "skip_space t3 = d # t4"
        and x: "d = CHR ''}'' \<and> (ms, r) = ([(k, v)], t4) \<or>
          d = CHR '','' \<and> (\<exists>ns t5. read_members n t4 = Some (ns, t5) \<and> (ms, r) = ((k, v) # ns, t5))"
        using h unfolding read_members_iff by blast
      have "t3 \<noteq> []" using a(5) by (auto simp: skip_space_def)
      then have "read_value n (t2 @ q) = Some (v, t3 @ q)" using Suc.IH(1) a(4) by blast
      moreover have "read_members n (t4 @ q) = Some (ns, t5 @ q)" if "read_members n t4 = Some (ns, t5)" for ns t5
        using Suc.IH(3) that by blast
      ultimately show ?thesis
        using x skip_space_more [OF a(1), of q] skip_space_more [OF a(3), of q] skip_space_more [OF a(5), of q]
          read_string_more [OF a(2), of q]
        unfolding read_members_iff by auto
    qed
    then show ?case by blast }
qed

text \<open>So no value is read from a proper beginning of a written array or object.\<close>

lemma parse_cut_short:
  assumes "read_value n (s @ q) = Some (v, [])" "q \<noteq> []" "\<not> is_num v"
    and head: "\<exists>c t. s = c # t \<and> (c = CHR ''['' \<or> c = CHR ''{'')"
  shows "json_parse s = None"
proof (rule ccontr)
  assume "json_parse s \<noteq> None"
  then obtain m w r where m: "read_value m s = Some (w, r)" by (auto simp: json_parse_def split: option.splits)
  obtain c t where c: "s = c # t" "c = CHR ''['' \<or> c = CHR ''{''" using head by blast
  then have "skip_space s = c # t" by (auto simp: skip_space_def json_space_def)
  then have "\<not> is_num w" using m c by (cases m) (auto simp: read_value.simps(2) split: list.splits if_splits)
  then have "read_value m (s @ q) = Some (w, r @ q)" using m readers_more(1) by blast
  then have "read_value (max m n) (s @ q) = Some (w, r @ q)" by (rule read_value_mono) simp
  moreover have "read_value (max m n) (s @ q) = Some (v, [])" by (rule read_value_mono [OF assms(1)]) simp
  ultimately show False using assms(2) by simp
qed

lemma parse_cut_pretty:
  assumes "json_plain v" "is_arr v \<or> is_obj v" "k < length (json_stringify_pretty v)"
  shows "json_parse (take k (json_stringify_pretty v)) = None"
proof (cases k)
  case 0
  then show ?thesis by (simp add: json_parse_def read_value.simps(2) skip_space_def)
next
  case (Suc j)
  let ?t = "json_stringify_pretty v"
  obtain n where n: "read_value n ?t = Some (v, [])"
    using pretty.read_printed_value [OF assms(1), of "[]" 0] assms(1)
    by (auto simp: delimited_def json_stringify_pretty_def)
  have "\<exists>c t. ?t = c # t \<and> (c = CHR ''['' \<or> c = CHR ''{'')"
    using assms(1,2) by (cases v) (auto simp: json_stringify_pretty_def)
  then obtain c t where "?t = c # t" "c = CHR ''['' \<or> c = CHR ''{''" by blast
  moreover have "read_value n (take k ?t @ drop k ?t) = Some (v, [])" using n by simp
  ultimately show ?thesis
    using parse_cut_short [of n "take k ?t" "drop k ?t" v] assms(2,3) Suc
    by (cases v) auto
qed

end
