(* ===== verification/Storage.thy ===== *)
theory Storage
  imports JsonText Auditor
begin

text \<open>
  The files of a node as text. \<^verbatim>\<open>DatabaseService\<close>, \<^verbatim>\<open>LedgerAuditor\<close> and the checkpoint helper
  \<^verbatim>\<open>services/ledgerMerkleCheckpoint.ts\<close> write JSON text and parse it back; the other theories
  model a file by what parsing makes of it. Here the store keeps its text, is written through a
  temporary file and a rename as the code does, and refines that abstraction; and a write that a
  crash cuts short leaves a prefix of the text, which separates the save, which replaces the file,
  from the healing, which overwrites it in place.
\<close>

section \<open>A file by its text\<close>

definition file_of_text :: "string option \<Rightarrow> json_file" where
  "file_of_text f =
     (case f of
        None \<Rightarrow> NoFile
      | Some raw \<Rightarrow>
          (if raw = [] then EmptyText
           else (case json_parse raw of None \<Rightarrow> Unparsable | Some v \<Rightarrow> Parsed v)))"

definition store_text :: "EscrowRecord list \<Rightarrow> string" where
  "store_text rs = json_stringify_pretty (JArr (map encodeRecord rs))"

text \<open>The store file, the temporary file beside it and the flag of the process.\<close>

record text_store =
  ts_initialized :: bool
  ts_file :: "string option"
  ts_tmp :: "string option"

definition tmp_file :: string where
  "tmp_file = ledger_file @ ''.tmp''"

section \<open>The store on text\<close>

definition initializeStore_text :: "env \<Rightarrow> text_store \<Rightarrow> text_store \<times> unit js_result" where
  "initializeStore_text e s =
     (if ts_initialized s then (s, Inr ())
      else
        let s' = s\<lparr>ts_initialized := True\<rparr>;
            reset = (if diskOk e ledger_file then (s'\<lparr>ts_file := Some (json_stringify (JArr []))\<rparr>, Inr ())
                     else (s', Inl (JsError ''write failed'')))
        in (case ts_file s of
              None \<Rightarrow> reset
            | Some raw \<Rightarrow>
                (if js_trim raw = [] then reset
                 else (case json_parse raw of
                         None \<Rightarrow> reset
                       | Some v \<Rightarrow> (if is_arr v then (s', Inr ()) else reset)))))"

definition readAllRecords_text :: "text_store \<Rightarrow> EscrowRecord list js_result" where
  "readAllRecords_text s =
     (case ts_file s of
        None \<Rightarrow> Inl (JsError ''ENOENT'')
      | Some raw \<Rightarrow>
          (case (if raw \<noteq> [] then json_parse raw else Some (JArr [])) of
             None \<Rightarrow> Inl (JsError ''SyntaxError'')
           | Some (JArr items) \<Rightarrow> Inr (List.map_filter decodeRecord items)
           | Some v \<Rightarrow> Inr []))"

definition getAllRecords_text :: "env \<Rightarrow> text_store \<Rightarrow> text_store \<times> EscrowRecord list" where
  "getAllRecords_text e s =
     (case initializeStore_text e s of
        (s', Inl err) \<Rightarrow> (s', [])
      | (s', Inr u) \<Rightarrow> (s', case readAllRecords_text s' of Inl err \<Rightarrow> [] | Inr rs \<Rightarrow> rs))"

definition getRecord_text :: "env \<Rightarrow> string \<Rightarrow> text_store \<Rightarrow> text_store \<times> EscrowRecord option" where
  "getRecord_text e tid s =
     (case initializeStore_text e s of
        (s', Inl err) \<Rightarrow> (s', None)
      | (s', Inr u) \<Rightarrow>
          (s', case readAllRecords_text s' of
                 Inl err \<Rightarrow> None
               | Inr rs \<Rightarrow> find (\<lambda>r. transactionId r = tid) rs))"

text \<open>
  The write of a save: the new text goes to the temporary file, which then replaces the store; on
  any error the temporary file is removed and the error rethrown.
\<close>

definition writeRecord_text ::
  "env \<Rightarrow> EscrowRecord \<Rightarrow> text_store \<Rightarrow> text_store \<times> EscrowRecord list js_result" where
  "writeRecord_text e rec s =
     (case initializeStore_text e s of
        (s', Inl err) \<Rightarrow> (s', Inl err)
      | (s', Inr u) \<Rightarrow>
          (case readAllRecords_text s' of
             Inl err \<Rightarrow> (s'\<lparr>ts_tmp := None\<rparr>, Inl err)
           | Inr existing \<Rightarrow>
               let updated = upsert rec existing
               in if \<not> diskOk e tmp_file then (s'\<lparr>ts_tmp := None\<rparr>, Inl (JsError ''write failed''))
                  else if \<not> diskOk e ledger_file then (s'\<lparr>ts_tmp := None\<rparr>, Inl (JsError ''write failed''))
                  else (s'\<lparr>ts_file := Some (store_text updated), ts_tmp := None\<rparr>, Inr updated)))"

text \<open>
  What is on disk at each moment of that write, from the first byte of the temporary file to the
  rename, and of a write that goes to the store file itself, as the healing of
  \<^verbatim>\<open>services/AdminRecoveryService.ts\<close> makes it.
\<close>

definition replace_moments :: "string \<Rightarrow> text_store \<Rightarrow> text_store list" where
  "replace_moments data s =
     map (\<lambda>k. s\<lparr>ts_tmp := Some (take k data)\<rparr>) [0..<Suc (length data)] @
     [s\<lparr>ts_file := Some data, ts_tmp := None\<rparr>]"

definition overwrite_moments :: "string \<Rightarrow> text_store \<Rightarrow> text_store list" where
  "overwrite_moments data s = map (\<lambda>k. s\<lparr>ts_file := Some (take k data)\<rparr>) [0..<Suc (length data)]"

definition restarted :: "text_store \<Rightarrow> text_store" where
  "restarted s = s\<lparr>ts_initialized := False\<rparr>"

section \<open>The checkpoint on text\<close>

definition checkpoint_json :: "checkpoint \<Rightarrow> jsval" where
  "checkpoint_json cp = JObj
     [(''root'', JStr (cp_root cp)), (''leafCount'', JNum (cp_leafCount cp)),
      (''updatedAt'', JStr (cp_updatedAt cp))]"

text \<open>The reader and the writer of the helper, which throws when the file cannot be written.\<close>

definition readCheckpoint_helper :: "string option \<Rightarrow> checkpoint option" where
  "readCheckpoint_helper f =
     (case f of
        None \<Rightarrow> None
      | Some raw \<Rightarrow>
          (if js_trim raw = [] then None
           else (case json_parse raw of
              None \<Rightarrow> None
            | Some v \<Rightarrow>
                (if \<not> truthy v \<or> \<not> (is_obj v \<or> is_arr v) then None
                 else if \<not> is_str (member v ''root'') then None
                 else if \<not> is_num (member v ''leafCount'') then None
                 else if \<not> is_str (member v ''updatedAt'') then None
                 else Some \<lparr>cp_root = the_str (member v ''root''), cp_leafCount = the_num (member v ''leafCount''),
                            cp_updatedAt = the_str (member v ''updatedAt'')\<rparr>))))"

definition writeCheckpoint_helper :: "env \<Rightarrow> checkpoint \<Rightarrow> string option \<Rightarrow> string option \<times> unit js_result" where
  "writeCheckpoint_helper e cp f =
     (if diskOk e checkpoint_file then (Some (json_stringify_pretty (checkpoint_json cp)), Inr ())
      else (f, Inl (JsError ''write failed'')))"

text \<open>The auditor's own reader and writer, which swallows the error.\<close>

definition readCheckpoint_text :: "string option \<Rightarrow> checkpoint option" where
  "readCheckpoint_text f =
     (case f of
        None \<Rightarrow> None
      | Some raw \<Rightarrow>
          (case (if raw \<noteq> [] then json_parse raw else Some JNull) of
              None \<Rightarrow> None
            | Some v \<Rightarrow>
                (if \<not> truthy v \<or> \<not> (is_obj v \<or> is_arr v) then None
                 else if \<not> truthy (member v ''root'') \<or> \<not> is_str (member v ''root'') then None
                 else if \<not> is_num (member v ''leafCount'') then None
                 else if \<not> truthy (member v ''updatedAt'') \<or> \<not> is_str (member v ''updatedAt'') then None
                 else Some \<lparr>cp_root = the_str (member v ''root''), cp_leafCount = the_num (member v ''leafCount''),
                            cp_updatedAt = the_str (member v ''updatedAt'')\<rparr>)))"

definition writeCheckpoint_text :: "env \<Rightarrow> checkpoint \<Rightarrow> string option \<Rightarrow> string option" where
  "writeCheckpoint_text e cp f =
     (if diskOk e checkpoint_file then Some (json_stringify_pretty (checkpoint_json cp)) else f)"

section \<open>Written files\<close>

lemma pretty_nonempty: "json_stringify_pretty v \<noteq> []"
  by (cases v) (auto simp: json_stringify_pretty_def js_quote_def show_int_def)

lemma file_of_pretty: "json_plain v \<Longrightarrow> file_of_text (Some (json_stringify_pretty v)) = Parsed v"
  by (simp add: file_of_text_def parse_json_pretty pretty_nonempty)

lemma encodeRecord_plain [simp]: "json_plain (encodeRecord r)"
  by (simp add: encodeRecord_def)

lemma records_plain [simp]: "json_plain (JArr (map encodeRecord rs))"
  by (simp add: list_all_iff)

lemma checkpoint_plain [simp]: "json_plain (checkpoint_json cp)"
  by (simp add: checkpoint_json_def)

lemma parse_store_text [simp]: "json_parse (store_text rs) = Some (JArr (map encodeRecord rs))"
  by (simp add: store_text_def parse_json_pretty del: json_plain.simps)

lemma file_of_store_text [simp]: "file_of_text (Some (store_text rs)) = Parsed (JArr (map encodeRecord rs))"
  by (simp add: store_text_def file_of_pretty del: json_plain.simps)

section \<open>The text store refines the parsed one\<close>

definition parsed_store :: "text_store \<Rightarrow> db_state" where
  "parsed_store s = \<lparr>storeInitialized = ts_initialized s, storeFile = file_of_text (ts_file s)\<rparr>"

lemma js_trim_empty: "js_trim s = [] \<Longrightarrow> list_all js_space s"
proof -
  assume "js_trim s = []"
  then have "\<forall>c \<in> set (dropWhile js_space s). js_space c" by (auto simp: js_trim_def dropWhile_eq_Nil_conv dest: set_dropWhileD)
  moreover have "s = takeWhile js_space s @ dropWhile js_space s" by simp
  ultimately show "list_all js_space s"
    by (metis list_all_iff set_append set_takeWhileD Un_iff)
qed

lemma js_space_not_value:
  "js_space c \<Longrightarrow> c \<noteq> dquote \<and> c \<notin> set ''[{ntf-'' \<and> \<not> json_digit c"
  by (auto simp: js_space_def dquote_def json_digit_code char_eq_code)

text \<open>White space alone, in the wider sense of \<^verbatim>\<open>trim\<close>, is not JSON.\<close>

lemma parse_blank: "js_trim s = [] \<Longrightarrow> json_parse s = None"
proof -
  assume "js_trim s = []"
  then have sp: "list_all js_space s" by (rule js_trim_empty)
  show "json_parse s = None"
  proof (cases "skip_space s")
    case Nil
    then show ?thesis by (simp add: json_parse_def read_value.simps(2))
  next
    case (Cons c r)
    then have "c \<in> set s" by (metis list.set_intros(1) set_dropWhileD skip_space_def)
    then have "js_space c" using sp by (simp add: list_all_iff)
    then have c: "c \<noteq> dquote" "c \<notin> set ''[{ntf-''" "\<not> json_digit c" using js_space_not_value by blast+
    then have "read_number (c # r) = None" by (simp add: read_number_def read_nat_def)
    then show ?thesis using Cons c by (simp add: json_parse_def read_value.simps(2))
  qed
qed

lemma parse_empty_array [simp]: "json_parse ''[]'' = Some (JArr [])"
  using parse_json_stringify [of "JArr []"] by simp

lemma parse_empty_text [simp]: "json_parse [] = None"
  by (rule parse_blank) (simp add: js_trim_def)

lemma file_of_empty_array [simp]: "file_of_text (Some ''[]'') = Parsed (JArr [])"
  by (simp add: file_of_text_def)

lemma initializeStore_text_refines:
  "map_prod parsed_store id (initializeStore_text e s) = initializeStore e (parsed_store s)"
proof (cases "ts_initialized s")
  case True
  then show ?thesis by (simp add: initializeStore_text_def initializeStore_def parsed_store_def)
next
  case False
  then show ?thesis
    using parse_blank [of "the (ts_file s)"]
    by (cases "ts_file s")
      (auto simp: initializeStore_text_def initializeStore_def parsed_store_def file_of_text_def Let_def
        split: option.splits)
qed

lemma readAllRecords_text_refines: "readAllRecords_text s = readAllRecordsInternal (parsed_store s)"
  by (auto simp: readAllRecords_text_def readAllRecordsInternal_def parsed_store_def file_of_text_def
      split: option.splits jsval.splits)

lemma initializeStore_text_cases:
  obtains (ok) s' where "initializeStore_text e s = (s', Inr ())" "initializeStore e (parsed_store s) = (parsed_store s', Inr ())"
    | (failed) s' err where "initializeStore_text e s = (s', Inl err)" "initializeStore e (parsed_store s) = (parsed_store s', Inl err)"
  using initializeStore_text_refines [of e s]
  by (cases "initializeStore_text e s"; cases "snd (initializeStore_text e s)") auto

lemma text_store_refines_facts:
  "map_prod parsed_store id (initializeStore_text e s) = initializeStore e (parsed_store s)"
  "map_prod parsed_store id (getAllRecords_text e s) = getAllRecords e (parsed_store s)"
  "map_prod parsed_store id (getRecord_text e tid s) = getRecord e tid (parsed_store s)"
  "diskOk e tmp_file = diskOk e ledger_file \<Longrightarrow>
     map_prod parsed_store id (writeRecord_text e rec s) = writeRecord e rec (parsed_store s)"
proof -
  show "map_prod parsed_store id (initializeStore_text e s) = initializeStore e (parsed_store s)"
    by (rule initializeStore_text_refines)
  show "map_prod parsed_store id (getAllRecords_text e s) = getAllRecords e (parsed_store s)"
    by (cases rule: initializeStore_text_cases [of e s])
      (simp_all add: getAllRecords_text_def getAllRecords_def readAllRecords_text_refines)
  show "map_prod parsed_store id (getRecord_text e tid s) = getRecord e tid (parsed_store s)"
    by (cases rule: initializeStore_text_cases [of e s])
      (simp_all add: getRecord_text_def getRecord_def readAllRecords_text_refines)
  assume "diskOk e tmp_file = diskOk e ledger_file"
  then show "map_prod parsed_store id (writeRecord_text e rec s) = writeRecord e rec (parsed_store s)"
    by (cases rule: initializeStore_text_cases [of e s])
      (auto simp: writeRecord_text_def writeRecord_def readAllRecords_text_refines Let_def parsed_store_def
        split: sum.split)
qed


definition text_env :: env where
  "text_env = \<lparr>nowMs = 0, nowIso = ''t'', diskOk = (\<lambda>f. True)\<rparr>"

definition sample_saved :: EscrowRecord where
  "sample_saved = \<lparr>transactionId = ''tx1'', escrowRecordLeafHash = ''h'', signature = ''s'', status = LOCKED,
     validAfterMs = 0, validUntilMs = 10, timestamp = ''t''\<rparr>"

definition sample_text_store :: text_store where
  "sample_text_store = \<lparr>ts_initialized = False, ts_file = Some '' [] '', ts_tmp = Some ''left over''\<rparr>"


text \<open>
  The other files a node writes come back as they were written: the cached notary state, in
  either order of its members, and the list of recovery requests.\<close>

lemma notary_cache_text:
  assumes "diskOk e cache_file" "members = notary_members s \<or> members = broadcast_members s"
  shows "cacheFile (persistCache h e members n) = file_of_text (Some (json_stringify_pretty (JObj (members @
     [(''_cacheFingerprint'', JStr (h (json_stringify (JObj members)))), (''updatedAt'', JStr (nowIso e))]))))"
proof -
  have "json_plain (JArr (map witness_json ws))" for ws by (simp add: list_all_iff witness_json_def)
  then show ?thesis
    using assms by (subst file_of_pretty) (auto simp: persistCache_def notary_members_def broadcast_members_def)
qed

lemma recovery_requests_text:
  "file_of_text (Some (json_stringify_pretty (JArr (map JStr ids)))) = Parsed (JArr (map JStr ids))"
  by (rule file_of_pretty) (simp add: list_all_iff)

section \<open>A crash during a write\<close>

lemma store_text_nonempty [simp]: "store_text rs \<noteq> []"
  by (simp add: store_text_def pretty_nonempty)

lemma parse_cut_store_text: "k < length (store_text rs) \<Longrightarrow> json_parse (take k (store_text rs)) = None"
  unfolding store_text_def by (rule parse_cut_pretty) (auto simp: list_all_iff)

lemma getAllRecords_text_of_store:
  "ts_file s = Some (store_text rs) \<Longrightarrow> snd (getAllRecords_text e s) = rs"
proof -
  assume f: "ts_file s = Some (store_text rs)"
  have "js_trim (store_text rs) \<noteq> []" using parse_blank [of "store_text rs"] by auto
  then have "initializeStore_text e s = (s\<lparr>ts_initialized := True\<rparr>, Inr ())"
    using f by (simp add: initializeStore_text_def Let_def)
  then show ?thesis using f by (simp add: getAllRecords_text_def readAllRecords_text_def)
qed

text \<open>A file that does not parse is emptied when a process first opens it.\<close>

lemma getAllRecords_text_of_unparsable:
  assumes "\<not> ts_initialized s" "ts_file s = Some raw" "json_parse raw = None" "diskOk e ledger_file"
  shows "getAllRecords_text e s = (s\<lparr>ts_initialized := True, ts_file := Some ''[]''\<rparr>, [])"
  using assms by (simp add: getAllRecords_text_def initializeStore_text_def readAllRecords_text_def Let_def map_filter_simps)

lemma crash_during_write_facts:
  assumes "ts_file s = Some (store_text rs)"
  shows "m \<in> set (replace_moments (store_text rs') s) \<Longrightarrow>
      snd (getAllRecords_text e (restarted m)) \<in> {rs, rs'}"
    and "ts_initialized s \<Longrightarrow> diskOk e ledger_file \<Longrightarrow> diskOk e tmp_file \<Longrightarrow>
      writeRecord_text e rec s =
        (last (replace_moments (store_text (upsert rec rs)) s), Inr (upsert rec rs))"
    and "diskOk e ledger_file \<Longrightarrow> k < length (store_text rs') \<Longrightarrow>
      getAllRecords_text e (restarted (overwrite_moments (store_text rs') s ! k)) =
        (s\<lparr>ts_initialized := True, ts_file := Some ''[]''\<rparr>, [])"
proof -
  show "snd (getAllRecords_text e (restarted m)) \<in> {rs, rs'}"
    if "m \<in> set (replace_moments (store_text rs') s)"
  proof -
    have "ts_file (restarted m) = Some (store_text rs) \<or> ts_file (restarted m) = Some (store_text rs')"
      using that assms by (auto simp: replace_moments_def restarted_def)
    then show ?thesis using getAllRecords_text_of_store by blast
  qed
  show "writeRecord_text e rec s = (last (replace_moments (store_text (upsert rec rs)) s), Inr (upsert rec rs))"
    if "ts_initialized s" "diskOk e ledger_file" "diskOk e tmp_file"
    using that assms
    by (simp add: writeRecord_text_def initializeStore_text_def readAllRecords_text_def replace_moments_def Let_def)
  assume "diskOk e ledger_file" and k: "k < length (store_text rs')"
  have "overwrite_moments (store_text rs') s ! k = s\<lparr>ts_file := Some (take k (store_text rs'))\<rparr>"
    unfolding overwrite_moments_def using k by (simp del: upt_Suc)
  then show "getAllRecords_text e (restarted (overwrite_moments (store_text rs') s ! k)) =
        (s\<lparr>ts_initialized := True, ts_file := Some ''[]''\<rparr>, [])"
    using getAllRecords_text_of_unparsable [of "restarted (overwrite_moments (store_text rs') s ! k)"
        "take k (store_text rs')" e] parse_cut_store_text [OF k] \<open>diskOk e ledger_file\<close>
    by (simp add: restarted_def)
qed

text \<open>
  C12. Crash safety of the ledger file. At every moment of a save's write, from the first byte of
  the temporary file to the rename, a process that restarts reads either the ledger before the save
  or the ledger after it. The healing of \<^verbatim>\<open>AdminRecoveryService\<close> writes the ledger file in place:
  at every moment before its last byte, a process that restarts finds no JSON, replaces the file by
  an empty array and reads no record at all.\<close>

theorem crash_during_write:
  assumes "ts_file s = Some (store_text rs)"
  shows "(\<forall>m \<in> set (replace_moments (store_text rs') s). snd (getAllRecords_text e (restarted m)) \<in> {rs, rs'})
     \<and> (ts_initialized s \<and> diskOk e ledger_file \<and> diskOk e tmp_file \<longrightarrow>
          writeRecord_text e rec s = (last (replace_moments (store_text (upsert rec rs)) s), Inr (upsert rec rs)))
     \<and> (\<forall>k < length (store_text rs'). diskOk e ledger_file \<longrightarrow>
          getAllRecords_text e (restarted (overwrite_moments (store_text rs') s ! k)) =
            (s\<lparr>ts_initialized := True, ts_file := Some ''[]''\<rparr>, []))"
  using crash_during_write_facts [OF assms] by blast

lemma crash_during_write_witness:
  "let s = \<lparr>ts_initialized = True, ts_file = Some (store_text [sample_saved]), ts_tmp = None\<rparr>;
       other = sample_saved\<lparr>transactionId := ''tx2''\<rparr>
   in snd (getAllRecords_text text_env (restarted (s\<lparr>ts_tmp := Some ''[''\<rparr>))) = [sample_saved] \<and>
      writeRecord_text text_env other s =
        (s\<lparr>ts_file := Some (store_text [sample_saved, other])\<rparr>, Inr [sample_saved, other]) \<and>
      snd (getAllRecords_text text_env (restarted (overwrite_moments (store_text [sample_saved]) s ! 1))) = []"
proof -
  define s where "s = \<lparr>ts_initialized = True, ts_file = Some (store_text [sample_saved]), ts_tmp = None\<rparr>"
  define other where "other = sample_saved\<lparr>transactionId := ''tx2''\<rparr>"
  have f: "ts_file s = Some (store_text [sample_saved])" by (simp add: s_def)
  have len: "1 < length (store_text [sample_saved])"
    by (simp add: store_text_def json_stringify_pretty_def encodeRecord_def two_space_break_def)
  have "take 1 (store_text [sample_saved]) = ''[''"
    by (simp add: store_text_def json_stringify_pretty_def encodeRecord_def)
  then have "s\<lparr>ts_tmp := Some ''[''\<rparr> \<in> set (replace_moments (store_text [sample_saved]) s)"
    using len by (force simp: replace_moments_def simp del: upt_Suc)
  then have "snd (getAllRecords_text text_env (restarted (s\<lparr>ts_tmp := Some ''[''\<rparr>))) = [sample_saved]"
    using crash_during_write [OF f, of "[sample_saved]" text_env sample_saved] by blast
  moreover have "writeRecord_text text_env other s =
        (s\<lparr>ts_file := Some (store_text [sample_saved, other])\<rparr>, Inr [sample_saved, other])"
    using crash_during_write [OF f, of "[]" text_env other]
    by (simp add: text_env_def s_def other_def replace_moments_def sample_saved_def)
  moreover have "snd (getAllRecords_text text_env (restarted (overwrite_moments (store_text [sample_saved]) s ! 1))) = []"
    using crash_during_write [OF f, of "[sample_saved]" text_env other] len by (simp add: text_env_def)
  ultimately show ?thesis unfolding s_def other_def by (simp add: Let_def)
qed

section \<open>The two readers of a checkpoint\<close>

lemma readCheckpoint_text_parsed: "readCheckpoint_text f = readCheckpoint (a\<lparr>au_checkpoint := file_of_text f\<rparr>)"
proof -
  have "member v ''root'' = JUndefined" if "\<not> (truthy v \<and> (is_obj v \<or> is_arr v))" for v
    using that by (cases v) auto
  then show ?thesis
    by (fastforce simp: readCheckpoint_text_def readCheckpoint_def file_of_text_def split: option.splits)
qed

text \<open>
  The two checkpoint readers agree where it matters. A checkpoint written by the helper or by the
  auditor is read back exactly by the helper, and by the auditor when its root and time are not
  empty; whatever the file holds, the auditor's text reader is its reader of the parsed file, and
  every checkpoint it accepts the helper accepts with the same members. The helper accepts more: a
  checkpoint with an empty root.\<close>

theorem checkpoint_readers:
  "diskOk e checkpoint_file \<Longrightarrow> readCheckpoint_helper (fst (writeCheckpoint_helper e cp f)) = Some cp"
  "diskOk e checkpoint_file \<Longrightarrow> writeCheckpoint_text e cp f = fst (writeCheckpoint_helper e cp f)"
  "diskOk e checkpoint_file \<Longrightarrow>
     readCheckpoint_text (writeCheckpoint_text e cp f) = (if cp_root cp = [] \<or> cp_updatedAt cp = [] then None else Some cp)"
  "readCheckpoint_text f = readCheckpoint (a\<lparr>au_checkpoint := file_of_text f\<rparr>)"
  "readCheckpoint_text f = Some cp \<Longrightarrow> readCheckpoint_helper f = Some cp"
proof -
  have blank: "js_trim (json_stringify_pretty (checkpoint_json cp)) \<noteq> []"
    using parse_blank [of "json_stringify_pretty (checkpoint_json cp)"] by (auto simp: parse_json_pretty)
  show "diskOk e checkpoint_file \<Longrightarrow> readCheckpoint_helper (fst (writeCheckpoint_helper e cp f)) = Some cp"
    using blank by (simp add: readCheckpoint_helper_def writeCheckpoint_helper_def parse_json_pretty) (simp add: checkpoint_json_def)
  show "diskOk e checkpoint_file \<Longrightarrow> writeCheckpoint_text e cp f = fst (writeCheckpoint_helper e cp f)"
    by (simp add: writeCheckpoint_text_def writeCheckpoint_helper_def)
  show "diskOk e checkpoint_file \<Longrightarrow>
     readCheckpoint_text (writeCheckpoint_text e cp f) = (if cp_root cp = [] \<or> cp_updatedAt cp = [] then None else Some cp)"
    by (simp add: readCheckpoint_text_def writeCheckpoint_text_def parse_json_pretty pretty_nonempty) (simp add: checkpoint_json_def)
  show "readCheckpoint_text f = readCheckpoint (a\<lparr>au_checkpoint := file_of_text f\<rparr>)"
    by (rule readCheckpoint_text_parsed)
  assume a: "readCheckpoint_text f = Some cp"
  then obtain raw where f: "f = Some raw" by (auto simp: readCheckpoint_text_def split: option.splits)
  have "js_trim raw \<noteq> []"
    using a f parse_blank [of raw] by (auto simp: readCheckpoint_text_def split: if_splits)
  moreover have "raw \<noteq> []" using calculation by (auto simp: js_trim_def)
  ultimately show "readCheckpoint_helper f = Some cp"
    using a f by (auto simp: readCheckpoint_text_def readCheckpoint_helper_def split: option.splits if_splits)
qed

lemma checkpoint_readers_witness:
  "readCheckpoint_text (writeCheckpoint_text text_env \<lparr>cp_root = ''r'', cp_leafCount = 2, cp_updatedAt = ''t''\<rparr> None) =
     Some \<lparr>cp_root = ''r'', cp_leafCount = 2, cp_updatedAt = ''t''\<rparr> \<and>
   readCheckpoint_text (writeCheckpoint_text text_env \<lparr>cp_root = [], cp_leafCount = 0, cp_updatedAt = ''t''\<rparr> None) = None \<and>
   readCheckpoint_helper (fst (writeCheckpoint_helper text_env \<lparr>cp_root = [], cp_leafCount = 0, cp_updatedAt = ''t''\<rparr> None)) =
     Some \<lparr>cp_root = [], cp_leafCount = 0, cp_updatedAt = ''t''\<rparr>"
  using checkpoint_readers(3) [of text_env "\<lparr>cp_root = ''r'', cp_leafCount = 2, cp_updatedAt = ''t''\<rparr>" None]
    checkpoint_readers(3) [of text_env "\<lparr>cp_root = [], cp_leafCount = 0, cp_updatedAt = ''t''\<rparr>" None]
    checkpoint_readers(1) [of text_env "\<lparr>cp_root = [], cp_leafCount = 0, cp_updatedAt = ''t''\<rparr>" None]
  by (simp add: text_env_def)

end
