(* ===== verification/Inspection.thy ===== *)
theory Inspection
  imports JsonText Text Assurance
begin

text \<open>
  The item an asset inspection is asked about, from the creation of a handshake to the inspection and
  from one inspection to the next. \<^verbatim>\<open>controllers/handshake.controller.ts\<close> keeps the handshake's
  metadata as JSON text in the column of the failure reason, reads the item back from it, and
  after a failed inspection overwrites it with the words of the model. Also the recognition of an
  unreachable database, which decides the answer of the creation route.
\<close>

section \<open>An unreachable database\<close>

definition isPrismaDbUnreachableError :: "jsval \<Rightarrow> bool" where
  "isPrismaDbUnreachableError err =
     (let msg = js_lower (js_String (nullish_or (member err ''message'') (JStr [])));
          code = js_String (nullish_or (member err ''code'') (JStr []))
      in contains msg ''econnrefused'' \<or> contains msg ''econnreset'' \<or> contains msg ''etimedout''
         \<or> contains msg ''timeout'' \<or> contains msg ''failed to connect''
         \<or> contains msg ''prisma'' \<and> contains msg ''offline''
         \<or> code = ''P1001'' \<or> code = ''P1017'')"

text \<open>The answer to an exception of the creation route.\<close>

definition create_failure_reply :: "jsval \<Rightarrow> payout_reply" where
  "create_failure_reply err =
     (if isPrismaDbUnreachableError err then PayoutError 503 ''Trust Layer Offline''
      else
        let message = (if is_str (member err ''message'') then the_str (member err ''message'') else ''HANDSHAKE_CREATE_FAILED'')
        in PayoutError (if ends_with message ''_REQUIRED'' \<or> contains message ''INVALID'' then 400 else 500) message)"

section \<open>From the creation to the inspection\<close>

text \<open>The item a metadata object names.\<close>

definition named_item :: "jsval \<Rightarrow> jsval" where
  "named_item meta =
     (if truthy (member meta ''expectedItem'') then member meta ''expectedItem''
      else if truthy (member meta ''itemDescription'') then member meta ''itemDescription''
      else if truthy (member meta ''provider_ref'') then member meta ''provider_ref''
      else JStr ''the expected item described by the handshake'')"

lemma json_stringify_nonempty: "json_plain v \<Longrightarrow> json_stringify v \<noteq> []"
  using print_json_head [of v no_break "'':''" 0] by (auto simp: json_stringify_plain)

lemma expected_item_stored:
  "hs_failureReason x = Some (json_stringify meta) \<Longrightarrow> json_plain meta \<Longrightarrow> expected_item json_parse x = named_item meta"
  by (simp add: expected_item_def named_item_def Let_def json_stringify_nonempty parse_json_stringify)

lemma plain_member: "json_plain v \<Longrightarrow> member v k \<noteq> JUndefined \<Longrightarrow> json_plain (member v k)"
  by (cases v) (auto simp: list_all_iff dest: map_of_SomeD split: option.splits)

lemma db_create_row: "db_create tenantExists row db = (db', Inr x) \<Longrightarrow> x = row"
  by (auto simp: db_create_def Let_def split: if_splits)

lemma thrown_not_created [simp]: "thrown_reply err \<noteq> PayoutCreated x"
  by (simp add: thrown_reply_def Let_def)

lemma fields_not_created:
  "openapi_fields body \<noteq> Inl (PayoutCreated x)" "tasktext_fields a body \<noteq> Inl (PayoutCreated x)"
  by (auto simp: openapi_fields_def tasktext_fields_def Let_def split: if_splits sum.splits)

text \<open>
  C34. The inspection asks about the item the creator named. A handshake created from a JSON body keeps its
  metadata as JSON text; read back, it gives the expected item, else the description, else the
  provider's reference of the metadata sent, and for a body in the short form the provider's reference.\<close>

theorem created_item_is_inspected:
  assumes "create_handshake_route tenantExists dbUp uuid uuid' tenantId body db = (db', PayoutCreated x)"
    and "json_plain body"
  shows "expected_item json_parse x =
     (if member body ''amountKESCents'' \<noteq> JUndefined \<or> member body ''amountUSDCents'' \<noteq> JUndefined
      then named_item (member body ''handshakeMetadata'') else member body ''provider_ref'')"
proof -
  let ?long = "member body ''amountKESCents'' \<noteq> JUndefined \<or> member body ''amountUSDCents'' \<noteq> JUndefined"
  obtain f where f: "(if ?long then openapi_fields body else tasktext_fields (''escrow_'' @ uuid') body) = Inr f"
    and r: "hs_failureReason x = Some (json_stringify (cf_metadata f))"
    using assms(1)
    by (auto simp: create_handshake_route_def Let_def fields_not_created simp del: append.simps
        split: if_splits sum.splits prod.splits dest!: db_create_row)
  show ?thesis
  proof (cases ?long)
    case True
    then have m: "cf_metadata f = member body ''handshakeMetadata''" "is_obj (member body ''handshakeMetadata'')"
      using f by (auto simp: openapi_fields_def bind_result_Inr_iff split: if_splits sum.splits)
    then have "json_plain (member body ''handshakeMetadata'')"
      using plain_member [OF assms(2), of "''handshakeMetadata''"] by (cases "member body ''handshakeMetadata''") auto
    then show ?thesis using True expected_item_stored [OF r] m by simp
  next
    case False
    then have m: "cf_metadata f = JObj [(''provider_ref'', member body ''provider_ref''), (''escrow_address'', JStr (''escrow_'' @ uuid'))]"
      and t: "truthy (member body ''provider_ref'')"
      using f by (auto simp: tasktext_fields_def Let_def split: if_splits sum.splits)
    have "json_plain (member body ''provider_ref'')"
      using plain_member [OF assms(2), of "''provider_ref''"] t by (cases "member body ''provider_ref''") auto
    then show ?thesis using False expected_item_stored [OF r] m t by (simp add: named_item_def)
  qed
qed

section \<open>From one inspection to the next\<close>

text \<open>What a failed inspection leaves in the column the next one reads.\<close>

definition failed_reason :: "asset_verification \<Rightarrow> string" where
  "failed_reason v =
     (case av_extractedDetails v of
        Some d \<Rightarrow> if d \<noteq> [] then take 1000 d else if av_issueDetected v then ''ASSET_FLAGGED'' else ''ASSET_NOT_MATCHED''
      | None \<Rightarrow> if av_issueDetected v then ''ASSET_FLAGGED'' else ''ASSET_NOT_MATCHED'')"

lemma failed_inspection_row:
  assumes "js_get db i = Some x" "hs_tenantId x = t" "t \<noteq> []"
    and "ai (js_String (expected_item json_parse x)) = Inr v" "\<not> av_isMatch v"
  shows "fst (verify_asset_route json_parse ai i True (JStr t) db) =
      js_set i (x\<lparr>hs_status := HsFailed, hs_aiConfidence := av_confidence v, hs_failureReason := Some (failed_reason v)\<rparr>) db"
  using assms by (auto simp: verify_asset_route_def failed_reason_def Let_def split: option.splits)


section \<open>Concrete instances\<close>

definition sample_order :: jsval where
  "sample_order = JObj [(''amount'', JStr ''12.50''), (''currency'', JStr ''KES''), (''provider_ref'', JStr ''gearbox 7'')]"

lemma created_item_is_inspected_witness:
  "\<exists>db' x. create_handshake_route (\<lambda>t. True) True ''u1'' ''u2'' (JStr ''t'') sample_order [] = (db', PayoutCreated x)
     \<and> expected_item json_parse x = JStr ''gearbox 7''"
proof -
  let ?r = "create_handshake_route (\<lambda>t. True) True ''u1'' ''u2'' (JStr ''t'') sample_order []"
  have "case snd ?r of PayoutCreated x \<Rightarrow> True | _ \<Rightarrow> False" by code_simp
  then obtain x where "snd ?r = PayoutCreated x" by (cases "snd ?r") auto
  then obtain db' where c: "?r = (db', PayoutCreated x)" by (cases ?r) auto
  have "json_plain sample_order" by code_simp
  from created_item_is_inspected [OF c this] c show ?thesis by (simp add: sample_order_def)
qed

text \<open>A model whose details are an object naming another item, and which matches that item.\<close>

definition led_ai :: ai_world where
  "led_ai = \<lparr>ai_key = Some ''k'', ai_sdk = True,
     ai_model = (\<lambda>prompt picture. Inr (if prompt = inspection_prompt ''brick'' then ''yes'' else ''no'')),
     ai_parse = (\<lambda>text. Some \<lparr>ma_score = None, ma_flag = JBool (text = ''yes''),
        ma_text = JObj [(''expectedItem'', JStr ''brick'')], ma_issue = JBool False\<rparr>),
     ai_array_bytes = (\<lambda>vs. [])\<rparr>"


text \<open>
  A refusal by the database under its own codes is answered as an outage, and a message that only mentions a timeout too.\<close>

lemma unreachable_reply:
  "member err ''code'' = JStr ''P1001'' \<Longrightarrow> create_failure_reply err = PayoutError 503 ''Trust Layer Offline''"
  by (simp add: create_failure_reply_def isPrismaDbUnreachableError_def nullish_or_def Let_def)

lemma unreachable_samples:
  "create_failure_reply (JObj [(''message'', JStr ''connect ECONNREFUSED 127.0.0.1'')]) = PayoutError 503 ''Trust Layer Offline''"
  "create_failure_reply (JObj [(''message'', JStr ''route_REQUIRED'')]) = PayoutError 400 ''route_REQUIRED''"
  "create_failure_reply (JObj [(''message'', JStr ''Unique constraint failed'')]) = PayoutError 500 ''Unique constraint failed''"
  by code_simp+

end
