(* ===== verification/GatewayServer.thy ===== *)
theory GatewayServer
  imports Gateway Text
begin

text \<open>
  The start of the gateway, \<^verbatim>\<open>src/server.ts\<close>: which part of the application a request reaches, the
  health page, and the audit timer \<^verbatim>\<open>LedgerAuditor.start\<close> sets when the server listens, run together
  with the routes of the router. The files of the public directory are a parameter; the answer to an
  exception is that of \<^verbatim>\<open>logShieldErrorInterceptor\<close> in LogShield.
\<close>

section \<open>Dispatch\<close>

datatype target = StaticFile string | Api | Health | IndexPage | NotFound

text \<open>The method and the path of each route within the router.\<close>

fun route_key :: "route \<Rightarrow> string \<times> string" where
  "route_key GetRecords = (''GET'', ''/records'')"
| "route_key (PostAttest b) = (''POST'', ''/enclave/attest'')"
| "route_key (PostLock b) = (''POST'', ''/lock'')"
| "route_key (PostRelease b) = (''POST'', ''/release'')"
| "route_key (PostUnfreeze b) = (''POST'', ''/admin/unfreeze'')"
| "route_key (GetVerifyProof t) = (''GET'', ''/verify-proof/'' @ t)"
| "route_key (PostVerifyZk b) = (''POST'', ''/verify-zk-proof'')"
| "route_key (PostJoin b) = (''POST'', ''/api/infrastructure/join-cluster'')"
| "route_key (PostUpgrade p s k) = (''POST'', ''/api/infrastructure/upgrade-state-enclave'')"
| "route_key (PostRegisterPeer b) = (''POST'', ''/consensus/register-peer'')"
| "route_key (PostTransition b) = (''POST'', ''/consensus/verify-state-transition'')"
| "route_key (PostAppend t r n p) = (''POST'', ''/consensus/append-entry'')"
| "route_key GetLedgerRoot = (''GET'', ''/audit/ledger-root'')"
| "route_key (PostVerifyInclusion b) = (''POST'', ''/audit/verify-inclusion'')"
| "route_key PostSnapshot = (''POST'', ''/api/reconciliation/snapshot'')"
| "route_key (PostCatchUp b k) = (''POST'', ''/api/reconciliation/catch-up'')"
| "route_key (PostBridge parse b) = (''POST'', ''/bridge/verify-external-state'')"
| "route_key (PostIdentity b) = (''POST'', ''/bridge/ingest-identity-claim'')"

definition posted_paths :: "string list" where
  "posted_paths =
     [''/enclave/attest'', ''/lock'', ''/release'', ''/admin/unfreeze'', ''/verify-zk-proof'',
      ''/api/infrastructure/join-cluster'', ''/api/infrastructure/upgrade-state-enclave'',
      ''/consensus/register-peer'', ''/consensus/verify-state-transition'', ''/consensus/append-entry'',
      ''/audit/verify-inclusion'', ''/api/reconciliation/snapshot'', ''/api/reconciliation/catch-up'',
      ''/bridge/verify-external-state'', ''/bridge/ingest-identity-claim'']"

definition reads :: "string \<Rightarrow> bool" where
  "reads m \<longleftrightarrow> m = ''GET'' \<or> m = ''HEAD''"

definition router_has :: "string \<Rightarrow> string \<Rightarrow> bool" where
  "router_has m p \<longleftrightarrow>
     (if m = ''POST'' then p \<in> set posted_paths
      else reads m \<and> (p = ''/records'' \<or> p = ''/audit/ledger-root''
        \<or> begins_with p ''/verify-proof/'' \<and> drop 14 p \<noteq> [] \<and> CHR ''/'' \<notin> set (drop 14 p)))"

definition mount_path :: string where
  "mount_path = ''/api/escrow''"

text \<open>
  The order of the application: the public files, the router under its mount path, the health page,
  the index page for every other GET, and the default answer of express.\<close>

definition gateway_target :: "(string \<Rightarrow> bool) \<Rightarrow> string \<Rightarrow> string \<Rightarrow> target" where
  "gateway_target public m p =
     (if reads m \<and> public p then StaticFile p
      else if begins_with p mount_path \<and> router_has m (drop (length mount_path) p) then Api
      else if reads m \<and> p = ''/health'' then Health
      else if reads m then IndexPage
      else NotFound)"

definition health_handler :: "env \<Rightarrow> server handler" where
  "health_handler e sv = (sv, Answer 200 (JObj [(''status'', JStr ''UP''), (''timestamp'', JStr (nowIso e))]))"

section \<open>The audit timer\<close>

record listening_gateway =
  gt_server :: server
  gt_timer :: "int option"

definition audit_tick :: "surroundings \<Rightarrow> listening_gateway \<Rightarrow> listening_gateway" where
  "audit_tick x g =
     g\<lparr>gt_server := gt_server g\<lparr>sv_node := auditOnce (x_hash x) (x_env x) (x_fetch x) (sv_node (gt_server g))\<rparr>\<rparr>"

text \<open>\<^verbatim>\<open>setInterval\<close> takes 1 for a delay that is not a number or out of its range.\<close>

definition timer_delay :: "int option \<Rightarrow> int" where
  "timer_delay ms = (case ms of None \<Rightarrow> 1 | Some d \<Rightarrow> if 1 \<le> d \<and> d \<le> 2147483647 then d else 1)"

definition start_auditor :: "surroundings \<Rightarrow> int option \<Rightarrow> listening_gateway \<Rightarrow> listening_gateway" where
  "start_auditor x ms g =
     (if gt_timer g \<noteq> None then g
      else (audit_tick x g)\<lparr>gt_timer := Some (timer_delay ms)\<rparr>)"

text \<open>
  The server listens: the interval is \<^verbatim>\<open>Number(process.env.LEDGER_AUDIT_INTERVAL_MS ?? 5000)\<close>, with
  None for \<^verbatim>\<open>NaN\<close>.\<close>

definition listen_gateway :: "surroundings \<Rightarrow> (string \<Rightarrow> int option) \<Rightarrow> server \<Rightarrow> listening_gateway" where
  "listen_gateway x toNumber sv =
     start_auditor x (case x_environment x ''LEDGER_AUDIT_INTERVAL_MS'' of None \<Rightarrow> Some 5000 | Some t \<Rightarrow> toNumber t)
       \<lparr>gt_server = sv, gt_timer = None\<rparr>"

text \<open>What happens to a listening gateway: its timer fires, or a request reaches the router.\<close>

datatype gateway_event = Tick surroundings | Call surroundings route

fun on_event :: "gateway_event \<Rightarrow> listening_gateway \<Rightarrow> listening_gateway" where
  "on_event (Tick x) g = audit_tick x g"
| "on_event (Call x r) g = g\<lparr>gt_server := fst (route_handler x r (gt_server g))\<rparr>"

definition run_gateway :: "gateway_event list \<Rightarrow> listening_gateway \<Rightarrow> listening_gateway" where
  "run_gateway evs g = fold on_event evs g"

fun is_unfreeze :: "gateway_event \<Rightarrow> bool" where
  "is_unfreeze (Call x (PostUnfreeze b)) = True"
| "is_unfreeze ev = False"

section \<open>Every route is reached\<close>

text \<open>The path of a proof names one transaction: not empty and without a slash.\<close>

fun route_named :: "route \<Rightarrow> bool" where
  "route_named (GetVerifyProof t) = (t \<noteq> [] \<and> CHR ''/'' \<notin> set t)"
| "route_named r = True"

lemma begins_with_append [simp]: "begins_with (a @ b) a"
  by (simp add: begins_with_def)

lemma posted_is_routed: "p \<in> set posted_paths \<Longrightarrow> router_has ''POST'' p"
  by (simp add: router_has_def)

lemma router_has_key: "route_named r \<Longrightarrow> router_has (fst (route_key r)) (snd (route_key r))"
proof (cases r)
  case GetRecords
  then show ?thesis by (simp add: router_has_def reads_def)
next
  case GetLedgerRoot
  then show ?thesis by (simp add: router_has_def reads_def)
next
  case (GetVerifyProof t)
  moreover have "begins_with (''/verify-proof/'' @ t) ''/verify-proof/''" by (rule begins_with_append)
  moreover have "drop 14 (''/verify-proof/'' @ t) = t" by simp
  ultimately show "route_named r \<Longrightarrow> ?thesis"
    unfolding router_has_def reads_def by (simp del: append.simps append_Cons)
qed (simp_all add: posted_is_routed posted_paths_def)

text \<open>Every route of the router is reached at its path under the mount path, unless a public file has that name.\<close>

theorem routes_are_reached:
  assumes "route_key r = (m, p)" "route_named r" "\<not> public (mount_path @ p)"
  shows "gateway_target public m (mount_path @ p) = Api"
  using router_has_key [OF assms(2)] assms(1,3) begins_with_append [of mount_path p] by (simp add: gateway_target_def)

text \<open>Under the mount path too, a GET of a path that only takes POST answers with the index page.\<close>

lemma unknown_get_is_index:
  assumes "\<not> public (mount_path @ ''/lock'')"
  shows "gateway_target public ''GET'' (mount_path @ ''/lock'') = IndexPage"
proof -
  have "\<not> router_has ''GET'' ''/lock''" by code_simp
  then show ?thesis using assms by (simp add: gateway_target_def reads_def mount_path_def)
qed

lemma timer_delay_bounds: "1 \<le> timer_delay ms \<and> timer_delay ms \<le> 2147483647"
  by (auto simp: timer_delay_def split: option.split)

section \<open>The gateway stops itself\<close>

abbreviation server_auditor :: "server \<Rightarrow> auditor_state" where
  "server_auditor sv \<equiv> nd_auditor (sv_node sv)"

text \<open>No route but the unfreezing one touches the checkpoint or the freeze flag.\<close>

lemma audit_keeps_auditor [simp]:
  "au_checkpoint (server_auditor (fst (audit x p sv))) = au_checkpoint (server_auditor sv)"
  "au_frozen (server_auditor (fst (audit x p sv))) = au_frozen (server_auditor sv)"
  by (simp_all add: audit_def)

lemma route_keeps_auditor:
  assumes "\<not> is_unfreeze (Call x r)"
  shows "au_checkpoint (server_auditor (fst (route_handler x r sv))) = au_checkpoint (server_auditor sv)
     \<and> au_frozen (server_auditor (fst (route_handler x r sv))) = au_frozen (server_auditor sv)"
proof (cases r)
  case GetRecords
  then show ?thesis by (simp add: records_handler_def Let_def split: prod.split)
next
  case (PostUnfreeze b)
  then show ?thesis using assms by simp
next
  case (GetVerifyProof t)
  then show ?thesis by (simp add: verify_proof_handler_def Let_def split: prod.split sum.split option.split)
next
  case GetLedgerRoot
  then show ?thesis by (simp add: ledger_root_handler_def Let_def split: prod.split sum.split)
next
  case (PostVerifyInclusion b)
  then show ?thesis by (simp add: verify_inclusion_handler_def Let_def split: prod.split sum.split)
next
  case (PostRelease b)
  have "au_checkpoint (server_auditor (fst (release_handler x b sv))) = au_checkpoint (server_auditor sv)
      \<and> au_frozen (server_auditor (fst (release_handler x b sv))) = au_frozen (server_auditor sv)"
    by (auto simp: release_handler_def Let_def audit_def split: sum.split)
  with PostRelease show ?thesis by (simp add: mounted_release_def release_gate_def)
next
  case PostSnapshot
  then show ?thesis by (simp add: snapshot_handler_def split: option.split sum.split)
next
  case (PostCatchUp b k)
  then show ?thesis by (simp add: catch_up_handler_def Let_def split: option.split sum.split prod.split)
next
  case (PostBridge parse b)
  then show ?thesis by (simp add: bridge_handler_def Let_def split: sum.split)
qed (simp_all add: mounted_chains antiDosChallengeMiddleware_def attest_handler_def verify_zk_handler_def join_handler_def
    upgrade_handler_def register_peer_handler_def identity_handler_def Let_def split: prod.split sum.split)

lemma frozen_stays:
  assumes "list_all (\<lambda>ev. \<not> is_unfreeze ev) evs" "isFrozen (gt_server g)"
  shows "isFrozen (gt_server (run_gateway evs g))"
  using assms
proof (induction evs arbitrary: g)
  case (Cons ev evs)
  have "isFrozen (gt_server (on_event ev g))"
  proof (cases ev)
    case (Tick x)
    then show ?thesis using Cons.prems(2) by (simp add: isFrozen_def audit_tick_def auditOnce_def)
  next
    case (Call x r)
    then show ?thesis using Cons.prems route_keeps_auditor [of x r "gt_server g"] by (simp add: isFrozen_def)
  qed
  then show ?case using Cons by (simp add: run_gateway_def)
qed (simp add: run_gateway_def)

lemma calls_keep_auditor:
  assumes "list_all (\<lambda>ev. \<not> is_unfreeze ev \<and> (\<exists>x r. ev = Call x r)) evs"
  shows "au_checkpoint (server_auditor (gt_server (run_gateway evs g))) = au_checkpoint (server_auditor (gt_server g))
     \<and> au_frozen (server_auditor (gt_server (run_gateway evs g))) = au_frozen (server_auditor (gt_server g))"
  using assms
proof (induction evs arbitrary: g)
  case (Cons ev evs)
  then obtain x r where "ev = Call x r" "\<not> is_unfreeze (Call x r)" by auto
  then show ?case using Cons route_keeps_auditor [of x r "gt_server g"] by (simp add: run_gateway_def)
qed (simp add: run_gateway_def)


section \<open>Concrete instances\<close>

definition fresh_server :: server where
  "fresh_server = sample_server\<lparr>sv_node := (sv_node sample_server)
     \<lparr>nd_auditor := (nd_auditor (sv_node sample_server))\<lparr>au_frozen := False, au_checkpoint := NoFile\<rparr>\<rparr>\<rparr>"

definition offline :: surroundings where
  "offline = sample_surroundings\<lparr>x_fetch := (\<lambda>i. NetworkError ''down'')\<rparr>"

lemma routes_are_reached_witness:
  "gateway_target (\<lambda>p. p = ''/index.html'') ''GET'' (mount_path @ ''/verify-proof/tx1'') = Api"
  by (rule routes_are_reached [of "GetVerifyProof ''tx1''"]) (simp_all add: mount_path_def)


end
