(* ===== verification/Commitments.thy ===== *)
theory Commitments
  imports Storage Reconciliation AdminRecovery TimeAnchor Webhook Perimeter
begin

text \<open>
  What the hashes and the signed texts of the system commit to. The node and the backend hash and
  sign JSON text; because the text can be read back (JsonText), it determines the value, up to the
  order of members where the canonical printers are used: the chain hash of a snapshot determines
  the log, the officers' message the recovery request, the body of a webhook the event, and the
  integrity signature the request body.
\<close>

section \<open>Texts that are read back\<close>

lemma json_stringify_inj:
  assumes "json_plain v" "json_plain w"
  shows "json_stringify v = json_stringify w \<longleftrightarrow> v = w"
  using parse_json_stringify [OF assms(1)] parse_json_stringify [OF assms(2)] by (metis option.inject)

lemma encodeRecord_inj [simp]: "encodeRecord r = encodeRecord s \<longleftrightarrow> r = s"
  by (metis decode_encode option.inject)

lemma record_text_inj [simp]:
  "json_stringify (encodeRecord r) = json_stringify (encodeRecord s) \<longleftrightarrow> r = s"
  by (simp add: json_stringify_inj)

text \<open>The three canonical printers agree on what JSON can hold.\<close>

lemma canonicalize_stable: "json_plain v \<Longrightarrow> canonicalizeJsonStable v = stableStringify v"
proof (induction v rule: canonicalizeJsonStable.induct)
  case (5 vs)
  then have "map canonicalizeJsonStable vs = map stableStringify vs" by (simp add: list_all_iff)
  then show ?case by (simp only: canonicalizeJsonStable.simps stableStringify.simps)
next
  case (6 ms)
  have "canonicalizeJsonStable v = stableStringify v" if "(k, v) \<in> set ms" for k v
    using 6 that by (fastforce simp: list_all_iff)
  then have "map (\<lambda>(k, v). (k, canonicalizeJsonStable v)) ms = map (\<lambda>(k, v). (k, stableStringify v)) ms" by auto
  then show ?case by (simp only: canonicalizeJsonStable.simps stableStringify.simps)
qed simp_all

lemma sort_members_canonical: "sort_members v = canonical_value v"
  by (induction v rule: canonical_value.induct) (auto intro!: arg_cong [where f = "sort_key fst"])

lemma stableSerialize_stable: "json_plain v \<Longrightarrow> stableSerialize v = stableStringify v"
  by (simp add: stableSerialize_def sort_members_canonical stableStringify_canonical)

section \<open>The chain hash of a log\<close>

text \<open>The texts that are hashed on the way to the chain hash.\<close>

fun chain_texts :: "hashfn \<Rightarrow> string \<Rightarrow> EscrowRecord list \<Rightarrow> string set" where
  "chain_texts h cur [] = {}"
| "chain_texts h cur (r # rs) =
     {json_stringify (encodeRecord r), cur @ entry_hash h r} \<union> chain_texts h (h (cur @ entry_hash h r)) rs"

definition log_texts :: "hashfn \<Rightarrow> EscrowRecord list \<Rightarrow> string set" where
  "log_texts h entries =
     (case entries of [] \<Rightarrow> {''EMPTY''}
      | r # rs \<Rightarrow> insert (json_stringify (encodeRecord r)) (chain_texts h (entry_hash h r) rs))"

lemma chain_from_snoc: "chain_from h cur (rs @ [r]) = h (chain_from h cur rs @ entry_hash h r)"
  by (induction rs arbitrary: cur) simp_all

lemma chain_texts_snoc:
  "chain_texts h cur (rs @ [r]) =
     chain_texts h cur rs \<union> {json_stringify (encodeRecord r), chain_from h cur rs @ entry_hash h r}"
  by (induction rs arbitrary: cur) auto

lemma root_snoc:
  "xs \<noteq> [] \<Longrightarrow> computeMerkleRoot h (xs @ [r]) = h (computeMerkleRoot h xs @ entry_hash h r)"
  by (cases xs) (simp_all add: computeMerkleRoot_def chain_from_snoc)

lemma log_texts_snoc:
  "xs \<noteq> [] \<Longrightarrow> log_texts h (xs @ [r]) =
     log_texts h xs \<union> {json_stringify (encodeRecord r), computeMerkleRoot h xs @ entry_hash h r}"
  by (cases xs) (auto simp: log_texts_def computeMerkleRoot_def chain_texts_snoc)

text \<open>Three shapes of hashed text: the marker of the empty log, a record, and two digests.\<close>

lemma record_text_head: "\<exists>t. json_stringify (encodeRecord r) = CHR ''{'' # t"
  by (simp add: encodeRecord_def)

lemma hex_hash_digits: "hex_hash h \<Longrightarrow> list_all hex_digit_ci (h s) \<and> length (h s) = 64"
  by (simp add: hex_hash_def isHexDigest_def)

lemma not_hex_literals [simp]: "\<not> hex_digit_ci CHR ''{''" "\<not> hex_digit_ci CHR ''M''"
  by (simp_all add: hex_digit_ci_def)

lemma hex_text_shapes:
  assumes "hex_hash h"
  shows "h s @ t \<noteq> ''EMPTY''" "h s @ t \<noteq> json_stringify (encodeRecord r)" "''EMPTY'' \<noteq> json_stringify (encodeRecord r)"
proof -
  obtain c where c: "h s = c" "list_all hex_digit_ci c" "length c = 64" using hex_hash_digits [OF assms, of s] by blast
  show "h s @ t \<noteq> ''EMPTY''"
  proof
    assume "h s @ t = ''EMPTY''"
    then have "length (h s @ t) = 5" by simp
    then show False using c by simp
  qed
  obtain u where u: "json_stringify (encodeRecord r) = CHR ''{'' # u" using record_text_head by blast
  show "h s @ t \<noteq> json_stringify (encodeRecord r)"
    using c by (cases c) (auto simp: u)
  show "''EMPTY'' \<noteq> json_stringify (encodeRecord r)" by (simp add: u)
qed

text \<open>The text whose hash is the chain hash.\<close>

definition last_text :: "hashfn \<Rightarrow> EscrowRecord list \<Rightarrow> string" where
  "last_text h xs =
     (if xs = [] then ''EMPTY''
      else if butlast xs = [] then json_stringify (encodeRecord (last xs))
      else computeMerkleRoot h (butlast xs) @ entry_hash h (last xs))"

lemma last_text_simps [simp]:
  "last_text h [] = ''EMPTY''" "last_text h [r] = json_stringify (encodeRecord r)"
  "xs \<noteq> [] \<Longrightarrow> last_text h (xs @ [r]) = computeMerkleRoot h xs @ entry_hash h r"
  by (simp_all add: last_text_def)

lemma root_of_last_text: "computeMerkleRoot h xs = h (last_text h xs)"
proof (cases xs rule: rev_cases)
  case Nil
  then show ?thesis by (simp add: computeMerkleRoot_def)
next
  case (snoc ys y)
  then show ?thesis
    by (cases "ys = []") (simp_all add: root_snoc, simp add: computeMerkleRoot_def entry_hash_def)
qed

lemma last_text_hashed: "last_text h xs \<in> log_texts h xs"
proof (cases xs rule: rev_cases)
  case (snoc ys y)
  then show ?thesis by (cases "ys = []") (simp_all add: log_texts_snoc, simp add: log_texts_def)
qed (simp add: log_texts_def)

lemma last_text_cases:
  obtains (empty) "xs = []" "last_text h xs = ''EMPTY''"
    | (one) r where "xs = [r]" "last_text h xs = json_stringify (encodeRecord r)"
    | (more) ys r where "xs = ys @ [r]" "ys \<noteq> []" "last_text h xs = h (last_text h ys) @ h (json_stringify (encodeRecord r))"
proof (cases xs rule: rev_cases)
  case Nil
  then show thesis by (intro empty) simp_all
next
  case (snoc ys r)
  show thesis
  proof (cases "ys = []")
    case True
    with snoc show thesis by (intro one [of r]) simp_all
  next
    case False
    with snoc show thesis
      by (intro more [of ys r]) (simp_all add: root_of_last_text [symmetric] entry_hash_def)
  qed
qed

lemma digests_split:
  assumes "hex_hash h" "h a @ h b = h c @ h d"
  shows "h a = h c \<and> h b = h d"
  using assms(2) hex_hash_digits [OF assms(1)] by simp

lemma same_chain_hash:
  assumes "hex_hash h" "computeMerkleRoot h xs = computeMerkleRoot h ys" "inj_on h (log_texts h xs \<union> log_texts h ys)"
  shows "xs = ys"
  using assms(2,3)
proof (induction "length xs" arbitrary: xs ys rule: less_induct)
  note shapes = hex_text_shapes [OF assms(1)] hex_text_shapes [OF assms(1), symmetric]
  case less
  have texts: "last_text h xs = last_text h ys"
    using less.prems last_text_hashed [of h xs] last_text_hashed [of h ys]
    unfolding root_of_last_text by (auto dest: inj_onD)
  show ?case
  proof (cases rule: last_text_cases [of xs h])
    case empty
    then show ?thesis using texts by (cases rule: last_text_cases [of ys h]) (simp_all add: shapes)
  next
    case (one r)
    then show ?thesis using texts by (cases rule: last_text_cases [of ys h]) (simp_all add: shapes)
  next
    case (more xs' r)
    show ?thesis
    proof (cases rule: last_text_cases [of ys h])
      case empty
      then show ?thesis using more texts by (simp add: shapes)
    next
      case (one s)
      then show ?thesis using more texts by (simp add: shapes)
    next
      case m: (more ys' s)
      then have eq: "h (last_text h xs') = h (last_text h ys')"
        "h (json_stringify (encodeRecord r)) = h (json_stringify (encodeRecord s))"
        using more texts digests_split [OF assms(1)] by auto
      have sub: "log_texts h xs' \<union> log_texts h ys' \<subseteq> log_texts h xs \<union> log_texts h ys"
        "json_stringify (encodeRecord r) \<in> log_texts h xs" "json_stringify (encodeRecord s) \<in> log_texts h ys"
        using more m by (auto simp: log_texts_snoc)
      have "xs' = ys'"
      proof (rule less.hyps)
        show "length xs' < length xs" using more by simp
        show "computeMerkleRoot h xs' = computeMerkleRoot h ys'" using eq(1) by (simp only: root_of_last_text)
        show "inj_on h (log_texts h xs' \<union> log_texts h ys')" by (rule inj_on_subset [OF less.prems(2) sub(1)])
      qed
      moreover have "json_stringify (encodeRecord r) = json_stringify (encodeRecord s)"
        using eq(2) sub(2,3) less.prems(2) by (auto dest: inj_onD)
      ultimately show ?thesis using more m by simp
    qed
  qed
qed

text \<open>
  C26. The chain hash under which a snapshot or a block is exchanged determines the whole log: as long as the hash
  is free of collisions on the texts that are hashed on the way, two logs with the same chain hash
  have the same records in the same order, whatever their lengths.\<close>

theorem chain_hash_binds_log:
  assumes "hex_hash h" "inj_on h (log_texts h xs \<union> log_texts h ys)"
  shows "computeMerkleRoot h xs = computeMerkleRoot h ys \<longleftrightarrow> xs = ys"
  using same_chain_hash [OF assms(1) _ assms(2)] by blast

section \<open>Signed texts\<close>

definition recovery_json :: "recovery_payload \<Rightarrow> jsval" where
  "recovery_json p = JObj
     [(''requestId'', JStr (requestId p)), (''action'', JStr (rp_action p)), (''expiresAt'', JStr (expiresAt p))]"

lemma recovery_message: "recoveryMessageToVerify h p = h (''ADMIN_RECOVERY|'' @ stableStringify (recovery_json p))"
  using canonicalize_stable [of "recovery_json p"] by (simp add: recoveryMessageToVerify_def recovery_json_def)

lemma recovery_json_plain [simp]: "json_plain (recovery_json p)" "json_plain (assertion_json a)"
  by (auto simp: recovery_json_def assertion_json_def split: option.split)

lemma same_canonical_text:
  "json_plain v \<Longrightarrow> json_plain w \<Longrightarrow> stableStringify v = stableStringify w \<longleftrightarrow> canonical_value v = canonical_value w"
  using parse_stableStringify [of v] parse_stableStringify [of w] stableStringify_canonical by (metis option.inject)

lemma canonical_recovery:
  "canonical_value (recovery_json p) = canonical_value (recovery_json q) \<longleftrightarrow>
     requestId p = requestId q \<and> rp_action p = rp_action q \<and> expiresAt p = expiresAt q"
proof -
  have "canonical_value (recovery_json p) = JObj
      [(''action'', JStr (rp_action p)), (''expiresAt'', JStr (expiresAt p)), (''requestId'', JStr (requestId p))]" for p
    by (simp add: recovery_json_def)
  then show ?thesis by auto
qed

lemma canonical_assertion:
  "canonical_value (assertion_json a) = canonical_value (assertion_json b) \<longleftrightarrow>
     ta_nodeId a = ta_nodeId b \<and> ta_assertedAtMs a = ta_assertedAtMs b \<and> ta_pcr0Hash a = ta_pcr0Hash b
     \<and> ta_validUntilMs a = ta_validUntilMs b"
proof -
  have "canonical_value (assertion_json a) = JObj
      [(''assertedAtMs'', JNum (ta_assertedAtMs a)), (''nodeId'', JStr (ta_nodeId a)), (''pcr0Hash'', JStr (ta_pcr0Hash a)),
       (''validUntilMs'', case ta_validUntilMs a of None \<Rightarrow> JNull | Some v \<Rightarrow> JNum v)]" for a
    by (simp add: assertion_json_def split: option.split)
  then show ?thesis by (auto split: option.splits)
qed

lemma signed_texts_identify_facts:
  "inj_on h {''ADMIN_RECOVERY|'' @ stableStringify (recovery_json p), ''ADMIN_RECOVERY|'' @ stableStringify (recovery_json q)} \<Longrightarrow>
     recoveryMessageToVerify h p = recoveryMessageToVerify h q \<longleftrightarrow>
       requestId p = requestId q \<and> rp_action p = rp_action q \<and> expiresAt p = expiresAt q"
  "inj_on h {stableStringify (assertion_json a), stableStringify (assertion_json b)} \<Longrightarrow>
     verifySignatureMock h a \<Longrightarrow> verifySignatureMock h b \<Longrightarrow> ta_signature a = ta_signature b \<Longrightarrow>
       ta_nodeId a = ta_nodeId b \<and> ta_assertedAtMs a = ta_assertedAtMs b \<and> ta_pcr0Hash a = ta_pcr0Hash b
       \<and> ta_validUntilMs a = ta_validUntilMs b"
  "json_plain (we_data v) \<Longrightarrow>
     json_parse (event_json v) = Some (JObj [(''id'', JStr (we_id v)), (''type'', JStr (we_type v)), (''data'', we_data v)])"
  "json_plain body \<Longrightarrow> json_plain body' \<Longrightarrow>
     stableSerialize body = stableSerialize body' \<longleftrightarrow> canonical_value body = canonical_value body'"
proof -
  show "inj_on h {''ADMIN_RECOVERY|'' @ stableStringify (recovery_json p), ''ADMIN_RECOVERY|'' @ stableStringify (recovery_json q)} \<Longrightarrow>
     recoveryMessageToVerify h p = recoveryMessageToVerify h q \<longleftrightarrow>
       requestId p = requestId q \<and> rp_action p = rp_action q \<and> expiresAt p = expiresAt q"
    unfolding recovery_message canonical_recovery [symmetric]
    using same_canonical_text [of "recovery_json p" "recovery_json q"]
    by (auto simp del: stableStringify.simps dest: inj_onD)
  show "inj_on h {stableStringify (assertion_json a), stableStringify (assertion_json b)} \<Longrightarrow>
     verifySignatureMock h a \<Longrightarrow> verifySignatureMock h b \<Longrightarrow> ta_signature a = ta_signature b \<Longrightarrow>
       ta_nodeId a = ta_nodeId b \<and> ta_assertedAtMs a = ta_assertedAtMs b \<and> ta_pcr0Hash a = ta_pcr0Hash b
       \<and> ta_validUntilMs a = ta_validUntilMs b"
    unfolding canonical_assertion [symmetric] verifySignatureMock_def
    using same_canonical_text [of "assertion_json a" "assertion_json b"]
    by (auto simp: canonicalize_stable simp del: stableStringify.simps dest: inj_onD)
  show "json_plain (we_data v) \<Longrightarrow>
     json_parse (event_json v) = Some (JObj [(''id'', JStr (we_id v)), (''type'', JStr (we_type v)), (''data'', we_data v)])"
    unfolding event_json_def by (rule parse_json_stringify) simp
  show "json_plain body \<Longrightarrow> json_plain body' \<Longrightarrow>
     stableSerialize body = stableSerialize body' \<longleftrightarrow> canonical_value body = canonical_value body'"
    by (simp add: stableSerialize_stable same_canonical_text)
qed


section \<open>Concrete instances\<close>

text \<open>A hash that tells the two sample records and everything else apart.\<close>

definition two_record_hash :: hashfn where
  "two_record_hash s =
     (if s = json_stringify (encodeRecord sample_saved) then replicate 64 CHR ''a''
      else if s = json_stringify (encodeRecord (sample_saved\<lparr>transactionId := ''tx2''\<rparr>)) then replicate 64 CHR ''b''
      else replicate 64 CHR ''c'')"

lemma two_record_hash_hex: "hex_hash two_record_hash"
  by (simp add: hex_hash_def two_record_hash_def isHexDigest_def hex_digit_ci_def list_all_iff del: json_stringify.simps)

lemma chain_hash_binds_log_witness:
  "computeMerkleRoot two_record_hash [sample_saved] \<noteq>
     computeMerkleRoot two_record_hash [sample_saved, sample_saved\<lparr>transactionId := ''tx2''\<rparr>]"
proof -
  let ?h = two_record_hash and ?r = sample_saved and ?s = "sample_saved\<lparr>transactionId := ''tx2''\<rparr>"
  let ?j = "json_stringify (encodeRecord ?r)" and ?k = "json_stringify (encodeRecord ?s)"
  have texts: "log_texts ?h [?r] \<union> log_texts ?h [?r, ?s] = {?j, ?k, ?h ?j @ ?h ?k}"
    by (auto simp: log_texts_def entry_hash_def simp del: json_stringify.simps)
  have ne: "?r \<noteq> ?s" by (simp add: sample_saved_def)
  then have apart: "?j \<noteq> ?k" by simp
  note shapes = hex_text_shapes(2) [OF two_record_hash_hex]
  have "?h ?j = replicate 64 CHR ''a''" "?h ?k = replicate 64 CHR ''b''"
    using apart by (simp_all add: two_record_hash_def del: json_stringify.simps record_text_inj)
  moreover have "?h (?h ?j @ ?h ?k) = replicate 64 CHR ''c''"
    using shapes by (simp add: two_record_hash_def [of "?h ?j @ ?h ?k"] del: json_stringify.simps)
  ultimately have "inj_on ?h {?j, ?k, ?h ?j @ ?h ?k}"
    by (simp add: inj_on_def numeral_eq_Suc del: json_stringify.simps record_text_inj)
  then show ?thesis
    using chain_hash_binds_log [OF two_record_hash_hex, of "[?r]" "[?r, ?s]"] by (simp add: texts)
qed

definition sample_event :: webhook_event where
  "sample_event = \<lparr>we_id = ''e1'', we_type = ''payment'', we_data = JObj [(''amount'', JNum 5)]\<rparr>"


end
