(* ===== verification/Tenancy.thy ===== *)
theory Tenancy
  imports Access
begin

text \<open>
  The database seed \<^verbatim>\<open>prisma/seed.ts\<close>, which installs a tenant with a fixed key, run against the key
  check of the application. The status of a tenant is not kept here: the seed sets it to active and
  the key checks do not read it.
\<close>

definition seed_id :: string where
  "seed_id = ''test-tenant-id''"

definition seed_key :: string where
  "seed_key = ''securerise_test_key''"

definition seed_tenant :: "hashfn \<Rightarrow> tenant" where
  "seed_tenant h =
     \<lparr>tn_id = seed_id, tn_name = ''Test Merchant'', tn_hashedApiKey = h seed_key,
      tn_webhookSecret = ''securerise_test_webhook_secret''\<rparr>"

definition reseeded :: "hashfn \<Rightarrow> tenant \<Rightarrow> tenant" where
  "reseeded h t =
     (if tn_id t = seed_id then t\<lparr>tn_name := ''Test Merchant'', tn_hashedApiKey := h seed_key\<rparr> else t)"

text \<open>The upsert by id; the hashed key is a unique column.\<close>

definition seed_main :: "hashfn \<Rightarrow> tenant list \<Rightarrow> tenant list \<times> unit js_result" where
  "seed_main h ts =
     (if list_ex (\<lambda>t. tn_id t \<noteq> seed_id \<and> tn_hashedApiKey t = h seed_key) ts
      then (ts, Inl (JsError ''Unique constraint failed on the fields: (`hashedApiKey`)''))
      else if list_ex (\<lambda>t. tn_id t = seed_id) ts
      then (map (reseeded h) ts, Inr ())
      else (ts @ [seed_tenant h], Inr ()))"

lemma reseeded_simps [simp]:
  "tn_id (reseeded h t) = tn_id t" "tn_id t \<noteq> seed_id \<Longrightarrow> reseeded h t = t"
  "tn_id t = seed_id \<Longrightarrow> tn_hashedApiKey (reseeded h t) = h seed_key"
  "reseeded h (reseeded h t) = reseeded h t" "reseeded h (seed_tenant h) = seed_tenant h"
  by (simp_all add: reseeded_def seed_tenant_def)

lemma seed_tenant_simps [simp]: "tn_id (seed_tenant h) = seed_id" "tn_hashedApiKey (seed_tenant h) = h seed_key"
  by (simp_all add: seed_tenant_def)

lemma seed_cases:
  assumes "seed_main h ts = (ts', Inr u)"
  obtains (update) "\<And>t. t \<in> set ts \<Longrightarrow> tn_hashedApiKey t = h seed_key \<Longrightarrow> tn_id t = seed_id"
      "seed_id \<in> tn_id ` set ts" "ts' = map (reseeded h) ts"
    | (create) "\<And>t. t \<in> set ts \<Longrightarrow> tn_hashedApiKey t \<noteq> h seed_key"
      "seed_id \<notin> tn_id ` set ts" "ts' = ts @ [seed_tenant h]"
proof -
  have fresh: "\<not> list_ex (\<lambda>t. tn_id t \<noteq> seed_id \<and> tn_hashedApiKey t = h seed_key) ts"
    using assms by (auto simp: seed_main_def split: if_splits)
  show thesis
  proof (cases "list_ex (\<lambda>t. tn_id t = seed_id) ts")
    case True
    then have "ts' = map (reseeded h) ts" using assms fresh by (simp add: seed_main_def)
    moreover have "seed_id \<in> tn_id ` set ts" using True by (force simp: list_ex_iff)
    ultimately show thesis using fresh by (intro update) (auto simp: list_ex_iff)
  next
    case False
    then have "ts' = ts @ [seed_tenant h]" using assms fresh by (simp add: seed_main_def)
    moreover have "seed_id \<notin> tn_id ` set ts" using False by (auto simp: list_ex_iff)
    ultimately show thesis using fresh False by (intro create) (auto simp: list_ex_iff)
  qed
qed

lemma find_unique:
  assumes "t \<in> set ts" "P t" "\<And>u. u \<in> set ts \<Longrightarrow> P u \<Longrightarrow> u = t"
  shows "find P ts = Some t"
proof (cases "find P ts")
  case None
  then show ?thesis using assms(1,2) by (simp add: find_None_iff)
next
  case (Some u)
  then show ?thesis using assms(3) [of u] find_Some_mem [of P ts u] by simp
qed

lemma seed_ids: "seed_main h ts = (ts', Inr u) \<Longrightarrow>
   map tn_id ts' = (if seed_id \<in> tn_id ` set ts then map tn_id ts else map tn_id ts @ [seed_id])"
proof (erule seed_cases)
  assume a: "seed_id \<in> tn_id ` set ts" "ts' = map (reseeded h) ts"
  have "map tn_id (map (reseeded h) ts) = map tn_id ts" by (induction ts) simp_all
  then show ?thesis by (simp only: a if_True)
next
  assume a: "seed_id \<notin> tn_id ` set ts" "ts' = ts @ [seed_tenant h]"
  then show ?thesis by (simp only: a if_False map_append list.map seed_tenant_simps)
qed

lemma seeded_row:
  assumes "seed_main h ts = (ts', Inr u)"
  shows "\<exists>t \<in> set ts'. tn_id t = seed_id \<and> tn_hashedApiKey t = h seed_key"
    and "t \<in> set ts' \<Longrightarrow> tn_hashedApiKey t = h seed_key \<longleftrightarrow> tn_id t = seed_id"
    and "t \<in> set ts' \<Longrightarrow> reseeded h t = t"
    and "t \<in> set ts' \<Longrightarrow> tn_id t \<noteq> seed_id \<Longrightarrow> t \<in> set ts"
    and "t \<in> set ts \<Longrightarrow> tn_id t \<noteq> seed_id \<Longrightarrow> t \<in> set ts'"
proof -
  have "(\<exists>t \<in> set ts'. tn_id t = seed_id \<and> tn_hashedApiKey t = h seed_key)
    \<and> (\<forall>t \<in> set ts'. (tn_hashedApiKey t = h seed_key \<longleftrightarrow> tn_id t = seed_id) \<and> reseeded h t = t
         \<and> (tn_id t \<noteq> seed_id \<longrightarrow> t \<in> set ts))
    \<and> (\<forall>t \<in> set ts. tn_id t \<noteq> seed_id \<longrightarrow> t \<in> set ts')"
  proof (cases rule: seed_cases [OF assms])
    case 1
    have key: "tn_hashedApiKey (reseeded h t) = h seed_key \<longleftrightarrow> tn_id t = seed_id" if "t \<in> set ts" for t
      using 1(1) [OF that] by (cases "tn_id t = seed_id") auto
    obtain t where t: "t \<in> set ts" "tn_id t = seed_id" using 1(2) by auto
    then have "reseeded h t \<in> set ts'" "tn_id (reseeded h t) = seed_id" "tn_hashedApiKey (reseeded h t) = h seed_key"
      by (simp_all add: 1(3))
    moreover have "\<forall>t \<in> set ts. tn_id t \<noteq> seed_id \<longrightarrow> t \<in> reseeded h ` set ts" by force
    moreover have "t \<in> set ts" if "t \<in> reseeded h ` set ts" "tn_id t \<noteq> seed_id" for t
      using that by (auto simp: reseeded_def split: if_splits)
    moreover have "tn_hashedApiKey t = h seed_key \<longleftrightarrow> tn_id t = seed_id" "reseeded h t = t"
      if "t \<in> reseeded h ` set ts" for t
      using that key by auto
    ultimately show ?thesis unfolding 1(3) set_map by blast
  next
    case 2
    have "reseeded h t = t" if "t \<in> set ts'" for t
      using that 2(3) by (cases "tn_id t = seed_id") (use 2(2) in force)+
    then show ?thesis using 2 by force
  qed
  then show "\<exists>t \<in> set ts'. tn_id t = seed_id \<and> tn_hashedApiKey t = h seed_key"
    and "t \<in> set ts' \<Longrightarrow> tn_hashedApiKey t = h seed_key \<longleftrightarrow> tn_id t = seed_id"
    and "t \<in> set ts' \<Longrightarrow> reseeded h t = t"
    and "t \<in> set ts' \<Longrightarrow> tn_id t \<noteq> seed_id \<Longrightarrow> t \<in> set ts"
    and "t \<in> set ts \<Longrightarrow> tn_id t \<noteq> seed_id \<Longrightarrow> t \<in> set ts'"
    by blast+
qed

lemma seed_keeps_keys_unique:
  assumes "tenant_ok ts" "seed_main h ts = (ts', Inr u)"
  shows "tenant_ok ts'"
proof -
  have ids: "distinct (map tn_id ts')"
    using assms seed_ids [OF assms(2)] by (auto simp: tenant_ok_def)
  have "inj_on tn_hashedApiKey (set ts')"
  proof (rule inj_onI)
    fix s t
    assume st: "s \<in> set ts'" "t \<in> set ts'" "tn_hashedApiKey s = tn_hashedApiKey t"
    show "s = t"
    proof (cases "tn_id s = seed_id \<or> tn_id t = seed_id")
      case True
      then have "tn_id s = tn_id t" using st seeded_row(2) [OF assms(2)] by metis
      then show ?thesis using ids st by (simp add: distinct_map inj_on_def)
    next
      case False
      then have "s \<in> set ts" "t \<in> set ts"
        using st seeded_row(4) [OF assms(2)] by blast+
      then show ?thesis using st(3) assms(1) by (simp add: tenant_ok_def distinct_map inj_on_def)
    qed
  qed
  moreover have "distinct ts'" using ids by (simp add: distinct_map)
  ultimately show ?thesis using ids by (simp add: tenant_ok_def distinct_map)
qed

text \<open>
  After the seed the fixed key opens the test tenant, and whoever was let in by another key before still is
  as the same tenant, unless that tenant is the test tenant itself, whose old key is gone; seeding
  again changes nothing.
\<close>

theorem seeded_key_opens:
  assumes "tenant_ok ts" "seed_main h ts = (ts', Inr ())"
  shows "tenant_ok ts'"
    and "rq_header rq ''x-api-key'' = Some seed_key \<Longrightarrow> \<exists>t. tenantAuth h rq ts' = Inr t \<and> tn_id t = seed_id"
    and "tenantAuth h rq ts = Inr t \<Longrightarrow> tn_id t \<noteq> seed_id \<Longrightarrow> tenantAuth h rq ts' = Inr t"
    and "seed_main h ts' = (ts', Inr ())"
proof -
  show ok: "tenant_ok ts'" by (rule seed_keeps_keys_unique [OF assms])
  have by_key: "find (\<lambda>t. tn_hashedApiKey t = tn_hashedApiKey s) ts' = Some s" if "s \<in> set ts'" for s
    using that ok by (intro find_unique) (auto simp: tenant_ok_def distinct_map inj_on_def)
  obtain s where s: "s \<in> set ts'" "tn_id s = seed_id" "tn_hashedApiKey s = h seed_key"
    using seeded_row(1) [OF assms(2)] by blast
  show "\<exists>t. tenantAuth h rq ts' = Inr t \<and> tn_id t = seed_id" if "rq_header rq ''x-api-key'' = Some seed_key"
    using that by_key [OF s(1)] s by (simp add: tenantAuth_def findUniqueTenant_def seed_key_def)
  show "tenantAuth h rq ts' = Inr t" if a: "tenantAuth h rq ts = Inr t" "tn_id t \<noteq> seed_id"
  proof -
    obtain key where key: "rq_header rq ''x-api-key'' = Some key" "key \<noteq> []" "find (\<lambda>t. tn_hashedApiKey t = h key) ts = Some t"
      using a(1) by (auto simp: tenantAuth_def findUniqueTenant_def split: option.splits if_splits)
    then have t: "t \<in> set ts" "tn_hashedApiKey t = h key" by (auto dest: find_Some_mem)
    then have "t \<in> set ts'" using seeded_row(5) [OF assms(2)] a(2) by blast
    from by_key [OF this] show ?thesis using key t(2) by (simp add: tenantAuth_def findUniqueTenant_def)
  qed
  have none: "\<not> list_ex (\<lambda>t. tn_id t \<noteq> seed_id \<and> tn_hashedApiKey t = h seed_key) ts'"
    using seeded_row(2) [OF assms(2)] by (auto simp: list_ex_iff)
  have "map (reseeded h) ts' = ts'" using seeded_row(3) [OF assms(2)] by (intro map_idI)
  then show "seed_main h ts' = (ts', Inr ())"
    using none s by (auto simp: seed_main_def list_ex_iff)
qed

lemma seeded_key_opens_witness:
  "\<exists>t. tenantAuth h \<lparr>rq_header = (\<lambda>n. if n = ''x-api-key'' then Some seed_key else None), rq_body = JUndefined, rq_ip = None\<rparr>
     [seed_tenant h] = Inr t \<and> tn_id t = seed_id"
proof -
  have s: "seed_main h [] = ([seed_tenant h], Inr ())" by (simp add: seed_main_def)
  have "tenant_ok []" by (simp add: tenant_ok_def)
  from seeded_key_opens(2) [OF this s] show ?thesis by simp
qed

end
