(* ===== verification/Spec2Isabelle.thy ===== *)
theory Spec2Isabelle
  imports MockNotary Application Outbound Reconciliation Membership TimeAnchor Compactor Rotation Sealing Webhook MpesaAdapter Upgrade Bootstrap Vsock Perimeter StkHandler Storage Inspection GatewayServer Commitments Tenancy
begin

text \<open>
  The Univer escrow core, as a model in HOL.

  The repository holds two programs. The ledger node (\<^verbatim>\<open>src/src\<close>) keeps a file of escrow commitments,
  hashes it into a Merkle tree, anchors the root at a notary, audits the file against that root and freezes itself on a
  mismatch; an express gateway in front of it takes locks, audits, recovery and cluster messages, and a second entry point
  starts the node inside an enclave. The payment backend (\<^verbatim>\<open>src/packages/backend/src\<close>) keeps escrow documents and payout handshakes
  for tenants and moves them at requests, at webhooks of the payment rails and at the word of a vision model. They share no state; the shared
  vocabulary is that of the language.

  Conventions. A class with its fields is a record, its methods are functions that return the changed record; a thrown error is
  the left side of \<^verbatim>\<open>js_result\<close>, with the class and the text the code gives it; a Map is an association list in insertion order
  with the laws of the locale \<^verbatim>\<open>keyed_store\<close>; a value of unknown shape is a \<^verbatim>\<open>jsval\<close>, whose numbers are the
  integers. Scores, rates and amounts with fractions are exact rationals, so rounding of floating-point numbers is outside the model. Time, random
  numbers, the success of disk writes, the environment and the answers of every network are arguments. Code that is not in the
  repository (SHA-256, HMAC, RSA, HKDF and AES, Number on texts, the vision model, the keychain, the
  rails) is a parameter, and what a theorem needs of it is a hypothesis of that theorem: a hash gives 64 hexadecimal digits (\<^verbatim>\<open>hex_hash\<close>), is
  free of collisions on the finitely many texts at hand, decryption undoes encryption. Each such theorem has an instance on
  concrete values beside it.

  The foundations. Prelude (results, association lists, strings), Json (values, both printers, their injectivity),
  JsonText (\<^verbatim>\<open>JSON.parse\<close> as a reader of text and the indented printer: what is written is read back, what a crash cuts short is not, and
  the canonical text of a value determines it; where a component keeps the parser as a parameter, this reader is an instance of it), Text
  and Bytes (string methods, hexadecimal buffers), Http (requests, answers, handlers, the chaining of middlewares), Crypto
  (\<^verbatim>\<open>CryptoService.ts\<close>, \<^verbatim>\<open>merkle/pqcEngine.ts\<close>, \<^verbatim>\<open>merkle/zkProofEngine.ts\<close>), Quorum (the locale of
  a quorum rule, interpreted on the majority of Raft and the threshold of the BFT engine).

  The ledger node. Merkle and LedgerMerkle are \<^verbatim>\<open>services/merkle\<close>: proofs are complete, openings are binding, the cached accumulator
  agrees with a fresh tree, the stateless verifier accepts what the node proves. Ledger and Auditor are \<^verbatim>\<open>DatabaseService.ts\<close>,
  \<^verbatim>\<open>LedgerAuditor.ts\<close> and \<^verbatim>\<open>AuditLogger.ts\<close>: a tampered ledger freezes the node, an honest save does not. Storage keeps
  the same files as text, written and parsed as the code does: the store refines the one of parsed records, a save survives a crash at any moment
  and a healing does not, and the checkpoint helper (\<^verbatim>\<open>ledgerMerkleCheckpoint.ts\<close>) reads what the auditor writes. Notary is
  \<^verbatim>\<open>NotaryAnchorService.ts\<close>, whose retries are bounded by three as in the code. AdminRecovery is \<^verbatim>\<open>AdminRecoveryService.ts\<close>: the
  officers' threshold counts distinct keys, and healing keeps the longest prefix with the notary's root. Interleaving cuts these
  operations where they wait and lets them run in any order: saves stay serialised, and the audit, the healing and the unfreezing do not
  stay atomic. MockNotary runs the node against \<^verbatim>\<open>scripts/mock-notary-harness.ts\<close> with every message delivered in order: a
  node that has saved once never raises a false alarm, one that has not freezes at its second audit.

  The cluster. Enclave is \<^verbatim>\<open>EnclaveBridgeService.ts\<close> (attestation, readiness, the proxies behind it); Bft, Raft, TimeAnchor, Reconciliation and
  Membership are \<^verbatim>\<open>services/consensus\<close>: what a quorum of shares is, that nothing is committed without one and the committed
  prefix never changes, how far a median of clocks can be moved, that catch-up blocks form a chain, when a member is
  evicted. Compactor is \<^verbatim>\<open>merkle/MerkleCompactor.ts\<close>. Rotation and Sealing are \<^verbatim>\<open>services/cryptography\<close> and
  \<^verbatim>\<open>services/infrastructure\<close>: keys of unspent transactions stay reachable, recovery needs the threshold, sealed state opens only
  under the measurement that sealed it. Commitments says what the hashes and signatures of the system stand for: the chain hash of a snapshot for its
  whole log, the officers' message for one request, a webhook's body for one event. Vsock is \<^verbatim>\<open>infrastructure/VsockBridgeAdapter.ts\<close> as a step relation over sockets and timers.

  The edge of the node. Puzzle (\<^verbatim>\<open>EnclaveClientPuzzleEngine.ts\<close>, \<^verbatim>\<open>AntiDosMiddleware.ts\<close>), Identity (credentials and the
  cross-chain relay), LogShield (redaction of logs, confidential errors; two secrets that get the same token cannot be told apart in a
  log), Perimeter (the integrity and revenue middlewares), Router (\<^verbatim>\<open>EscrowRouter.ts\<close>: every route as the chain of handlers express runs,
  over the state of all services), Gateway (what the mounted routes can and cannot do to the ledger and the enclave), GatewayServer (\<^verbatim>\<open>server.ts\<close>: which
  part of the application a request meets, and the audit timer beside the router), Upgrade (the active sealing context and who may move it), Bootstrap
  (\<^verbatim>\<open>index.ts\<close>: the states of the start-up and the life of the keys), MpesaAdapter (\<^verbatim>\<open>adapters/MpesaAdapter.ts\<close>).

  The backend. Escrow is \<^verbatim>\<open>escrow.service.ts\<close> with its providers and routes: the locale \<^verbatim>\<open>escrow_operation\<close> states what every
  transition promises (a well-formed document stays one, along an allowed move), and its four interpretations are the four operations. Payout
  (handshakes, one-time passwords, releases, settlement), Mpesa and StkHandler (fees, callbacks, the Daraja protocol), Payments
  (transactions and rails), Webhook (receiving and sending, five attempts as in the code), Assurance (the two AI services composed with the payout
  routes), Inspection (the item an inspection asks about, from the creation of a handshake
  through a failed inspection to the next), Outbound (the older webhook sender, tax records, the services of the mobile client), Access (tenant and service keys, the
  escrow table of the older application), Tenancy (\<^verbatim>\<open>prisma/seed.ts\<close> and the key it opens). Backend composes the services as \<^verbatim>\<open>index.ts\<close> mounts them: every request, whatever its route,
  is a step of the escrow life cycle or leaves the escrows alone (the abstract machine is \<^verbatim>\<open>escrow_step\<close>), and a change needs an
  allowed origin and either a webhook or some tenant's key and an integrity hash. Application adds the older application of \<^verbatim>\<open>app.ts\<close>, whose key
  check shuts it, and the handshake router nothing mounts, and concludes that no released handshake is ever paid.

  How the properties are stated. Theorems numbered C1 to C40 are the ones to read first; each stands after a sentence that says
  what it shows, and a theorem with hypotheses is followed, at the end of its theory, by an instance with the suffix \<^verbatim>\<open>_witness\<close>.
  Invariants are proved over the reachable states of a step relation (\<^verbatim>\<open>raft_step\<close>, \<^verbatim>\<open>server_step\<close>, the adapter of Vsock) or over the runs of a list of
  operations (moments of Interleaving, actions of MockNotary). Several theorems state what the code does against its
  intention; the list of findings beside the development names them.

  Bounds and fuel. The loops of the code are bounded by their own constants (three attempts at the notary, five at a
  webhook) or recurse on the data, and are total functions. Only the reader of JSON counts the nesting of its calls: \<^verbatim>\<open>2 * length s + 1\<close> is
  enough for any text \<^verbatim>\<open>s\<close>, since an answer found with any nesting is found with that one (\<^verbatim>\<open>readers_bounded\<close>) and more never changes it
  (\<^verbatim>\<open>read_value_mono\<close>). The proof of work is checked, as the server does, and not searched for.

  Not modelled: the loggers and the stubs of the automation service, which only print their arguments; type declarations and
  re-exports; the React Native screens, which lay out constants; the tests. Preflight requests, the parsing of request bodies
  and express's own error page are left to the framework. JSON text with fractions, exponents or characters beyond Latin-1 is outside the
  reader, as such values are outside the model of values.
\<close>

end
